(* ===== verification/FP_Prelude.thy ===== *)
theory FP_Prelude
  imports Main "HOL-Library.Word" "HOL-Library.Char_ord" "HOL-Library.List_Lexorder"
    "HOL-Library.Sublist"
begin

text \<open>
  Shared vocabulary of the development.

  \<^item> Go data: \<open>bytes\<close> for \<^verbatim>\<open>[]byte\<close> and \<^verbatim>\<open>string\<close> (a Go string is a byte sequence, so
    \<^verbatim>\<open>[]byte(s)\<close> and \<^verbatim>\<open>string(b)\<close> are the identity), \<open>u64\<close> and \<open>u32\<close> for the machine integers,
    whose arithmetic wraps around as Go's does. A nil pointer or nil slice is \<open>None\<close>.
  \<^item> Go errors: \<open>goerror\<close> keeps both views the code uses, the chain walked by \<^verbatim>\<open>errors.Is\<close>
    (\<open>error_is\<close>) and the text searched by \<^verbatim>\<open>strings.Contains(err.Error(), ...)\<close>
    (\<open>error_text\<close>, \<open>contains\<close>).
  \<^item> Go results: \<open>'a go\<close> is a returned value, a returned error, or the end of the process
    (a panic or a call to \<^verbatim>\<open>logger.Fatal\<close>); \<open>('s, 'a) cmd\<close> is a method on a mutable receiver.
  \<^item> The generic lemmas on results, lists and words that the component theories share, in the
    collection \<open>go_simps\<close>.
\<close>

named_theorems go_simps
named_theorems keeps_intros

section \<open>Go data\<close>

type_synonym bytes = "char list"
type_synonym u64 = "64 word"
type_synonym u32 = "32 word"

text \<open>Decimal and hexadecimal formatting, as \<^verbatim>\<open>%d\<close> and \<^verbatim>\<open>hex.EncodeToString\<close> print them.\<close>

fun fmt_nat :: "nat \<Rightarrow> string" where
  "fmt_nat n = (if n < 10 then [char_of (48 + n)] else fmt_nat (n div 10) @ [char_of (48 + n mod 10)])"

declare fmt_nat.simps [simp del]

definition fmt_u64 :: "u64 \<Rightarrow> string" where
  "fmt_u64 h = fmt_nat (unat h)"

definition fmt_int :: "int \<Rightarrow> string" where
  "fmt_int i = (if i < 0 then CHR ''-'' # fmt_nat (nat (- i)) else fmt_nat (nat i))"

definition hex_digit :: "nat \<Rightarrow> char" where
  "hex_digit n = (if n < 10 then char_of (48 + n) else char_of (87 + n))"

definition fmt_hex :: "bytes \<Rightarrow> string" where
  "fmt_hex b = concat (map (\<lambda>c. [hex_digit (of_char c div 16), hex_digit (of_char c mod 16)]) b)"

definition contains :: "string \<Rightarrow> string \<Rightarrow> bool" where
  "contains s sub = sublist sub s"

section \<open>Go errors\<close>

text \<open>The package-level \<^verbatim>\<open>errors.New\<close> values of the repository.\<close>

datatype sentinel =
    ErrCorruptedEOTSDb | ErrDuplicateEOTSKeyName | ErrEOTSKeyNameNotFound
  | ErrSignRecordNotFound | ErrDuplicateSignRecord | ErrDuplicateEOTSKeyRecord
  | ErrFinalityProviderAlreadyExisted | ErrDoubleSign | ErrDuplicateHeight
  | ErrCorruptedFinalityProviderDB | ErrFinalityProviderNotFound | ErrDuplicateFinalityProvider
  | ErrCorruptedPubRandProofDB | ErrPubRandProofNotFound
  | ErrFinalityProviderShutDown | ErrFinalityProviderJailed | ErrFinalityProviderSlashed
  | ErrFailedPrecondition

fun sentinel_text :: "sentinel \<Rightarrow> string" where
  "sentinel_text ErrCorruptedEOTSDb = ''EOTS manager db is corrupted''"
| "sentinel_text ErrDuplicateEOTSKeyName = ''EOTS key name already exists''"
| "sentinel_text ErrEOTSKeyNameNotFound = ''EOTS key name not found''"
| "sentinel_text ErrSignRecordNotFound = ''sign record not found''"
| "sentinel_text ErrDuplicateSignRecord = ''sign record for given height already exists''"
| "sentinel_text ErrDuplicateEOTSKeyRecord = ''EOTS key with the same key name already exists''"
| "sentinel_text ErrFinalityProviderAlreadyExisted = ''the finality provider has already existed''"
| "sentinel_text ErrDoubleSign = ''double sign''"
| "sentinel_text ErrDuplicateHeight = ''duplicate height in batch request''"
| "sentinel_text ErrCorruptedFinalityProviderDB = ''finality provider db is corrupted''"
| "sentinel_text ErrFinalityProviderNotFound = ''finality provider not found''"
| "sentinel_text ErrDuplicateFinalityProvider = ''finality provider already exists''"
| "sentinel_text ErrCorruptedPubRandProofDB = ''public randomness proof db is corrupted''"
| "sentinel_text ErrPubRandProofNotFound = ''public randomness proof not found''"
| "sentinel_text ErrFinalityProviderShutDown = ''the finality provider instance is shutting down''"
| "sentinel_text ErrFinalityProviderJailed = ''the finality provider instance is jailed''"
| "sentinel_text ErrFinalityProviderSlashed = ''the finality provider instance is slashed''"
| "sentinel_text ErrFailedPrecondition = ''FailedPrecondition error''"

datatype grpc_code = FailedPrecondition | PermissionDenied | InvalidArgument | Unauthenticated
  | Internal

fun grpc_code_name :: "grpc_code \<Rightarrow> string" where
  "grpc_code_name FailedPrecondition = ''FailedPrecondition''"
| "grpc_code_name PermissionDenied = ''PermissionDenied''"
| "grpc_code_name InvalidArgument = ''InvalidArgument''"
| "grpc_code_name Unauthenticated = ''Unauthenticated''"
| "grpc_code_name Internal = ''Internal''"

text \<open>
  \<open>ErrText\<close> is an error without a chain (\<^verbatim>\<open>errors.New\<close> or \<^verbatim>\<open>fmt.Errorf\<close> without \<^verbatim>\<open>%w\<close>, and every
  error that arrives from code outside the repository), \<open>Wrapf p e\<close> is
  \<^verbatim>\<open>fmt.Errorf("p%w", e)\<close>, \<open>Wrapfs p e q\<close> is \<^verbatim>\<open>fmt.Errorf("p%wq", e)\<close>, \<open>Wrap2\<close> is \<^verbatim>\<open>fmt.Errorf("%w: %w", a, b)\<close>, \<open>Joined\<close> is
  \<^verbatim>\<open>errors.Join\<close> of two errors and \<open>Expected\<close> is \<^verbatim>\<open>clientcontroller.ExpectedError\<close>.
\<close>

datatype goerror =
    Sentinel sentinel
  | ErrText string
  | StatusErr grpc_code string
  | Wrapf string goerror
  | Wrapfs string goerror string
  | Wrap2 goerror goerror
  | Joined goerror goerror
  | Expected goerror

fun error_text :: "goerror \<Rightarrow> string" where
  "error_text (Sentinel s) = sentinel_text s"
| "error_text (ErrText t) = t"
| "error_text (StatusErr c m) = ''rpc error: code = '' @ grpc_code_name c @ '' desc = '' @ m"
| "error_text (Wrapf p e) = p @ error_text e"
| "error_text (Wrapfs p e q) = p @ error_text e @ q"
| "error_text (Wrap2 a b) = error_text a @ '': '' @ error_text b"
| "error_text (Joined a b) = error_text a @ [CHR 0x0A] @ error_text b"
| "error_text (Expected e) = error_text e"

fun error_is :: "goerror \<Rightarrow> sentinel \<Rightarrow> bool" where
  "error_is (Sentinel s') s = (s' = s)"
| "error_is (ErrText t) s = False"
| "error_is (StatusErr c m) s = False"
| "error_is (Wrapf p e) s = error_is e s"
| "error_is (Wrapfs p e q) s = error_is e s"
| "error_is (Wrap2 a b) s = (error_is a s \<or> error_is b s)"
| "error_is (Joined a b) s = (error_is a s \<or> error_is b s)"
| "error_is (Expected e) s = error_is e s"

section \<open>Go results\<close>

datatype 'a go = Ok 'a | Err goerror | Crash string

fun rbind :: "'a go \<Rightarrow> ('a \<Rightarrow> 'b go) \<Rightarrow> 'b go" where
  "rbind (Ok a) k = k a"
| "rbind (Err e) k = Err e"
| "rbind (Crash c) k = Crash c"

text \<open>\<^verbatim>\<open>if err != nil { return ..., fmt.Errorf("p: %w", err) }\<close>\<close>

fun wrap :: "string \<Rightarrow> 'a go \<Rightarrow> 'a go" where
  "wrap p (Ok a) = Ok a"
| "wrap p (Err e) = Err (Wrapf p e)"
| "wrap p (Crash c) = Crash c"

text \<open>A \<^verbatim>\<open>Must\<close> variant: panic on an error.\<close>

fun must :: "'a go \<Rightarrow> 'a go" where
  "must (Ok a) = Ok a"
| "must (Err e) = Crash (error_text e)"
| "must (Crash c) = Crash c"

text \<open>Reading through a pointer that may be nil.\<close>

fun deref :: "'a option \<Rightarrow> 'a go" where
  "deref None = Crash ''nil pointer dereference''"
| "deref (Some a) = Ok a"

text \<open>A method: it reads and writes its receiver and returns a result; what it wrote stays
  written when it returns an error.\<close>

type_synonym ('s, 'a) cmd = "'s \<Rightarrow> 'a go \<times> 's"

fun scont :: "'a go \<times> 's \<Rightarrow> ('a \<Rightarrow> 's \<Rightarrow> 'b go \<times> 's) \<Rightarrow> 'b go \<times> 's" where
  "scont (Ok a, s) k = k a s"
| "scont (Err e, s) k = (Err e, s)"
| "scont (Crash c, s) k = (Crash c, s)"

definition sbind :: "('s, 'a) cmd \<Rightarrow> ('a \<Rightarrow> ('s, 'b) cmd) \<Rightarrow> ('s, 'b) cmd" where
  "sbind m k s = scont (m s) k"

definition wrapS :: "string \<Rightarrow> ('s, 'a) cmd \<Rightarrow> ('s, 'a) cmd" where
  "wrapS p m s = (let (r, s') = m s in (wrap p r, s'))"

definition liftR :: "'a go \<Rightarrow> ('s, 'a) cmd" where
  "liftR r s = (r, s)"

section \<open>Lemmas on results\<close>

lemma rbind_eq_Ok [go_simps]: "rbind m k = Ok b \<longleftrightarrow> (\<exists>a. m = Ok a \<and> k a = Ok b)"
  by (cases m) auto

lemma rbind_eq_Err: "rbind m k = Err e \<longleftrightarrow> m = Err e \<or> (\<exists>a. m = Ok a \<and> k a = Err e)"
  by (cases m) auto

lemma wrap_eq_Ok [go_simps]: "wrap p m = Ok a \<longleftrightarrow> m = Ok a"
  by (cases m) auto

lemma Ok_eq_wrap [go_simps]: "Ok a = wrap p m \<longleftrightarrow> m = Ok a"
  by (cases m) auto

lemma wrap_eq_Err: "wrap p m = Err e \<longleftrightarrow> (\<exists>e'. m = Err e' \<and> e = Wrapf p e')"
  by (cases m) auto

lemma wrap_eq_Crash [go_simps]: "wrap p m = Crash c \<longleftrightarrow> m = Crash c"
  by (cases m) auto

lemma must_eq_Ok [go_simps]: "must m = Ok a \<longleftrightarrow> m = Ok a"
  by (cases m) auto

lemma must_not_Err [simp]: "must m \<noteq> Err e"
  by (cases m) auto

lemma deref_eq_Ok [go_simps]: "deref p = Ok a \<longleftrightarrow> p = Some a"
  by (cases p) auto

lemma case_option_eq_Ok [go_simps]:
  "(case q of None \<Rightarrow> Err e | Some a \<Rightarrow> f a) = Ok b \<longleftrightarrow> (\<exists>a. q = Some a \<and> f a = Ok b)"
  by (cases q) auto

lemma case_go_eq_Ok [go_simps]:
  "(case q of Ok a \<Rightarrow> f a | Err e \<Rightarrow> Err (g e) | Crash c \<Rightarrow> Crash (h c)) = Ok b \<longleftrightarrow>
    (\<exists>a. q = Ok a \<and> f a = Ok b)"
  by (cases q) auto

lemma scont_eq_Ok [go_simps]:
  "scont p k = (Ok b, t) \<longleftrightarrow> (\<exists>a s. p = (Ok a, s) \<and> k a s = (Ok b, t))"
  by (cases "(p, k)" rule: scont.cases) auto

lemma sbind_eq_Ok [go_simps]:
  "sbind m k s = (Ok b, t) \<longleftrightarrow> (\<exists>a u. m s = (Ok a, u) \<and> k a u = (Ok b, t))"
  by (simp add: sbind_def scont_eq_Ok)

lemma sbindE:
  assumes "sbind m k s = (r, t)"
  obtains (Ok) a u where "m s = (Ok a, u)" "k a u = (r, t)"
    | (stop) r' where "m s = (r', t)" "\<And>a. r' \<noteq> Ok a" "\<And>b. r \<noteq> Ok b"
  using assms by (cases "m s"; cases "fst (m s)") (auto simp: sbind_def)

lemma snd_scont_pure [simp]: "snd (scont (m, s) (\<lambda>a t. (f a, t))) = s"
  by (cases m) auto

lemma wrapS_eq_Ok [go_simps]: "wrapS p m s = (Ok a, t) \<longleftrightarrow> m s = (Ok a, t)"
  by (auto simp: wrapS_def wrap_eq_Ok split: prod.splits)

lemma wrapS_eq: "wrapS p m s = (r, t) \<longleftrightarrow> (\<exists>r'. m s = (r', t) \<and> r = wrap p r')"
  by (auto simp: wrapS_def split: prod.splits)

lemma snd_wrapS [simp]: "snd (wrapS p m s) = snd (m s)"
  by (simp add: wrapS_def split: prod.split)

lemma fst_wrapS [simp]: "fst (wrapS p m s) = wrap p (fst (m s))"
  by (simp add: wrapS_def split: prod.split)

lemma liftR_eq [go_simps]: "liftR r s = (r', t) \<longleftrightarrow> r = r' \<and> t = s"
  by (auto simp: liftR_def)

text \<open>What a method keeps: a component \<open>f\<close> of the receiver it never writes, and an invariant. Both
  pass through sequencing.\<close>

definition keeps :: "('s \<Rightarrow> 'b) \<Rightarrow> ('s, 'a) cmd \<Rightarrow> bool" where
  "keeps f m \<longleftrightarrow> (\<forall>s. f (snd (m s)) = f s)"

definition preserves :: "('s \<Rightarrow> bool) \<Rightarrow> ('s, 'a) cmd \<Rightarrow> bool" where
  "preserves P m \<longleftrightarrow> (\<forall>s. P s \<longrightarrow> P (snd (m s)))"

lemma keepsD: "keeps f m \<Longrightarrow> m s = (r, s') \<Longrightarrow> f s' = f s"
  by (metis keeps_def snd_conv)

lemma preservesD: "preserves P m \<Longrightarrow> m s = (r, s') \<Longrightarrow> P s \<Longrightarrow> P s'"
  by (metis preserves_def snd_conv)

lemma keeps_sbind [keeps_intros]:
  assumes "keeps f m" and "\<And>a. keeps f (k a)"
  shows "keeps f (sbind m k)"
  unfolding keeps_def
proof
  fix s
  obtain r t where "m s = (r, t)" by (cases "m s")
  then show "f (snd (sbind m k s)) = f s"
    using assms by (cases r) (auto simp: sbind_def keeps_def dest: spec [of _ s])
qed

lemma preserves_sbind [keeps_intros]:
  assumes "preserves P m" and "\<And>a. preserves P (k a)"
  shows "preserves P (sbind m k)"
  unfolding preserves_def
proof (intro allI impI)
  fix s assume "P s"
  obtain r t where "m s = (r, t)" by (cases "m s")
  with \<open>P s\<close> show "P (snd (sbind m k s))"
    using assms by (cases r) (auto simp: sbind_def preserves_def dest: spec [of _ s])
qed

lemma keeps_wrapS [keeps_intros]: "keeps f m \<Longrightarrow> keeps f (wrapS p m)"
  by (simp add: keeps_def)

lemma preserves_wrapS [keeps_intros]: "preserves P m \<Longrightarrow> preserves P (wrapS p m)"
  by (simp add: preserves_def)

lemma keeps_liftR [keeps_intros]: "keeps f (liftR r)"
  by (simp add: keeps_def liftR_def)

lemma preserves_liftR [keeps_intros]: "preserves P (liftR r)"
  by (simp add: preserves_def liftR_def)

lemma keeps_case_option [keeps_intros]:
  "keeps f m \<Longrightarrow> (\<And>a. keeps f (k a)) \<Longrightarrow> keeps f (case q of None \<Rightarrow> m | Some a \<Rightarrow> k a)"
  by (cases q) auto

lemma preserves_case_option [keeps_intros]:
  "preserves P m \<Longrightarrow> (\<And>a. preserves P (k a)) \<Longrightarrow> preserves P (case q of None \<Rightarrow> m | Some a \<Rightarrow> k a)"
  by (cases q) auto

lemma keeps_case_prod [keeps_intros]:
  "(\<And>a b. keeps f (k a b)) \<Longrightarrow> keeps f (case p of (a, b) \<Rightarrow> k a b)"
  by (cases p) auto

lemma preserves_case_prod [keeps_intros]:
  "(\<And>a b. preserves P (k a b)) \<Longrightarrow> preserves P (case p of (a, b) \<Rightarrow> k a b)"
  by (cases p) auto

lemma keeps_case_go [keeps_intros]:
  "(\<And>a. keeps f (k a)) \<Longrightarrow> (\<And>e. keeps f (m e)) \<Longrightarrow> (\<And>c. keeps f (n c)) \<Longrightarrow>
    keeps f (case q of Ok a \<Rightarrow> k a | Err e \<Rightarrow> m e | Crash c \<Rightarrow> n c)"
  by (cases q) auto

lemma preserves_case_go [keeps_intros]:
  "(\<And>a. preserves P (k a)) \<Longrightarrow> (\<And>e. preserves P (m e)) \<Longrightarrow> (\<And>c. preserves P (n c)) \<Longrightarrow>
    preserves P (case q of Ok a \<Rightarrow> k a | Err e \<Rightarrow> m e | Crash c \<Rightarrow> n c)"
  by (cases q) auto

lemma keeps_if [keeps_intros]: "keeps f m \<Longrightarrow> keeps f m' \<Longrightarrow> keeps f (if b then m else m')"
  by simp

lemma preserves_if [keeps_intros]:
  "preserves P m \<Longrightarrow> preserves P m' \<Longrightarrow> preserves P (if b then m else m')"
  by simp

lemma keeps_guard: "keeps f m \<Longrightarrow> keeps f (\<lambda>s. if c s then (r, s) else m s)"
  by (simp add: keeps_def)

lemma preserves_guard: "preserves P m \<Longrightarrow> preserves P (\<lambda>s. if c s then (r, s) else m s)"
  by (simp add: preserves_def)

lemma keeps_preserves: "keeps f m \<Longrightarrow> preserves (\<lambda>s. P (f s)) m"
  by (simp add: keeps_def preserves_def)

section \<open>Traces\<close>

text \<open>The events of a sequence of steps, oldest first.\<close>

inductive trace :: "('s \<Rightarrow> 'e list \<Rightarrow> 's \<Rightarrow> bool) \<Rightarrow> 's \<Rightarrow> 'e list \<Rightarrow> 's \<Rightarrow> bool"
  for step :: "'s \<Rightarrow> 'e list \<Rightarrow> 's \<Rightarrow> bool" where
  trace_nil: "trace step s [] s"
| trace_snoc: "trace step s es t \<Longrightarrow> step t fs u \<Longrightarrow> trace step s (es @ fs) u"

text \<open>A system that records what it emits in a table, and never overwrites or removes the entries of
  the protected keys, cannot emit two different values for a protected key.\<close>

locale ledger =
  fixes look :: "'s \<Rightarrow> 'k \<Rightarrow> 'v option"
    and inv :: "'s \<Rightarrow> bool"
    and step :: "'s \<Rightarrow> ('k \<times> 'v) list \<Rightarrow> 's \<Rightarrow> bool"
    and protected :: "'k \<Rightarrow> bool"
  assumes step_inv: "step s es t \<Longrightarrow> inv s \<Longrightarrow> inv t"
    and step_keeps: "step s es t \<Longrightarrow> inv s \<Longrightarrow> protected k \<Longrightarrow> look s k = Some v \<Longrightarrow> look t k = Some v"
    and step_recorded: "step s es t \<Longrightarrow> inv s \<Longrightarrow> protected k \<Longrightarrow> (k, v) \<in> set es \<Longrightarrow> look t k = Some v"
begin

lemma trace_inv: "trace step s es t \<Longrightarrow> inv s \<Longrightarrow> inv t"
  by (induction rule: trace.induct) (auto intro: step_inv)

lemma trace_keeps:
  "trace step s es t \<Longrightarrow> inv s \<Longrightarrow> protected k \<Longrightarrow> look s k = Some v \<Longrightarrow> look t k = Some v"
  by (induction rule: trace.induct) (auto intro: step_keeps trace_inv)

lemma trace_recorded:
  "trace step s es t \<Longrightarrow> inv s \<Longrightarrow> protected k \<Longrightarrow> (k, v) \<in> set es \<Longrightarrow> look t k = Some v"
proof (induction rule: trace.induct)
  case (trace_snoc s es t fs u)
  then have "inv t" by (blast intro: trace_inv)
  with trace_snoc show ?case by (auto intro: step_keeps step_recorded)
qed simp

lemma no_equivocation:
  "trace step s es t \<Longrightarrow> inv s \<Longrightarrow> protected k \<Longrightarrow> (k, v) \<in> set es \<Longrightarrow> (k, w) \<in> set es \<Longrightarrow> v = w"
  by (metis trace_recorded option.inject)

text \<open>What was recorded before the trace began is respected too.\<close>

lemma agrees_with_initial:
  "trace step s es t \<Longrightarrow> inv s \<Longrightarrow> protected k \<Longrightarrow> look s k = Some v \<Longrightarrow> (k, w) \<in> set es \<Longrightarrow> v = w"
  by (metis trace_recorded trace_keeps option.inject)

end

section \<open>Lemmas on lists and words\<close>

lemma append_eq_append_tail:
  "length b = length d \<Longrightarrow> a @ b = c @ d \<longleftrightarrow> a = c \<and> b = d"
  by auto

lemma all_less_Suc_split: "(\<forall>k < Suc n. P k) \<longleftrightarrow> P 0 \<and> (\<forall>k < n. P (Suc k))"
  using less_Suc_eq_0_disj by auto

lemma ex_less_Suc_split: "(\<exists>k < Suc n. P k) \<longleftrightarrow> P 0 \<or> (\<exists>k < n. P (Suc k))"
  using less_Suc_eq_0_disj by auto

lemma map_leD: "m \<subseteq>\<^sub>m m' \<Longrightarrow> m k = Some v \<Longrightarrow> m' k = Some v"
  by (auto simp: map_le_def dom_def)

lemma subseq_subset: "subseq xs ys \<Longrightarrow> set xs \<subseteq> set ys"
  by (auto dest: list_emb_set)

lemma distinct_map_nth_eq:
  "distinct (map f xs) \<Longrightarrow> x \<in> set xs \<Longrightarrow> y \<in> set xs \<Longrightarrow> f x = f y \<Longrightarrow> x = y"
  by (auto simp: distinct_map inj_on_def)

lemma map_upd_add: "n k = None \<Longrightarrow> m(k \<mapsto> v) ++ n = m ++ n(k \<mapsto> v)"
  by (auto simp: fun_eq_iff map_add_def split: option.splits)

lemma word_not_less_iff: "\<not> (a :: 'a::len word) < b \<longleftrightarrow> b \<le> a"
  by (simp add: not_less)

lemma unat_add_no_wrap:
  "unat (a :: u64) + unat b < 2 ^ 64 \<Longrightarrow> unat (a + b) = unat a + unat b"
  by (simp add: unat_word_ariths)

lemma word_less_add_1: "(a :: 'a :: len word) \<noteq> - 1 \<Longrightarrow> b \<le> a \<Longrightarrow> b < a + 1"
proof -
  assume "a \<noteq> - 1" and "b \<le> a"
  have "a + 1 \<noteq> 0" using \<open>a \<noteq> - 1\<close> by (metis add_eq_0_iff2)
  with \<open>b \<le> a\<close> show "b < a + 1" by unat_arith
qed

lemma u64_less_Suc: "(a :: u64) < b \<Longrightarrow> a < a + 1"
  by unat_arith

lemma word_unat_Suc: "(a :: 'a :: len word) < b \<Longrightarrow> unat (a + 1) = Suc (unat a)"
  by unat_arith

end
