(* ===== verification/Big_Endian.thy ===== *)
theory Big_Endian
  imports FP_Prelude
begin

text \<open>
  The eight-byte height encoding. Record keys, signed messages and hashes are built with
  \<^verbatim>\<open>sdk.Uint64ToBigEndian\<close> and read back with \<^verbatim>\<open>sdk.BigEndianToUint64\<close>, which belong to the
  cosmos SDK: the definitions of the other theories take the two functions as arguments, and the
  locale \<open>be_codec\<close> states what is documented of them (eight bytes, a round trip, and byte order
  equal to numeric order). \<open>be64\<close> and \<open>be64_inv\<close> are the big-endian encoding itself; the
  interpretation shows that it satisfies the contract, and the closed examples of the other
  theories run on it.
\<close>

section \<open>The contract\<close>

locale be_codec =
  fixes enc :: "u64 \<Rightarrow> bytes" and dec :: "bytes \<Rightarrow> u64"
  assumes length_enc [simp]: "length (enc h) = 8"
    and dec_enc [simp]: "dec (enc h) = h"
    and enc_mono: "h < h' \<Longrightarrow> enc h < enc h'"
begin

lemma enc_inject [simp]: "enc h = enc h' \<longleftrightarrow> h = h'"
  using dec_enc by metis

lemma enc_not_Nil [simp]: "enc h \<noteq> []"
  by (metis length_enc list.size(3) zero_neq_numeral)

lemma enc_less_iff [simp]: "enc h < enc h' \<longleftrightarrow> h < h'"
  using enc_mono [of h h'] enc_mono [of h' h] by (metis not_less_iff_gr_or_eq)

text \<open>A key that ends in an encoded height determines the height and what comes before it.\<close>

lemma suffix_inject: "p @ enc h = q @ enc h' \<longleftrightarrow> p = q \<and> h = h'"
  by (simp add: append_eq_append_tail)

lemma drop_suffix: "drop (length (p @ enc h) - 8) (p @ enc h) = enc h"
  by simp

end

section \<open>Big-endian encoding\<close>

fun be_digits :: "nat \<Rightarrow> nat \<Rightarrow> char list" where
  "be_digits 0 n = []"
| "be_digits (Suc k) n = char_of (n div 256 ^ k mod 256) # be_digits k n"

fun be_value :: "char list \<Rightarrow> nat \<Rightarrow> nat" where
  "be_value [] acc = acc"
| "be_value (c # cs) acc = be_value cs (256 * acc + of_char c)"

definition be64 :: "u64 \<Rightarrow> bytes" where
  "be64 h = be_digits 8 (unat h)"

definition be64_inv :: "bytes \<Rightarrow> u64" where
  "be64_inv b = of_nat (be_value b 0)"

lemma length_be_digits [simp]: "length (be_digits k n) = k"
  by (induction k) auto

lemma be_value_digits: "be_value (be_digits k n) acc = acc * 256 ^ k + n mod 256 ^ k"
proof (induction k arbitrary: acc)
  case 0
  then show ?case by simp
next
  case (Suc k)
  have split: "n mod 256 ^ Suc k = (n div 256 ^ k mod 256) * 256 ^ k + n mod 256 ^ k"
    by (metis add.commute mod_mult2_eq mult.commute power_Suc2)
  have "be_value (be_digits (Suc k) n) acc
      = (256 * acc + n div 256 ^ k mod 256) * 256 ^ k + n mod 256 ^ k"
    using Suc by simp
  also have "\<dots> = acc * 256 ^ Suc k + n mod 256 ^ Suc k"
    unfolding split by (simp add: algebra_simps)
  finally show ?case .
qed

lemma char_of_less:
  assumes "(m :: nat) < n" and "n < 256"
  shows "char_of m < (char_of n :: char)"
  using assms by (simp add: less_char_def)

lemma be_digits_mono: "m mod 256 ^ k < n mod 256 ^ k \<Longrightarrow> be_digits k m < be_digits k n"
proof (induction k)
  case 0
  then show ?case by simp
next
  case (Suc k)
  let ?dm = "m div 256 ^ k mod 256" and ?dn = "n div 256 ^ k mod 256"
  have split: "x mod 256 ^ Suc k = (x div 256 ^ k mod 256) * 256 ^ k + x mod 256 ^ k" for x :: nat
    by (metis add.commute mod_mult2_eq mult.commute power_Suc2)
  consider "?dm < ?dn" | "?dm = ?dn" | "?dm > ?dn" by linarith
  then show ?case
  proof cases
    case 1
    then have "char_of ?dm < (char_of ?dn :: char)" by (intro char_of_less) auto
    then show ?thesis by simp
  next
    case 2
    with Suc.prems have "m mod 256 ^ k < n mod 256 ^ k" by (simp only: split)
    with 2 Suc.IH show ?thesis by simp
  next
    case 3
    then have "?dn * 256 ^ k + 256 ^ k \<le> ?dm * 256 ^ k"
      by (metis Suc_leI add.commute mult_Suc mult_le_mono1)
    moreover have "n mod 256 ^ k < 256 ^ k" by simp
    ultimately show ?thesis using Suc.prems unfolding split by linarith
  qed
qed

lemma unat_mod_u64: "unat (h :: u64) mod 256 ^ 8 = unat h"
proof -
  have "unat h < 2 ^ 64" using unsigned_less [of h] by simp
  then show ?thesis by simp
qed

interpretation be64: be_codec be64 be64_inv
proof
  fix h h' :: u64
  show "length (be64 h) = 8" by (simp add: be64_def)
  show "be64_inv (be64 h) = h"
    unfolding be64_def be64_inv_def be_value_digits unat_mod_u64 by simp
  show "be64 h < be64 h'" if "h < h'"
    using that unfolding be64_def
    by (intro be_digits_mono) (simp only: unat_mod_u64 word_less_nat_alt)
qed

section \<open>Self-delimiting byte strings\<close>

text \<open>An encoding from which concrete record encodings are built for the examples.\<close>

definition esc :: "bytes \<Rightarrow> bytes" where
  "esc b = concat (map (\<lambda>c. [CHR 0x01, c]) b) @ [CHR 0x00]"

fun unesc :: "bytes \<Rightarrow> (bytes \<times> bytes) option" where
  "unesc [] = None"
| "unesc [a] = (if a = CHR 0x00 then Some ([], []) else None)"
| "unesc (a # c # rest) =
     (if a = CHR 0x00 then Some ([], c # rest)
      else map_option (\<lambda>(b, r). (c # b, r)) (unesc rest))"

lemma unesc_esc [simp]: "unesc (esc b @ rest) = Some (b, rest)"
proof (induction b)
  case Nil
  then show ?case by (cases rest) (simp_all add: esc_def)
next
  case (Cons c b)
  then show ?case by (simp add: esc_def)
qed

end
