(* ===== verification/FP_Util.thy ===== *)
theory FP_Util
  imports Big_Endian
begin

text \<open>
  The helpers every part of the system uses: the duplicate-height check of
  \<^verbatim>\<open>util/validation.go\<close>, the private-key check of \<^verbatim>\<open>util/crypto.go\<close>, and block descriptions with the
  message a finality provider signs for a block (\<^verbatim>\<open>types/blockinfo.go\<close>).
\<close>

section \<open>Duplicate heights\<close>

fun scanHeights :: "u64 set \<Rightarrow> u64 list \<Rightarrow> bool \<times> u64" where
  "scanHeights seen [] = (False, 0)"
| "scanHeights seen (height # heights) =
     (if height \<in> seen then (True, height) else scanHeights (insert height seen) heights)"

definition HasDuplicateHeights :: "u64 list \<Rightarrow> bool \<times> u64" where
  "HasDuplicateHeights heights = scanHeights {} heights"

definition ValidateNoDuplicateHeights :: "u64 list \<Rightarrow> unit go" where
  "ValidateNoDuplicateHeights heights =
     (case HasDuplicateHeights heights of (hasDup, dupHeight) \<Rightarrow>
        if hasDup then Err (ErrText (''duplicate height detected: '' @ fmt_u64 dupHeight)) else Ok ())"

section \<open>Private keys\<close>

text \<open>\<open>setByteSlice\<close> (the scalar and whether it overflowed) and \<open>isZero\<close> are the methods of
  \<^verbatim>\<open>btcec.ModNScalar\<close>.\<close>

definition ValidatePrivKeyBytes :: "(bytes \<Rightarrow> 'sc \<times> bool) \<Rightarrow> ('sc \<Rightarrow> bool) \<Rightarrow> bytes \<Rightarrow> unit go" where
  "ValidatePrivKeyBytes setByteSlice isZero keyBytes =
     (case setByteSlice keyBytes of (keyInt, overflow) \<Rightarrow>
        if overflow
        then Err (ErrText ''private key is greater than or equal to the secp256k1 curve order'')
        else if isZero keyInt then Err (ErrText ''private key cannot be zero'')
        else Ok ())"

section \<open>Blocks\<close>

record BlockInfo =
  bi_height :: u64
  bi_Hash :: bytes
  bi_Finalized :: bool

definition NewBlockInfo :: "u64 \<Rightarrow> bytes \<Rightarrow> bool \<Rightarrow> BlockInfo" where
  "NewBlockInfo height hash finalized =
     \<lparr>bi_height = height, bi_Hash = hash, bi_Finalized = finalized\<rparr>"

definition MsgToSign :: "(u64 \<Rightarrow> bytes) \<Rightarrow> BlockInfo \<Rightarrow> bytes \<Rightarrow> bytes" where
  "MsgToSign enc b signCtx =
     (if length signCtx = 0 then enc (bi_height b) @ bi_Hash b
      else signCtx @ enc (bi_height b) @ bi_Hash b)"

section \<open>Lemmas\<close>

lemma scanHeights_iff: "fst (scanHeights seen hs) \<longleftrightarrow> \<not> distinct hs \<or> set hs \<inter> seen \<noteq> {}"
  by (induction hs arbitrary: seen) auto

lemma HasDuplicateHeights_iff: "fst (HasDuplicateHeights hs) \<longleftrightarrow> \<not> distinct hs"
  by (simp add: HasDuplicateHeights_def scanHeights_iff)

lemma ValidateNoDuplicateHeights_Ok [go_simps]:
  "ValidateNoDuplicateHeights hs = Ok u \<longleftrightarrow> distinct hs"
  using HasDuplicateHeights_iff [of hs]
  by (auto simp: ValidateNoDuplicateHeights_def split: prod.splits if_splits)

lemma ValidateNoDuplicateHeights_distinct [simp]:
  "distinct hs \<Longrightarrow> ValidateNoDuplicateHeights hs = Ok ()"
  by (simp add: ValidateNoDuplicateHeights_Ok)

lemma ValidateNoDuplicateHeights_not_Crash [simp]: "ValidateNoDuplicateHeights hs \<noteq> Crash c"
  by (simp add: ValidateNoDuplicateHeights_def split: prod.split)

text \<open>The reported height is the first one that repeats an earlier one.\<close>

lemma scanHeights_first:
  "scanHeights seen hs = (True, d) \<Longrightarrow>
    \<exists>ys zs. hs = ys @ d # zs \<and> (d \<in> seen \<or> d \<in> set ys) \<and> distinct ys \<and> set ys \<inter> seen = {}"
proof (induction hs arbitrary: seen)
  case (Cons h hs)
  show ?case
  proof (cases "h \<in> seen")
    case True
    with Cons.prems show ?thesis by (intro exI [of _ "[]"] exI [of _ hs]) simp
  next
    case False
    with Cons.prems Cons.IH [of "insert h seen"] obtain ys zs where
      "hs = ys @ d # zs" "d \<in> insert h seen \<or> d \<in> set ys" "distinct ys" "set ys \<inter> insert h seen = {}"
      by auto
    then show ?thesis using False by (intro exI [of _ "h # ys"] exI [of _ zs]) auto
  qed
qed simp

lemma scanHeights_zero: "scanHeights seen hs = (False, d) \<Longrightarrow> d = 0"
  by (induction hs arbitrary: seen) (auto split: if_splits)

context be_codec
begin

lemma MsgToSign_inject:
  "MsgToSign enc a ctx = MsgToSign enc b ctx \<longleftrightarrow> bi_height a = bi_height b \<and> bi_Hash a = bi_Hash b"
  by (auto simp: MsgToSign_def)

end

section \<open>Properties\<close>

text \<open>The duplicate check reports a duplicate exactly when two of the heights are equal, and then
  names the first height that repeats an earlier one; without duplicates it reports height 0.\<close>

theorem HasDuplicateHeights_correct:
  "case HasDuplicateHeights hs of (dup, d) \<Rightarrow> dup = (\<not> distinct hs) \<and>
     (if dup then \<exists>ys zs. hs = ys @ d # zs \<and> d \<in> set ys \<and> distinct ys else d = 0)"
proof (cases "HasDuplicateHeights hs")
  case (Pair dup d)
  have "d = 0" if "\<not> dup"
    using that Pair unfolding HasDuplicateHeights_def
    by (auto intro: scanHeights_zero)
  with Pair HasDuplicateHeights_iff [of hs] scanHeights_first [of "{}" hs d] show ?thesis
    by (auto simp: HasDuplicateHeights_def)
qed

text \<open>Under one signing context, the message to sign determines the block's height and hash: two
  blocks with the same message are the same vote.\<close>

theorem MsgToSign_injective:
  assumes "be_codec enc dec"
  shows "MsgToSign enc a ctx = MsgToSign enc b ctx \<longleftrightarrow>
    bi_height a = bi_height b \<and> bi_Hash a = bi_Hash b"
  by (rule be_codec.MsgToSign_inject [OF assms])

theorem MsgToSign_injective_witness:
  "MsgToSign be64 (NewBlockInfo 5 ''h'' False) ''ctx'' \<noteq> MsgToSign be64 (NewBlockInfo 6 ''h'' False) ''ctx''"
  using MsgToSign_injective [OF be64.be_codec_axioms, of "NewBlockInfo 5 ''h'' False" "''ctx''"
      "NewBlockInfo 6 ''h'' False"] by (simp add: NewBlockInfo_def)

end
