(* ===== verification/Consumer_Client.thy ===== *)
theory Consumer_Client
  imports FP_Util
begin

text \<open>
  The Babylon implementation of the consumer chain interface
  (\<^verbatim>\<open>clientcontroller/babylon/consumer.go\<close> and \<^verbatim>\<open>pubrand.go\<close>), with the error classification of
  \<^verbatim>\<open>clientcontroller/retry_utils.go\<close>. The Babylon client library and the chain behind it are a record
  of answers, \<open>bbn_client\<close>: a query is a function of its request, and the answer to a transaction may
  depend on every batch of messages sent before. The batches sent are the state of the sending
  methods. Encodings of other packages and the texts of the registered chain errors are in \<open>bbn_ext\<close>.
\<close>

section \<open>Chain errors\<close>

text \<open>The registered errors of the Babylon modules the code names; their texts are the chain's.\<close>

datatype sdkerr =
    ErrBlockNotFound | ErrInvalidFinalitySig | ErrNoPubRandYet | ErrPubRandNotFound | ErrTooFewPubRand
  | ErrFpAlreadySlashed | ErrFpAlreadyJailed | ErrInvalidPubRand | ErrFpNotFound | ErrFpNotJailed
  | ErrDuplicatedFinalitySig | ErrSigHeightOutdated | ErrVotingPowerTableNotUpdated

definition unrecoverableErrors :: "sdkerr list" where
  "unrecoverableErrors = [ErrBlockNotFound, ErrInvalidFinalitySig, ErrNoPubRandYet, ErrPubRandNotFound,
     ErrTooFewPubRand, ErrFpAlreadySlashed, ErrFpAlreadyJailed]"

definition errorContained :: "(sdkerr \<Rightarrow> string) \<Rightarrow> goerror \<Rightarrow> sdkerr list \<Rightarrow> bool" where
  "errorContained txt err errList = (\<exists>e \<in> set errList. contains (error_text err) (txt e))"

definition IsUnrecoverable :: "(sdkerr \<Rightarrow> string) \<Rightarrow> goerror \<Rightarrow> bool" where
  "IsUnrecoverable txt err = (\<exists>e \<in> set unrecoverableErrors. contains (error_text err) (txt e))"

text \<open>\<^verbatim>\<open>errors.Is(err, ExpectedError{})\<close> walks the chain until an \<^verbatim>\<open>ExpectedError\<close>.\<close>

fun IsExpected :: "goerror \<Rightarrow> bool" where
  "IsExpected (Expected e) = True"
| "IsExpected (Wrapf p e) = IsExpected e"
| "IsExpected (Wrapfs p e q) = IsExpected e"
| "IsExpected (Wrap2 a b) = (IsExpected a \<or> IsExpected b)"
| "IsExpected (Joined a b) = (IsExpected a \<or> IsExpected b)"
| "IsExpected _ = False"

section \<open>Requests, answers and messages\<close>

record TxResponse =
  tx_TxHash :: string
  tx_Events :: "bytes list"

definition emptyTxResponse :: TxResponse where
  "emptyTxResponse = \<lparr>tx_TxHash = [], tx_Events = []\<rparr>"

record PageRequest =
  pg_Key :: "bytes option"
  pg_Limit :: u64
  pg_Reverse :: bool

datatype QueriedBlockStatus = STATUS_ANY | STATUS_FINALIZED

record IndexedBlock =
  ib_Height :: u64
  ib_AppHash :: bytes
  ib_Finalized :: bool

record PubRandCommitResponse =
  pr_NumPubRand :: u64
  pr_Commitment :: bytes
  pr_EpochNum :: u64

record CommitPage =
  cp_Map :: "(u64 \<times> PubRandCommitResponse) list"
  cp_NextKey :: "bytes option"

record Description =
  ds_Moniker :: string
  ds_Identity :: string
  ds_Website :: string
  ds_SecurityContact :: string
  ds_Details :: string

record FinalityProviderResponse =
  fr_Addr :: string
  fr_Description :: Description
  fr_SlashedBtcHeight :: u32
  fr_Jailed :: bool
  fr_HighestVotedHeight :: u32

record BabylonPubRandCommit =
  bp_StartHeight :: u64
  bp_NumPubRand :: u64
  bp_EpochNum :: u64
  bp_Commitment :: bytes

definition GetEndHeight :: "BabylonPubRandCommit \<Rightarrow> u64" where
  "GetEndHeight b = bp_StartHeight b + bp_NumPubRand b - 1"

definition commit_Validate :: "BabylonPubRandCommit \<Rightarrow> unit go" where
  "commit_Validate b =
     (if bp_NumPubRand b < 1
      then Err (ErrText (''NumPubRand must be >= 1, got '' @ fmt_u64 (bp_NumPubRand b))) else Ok ())"

text \<open>Messages of the finality module, with the signer first.\<close>

datatype 'pr finality_msg =
    MsgCommitPubRandList string bytes u64 u64 bytes bytes
  | MsgAddFinalitySig string bytes u64 bytes 'pr bytes bytes
  | MsgUnjailFinalityProvider string bytes

record ('pk, 'sg) CommitPubRandListRequest =
  rq_FpPk :: 'pk
  rq_StartHeight :: u64
  rq_NumPubRand :: u64
  rq_Commitment :: bytes
  rq_Sig :: 'sg

record ('pk, 'fv, 'sc) SubmitBatchFinalitySigsRequest =
  sb_FpPk :: 'pk
  sb_Blocks :: "BlockInfo list"
  sb_PubRandList :: "'fv list"
  sb_ProofList :: "bytes list"
  sb_Sigs :: "'sc list"

text \<open>Functions of other packages: the conversions to Babylon's wire types, protobuf decoding of a proof,
  bech32, the big-endian encoding and the error texts.\<close>

record ('pk, 'fv, 'sc, 'sg, 'pr) bbn_ext =
  bx_BIP340 :: "'pk \<Rightarrow> bytes"
  bx_MarshalHex :: "bytes \<Rightarrow> string"
  bx_BIP340Sig :: "'sg \<Rightarrow> bytes"
  bx_PubRand :: "'fv \<Rightarrow> bytes"
  bx_EOTSSig :: "'sc \<Rightarrow> bytes"
  bx_ProofUnmarshal :: "bytes \<Rightarrow> 'pr go"
  bx_Bech32 :: "string \<Rightarrow> bytes \<Rightarrow> string go"
  bx_u64be :: "u64 \<Rightarrow> bytes"
  bx_txt :: "sdkerr \<Rightarrow> string"

text \<open>The Babylon client. \<open>bc_Send\<close> answers \<^verbatim>\<open>ReliablySendMsgs\<close> after the given batches were sent; a nil
  response without an error is \<open>Ok None\<close>.\<close>

record 'm bbn_client =
  bc_Key :: "string \<Rightarrow> bytes go"
  bc_GetAddress :: "bytes \<Rightarrow> bytes go"
  bc_Send :: "'m list list \<Rightarrow> 'm list \<Rightarrow> sdkerr list \<Rightarrow> sdkerr list \<Rightarrow> TxResponse option go"
  bc_PowerAtHeight :: "string \<Rightarrow> u64 \<Rightarrow> u64 go"
  bc_ListBlocks :: "QueriedBlockStatus \<Rightarrow> PageRequest \<Rightarrow> IndexedBlock list go"
  bc_Block :: "u64 \<Rightarrow> IndexedBlock go"
  bc_ListPubRandCommit :: "string \<Rightarrow> PageRequest \<Rightarrow> CommitPage go"
  bc_FinalityActivationHeight :: "u64 go"
  bc_FinalityProvider :: "string \<Rightarrow> FinalityProviderResponse go"
  bc_BlockchainInfo :: "(u64 \<times> bytes) list go"
  bc_IsRunning :: bool
  bc_Stop :: "unit go"

record bbn_config =
  bb_Key :: string
  bb_AccountPrefix :: string
  bb_MaxRetriesBatchRemovingMsgs :: u64

definition emptyErrs :: "sdkerr list" where
  "emptyErrs = []"

section \<open>Sending\<close>

definition GetKeyAddress :: "'m bbn_client \<Rightarrow> bbn_config \<Rightarrow> bytes go" where
  "GetKeyAddress c cfg =
     rbind (must (wrap ''Failed to get key address: '' (bc_Key c (bb_Key cfg)))) (\<lambda>keyRec.
       must (wrap ''Failed to get key address: '' (bc_GetAddress c keyRec)))"

definition MustGetTxSigner ::
  "('pk, 'fv, 'sc, 'sg, 'pr) bbn_ext \<Rightarrow> 'm bbn_client \<Rightarrow> bbn_config \<Rightarrow> string go" where
  "MustGetTxSigner x c cfg =
     rbind (GetKeyAddress c cfg) (\<lambda>signer. must (bx_Bech32 x (bb_AccountPrefix cfg) signer))"

definition sendMsgs ::
  "'m bbn_client \<Rightarrow> 'm list \<Rightarrow> sdkerr list \<Rightarrow> sdkerr list \<Rightarrow> ('m list list, TxResponse option) cmd" where
  "sendMsgs c msgs expectedErrs unrecoverableErrs sent =
     (bc_Send c sent msgs expectedErrs unrecoverableErrs, sent @ [msgs])"

definition reliablySendMsgs ::
  "'m bbn_client \<Rightarrow> 'm list \<Rightarrow> sdkerr list \<Rightarrow> sdkerr list \<Rightarrow> ('m list list, TxResponse option) cmd" where
  "reliablySendMsgs c msgs expectedErrs unrecoverableErrs =
     wrapS ''failed to reliably send messages: '' (sendMsgs c msgs expectedErrs unrecoverableErrs)"

definition reliablySendMsg ::
  "'m bbn_client \<Rightarrow> 'm \<Rightarrow> sdkerr list \<Rightarrow> sdkerr list \<Rightarrow> ('m list list, TxResponse option) cmd" where
  "reliablySendMsg c msg = reliablySendMsgs c [msg]"

definition CommitPubRandList ::
  "('pk, 'fv, 'sc, 'sg, 'pr) bbn_ext \<Rightarrow> 'pr finality_msg bbn_client \<Rightarrow> bbn_config \<Rightarrow>
     ('pk, 'sg) CommitPubRandListRequest \<Rightarrow> ('pr finality_msg list list, TxResponse) cmd" where
  "CommitPubRandList x c cfg req =
     sbind (liftR (MustGetTxSigner x c cfg)) (\<lambda>signer.
     let msg = MsgCommitPubRandList signer (bx_BIP340 x (rq_FpPk req)) (rq_StartHeight req) (rq_NumPubRand req)
           (rq_Commitment req) (bx_BIP340Sig x (rq_Sig req)) in
     sbind (reliablySendMsg c msg emptyErrs [ErrInvalidPubRand, ErrTooFewPubRand, ErrNoPubRandYet, ErrFpNotFound]) (\<lambda>res.
     sbind (liftR (deref res)) (\<lambda>res.
     liftR (Ok \<lparr>tx_TxHash = tx_TxHash res, tx_Events = []\<rparr>))))"

definition UnjailFinalityProvider_tx ::
  "('pk, 'fv, 'sc, 'sg, 'pr) bbn_ext \<Rightarrow> 'pr finality_msg bbn_client \<Rightarrow> bbn_config \<Rightarrow>
     'pk \<Rightarrow> ('pr finality_msg list list, TxResponse) cmd" where
  "UnjailFinalityProvider_tx x c cfg fpPk =
     sbind (liftR (MustGetTxSigner x c cfg)) (\<lambda>signer.
     sbind (reliablySendMsg c (MsgUnjailFinalityProvider signer (bx_BIP340 x fpPk)) emptyErrs
              [ErrFpNotFound, ErrFpNotJailed, ErrFpAlreadySlashed]) (\<lambda>res.
     sbind (liftR (deref res)) (\<lambda>res. liftR (Ok res))))"

subsection \<open>Batches with failing messages\<close>

definition BatchRetries :: "'m list \<Rightarrow> u64 \<Rightarrow> u64" where
  "BatchRetries msgs maxRetriesBatchRemovingMsgs =
     (let maxRetriesByMsgLen = of_nat (length msgs) in
      if maxRetriesBatchRemovingMsgs = 0 then maxRetriesByMsgLen
      else if maxRetriesBatchRemovingMsgs > maxRetriesByMsgLen then maxRetriesByMsgLen
      else maxRetriesBatchRemovingMsgs)"

definition RemoveMsgAtIndex :: "'m list \<Rightarrow> int \<Rightarrow> 'm list" where
  "RemoveMsgAtIndex msgs index =
     (if index < 0 \<or> index \<ge> int (length msgs) then msgs
      else take (nat index) msgs @ drop (nat index + 1) msgs)"

text \<open>The regular expression \<^verbatim>\<open>message index:\s*(\d+)\<close>: the digits of the leftmost match.\<close>

definition is_space :: "char \<Rightarrow> bool" where
  "is_space ch = (ch \<in> {CHR 0x09, CHR 0x0A, CHR 0x0C, CHR 0x0D, CHR '' ''})"

definition is_digit :: "char \<Rightarrow> bool" where
  "is_digit ch = (48 \<le> (of_char ch :: nat) \<and> (of_char ch :: nat) \<le> 57)"

definition matchIndexAt :: "string \<Rightarrow> string option" where
  "matchIndexAt s =
     (if prefix ''message index:'' s
      then let digits = takeWhile is_digit (dropWhile is_space (drop (length ''message index:'') s)) in
        if digits = [] then None else Some digits
      else None)"

fun findMessageIndex :: "string \<Rightarrow> string option" where
  "findMessageIndex [] = None"
| "findMessageIndex (ch # s) =
     (case matchIndexAt (ch # s) of Some digits \<Rightarrow> Some digits | None \<Rightarrow> findMessageIndex s)"

text \<open>\<^verbatim>\<open>strconv.Atoi\<close> on digits: an error beyond the largest 64-bit signed number.\<close>

definition atoi_digits :: "string \<Rightarrow> nat" where
  "atoi_digits ds = foldl (\<lambda>n ch. 10 * n + (of_char ch - 48)) 0 ds"

definition FailedMessageIndex :: "goerror \<Rightarrow> int \<times> bool" where
  "FailedMessageIndex err =
     (case findMessageIndex (error_text err) of
        None \<Rightarrow> (0, False)
      | Some ds \<Rightarrow> if atoi_digits ds < 2 ^ 63 then (int (atoi_digits ds), True) else (0, False))"

text \<open>The loop: \<open>n\<close> iterations are left and \<open>err\<close> joins the errors so far.\<close>

fun resendLoop ::
  "(sdkerr \<Rightarrow> string) \<Rightarrow> 'm bbn_client \<Rightarrow> sdkerr list \<Rightarrow> sdkerr list \<Rightarrow> nat \<Rightarrow> 'm list \<Rightarrow> goerror option \<Rightarrow>
     ('m list list, TxResponse option) cmd" where
  "resendLoop txt c expectedErrs unrecoverableErrs 0 msgs err sent =
     (case err of
        None \<Rightarrow> (Err (ErrText ''failed to send batch of msgs: %!w(<nil>)''), sent)
      | Some e \<Rightarrow> if errorContained txt e expectedErrs then (Ok (Some emptyTxResponse), sent)
                  else (Err (Wrapf ''failed to send batch of msgs: '' e), sent))"
| "resendLoop txt c expectedErrs unrecoverableErrs (Suc n) msgs err sent =
     (case sendMsgs c msgs [] (unrecoverableErrs @ expectedErrs) sent of
        (Crash cr, sent) \<Rightarrow> (Crash cr, sent)
      | (Ok None, sent) \<Rightarrow> (Ok None, sent)
      | (Ok (Some res), sent) \<Rightarrow> (Ok (Some res), sent)
      | (Err errSendMsg, sent) \<Rightarrow>
          let err = (case err of None \<Rightarrow> errSendMsg | Some e \<Rightarrow> Joined e errSendMsg);
              (failedIndex, found) = FailedMessageIndex errSendMsg in
          if found \<and> errorContained txt errSendMsg expectedErrs
          then resendLoop txt c expectedErrs unrecoverableErrs n (RemoveMsgAtIndex msgs failedIndex) (Some err) sent
          else (Err (Wrapf ''failed to send batch of msgs: '' errSendMsg), sent))"

definition reliablySendMsgsResendingOnMsgErr ::
  "(sdkerr \<Rightarrow> string) \<Rightarrow> 'm bbn_client \<Rightarrow> bbn_config \<Rightarrow> 'm list \<Rightarrow> sdkerr list \<Rightarrow> sdkerr list \<Rightarrow>
     ('m list list, TxResponse option) cmd" where
  "reliablySendMsgsResendingOnMsgErr txt c cfg msgs expectedErrs unrecoverableErrs =
     (let maxRetries = BatchRetries msgs (bb_MaxRetriesBatchRemovingMsgs cfg) in
      resendLoop txt c expectedErrs unrecoverableErrs (unat maxRetries) msgs None)"

text \<open>One message per block; a proof or randomness missing at an index makes the index expression panic.\<close>

fun sigMsgs ::
  "('pk, 'fv, 'sc, 'sg, 'pr) bbn_ext \<Rightarrow> 'm bbn_client \<Rightarrow> bbn_config \<Rightarrow> 'pk \<Rightarrow> BlockInfo list \<Rightarrow>
     bytes list \<Rightarrow> 'fv list \<Rightarrow> 'sc list \<Rightarrow> 'pr finality_msg list go" where
  "sigMsgs x c cfg fpPk [] proofs rands sigs = Ok []"
| "sigMsgs x c cfg fpPk (b # blocks) proofs rands sigs =
     (case proofs of
        [] \<Rightarrow> Crash ''index out of range''
      | p # proofs \<Rightarrow>
          rbind (wrap ''failed to unmarshal proof: '' (bx_ProofUnmarshal x p)) (\<lambda>cmtProof.
          rbind (MustGetTxSigner x c cfg) (\<lambda>signer.
          (case (rands, sigs) of
             (r # rands, s # sigs) \<Rightarrow>
               rbind (sigMsgs x c cfg fpPk blocks proofs rands sigs) (\<lambda>msgs.
                 Ok (MsgAddFinalitySig signer (bx_BIP340 x fpPk) (bi_height b) (bx_PubRand x r) cmtProof (bi_Hash b)
                       (bx_EOTSSig x s) # msgs))
           | _ \<Rightarrow> Crash ''index out of range''))))"

definition SubmitBatchFinalitySigs ::
  "('pk, 'fv, 'sc, 'sg, 'pr) bbn_ext \<Rightarrow> 'pr finality_msg bbn_client \<Rightarrow> bbn_config \<Rightarrow>
     ('pk, 'fv, 'sc) SubmitBatchFinalitySigsRequest \<Rightarrow> ('pr finality_msg list list, TxResponse) cmd" where
  "SubmitBatchFinalitySigs x c cfg req =
     (if length (sb_Blocks req) \<noteq> length (sb_Sigs req)
      then liftR (Err (ErrText (''the number of blocks '' @ fmt_nat (length (sb_Blocks req)) @
             '' should match the number of finality signatures '' @ fmt_nat (length (sb_Sigs req)))))
      else sbind (liftR (sigMsgs x c cfg (sb_FpPk req) (sb_Blocks req) (sb_ProofList req) (sb_PubRandList req) (sb_Sigs req)))
        (\<lambda>msgs. sbind (reliablySendMsgsResendingOnMsgErr (bx_txt x) c cfg msgs
                  [ErrDuplicatedFinalitySig, ErrSigHeightOutdated]
                  [ErrInvalidFinalitySig, ErrPubRandNotFound, ErrFpAlreadySlashed])
          (\<lambda>res. liftR (Ok (case res of None \<Rightarrow> emptyTxResponse | Some res \<Rightarrow> res)))))"

section \<open>Queries\<close>

definition QueryFinalityProviderHasPower ::
  "('pk, 'fv, 'sc, 'sg, 'pr) bbn_ext \<Rightarrow> 'm bbn_client \<Rightarrow> 'pk \<Rightarrow> u64 \<Rightarrow> bool go" where
  "QueryFinalityProviderHasPower x c fpPk blockHeight =
     (case bc_PowerAtHeight c (bx_MarshalHex x (bx_BIP340 x fpPk)) blockHeight of
        Crash cr \<Rightarrow> Crash cr
      | Err err \<Rightarrow>
          if contains (error_text err) (bx_txt x ErrVotingPowerTableNotUpdated) then Ok False
          else Err (Wrapf (''failed to query the finality provider's voting power at height '' @ fmt_u64 blockHeight @ '': '') err)
      | Ok votingPower \<Rightarrow> Ok (votingPower > 0))"

definition queryLatestBlocks ::
  "'m bbn_client \<Rightarrow> bytes option \<Rightarrow> u64 \<Rightarrow> QueriedBlockStatus \<Rightarrow> bool \<Rightarrow> BlockInfo list go" where
  "queryLatestBlocks c startKey count status reverse =
     rbind (wrap ''failed to query finalized blocks: ''
             (bc_ListBlocks c status \<lparr>pg_Key = startKey, pg_Limit = count, pg_Reverse = reverse\<rparr>)) (\<lambda>resBlocks.
     let heights = map ib_Height resBlocks;
         blocks = map (\<lambda>b. NewBlockInfo (ib_Height b) (ib_AppHash b) (ib_Finalized b)) resBlocks in
     rbind (wrap ''RPC returned invalid block list: '' (ValidateNoDuplicateHeights heights)) (\<lambda>_. Ok blocks))"

text \<open>No block at all leaves the slice nil, so a nil block is returned without an error.\<close>

definition QueryLatestFinalizedBlock :: "'m bbn_client \<Rightarrow> BlockInfo option go" where
  "QueryLatestFinalizedBlock c =
     rbind (queryLatestBlocks c None 1 STATUS_FINALIZED True) (\<lambda>blocks.
       case blocks of [] \<Rightarrow> Ok None | b # _ \<Rightarrow> Ok (Some b))"

definition QueryBlocks ::
  "('pk, 'fv, 'sc, 'sg, 'pr) bbn_ext \<Rightarrow> 'm bbn_client \<Rightarrow> u64 \<Rightarrow> u64 \<Rightarrow> u32 \<Rightarrow> BlockInfo list go" where
  "QueryBlocks x c startHeight endHeight limit =
     (if endHeight < startHeight
      then Err (ErrText (''the startHeight '' @ fmt_u64 startHeight @ '' should not be higher than the endHeight '' @ fmt_u64 endHeight))
      else let count = endHeight - startHeight + 1;
               count = (if count > ucast limit then ucast limit else count) in
        queryLatestBlocks c (Some (bx_u64be x startHeight)) count STATUS_ANY False)"

definition QueryBlock :: "'m bbn_client \<Rightarrow> u64 \<Rightarrow> BlockInfo go" where
  "QueryBlock c height =
     rbind (wrap (''failed to query indexed block at height '' @ fmt_u64 height @ '': '') (bc_Block c height)) (\<lambda>b.
       Ok (NewBlockInfo height (ib_AppHash b) (ib_Finalized b)))"

definition QueryIsBlockFinalized :: "'m bbn_client \<Rightarrow> u64 \<Rightarrow> bool go" where
  "QueryIsBlockFinalized c height =
     rbind (wrap (''failed to query indexed block at height '' @ fmt_u64 height @ '': '') (bc_Block c height)) (\<lambda>b.
       Ok (ib_Finalized b))"

definition QueryFinalityActivationBlockHeight :: "'m bbn_client \<Rightarrow> u64 go" where
  "QueryFinalityActivationBlockHeight c =
     wrap ''failed to query finality params to get finality activation block height: '' (bc_FinalityActivationHeight c)"

definition QueryFinalityProviderHighestVotedHeight ::
  "('pk, 'fv, 'sc, 'sg, 'pr) bbn_ext \<Rightarrow> 'm bbn_client \<Rightarrow> 'pk \<Rightarrow> u64 go" where
  "QueryFinalityProviderHighestVotedHeight x c fpPk =
     (let hex = bx_MarshalHex x (bx_BIP340 x fpPk) in
      rbind (wrap (''failed to query highest voted height for finality provider '' @ hex @ '': '') (bc_FinalityProvider c hex))
        (\<lambda>res. Ok (ucast (fr_HighestVotedHeight res))))"

definition queryCometBestBlock :: "'m bbn_client \<Rightarrow> BlockInfo go" where
  "queryCometBestBlock c =
     rbind (wrap ''failed to query comet best block: '' (bc_BlockchainInfo c)) (\<lambda>metas.
       case metas of [] \<Rightarrow> Crash ''index out of range'' | (height, appHash) # _ \<Rightarrow> Ok (NewBlockInfo height appHash False))"

definition QueryLatestBlock :: "'m bbn_client \<Rightarrow> BlockInfo go" where
  "QueryLatestBlock c =
     (case queryLatestBlocks c None 1 STATUS_ANY True of
        Crash cr \<Rightarrow> Crash cr
      | Err _ \<Rightarrow> queryCometBestBlock c
      | Ok blocks \<Rightarrow> (case blocks of [b] \<Rightarrow> Ok b | _ \<Rightarrow> queryCometBestBlock c))"

text \<open>Whether the provider is slashed and whether it is jailed.\<close>

definition QueryFinalityProviderStatus ::
  "('pk, 'fv, 'sc, 'sg, 'pr) bbn_ext \<Rightarrow> 'm bbn_client \<Rightarrow> 'pk \<Rightarrow> (bool \<times> bool) go" where
  "QueryFinalityProviderStatus x c fpPk =
     (let hex = bx_MarshalHex x (bx_BIP340 x fpPk) in
      rbind (wrap (''failed to query the finality provider '' @ hex @ '': '') (bc_FinalityProvider c hex))
        (\<lambda>res. Ok (fr_SlashedBtcHeight res > 0, fr_Jailed res)))"

definition consumer_Close :: "'m bbn_client \<Rightarrow> unit go" where
  "consumer_Close c =
     (if \<not> bc_IsRunning c then Ok () else wrap ''failed to stop babylon client: '' (bc_Stop c))"

definition toCommit :: "u64 \<Rightarrow> PubRandCommitResponse \<Rightarrow> BabylonPubRandCommit" where
  "toCommit height commitRes = \<lparr>bp_StartHeight = height, bp_NumPubRand = pr_NumPubRand commitRes,
     bp_EpochNum = pr_EpochNum commitRes, bp_Commitment = pr_Commitment commitRes\<rparr>"

definition QueryLastPubRandCommit ::
  "('pk, 'fv, 'sc, 'sg, 'pr) bbn_ext \<Rightarrow> 'm bbn_client \<Rightarrow> 'pk \<Rightarrow> BabylonPubRandCommit option go" where
  "QueryLastPubRandCommit x c fpPk =
     rbind (wrap ''failed to query committed public randomness: ''
             (bc_ListPubRandCommit c (bx_MarshalHex x (bx_BIP340 x fpPk)) \<lparr>pg_Key = None, pg_Limit = 1, pg_Reverse = True\<rparr>))
       (\<lambda>res. case cp_Map res of
          [] \<Rightarrow> Ok None
        | [(height, commitRes)] \<Rightarrow>
            let commit = toCommit height commitRes in
            rbind (wrap ''failed to validate public randomness commitment: '' (commit_Validate commit)) (\<lambda>_. Ok (Some commit))
        | m \<Rightarrow> Err (ErrText (''expected length to be 1, but get :'' @ fmt_nat (length m))))"

text \<open>The loop over the pages. The client answers the \<open>i\<close>-th request with \<open>page i\<close>; the loop ends with a page
  that has no next key. A nil list is \<open>Ok None\<close>.\<close>

partial_function (option) commitLoop ::
  "(nat \<Rightarrow> PageRequest \<Rightarrow> CommitPage go) \<Rightarrow> u64 \<Rightarrow> nat \<Rightarrow> PageRequest \<Rightarrow> BabylonPubRandCommit list \<Rightarrow>
     BabylonPubRandCommit list option go option" where
  "commitLoop page startHeight i pagination commitList =
     (case page i pagination of
        Crash cr \<Rightarrow> Some (Crash cr)
      | Err e \<Rightarrow> Some (Err (Wrapf ''failed to query committed public randomness: '' e))
      | Ok res \<Rightarrow>
          (case cp_Map res of
             [] \<Rightarrow> Some (Ok None)
           | (height, commitRes) # rest \<Rightarrow>
               if rest \<noteq> [] then Some (Err (ErrText (''expected length to be 1, but get :'' @ fmt_nat (length (cp_Map res)))))
               else let commit = toCommit height commitRes in
                 (case commit_Validate commit of
                    Crash cr \<Rightarrow> Some (Crash cr)
                  | Err e \<Rightarrow> Some (Err (Wrapf ''failed to validate public randomness commitment: '' e))
                  | Ok _ \<Rightarrow>
                      let commitList = (if startHeight \<le> GetEndHeight commit then commitList @ [commit] else commitList) in
                      (case cp_NextKey res of
                         None \<Rightarrow> Some (Ok (Some commitList))
                       | Some key \<Rightarrow> commitLoop page startHeight (Suc i) (pagination\<lparr>pg_Key := Some key\<rparr>) commitList))))"

definition QueryPubRandCommitList ::
  "('pk, 'fv, 'sc, 'sg, 'pr) bbn_ext \<Rightarrow> (nat \<Rightarrow> 'm bbn_client) \<Rightarrow> 'pk \<Rightarrow> u64 \<Rightarrow> BabylonPubRandCommit list option go" where
  "QueryPubRandCommitList x c fpPk startHeight =
     (case commitLoop (\<lambda>i. bc_ListPubRandCommit (c i) (bx_MarshalHex x (bx_BIP340 x fpPk))) startHeight 0
             \<lparr>pg_Key = None, pg_Limit = 1, pg_Reverse = False\<rparr> [] of
        None \<Rightarrow> Crash ''endless loop''
      | Some r \<Rightarrow> r)"

section \<open>Lemmas\<close>

lemma subseq_remove_nth: "subseq (take n xs @ drop (Suc n) xs) xs"
proof (induction xs arbitrary: n)
  case (Cons y ys)
  then show ?case by (cases n) auto
qed simp

lemma RemoveMsgAtIndex_subseq: "subseq (RemoveMsgAtIndex msgs i) msgs"
  using subseq_remove_nth [of "nat i" msgs] by (simp add: RemoveMsgAtIndex_def)

lemma RemoveMsgAtIndex_length: "length msgs \<le> Suc (length (RemoveMsgAtIndex msgs i))"
  by (auto simp: RemoveMsgAtIndex_def)

lemma BatchRetries_le: "unat (BatchRetries msgs k) \<le> length msgs"
proof -
  have "unat (of_nat (length msgs) :: u64) \<le> length msgs"
    by (simp add: unat_of_nat)
  then show ?thesis
    by (auto simp: BatchRetries_def Let_def word_less_nat_alt not_less)
qed

text \<open>What the resending loop sends and how it ends. A batch is refused at an index when the chain's error names a message by
  that index and is one of the expected ones.\<close>

definition refusedIndex ::
  "(sdkerr \<Rightarrow> string) \<Rightarrow> 'm bbn_client \<Rightarrow> sdkerr list \<Rightarrow> sdkerr list \<Rightarrow> 'm list list \<Rightarrow> 'm list \<Rightarrow> int option" where
  "refusedIndex txt c expd unrec sent b =
     (case bc_Send c sent b [] (unrec @ expd) of
        Err e \<Rightarrow> if snd (FailedMessageIndex e) \<and> errorContained txt e expd then Some (fst (FailedMessageIndex e)) else None
      | _ \<Rightarrow> None)"

definition resend_outcome ::
  "(sdkerr \<Rightarrow> string) \<Rightarrow> 'm bbn_client \<Rightarrow> sdkerr list \<Rightarrow> sdkerr list \<Rightarrow> nat \<Rightarrow> 'm list list \<Rightarrow>
     TxResponse option go \<Rightarrow> 'm list list \<Rightarrow> bool" where
  "resend_outcome txt c expd unrec n sent r bs \<longleftrightarrow>
     bs \<noteq> [] \<and> length bs \<le> n \<and>
     (\<forall>i. Suc i < length bs \<longrightarrow> (\<exists>j. refusedIndex txt c expd unrec (sent @ take i bs) (bs ! i) = Some j \<and>
        bs ! Suc i = RemoveMsgAtIndex (bs ! i) j)) \<and>
     (case bc_Send c (sent @ butlast bs) (last bs) [] (unrec @ expd) of
        Ok tx \<Rightarrow> r = Ok tx
      | Crash m \<Rightarrow> r = Crash m
      | Err e \<Rightarrow> if refusedIndex txt c expd unrec (sent @ butlast bs) (last bs) = None
                then r = Err (Wrapf ''failed to send batch of msgs: '' e)
                else length bs = n \<and> r = Ok (Some emptyTxResponse))"

lemma resend_outcome_single:
  assumes "refusedIndex txt c expd unrec sent msgs = None \<or> n = 0 \<and> r = Ok (Some emptyTxResponse)"
    and "resendLoop txt c expd unrec (Suc n) msgs err sent = (r, sent')"
  shows "sent' = sent @ [msgs] \<and> resend_outcome txt c expd unrec (Suc n) sent r [msgs]"
proof (cases "bc_Send c sent msgs [] (unrec @ expd)")
  case (Ok tx)
  with assms(2) have "r = Ok tx" "sent' = sent @ [msgs]" by (cases tx; simp add: sendMsgs_def)+
  with Ok show ?thesis by (simp add: resend_outcome_def)
next
  case (Err e)
  with assms show ?thesis
    by (auto simp: sendMsgs_def refusedIndex_def resend_outcome_def Let_def split: option.splits prod.splits if_splits)
next
  case (Crash m)
  with assms(2) have "r = Crash m" "sent' = sent @ [msgs]" by (simp_all add: sendMsgs_def)
  with Crash show ?thesis by (simp add: resend_outcome_def)
qed

lemma resend_outcome_Cons:
  assumes j: "refusedIndex txt c expd unrec sent msgs = Some j" and hd: "hd bs = RemoveMsgAtIndex msgs j"
    and out: "resend_outcome txt c expd unrec n (sent @ [msgs]) r bs"
  shows "resend_outcome txt c expd unrec (Suc n) sent r (msgs # bs)"
proof -
  note R = out [unfolded resend_outcome_def]
  then have "bs \<noteq> []" by blast
  have "\<exists>j. refusedIndex txt c expd unrec (sent @ take i (msgs # bs)) ((msgs # bs) ! i) = Some j \<and>
      (msgs # bs) ! Suc i = RemoveMsgAtIndex ((msgs # bs) ! i) j" if "Suc i < Suc (length bs)" for i
    using that R j hd \<open>bs \<noteq> []\<close> by (cases i) (auto simp: hd_conv_nth)
  with R \<open>bs \<noteq> []\<close> show ?thesis unfolding resend_outcome_def by (auto split: go.splits)
qed

lemma errorContained_Joined: "errorContained txt b expd \<Longrightarrow> errorContained txt (Joined a b) expd"
  unfolding errorContained_def contains_def
  by (auto simp: sublist_def) (metis append_Cons append_assoc)

lemma resendLoop_outcome:
  "resendLoop txt c expd unrec (Suc n) msgs err sent = (r, sent') \<Longrightarrow>
    \<exists>bs. sent' = sent @ bs \<and> hd bs = msgs \<and> resend_outcome txt c expd unrec (Suc n) sent r bs"
proof (induction n arbitrary: msgs err sent)
  case 0
  have "refusedIndex txt c expd unrec sent msgs = None \<or> r = Ok (Some emptyTxResponse)"
    using 0 errorContained_Joined
    by (auto simp: sendMsgs_def refusedIndex_def Let_def split: go.splits option.splits prod.splits if_splits)
  with resend_outcome_single [OF _ 0] show ?case by (intro exI [of _ "[msgs]"]) simp
next
  case (Suc n)
  show ?case
  proof (cases "refusedIndex txt c expd unrec sent msgs")
    case None
    with resend_outcome_single [OF _ Suc.prems] show ?thesis by (intro exI [of _ "[msgs]"]) simp
  next
    case (Some j)
    then obtain e where e: "bc_Send c sent msgs [] (unrec @ expd) = Err e" "FailedMessageIndex e = (j, True)" "errorContained txt e expd"
      by (auto simp: refusedIndex_def prod_eq_iff split: go.splits if_splits)
    define err' where "err' = (case err of None \<Rightarrow> e | Some e' \<Rightarrow> Joined e' e)"
    have "resendLoop txt c expd unrec (Suc n) (RemoveMsgAtIndex msgs j) (Some err') (sent @ [msgs]) = (r, sent')"
      using Suc.prems unfolding resendLoop.simps(2) [of _ _ _ _ "Suc n"] by (simp add: sendMsgs_def e err'_def Let_def del: resendLoop.simps)
    from Suc.IH [OF this] obtain bs where bs: "sent' = (sent @ [msgs]) @ bs" "hd bs = RemoveMsgAtIndex msgs j"
      "resend_outcome txt c expd unrec (Suc n) (sent @ [msgs]) r bs" by blast
    from resend_outcome_Cons [OF Some bs(2,3)] bs(1) show ?thesis by (intro exI [of _ "msgs # bs"]) simp
  qed
qed

lemma resend_outcome_batches:
  assumes "resend_outcome txt c expd unrec n sent r bs" and "i < length bs"
  shows "subseq (bs ! i) (hd bs) \<and> length (hd bs) \<le> length (bs ! i) + i"
  using assms(2)
proof (induction i)
  case 0
  then show ?case by (simp add: hd_conv_nth)
next
  case (Suc i)
  with assms(1) obtain j where "bs ! Suc i = RemoveMsgAtIndex (bs ! i) j" unfolding resend_outcome_def by blast
  with Suc RemoveMsgAtIndex_subseq [of "bs ! i" j] RemoveMsgAtIndex_length [of "bs ! i" j] show ?case
    by (auto intro: subseq_order.trans)
qed

section \<open>Properties\<close>

text \<open>C30. Submission of a batch with failing messages. Without messages it fails and sends nothing. Otherwise it sends at least one and at most
  \<^verbatim>\<open>BatchRetries\<close> batches: first all messages, then after each expected error that names a message the same batch without the message
  at that index; every batch is a non-empty subsequence of the messages. The last batch decides the result: accepted, its
  response is returned; refused with an expected error, all permitted batches have been refused and the empty response is returned;
  failed in another way, its error is returned.\<close>

theorem resending_bounded:
  assumes "reliablySendMsgsResendingOnMsgErr txt c cfg msgs expd unrec sent = (r, sent')"
  defines "n \<equiv> unat (BatchRetries msgs (bb_MaxRetriesBatchRemovingMsgs cfg))"
  shows "n \<le> length msgs \<and> (\<exists>bs. sent' = sent @ bs \<and> length bs \<le> n \<and>
    (n = 0 \<longrightarrow> (\<exists>e. r = Err e)) \<and>
    (0 < n \<longrightarrow> bs \<noteq> [] \<and> bs ! 0 = msgs \<and>
      (\<forall>i < length bs. bs ! i \<noteq> [] \<and> subseq (bs ! i) msgs) \<and>
      (\<forall>i. Suc i < length bs \<longrightarrow> (\<exists>j. refusedIndex txt c expd unrec (sent @ take i bs) (bs ! i) = Some j \<and>
        bs ! Suc i = RemoveMsgAtIndex (bs ! i) j)) \<and>
      (case bc_Send c (sent @ butlast bs) (last bs) [] (unrec @ expd) of
         Ok tx \<Rightarrow> r = Ok tx
       | Crash m \<Rightarrow> r = Crash m
       | Err e \<Rightarrow> if refusedIndex txt c expd unrec (sent @ butlast bs) (last bs) = None
                 then r = Err (Wrapf ''failed to send batch of msgs: '' e)
                 else length bs = n \<and> r = Ok (Some emptyTxResponse))))"
proof -
  have le: "n \<le> length msgs" unfolding n_def by (rule BatchRetries_le)
  have loop: "resendLoop txt c expd unrec n msgs None sent = (r, sent')"
    using assms(1) by (simp add: reliablySendMsgsResendingOnMsgErr_def n_def)
  show ?thesis
  proof (cases n)
    case 0
    with loop show ?thesis by auto
  next
    case (Suc m)
    from resendLoop_outcome [OF loop [unfolded Suc]] obtain bs where bs: "sent' = sent @ bs" "hd bs = msgs"
      and out: "resend_outcome txt c expd unrec n sent r bs" unfolding Suc by blast
    have "bs ! i \<noteq> [] \<and> subseq (bs ! i) msgs" if "i < length bs" for i
      using resend_outcome_batches [OF out that] out that le bs(2) unfolding resend_outcome_def by fastforce
    with bs out le show ?thesis unfolding resend_outcome_def
      by (intro conjI exI [of _ bs]) (simp_all add: hd_conv_nth Suc)
  qed
qed

text \<open>A chain that refuses every message named in an expected error and accepts the rest.\<close>

definition demo_client :: "nat bbn_client" where
  "demo_client = \<lparr>bc_Key = Ok, bc_GetAddress = Ok,
     bc_Send = (\<lambda>sent msgs _ _. if 9 \<in> set msgs then Err (ErrText ''message index: 1: duplicated'') else Ok None),
     bc_PowerAtHeight = (\<lambda>_ _. Ok 1),
     bc_ListBlocks = (\<lambda>_ pg. Ok [\<lparr>ib_Height = 5, ib_AppHash = ''h'', ib_Finalized = False\<rparr>]),
     bc_Block = (\<lambda>h. Ok \<lparr>ib_Height = h, ib_AppHash = ''h'', ib_Finalized = True\<rparr>),
     bc_ListPubRandCommit = (\<lambda>_ pg. Ok \<lparr>cp_Map = [(if pg_Key pg = None then 1 else 11,
         \<lparr>pr_NumPubRand = 10, pr_Commitment = [], pr_EpochNum = 0\<rparr>)],
       cp_NextKey = (if pg_Key pg = None then Some ''k'' else None)\<rparr>),
     bc_FinalityActivationHeight = Ok 1,
     bc_FinalityProvider = (\<lambda>_. Err (ErrText ''not found'')), bc_BlockchainInfo = Ok [], bc_IsRunning = True, bc_Stop = Ok ()\<rparr>"

definition demo_bbn_cfg :: bbn_config where
  "demo_bbn_cfg = \<lparr>bb_Key = [], bb_AccountPrefix = ''bbn'', bb_MaxRetriesBatchRemovingMsgs = 0\<rparr>"

lemma demo_index: "FailedMessageIndex (ErrText ''message index: 1: duplicated'') = (1, True)"
  by (simp add: FailedMessageIndex_def matchIndexAt_def is_space_def is_digit_def atoi_digits_def)

lemma demo_dup: "errorContained (\<lambda>_. ''duplicated'') (ErrText ''message index: 1: duplicated'') [ErrDuplicatedFinalitySig]"
  using sublist_appendI [of "''duplicated''" "''message index: 1: ''" "[]"] by (simp add: errorContained_def contains_def)

lemma demo_resend:
  "reliablySendMsgsResendingOnMsgErr (\<lambda>_. ''duplicated'') demo_client demo_bbn_cfg [7, 9, 8] [ErrDuplicatedFinalitySig] [] [] =
    (Ok None, [[7, 9, 8], [7, 8]])"
proof -
  have "unat (BatchRetries [7, 9, 8 :: nat] (bb_MaxRetriesBatchRemovingMsgs demo_bbn_cfg)) = Suc (Suc (Suc 0))"
    by (simp add: BatchRetries_def demo_bbn_cfg_def)
  then show ?thesis using demo_dup
    by (simp add: reliablySendMsgsResendingOnMsgErr_def sendMsgs_def demo_client_def demo_index RemoveMsgAtIndex_def)
qed

theorem resending_bounded_witness:
  "\<exists>bs. reliablySendMsgsResendingOnMsgErr (\<lambda>_. ''duplicated'') demo_client demo_bbn_cfg [7, 9, 8] [ErrDuplicatedFinalitySig] [] [] =
      (Ok None, bs) \<and> length bs = 2 \<and> bs ! 0 = [7, 9, 8] \<and>
    (\<exists>j. refusedIndex (\<lambda>_. ''duplicated'') demo_client [ErrDuplicatedFinalitySig] [] [] (bs ! 0) = Some j \<and> bs ! 1 = RemoveMsgAtIndex (bs ! 0) j)"
  using resending_bounded [OF demo_resend] demo_resend by (auto simp: demo_bbn_cfg_def BatchRetries_def)

text \<open>A block query asks the chain for the blocks from the start height on, as many as the range holds
  but at most the limit, and never returns two blocks of one height, whatever the chain answers; a
  range that ends before it starts is an error.\<close>

theorem QueryBlocks_request:
  assumes "unat endHeight - unat startHeight + 1 < 2 ^ 64"
  shows "(endHeight < startHeight \<longrightarrow> (\<exists>e. QueryBlocks x c startHeight endHeight limit = Err e)) \<and>
    (\<forall>bs. QueryBlocks x c startHeight endHeight limit = Ok bs \<longrightarrow>
      distinct (map bi_height bs) \<and>
      (\<exists>res. bc_ListBlocks c STATUS_ANY \<lparr>pg_Key = Some (bx_u64be x startHeight),
          pg_Limit = of_nat (min (unat endHeight - unat startHeight + 1) (unat limit)), pg_Reverse = False\<rparr> = Ok res \<and>
        bs = map (\<lambda>b. NewBlockInfo (ib_Height b) (ib_AppHash b) (ib_Finalized b)) res))"
proof -
  have count: "(if endHeight - startHeight + 1 > ucast limit then ucast limit else endHeight - startHeight + 1) =
      of_nat (min (unat endHeight - unat startHeight + 1) (unat limit))" if "startHeight \<le> endHeight"
  proof -
    have "unat (endHeight - startHeight + 1) = unat endHeight - unat startHeight + 1"
      using that assms by (simp add: unat_word_ariths unat_sub word_le_nat_alt)
    moreover have "unat (ucast limit :: u64) = unat limit"
      unfolding unsigned_ucast_eq using unsigned_less [of limit, where 'a = nat] by (simp add: take_bit_nat_eq_self_iff)
    moreover have "of_nat (min (unat a) (unat b)) = (if b < a then b else a)" for a b :: u64
      by (auto simp: min_def word_less_nat_alt)
    ultimately show ?thesis by metis
  qed
  have "bi_height \<circ> (\<lambda>b :: IndexedBlock. NewBlockInfo (ib_Height b) (ib_AppHash b) (ib_Finalized b)) = ib_Height"
    by (simp add: fun_eq_iff NewBlockInfo_def)
  with count show ?thesis
    by (auto simp: QueryBlocks_def queryLatestBlocks_def Let_def go_simps not_less)
qed

definition demo_bbn :: "(bytes, bytes, bytes, bytes, bytes) bbn_ext" where
  "demo_bbn = \<lparr>bx_BIP340 = (\<lambda>k. k), bx_MarshalHex = fmt_hex, bx_BIP340Sig = (\<lambda>s. s), bx_PubRand = (\<lambda>r. r),
     bx_EOTSSig = (\<lambda>s. s), bx_ProofUnmarshal = Ok, bx_Bech32 = (\<lambda>p a. Ok (p @ a)), bx_u64be = be64,
     bx_txt = (\<lambda>_. ''duplicated'')\<rparr>"

theorem QueryBlocks_request_witness:
  "\<exists>bs. QueryBlocks demo_bbn demo_client 5 9 3 = Ok bs \<and> distinct (map bi_height bs) \<and> bs \<noteq> []"
proof -
  have run: "QueryBlocks demo_bbn demo_client 5 9 3 = Ok [NewBlockInfo 5 ''h'' False]"
    by (simp add: QueryBlocks_def queryLatestBlocks_def demo_client_def)
  have "unat (9 :: u64) - unat (5 :: u64) + 1 < 2 ^ 64" by simp
  from QueryBlocks_request [OF this, of demo_bbn demo_client 3] run show ?thesis by blast
qed

text \<open>When the chain returns the commitments one per page, the last page without a next key, the list of
  commitments is exactly the pages' commitments that reach the start height, in page order; a page with
  no commitment at all ends the query with a nil list, whatever was collected before.\<close>

theorem QueryPubRandCommitList_pages:
  assumes pages: "\<And>i. i < n \<Longrightarrow> bc_ListPubRandCommit (c i) hex
        \<lparr>pg_Key = (if i = 0 then None else Some (key (i - 1))), pg_Limit = 1, pg_Reverse = False\<rparr> =
      Ok \<lparr>cp_Map = [(h i, r i)], cp_NextKey = Some (key i)\<rparr> \<and> 1 \<le> pr_NumPubRand (r i)"
    and last: "bc_ListPubRandCommit (c n) hex
        \<lparr>pg_Key = (if n = 0 then None else Some (key (n - 1))), pg_Limit = 1, pg_Reverse = False\<rparr> =
      Ok \<lparr>cp_Map = (if full then [(h n, r n)] else []), cp_NextKey = None\<rparr>" "1 \<le> pr_NumPubRand (r n)"
    and hex: "hex = bx_MarshalHex x (bx_BIP340 x fpPk)"
  shows "QueryPubRandCommitList x c fpPk startHeight =
    Ok (if full then Some (filter (\<lambda>cm. startHeight \<le> GetEndHeight cm) (map (\<lambda>i. toCommit (h i) (r i)) [0..<Suc n]))
        else None)"
proof -
  let ?page = "\<lambda>i. bc_ListPubRandCommit (c i) hex"
  let ?req = "\<lambda>i. \<lparr>pg_Key = (if i = 0 then None else Some (key (i - 1))), pg_Limit = 1, pg_Reverse = False\<rparr>"
  let ?got = "\<lambda>i. filter (\<lambda>cm. startHeight \<le> GetEndHeight cm) (map (\<lambda>i. toCommit (h i) (r i)) [0..<i])"
  have valid: "commit_Validate (toCommit (h i) (r i)) = Ok ()" if "1 \<le> pr_NumPubRand (r i)" for i
    using that by (auto simp: commit_Validate_def toCommit_def)
  have "commitLoop ?page startHeight i (?req i) (?got i) =
      Some (Ok (if full then Some (?got (Suc n)) else None))" if "i \<le> n" for i
    using that
  proof (induction rule: inc_induct)
    case base
    show ?case using last valid [of n] by (subst commitLoop.simps) (simp split: if_splits)
  next
    case (step i)
    have "commitLoop ?page startHeight i (?req i) (?got i) = commitLoop ?page startHeight (Suc i) (?req (Suc i)) (?got (Suc i))"
      using pages [OF step.hyps(2)] valid [of i] by (subst commitLoop.simps) simp
    with step.IH show ?case by simp
  qed
  from this [of 0] show ?thesis
    unfolding QueryPubRandCommitList_def hex [symmetric] by simp
qed

theorem QueryPubRandCommitList_pages_witness:
  "QueryPubRandCommitList demo_bbn (\<lambda>_. demo_client) ''pk'' 15 =
     Ok (Some [toCommit 11 \<lparr>pr_NumPubRand = 10, pr_Commitment = [], pr_EpochNum = 0\<rparr>])"
  using QueryPubRandCommitList_pages [where n = 1 and c = "\<lambda>_. demo_client" and key = "\<lambda>_. ''k''" and full = True
      and h = "\<lambda>i. if i = 0 then 1 else 11" and r = "\<lambda>_. \<lparr>pr_NumPubRand = 10, pr_Commitment = [], pr_EpochNum = 0\<rparr>"
      and x = demo_bbn and fpPk = "''pk''" and startHeight = 15, OF _ _ _ refl]
  by (simp add: demo_client_def GetEndHeight_def toCommit_def)

end
