(* ===== verification/Babylon_Client.thy ===== *)
theory Babylon_Client
  imports Consumer_Client
begin

text \<open>
  The wrapper around the Babylon client that registers and edits finality providers
  (\<^verbatim>\<open>clientcontroller/babylon/babylon.go\<close>). Protobuf decoding is an argument; the client is the record of
  \<open>Consumer_Client\<close> with the answers this wrapper needs in addition. The lemmas say which
  transaction an edit sends and when it sends none, and what the paginated queries collect.
\<close>

section \<open>Data\<close>

datatype ('pop, 'cr, 'dc) staking_msg =
    MsgCreateFinalityProvider string bytes 'pop 'cr Description
  | MsgEditFinalityProvider string bytes Description "'dc option"

record FPPage =
  fpp_FinalityProviders :: "FinalityProviderResponse list"
  fpp_NextKey :: "bytes option"

record 'm bbn_wrapped = "'m bbn_client" +
  bw_GetAddr :: "string go"
  bw_TxIndexEnabled :: "bool go"
  bw_FinalityProviders :: "PageRequest \<Rightarrow> FPPage go"
  bw_CurrentEpoch :: "u64 go"
  bw_VotesAtHeight :: "u64 \<Rightarrow> bytes list go"

record ('pk, 'pop) staking_ext =
  st_BIP340 :: "'pk \<Rightarrow> bytes"
  st_MarshalHex :: "bytes \<Rightarrow> string"
  st_SerializeCompressed :: "'pk \<Rightarrow> bytes"
  st_PopUnmarshal :: "bytes \<Rightarrow> 'pop go"
  st_SdkDescUnmarshal :: "bytes \<Rightarrow> Description go"
  st_DescUnmarshal :: "bytes \<Rightarrow> Description go"
  st_Bech32 :: "string \<Rightarrow> bytes \<Rightarrow> string go"

record ('pk, 'cr) RegisterFinalityProviderRequest =
  rr_ChainID :: string
  rr_FpPk :: 'pk
  rr_Pop :: bytes
  rr_Commission :: 'cr
  rr_Description :: bytes

record ('pk, 'dc) EditFinalityProviderRequest =
  er_FpPk :: 'pk
  er_Commission :: "'dc option"
  er_Description :: bytes

section \<open>Operations\<close>

definition NodeTxIndexEnabled :: "'m bbn_wrapped \<Rightarrow> bool go" where
  "NodeTxIndexEnabled c = wrap ''failed to query node status: '' (bw_TxIndexEnabled c)"

definition wrapper_Start :: "'m bbn_wrapped \<Rightarrow> unit go" where
  "wrapper_Start c =
     rbind (wrap ''failed to get addr: '' (bw_GetAddr c)) (\<lambda>_.
     rbind (NodeTxIndexEnabled c) (\<lambda>enabled.
       if \<not> enabled then Err (ErrText ''tx indexing in the babylon node must be enabled'') else Ok ()))"

definition wrapper_MustGetTxSigner ::
  "('pk, 'pop) staking_ext \<Rightarrow> ('m, 'z) bbn_client_scheme \<Rightarrow> bbn_config \<Rightarrow> string go" where
  "wrapper_MustGetTxSigner x c cfg =
     rbind (rbind (must (wrap ''Failed to get key address: '' (bc_Key c (bb_Key cfg)))) (\<lambda>keyRec.
              must (wrap ''Failed to get key address: '' (bc_GetAddress c keyRec))))
       (\<lambda>signer. must (st_Bech32 x (bb_AccountPrefix cfg) signer))"

definition wrapper_reliablySendMsg ::
  "('m, 'z) bbn_client_scheme \<Rightarrow> 'm \<Rightarrow> sdkerr list \<Rightarrow> sdkerr list \<Rightarrow> ('m list list, TxResponse option) cmd" where
  "wrapper_reliablySendMsg c msg expectedErrs unrecoverableErrs =
     wrapS ''failed to reliably send messages: ''
       (\<lambda>sent. (bc_Send c sent [msg] expectedErrs unrecoverableErrs, sent @ [[msg]]))"

definition RegisterFinalityProvider_tx ::
  "('pk, 'pop) staking_ext \<Rightarrow> ('pop, 'cr, 'dc) staking_msg bbn_wrapped \<Rightarrow> bbn_config \<Rightarrow>
     ('pk, 'cr) RegisterFinalityProviderRequest \<Rightarrow> (('pop, 'cr, 'dc) staking_msg list list, TxResponse) cmd" where
  "RegisterFinalityProvider_tx x c cfg req =
     sbind (liftR (wrap ''invalid proof-of-possession: '' (st_PopUnmarshal x (rr_Pop req)))) (\<lambda>bbnPop.
     sbind (liftR (wrap ''invalid description: '' (st_SdkDescUnmarshal x (rr_Description req)))) (\<lambda>sdkDescription.
     sbind (liftR (wrapper_MustGetTxSigner x c cfg)) (\<lambda>fpAddr.
     sbind (wrapper_reliablySendMsg c (MsgCreateFinalityProvider fpAddr (st_BIP340 x (rr_FpPk req)) bbnPop
              (rr_Commission req) sdkDescription) emptyErrs emptyErrs) (\<lambda>res.
     sbind (liftR (deref res)) (\<lambda>res.
     liftR (Ok \<lparr>tx_TxHash = tx_TxHash res, tx_Events = []\<rparr>))))))"

definition QueryFinalityProvider ::
  "('pk, 'pop) staking_ext \<Rightarrow> ('m, 'z) bbn_client_scheme \<Rightarrow> 'pk \<Rightarrow> FinalityProviderResponse go" where
  "QueryFinalityProvider x c fpPk =
     (let hex = st_MarshalHex x (st_BIP340 x fpPk) in
      wrap (''failed to query the finality provider '' @ hex @ '': '') (bc_FinalityProvider c hex))"

definition getValueOrDefault :: "string \<Rightarrow> string \<Rightarrow> string" where
  "getValueOrDefault reqValue defaultValue = (if reqValue \<noteq> [] then reqValue else defaultValue)"

text \<open>\<^verbatim>\<open>strings.EqualFold\<close> on ASCII text, which bech32 addresses are.\<close>

definition to_lower :: "char \<Rightarrow> char" where
  "to_lower ch = (if 65 \<le> (of_char ch :: nat) \<and> (of_char ch :: nat) \<le> 90 then char_of ((of_char ch :: nat) + 32) else ch)"

definition EqualFold :: "string \<Rightarrow> string \<Rightarrow> bool" where
  "EqualFold a b = (map to_lower a = map to_lower b)"

definition mergeDescription :: "Description \<Rightarrow> Description \<Rightarrow> Description" where
  "mergeDescription reqDesc resDesc =
     \<lparr>ds_Moniker = getValueOrDefault (ds_Moniker reqDesc) (ds_Moniker resDesc),
      ds_Identity = getValueOrDefault (ds_Identity reqDesc) (ds_Identity resDesc),
      ds_Website = getValueOrDefault (ds_Website reqDesc) (ds_Website resDesc),
      ds_SecurityContact = getValueOrDefault (ds_SecurityContact reqDesc) (ds_SecurityContact resDesc),
      ds_Details = getValueOrDefault (ds_Details reqDesc) (ds_Details resDesc)\<rparr>"

definition EditFinalityProvider_tx ::
  "('pk, 'pop) staking_ext \<Rightarrow> ('pop, 'cr, 'dc) staking_msg bbn_wrapped \<Rightarrow> bbn_config \<Rightarrow>
     ('pk, 'dc) EditFinalityProviderRequest \<Rightarrow>
     (('pop, 'cr, 'dc) staking_msg list list, ('pop, 'cr, 'dc) staking_msg) cmd" where
  "EditFinalityProvider_tx x c cfg req =
     sbind (liftR (wrap ''failed to unmarshal description: '' (st_DescUnmarshal x (er_Description req)))) (\<lambda>reqDesc.
     let fpPubKey = st_BIP340 x (er_FpPk req) in
     sbind (liftR (QueryFinalityProvider x c (er_FpPk req))) (\<lambda>fpRes.
     sbind (liftR (wrapper_MustGetTxSigner x c cfg)) (\<lambda>signer.
     if \<not> EqualFold (fr_Addr fpRes) signer
     then liftR (Err (ErrText (''the signer does not correspond to the finality provider's Babylon address, expected '' @
            signer @ '' got '' @ fr_Addr fpRes)))
     else let msg = MsgEditFinalityProvider signer fpPubKey (mergeDescription reqDesc (fr_Description fpRes)) (er_Commission req) in
       sbind (wrapS (''failed to query the finality provider '' @ st_SerializeCompressed x (er_FpPk req) @ '': '')
                (wrapper_reliablySendMsg c msg emptyErrs emptyErrs)) (\<lambda>_.
       liftR (Ok msg)))))"

definition wrapper_Close :: "('m, 'z) bbn_client_scheme \<Rightarrow> unit go" where
  "wrapper_Close c =
     (if \<not> bc_IsRunning c then Ok () else wrap ''failed to stop Babylon client: '' (bc_Stop c))"

text \<open>The pagination loop shared by the two provider queries; the client answers the \<open>i\<close>-th request with \<open>page i\<close>.\<close>

partial_function (option) fpPages ::
  "(nat \<Rightarrow> PageRequest \<Rightarrow> FPPage go) \<Rightarrow> nat \<Rightarrow> PageRequest \<Rightarrow> FinalityProviderResponse list \<Rightarrow>
     FinalityProviderResponse list go option" where
  "fpPages page i pagination fps =
     (case page i pagination of
        Crash cr \<Rightarrow> Some (Crash cr)
      | Err e \<Rightarrow> Some (Err (Wrapf ''failed to query finality providers: '' e))
      | Ok res \<Rightarrow>
          let fps = fps @ fpp_FinalityProviders res in
          (case fpp_NextKey res of
             None \<Rightarrow> Some (Ok fps)
           | Some key \<Rightarrow> fpPages page (Suc i) (pagination\<lparr>pg_Key := Some key\<rparr>) fps))"

definition QueryFinalityProviders :: "(nat \<Rightarrow> 'm bbn_wrapped) \<Rightarrow> FinalityProviderResponse list go" where
  "QueryFinalityProviders c =
     (case fpPages (\<lambda>i. bw_FinalityProviders (c i)) 0 \<lparr>pg_Key = None, pg_Limit = 100, pg_Reverse = False\<rparr> [] of
        None \<Rightarrow> Crash ''endless loop'' | Some r \<Rightarrow> r)"

definition QueryConsumerFinalityProviders :: "(nat \<Rightarrow> 'm bbn_wrapped) \<Rightarrow> FinalityProviderResponse list go" where
  "QueryConsumerFinalityProviders c =
     (case fpPages (\<lambda>i. bw_FinalityProviders (c i)) 0 \<lparr>pg_Key = None, pg_Limit = 100, pg_Reverse = False\<rparr> [] of
        None \<Rightarrow> Crash ''endless loop'' | Some r \<Rightarrow> r)"

definition QueryCurrentEpoch :: "'m bbn_wrapped \<Rightarrow> u64 go" where
  "QueryCurrentEpoch c = wrap ''failed to query BTC tip: '' (bw_CurrentEpoch c)"

definition QueryVotesAtHeight :: "'m bbn_wrapped \<Rightarrow> u64 \<Rightarrow> bytes list go" where
  "QueryVotesAtHeight c height = wrap ''failed to query BTC delegations: '' (bw_VotesAtHeight c height)"

section \<open>Lemmas\<close>

lemma fpPages_collects:
  assumes "\<And>i. i < n \<Longrightarrow> page i (pg\<lparr>pg_Key := (if i = 0 then pg_Key pg else Some (key (i - 1)))\<rparr>) =
      Ok \<lparr>fpp_FinalityProviders = fs i, fpp_NextKey = Some (key i)\<rparr>"
    and "page n (pg\<lparr>pg_Key := (if n = 0 then pg_Key pg else Some (key (n - 1)))\<rparr>) =
      Ok \<lparr>fpp_FinalityProviders = fs n, fpp_NextKey = None\<rparr>"
  shows "fpPages page 0 pg [] = Some (Ok (concat (map fs [0..<Suc n])))"
proof -
  let ?req = "\<lambda>i. pg\<lparr>pg_Key := (if i = 0 then pg_Key pg else Some (key (i - 1)))\<rparr>"
  have "fpPages page i (?req i) (concat (map fs [0..<i])) = Some (Ok (concat (map fs [0..<Suc n])))" if "i \<le> n" for i
    using that
  proof (induction rule: inc_induct)
    case base
    show ?case using assms(2) by (subst fpPages.simps) simp
  next
    case (step i)
    have "fpPages page i (?req i) (concat (map fs [0..<i])) = fpPages page (Suc i) (?req (Suc i)) (concat (map fs [0..<Suc i]))"
      using assms(1) [OF step.hyps(2)] by (subst fpPages.simps) simp
    with step.IH show ?case by simp
  qed
  from this [of 0] show ?thesis by simp
qed

text \<open>A wrapper that cannot name its signer panics before it sends anything.\<close>

lemma RegisterFinalityProvider_tx_sends:
  assumes "RegisterFinalityProvider_tx x c cfg req sent = (Ok tx, sent')"
  shows "\<exists>addr pop ds. wrapper_MustGetTxSigner x c cfg = Ok addr \<and> st_PopUnmarshal x (rr_Pop req) = Ok pop \<and>
    st_SdkDescUnmarshal x (rr_Description req) = Ok ds \<and>
    sent' = sent @ [[MsgCreateFinalityProvider addr (st_BIP340 x (rr_FpPk req)) pop (rr_Commission req) ds]]"
  using assms by (auto simp: RegisterFinalityProvider_tx_def wrapper_reliablySendMsg_def go_simps)

section \<open>Properties\<close>

text \<open>Editing a provider sends at most one transaction, and only when the configured signer is the
  provider's own Babylon address (up to letter case); the message keeps the chain's value of every
  description field the request leaves empty.\<close>

theorem EditFinalityProvider_owner_only:
  assumes "EditFinalityProvider_tx x c cfg req sent = (r, sent')"
  shows "sent' = sent \<or> (\<exists>addr reqDesc fpRes.
    st_DescUnmarshal x (er_Description req) = Ok reqDesc \<and>
    bc_FinalityProvider c (st_MarshalHex x (st_BIP340 x (er_FpPk req))) = Ok fpRes \<and>
    wrapper_MustGetTxSigner x c cfg = Ok addr \<and> map to_lower (fr_Addr fpRes) = map to_lower addr \<and>
    sent' = sent @ [[MsgEditFinalityProvider addr (st_BIP340 x (er_FpPk req))
      \<lparr>ds_Moniker = (if ds_Moniker reqDesc = [] then ds_Moniker (fr_Description fpRes) else ds_Moniker reqDesc),
       ds_Identity = (if ds_Identity reqDesc = [] then ds_Identity (fr_Description fpRes) else ds_Identity reqDesc),
       ds_Website = (if ds_Website reqDesc = [] then ds_Website (fr_Description fpRes) else ds_Website reqDesc),
       ds_SecurityContact = (if ds_SecurityContact reqDesc = [] then ds_SecurityContact (fr_Description fpRes)
         else ds_SecurityContact reqDesc),
       ds_Details = (if ds_Details reqDesc = [] then ds_Details (fr_Description fpRes) else ds_Details reqDesc)\<rparr>
      (er_Commission req)]])"
proof -
  have "sent' = snd (EditFinalityProvider_tx x c cfg req sent)" using assms by simp
  then consider "sent' = sent" | reqDesc fpRes addr where
      "st_DescUnmarshal x (er_Description req) = Ok reqDesc" "QueryFinalityProvider x c (er_FpPk req) = Ok fpRes"
      "wrapper_MustGetTxSigner x c cfg = Ok addr" "EqualFold (fr_Addr fpRes) addr"
      "sent' = sent @ [[MsgEditFinalityProvider addr (st_BIP340 x (er_FpPk req))
         (mergeDescription reqDesc (fr_Description fpRes)) (er_Commission req)]]"
    unfolding EditFinalityProvider_tx_def sbind_def liftR_def Let_def
    by (cases "st_DescUnmarshal x (er_Description req)"; cases "QueryFinalityProvider x c (er_FpPk req)";
        cases "wrapper_MustGetTxSigner x c cfg")
      (auto simp: wrapS_def wrapper_reliablySendMsg_def split: if_splits)
  then show ?thesis
    by cases (auto simp: QueryFinalityProvider_def Let_def wrap_eq_Ok EqualFold_def mergeDescription_def getValueOrDefault_def)
qed

definition demo_staking :: "(bytes, bytes) staking_ext" where
  "demo_staking = \<lparr>st_BIP340 = (\<lambda>k. k), st_MarshalHex = fmt_hex, st_SerializeCompressed = (\<lambda>k. k), st_PopUnmarshal = Ok,
     st_SdkDescUnmarshal = (\<lambda>b. Ok \<lparr>ds_Moniker = b, ds_Identity = [], ds_Website = [], ds_SecurityContact = [], ds_Details = []\<rparr>),
     st_DescUnmarshal = (\<lambda>b. Ok \<lparr>ds_Moniker = b, ds_Identity = [], ds_Website = [], ds_SecurityContact = [], ds_Details = []\<rparr>),
     st_Bech32 = (\<lambda>p a. Ok (p @ a))\<rparr>"

definition demo_wrapped :: "string \<Rightarrow> (bytes, bytes, bytes) staking_msg bbn_wrapped" where
  "demo_wrapped addr = \<lparr>bc_Key = Ok, bc_GetAddress = Ok, bc_Send = (\<lambda>_ _ _ _. Ok (Some emptyTxResponse)),
     bc_PowerAtHeight = (\<lambda>_ _. Ok 1), bc_ListBlocks = (\<lambda>_ _. Ok []),
     bc_Block = (\<lambda>h. Err (ErrText ''not found'')), bc_ListPubRandCommit = (\<lambda>_ _. Ok \<lparr>cp_Map = [], cp_NextKey = None\<rparr>),
     bc_FinalityActivationHeight = Ok 1,
     bc_FinalityProvider = (\<lambda>_. Ok \<lparr>fr_Addr = addr, fr_Description = \<lparr>ds_Moniker = ''old'', ds_Identity = ''id'',
        ds_Website = [], ds_SecurityContact = [], ds_Details = []\<rparr>, fr_SlashedBtcHeight = 0, fr_Jailed = False, fr_HighestVotedHeight = 0\<rparr>),
     bc_BlockchainInfo = Ok [], bc_IsRunning = True, bc_Stop = Ok (), bw_GetAddr = Ok ''bbnkey'', bw_TxIndexEnabled = Ok True,
     bw_FinalityProviders = (\<lambda>_. Ok \<lparr>fpp_FinalityProviders = [], fpp_NextKey = None\<rparr>), bw_CurrentEpoch = Ok 1, bw_VotesAtHeight = (\<lambda>_. Ok [])\<rparr>"

theorem EditFinalityProvider_owner_only_witness:
  "snd (EditFinalityProvider_tx demo_staking (demo_wrapped ''other'') \<lparr>bb_Key = ''key'', bb_AccountPrefix = ''bbn'',
     bb_MaxRetriesBatchRemovingMsgs = 0\<rparr> \<lparr>er_FpPk = ''pk'', er_Commission = None, er_Description = ''new''\<rparr> []) = []"
proof -
  let ?run = "EditFinalityProvider_tx demo_staking (demo_wrapped ''other'') \<lparr>bb_Key = ''key'', bb_AccountPrefix = ''bbn'',
     bb_MaxRetriesBatchRemovingMsgs = 0\<rparr> \<lparr>er_FpPk = ''pk'', er_Commission = None, er_Description = ''new''\<rparr> []"
  have "?run = (fst ?run, snd ?run)" by simp
  from EditFinalityProvider_owner_only [OF this] show ?thesis
    by (auto simp: demo_staking_def demo_wrapped_def wrapper_MustGetTxSigner_def dest!: map_eq_imp_length_eq)
qed

end
