(* ===== verification/Babylon_Staking.thy ===== *)
theory Babylon_Staking
  imports Babylon_Client
begin

text \<open>
  The delegation side of the wrapper around the Babylon client (\<^verbatim>\<open>clientcontroller/babylon/babylon.go\<close>, \<^verbatim>\<open>types/stakingparams.go\<close>): delegations,
  covenant signatures, Bitcoin headers and proofs are sent, and the parameters of staking are read. Transactions and
  signatures are values of type \<open>'b\<close>; the queries are a record of answers.
\<close>

section \<open>Data\<close>

record 'b MsgCreateBTCDelegation =
  md_StakerAddr :: string
  md_Pop :: 'b
  md_BtcPk :: bytes
  md_FpBtcPkList :: "bytes list"
  md_StakingTime :: u32
  md_StakingValue :: int
  md_StakingTx :: 'b
  md_StakingTxInclusionProof :: "bytes \<times> bytes"
  md_SlashingTx :: 'b
  md_DelegatorSlashingSig :: 'b
  md_UnbondingTx :: bytes
  md_UnbondingTime :: u32
  md_UnbondingValue :: int
  md_UnbondingSlashingTx :: 'b
  md_DelegatorUnbondingSlashingSig :: 'b

record 'b MsgAddCovenantSigs =
  mc_Signer :: string
  mc_Pk :: bytes
  mc_StakingTxHash :: string
  mc_SlashingTxSigs :: "bytes list"
  mc_UnbondingTxSig :: 'b
  mc_SlashingUnbondingTxSigs :: "bytes list"

datatype 'b delegation_msg =
    CreateBTCDelegationMsg "'b MsgCreateBTCDelegation"
  | InsertHeadersMsg string "bytes list"
  | AddCovenantSigsMsg "'b MsgAddCovenantSigs"
  | InsertBTCSpvProofMsg string "'b list"

text \<open>The transaction of a delegation with its place in a block: the index and hash of the key, and the proof.\<close>

record 'b TransactionInfo =
  ti_Key :: bytes
  ti_Transaction :: 'b
  ti_Proof :: bytes

datatype BTCDelegationStatus = DELEGATION_PENDING | DELEGATION_ACTIVE

record ckpt_params =
  cq_BtcConfirmationDepth :: u32
  cq_CheckpointFinalizationTimeout :: u32

record 'dc staking_params =
  sq_MinSlashingTxFeeSat :: int
  sq_CovenantPks :: "bytes list"
  sq_SlashingPkScript :: bytes
  sq_CovenantQuorum :: u32
  sq_SlashingRate :: 'dc
  sq_UnbondingTimeBlocks :: u32

record ('pk, 'dc) StakingParams =
  sp_ComfirmationTimeBlocks :: u32
  sp_FinalizationTimeoutBlocks :: u32
  sp_MinSlashingTxFeeSat :: int
  sp_CovenantPks :: "'pk list"
  sp_SlashingPkScript :: bytes
  sp_CovenantQuorum :: u32
  sp_SlashingRate :: 'dc
  sp_UnbondingTime :: u32

record ('hd, 'dl, 'dc) staking_queries =
  sx_BTCHeaderChainTip :: "'hd go"
  sx_BTCDelegations :: "BTCDelegationStatus \<Rightarrow> PageRequest \<Rightarrow> 'dl list go"
  sx_BTCCheckpointParams :: "ckpt_params go"
  sx_BTCStakingParams :: "'dc staking_params go"

section \<open>Sending\<close>

definition sendHash :: "'m \<Rightarrow> ('m, 'z) bbn_client_scheme \<Rightarrow> ('m list list, TxResponse) cmd" where
  "sendHash msg c =
     sbind (wrapper_reliablySendMsg c msg emptyErrs emptyErrs) (\<lambda>res.
     sbind (liftR (deref res)) (\<lambda>res. liftR (Ok \<lparr>tx_TxHash = tx_TxHash res, tx_Events = []\<rparr>)))"

definition CreateBTCDelegation ::
  "('pk, 'pop) staking_ext \<Rightarrow> ('b delegation_msg, 'z) bbn_client_scheme \<Rightarrow> bbn_config \<Rightarrow> bytes \<Rightarrow> 'pk list \<Rightarrow> 'b \<Rightarrow> u32 \<Rightarrow> int \<Rightarrow>
     'b TransactionInfo \<Rightarrow> 'b \<Rightarrow> 'b \<Rightarrow> bytes \<Rightarrow> u32 \<Rightarrow> int \<Rightarrow> 'b \<Rightarrow> 'b \<Rightarrow> ('b delegation_msg list list, TxResponse) cmd" where
  "CreateBTCDelegation x c cfg delBtcPk fpPks pop stakingTime stakingValue stakingTxInfo slashingTx delSlashingSig unbondingTx unbondingTime
     unbondingValue unbondingSlashingTx delUnbondingSlashingSig =
     (let fpBtcPks = map (st_BIP340 x) fpPks in
      sbind (liftR (wrapper_MustGetTxSigner x c cfg)) (\<lambda>signer.
      sendHash (CreateBTCDelegationMsg
        \<lparr>md_StakerAddr = signer, md_Pop = pop, md_BtcPk = delBtcPk, md_FpBtcPkList = fpBtcPks, md_StakingTime = stakingTime,
         md_StakingValue = stakingValue, md_StakingTx = ti_Transaction stakingTxInfo,
         md_StakingTxInclusionProof = (ti_Key stakingTxInfo, ti_Proof stakingTxInfo), md_SlashingTx = slashingTx,
         md_DelegatorSlashingSig = delSlashingSig, md_UnbondingTx = unbondingTx, md_UnbondingTime = unbondingTime,
         md_UnbondingValue = unbondingValue, md_UnbondingSlashingTx = unbondingSlashingTx,
         md_DelegatorUnbondingSlashingSig = delUnbondingSlashingSig\<rparr>) c))"

definition InsertBtcBlockHeaders ::
  "('pk, 'pop) staking_ext \<Rightarrow> ('b delegation_msg, 'z) bbn_client_scheme \<Rightarrow> bbn_config \<Rightarrow> bytes list \<Rightarrow> ('b delegation_msg list list, TxResponse option) cmd" where
  "InsertBtcBlockHeaders x c cfg headers =
     sbind (liftR (wrapper_MustGetTxSigner x c cfg)) (\<lambda>signer.
     wrapper_reliablySendMsg c (InsertHeadersMsg signer headers) emptyErrs emptyErrs)"

definition SubmitCovenantSigs ::
  "('pk, 'pop) staking_ext \<Rightarrow> ('sg \<Rightarrow> 'b) \<Rightarrow> ('b delegation_msg, 'z) bbn_client_scheme \<Rightarrow> bbn_config \<Rightarrow> 'pk \<Rightarrow> string \<Rightarrow> bytes list \<Rightarrow> 'sg \<Rightarrow>
     bytes list \<Rightarrow> ('b delegation_msg list list, TxResponse) cmd" where
  "SubmitCovenantSigs x toBIP340 c cfg covPk stakingTxHash slashingSigs unbondingSig unbondingSlashingSigs =
     (let bip340UnbondingSig = toBIP340 unbondingSig in
      sbind (liftR (wrapper_MustGetTxSigner x c cfg)) (\<lambda>signer.
      sendHash (AddCovenantSigsMsg
        \<lparr>mc_Signer = signer, mc_Pk = st_BIP340 x covPk, mc_StakingTxHash = stakingTxHash, mc_SlashingTxSigs = slashingSigs,
         mc_UnbondingTxSig = bip340UnbondingSig, mc_SlashingUnbondingTxSigs = unbondingSlashingSigs\<rparr>) c))"

text \<open>The submitter of proofs is named by the caller, not by the key of the wrapper.\<close>

definition InsertSpvProofs ::
  "('b delegation_msg, 'z) bbn_client_scheme \<Rightarrow> string \<Rightarrow> 'b list \<Rightarrow> ('b delegation_msg list list, TxResponse option) cmd" where
  "InsertSpvProofs c submitter proofs = wrapper_reliablySendMsg c (InsertBTCSpvProofMsg submitter proofs) emptyErrs emptyErrs"

section \<open>Queries\<close>

definition QueryBtcLightClientTip :: "('hd, 'dl, 'dc) staking_queries \<Rightarrow> 'hd go" where
  "QueryBtcLightClientTip q = wrap ''failed to query BTC tip: '' (sx_BTCHeaderChainTip q)"

definition queryDelegationsWithStatus :: "('hd, 'dl, 'dc) staking_queries \<Rightarrow> BTCDelegationStatus \<Rightarrow> u64 \<Rightarrow> 'dl list go" where
  "queryDelegationsWithStatus q status limit =
     wrap ''failed to query BTC delegations: '' (sx_BTCDelegations q status \<lparr>pg_Key = None, pg_Limit = limit, pg_Reverse = False\<rparr>)"

definition QueryPendingDelegations :: "('hd, 'dl, 'dc) staking_queries \<Rightarrow> u64 \<Rightarrow> 'dl list go" where
  "QueryPendingDelegations q limit = queryDelegationsWithStatus q DELEGATION_PENDING limit"

definition QueryActiveDelegations :: "('hd, 'dl, 'dc) staking_queries \<Rightarrow> u64 \<Rightarrow> 'dl list go" where
  "QueryActiveDelegations q limit = queryDelegationsWithStatus q DELEGATION_ACTIVE limit"

fun covenantKeys :: "(bytes \<Rightarrow> 'pk go) \<Rightarrow> bytes list \<Rightarrow> 'pk list go" where
  "covenantKeys toBTCPK [] = Ok []"
| "covenantKeys toBTCPK (pk # pks) =
     (case toBTCPK pk of
        Err _ \<Rightarrow> Err (ErrText ''invalid covenant public key'')
      | Crash c \<Rightarrow> Crash c
      | Ok covPk \<Rightarrow> rbind (covenantKeys toBTCPK pks) (\<lambda>covPks. Ok (covPk # covPks)))"

definition QueryStakingParams :: "(bytes \<Rightarrow> 'pk go) \<Rightarrow> ('hd, 'dl, 'dc) staking_queries \<Rightarrow> ('pk, 'dc) StakingParams go" where
  "QueryStakingParams toBTCPK q =
     rbind (wrap ''failed to query params of the btccheckpoint module: '' (sx_BTCCheckpointParams q)) (\<lambda>ckptParamRes.
     rbind (wrap ''failed to query staking params: '' (sx_BTCStakingParams q)) (\<lambda>stakingParamRes.
     rbind (covenantKeys toBTCPK (sq_CovenantPks stakingParamRes)) (\<lambda>covenantPks.
     Ok \<lparr>sp_ComfirmationTimeBlocks = cq_BtcConfirmationDepth ckptParamRes,
         sp_FinalizationTimeoutBlocks = cq_CheckpointFinalizationTimeout ckptParamRes,
         sp_MinSlashingTxFeeSat = sq_MinSlashingTxFeeSat stakingParamRes, sp_CovenantPks = covenantPks,
         sp_SlashingPkScript = sq_SlashingPkScript stakingParamRes, sp_CovenantQuorum = sq_CovenantQuorum stakingParamRes,
         sp_SlashingRate = sq_SlashingRate stakingParamRes, sp_UnbondingTime = sq_UnbondingTimeBlocks stakingParamRes\<rparr>)))"

section \<open>Properties\<close>

text \<open>Every operation hands over at most one message, signed by the wrapper's key; a wrapper without a signer panics before it sends.\<close>

lemma sendHash_sends: "sendHash msg c sent = (r, sent') \<Longrightarrow> sent' = sent @ [[msg]]"
  by (auto simp: sendHash_def wrapper_reliablySendMsg_def wrapS_eq liftR_eq elim!: sbindE)

lemma SubmitCovenantSigs_signed:
  assumes "SubmitCovenantSigs x f c cfg covPk h ss us uss sent = (r, sent')"
  shows "sent' = sent \<and> (\<forall>tx. r \<noteq> Ok tx) \<or> (\<exists>m. sent' = sent @ [[AddCovenantSigsMsg m]] \<and> wrapper_MustGetTxSigner x c cfg = Ok (mc_Signer m) \<and>
    mc_Pk m = st_BIP340 x covPk)"
  using assms by (auto simp: SubmitCovenantSigs_def Let_def liftR_eq elim!: sbindE dest!: sendHash_sends)

lemma CreateBTCDelegation_signed:
  assumes "CreateBTCDelegation x c cfg pk fps pop t v info sl ss ut ui uv us uss sent = (r, sent')"
  shows "sent' = sent \<and> (\<forall>tx. r \<noteq> Ok tx) \<or> (\<exists>m. sent' = sent @ [[CreateBTCDelegationMsg m]] \<and> wrapper_MustGetTxSigner x c cfg = Ok (md_StakerAddr m) \<and>
    md_FpBtcPkList m = map (st_BIP340 x) fps)"
  using assms by (auto simp: CreateBTCDelegation_def Let_def liftR_eq elim!: sbindE dest!: sendHash_sends)

text \<open>The covenant keys are those of the chain, decoded, in the order of the chain; one invalid key fails the query.\<close>

lemma covenantKeys_Ok: "covenantKeys toBTCPK pks = Ok ks \<longleftrightarrow> list_all2 (\<lambda>pk k. toBTCPK pk = Ok k) pks ks"
  by (induction pks arbitrary: ks) (auto simp: go_simps list_all2_Cons1 split: go.splits)

lemma QueryStakingParams_Ok:
  assumes "QueryStakingParams toBTCPK q = Ok p"
  shows "\<exists>sp. sx_BTCStakingParams q = Ok sp \<and> list_all2 (\<lambda>pk k. toBTCPK pk = Ok k) (sq_CovenantPks sp) (sp_CovenantPks p) \<and>
    sp_CovenantQuorum p = sq_CovenantQuorum sp"
  using assms by (auto simp: QueryStakingParams_def go_simps covenantKeys_Ok)

end
