(* ===== verification/KV_Backend.thy ===== *)
theory KV_Backend
  imports FP_Prelude
begin

text \<open>
  The key-value database behind the stores (\<^verbatim>\<open>kvdb.Backend\<close>, a bbolt file). The code reaches it
  only through top-level buckets and transactions, so its state is the contents of the buckets.
  A bucket is its list of entries in ascending byte order of the keys, the order in which
  \<^verbatim>\<open>ForEach\<close> and cursors deliver them. What the backend itself decides is an argument
  of every operation: \<open>dbfault\<close> says whether an operation inside the transaction or the transaction
  as a whole fails, and with which error; nothing is assumed about it. \<open>kv_bucket\<close> is
  the interface of a bucket and its laws, with the lemmas the stores use proved once inside it.
\<close>

section \<open>Buckets\<close>

type_synonym bucket = "(bytes \<times> bytes) list"

definition bkt_get :: "bucket \<Rightarrow> bytes \<Rightarrow> bytes option" where
  "bkt_get b k = map_of b k"

fun bkt_put :: "bucket \<Rightarrow> bytes \<Rightarrow> bytes \<Rightarrow> bucket" where
  "bkt_put [] k v = [(k, v)]"
| "bkt_put ((k', v') # b) k v =
     (if k < k' then (k, v) # (k', v') # b
      else if k = k' then (k, v) # b
      else (k', v') # bkt_put b k v)"

definition bkt_del :: "bucket \<Rightarrow> bytes \<Rightarrow> bucket" where
  "bkt_del b k = filter (\<lambda>e. fst e \<noteq> k) b"

definition bucket_ok :: "bucket \<Rightarrow> bool" where
  "bucket_ok b = sorted_wrt (<) (map fst b)"

locale kv_bucket =
  fixes get :: "'b \<Rightarrow> bytes \<Rightarrow> bytes option"
    and put :: "'b \<Rightarrow> bytes \<Rightarrow> bytes \<Rightarrow> 'b"
    and del :: "'b \<Rightarrow> bytes \<Rightarrow> 'b"
    and entries :: "'b \<Rightarrow> (bytes \<times> bytes) list"
    and ok :: "'b \<Rightarrow> bool"
    and empty :: 'b
  assumes get_empty [simp]: "get empty k = None"
    and get_put: "get (put b k v) k' = (if k' = k then Some v else get b k')"
    and get_del: "get (del b k) k' = (if k' = k then None else get b k')"
    and entries_get: "ok b \<Longrightarrow> (k, v) \<in> set (entries b) \<longleftrightarrow> get b k = Some v"
    and entries_sorted: "ok b \<Longrightarrow> sorted_wrt (<) (map fst (entries b))"
    and ok_empty [simp]: "ok empty"
    and ok_put [simp]: "ok b \<Longrightarrow> ok (put b k v)"
    and ok_del [simp]: "ok b \<Longrightarrow> ok (del b k)"
begin

lemma get_put_same [simp]: "get (put b k v) k = Some v"
  by (simp add: get_put)

lemma get_put_other [simp]: "k' \<noteq> k \<Longrightarrow> get (put b k v) k' = get b k'"
  by (simp add: get_put)

lemma get_foldl_del: "get (foldl del b ks) k = (if k \<in> set ks then None else get b k)"
  by (induction ks arbitrary: b) (auto simp: get_del)

lemma ok_foldl_del [simp]: "ok b \<Longrightarrow> ok (foldl del b ks)"
  by (induction ks arbitrary: b) auto

lemma ok_foldl_put [simp]: "ok b \<Longrightarrow> ok (foldl (\<lambda>b (k, v). put b k v) b kvs)"
  by (induction kvs arbitrary: b) (auto split: prod.splits)

lemma get_foldl_put_notin:
  "k \<notin> fst ` set kvs \<Longrightarrow> get (foldl (\<lambda>b (k, v). put b k v) b kvs) k = get b k"
proof (induction kvs arbitrary: b)
  case (Cons kv kvs)
  then show ?case by (cases kv) (auto simp: get_put)
qed simp

lemma get_foldl_put:
  "distinct (map fst kvs) \<Longrightarrow> (k, v) \<in> set kvs \<Longrightarrow>
    get (foldl (\<lambda>b (k, v). put b k v) b kvs) k = Some v"
proof (induction kvs arbitrary: b)
  case (Cons kv kvs)
  then show ?case
    by (cases kv) (auto simp: get_foldl_put_notin)
qed simp

lemma entries_keys: "ok b \<Longrightarrow> k \<in> fst ` set (entries b) \<longleftrightarrow> get b k \<noteq> None"
  using entries_get [of b k] by (auto simp: image_iff) (metis fst_conv)

lemma entries_distinct: "ok b \<Longrightarrow> distinct (map fst (entries b))"
  using entries_sorted strict_sorted_iff by blast

end

lemma bkt_put_keys: "fst ` set (bkt_put b k v) = insert k (fst ` set b)"
  by (induction b k v rule: bkt_put.induct) auto

lemma bucket_ok_put: "bucket_ok b \<Longrightarrow> bucket_ok (bkt_put b k v)"
proof (induction b k v rule: bkt_put.induct)
  case (1 k v)
  then show ?case by (simp add: bucket_ok_def)
next
  case (2 k' v' b k v)
  consider "k < k'" | "k = k'" | "k' < k" by force
  then show ?case
  proof cases
    case 1
    with 2 show ?thesis by (auto simp: bucket_ok_def)
  next
    case 2
    with "2.prems" show ?thesis by (simp add: bucket_ok_def)
  next
    case 3
    then have "\<not> k < k'" "k \<noteq> k'" by auto
    with 2 3 bkt_put_keys [of b k v] show ?thesis by (auto simp: bucket_ok_def)
  qed
qed

lemma bkt_get_put: "bkt_get (bkt_put b k v) k' = (if k' = k then Some v else bkt_get b k')"
  by (induction b k v rule: bkt_put.induct) (auto simp: bkt_get_def)

lemma bkt_get_del: "bkt_get (bkt_del b k) k' = (if k' = k then None else bkt_get b k')"
  by (induction b) (auto simp: bkt_get_def bkt_del_def)

interpretation bk: kv_bucket bkt_get bkt_put bkt_del "\<lambda>b. b" bucket_ok "[]"
proof
  fix b :: bucket and k k' v :: bytes
  show "bkt_get [] k = None" by (simp add: bkt_get_def)
  show "bkt_get (bkt_put b k v) k' = (if k' = k then Some v else bkt_get b k')"
    by (rule bkt_get_put)
  show "bkt_get (bkt_del b k) k' = (if k' = k then None else bkt_get b k')"
    by (rule bkt_get_del)
  show "(k, v) \<in> set b \<longleftrightarrow> bkt_get b k = Some v" if "bucket_ok b"
    using that by (simp add: bkt_get_def bucket_ok_def strict_sorted_iff)
  show "sorted_wrt (<) (map fst b)" if "bucket_ok b"
    using that by (simp add: bucket_ok_def)
  show "bucket_ok []" by (simp add: bucket_ok_def)
  show "bucket_ok (bkt_put b k v)" if "bucket_ok b"
    using that by (rule bucket_ok_put)
  show "bucket_ok (bkt_del b k)" if "bucket_ok b"
    using that by (auto simp: bucket_ok_def bkt_del_def sorted_wrt_map intro: sorted_wrt_filter)
qed

section \<open>Transactions\<close>

datatype dbfault = NoFault | OpFault nat goerror | TxFault goerror

record kvdb =
  kv_open :: bool
  kv_buckets :: "bytes \<rightharpoonup> bucket"

definition not_open :: goerror where
  "not_open = ErrText ''database not open''"

text \<open>The \<open>i\<close>-th write inside a transaction.\<close>

definition tx_write :: "dbfault \<Rightarrow> nat \<Rightarrow> 'a \<Rightarrow> 'a go" where
  "tx_write flt i a =
     (case flt of OpFault j e \<Rightarrow> if i = j then Err e else Ok a | _ \<Rightarrow> Ok a)"

definition tx_put :: "dbfault \<Rightarrow> nat \<Rightarrow> bucket \<Rightarrow> bytes \<Rightarrow> bytes \<Rightarrow> bucket go" where
  "tx_put flt i b k v = tx_write flt i (bkt_put b k v)"

definition tx_del :: "dbfault \<Rightarrow> nat \<Rightarrow> bucket \<Rightarrow> bytes \<Rightarrow> bucket go" where
  "tx_del flt i b k = tx_write flt i (bkt_del b k)"

definition tx_create_bucket ::
  "dbfault \<Rightarrow> nat \<Rightarrow> (bytes \<rightharpoonup> bucket) \<Rightarrow> bytes \<Rightarrow> (bytes \<rightharpoonup> bucket) go" where
  "tx_create_bucket flt i d n =
     tx_write flt i (case d n of None \<Rightarrow> d(n \<mapsto> []) | Some _ \<Rightarrow> d)"

text \<open>\<^verbatim>\<open>tx.ReadBucket\<close> and \<^verbatim>\<open>tx.ReadWriteBucket\<close> with the check for a missing bucket.\<close>

definition read_bucket :: "bytes \<Rightarrow> sentinel \<Rightarrow> (bucket \<Rightarrow> 'a go) \<Rightarrow> (bytes \<rightharpoonup> bucket) \<Rightarrow> 'a go" where
  "read_bucket n corrupted f d =
     (case d n of None \<Rightarrow> Err (Sentinel corrupted) | Some b \<Rightarrow> f b)"

definition write_bucket ::
  "bytes \<Rightarrow> sentinel \<Rightarrow> (bucket \<Rightarrow> bucket go) \<Rightarrow> (bytes \<rightharpoonup> bucket) \<Rightarrow> (bytes \<rightharpoonup> bucket) go" where
  "write_bucket n corrupted f d =
     (case d n of None \<Rightarrow> Err (Sentinel corrupted) | Some b \<Rightarrow> rbind (f b) (\<lambda>b'. Ok (d(n \<mapsto> b'))))"

text \<open>\<^verbatim>\<open>db.View\<close>: a read-only transaction.\<close>

definition kv_view :: "dbfault \<Rightarrow> ((bytes \<rightharpoonup> bucket) \<Rightarrow> 'a go) \<Rightarrow> kvdb \<Rightarrow> 'a go" where
  "kv_view flt f db =
     (if \<not> kv_open db then Err not_open
      else case flt of TxFault e \<Rightarrow> Err e | _ \<Rightarrow> f (kv_buckets db))"

text \<open>\<^verbatim>\<open>kvdb.Batch\<close> and \<^verbatim>\<open>db.Update\<close>: the writes of \<open>f\<close> are committed together when \<open>f\<close> returns no
  error and the commit succeeds, and are dropped otherwise.\<close>

definition kv_update ::
  "dbfault \<Rightarrow> ((bytes \<rightharpoonup> bucket) \<Rightarrow> (bytes \<rightharpoonup> bucket) go) \<Rightarrow> (kvdb, unit) cmd" where
  "kv_update flt f db =
     (if \<not> kv_open db then (Err not_open, db)
      else case f (kv_buckets db) of
        Err e \<Rightarrow> (Err e, db)
      | Crash c \<Rightarrow> (Crash c, db)
      | Ok d \<Rightarrow> (case flt of TxFault e \<Rightarrow> (Err e, db) | _ \<Rightarrow> (Ok (), db\<lparr>kv_buckets := d\<rparr>)))"

definition kv_close :: "goerror option \<Rightarrow> (kvdb, unit) cmd" where
  "kv_close flt db = (case flt of Some e \<Rightarrow> (Err e, db) | None \<Rightarrow> (Ok (), db\<lparr>kv_open := False\<rparr>))"

definition kv_ok :: "kvdb \<Rightarrow> bool" where
  "kv_ok db = (\<forall>n b. kv_buckets db n = Some b \<longrightarrow> bucket_ok b)"

definition kv_bucket_of :: "kvdb \<Rightarrow> bytes \<Rightarrow> bytes \<Rightarrow> bytes option" where
  "kv_bucket_of db n k = (case kv_buckets db n of None \<Rightarrow> None | Some b \<Rightarrow> bkt_get b k)"

lemma tx_write_Ok [go_simps]:
  "tx_write flt i a = Ok a' \<longleftrightarrow> (\<forall>e. flt \<noteq> OpFault i e) \<and> a' = a"
  by (auto simp: tx_write_def split: dbfault.splits)

lemma tx_put_Ok [go_simps]:
  "tx_put flt i b k v = Ok b' \<longleftrightarrow> (\<forall>e. flt \<noteq> OpFault i e) \<and> b' = bkt_put b k v"
  by (simp add: tx_put_def tx_write_Ok)

lemma tx_del_Ok [go_simps]:
  "tx_del flt i b k = Ok b' \<longleftrightarrow> (\<forall>e. flt \<noteq> OpFault i e) \<and> b' = bkt_del b k"
  by (simp add: tx_del_def tx_write_Ok)

lemma tx_NoFault [simp]:
  "tx_write NoFault i a = Ok a"
  "tx_put NoFault i b k v = Ok (bkt_put b k v)" "tx_del NoFault i b k = Ok (bkt_del b k)"
  by (simp_all add: tx_write_def tx_put_def tx_del_def)

lemma tx_write_not_Crash [simp]:
  "tx_write flt i a \<noteq> Crash c" "tx_put flt i b k v \<noteq> Crash c" "tx_del flt i b k \<noteq> Crash c"
  by (simp_all add: tx_write_def tx_put_def tx_del_def split: dbfault.splits)

lemma read_bucket_Ok [go_simps]:
  "read_bucket n c f d = Ok a \<longleftrightarrow> (\<exists>b. d n = Some b \<and> f b = Ok a)"
  by (auto simp: read_bucket_def split: option.splits)

lemma write_bucket_Ok [go_simps]:
  "write_bucket n c f d = Ok d' \<longleftrightarrow> (\<exists>b b'. d n = Some b \<and> f b = Ok b' \<and> d' = d(n \<mapsto> b'))"
  by (auto simp: write_bucket_def rbind_eq_Ok split: option.splits)

lemma kv_view_NoFault [simp]: "kv_open db \<Longrightarrow> kv_view NoFault f db = f (kv_buckets db)"
  by (simp add: kv_view_def)

lemma kv_view_Ok [go_simps]:
  "kv_view flt f db = Ok a \<longleftrightarrow> kv_open db \<and> (\<forall>e. flt \<noteq> TxFault e) \<and> f (kv_buckets db) = Ok a"
  by (auto simp: kv_view_def split: dbfault.splits)

lemma kv_update_Ok [go_simps]:
  "kv_update flt f db = (Ok u, db') \<longleftrightarrow>
     kv_open db \<and> (\<forall>e. flt \<noteq> TxFault e) \<and>
     (\<exists>d. f (kv_buckets db) = Ok d \<and> db' = db\<lparr>kv_buckets := d\<rparr>)"
  by (auto simp: kv_update_def split: go.splits dbfault.splits)

text \<open>A transaction that does not succeed leaves the database as it was.\<close>

lemma kv_update_atomic: "fst (kv_update flt f db) \<noteq> Ok u \<Longrightarrow> snd (kv_update flt f db) = db"
  by (auto simp: kv_update_def split: go.splits dbfault.splits)

lemma kv_update_cases:
  obtains "snd (kv_update flt f db) = db" "\<And>u. fst (kv_update flt f db) \<noteq> Ok u"
  | d where "kv_open db" "f (kv_buckets db) = Ok d"
      "kv_update flt f db = (Ok (), db\<lparr>kv_buckets := d\<rparr>)"
  by (cases "f (kv_buckets db)"; cases "kv_open db"; cases flt) (auto simp: kv_update_def)

lemma kv_update_open [simp]: "kv_open (snd (kv_update flt f db)) = kv_open db"
  by (rule kv_update_cases [of flt f db]) auto

text \<open>An update of one bucket: what holds of its contents afterwards, and of the other buckets.\<close>

lemma kv_update_bucket_inv:
  assumes "kv_ok db" and "\<And>b b'. bucket_ok b \<Longrightarrow> f b = Ok b' \<Longrightarrow> bucket_ok b'"
  shows "kv_ok (snd (kv_update flt (write_bucket n c f) db))"
proof (cases rule: kv_update_cases [of flt "write_bucket n c f" db])
  case 1
  with assms show ?thesis by simp
next
  case (2 d)
  then obtain b b' where "kv_buckets db n = Some b" "f b = Ok b'" "d = (kv_buckets db)(n \<mapsto> b')"
    by (auto simp: write_bucket_Ok)
  moreover from this assms have "bucket_ok b'" by (auto simp: kv_ok_def)
  ultimately show ?thesis using 2 assms by (simp add: kv_ok_def)
qed

lemma kv_update_bucket_other:
  "n' \<noteq> n \<Longrightarrow> kv_buckets (snd (kv_update flt (write_bucket n c f) db)) n' = kv_buckets db n'"
  by (cases rule: kv_update_cases [of flt "write_bucket n c f" db]) (auto simp: write_bucket_Ok)

lemma kv_update_bucket_exists:
  "kv_buckets db n' \<noteq> None \<Longrightarrow> kv_buckets (snd (kv_update flt (write_bucket n c f) db)) n' \<noteq> None"
  by (cases rule: kv_update_cases [of flt "write_bucket n c f" db]) (auto simp: write_bucket_Ok)

section \<open>Typed buckets\<close>

text \<open>The abstract content of a bucket whose values are encoded records.\<close>

definition decodedOf :: "(bytes \<Rightarrow> 'a go) \<Rightarrow> kvdb \<Rightarrow> bytes \<Rightarrow> bytes \<Rightarrow> 'a option" where
  "decodedOf dec db n k = (case kv_bucket_of db n k of
     None \<Rightarrow> None
   | Some v \<Rightarrow> (case dec v of Ok a \<Rightarrow> Some a | _ \<Rightarrow> None))"

lemma decodedOf_bucket:
  "kv_buckets db n = Some b \<Longrightarrow> decodedOf dec db n k =
    (case bkt_get b k of None \<Rightarrow> None | Some v \<Rightarrow> (case dec v of Ok a \<Rightarrow> Some a | _ \<Rightarrow> None))"
  by (simp add: decodedOf_def kv_bucket_of_def)

lemma decodedOf_put:
  assumes "kv_buckets db n = Some b" and "dec v = Ok a"
    and "db' = db\<lparr>kv_buckets := (kv_buckets db)(n \<mapsto> bkt_put b k v)\<rparr>"
  shows "decodedOf dec db' n = (decodedOf dec db n)(k \<mapsto> a)"
  using assms by (auto simp: decodedOf_def kv_bucket_of_def fun_eq_iff bk.get_put)

end
