(* ===== verification/Eots_Store.thy ===== *)
theory Eots_Store
  imports Big_Endian KV_Backend
begin

text \<open>
  The EOTS manager's database (\<^verbatim>\<open>eotsmanager/store\<close>): the key-name bucket and the sign-record
  bucket, one definition per method of \<^verbatim>\<open>EOTSStore\<close>. The encodings the store calls are fields of
  \<open>store_ext\<close>; \<open>store_codec\<close> states what is documented of them (big-endian heights, and that
  unmarshalling inverts marshalling). \<open>wf_store\<close> is the well-formedness invariant, \<open>signRecords\<close>
  the abstract content (chain, key and height to record), and the refinement lemmas say what each
  method does to it.
\<close>

section \<open>Data\<close>

definition eotsBucketName :: bytes where
  "eotsBucketName = ''fpKeyNames''"

definition signRecordBucketName :: bytes where
  "signRecordBucketName = ''signRecord''"

text \<open>The protobuf message \<^verbatim>\<open>proto.SigningRecord\<close> and the store's own \<^verbatim>\<open>SigningRecord\<close>. The timestamp is an \<^verbatim>\<open>int64\<close>, as
  the word of its two's complement; it is copied and never computed with.\<close>

record pb_SigningRecord =
  pb_Msg :: bytes
  pb_EotsSig :: bytes
  pb_Timestamp :: u64

record SigningRecord =
  SR_Msg :: bytes
  SR_Signature :: bytes
  SR_Timestamp :: u64

record BatchSignRecord =
  BR_Height :: u64
  BR_ChainID :: bytes
  BR_Msg :: bytes
  BR_EotsPk :: bytes
  BR_Sig :: bytes

definition FromProto :: "pb_SigningRecord \<Rightarrow> SigningRecord" where
  "FromProto sr = \<lparr>SR_Msg = pb_Msg sr, SR_Signature = pb_EotsSig sr, SR_Timestamp = pb_Timestamp sr\<rparr>"

text \<open>The functions of other packages the store calls: \<^verbatim>\<open>sdk.Uint64ToBigEndian\<close>,
  \<^verbatim>\<open>sdk.BigEndianToUint64\<close>, \<^verbatim>\<open>pm.Marshal\<close> and \<^verbatim>\<open>pm.Unmarshal\<close>.\<close>

record store_ext =
  u64be :: "u64 \<Rightarrow> bytes"
  beu64 :: "bytes \<Rightarrow> u64"
  marshalSR :: "pb_SigningRecord \<Rightarrow> bytes go"
  unmarshalSR :: "bytes \<Rightarrow> pb_SigningRecord go"

definition getSignRecordKey :: "'z store_ext_scheme \<Rightarrow> bytes \<Rightarrow> bytes \<Rightarrow> u64 \<Rightarrow> bytes" where
  "getSignRecordKey x chainID pk height = chainID @ pk @ u64be x height"

section \<open>Operations\<close>

definition initBuckets :: "dbfault \<Rightarrow> (kvdb, unit) cmd" where
  "initBuckets flt = wrapS ''failed to initialize buckets: '' (kv_update flt (\<lambda>d.
     rbind (wrap ''failed to create eots bucket: '' (tx_create_bucket flt 0 d eotsBucketName)) (\<lambda>d.
     wrap ''failed to create sign record bucket: ''
       (tx_create_bucket flt 1 d signRecordBucketName))))"

definition NewEOTSStore :: "dbfault \<Rightarrow> kvdb \<Rightarrow> kvdb go" where
  "NewEOTSStore flt db = (case initBuckets flt db of (r, db') \<Rightarrow> rbind r (\<lambda>_. Ok db'))"

definition saveEOTSKeyName :: "dbfault \<Rightarrow> bucket \<Rightarrow> bytes \<Rightarrow> bytes \<Rightarrow> bucket go" where
  "saveEOTSKeyName flt eotsBucket btcPk keyName =
     (if keyName = [] then Err (ErrText ''cannot save empty key name'')
      else wrap ''failed to put key name in bucket: '' (tx_put flt 0 eotsBucket btcPk keyName))"

definition AddEOTSKeyName ::
  "('pk \<Rightarrow> bytes) \<Rightarrow> dbfault \<Rightarrow> 'pk \<Rightarrow> bytes \<Rightarrow> (kvdb, unit) cmd" where
  "AddEOTSKeyName serializePubKey flt btcPk keyName =
     (let pkBytes = serializePubKey btcPk in
      wrapS ''failed to add EOTS key name: '' (kv_update flt
        (write_bucket eotsBucketName ErrCorruptedEOTSDb (\<lambda>eotsBucket.
          if (case bkt_get eotsBucket pkBytes of None \<Rightarrow> [] | Some b \<Rightarrow> b) = keyName
          then Err (Sentinel ErrDuplicateEOTSKeyRecord)
          else if bkt_get eotsBucket pkBytes \<noteq> None then Err (Sentinel ErrDuplicateEOTSKeyName)
          else saveEOTSKeyName flt eotsBucket pkBytes keyName))))"

definition GetEOTSKeyName :: "dbfault \<Rightarrow> bytes \<Rightarrow> kvdb \<Rightarrow> bytes go" where
  "GetEOTSKeyName flt pk db =
     wrap ''failed to get EOTS key name: '' (kv_view flt
       (read_bucket eotsBucketName ErrCorruptedEOTSDb (\<lambda>eotsBucket.
         case bkt_get eotsBucket pk of
           None \<Rightarrow> Err (Sentinel ErrEOTSKeyNameNotFound)
         | Some keyNameBytes \<Rightarrow> Ok keyNameBytes)) db)"

text \<open>Go's \<^verbatim>\<open>result[string(v)] = k\<close> in key order; entries of a top-level bucket without nested buckets
  have neither nil keys nor nil values, so the callback's error is not reachable.\<close>

definition GetAllEOTSKeyNames :: "dbfault \<Rightarrow> kvdb \<Rightarrow> (bytes \<rightharpoonup> bytes) go" where
  "GetAllEOTSKeyNames flt db =
     wrap ''failed to get EOTS key names: '' (kv_view flt
       (read_bucket eotsBucketName ErrCorruptedEOTSDb (\<lambda>eotsBucket.
         Ok (foldl (\<lambda>result (k, v). result(v \<mapsto> k)) Map.empty eotsBucket))) db)"

definition SaveSignRecord ::
  "'z store_ext_scheme \<Rightarrow> dbfault \<Rightarrow> u64 \<Rightarrow> u64 \<Rightarrow> bytes \<Rightarrow> bytes \<Rightarrow> bytes \<Rightarrow> bytes \<Rightarrow> (kvdb, unit) cmd"
where
  "SaveSignRecord x flt nowMilli height chainID msg publicKey signature =
     (let key = getSignRecordKey x chainID publicKey height in
      wrapS ''failed to save sign record: '' (kv_update flt
        (write_bucket signRecordBucketName ErrCorruptedEOTSDb (\<lambda>bucket.
          if bkt_get bucket key \<noteq> None then Err (Sentinel ErrDuplicateSignRecord)
          else rbind (wrap ''failed to marshal signing record: ''
                 (marshalSR x \<lparr>pb_Msg = msg, pb_EotsSig = signature, pb_Timestamp = nowMilli\<rparr>))
               (\<lambda>marshalled. tx_put flt 0 bucket key marshalled)))))"

definition GetSignRecord ::
  "'z store_ext_scheme \<Rightarrow> dbfault \<Rightarrow> bytes \<Rightarrow> bytes \<Rightarrow> u64 \<Rightarrow> kvdb \<Rightarrow> SigningRecord option go" where
  "GetSignRecord x flt eotsPk chainID height db =
     (let key = getSignRecordKey x chainID eotsPk height in
      case kv_view flt (read_bucket signRecordBucketName ErrCorruptedEOTSDb (\<lambda>bucket.
             case bkt_get bucket key of
               None \<Rightarrow> Err (Sentinel ErrSignRecordNotFound)
             | Some signRecordBytes \<Rightarrow> unmarshalSR x signRecordBytes)) db of
        Err e \<Rightarrow> if error_is e ErrSignRecordNotFound then Ok None
                 else Err (Wrapf ''failed to get sign record: '' e)
      | Crash c \<Rightarrow> Crash c
      | Ok protoRes \<Rightarrow> Ok (Some (FromProto protoRes)))"

fun getRecords ::
  "'z store_ext_scheme \<Rightarrow> bytes \<Rightarrow> bytes \<Rightarrow> bucket \<Rightarrow> u64 list \<Rightarrow> (u64 \<rightharpoonup> SigningRecord) \<Rightarrow>
     (u64 \<rightharpoonup> SigningRecord) go" where
  "getRecords x eotsPk chainID bucket [] results = Ok results"
| "getRecords x eotsPk chainID bucket (height # heights) results =
     (case bkt_get bucket (getSignRecordKey x chainID eotsPk height) of
        None \<Rightarrow> getRecords x eotsPk chainID bucket heights results
      | Some signRecordBytes \<Rightarrow>
          rbind (wrap (''failed to unmarshal sign record for height '' @ fmt_u64 height @ '': '')
                  (unmarshalSR x signRecordBytes))
            (\<lambda>protoRes. getRecords x eotsPk chainID bucket heights
               (results(height \<mapsto> FromProto protoRes))))"

definition GetSignRecordsBatch ::
  "'z store_ext_scheme \<Rightarrow> dbfault \<Rightarrow> bytes \<Rightarrow> bytes \<Rightarrow> u64 list \<Rightarrow> kvdb \<Rightarrow> (u64 \<rightharpoonup> SigningRecord) go" where
  "GetSignRecordsBatch x flt eotsPk chainID heights db =
     wrap ''failed to get sign records batch: '' (kv_view flt
       (read_bucket signRecordBucketName ErrCorruptedEOTSDb (\<lambda>bucket.
         getRecords x eotsPk chainID bucket heights Map.empty)) db)"

fun saveRecords ::
  "'z store_ext_scheme \<Rightarrow> dbfault \<Rightarrow> u64 \<Rightarrow> nat \<Rightarrow> BatchSignRecord list \<Rightarrow> bucket \<Rightarrow> bucket go" where
  "saveRecords x flt timestamp i [] bucket = Ok bucket"
| "saveRecords x flt timestamp i (r # records) bucket =
     (let key = getSignRecordKey x (BR_ChainID r) (BR_EotsPk r) (BR_Height r) in
      if bkt_get bucket key \<noteq> None
      then Err (Wrapf (''duplicate sign record for height '' @ fmt_u64 (BR_Height r) @ '': '')
                 (Sentinel ErrDuplicateSignRecord))
      else rbind (wrap (''failed to marshal sign record for height '' @ fmt_u64 (BR_Height r) @ '': '')
             (marshalSR x \<lparr>pb_Msg = BR_Msg r, pb_EotsSig = BR_Sig r, pb_Timestamp = timestamp\<rparr>))
        (\<lambda>marshalled. rbind
           (wrap (''failed to save sign record for height '' @ fmt_u64 (BR_Height r) @ '': '')
             (tx_put flt i bucket key marshalled))
           (\<lambda>bucket. saveRecords x flt timestamp (Suc i) records bucket)))"

definition SaveSignRecordsBatch ::
  "'z store_ext_scheme \<Rightarrow> dbfault \<Rightarrow> u64 \<Rightarrow> BatchSignRecord list \<Rightarrow> (kvdb, unit) cmd" where
  "SaveSignRecordsBatch x flt nowMilli records db =
     (if records = [] then (Ok (), db)
      else wrapS ''failed to save sign records batch: '' (kv_update flt
        (write_bucket signRecordBucketName ErrCorruptedEOTSDb
          (saveRecords x flt nowMilli 0 records))) db)"

definition CloseStore :: "goerror option \<Rightarrow> (kvdb, unit) cmd" where
  "CloseStore flt = wrapS ''failed to close EOTS store database: '' (kv_close flt)"

definition hasKeyPrefix :: "bytes \<Rightarrow> bytes \<Rightarrow> bytes \<Rightarrow> bool" where
  "hasKeyPrefix key chainID eotsPk =
     (if length key < length chainID + length eotsPk then False
      else if take (length chainID) key \<noteq> chainID then False
      else take (length eotsPk) (drop (length chainID) key) = eotsPk)"

definition ExtractHeightFromKey :: "'z store_ext_scheme \<Rightarrow> bytes \<Rightarrow> u64 go" where
  "ExtractHeightFromKey x key =
     (if length key < 8 then Err (ErrText ''key too short to contain height'')
      else Ok (beu64 x (drop (length key - 8) key)))"

fun collectKeys ::
  "'z store_ext_scheme \<Rightarrow> bytes \<Rightarrow> bytes \<Rightarrow> u64 \<Rightarrow> bucket \<Rightarrow> bytes list go" where
  "collectKeys x eotsPk chainID fromHeight [] = Ok []"
| "collectKeys x eotsPk chainID fromHeight ((k, v) # es) =
     (if \<not> hasKeyPrefix k chainID eotsPk then collectKeys x eotsPk chainID fromHeight es
      else rbind (ExtractHeightFromKey x k) (\<lambda>height.
             rbind (collectKeys x eotsPk chainID fromHeight es) (\<lambda>keys.
               Ok (if height \<ge> fromHeight then k # keys else keys))))"

fun deleteKeys :: "dbfault \<Rightarrow> nat \<Rightarrow> bytes list \<Rightarrow> bucket \<Rightarrow> bucket go" where
  "deleteKeys flt i [] bucket = Ok bucket"
| "deleteKeys flt i (key # keys) bucket =
     rbind (wrap ''failed to delete sign record: '' (tx_del flt i bucket key))
       (deleteKeys flt (Suc i) keys)"

definition DeleteSignRecordsFromHeight ::
  "'z store_ext_scheme \<Rightarrow> dbfault \<Rightarrow> bytes option \<Rightarrow> bytes option \<Rightarrow> u64 \<Rightarrow> (kvdb, unit) cmd" where
  "DeleteSignRecordsFromHeight x flt eotsPk chainID fromHeight db =
     (case (eotsPk, chainID) of
        (Some eotsPk, Some chainID) \<Rightarrow>
          wrapS ''failed to delete sign records from height: '' (kv_update flt
            (write_bucket signRecordBucketName ErrCorruptedEOTSDb (\<lambda>bucket.
              rbind (wrap ''failed to iterate over sign records: ''
                       (collectKeys x eotsPk chainID fromHeight bucket))
                (\<lambda>keysToDelete. deleteKeys flt 0 keysToDelete bucket)))) db
      | _ \<Rightarrow> (Err (ErrText ''eotsPk and chainID must not be nil''), db))"

text \<open>
  \<open>BackupDB\<close> writes a copy of the database to a file. The state is the set of backup files, by
  directory and name (\<^verbatim>\<open>filepath.Join\<close> of the two); a file whose copy failed has no content that can
  be relied on. \<open>mkdirRes\<close>, \<open>createRes\<close> and \<open>copyRes\<close> are the answers of the operating system and of
  \<^verbatim>\<open>db.Copy\<close>, \<open>timestamp\<close> is the formatted time.
\<close>

type_synonym backups = "bytes \<times> bytes \<rightharpoonup> (bytes \<rightharpoonup> bucket) option"

definition BackupDB ::
  "unit go \<Rightarrow> unit go \<Rightarrow> unit go \<Rightarrow> bytes \<Rightarrow> bytes \<Rightarrow> bytes \<Rightarrow> kvdb \<Rightarrow> (backups, bytes) cmd" where
  "BackupDB mkdirRes createRes copyRes timestamp dbPath backupDir db fs =
     (if dbPath = [] then (Err (ErrText ''database path must be provided''), fs)
      else if backupDir = [] then (Err (ErrText ''backup dir path must be provided''), fs)
      else let backupName = ''eots_'' @ timestamp @ ''.db''; backupPath = (backupDir, backupName) in
        case wrap ''failed to create backup directory: '' mkdirRes of
          Err e \<Rightarrow> (Err e, fs) | Crash c \<Rightarrow> (Crash c, fs)
        | Ok _ \<Rightarrow> (case wrap ''failed to create backup file: '' createRes of
            Err e \<Rightarrow> (Err e, fs) | Crash c \<Rightarrow> (Crash c, fs)
          | Ok _ \<Rightarrow> (case wrap ''failed to copy database contents: '' copyRes of
              Err e \<Rightarrow> (Err e, fs(backupPath \<mapsto> None)) | Crash c \<Rightarrow> (Crash c, fs(backupPath \<mapsto> None))
            | Ok _ \<Rightarrow> (Ok backupName, fs(backupPath \<mapsto> Some (kv_buckets db))))))"

section \<open>Well-formedness and abstract content\<close>

text \<open>The invariant: the database is open, its buckets are in key order and both exist, and every
  sign record can be decoded and has a key long enough to end in a height.\<close>

definition wf_store :: "'z store_ext_scheme \<Rightarrow> kvdb \<Rightarrow> bool" where
  "wf_store x db \<longleftrightarrow> kv_open db \<and> kv_ok db \<and> kv_buckets db eotsBucketName \<noteq> None \<and>
     (\<exists>b. kv_buckets db signRecordBucketName = Some b \<and>
       (\<forall>(k, v) \<in> set b. 8 \<le> length k \<and> (\<exists>p. unmarshalSR x v = Ok p)))"

text \<open>The record stored under a raw key, and the record of a chain, key and height.\<close>

definition recordOf :: "'z store_ext_scheme \<Rightarrow> kvdb \<Rightarrow> bytes \<Rightarrow> SigningRecord option" where
  "recordOf x db key = (case kv_bucket_of db signRecordBucketName key of
     None \<Rightarrow> None
   | Some v \<Rightarrow> (case unmarshalSR x v of Ok p \<Rightarrow> Some (FromProto p) | _ \<Rightarrow> None))"

definition signRecords ::
  "'z store_ext_scheme \<Rightarrow> kvdb \<Rightarrow> bytes \<Rightarrow> bytes \<Rightarrow> u64 \<Rightarrow> SigningRecord option" where
  "signRecords x db chainID pk h = recordOf x db (getSignRecordKey x chainID pk h)"

definition keyNameOf :: "kvdb \<Rightarrow> bytes \<Rightarrow> bytes option" where
  "keyNameOf db pk = kv_bucket_of db eotsBucketName pk"

section \<open>What the encodings promise\<close>

locale store_codec = be_codec "u64be x" "beu64 x" for x :: "'z store_ext_scheme" +
  assumes record_round_trip: "\<exists>b. marshalSR x r = Ok b \<and> unmarshalSR x b = Ok r"
begin

lemma marshal_decodes: "marshalSR x r = Ok b \<Longrightarrow> unmarshalSR x b = Ok r"
  using record_round_trip [of r] by auto

lemma marshal_succeeds: obtains b where "marshalSR x r = Ok b" "unmarshalSR x b = Ok r"
  using record_round_trip [of r] by auto

lemma key_inject:
  assumes "length chainID = length chainID'" and "length pk = length pk'"
  shows "getSignRecordKey x chainID pk h = getSignRecordKey x chainID' pk' h' \<longleftrightarrow>
    chainID = chainID' \<and> pk = pk' \<and> h = h'"
  using assms by (simp add: getSignRecordKey_def)

lemma key_height_inject:
  "getSignRecordKey x chainID pk h = getSignRecordKey x chainID pk h' \<longleftrightarrow> h = h'"
  by (simp add: key_inject)

lemma extract_key [simp]:
  "ExtractHeightFromKey x (getSignRecordKey x chainID pk h) = Ok h"
  by (simp add: ExtractHeightFromKey_def getSignRecordKey_def)

lemma hasKeyPrefix_key [simp]: "hasKeyPrefix (getSignRecordKey x chainID pk h) chainID pk"
  by (simp add: hasKeyPrefix_def getSignRecordKey_def)

lemma hasKeyPrefix_key_iff:
  assumes "length chainID' = length chainID" and "length pk' = length pk"
  shows "hasKeyPrefix (getSignRecordKey x chainID' pk' h) chainID pk \<longleftrightarrow> chainID' = chainID \<and> pk' = pk"
  using assms by (auto simp: hasKeyPrefix_def getSignRecordKey_def)

lemma length_key [simp]:
  "length (getSignRecordKey x chainID pk h) = length chainID + length pk + 8"
  by (simp add: getSignRecordKey_def)

end

section \<open>The invariant is preserved\<close>

lemma bucket_names_distinct [simp]:
  "eotsBucketName \<noteq> signRecordBucketName" "signRecordBucketName \<noteq> eotsBucketName"
  by (simp_all add: eotsBucketName_def signRecordBucketName_def)

lemma wf_storeE:
  assumes "wf_store x db"
  obtains b kb where "kv_open db" "kv_ok db" "kv_buckets db eotsBucketName = Some kb"
    "kv_buckets db signRecordBucketName = Some b" "bucket_ok b" "bucket_ok kb"
    "\<And>k v. (k, v) \<in> set b \<Longrightarrow> 8 \<le> length k \<and> (\<exists>p. unmarshalSR x v = Ok p)"
  using assms unfolding wf_store_def kv_ok_def by fast

lemma wf_store_get:
  "wf_store x db \<Longrightarrow> kv_buckets db signRecordBucketName = Some b \<Longrightarrow> bkt_get b k = Some v \<Longrightarrow>
    8 \<le> length k \<and> (\<exists>p. unmarshalSR x v = Ok p)"
  by (erule wf_storeE) (metis bk.entries_get option.inject)

text \<open>An update of the sign-record bucket whose new entries decode keeps the store well-formed.\<close>

lemma wf_store_update_records:
  assumes wf: "wf_store x db"
    and ok: "\<And>b b'. bucket_ok b \<Longrightarrow> f b = Ok b' \<Longrightarrow> bucket_ok b'"
    and new: "\<And>b b' k v. bucket_ok b \<Longrightarrow> f b = Ok b' \<Longrightarrow> bkt_get b' k = Some v \<Longrightarrow>
      bkt_get b k = Some v \<or> 8 \<le> length k \<and> (\<exists>p. unmarshalSR x v = Ok p)"
  shows "wf_store x (snd (kv_update flt (write_bucket signRecordBucketName c f) db))"
proof (cases rule: kv_update_cases [of flt "write_bucket signRecordBucketName c f" db])
  case 1
  with wf show ?thesis by simp
next
  case (2 d)
  from wf obtain b kb where b: "kv_buckets db eotsBucketName = Some kb" "kv_ok db"
    "kv_buckets db signRecordBucketName = Some b" "bucket_ok b" by (rule wf_storeE)
  with 2 obtain b' where f: "f b = Ok b'" "d = (kv_buckets db)(signRecordBucketName \<mapsto> b')"
    by (auto simp: write_bucket_Ok)
  have ok': "bucket_ok b'" using ok b f by blast
  have "8 \<le> length k \<and> (\<exists>p. unmarshalSR x v = Ok p)" if "(k, v) \<in> set b'" for k v
    using that new [OF b(4) f(1), of k v] wf_store_get [OF wf b(3)] bk.entries_get [OF ok'] by blast
  with 2 b f ok' show ?thesis by (auto simp: wf_store_def kv_ok_def)
qed

lemma wf_store_update_names:
  assumes wf: "wf_store x db" and ok: "\<And>b b'. bucket_ok b \<Longrightarrow> f b = Ok b' \<Longrightarrow> bucket_ok b'"
  shows "wf_store x (snd (kv_update flt (write_bucket eotsBucketName c f) db))"
proof -
  let ?db = "snd (kv_update flt (write_bucket eotsBucketName c f) db)"
  have "kv_ok ?db" using wf ok by (intro kv_update_bucket_inv) (auto simp: wf_store_def)
  moreover have "kv_buckets ?db signRecordBucketName = kv_buckets db signRecordBucketName"
    by (rule kv_update_bucket_other) simp
  moreover have "kv_buckets ?db eotsBucketName \<noteq> None"
    using wf by (intro kv_update_bucket_exists) (simp add: wf_store_def)
  ultimately show ?thesis using wf by (simp add: wf_store_def)
qed

lemma wf_store_AddEOTSKeyName:
  "wf_store x db \<Longrightarrow> wf_store x (snd (AddEOTSKeyName ser flt pk n db))"
  unfolding AddEOTSKeyName_def Let_def snd_wrapS
  by (rule wf_store_update_names)
     (auto simp: saveEOTSKeyName_def go_simps intro: bk.ok_put split: if_splits)

text \<open>The bucket after a successful loop of \<open>saveRecords\<close>: all keys were new and different.\<close>

definition recordKey :: "'z store_ext_scheme \<Rightarrow> BatchSignRecord \<Rightarrow> bytes" where
  "recordKey x r = getSignRecordKey x (BR_ChainID r) (BR_EotsPk r) (BR_Height r)"

definition pbRecord :: "u64 \<Rightarrow> BatchSignRecord \<Rightarrow> pb_SigningRecord" where
  "pbRecord ts r = \<lparr>pb_Msg = BR_Msg r, pb_EotsSig = BR_Sig r, pb_Timestamp = ts\<rparr>"

lemma saveRecords_Ok:
  "saveRecords x flt ts i rs b = Ok b' \<Longrightarrow>
    distinct (map (recordKey x) rs) \<and> (\<forall>r \<in> set rs. bkt_get b (recordKey x r) = None) \<and>
    (\<forall>r \<in> set rs. \<exists>m. marshalSR x (pbRecord ts r) = Ok m \<and> bkt_get b' (recordKey x r) = Some m) \<and>
    (\<forall>k. k \<notin> recordKey x ` set rs \<longrightarrow> bkt_get b' k = bkt_get b k)"
proof (induction rs arbitrary: i b)
  case Nil
  then show ?case by simp
next
  case (Cons r rs)
  then obtain m where none: "bkt_get b (recordKey x r) = None"
    and m: "marshalSR x (pbRecord ts r) = Ok m"
    and rest: "saveRecords x flt ts (Suc i) rs (bkt_put b (recordKey x r) m) = Ok b'"
    by (auto simp: Let_def go_simps recordKey_def pbRecord_def split: if_splits)
  note IH = Cons.IH [OF rest]
  from IH have nin: "recordKey x r \<notin> recordKey x ` set rs"
    by (metis (no_types, lifting) bk.get_put_same imageE option.distinct(1))
  have "bkt_get b (recordKey x r') = None" if "r' \<in> set rs" for r'
    using that IH nin by (metis bk.get_put_other image_eqI)
  with IH nin none m show ?case by auto
qed

lemma saveRecords_bucket_ok:
  "bucket_ok b \<Longrightarrow> saveRecords x flt ts i rs b = Ok b' \<Longrightarrow> bucket_ok b'"
proof (induction rs arbitrary: i b)
  case (Cons r rs)
  then obtain m where "saveRecords x flt ts (Suc i) rs (bkt_put b (recordKey x r) m) = Ok b'"
    by (auto simp: Let_def go_simps recordKey_def split: if_splits)
  then show ?case using Cons.IH Cons.prems(1) bk.ok_put by blast
qed simp

lemma collectKeys_set:
  "collectKeys x pk chainID from es = Ok ks \<Longrightarrow>
    k \<in> set ks \<longleftrightarrow> (\<exists>v. (k, v) \<in> set es) \<and> hasKeyPrefix k chainID pk \<and>
      (\<exists>h. ExtractHeightFromKey x k = Ok h \<and> from \<le> h)"
  by (induction x pk chainID "from" es arbitrary: ks rule: collectKeys.induct)
     (auto simp: go_simps split: if_splits)

lemma collectKeys_total:
  "(\<And>k v. (k, v) \<in> set es \<Longrightarrow> 8 \<le> length k) \<Longrightarrow> \<exists>ks. collectKeys x pk chainID from es = Ok ks"
proof (induction es)
  case (Cons e es)
  then obtain k v ks where "e = (k, v)" "8 \<le> length k" "collectKeys x pk chainID from es = Ok ks"
    by (cases e) fastforce
  then show ?case by (auto simp: ExtractHeightFromKey_def)
qed simp

lemma deleteKeys_Ok: "deleteKeys flt i ks b = Ok b' \<Longrightarrow> b' = foldl bkt_del b ks"
  by (induction ks arbitrary: i b) (auto simp: go_simps)

lemma deleteKeys_NoFault [simp]: "deleteKeys NoFault i ks b = Ok (foldl bkt_del b ks)"
  by (induction ks arbitrary: i b) auto

lemma wf_store_DeleteSignRecordsFromHeight:
  assumes "wf_store x db"
  shows "wf_store x (snd (DeleteSignRecordsFromHeight x flt pk chainID from db))"
proof (cases "\<exists>p c. pk = Some p \<and> chainID = Some c")
  case True
  then obtain p c where "pk = Some p" "chainID = Some c" by blast
  then show ?thesis using assms
    by (simp add: DeleteSignRecordsFromHeight_def)
       (rule wf_store_update_records,
        auto simp: go_simps bk.get_foldl_del dest!: deleteKeys_Ok split: if_splits)
next
  case False
  with assms show ?thesis
    by (auto simp: DeleteSignRecordsFromHeight_def split: option.split)
qed

context store_codec
begin

lemma wf_store_SaveSignRecordsBatch:
  assumes wf: "wf_store x db"
  shows "wf_store x (snd (SaveSignRecordsBatch x flt now rs db))"
proof -
  have new: "bkt_get b k = Some v \<or> 8 \<le> length k \<and> (\<exists>p. unmarshalSR x v = Ok p)"
    if s: "saveRecords x flt now 0 rs b = Ok b'" and v: "bkt_get b' k = Some v" for b b' k v
  proof (cases "k \<in> recordKey x ` set rs")
    case True
    then show ?thesis using v saveRecords_Ok [OF s] marshal_decodes by (auto simp: recordKey_def)
  next
    case False
    then show ?thesis using v saveRecords_Ok [OF s] by simp
  qed
  have "wf_store x (snd (kv_update flt (write_bucket signRecordBucketName ErrCorruptedEOTSDb
      (saveRecords x flt now 0 rs)) db))"
    using wf saveRecords_bucket_ok new by (rule wf_store_update_records)
  then show ?thesis using wf by (simp add: SaveSignRecordsBatch_def)
qed

lemma wf_store_SaveSignRecord:
  "wf_store x db \<Longrightarrow> wf_store x (snd (SaveSignRecord x flt now h chainID msg pk sig db))"
  unfolding SaveSignRecord_def Let_def snd_wrapS
  by (rule wf_store_update_records)
     (auto simp: go_simps bk.get_put split: if_splits dest: marshal_decodes)

end

section \<open>Refinement of the abstract content\<close>

lemma recordOf_bucket:
  "kv_buckets db signRecordBucketName = Some b \<Longrightarrow>
    recordOf x db k = (case bkt_get b k of None \<Rightarrow> None
      | Some v \<Rightarrow> (case unmarshalSR x v of Ok p \<Rightarrow> Some (FromProto p) | _ \<Rightarrow> None))"
  by (simp add: recordOf_def kv_bucket_of_def)

lemma recordOf_cases:
  assumes "wf_store x db" and "kv_buckets db signRecordBucketName = Some b"
  obtains "bkt_get b k = None" "recordOf x db k = None"
  | v p where "bkt_get b k = Some v" "unmarshalSR x v = Ok p" "recordOf x db k = Some (FromProto p)"
  using wf_store_get [OF assms, of k] recordOf_bucket [OF assms(2), of x k]
  by (cases "bkt_get b k") auto

lemma GetSignRecord_refines:
  assumes "wf_store x db"
  shows "GetSignRecord x NoFault pk chainID h db = Ok (signRecords x db chainID pk h)"
proof -
  from assms obtain b where b: "kv_open db" "kv_buckets db signRecordBucketName = Some b"
    by (rule wf_storeE)
  then show ?thesis
    by (cases rule: recordOf_cases [OF assms b(2), of "getSignRecordKey x chainID pk h"])
       (simp_all add: GetSignRecord_def read_bucket_def signRecords_def)
qed

lemma GetSignRecord_Ok:
  assumes "wf_store x db" and "GetSignRecord x flt pk chainID h db = Ok (Some r)"
  shows "signRecords x db chainID pk h = Some r"
  using assms(2) recordOf_bucket
  by (fastforce simp: GetSignRecord_def signRecords_def kv_view_def read_bucket_def Let_def
      split: go.splits if_splits option.splits dbfault.splits)

lemma getRecords_refines:
  assumes "wf_store x db" and b: "kv_buckets db signRecordBucketName = Some b"
  shows "getRecords x pk chainID b hs m =
    Ok (m ++ (\<lambda>h. if h \<in> set hs then signRecords x db chainID pk h else None))"
proof (induction hs arbitrary: m)
  case Nil
  then show ?case by (simp add: map_add_def)
next
  case (Cons h hs)
  show ?case
    by (cases rule: recordOf_cases [OF assms, of "getSignRecordKey x chainID pk h"])
       (auto simp: Cons.IH signRecords_def map_add_def fun_eq_iff split: option.splits)
qed

lemma GetSignRecordsBatch_refines:
  assumes "wf_store x db"
  shows "GetSignRecordsBatch x NoFault pk chainID hs db =
    Ok (\<lambda>h. if h \<in> set hs then signRecords x db chainID pk h else None)"
proof -
  from assms obtain b where "kv_open db" "kv_buckets db signRecordBucketName = Some b"
    by (rule wf_storeE)
  with getRecords_refines [OF assms] show ?thesis
    by (simp add: GetSignRecordsBatch_def read_bucket_def)
qed

lemma GetSignRecordsBatch_Ok:
  assumes "wf_store x db" and "GetSignRecordsBatch x flt pk chainID hs db = Ok m"
  shows "m = (\<lambda>h. if h \<in> set hs then signRecords x db chainID pk h else None)"
  using assms getRecords_refines [OF assms(1)]
  by (auto simp: GetSignRecordsBatch_def go_simps)

lemma wf_store_fresh:
  assumes "wf_store x db" and "kv_buckets db signRecordBucketName = Some b"
  shows "bkt_get b k = None \<longleftrightarrow> recordOf x db k = None"
  by (cases rule: recordOf_cases [OF assms, of k]) auto

text \<open>The signing record a batch entry becomes.\<close>

definition newRecord :: "u64 \<Rightarrow> BatchSignRecord \<Rightarrow> SigningRecord" where
  "newRecord ts r = \<lparr>SR_Msg = BR_Msg r, SR_Signature = BR_Sig r, SR_Timestamp = ts\<rparr>"

lemma map_of_keyed:
  assumes "distinct (map f xs)" and "y \<in> set xs"
  shows "map_of (map (\<lambda>x. (f x, g x)) xs) (f y) = Some (g y)"
  using assms by (force intro: map_of_is_SomeI simp: comp_def)

lemma map_of_keyed_None: "map_of (map (\<lambda>x. (f x, g x)) xs) k = None \<longleftrightarrow> k \<notin> f ` set xs"
  by (auto simp: map_of_eq_None_iff image_image)

context store_codec
begin

lemma SaveSignRecordsBatch_Ok:
  assumes wf: "wf_store x db" and run: "SaveSignRecordsBatch x flt now rs db = (Ok u, db')"
  shows "distinct (map (recordKey x) rs) \<and> (\<forall>r \<in> set rs. recordOf x db (recordKey x r) = None) \<and>
    recordOf x db' = recordOf x db ++ map_of (map (\<lambda>r. (recordKey x r, newRecord now r)) rs)"
proof (cases "rs = []")
  case True
  then show ?thesis using run by (simp add: SaveSignRecordsBatch_def)
next
  case False
  then obtain b b' where b: "kv_buckets db signRecordBucketName = Some b"
    and s: "saveRecords x flt now 0 rs b = Ok b'"
    and db': "db' = db\<lparr>kv_buckets := (kv_buckets db)(signRecordBucketName \<mapsto> b')\<rparr>"
    using run by (auto simp: SaveSignRecordsBatch_def go_simps)
  note S = saveRecords_Ok [OF s]
  have b': "kv_buckets db' signRecordBucketName = Some b'" using db' by simp
  have "recordOf x db' k = (recordOf x db ++ map_of (map (\<lambda>r. (recordKey x r, newRecord now r)) rs)) k"
    for k
  proof (cases "k \<in> recordKey x ` set rs")
    case True
    then obtain r m where "r \<in> set rs" "k = recordKey x r" "marshalSR x (pbRecord now r) = Ok m"
      "bkt_get b' k = Some m" using S by blast
    then show ?thesis using S marshal_decodes
      by (simp add: recordOf_bucket [OF b'] map_of_keyed map_add_find_right)
         (simp add: FromProto_def pbRecord_def newRecord_def)
  next
    case False
    then have "map_of (map (\<lambda>r. (recordKey x r, newRecord now r)) rs) k = None"
      by (simp only: map_of_keyed_None not_False_eq_True)
    then show ?thesis using S False
      by (simp add: recordOf_bucket [OF b'] recordOf_bucket [OF b] map_add_def)
  qed
  then show ?thesis using S wf_store_fresh [OF wf b] by auto
qed

lemma saveRecords_total:
  "distinct (map (recordKey x) rs) \<Longrightarrow> (\<And>r. r \<in> set rs \<Longrightarrow> bkt_get b (recordKey x r) = None) \<Longrightarrow>
    \<exists>b'. saveRecords x NoFault ts i rs b = Ok b'"
proof (induction rs arbitrary: i b)
  case (Cons r rs)
  obtain m where m: "marshalSR x (pbRecord ts r) = Ok m" by (rule marshal_succeeds)
  have "bkt_get (bkt_put b (recordKey x r) m) (recordKey x r') = None" if "r' \<in> set rs" for r'
    using that Cons.prems by (metis bk.get_put_other distinct.simps(2) image_eqI list.set_intros(2)
        list.set_map list.simps(9))
  then obtain b' where "saveRecords x NoFault ts (Suc i) rs (bkt_put b (recordKey x r) m) = Ok b'"
    using Cons.IH Cons.prems(1) by fastforce
  moreover have "bkt_get b (recordKey x r) = None" using Cons.prems(2) by simp
  ultimately show ?case using m by (auto simp: recordKey_def pbRecord_def Let_def)
qed simp

lemma SaveSignRecordsBatch_succeeds:
  assumes wf: "wf_store x db" and "distinct (map (recordKey x) rs)"
    and "\<And>r. r \<in> set rs \<Longrightarrow> recordOf x db (recordKey x r) = None"
  shows "\<exists>db'. SaveSignRecordsBatch x NoFault now rs db = (Ok (), db')"
proof -
  from wf obtain b where "kv_open db" and b: "kv_buckets db signRecordBucketName = Some b"
    by (rule wf_storeE)
  moreover obtain b' where "saveRecords x NoFault now 0 rs b = Ok b'"
    using saveRecords_total assms wf_store_fresh [OF wf b] by metis
  ultimately show ?thesis
    by (simp add: SaveSignRecordsBatch_def wrapS_def kv_update_def write_bucket_def)
qed

text \<open>Saving one record is saving a batch of one record.\<close>

lemma SaveSignRecord_Ok:
  assumes wf: "wf_store x db" and run: "SaveSignRecord x flt now h chainID msg pk sig db = (Ok u, db')"
  shows "signRecords x db chainID pk h = None \<and>
    recordOf x db' = (recordOf x db)(getSignRecordKey x chainID pk h \<mapsto>
      \<lparr>SR_Msg = msg, SR_Signature = sig, SR_Timestamp = now\<rparr>)"
proof -
  let ?r = "\<lparr>BR_Height = h, BR_ChainID = chainID, BR_Msg = msg, BR_EotsPk = pk, BR_Sig = sig\<rparr>"
  have "SaveSignRecordsBatch x flt now [?r] db = (Ok u, db')"
    using run
    by (auto simp: SaveSignRecord_def SaveSignRecordsBatch_def Let_def go_simps split: if_splits)
  from SaveSignRecordsBatch_Ok [OF wf this] show ?thesis
    by (simp add: recordKey_def newRecord_def signRecords_def)
qed

lemma SaveSignRecord_succeeds:
  assumes wf: "wf_store x db" and none: "signRecords x db chainID pk h = None"
  shows "\<exists>db'. SaveSignRecord x NoFault now h chainID msg pk sig db = (Ok (), db')"
proof -
  from wf obtain b where "kv_open db" and b: "kv_buckets db signRecordBucketName = Some b"
    by (rule wf_storeE)
  moreover have "bkt_get b (getSignRecordKey x chainID pk h) = None"
    using none wf_store_fresh [OF wf b] by (simp add: signRecords_def)
  moreover obtain m where "marshalSR x \<lparr>pb_Msg = msg, pb_EotsSig = sig, pb_Timestamp = now\<rparr> = Ok m"
    by (rule marshal_succeeds)
  ultimately show ?thesis
    by (simp add: SaveSignRecord_def wrapS_def kv_update_def write_bucket_def Let_def)
qed

end

lemma SaveSignRecord_fails: "fst (SaveSignRecord x flt now h c m pk s db) \<noteq> Ok u \<Longrightarrow>
  snd (SaveSignRecord x flt now h c m pk s db) = db"
  unfolding SaveSignRecord_def Let_def snd_wrapS fst_wrapS
  by (rule kv_update_atomic [where u = u]) (simp add: wrap_eq_Ok)

lemma SaveSignRecordsBatch_fails: "fst (SaveSignRecordsBatch x flt now rs db) \<noteq> Ok u \<Longrightarrow>
  snd (SaveSignRecordsBatch x flt now rs db) = db"
  by (cases "rs = []")
     (auto simp: SaveSignRecordsBatch_def wrap_eq_Ok intro!: kv_update_atomic [where u = u])

lemma DeleteSignRecordsFromHeight_fails: "fst (DeleteSignRecordsFromHeight x flt pk c from db) \<noteq> Ok u \<Longrightarrow>
  snd (DeleteSignRecordsFromHeight x flt pk c from db) = db"
  by (cases pk; cases c)
     (auto simp: DeleteSignRecordsFromHeight_def wrap_eq_Ok intro!: kv_update_atomic [where u = u])

text \<open>Records other than those with the prefix, and below the height, stay.\<close>

lemma DeleteSignRecordsFromHeight_Ok:
  assumes wf: "wf_store x db"
    and run: "DeleteSignRecordsFromHeight x flt (Some pk) (Some chainID) from db = (Ok u, db')"
  shows "recordOf x db' k =
    (if hasKeyPrefix k chainID pk \<and> (\<exists>h. ExtractHeightFromKey x k = Ok h \<and> from \<le> h)
     then None else recordOf x db k)"
proof -
  from run obtain b b' ks where b: "kv_buckets db signRecordBucketName = Some b"
    and ks: "collectKeys x pk chainID from b = Ok ks" and b': "deleteKeys flt 0 ks b = Ok b'"
    and db': "db' = db\<lparr>kv_buckets := (kv_buckets db)(signRecordBucketName \<mapsto> b')\<rparr>"
    by (auto simp: DeleteSignRecordsFromHeight_def go_simps)
  have ok: "bucket_ok b" using wf b by (auto simp: wf_store_def kv_ok_def)
  have get: "bkt_get b' k = (if k \<in> set ks then None else bkt_get b k)"
    using deleteKeys_Ok [OF b'] by (simp add: bk.get_foldl_del)
  show ?thesis
  proof (cases "bkt_get b k")
    case None
    then show ?thesis using get db' b by (simp add: recordOf_def kv_bucket_of_def)
  next
    case (Some v)
    then have "\<exists>v. (k, v) \<in> set b" using bk.entries_get [OF ok] by blast
    then show ?thesis using get db' b collectKeys_set [OF ks, of k]
      by (auto simp: recordOf_def kv_bucket_of_def)
  qed
qed

lemma DeleteSignRecordsFromHeight_succeeds:
  assumes "wf_store x db"
  shows "\<exists>db'. DeleteSignRecordsFromHeight x NoFault (Some pk) (Some chainID) from db = (Ok (), db')"
proof -
  from assms obtain b where b: "kv_open db" "kv_buckets db signRecordBucketName = Some b"
    "\<And>k v. (k, v) \<in> set b \<Longrightarrow> 8 \<le> length k" by (rule wf_storeE) blast
  with collectKeys_total [of b x pk chainID "from"] show ?thesis
    by (auto simp: DeleteSignRecordsFromHeight_def wrapS_def kv_update_def write_bucket_def)
qed

section \<open>A concrete encoding\<close>

text \<open>A record encoding from self-delimiting byte strings and big-endian numbers. It satisfies the contract, so the
  hypotheses of the properties below can be met, and their examples run on it.\<close>

definition plain_marshal :: "pb_SigningRecord \<Rightarrow> bytes go" where
  "plain_marshal r = Ok (esc (pb_Msg r) @ esc (pb_EotsSig r) @ be64 (pb_Timestamp r))"

definition plain_unmarshal :: "bytes \<Rightarrow> pb_SigningRecord go" where
  "plain_unmarshal b = (case unesc b of
     None \<Rightarrow> Err (ErrText ''unexpected EOF'')
   | Some (m, b) \<Rightarrow> (case unesc b of
       None \<Rightarrow> Err (ErrText ''unexpected EOF'')
     | Some (s, b) \<Rightarrow> Ok \<lparr>pb_Msg = m, pb_EotsSig = s, pb_Timestamp = be64_inv b\<rparr>))"

definition plain_ext :: store_ext where
  "plain_ext = \<lparr>u64be = be64, beu64 = be64_inv, marshalSR = plain_marshal,
     unmarshalSR = plain_unmarshal\<rparr>"

lemma plain_round_trip: "\<exists>b. plain_marshal r = Ok b \<and> plain_unmarshal b = Ok r"
  by (simp add: plain_marshal_def plain_unmarshal_def)

interpretation plain: store_codec plain_ext
  using plain_round_trip be64.be_codec_axioms
  by (simp add: store_codec_def store_codec_axioms_def plain_ext_def)

definition emptyStore :: kvdb where
  "emptyStore = \<lparr>kv_open = True,
     kv_buckets = [eotsBucketName \<mapsto> [], signRecordBucketName \<mapsto> []]\<rparr>"

lemma wf_emptyStore [simp]: "wf_store x emptyStore"
  by (auto simp: wf_store_def emptyStore_def kv_ok_def bucket_ok_def split: if_splits)

lemma emptyStore_recordOf [simp]: "recordOf x emptyStore k = None"
  by (simp add: recordOf_def kv_bucket_of_def emptyStore_def)

lemma emptyStore_signRecords [simp]: "signRecords x emptyStore chainID pk h = None"
  by (simp add: signRecords_def)

section \<open>Properties\<close>

text \<open>The key of a sign record determines its chain, key and height among chains with identifiers
  of one length and keys of one length, so that two records never share a slot; and the height read
  back from the key is the height that was put in.\<close>

theorem getSignRecordKey_injective:
  assumes "store_codec x" and "length chainID = length chainID'" and "length pk = length pk'"
  shows "(getSignRecordKey x chainID pk h = getSignRecordKey x chainID' pk' h' \<longleftrightarrow>
      chainID = chainID' \<and> pk = pk' \<and> h = h') \<and>
    ExtractHeightFromKey x (getSignRecordKey x chainID pk h) = Ok h"
  using store_codec.key_inject [OF assms] store_codec.extract_key [OF assms(1)] by simp

theorem getSignRecordKey_injective_witness:
  "getSignRecordKey plain_ext ''bbn-1'' ''k1'' 7 \<noteq> getSignRecordKey plain_ext ''bbn-1'' ''k2'' 7 \<and>
   ExtractHeightFromKey plain_ext (getSignRecordKey plain_ext ''bbn-1'' ''k1'' 7) = Ok 7"
  using getSignRecordKey_injective [OF plain.store_codec_axioms,
      of "''bbn-1''" "''bbn-1''" "''k1''" "''k2''" 7 7] by simp

text \<open>A sign record that was saved is read back with its message, signature and timestamp, there
  was none for that chain, key and height before, the records of all other heights are read as
  before, and the store stays well-formed.\<close>

theorem SaveSignRecord_round_trip:
  assumes "store_codec x" and "wf_store x db"
    and "SaveSignRecord x flt now h chainID msg pk sig db = (Ok u, db')"
  shows "wf_store x db' \<and> GetSignRecord x NoFault pk chainID h db = Ok None \<and>
    GetSignRecord x NoFault pk chainID h db' =
      Ok (Some \<lparr>SR_Msg = msg, SR_Signature = sig, SR_Timestamp = now\<rparr>) \<and>
    (\<forall>h'. h' \<noteq> h \<longrightarrow>
      GetSignRecord x NoFault pk chainID h' db' = GetSignRecord x NoFault pk chainID h' db)"
proof -
  have wf: "wf_store x db'"
    using store_codec.wf_store_SaveSignRecord [OF assms(1,2), of flt now h chainID msg pk sig] assms(3)
    by simp
  with store_codec.SaveSignRecord_Ok [OF assms] store_codec.key_height_inject [OF assms(1)] assms(2)
  show ?thesis by (simp add: GetSignRecord_refines signRecords_def)
qed

theorem SaveSignRecord_round_trip_witness:
  "GetSignRecord plain_ext NoFault ''pk'' ''bbn-1'' 5
     (snd (SaveSignRecord plain_ext NoFault 99 5 ''bbn-1'' ''msg'' ''pk'' ''sig'' emptyStore)) =
   Ok (Some \<lparr>SR_Msg = ''msg'', SR_Signature = ''sig'', SR_Timestamp = 99\<rparr>)"
proof -
  have "fst (SaveSignRecord plain_ext NoFault 99 5 ''bbn-1'' ''msg'' ''pk'' ''sig'' emptyStore) = Ok ()"
    by (simp add: SaveSignRecord_def plain_ext_def emptyStore_def kv_update_def write_bucket_def
        Let_def plain_marshal_def)
  then show ?thesis
    using SaveSignRecord_round_trip [OF plain.store_codec_axioms wf_emptyStore, of NoFault 99 5
        "''bbn-1''" "''msg''" "''pk''" "''sig''" "()"] by (simp add: prod_eq_iff)
qed

text \<open>A sign record is never overwritten: saving for a chain, key and height that has a record
  fails with \<^verbatim>\<open>ErrDuplicateSignRecord\<close>, whatever the message, and whenever saving fails the
  database is as it was.\<close>

theorem SaveSignRecord_write_once:
  assumes "wf_store x db"
  shows "(signRecords x db chainID pk h \<noteq> None \<longrightarrow>
      (\<exists>e. SaveSignRecord x flt now h chainID msg pk sig db = (Err e, db) \<and>
        error_is e ErrDuplicateSignRecord)) \<and>
    (\<forall>u. fst (SaveSignRecord x flt now h chainID msg pk sig db) \<noteq> Ok u \<longrightarrow>
      snd (SaveSignRecord x flt now h chainID msg pk sig db) = db)"
proof -
  from assms obtain b where "kv_open db" and b: "kv_buckets db signRecordBucketName = Some b"
    by (rule wf_storeE)
  then have "SaveSignRecord x flt now h chainID msg pk sig db =
      (Err (Wrapf ''failed to save sign record: '' (Sentinel ErrDuplicateSignRecord)), db)"
    if "signRecords x db chainID pk h \<noteq> None"
    using that wf_store_fresh [OF assms b, of "getSignRecordKey x chainID pk h"]
    by (auto simp: signRecords_def SaveSignRecord_def wrapS_def kv_update_def write_bucket_def Let_def)
  moreover have "snd (SaveSignRecord x flt now h chainID msg pk sig db) = db"
    if "fst (SaveSignRecord x flt now h chainID msg pk sig db) \<noteq> Ok u" for u
    using that by (rule SaveSignRecord_fails)
  ultimately show ?thesis by simp
qed

theorem SaveSignRecord_write_once_witness:
  "\<exists>e db. SaveSignRecord plain_ext NoFault 4 7 ''c'' ''other'' ''p'' ''t'' db = (Err e, db) \<and>
     error_is e ErrDuplicateSignRecord"
proof -
  obtain db where run: "SaveSignRecord plain_ext NoFault 3 7 ''c'' ''m'' ''p'' ''s'' emptyStore = (Ok (), db)"
    using plain.SaveSignRecord_succeeds [OF wf_emptyStore] by force
  have wf: "wf_store plain_ext db" and "signRecords plain_ext db ''c'' ''p'' 7 \<noteq> None"
    using plain.wf_store_SaveSignRecord [OF wf_emptyStore, of NoFault 3 7 "''c''" "''m''" "''p''" "''s''"]
      plain.SaveSignRecord_Ok [OF wf_emptyStore run] run by (simp_all add: signRecords_def)
  with SaveSignRecord_write_once [OF wf, of "''c''" "''p''" 7 NoFault 4 "''other''" "''t''"]
  show ?thesis by blast
qed

text \<open>\<^verbatim>\<open>SaveSignRecordsBatch\<close> is all or nothing. On success the keys of the batch were new and
  different from each other, and the content becomes the old one extended by exactly the records of
  the batch; on any failure, also of a write in the middle, the database is as it was; and without
  a backend failure new and different keys are enough for success.\<close>

theorem SaveSignRecordsBatch_all_or_nothing:
  assumes "store_codec x" and "wf_store x db"
  shows "case SaveSignRecordsBatch x flt now rs db of (r, db') \<Rightarrow>
      wf_store x db' \<and>
      (if r = Ok () then distinct (map (recordKey x) rs) \<and>
         (\<forall>s \<in> set rs. recordOf x db (recordKey x s) = None) \<and>
         recordOf x db' = recordOf x db ++ map_of (map (\<lambda>s. (recordKey x s, newRecord now s)) rs)
       else db' = db) \<and>
      (flt = NoFault \<and> distinct (map (recordKey x) rs) \<and>
         (\<forall>s \<in> set rs. recordOf x db (recordKey x s) = None) \<longrightarrow> r = Ok ())"
proof (cases "SaveSignRecordsBatch x flt now rs db")
  case (Pair r db')
  have "r = Ok ()" if "flt = NoFault" "distinct (map (recordKey x) rs)"
    "\<forall>s \<in> set rs. recordOf x db (recordKey x s) = None"
    using that store_codec.SaveSignRecordsBatch_succeeds [OF assms, of rs now] Pair by auto
  moreover have "wf_store x db'"
    using store_codec.wf_store_SaveSignRecordsBatch [OF assms, of flt now rs] Pair by simp
  moreover have "db' = db" if "r \<noteq> Ok ()"
    using that SaveSignRecordsBatch_fails [of x flt now rs db "()"] Pair by simp
  ultimately show ?thesis using store_codec.SaveSignRecordsBatch_Ok [OF assms, of flt now rs] Pair
    by auto
qed

theorem SaveSignRecordsBatch_all_or_nothing_witness:
  "let r1 = \<lparr>BR_Height = 7, BR_ChainID = ''c'', BR_Msg = ''m1'', BR_EotsPk = ''p'', BR_Sig = ''s1''\<rparr>;
       r2 = \<lparr>BR_Height = 8, BR_ChainID = ''c'', BR_Msg = ''m2'', BR_EotsPk = ''p'', BR_Sig = ''s2''\<rparr>
   in fst (SaveSignRecordsBatch plain_ext NoFault 1 [r1, r2] emptyStore) = Ok () \<and>
      snd (SaveSignRecordsBatch plain_ext (OpFault 1 (ErrText ''disk'')) 1 [r1, r1] emptyStore) = emptyStore"
proof -
  let ?r1 = "\<lparr>BR_Height = 7, BR_ChainID = ''c'', BR_Msg = ''m1'', BR_EotsPk = ''p'', BR_Sig = ''s1''\<rparr>"
  let ?r2 = "\<lparr>BR_Height = 8, BR_ChainID = ''c'', BR_Msg = ''m2'', BR_EotsPk = ''p'', BR_Sig = ''s2''\<rparr>"
  have "recordKey plain_ext ?r1 \<noteq> recordKey plain_ext ?r2"
    by (simp add: recordKey_def plain.key_height_inject)
  then show ?thesis
    using SaveSignRecordsBatch_all_or_nothing [OF plain.store_codec_axioms wf_emptyStore,
        where flt = NoFault and now = 1 and rs = "[?r1, ?r2]"]
      SaveSignRecordsBatch_all_or_nothing [OF plain.store_codec_axioms wf_emptyStore,
        where flt = "OpFault 1 (ErrText ''disk'')" and now = 1 and rs = "[?r1, ?r1]"]
    by (auto simp: Let_def split: prod.splits if_splits)
qed

text \<open>The batch query agrees with the single query at every height: one transaction over a list
  of heights answers, for each of them, what \<^verbatim>\<open>GetSignRecord\<close> answers, and nothing for the others.\<close>

theorem GetSignRecordsBatch_pointwise:
  assumes "wf_store x db"
  shows "\<exists>m. GetSignRecordsBatch x NoFault pk chainID hs db = Ok m \<and>
    (\<forall>h. (if h \<in> set hs then GetSignRecord x NoFault pk chainID h db else Ok None) = Ok (m h))"
  using assms by (simp add: GetSignRecordsBatch_refines GetSignRecord_refines)

theorem GetSignRecordsBatch_pointwise_witness:
  "\<exists>m. GetSignRecordsBatch plain_ext NoFault ''p'' ''c'' [1, 2] emptyStore = Ok m \<and> m 1 = None"
proof -
  obtain m where "GetSignRecordsBatch plain_ext NoFault ''p'' ''c'' [1, 2] emptyStore = Ok m"
    and m: "\<And>h. (if h \<in> set [1, 2] then GetSignRecord plain_ext NoFault ''p'' ''c'' h emptyStore
      else Ok None) = Ok (m h)"
    using GetSignRecordsBatch_pointwise [OF wf_emptyStore, of plain_ext "''p''" "''c''" "[1, 2]"] by blast
  moreover have "m 1 = None" using m [of 1] by (simp add: GetSignRecord_refines)
  ultimately show ?thesis by blast
qed

text \<open>Deleting from a height removes the records of that chain and key at that height and above,
  keeps those below, and keeps every record of another chain or key with identifiers of the same
  lengths; without a backend failure it succeeds.\<close>

theorem DeleteSignRecordsFromHeight_exact:
  assumes "store_codec x" and "wf_store x db"
    and "length chainID' = length chainID" and "length pk' = length pk"
  shows "\<exists>db'. DeleteSignRecordsFromHeight x NoFault (Some pk) (Some chainID) from db = (Ok (), db') \<and>
    wf_store x db' \<and>
    signRecords x db' chainID' pk' h =
      (if chainID' = chainID \<and> pk' = pk \<and> from \<le> h then None else signRecords x db chainID' pk' h)"
proof -
  obtain db' where run:
    "DeleteSignRecordsFromHeight x NoFault (Some pk) (Some chainID) from db = (Ok (), db')"
    using DeleteSignRecordsFromHeight_succeeds [OF assms(2)] by blast
  moreover have "wf_store x db'"
    using wf_store_DeleteSignRecordsFromHeight [OF assms(2), of NoFault "Some pk" "Some chainID" "from"] run
    by simp
  ultimately show ?thesis
    using DeleteSignRecordsFromHeight_Ok [OF assms(2) run]
      store_codec.hasKeyPrefix_key_iff [OF assms(1,3,4)] store_codec.extract_key [OF assms(1)]
    by (simp add: signRecords_def)
qed

theorem DeleteSignRecordsFromHeight_exact_witness:
  "\<exists>db'. DeleteSignRecordsFromHeight plain_ext NoFault (Some ''p'') (Some ''c'') 3 emptyStore = (Ok (), db') \<and>
     signRecords plain_ext db' ''c'' ''p'' 4 = None"
  using DeleteSignRecordsFromHeight_exact [OF plain.store_codec_axioms wf_emptyStore, of "''c''" "''c''"
      "''p''" "''p''" 3 4] by auto

text \<open>The name of a key is written once. Adding a name to a key without one stores it and touches
  no other key; adding to a key that has one fails, with \<^verbatim>\<open>ErrDuplicateEOTSKeyRecord\<close> when the name
  is the same and \<^verbatim>\<open>ErrDuplicateEOTSKeyName\<close> when it differs, and changes nothing.\<close>

theorem AddEOTSKeyName_write_once:
  assumes "wf_store x db" and "name \<noteq> []"
  shows "case keyNameOf db (ser pk) of
      None \<Rightarrow> (\<exists>db'. AddEOTSKeyName ser NoFault pk name db = (Ok (), db') \<and> wf_store x db' \<and>
        GetEOTSKeyName NoFault (ser pk) db' = Ok name \<and>
        (\<forall>k. k \<noteq> ser pk \<longrightarrow> keyNameOf db' k = keyNameOf db k))
    | Some n \<Rightarrow> (\<exists>e. AddEOTSKeyName ser NoFault pk name db = (Err e, db) \<and>
        error_is e (if n = name then ErrDuplicateEOTSKeyRecord else ErrDuplicateEOTSKeyName))"
proof -
  from assms(1) obtain kb where kb: "kv_open db" "kv_buckets db eotsBucketName = Some kb"
    by (rule wf_storeE)
  show ?thesis
  proof (cases "bkt_get kb (ser pk)")
    case None
    let ?db = "db\<lparr>kv_buckets := (kv_buckets db)(eotsBucketName \<mapsto> bkt_put kb (ser pk) name)\<rparr>"
    have "AddEOTSKeyName ser NoFault pk name db = (Ok (), ?db)"
      using kb None assms(2)
      by (simp add: AddEOTSKeyName_def wrapS_def kv_update_def write_bucket_def saveEOTSKeyName_def Let_def)
    moreover from this have "wf_store x ?db"
      using wf_store_AddEOTSKeyName [OF assms(1), of ser NoFault pk name] by simp
    ultimately show ?thesis using kb None
      by (simp add: keyNameOf_def kv_bucket_of_def GetEOTSKeyName_def read_bucket_def)
  next
    case (Some n)
    then show ?thesis using kb
      by (auto simp: keyNameOf_def kv_bucket_of_def AddEOTSKeyName_def wrapS_def kv_update_def
          write_bucket_def Let_def)
  qed
qed

theorem AddEOTSKeyName_write_once_witness:
  "\<exists>db'. AddEOTSKeyName (\<lambda>k. k) NoFault ''pk'' ''fp'' emptyStore = (Ok (), db') \<and>
     GetEOTSKeyName NoFault ''pk'' db' = Ok ''fp''"
  using AddEOTSKeyName_write_once [OF wf_emptyStore, where x = plain_ext and name = "''fp''" and ser = "\<lambda>k. k" and pk = "''pk''"]
  by (auto simp: keyNameOf_def kv_bucket_of_def emptyStore_def)

text \<open>An empty key name is refused as a duplicate of the missing entry, not by the check for an
  empty name, which is never reached.\<close>

lemma AddEOTSKeyName_empty:
  assumes "wf_store x db" and "keyNameOf db (ser pk) = None"
  shows "AddEOTSKeyName ser flt pk [] db =
    (Err (Wrapf ''failed to add EOTS key name: '' (Sentinel ErrDuplicateEOTSKeyRecord)), db)"
proof -
  from assms(1) obtain kb where kb: "kv_open db" "kv_buckets db eotsBucketName = Some kb"
    by (rule wf_storeE)
  with assms(2) show ?thesis
    by (simp add: keyNameOf_def kv_bucket_of_def AddEOTSKeyName_def wrapS_def kv_update_def
        write_bucket_def Let_def)
qed

text \<open>Opening a database that holds no buckets, or only decodable records, gives a well-formed store.\<close>

lemma NewEOTSStore_wf:
  assumes "NewEOTSStore NoFault db = Ok db'" and "kv_open db" and "kv_ok db"
    and "\<And>b k v. kv_buckets db signRecordBucketName = Some b \<Longrightarrow> (k, v) \<in> set b \<Longrightarrow>
      8 \<le> length k \<and> (\<exists>p. unmarshalSR x v = Ok p)"
  shows "wf_store x db'"
  using assms
  by (auto simp: NewEOTSStore_def initBuckets_def wrapS_def kv_update_def tx_create_bucket_def
      wf_store_def kv_ok_def bucket_ok_def split: option.splits if_splits)

end
