(* ===== verification/Eots_Manager.thy ===== *)
theory Eots_Manager
  imports Eots_Store FP_Util
begin

text \<open>
  The local EOTS manager (\<^verbatim>\<open>eotsmanager/localmanager.go\<close>) and the deterministic randomness
  generator (\<^verbatim>\<open>eotsmanager/randgenerator\<close>), one definition per method. The state is the keyring, the
  passphrase reader the keyring reads from, the store and the map of unlocked private keys. Keyring,
  curve arithmetic, signatures and hashes belong to other packages: they are fields of \<open>eots_ext\<close>.
  Every method takes the outcome of its database transactions (\<open>tx i\<close> for the \<open>i\<close>-th one).
\<close>

section \<open>External functions and state\<close>

text \<open>What a keyring record holds: the local private key (\<^verbatim>\<open>GetLocal()\<close>, nil for a record that is not
  local) and the public key, each of the expected type or of another one.\<close>

datatype key_item = Secp256k1Key bytes | OtherKey

record keyring_record =
  rec_Local :: "key_item option"
  rec_PubKey :: "key_item go"

record ('kr, 'sk, 'sc, 'fv, 'sg, 'pk) eots_ext = store_ext +
  kr_Backend :: "'kr \<Rightarrow> bytes"
  kr_Key :: "bytes \<Rightarrow> bytes \<Rightarrow> 'kr \<Rightarrow> keyring_record go \<times> bytes \<times> 'kr"
  kr_SigningAlgo :: "'kr \<Rightarrow> unit go"
  kr_NewAccount :: "bytes \<Rightarrow> bytes \<Rightarrow> bytes \<Rightarrow> 'kr \<Rightarrow> unit go \<times> bytes \<times> 'kr"
  ParsePubKey :: "bytes \<Rightarrow> 'pk go"
  SerializePubKey :: "'pk \<Rightarrow> bytes"
  NewBIP340PubKeyFromBTCPK :: "'pk \<Rightarrow> bytes"
  ToBTCPK :: "bytes \<Rightarrow> 'pk go"
  BIP340Marshal :: "bytes \<Rightarrow> bytes go"
  PrivKeyFromBytes :: "bytes \<Rightarrow> 'sk"
  PubKey :: "'sk \<Rightarrow> 'pk"
  sk_Serialize :: "'sk \<Rightarrow> bytes"
  hmac_sha256 :: "bytes \<Rightarrow> bytes \<Rightarrow> bytes"
  SetByteSlice :: "bytes \<Rightarrow> 'sc \<times> bool"
  IsZero :: "'sc \<Rightarrow> bool"
  sc_Bytes :: "'sc \<Rightarrow> bytes"
  rand_point_X :: "'sc \<Rightarrow> 'fv"
  eots_Sign :: "'sk \<Rightarrow> 'sc \<Rightarrow> bytes \<Rightarrow> 'sc go"
  schnorr_Sign :: "'sk \<Rightarrow> bytes \<Rightarrow> 'sg go"

record ('kr, 'sk) LocalEOTSManager =
  lm_kr :: 'kr
  lm_es :: kvdb
  lm_input :: bytes
  lm_privateKeys :: "bytes \<rightharpoonup> 'sk option"

record SignDataRequest =
  rq_Msg :: bytes
  rq_Height :: u64

record SignBatchEOTSRequest =
  rq_UID :: bytes
  rq_ChainID :: bytes
  rq_SignRequest :: "SignDataRequest list"

record 'sc SignDataResponse =
  rs_Signature :: 'sc
  rs_Height :: u64

record 'sk KeyRecord =
  kr_Name :: bytes
  kr_PrivKey :: 'sk

datatype RandomnessOption = WithInterval u64

record RandomnessConfig =
  rc_Interval :: "u64 option"

definition BackendTest :: bytes where "BackendTest = ''test''"
definition BackendFile :: bytes where "BackendFile = ''file''"

text \<open>A store method and a store query as methods of the manager.\<close>

definition on_es :: "(kvdb, 'a) cmd \<Rightarrow> (('kr, 'sk) LocalEOTSManager, 'a) cmd" where
  "on_es m s = (case m (lm_es s) of (r, db) \<Rightarrow> (r, s\<lparr>lm_es := db\<rparr>))"

definition get_es :: "(kvdb \<Rightarrow> 'a go) \<Rightarrow> (('kr, 'sk) LocalEOTSManager, 'a) cmd" where
  "get_es f s = (f (lm_es s), s)"

section \<open>Randomness\<close>

text \<open>The rejection-sampling loop. A loop that never finds a valid scalar does not return, which is
  the value \<open>None\<close>.\<close>

partial_function (option) sampleLoop ::
  "('kr, 'sk, 'sc, 'fv, 'sg, 'pk) eots_ext \<Rightarrow> bytes \<Rightarrow> bytes \<Rightarrow> u64 \<Rightarrow> u64 \<Rightarrow> 'sc option" where
  "sampleLoop x key chainID height iteration =
     (case SetByteSlice x (hmac_sha256 x key (u64be x height @ chainID @ u64be x iteration)) of
        (randScalar, overflow) \<Rightarrow>
          if \<not> overflow \<and> \<not> IsZero x randScalar then Some randScalar
          else sampleLoop x key chainID height (iteration + 1))"

definition GenerateRandomness ::
  "('kr, 'sk, 'sc, 'fv, 'sg, 'pk) eots_ext \<Rightarrow> bytes \<Rightarrow> bytes \<Rightarrow> u64 \<Rightarrow> ('sc \<times> 'fv) go" where
  "GenerateRandomness x key chainID height =
     (case sampleLoop x key chainID height 0 of
        None \<Rightarrow> Crash ''does not terminate''
      | Some randScalar \<Rightarrow> Ok (randScalar, rand_point_X x randScalar))"

definition getRandomnessPair ::
  "('kr, 'sk, 'sc, 'fv, 'sg, 'pk) eots_ext \<Rightarrow> 'sk \<Rightarrow> bytes \<Rightarrow> u64 \<Rightarrow> ('sc \<times> 'fv) go" where
  "getRandomnessPair x privKey chainID height =
     wrap ''failed to generate randomness: ''
       (GenerateRandomness x (sk_Serialize x privKey) chainID height)"

section \<open>Keys\<close>

definition krKey ::
  "('kr, 'sk, 'sc, 'fv, 'sg, 'pk) eots_ext \<Rightarrow> bytes \<Rightarrow> (('kr, 'sk) LocalEOTSManager, keyring_record) cmd"
where
  "krKey x name s = (case kr_Key x name (lm_input s) (lm_kr s) of
     (r, input, kr) \<Rightarrow> (r, s\<lparr>lm_input := input, lm_kr := kr\<rparr>))"

definition InitKeyring :: "(bytes \<Rightarrow> bytes \<Rightarrow> 'kr go) \<Rightarrow> bytes \<Rightarrow> bytes \<Rightarrow> 'kr go" where
  "InitKeyring keyringNew homeDir keyringBackend =
     wrap ''failed to create keyring: '' (keyringNew keyringBackend homeDir)"

definition NewLocalEOTSManager ::
  "(bytes \<Rightarrow> bytes \<Rightarrow> 'kr go) \<Rightarrow> dbfault \<Rightarrow> bytes \<Rightarrow> bytes \<Rightarrow> kvdb \<Rightarrow> ('kr, 'sk) LocalEOTSManager go" where
  "NewLocalEOTSManager keyringNew flt homeDir keyringBackend dbbackend =
     rbind (wrap ''failed to initialize store: '' (NewEOTSStore flt dbbackend)) (\<lambda>es.
     rbind (wrap ''failed to initialize keyring: '' (InitKeyring keyringNew homeDir keyringBackend)) (\<lambda>kr.
       Ok \<lparr>lm_kr = kr, lm_es = es, lm_input = [], lm_privateKeys = Map.empty\<rparr>))"

definition getKeyFromKeyring ::
  "('kr, 'sk, 'sc, 'fv, 'sg, 'pk) eots_ext \<Rightarrow> bytes \<Rightarrow> bytes \<Rightarrow> (('kr, 'sk) LocalEOTSManager, 'sk) cmd"
where
  "getKeyFromKeyring x keyName passphrase s =
     sbind (wrapS ''failed to get key from keyring: '' (krKey x keyName)) (\<lambda>k.
     liftR (rbind (deref (rec_Local k)) (\<lambda>privKeyCached.
       case privKeyCached of
         Secp256k1Key key \<Rightarrow>
           rbind (wrap ''invalid private key: '' (ValidatePrivKeyBytes (SetByteSlice x) (IsZero x) key))
             (\<lambda>_. Ok (PrivKeyFromBytes x key))
       | OtherKey \<Rightarrow> Err (ErrText ''unsupported key type in keyring'')))) (s\<lparr>lm_input := passphrase\<rparr>)"

definition getKeyFromMap :: "bytes \<Rightarrow> ('kr, 'sk) LocalEOTSManager \<Rightarrow> 'sk go" where
  "getKeyFromMap keyName s =
     (case lm_privateKeys s keyName of
        None \<Rightarrow> Err (ErrText (''private key not found in map for key name: '' @ keyName))
      | Some None \<Rightarrow> Err (ErrText (''private key is nil for key name: '' @ keyName))
      | Some (Some privKey) \<Rightarrow> Ok privKey)"

text \<open>The result is nil for a keyring backend that is neither \<^verbatim>\<open>test\<close> nor \<^verbatim>\<open>file\<close>.\<close>

definition eotsPrivKeyFromKeyName ::
  "('kr, 'sk, 'sc, 'fv, 'sg, 'pk) eots_ext \<Rightarrow> bytes \<Rightarrow> (('kr, 'sk) LocalEOTSManager, 'sk option) cmd"
where
  "eotsPrivKeyFromKeyName x keyName s =
     (if kr_Backend x (lm_kr s) = BackendTest
      then sbind (getKeyFromKeyring x keyName []) (\<lambda>privKey. liftR (Ok (Some privKey))) s
      else if kr_Backend x (lm_kr s) = BackendFile
      then (rbind (wrap (''make sure to run the \"unlock\" command after you started the eots manager with the keyring: '' @
              keyName @ '', error: '') (getKeyFromMap keyName s)) (\<lambda>privKey. Ok (Some privKey)), s)
      else (Ok None, s))"

text \<open>The check that the private key found belongs to the public key asked for, with the lookup
  before it: the part \<open>SignEOTS\<close>, \<open>SignBatchEOTS\<close> and \<open>getEOTSPrivKey\<close> share up to the wrapping of
  the second error.\<close>

definition verifiedPrivKey ::
  "('kr, 'sk, 'sc, 'fv, 'sg, 'pk) eots_ext \<Rightarrow> dbfault \<Rightarrow>
     ((('kr, 'sk) LocalEOTSManager, 'sk option) cmd \<Rightarrow> (('kr, 'sk) LocalEOTSManager, 'sk option) cmd) \<Rightarrow>
     bytes \<Rightarrow> (('kr, 'sk) LocalEOTSManager, 'sk) cmd" where
  "verifiedPrivKey x flt wrapKey fpPk =
     sbind (wrapS ''failed to get EOTS key name: '' (get_es (GetEOTSKeyName flt fpPk))) (\<lambda>keyName.
     sbind (wrapKey (eotsPrivKeyFromKeyName x keyName)) (\<lambda>p.
     liftR (rbind (deref p) (\<lambda>privKey.
       if SerializePubKey x (PubKey x privKey) \<noteq> fpPk
       then Err (ErrText ''public key mismatch: requested key does not match stored key'')
       else Ok privKey))))"

definition getEOTSPrivKey ::
  "('kr, 'sk, 'sc, 'fv, 'sg, 'pk) eots_ext \<Rightarrow> dbfault \<Rightarrow> bytes \<Rightarrow> (('kr, 'sk) LocalEOTSManager, 'sk) cmd"
where
  "getEOTSPrivKey x flt fpPk = verifiedPrivKey x flt (\<lambda>m. m) fpPk"

definition Unlock ::
  "('kr, 'sk, 'sc, 'fv, 'sg, 'pk) eots_ext \<Rightarrow> dbfault \<Rightarrow> bytes \<Rightarrow> bytes \<Rightarrow> (('kr, 'sk) LocalEOTSManager, unit) cmd"
where
  "Unlock x flt fpPk passphrase =
     sbind (wrapS ''failed to get EOTS key name: '' (get_es (GetEOTSKeyName flt fpPk))) (\<lambda>keyName.
     sbind (wrapS ''failed to unlock the key ring: '' (getKeyFromKeyring x keyName passphrase)) (\<lambda>privKey s.
       if lm_privateKeys s keyName \<noteq> None
       then (Err (ErrText (''private key already unlocked for key name: '' @ keyName @ '', fpPk: '' @
               fmt_hex fpPk)), s)
       else (Ok (), s\<lparr>lm_privateKeys := (lm_privateKeys s)(keyName \<mapsto> Some privKey)\<rparr>)))"

definition keyExists ::
  "('kr, 'sk, 'sc, 'fv, 'sg, 'pk) eots_ext \<Rightarrow> bytes \<Rightarrow> (('kr, 'sk) LocalEOTSManager, bool) cmd" where
  "keyExists x name s = (case krKey x name s of
     (Ok _, s') \<Rightarrow> (Ok True, s') | (Err _, s') \<Rightarrow> (Ok False, s') | (Crash c, s') \<Rightarrow> (Crash c, s'))"

text \<open>The function on a keyring, and the method of the same name.\<close>

definition loadBIP340PubKey ::
  "('kr, 'sk, 'sc, 'fv, 'sg, 'pk) eots_ext \<Rightarrow> bytes \<Rightarrow> (('kr, 'sk) LocalEOTSManager, bytes) cmd" where
  "loadBIP340PubKey x keyName =
     sbind (wrapS (''failed to load keyring record for key '' @ keyName @ '': '') (krKey x keyName)) (\<lambda>info.
     liftR (rbind (wrap ''failed to get public key from keyring info: '' (rec_PubKey info)) (\<lambda>pubKey.
       case pubKey of
         Secp256k1Key key \<Rightarrow> rbind (wrap ''failed to parse public key: '' (ParsePubKey x key))
           (\<lambda>pk. Ok (NewBIP340PubKeyFromBTCPK x pk))
       | OtherKey \<Rightarrow> Err (ErrText ''unsupported key type in keyring''))))"

definition LoadBIP340PubKeyFromKeyName ::
  "('kr, 'sk, 'sc, 'fv, 'sg, 'pk) eots_ext \<Rightarrow> bytes \<Rightarrow> (('kr, 'sk) LocalEOTSManager, bytes) cmd" where
  "LoadBIP340PubKeyFromKeyName x keyName =
     wrapS (''failed to load BIP340 public key from key name '' @ keyName @ '': '')
       (loadBIP340PubKey x keyName)"

definition SaveEOTSKeyName ::
  "('kr, 'sk, 'sc, 'fv, 'sg, 'pk) eots_ext \<Rightarrow> dbfault \<Rightarrow> 'pk \<Rightarrow> bytes \<Rightarrow> (('kr, 'sk) LocalEOTSManager, unit) cmd"
where
  "SaveEOTSKeyName x flt pk keyName =
     wrapS ''failed to save EOTS key name: '' (on_es (AddEOTSKeyName (SerializePubKey x) flt pk keyName))"

definition CreateKeyWithMnemonic ::
  "('kr, 'sk, 'sc, 'fv, 'sg, 'pk) eots_ext \<Rightarrow> dbfault \<Rightarrow> bytes \<Rightarrow> bytes \<Rightarrow> bytes \<Rightarrow>
     (('kr, 'sk) LocalEOTSManager, bytes) cmd" where
  "CreateKeyWithMnemonic x flt name mnemonic passphrase s =
     (if kr_Backend x (lm_kr s) = BackendFile \<and> length passphrase < 8
      then (Err (ErrText ''passphrase should be at least 8 characters''), s)
      else
        sbind (keyExists x name) (\<lambda>ex.
        if ex then liftR (Err (Sentinel ErrFinalityProviderAlreadyExisted)) else
        sbind (\<lambda>s. (wrap ''failed to create signing algorithm: '' (kr_SigningAlgo x (lm_kr s)), s)) (\<lambda>_.
        sbind (wrapS ''failed to create new account: '' (\<lambda>s.
          case kr_NewAccount x name mnemonic (passphrase @ [CHR 0x0A] @ passphrase) (lm_kr s) of
            (r, input, kr) \<Rightarrow> (r, s\<lparr>lm_input := input, lm_kr := kr\<rparr>))) (\<lambda>_.
        sbind (LoadBIP340PubKeyFromKeyName x name) (\<lambda>eotsPk.
        sbind (liftR (must (ToBTCPK x eotsPk))) (\<lambda>pk.
        sbind (SaveEOTSKeyName x flt pk name) (\<lambda>_. liftR (Ok eotsPk))))))) s)"

definition NewMnemonic :: "bytes go \<Rightarrow> (bytes \<Rightarrow> bytes go) \<Rightarrow> bytes go" where
  "NewMnemonic entropy bip39Mnemonic =
     rbind (wrap ''failed to generate entropy: '' entropy) (\<lambda>entropySeed.
     wrap ''failed to generate mnemonic: '' (bip39Mnemonic entropySeed))"

definition CreateKey ::
  "('kr, 'sk, 'sc, 'fv, 'sg, 'pk) eots_ext \<Rightarrow> dbfault \<Rightarrow> bytes go \<Rightarrow> bytes \<Rightarrow> bytes \<Rightarrow>
     (('kr, 'sk) LocalEOTSManager, bytes) cmd" where
  "CreateKey x flt newMnemonic name passphrase =
     sbind (liftR newMnemonic) (\<lambda>mnemonic.
     sbind (CreateKeyWithMnemonic x flt name mnemonic passphrase) (\<lambda>eotsPk.
     liftR (must (BIP340Marshal x eotsPk))))"

definition KeyRecord_of ::
  "('kr, 'sk, 'sc, 'fv, 'sg, 'pk) eots_ext \<Rightarrow> (nat \<Rightarrow> dbfault) \<Rightarrow> bytes \<Rightarrow>
     (('kr, 'sk) LocalEOTSManager, 'sk KeyRecord) cmd" where
  "KeyRecord_of x tx fpPk =
     sbind (wrapS ''failed to get EOTS key name: '' (get_es (GetEOTSKeyName (tx 0) fpPk))) (\<lambda>name.
     sbind (getEOTSPrivKey x (tx 1) fpPk) (\<lambda>privKey.
     liftR (Ok \<lparr>kr_Name = name, kr_PrivKey = privKey\<rparr>)))"

definition ListEOTSKeys :: "dbfault \<Rightarrow> (('kr, 'sk) LocalEOTSManager, bytes \<rightharpoonup> bytes) cmd" where
  "ListEOTSKeys flt = wrapS ''failed to get all EOTS key names: '' (get_es (GetAllEOTSKeyNames flt))"

section \<open>Signing\<close>

definition applyOption :: "RandomnessOption \<Rightarrow> RandomnessConfig \<Rightarrow> RandomnessConfig" where
  "applyOption opt cfg = (case opt of WithInterval interval \<Rightarrow> cfg\<lparr>rc_Interval := Some interval\<rparr>)"

fun randLoop ::
  "('kr, 'sk, 'sc, 'fv, 'sg, 'pk) eots_ext \<Rightarrow> 'sk \<Rightarrow> bytes \<Rightarrow> u64 \<Rightarrow> u64 option \<Rightarrow> u32 list \<Rightarrow> 'fv list go"
where
  "randLoop x privKey chainID startHeight interval [] = Ok []"
| "randLoop x privKey chainID startHeight interval (i # is) =
     (let height = (case interval of
          Some iv \<Rightarrow> startHeight + ucast i * iv
        | None \<Rightarrow> startHeight + ucast i) in
      rbind (wrap ''failed to get randomness pair: '' (getRandomnessPair x privKey chainID height))
        (\<lambda>(_, pubRand). rbind (randLoop x privKey chainID startHeight interval is)
          (\<lambda>prList. Ok (pubRand # prList))))"

definition CreateRandomnessPairList ::
  "('kr, 'sk, 'sc, 'fv, 'sg, 'pk) eots_ext \<Rightarrow> dbfault \<Rightarrow> bytes \<Rightarrow> bytes \<Rightarrow> u64 \<Rightarrow> u32 \<Rightarrow>
     RandomnessOption list \<Rightarrow> (('kr, 'sk) LocalEOTSManager, 'fv list) cmd" where
  "CreateRandomnessPairList x flt fpPk chainID startHeight num options =
     (let cfg = fold applyOption options \<lparr>rc_Interval = None\<rparr> in
      if rc_Interval cfg = Some 0 then liftR (Err (ErrText ''interval must be greater than 0''))
      else sbind (wrapS ''failed to get EOTS private key: '' (getEOTSPrivKey x flt fpPk)) (\<lambda>privKey.
        liftR (randLoop x privKey chainID startHeight (rc_Interval cfg) (map of_nat [0..<unat num]))))"

definition SignEOTS ::
  "('kr, 'sk, 'sc, 'fv, 'sg, 'pk) eots_ext \<Rightarrow> (nat \<Rightarrow> dbfault) \<Rightarrow> u64 \<Rightarrow> bytes \<Rightarrow> bytes \<Rightarrow> bytes \<Rightarrow> u64 \<Rightarrow>
     (('kr, 'sk) LocalEOTSManager, 'sc) cmd" where
  "SignEOTS x tx nowMilli eotsPk chainID msg height =
     sbind (wrapS ''error getting sign record: '' (get_es (GetSignRecord x (tx 0) eotsPk chainID height)))
     (\<lambda>rec. case rec of
        Some record \<Rightarrow>
          if msg = SR_Msg record then liftR (Ok (fst (SetByteSlice x (SR_Signature record))))
          else liftR (Err (Sentinel ErrDoubleSign))
      | None \<Rightarrow>
          sbind (verifiedPrivKey x (tx 1) (wrapS ''failed to get EOTS private key: '') eotsPk) (\<lambda>privKey.
          sbind (liftR (wrap ''failed to get randomness pair: '' (getRandomnessPair x privKey chainID height)))
            (\<lambda>(privRand, _).
          sbind (liftR (wrap ''failed to sign eots: '' (eots_Sign x privKey privRand msg))) (\<lambda>signedBytes.
          sbind (wrapS ''failed to save signing record: ''
            (on_es (SaveSignRecord x (tx 2) nowMilli height chainID msg eotsPk (sc_Bytes x signedBytes))))
            (\<lambda>_. liftR (Ok signedBytes))))))"

fun signBatchLoop ::
  "('kr, 'sk, 'sc, 'fv, 'sg, 'pk) eots_ext \<Rightarrow> 'sk \<Rightarrow> bytes \<Rightarrow> bytes \<Rightarrow> (u64 \<rightharpoonup> SigningRecord) \<Rightarrow>
     SignDataRequest list \<Rightarrow> ('sc SignDataResponse list \<times> BatchSignRecord list) go" where
  "signBatchLoop x privKey eotsPk chainID existingRecords [] = Ok ([], [])"
| "signBatchLoop x privKey eotsPk chainID existingRecords (request # requests) =
     (let msg = rq_Msg request; height = rq_Height request;
          rest = signBatchLoop x privKey eotsPk chainID existingRecords requests in
      case existingRecords height of
        Some existingRecord \<Rightarrow>
          if msg = SR_Msg existingRecord
          then rbind rest (\<lambda>(response, recordsToSave).
            Ok (\<lparr>rs_Signature = fst (SetByteSlice x (SR_Signature existingRecord)), rs_Height = height\<rparr>
                # response, recordsToSave))
          else rest
      | None \<Rightarrow>
          rbind (wrap ''failed to get randomness pair: '' (getRandomnessPair x privKey chainID height))
            (\<lambda>(privRand, _).
          rbind (wrap ''failed to sign eots: '' (eots_Sign x privKey privRand msg)) (\<lambda>signedBytes.
          rbind rest (\<lambda>(response, recordsToSave).
            Ok (\<lparr>rs_Signature = signedBytes, rs_Height = height\<rparr> # response,
                \<lparr>BR_Height = height, BR_ChainID = chainID, BR_Msg = msg, BR_EotsPk = eotsPk,
                 BR_Sig = sc_Bytes x signedBytes\<rparr> # recordsToSave)))))"

definition SignBatchEOTS ::
  "('kr, 'sk, 'sc, 'fv, 'sg, 'pk) eots_ext \<Rightarrow> (nat \<Rightarrow> dbfault) \<Rightarrow> u64 \<Rightarrow> SignBatchEOTSRequest \<Rightarrow>
     (('kr, 'sk) LocalEOTSManager, 'sc SignDataResponse list) cmd" where
  "SignBatchEOTS x tx nowMilli req =
     (let eotsPk = rq_UID req; chainID = rq_ChainID req; heights = map rq_Height (rq_SignRequest req) in
      case ValidateNoDuplicateHeights heights of
        Err e \<Rightarrow> liftR (Err (Wrap2 (Sentinel ErrDuplicateHeight) e))
      | Crash c \<Rightarrow> liftR (Crash c)
      | Ok _ \<Rightarrow>
          sbind (verifiedPrivKey x (tx 0) (wrapS ''failed to get EOTS private key: '') eotsPk) (\<lambda>privKey.
          sbind (wrapS ''failed to get existing sign records: ''
            (get_es (GetSignRecordsBatch x (tx 1) eotsPk chainID heights))) (\<lambda>existingRecords.
          sbind (liftR (signBatchLoop x privKey eotsPk chainID existingRecords (rq_SignRequest req)))
            (\<lambda>(response, recordsToSave).
          if recordsToSave \<noteq> []
          then sbind (wrapS ''failed to save signing records batch: ''
                 (on_es (SaveSignRecordsBatch x (tx 2) nowMilli recordsToSave)))
                 (\<lambda>_. liftR (Ok response))
          else liftR (Ok response)))))"

definition UnsafeSignEOTS ::
  "('kr, 'sk, 'sc, 'fv, 'sg, 'pk) eots_ext \<Rightarrow> dbfault \<Rightarrow> bytes \<Rightarrow> bytes \<Rightarrow> bytes \<Rightarrow> u64 \<Rightarrow>
     (('kr, 'sk) LocalEOTSManager, 'sc) cmd" where
  "UnsafeSignEOTS x flt fpPk chainID msg height =
     sbind (wrapS ''failed to get EOTS private key: '' (getEOTSPrivKey x flt fpPk)) (\<lambda>privKey.
     liftR (rbind (wrap ''failed to get randomness pair: '' (getRandomnessPair x privKey chainID height))
       (\<lambda>(privRand, _). wrap ''failed to sign eots: '' (eots_Sign x privKey privRand msg))))"

definition signSchnorrSigFromPrivKey ::
  "('kr, 'sk, 'sc, 'fv, 'sg, 'pk) eots_ext \<Rightarrow> 'sk option \<Rightarrow> bytes \<Rightarrow> 'sg go" where
  "signSchnorrSigFromPrivKey x privKey msg =
     rbind (deref privKey) (\<lambda>sk. wrap ''failed to sign schnorr signature: '' (schnorr_Sign x sk msg))"

definition SignSchnorrSig ::
  "('kr, 'sk, 'sc, 'fv, 'sg, 'pk) eots_ext \<Rightarrow> dbfault \<Rightarrow> bytes \<Rightarrow> bytes \<Rightarrow> (('kr, 'sk) LocalEOTSManager, 'sg) cmd"
where
  "SignSchnorrSig x flt fpPk msg =
     sbind (wrapS ''failed to get EOTS private key: '' (getEOTSPrivKey x flt fpPk)) (\<lambda>privKey.
     liftR (signSchnorrSigFromPrivKey x (Some privKey) msg))"

definition SignSchnorrSigFromKeyname ::
  "('kr, 'sk, 'sc, 'fv, 'sg, 'pk) eots_ext \<Rightarrow> bytes \<Rightarrow> bytes \<Rightarrow> (('kr, 'sk) LocalEOTSManager, 'sg \<times> bytes) cmd"
where
  "SignSchnorrSigFromKeyname x keyName msg =
     sbind (LoadBIP340PubKeyFromKeyName x keyName) (\<lambda>eotsPk.
     sbind (eotsPrivKeyFromKeyName x keyName) (\<lambda>privKey.
     liftR (rbind (wrap ''failed to schnorr sign: '' (signSchnorrSigFromPrivKey x privKey msg))
       (\<lambda>signature. Ok (signature, eotsPk)))))"

section \<open>Maintenance\<close>

definition CloseManager :: "goerror option \<Rightarrow> (('kr, 'sk) LocalEOTSManager, unit) cmd" where
  "CloseManager flt = wrapS ''failed to close EOTS store: '' (on_es (CloseStore flt))"

definition UnsafeDeleteSignStoreRecords ::
  "('kr, 'sk, 'sc, 'fv, 'sg, 'pk) eots_ext \<Rightarrow> dbfault \<Rightarrow> bytes option \<Rightarrow> bytes option \<Rightarrow> u64 \<Rightarrow>
     (('kr, 'sk) LocalEOTSManager, unit) cmd" where
  "UnsafeDeleteSignStoreRecords x flt eotsPK chainID fromHeight =
     wrapS (''failed to delete sign records from height '' @ fmt_u64 fromHeight @ '': '')
       (on_es (DeleteSignRecordsFromHeight x flt eotsPK chainID fromHeight))"

definition IsRecordInDB ::
  "('kr, 'sk, 'sc, 'fv, 'sg, 'pk) eots_ext \<Rightarrow> dbfault \<Rightarrow> bytes \<Rightarrow> bytes \<Rightarrow> u64 \<Rightarrow>
     (('kr, 'sk) LocalEOTSManager, bool) cmd" where
  "IsRecordInDB x flt eotsPk chainID height =
     sbind (wrapS ''error getting sign record: '' (get_es (GetSignRecord x flt eotsPk chainID height)))
       (\<lambda>r. liftR (Ok (r \<noteq> None)))"

definition Backup ::
  "unit go \<Rightarrow> unit go \<Rightarrow> unit go \<Rightarrow> bytes \<Rightarrow> bytes \<Rightarrow> bytes \<Rightarrow> ('kr, 'sk) LocalEOTSManager \<Rightarrow> (backups, bytes) cmd"
where
  "Backup mkdirRes createRes copyRes timestamp dbPath backupDir s =
     wrapS ''failed to backup database: ''
       (BackupDB mkdirRes createRes copyRes timestamp dbPath backupDir (lm_es s))"

section \<open>What the operations leave alone\<close>

lemma keeps_get_es [keeps_intros]: "keeps f (get_es q)"
  by (simp add: keeps_def get_es_def)

lemma get_es_eq [go_simps]: "get_es f s = (r, s') \<longleftrightarrow> f (lm_es s) = r \<and> s' = s"
  by (auto simp: get_es_def)

lemma on_es_eq_Ok [go_simps]:
  "on_es m s = (Ok a, s') \<longleftrightarrow> (\<exists>db. m (lm_es s) = (Ok a, db) \<and> s' = s\<lparr>lm_es := db\<rparr>)"
  by (auto simp: on_es_def split: prod.splits)

lemma lm_es_on_es [simp]: "lm_es (snd (on_es m s)) = snd (m (lm_es s))"
  by (simp add: on_es_def split: prod.split)

lemma keeps_krKey [keeps_intros]: "keeps lm_es (krKey x name)"
  by (simp add: keeps_def krKey_def split: prod.split)

lemma keeps_krKey_keys [keeps_intros]: "keeps lm_privateKeys (krKey x name)"
  by (simp add: keeps_def krKey_def split: prod.split)

lemma keeps_getKeyFromKeyring [keeps_intros]: "keeps lm_es (getKeyFromKeyring x n p)"
proof -
  have "keeps lm_es (sbind (wrapS q (krKey x n)) (\<lambda>k. liftR (g k)))" for q and g :: "keyring_record \<Rightarrow> 'b go"
    by (intro keeps_intros)
  then show ?thesis by (simp add: keeps_def getKeyFromKeyring_def)
qed

lemma keeps_getKeyFromKeyring_keys [keeps_intros]: "keeps lm_privateKeys (getKeyFromKeyring x n p)"
proof -
  have "keeps lm_privateKeys (sbind (wrapS q (krKey x n)) (\<lambda>k. liftR (g k)))"
    for q and g :: "keyring_record \<Rightarrow> 'b go"
    by (intro keeps_intros)
  then show ?thesis by (simp add: keeps_def getKeyFromKeyring_def)
qed

lemma keeps_eotsPrivKeyFromKeyName [keeps_intros]: "keeps lm_es (eotsPrivKeyFromKeyName x n)"
proof -
  have "keeps lm_es (sbind (getKeyFromKeyring x n []) (\<lambda>k. liftR (Ok (Some k))))"
    by (intro keeps_intros)
  then show ?thesis by (simp add: keeps_def eotsPrivKeyFromKeyName_def)
qed

lemma keeps_verifiedPrivKey [keeps_intros]:
  "(\<And>m. keeps lm_es m \<Longrightarrow> keeps lm_es (w m)) \<Longrightarrow> keeps lm_es (verifiedPrivKey x flt w pk)"
  unfolding verifiedPrivKey_def by (intro keeps_intros) (auto intro: keeps_intros)

lemma keeps_getEOTSPrivKey [keeps_intros]: "keeps lm_es (getEOTSPrivKey x flt pk)"
  unfolding getEOTSPrivKey_def by (intro keeps_intros)

lemma keeps_CreateRandomnessPairList [keeps_intros]:
  "keeps lm_es (CreateRandomnessPairList x flt pk c h n opts)"
  unfolding CreateRandomnessPairList_def Let_def by (auto intro!: keeps_intros)

lemma keeps_SignSchnorrSig [keeps_intros]: "keeps lm_es (SignSchnorrSig x flt pk msg)"
  unfolding SignSchnorrSig_def by (intro keeps_intros)

lemma keeps_LoadBIP340PubKeyFromKeyName [keeps_intros]: "keeps lm_es (LoadBIP340PubKeyFromKeyName x n)"
  unfolding LoadBIP340PubKeyFromKeyName_def loadBIP340PubKey_def by (intro keeps_intros)

lemma keeps_SignSchnorrSigFromKeyname [keeps_intros]: "keeps lm_es (SignSchnorrSigFromKeyname x n msg)"
  unfolding SignSchnorrSigFromKeyname_def by (intro keeps_intros)

lemma keeps_KeyRecord_of [keeps_intros]: "keeps lm_es (KeyRecord_of x tx pk)"
  unfolding KeyRecord_of_def by (intro keeps_intros)

lemma keeps_Unlock [keeps_intros]: "keeps lm_es (Unlock x flt pk p)"
  unfolding Unlock_def
  by (intro keeps_intros) (simp add: keeps_def)

lemma keeps_keyExists [keeps_intros]: "keeps lm_es (keyExists x name)"
  unfolding keeps_def
proof
  fix s
  obtain r s' where "krKey x name s = (r, s')" by (cases "krKey x name s")
  then show "lm_es (snd (keyExists x name s)) = lm_es s"
    using keepsD [OF keeps_krKey [of x name]] by (cases r) (auto simp: keyExists_def)
qed

text \<open>The record part of the store, which creating a key does not touch.\<close>

definition recordBucket :: "('kr, 'sk) LocalEOTSManager \<Rightarrow> bucket option" where
  "recordBucket s = kv_buckets (lm_es s) signRecordBucketName"

lemma keeps_recordBucket: "keeps lm_es m \<Longrightarrow> keeps recordBucket m"
  by (simp add: keeps_def recordBucket_def)

lemma keeps_SaveEOTSKeyName [keeps_intros]: "keeps recordBucket (SaveEOTSKeyName x flt pk n)"
  by (simp add: keeps_def SaveEOTSKeyName_def recordBucket_def AddEOTSKeyName_def Let_def
      kv_update_bucket_other)

lemma preserves_SaveEOTSKeyName [keeps_intros]:
  "preserves (\<lambda>s. wf_store y (lm_es s)) (SaveEOTSKeyName x flt pk n)"
  by (simp add: preserves_def SaveEOTSKeyName_def wf_store_AddEOTSKeyName)

lemma preserves_lm_es: "keeps lm_es m \<Longrightarrow> preserves (\<lambda>s. P (lm_es s)) m"
  by (rule keeps_preserves)

lemma createKey_steps:
  "keeps lm_es (\<lambda>s. (wrap p (kr_SigningAlgo x (lm_kr s)), s))"
  "keeps lm_es (\<lambda>s. case kr_NewAccount x name mnemonic p (lm_kr s) of
     (r, input, kr) \<Rightarrow> (r, s\<lparr>lm_input := input, lm_kr := kr\<rparr>))"
  by (simp_all add: keeps_def split: prod.split)

lemmas createKey_keeps = keeps_keyExists keeps_LoadBIP340PubKeyFromKeyName createKey_steps

lemma keeps_CreateKeyWithMnemonic [keeps_intros]:
  "keeps recordBucket (CreateKeyWithMnemonic x flt name mnemonic p)"
  unfolding CreateKeyWithMnemonic_def
  by (intro keeps_guard keeps_sbind keeps_SaveEOTSKeyName keeps_if keeps_liftR keeps_wrapS
      createKey_keeps [THEN keeps_recordBucket])

lemma preserves_CreateKeyWithMnemonic [keeps_intros]:
  "preserves (\<lambda>s. wf_store y (lm_es s)) (CreateKeyWithMnemonic x flt name mnemonic p)"
  unfolding CreateKeyWithMnemonic_def
  by (intro preserves_guard preserves_sbind preserves_SaveEOTSKeyName preserves_if preserves_liftR
      preserves_wrapS createKey_keeps [THEN preserves_lm_es])

lemma keeps_CreateKey [keeps_intros]: "keeps recordBucket (CreateKey x flt mn name p)"
  unfolding CreateKey_def by (intro keeps_intros)

lemma preserves_CreateKey [keeps_intros]:
  "preserves (\<lambda>s. wf_store y (lm_es s)) (CreateKey x flt mn name p)"
  unfolding CreateKey_def by (intro keeps_intros)

section \<open>Rejection sampling\<close>

text \<open>The candidate of one iteration, and whether it is accepted.\<close>

definition sampleAt ::
  "('kr, 'sk, 'sc, 'fv, 'sg, 'pk) eots_ext \<Rightarrow> bytes \<Rightarrow> bytes \<Rightarrow> u64 \<Rightarrow> u64 \<Rightarrow> 'sc \<times> bool" where
  "sampleAt x key chainID height i =
     SetByteSlice x (hmac_sha256 x key (u64be x height @ chainID @ u64be x i))"

definition accepted :: "('kr, 'sk, 'sc, 'fv, 'sg, 'pk) eots_ext \<Rightarrow> bytes \<Rightarrow> bytes \<Rightarrow> u64 \<Rightarrow> u64 \<Rightarrow> bool" where
  "accepted x key chainID height i =
     (case sampleAt x key chainID height i of (sc, overflow) \<Rightarrow> \<not> overflow \<and> \<not> IsZero x sc)"

lemma accepted_nonzero:
  "accepted x key c h i \<Longrightarrow> \<not> IsZero x (fst (sampleAt x key c h i))"
  by (auto simp: accepted_def split: prod.splits)

lemma sampleLoop_step:
  "sampleLoop x key c h i =
    (if accepted x key c h i then Some (fst (sampleAt x key c h i)) else sampleLoop x key c h (i + 1))"
  by (subst sampleLoop.simps) (auto simp: accepted_def sampleAt_def split: prod.splits)

lemma sampleLoop_returns:
  assumes "accepted x key c h (i + of_nat n)" and "\<And>m. m < n \<Longrightarrow> \<not> accepted x key c h (i + of_nat m)"
  shows "sampleLoop x key c h i = Some (fst (sampleAt x key c h (i + of_nat n)))"
  using assms
proof (induction n arbitrary: i)
  case 0
  then show ?case by (subst sampleLoop_step) simp
next
  case (Suc n)
  have "\<not> accepted x key c h i" using Suc.prems(2) [of 0] by simp
  moreover have "sampleLoop x key c h (i + 1) = Some (fst (sampleAt x key c h (i + 1 + of_nat n)))"
  proof (rule Suc.IH)
    show "accepted x key c h (i + 1 + of_nat n)" using Suc.prems(1) by (simp add: algebra_simps)
    show "\<not> accepted x key c h (i + 1 + of_nat m)" if "m < n" for m
      using that Suc.prems(2) [of "Suc m"] by (simp add: algebra_simps)
  qed
  ultimately show ?case by (subst sampleLoop_step) (simp add: algebra_simps)
qed

lemma sampleLoop_accepts:
  assumes "sampleLoop x key c h i = Some sc"
  shows "\<exists>n. accepted x key c h (i + of_nat n)"
proof (rule sampleLoop.raw_induct [where xa = "((((x, key), c), h), i)" and y = sc
      and P = "\<lambda>x key c h i sc. \<exists>n. accepted x key c h (i + of_nat n)", unfolded prod.case, OF _ assms])
  fix loop and x :: "('kr, 'sk, 'sc, 'fv, 'sg, 'pk) eots_ext" and key c h i sc
  assume IH: "\<And>x key c h i sc. loop x key c h i = Some sc \<Longrightarrow> \<exists>n. accepted x key c h (i + of_nat n)"
    and body: "(case SetByteSlice x (hmac_sha256 x key (u64be x h @ c @ u64be x i)) of
      (randScalar, overflow) \<Rightarrow> if \<not> overflow \<and> \<not> IsZero x randScalar then Some randScalar
        else loop x key c h (i + 1)) = Some sc"
  show "\<exists>n. accepted x key c h (i + of_nat n)"
  proof (cases "accepted x key c h i")
    case True
    then show ?thesis by (intro exI [of _ 0]) simp
  next
    case False
    with body have "loop x key c h (i + 1) = Some sc"
      by (auto simp: accepted_def sampleAt_def split: prod.splits if_splits)
    with IH obtain n where "accepted x key c h (i + 1 + of_nat n)" by blast
    then show ?thesis by (intro exI [of _ "Suc n"]) (simp add: algebra_simps)
  qed
qed

lemma sampleLoop_Some:
  assumes "sampleLoop x key c h i = Some sc"
  shows "\<exists>n. accepted x key c h (i + of_nat n) \<and> (\<forall>m < n. \<not> accepted x key c h (i + of_nat m)) \<and>
    sc = fst (sampleAt x key c h (i + of_nat n))"
proof -
  let ?P = "\<lambda>n. accepted x key c h (i + of_nat n)"
  from sampleLoop_accepts [OF assms] obtain k where "?P k" by blast
  then have n: "?P (LEAST n. ?P n)" by (rule LeastI)
  have min: "\<not> ?P m" if "m < (LEAST n. ?P n)" for m using that by (rule not_less_Least)
  show ?thesis using sampleLoop_returns [OF n min] assms n min
    by (intro exI [of _ "LEAST n. ?P n"]) simp
qed

lemma GenerateRandomness_Ok:
  "GenerateRandomness x key c h = Ok (sc, fv) \<longleftrightarrow>
    (\<exists>n. accepted x key c h (of_nat n) \<and> (\<forall>m < n. \<not> accepted x key c h (of_nat m)) \<and>
       sc = fst (sampleAt x key c h (of_nat n))) \<and> fv = rand_point_X x sc"
proof -
  have "sampleLoop x key c h 0 = Some sc \<longleftrightarrow>
    (\<exists>n. accepted x key c h (of_nat n) \<and> (\<forall>m < n. \<not> accepted x key c h (of_nat m)) \<and>
       sc = fst (sampleAt x key c h (of_nat n)))"
  proof
    assume "sampleLoop x key c h 0 = Some sc"
    from sampleLoop_Some [OF this] show "\<exists>n. accepted x key c h (of_nat n) \<and>
      (\<forall>m < n. \<not> accepted x key c h (of_nat m)) \<and> sc = fst (sampleAt x key c h (of_nat n))" by simp
  next
    assume "\<exists>n. accepted x key c h (of_nat n) \<and>
      (\<forall>m < n. \<not> accepted x key c h (of_nat m)) \<and> sc = fst (sampleAt x key c h (of_nat n))"
    then obtain n where "accepted x key c h (0 + of_nat n)"
      "\<And>m. m < n \<Longrightarrow> \<not> accepted x key c h (0 + of_nat m)" "sc = fst (sampleAt x key c h (0 + of_nat n))"
      by auto
    from sampleLoop_returns [OF this(1,2)] this(3) show "sampleLoop x key c h 0 = Some sc" by simp
  qed
  then show ?thesis by (auto simp: GenerateRandomness_def split: option.splits)
qed

text \<open>Some accepted iteration is a first accepted one.\<close>

lemma GenerateRandomness_returns:
  assumes "accepted x key c h i"
  shows "\<exists>sc. GenerateRandomness x key c h = Ok (sc, rand_point_X x sc)"
proof -
  let ?P = "\<lambda>n. accepted x key c h (of_nat n)"
  from assms have "?P (unat i)" by simp
  then have "?P (LEAST n. ?P n)" by (rule LeastI)
  moreover have "\<not> ?P m" if "m < (LEAST n. ?P n)" for m using that by (rule not_less_Least)
  ultimately show ?thesis unfolding GenerateRandomness_Ok by blast
qed

lemma GenerateRandomness_accepted:
  assumes "GenerateRandomness x key c h = Ok (sc, fv)"
  obtains n where "accepted x key c h (of_nat n)" "\<And>m. m < n \<Longrightarrow> \<not> accepted x key c h (of_nat m)"
    "sc = fst (sampleAt x key c h (of_nat n))" "\<not> IsZero x sc" "fv = rand_point_X x sc"
  using assms unfolding GenerateRandomness_Ok by (auto simp: accepted_nonzero)

lemma getRandomnessPair_pub:
  "getRandomnessPair x sk c h = Ok (sc, fv) \<Longrightarrow> fv = rand_point_X x sc"
  by (auto simp: getRandomnessPair_def wrap_eq_Ok GenerateRandomness_def split: option.splits)

section \<open>Properties of randomness and keys\<close>

text \<open>The private key an operation works with is the one whose public key was asked for.\<close>

lemma verifiedPrivKey_bound:
  "verifiedPrivKey x flt w pk s = (Ok sk, s') \<Longrightarrow> SerializePubKey x (PubKey x sk) = pk"
  by (auto simp: verifiedPrivKey_def go_simps split: if_splits)

lemma verifiedPrivKey_keeps_es:
  assumes "verifiedPrivKey x flt (wrapS p) pk s = (r, s')"
  shows "lm_es s' = lm_es s"
  using keepsD [OF keeps_verifiedPrivKey assms] keeps_wrapS by blast

text \<open>With the file keyring backend, key lookup reads only the map of unlocked keys.\<close>

lemma verifiedPrivKey_file:
  assumes "kr_Backend x (lm_kr s) = BackendFile"
  shows "verifiedPrivKey x flt (wrapS p) pk s =
    (rbind (wrap ''failed to get EOTS key name: '' (GetEOTSKeyName flt pk (lm_es s))) (\<lambda>keyName.
     rbind (wrap p (fst (eotsPrivKeyFromKeyName x keyName s))) (\<lambda>q.
     rbind (deref q) (\<lambda>privKey.
       if SerializePubKey x (PubKey x privKey) \<noteq> pk
       then Err (ErrText ''public key mismatch: requested key does not match stored key'')
       else Ok privKey))), s)"
proof (cases "GetEOTSKeyName flt pk (lm_es s)")
  case (Ok n)
  have "eotsPrivKeyFromKeyName x n s = (fst (eotsPrivKeyFromKeyName x n s), s)"
    using assms by (simp add: eotsPrivKeyFromKeyName_def BackendTest_def BackendFile_def)
  with Ok show ?thesis
    by (cases "fst (eotsPrivKeyFromKeyName x n s)")
       (simp_all add: verifiedPrivKey_def sbind_def wrapS_def get_es_def liftR_def split: prod.splits)
qed (simp_all add: verifiedPrivKey_def sbind_def wrapS_def get_es_def)

end
