(* ===== verification/Eots_Safety.thy ===== *)
theory Eots_Safety
  imports Eots_Manager
begin

text \<open>
  What the EOTS manager guarantees across calls. An extractable one-time signature gives the private
  key away when two different messages are signed for one height, so the central claim is about all
  sequences of calls: \<open>eots_step\<close> is the step relation of the manager over the calls that protect
  against a double signature, with failures, crashes and restarts, and the sequences of released
  signatures are its traces; \<open>manager_call\<close> is the whole interface, with the two operations named unsafe,
  the queries, and closing and reopening the database. The contract of the external functions is the
  locale \<open>eots_codec\<close>; the manager is shown to be a \<open>ledger\<close> over both relations, which gives the
  safety theorem. The theory also has the
  functional properties of signing: idempotence, the equivalence of batch and single signing, and
  the binding of keys and randomness.
\<close>

section \<open>The contract of scalars\<close>

locale eots_codec = store_codec x for x :: "('kr, 'sk, 'sc, 'fv, 'sg, 'pk) eots_ext" +
  assumes scalar_round_trip [simp]: "SetByteSlice x (sc_Bytes x sc) = (sc, False)"

text \<open>The message and signature of a sign record.\<close>

definition releasedOf ::
  "('kr, 'sk, 'sc, 'fv, 'sg, 'pk) eots_ext \<Rightarrow> SigningRecord \<Rightarrow> bytes \<times> 'sc" where
  "releasedOf x r = (SR_Msg r, fst (SetByteSlice x (SR_Signature r)))"

definition signedFor ::
  "('kr, 'sk, 'sc, 'fv, 'sg, 'pk) eots_ext \<Rightarrow> ('kr, 'sk) LocalEOTSManager \<Rightarrow>
     bytes \<times> bytes \<times> u64 \<Rightarrow> (bytes \<times> 'sc) option" where
  "signedFor x s = (\<lambda>(chainID, pk, h). map_option (releasedOf x) (signRecords x (lm_es s) chainID pk h))"

section \<open>Records only grow\<close>

definition extends ::
  "('kr, 'sk, 'sc, 'fv, 'sg, 'pk) eots_ext \<Rightarrow> (bytes \<rightharpoonup> SigningRecord) \<Rightarrow> ('kr, 'sk) LocalEOTSManager \<Rightarrow> bool"
where
  "extends x m s \<longleftrightarrow> wf_store x (lm_es s) \<and> m \<subseteq>\<^sub>m recordOf x (lm_es s)"

lemma preserves_extends_es [keeps_intros]: "keeps lm_es m \<Longrightarrow> preserves (extends x r) m"
  by (simp add: preserves_def keeps_def extends_def)

context eots_codec
begin

lemma extends_SaveSignRecord [keeps_intros]:
  "preserves (extends x m) (on_es (SaveSignRecord x flt now h c msg pk sig))"
proof -
  have "m \<subseteq>\<^sub>m recordOf x (snd (SaveSignRecord x flt now h c msg pk sig db))"
    if wf: "wf_store x db" and m: "m \<subseteq>\<^sub>m recordOf x db" for db
  proof (cases "SaveSignRecord x flt now h c msg pk sig db")
    case (Pair r db')
    show ?thesis
    proof (cases "r = Ok ()")
      case True
      with Pair have "SaveSignRecord x flt now h c msg pk sig db = (Ok (), db')" by simp
      from SaveSignRecord_Ok [OF wf this] m Pair show ?thesis
        by (auto simp: map_le_def signRecords_def dom_def)
    next
      case False
      with SaveSignRecord_fails [of x flt now h c msg pk sig db "()"] Pair m show ?thesis by simp
    qed
  qed
  then show ?thesis by (simp add: preserves_def extends_def wf_store_SaveSignRecord)
qed

lemma extends_SaveSignRecordsBatch [keeps_intros]:
  "preserves (extends x m) (on_es (SaveSignRecordsBatch x flt now rs))"
proof -
  have "m \<subseteq>\<^sub>m recordOf x (snd (SaveSignRecordsBatch x flt now rs db))"
    if wf: "wf_store x db" and m: "m \<subseteq>\<^sub>m recordOf x db" for db
  proof (cases "SaveSignRecordsBatch x flt now rs db")
    case (Pair r db')
    show ?thesis
    proof (cases "r = Ok ()")
      case True
      with Pair have "SaveSignRecordsBatch x flt now rs db = (Ok (), db')" by simp
      note R = SaveSignRecordsBatch_Ok [OF wf this]
      have "recordOf x db' k = Some v" if "m k = Some v" for k v
      proof -
        from that m have k: "recordOf x db k = Some v" by (auto simp: map_le_def dom_def)
        with R have "k \<notin> recordKey x ` set rs" by auto
        then have "map_of (map (\<lambda>r. (recordKey x r, newRecord now r)) rs) k = None"
          by (simp only: map_of_keyed_None not_False_eq_True)
        with R k show ?thesis by (simp add: map_add_def)
      qed
      with Pair show ?thesis by (auto simp: map_le_def dom_def)
    next
      case False
      with SaveSignRecordsBatch_fails [of x flt now rs db "()"] Pair m show ?thesis by simp
    qed
  qed
  then show ?thesis by (simp add: preserves_def extends_def wf_store_SaveSignRecordsBatch)
qed

lemma extends_SignEOTS: "preserves (extends x m) (SignEOTS x tx now pk c msg h)"
  unfolding SignEOTS_def
  by (intro preserves_sbind preserves_wrapS preserves_liftR preserves_case_option preserves_if
      preserves_case_prod extends_SaveSignRecord preserves_extends_es keeps_get_es
      keeps_verifiedPrivKey keeps_wrapS)

lemma extends_SignBatchEOTS: "preserves (extends x m) (SignBatchEOTS x tx now req)"
  unfolding SignBatchEOTS_def Let_def
  by (intro preserves_sbind preserves_wrapS preserves_liftR preserves_case_go preserves_if
      preserves_case_prod extends_SaveSignRecordsBatch preserves_extends_es keeps_get_es
      keeps_verifiedPrivKey keeps_wrapS)

end

section \<open>What a successful call has recorded\<close>

lemma extends_same: "wf_store x (lm_es s) \<Longrightarrow> extends x (recordOf x (lm_es s)) s"
  by (simp add: extends_def)

text \<open>The entries of the batch loop: every response is either the recorded signature of the same
  message or a new signature that is among the records to save, which are for heights without a
  record.\<close>

lemma signBatchLoop_Ok:
  assumes "signBatchLoop x sk pk c ex reqs = Ok (resp, recs)" and "p \<in> set resp"
  shows "\<exists>q \<in> set reqs. rq_Height q = rs_Height p \<and>
    (case ex (rq_Height q) of
       Some r \<Rightarrow> releasedOf x r = (rq_Msg q, rs_Signature p)
     | None \<Rightarrow> \<lparr>BR_Height = rq_Height q, BR_ChainID = c, BR_Msg = rq_Msg q, BR_EotsPk = pk,
         BR_Sig = sc_Bytes x (rs_Signature p)\<rparr> \<in> set recs)"
  using assms
proof (induction reqs arbitrary: resp recs)
  case (Cons q reqs)
  show ?case
  proof (cases "ex (rq_Height q)")
    case None
    with Cons.prems(1) obtain sig resp' recs' where
      rest: "signBatchLoop x sk pk c ex reqs = Ok (resp', recs')"
      and resp: "resp = \<lparr>rs_Signature = sig, rs_Height = rq_Height q\<rparr> # resp'"
      and recs: "recs = \<lparr>BR_Height = rq_Height q, BR_ChainID = c, BR_Msg = rq_Msg q, BR_EotsPk = pk,
        BR_Sig = sc_Bytes x sig\<rparr> # recs'"
      by (auto simp: Let_def go_simps)
    show ?thesis
    proof (cases "p \<in> set resp'")
      case True
      from Cons.IH [OF rest True] show ?thesis unfolding recs
        by (auto split: option.splits intro: bexI)
    next
      case False
      with Cons.prems(2) resp recs None show ?thesis by auto
    qed
  next
    case (Some r)
    with Cons show ?thesis
      by (auto simp: Let_def go_simps releasedOf_def split: if_splits option.splits)
  qed
qed simp

lemma signBatchLoop_recs:
  "signBatchLoop x sk pk c ex reqs = Ok (resp, recs) \<Longrightarrow> r \<in> set recs \<Longrightarrow>
    BR_ChainID r = c \<and> BR_EotsPk r = pk \<and> ex (BR_Height r) = None \<and> BR_Height r \<in> rq_Height ` set reqs"
  by (induction reqs arbitrary: resp recs)
     (fastforce simp: Let_def go_simps split: option.splits if_splits)+

context eots_codec
begin

lemma SignEOTS_recorded:
  assumes wf: "wf_store x (lm_es s)" and run: "SignEOTS x tx now pk c msg h s = (Ok sig, s')"
  shows "signedFor x s' (c, pk, h) = Some (msg, sig)"
proof (cases "GetSignRecord x (tx 0) pk c h (lm_es s)")
  case (Ok rec)
  show ?thesis
  proof (cases rec)
    case (Some r)
    with run Ok have "s' = s" "SR_Msg r = msg" "sig = fst (SetByteSlice x (SR_Signature r))"
      by (auto simp: SignEOTS_def go_simps split: if_splits)
    with GetSignRecord_Ok [OF wf] Ok Some show ?thesis
      by (simp add: signedFor_def releasedOf_def)
  next
    case None
    with run Ok obtain s1 db' where es: "lm_es s1 = lm_es s"
      and save: "SaveSignRecord x (tx 2) now h c msg pk (sc_Bytes x sig) (lm_es s1) = (Ok (), db')"
      and s': "s' = s1\<lparr>lm_es := db'\<rparr>"
      by (auto simp: SignEOTS_def go_simps dest: verifiedPrivKey_keeps_es split: prod.splits)
    from wf es have "wf_store x (lm_es s1)" by simp
    from SaveSignRecord_Ok [OF this save] s' show ?thesis
      by (simp add: signedFor_def signRecords_def releasedOf_def)
  qed
qed (use run in \<open>auto simp: SignEOTS_def go_simps\<close>)

lemma SignBatchEOTS_steps:
  assumes wf: "wf_store x (lm_es s)" and run: "SignBatchEOTS x tx now req s = (Ok resp, s')"
  obtains sk s1 recs where
    "distinct (map rq_Height (rq_SignRequest req))"
    "verifiedPrivKey x (tx 0) (wrapS ''failed to get EOTS private key: '') (rq_UID req) s = (Ok sk, s1)"
    "lm_es s1 = lm_es s"
    "signBatchLoop x sk (rq_UID req) (rq_ChainID req)
       (\<lambda>h. if h \<in> rq_Height ` set (rq_SignRequest req)
         then signRecords x (lm_es s) (rq_ChainID req) (rq_UID req) h else None)
       (rq_SignRequest req) = Ok (resp, recs)"
    "SaveSignRecordsBatch x (tx 2) now recs (lm_es s) = (Ok (), lm_es s')"
    "s' = s1\<lparr>lm_es := lm_es s'\<rparr>"
proof -
  let ?pk = "rq_UID req" and ?c = "rq_ChainID req" and ?hs = "map rq_Height (rq_SignRequest req)"
  have d: "distinct ?hs"
    using run by (auto simp: SignBatchEOTS_def Let_def go_simps split: go.splits)
  then have v: "ValidateNoDuplicateHeights ?hs = Ok ()" by simp
  from run obtain sk s1 ex recs where
    sk: "verifiedPrivKey x (tx 0) (wrapS ''failed to get EOTS private key: '') ?pk s = (Ok sk, s1)"
    and ex: "GetSignRecordsBatch x (tx 1) ?pk ?c ?hs (lm_es s1) = Ok ex"
    and loop: "signBatchLoop x sk ?pk ?c ex (rq_SignRequest req) = Ok (resp, recs)"
    and save: "(recs = [] \<and> s' = s1) \<or> (recs \<noteq> [] \<and> (\<exists>db. s' = s1\<lparr>lm_es := db\<rparr> \<and>
      SaveSignRecordsBatch x (tx 2) now recs (lm_es s1) = (Ok (), db)))"
    by (auto simp: SignBatchEOTS_def Let_def v go_simps split: if_splits prod.splits)
  have es: "lm_es s1 = lm_es s" using sk by (rule verifiedPrivKey_keeps_es)
  have "ex = (\<lambda>h. if h \<in> rq_Height ` set (rq_SignRequest req)
      then signRecords x (lm_es s) ?c ?pk h else None)"
    using GetSignRecordsBatch_Ok [OF wf, of "tx 1" ?pk ?c ?hs ex] ex es by simp
  with that [OF d sk es] loop save es show thesis
    by (auto simp: SaveSignRecordsBatch_def)
qed

lemma SignBatchEOTS_recorded:
  assumes wf: "wf_store x (lm_es s)" and run: "SignBatchEOTS x tx now req s = (Ok resp, s')"
    and p: "p \<in> set resp" and q: "q \<in> set (rq_SignRequest req)" "rq_Height q = rs_Height p"
  shows "signedFor x s' (rq_ChainID req, rq_UID req, rs_Height p) = Some (rq_Msg q, rs_Signature p)"
proof -
  let ?pk = "rq_UID req" and ?c = "rq_ChainID req"
  let ?ex = "\<lambda>h. if h \<in> rq_Height ` set (rq_SignRequest req) then signRecords x (lm_es s) ?c ?pk h else None"
  obtain sk s1 recs where d: "distinct (map rq_Height (rq_SignRequest req))"
    and loop: "signBatchLoop x sk ?pk ?c ?ex (rq_SignRequest req) = Ok (resp, recs)"
    and save: "SaveSignRecordsBatch x (tx 2) now recs (lm_es s) = (Ok (), lm_es s')"
    by (rule SignBatchEOTS_steps [OF wf run])
  note R = SaveSignRecordsBatch_Ok [OF wf save]
  obtain q' where q': "q' \<in> set (rq_SignRequest req)" "rq_Height q' = rs_Height p"
    and entry: "case ?ex (rq_Height q') of
       Some r \<Rightarrow> releasedOf x r = (rq_Msg q', rs_Signature p)
     | None \<Rightarrow> \<lparr>BR_Height = rq_Height q', BR_ChainID = ?c, BR_Msg = rq_Msg q', BR_EotsPk = ?pk,
         BR_Sig = sc_Bytes x (rs_Signature p)\<rparr> \<in> set recs"
    using signBatchLoop_Ok [OF loop p] by blast
  have [simp]: "q' = q" using distinct_map_nth_eq [OF d] q q' by metis
  have mem: "rs_Height p \<in> rq_Height ` set (rq_SignRequest req)" using q by force
  have ext: "extends x (recordOf x (lm_es s)) s'"
    using preservesD [OF extends_SignBatchEOTS run] extends_same [OF wf] by blast
  show ?thesis
  proof (cases "signRecords x (lm_es s) ?c ?pk (rs_Height p)")
    case (Some r)
    then have "signRecords x (lm_es s') ?c ?pk (rs_Height p) = Some r"
      using ext by (auto simp: extends_def map_le_def signRecords_def dom_def)
    with Some entry q mem show ?thesis by (simp add: signedFor_def)
  next
    case None
    let ?r = "\<lparr>BR_Height = rs_Height p, BR_ChainID = ?c, BR_Msg = rq_Msg q, BR_EotsPk = ?pk,
      BR_Sig = sc_Bytes x (rs_Signature p)\<rparr>"
    from None entry q mem have "?r \<in> set recs" by simp
    then have "recordOf x (lm_es s') (recordKey x ?r) = Some (newRecord now ?r)"
      using R by (simp add: map_of_keyed map_add_find_right)
    then show ?thesis by (simp add: signedFor_def signRecords_def recordKey_def releasedOf_def newRecord_def)
  qed
qed

end

section \<open>The step relation\<close>

text \<open>The signatures a batch call releases: the response carries heights, the message is the one
  requested for that height.\<close>

definition releasedBatch ::
  "SignBatchEOTSRequest \<Rightarrow> 'sc SignDataResponse list \<Rightarrow> ((bytes \<times> bytes \<times> u64) \<times> (bytes \<times> 'sc)) list"
where
  "releasedBatch req resp =
     [((rq_ChainID req, rq_UID req, rs_Height p), (rq_Msg q, rs_Signature p)).
        p \<leftarrow> resp, q \<leftarrow> rq_SignRequest req, rq_Height q = rs_Height p]"

inductive eots_step ::
  "('kr, 'sk, 'sc, 'fv, 'sg, 'pk) eots_ext \<Rightarrow> ('kr, 'sk) LocalEOTSManager \<Rightarrow>
     ((bytes \<times> bytes \<times> u64) \<times> (bytes \<times> 'sc)) list \<Rightarrow> ('kr, 'sk) LocalEOTSManager \<Rightarrow> bool"
  for x :: "('kr, 'sk, 'sc, 'fv, 'sg, 'pk) eots_ext" where
  sign: "SignEOTS x tx now pk c msg h s = (Ok sig, s') \<Longrightarrow> eots_step x s [((c, pk, h), (msg, sig))] s'"
| sign_fails: "SignEOTS x tx now pk c msg h s = (r, s') \<Longrightarrow> (\<And>sig. r \<noteq> Ok sig) \<Longrightarrow> eots_step x s [] s'"
| batch: "SignBatchEOTS x tx now req s = (Ok resp, s') \<Longrightarrow> eots_step x s (releasedBatch req resp) s'"
| batch_fails: "SignBatchEOTS x tx now req s = (r, s') \<Longrightarrow> (\<And>resp. r \<noteq> Ok resp) \<Longrightarrow> eots_step x s [] s'"
| rand: "CreateRandomnessPairList x flt pk c h n opts s = (r, s') \<Longrightarrow> eots_step x s [] s'"
| schnorr: "SignSchnorrSig x flt pk msg s = (r, s') \<Longrightarrow> eots_step x s [] s'"
| schnorr_name: "SignSchnorrSigFromKeyname x name msg s = (r, s') \<Longrightarrow> eots_step x s [] s'"
| unlock: "Unlock x flt pk pass s = (r, s') \<Longrightarrow> eots_step x s [] s'"
| create: "CreateKey x flt mnemonic name pass s = (r, s') \<Longrightarrow> eots_step x s [] s'"
| save_name: "SaveEOTSKeyName x flt key name s = (r, s') \<Longrightarrow> eots_step x s [] s'"
| key_record: "KeyRecord_of x tx pk s = (r, s') \<Longrightarrow> eots_step x s [] s'"
| restart: "NewLocalEOTSManager keyringNew flt home backend (lm_es s) = Ok s' \<Longrightarrow> eots_step x s [] s'"

lemma NewLocalEOTSManager_es:
  assumes "wf_store x (lm_es s)" and "NewLocalEOTSManager kn flt home be (lm_es s) = Ok s'"
  shows "lm_es s' = lm_es s"
proof -
  from assms(1) obtain b kb where "kv_buckets (lm_es s) eotsBucketName = Some kb"
    "kv_buckets (lm_es s) signRecordBucketName = Some b" by (rule wf_storeE)
  with assms(2) show ?thesis
    by (auto simp: NewLocalEOTSManager_def go_simps NewEOTSStore_def initBuckets_def wrapS_def
        kv_update_def tx_create_bucket_def tx_write_def split: prod.splits if_splits go.splits dbfault.splits)
qed

lemma extends_recordBucket:
  assumes "keeps recordBucket m" and "preserves (\<lambda>s. wf_store x (lm_es s)) m"
  shows "preserves (extends x r) m"
proof -
  have "recordOf x (lm_es (snd (m s))) = recordOf x (lm_es s)" for s
    using assms(1) by (simp add: keeps_def recordBucket_def recordOf_def kv_bucket_of_def fun_eq_iff)
  with assms(2) show ?thesis by (auto simp: preserves_def extends_def)
qed

lemma extends_signedFor:
  assumes "extends x (recordOf x (lm_es s)) t" and "signedFor x s k = Some v"
  shows "signedFor x t k = Some v"
proof -
  obtain c p h where k: "k = (c, p, h)" by (cases k)
  with assms(2) obtain r where "recordOf x (lm_es s) (getSignRecordKey x c p h) = Some r"
    "v = releasedOf x r" by (auto simp: signedFor_def signRecords_def)
  with assms(1) k show ?thesis
    by (auto simp: extends_def map_le_def dom_def signedFor_def signRecords_def)
qed

context eots_codec
begin

lemma step_extends: "eots_step x s es t \<Longrightarrow> extends x m s \<Longrightarrow> extends x m t"
proof (induction rule: eots_step.induct)
  case (restart kn flt home be s s')
  then have "lm_es s' = lm_es s" by (intro NewLocalEOTSManager_es [of x]) (auto simp: extends_def)
  with restart show ?case by (simp add: extends_def)
qed (erule preservesD [rotated],
     simp_all add: extends_SignEOTS extends_SignBatchEOTS preserves_extends_es keeps_intros
       extends_recordBucket)+

lemma step_recorded_signature:
  "eots_step x s es t \<Longrightarrow> wf_store x (lm_es s) \<Longrightarrow> (k, v) \<in> set es \<Longrightarrow> signedFor x t k = Some v"
  by (induction rule: eots_step.induct)
     (auto simp: SignEOTS_recorded releasedBatch_def SignBatchEOTS_recorded)

end

sublocale eots_codec \<subseteq> led: ledger "signedFor x" "\<lambda>s. wf_store x (lm_es s)" "eots_step x" "\<lambda>_. True"
proof
  fix s t es k v
  assume step: "eots_step x s es t" and wf: "wf_store x (lm_es s)"
  have ext: "extends x (recordOf x (lm_es s)) t"
    using step_extends [OF step extends_same [OF wf]] .
  then show "wf_store x (lm_es t)" by (simp add: extends_def)
  show "signedFor x t k = Some v" if "signedFor x s k = Some v"
    using ext that by (rule extends_signedFor)
  show "signedFor x t k = Some v" if "(k, v) \<in> set es"
    using step_recorded_signature [OF step wf that] .
qed

context eots_codec
begin

lemmas no_double_sign = led.no_equivocation [OF _ _ TrueI]
lemmas respects_records = led.agrees_with_initial [OF _ _ TrueI]

end

section \<open>The whole interface\<close>

text \<open>Every call of the manager, where the deletions of sign records start at the height \<open>n\<close> or above. The signature
  \<^verbatim>\<open>UnsafeSignEOTS\<close> returns is not among the protected ones, since that call keeps no record. After
  \<^verbatim>\<open>Close\<close> the manager is of no use until the database is opened again.\<close>

inductive manager_call ::
  "('kr, 'sk, 'sc, 'fv, 'sg, 'pk) eots_ext \<Rightarrow> nat \<Rightarrow> ('kr, 'sk) LocalEOTSManager \<Rightarrow>
     ((bytes \<times> bytes \<times> u64) \<times> (bytes \<times> 'sc)) list \<Rightarrow> ('kr, 'sk) LocalEOTSManager \<Rightarrow> bool"
  for x :: "('kr, 'sk, 'sc, 'fv, 'sg, 'pk) eots_ext" and n :: nat where
  protecting: "eots_step x s es t \<Longrightarrow> manager_call x n s es t"
| unsafe_sign: "UnsafeSignEOTS x flt pk c msg h s = (r, s') \<Longrightarrow> manager_call x n s [] s'"
| unsafe_delete: "UnsafeDeleteSignStoreRecords x flt pk c fromHeight s = (r, s') \<Longrightarrow> n \<le> unat fromHeight \<Longrightarrow>
    manager_call x n s [] s'"
| in_db: "IsRecordInDB x flt pk c h s = (r, s') \<Longrightarrow> manager_call x n s [] s'"
| load_name: "LoadBIP340PubKeyFromKeyName x name s = (r, s') \<Longrightarrow> manager_call x n s [] s'"
| with_mnemonic: "CreateKeyWithMnemonic x flt name mnemonic pass s = (r, s') \<Longrightarrow> manager_call x n s [] s'"
| list_keys: "ListEOTSKeys flt s = (r, s') \<Longrightarrow> manager_call x n s [] s'"
| backup: "Backup mk cr cp stamp path dir s b = (r, b') \<Longrightarrow> manager_call x n s [] s"
| close_reopen: "CloseManager flt s = (r, s1) \<Longrightarrow>
    NewLocalEOTSManager keyringNew flt' home backend ((lm_es s1)\<lparr>kv_open := True\<rparr>) = Ok s' \<Longrightarrow>
    manager_call x n s [] s'"

text \<open>What a call keeps: the invariant and the records below the height \<open>n\<close>.\<close>

definition keepsBelow ::
  "('kr, 'sk, 'sc, 'fv, 'sg, 'pk) eots_ext \<Rightarrow> nat \<Rightarrow> ('kr, 'sk) LocalEOTSManager \<Rightarrow> ('kr, 'sk) LocalEOTSManager \<Rightarrow> bool"
where
  "keepsBelow x n s t \<longleftrightarrow> wf_store x (lm_es t) \<and>
     (\<forall>c pk h r. unat h < n \<longrightarrow> signRecords x (lm_es s) c pk h = Some r \<longrightarrow> signRecords x (lm_es t) c pk h = Some r)"

lemma keepsBelow_extends: "extends x (recordOf x (lm_es s)) t \<Longrightarrow> keepsBelow x n s t"
  by (auto simp: keepsBelow_def extends_def map_le_def dom_def signRecords_def)

lemma keepsBelow_es: "keeps lm_es m \<Longrightarrow> m s = (r, t) \<Longrightarrow> wf_store x (lm_es s) \<Longrightarrow> keepsBelow x n s t"
  by (metis keepsBelow_extends preserves_extends_es preservesD extends_same)

lemma keeps_UnsafeSignEOTS [keeps_intros]: "keeps lm_es (UnsafeSignEOTS x flt pk c msg h)"
  unfolding UnsafeSignEOTS_def by (intro keeps_intros)

lemma keeps_IsRecordInDB [keeps_intros]: "keeps lm_es (IsRecordInDB x flt pk c h)"
  unfolding IsRecordInDB_def by (intro keeps_intros)

lemma keeps_ListEOTSKeys [keeps_intros]: "keeps lm_es (ListEOTSKeys flt)"
  unfolding ListEOTSKeys_def by (intro keeps_intros)

context eots_codec
begin

lemma DeleteSignRecordsFromHeight_below:
  assumes wf: "wf_store x db" and run: "DeleteSignRecordsFromHeight x flt pk c fromHeight db = (r, db')"
    and h: "h < fromHeight"
  shows "signRecords x db' c' pk' h = signRecords x db c' pk' h"
proof (cases "r = Ok () \<and> (\<exists>p. pk = Some p) \<and> (\<exists>d. c = Some d)")
  case True
  with run obtain p d where "DeleteSignRecordsFromHeight x flt (Some p) (Some d) fromHeight db = (Ok (), db')" by auto
  from DeleteSignRecordsFromHeight_Ok [OF wf this, of "getSignRecordKey x c' pk' h"] h
  show ?thesis by (auto simp: signRecords_def)
next
  case False
  then have "db' = db"
    using DeleteSignRecordsFromHeight_fails [of x flt pk c fromHeight db "()"] run
    by (cases pk; cases c) (auto simp: DeleteSignRecordsFromHeight_def)
  then show ?thesis by simp
qed

lemma UnsafeDeleteSignStoreRecords_below:
  assumes wf: "wf_store x (lm_es s)" and n: "n \<le> unat fromHeight"
    and run: "UnsafeDeleteSignStoreRecords x flt pk c fromHeight s = (r, t)"
  shows "keepsBelow x n s t"
proof -
  have es: "lm_es t = snd (DeleteSignRecordsFromHeight x flt pk c fromHeight (lm_es s))"
    using run by (auto simp: UnsafeDeleteSignStoreRecords_def wrapS_def on_es_def split_beta)
  have "wf_store x (lm_es t)" using wf_store_DeleteSignRecordsFromHeight [OF wf] es by simp
  moreover have "signRecords x (lm_es t) c' pk' h = signRecords x (lm_es s) c' pk' h" if "unat h < n" for c' pk' h
    using DeleteSignRecordsFromHeight_below [OF wf prod.collapse [symmetric]] n that es
    by (simp add: word_less_nat_alt)
  ultimately show ?thesis by (simp add: keepsBelow_def)
qed

lemma close_reopen_es:
  assumes wf: "wf_store x (lm_es s)" and close: "CloseManager flt s = (r, s1)"
    and reopen: "NewLocalEOTSManager keyringNew flt' home backend ((lm_es s1)\<lparr>kv_open := True\<rparr>) = Ok t"
  shows "lm_es t = lm_es s"
proof -
  have "(lm_es s1)\<lparr>kv_open := True\<rparr> = lm_es s"
    using close wf by (auto simp: CloseManager_def CloseStore_def wrapS_def on_es_def kv_close_def wf_store_def split: option.splits)
  with reopen wf show ?thesis by (simp add: NewLocalEOTSManager_es)
qed

lemma call_keepsBelow: "manager_call x n s es t \<Longrightarrow> wf_store x (lm_es s) \<Longrightarrow> keepsBelow x n s t"
proof (induction rule: manager_call.induct)
  case (protecting s es t)
  then show ?case by (metis keepsBelow_extends step_extends extends_same)
next
  case (with_mnemonic flt name mnemonic pass s r s')
  then show ?case
    by (metis keepsBelow_extends extends_same preservesD extends_recordBucket keeps_CreateKeyWithMnemonic
        preserves_CreateKeyWithMnemonic)
next
  case (close_reopen flt s r s1 kn flt' home be t)
  then have "lm_es t = lm_es s" by (metis close_reopen_es)
  with close_reopen.prems show ?case by (simp add: keepsBelow_def)
qed (auto intro: UnsafeDeleteSignStoreRecords_below keepsBelow_extends extends_same keepsBelow_es [rotated] keeps_intros)

end

sublocale eots_codec \<subseteq> calls: ledger "signedFor x" "\<lambda>s. wf_store x (lm_es s)" "manager_call x n"
  "\<lambda>(c, pk, h). unat h < n" for n
proof
  fix s t es v and k :: "bytes \<times> bytes \<times> u64"
  assume call: "manager_call x n s es t" and wf: "wf_store x (lm_es s)"
  have kept: "keepsBelow x n s t" using call_keepsBelow [OF call wf] .
  then show "wf_store x (lm_es t)" by (simp add: keepsBelow_def)
  assume below: "case k of (c, pk, h) \<Rightarrow> unat h < n"
  show "signedFor x t k = Some v" if "signedFor x s k = Some v"
    using kept that below by (auto simp: keepsBelow_def signedFor_def)
  show "signedFor x t k = Some v" if "(k, v) \<in> set es"
    using call wf that by (cases rule: manager_call.cases) (auto intro: step_recorded_signature)
qed

section \<open>Signing once and again\<close>

lemma SignEOTS_existing:
  assumes "wf_store x (lm_es s)" and "signRecords x (lm_es s) c pk h = Some r"
  shows "SignEOTS x (\<lambda>_. NoFault) now pk c msg h s =
    (if msg = SR_Msg r then Ok (fst (SetByteSlice x (SR_Signature r))) else Err (Sentinel ErrDoubleSign), s)"
  using GetSignRecord_refines [OF assms(1), of pk c h] assms(2)
  by (simp add: SignEOTS_def sbind_def wrapS_def get_es_def liftR_def)

context eots_codec
begin

lemma SignEOTS_new:
  assumes wf: "wf_store x (lm_es s)" and none: "signRecords x (lm_es s) c pk h = None"
    and sk: "verifiedPrivKey x NoFault (wrapS ''failed to get EOTS private key: '') pk s = (Ok sk, s1)"
    and r: "getRandomnessPair x sk c h = Ok (pr, fv)" and sig: "eots_Sign x sk pr msg = Ok sig"
  shows "\<exists>db. SignEOTS x (\<lambda>_. NoFault) now pk c msg h s = (Ok sig, s1\<lparr>lm_es := db\<rparr>) \<and> wf_store x db \<and>
    recordOf x db = (recordOf x (lm_es s))(getSignRecordKey x c pk h \<mapsto>
      \<lparr>SR_Msg = msg, SR_Signature = sc_Bytes x sig, SR_Timestamp = now\<rparr>) \<and>
    kv_buckets db eotsBucketName = kv_buckets (lm_es s) eotsBucketName \<and> kv_open db = kv_open (lm_es s)"
proof -
  have es: "lm_es s1 = lm_es s" using sk by (rule verifiedPrivKey_keeps_es)
  obtain db where db: "SaveSignRecord x NoFault now h c msg pk (sc_Bytes x sig) (lm_es s) = (Ok (), db)"
    using SaveSignRecord_succeeds [OF wf none] by blast
  have "SignEOTS x (\<lambda>_. NoFault) now pk c msg h s = (Ok sig, s1\<lparr>lm_es := db\<rparr>)"
    using GetSignRecord_refines [OF wf, of pk c h] none sk r sig db es
    by (simp add: SignEOTS_def sbind_def wrapS_def get_es_def liftR_def on_es_def)
  moreover have "kv_buckets db eotsBucketName = kv_buckets (lm_es s) eotsBucketName"
    "kv_open db = kv_open (lm_es s)"
    using db by (auto simp: SaveSignRecord_def Let_def go_simps)
  moreover have "wf_store x db"
    using wf_store_SaveSignRecord [OF wf, of NoFault now h c msg pk "sc_Bytes x sig"] db by simp
  ultimately show ?thesis using SaveSignRecord_Ok [OF wf db] by blast
qed

end

text \<open>Signing one request after the other, leaving out those refused as double signs: the
  reference for the batch call.\<close>

fun signEach ::
  "('kr, 'sk, 'sc, 'fv, 'sg, 'pk) eots_ext \<Rightarrow> u64 \<Rightarrow> bytes \<Rightarrow> bytes \<Rightarrow> SignDataRequest list \<Rightarrow>
     (('kr, 'sk) LocalEOTSManager, 'sc SignDataResponse list) cmd" where
  "signEach x now pk c [] s = (Ok [], s)"
| "signEach x now pk c (q # qs) s =
     (case SignEOTS x (\<lambda>_. NoFault) now pk c (rq_Msg q) (rq_Height q) s of
        (Ok sig, s') \<Rightarrow> scont (signEach x now pk c qs s')
          (\<lambda>resp s''. (Ok (\<lparr>rs_Signature = sig, rs_Height = rq_Height q\<rparr> # resp), s''))
      | (Err e, s') \<Rightarrow> if e = Sentinel ErrDoubleSign then signEach x now pk c qs s' else (Err e, s')
      | (Crash msg, s') \<Rightarrow> (Crash msg, s'))"

definition sameKeys :: "('kr, 'sk) LocalEOTSManager \<Rightarrow> ('kr, 'sk) LocalEOTSManager \<Rightarrow> bool" where
  "sameKeys s t \<longleftrightarrow> t\<lparr>lm_es := lm_es s\<rparr> = s \<and> kv_open (lm_es t) = kv_open (lm_es s) \<and>
     kv_buckets (lm_es t) eotsBucketName = kv_buckets (lm_es s) eotsBucketName"

lemma sameKeys_fields:
  "sameKeys s t \<Longrightarrow> lm_kr t = lm_kr s \<and> lm_privateKeys t = lm_privateKeys s"
  by (cases s; cases t) (simp add: sameKeys_def)

lemma verifiedPrivKey_sameKeys:
  assumes fb: "kr_Backend x (lm_kr s) = BackendFile" and same: "sameKeys s t"
    and sk: "verifiedPrivKey x NoFault (wrapS p) pk s = (Ok sk, s')"
  shows "s' = s \<and> verifiedPrivKey x NoFault (wrapS p) pk t = (Ok sk, t)"
proof -
  have "kr_Backend x (lm_kr t) = BackendFile" using sameKeys_fields [OF same] fb by simp
  moreover have "fst (eotsPrivKeyFromKeyName x n t) = fst (eotsPrivKeyFromKeyName x n s)" for n
    using sameKeys_fields [OF same] fb
    by (simp add: eotsPrivKeyFromKeyName_def getKeyFromMap_def BackendTest_def BackendFile_def)
  moreover have "GetEOTSKeyName NoFault pk (lm_es t) = GetEOTSKeyName NoFault pk (lm_es s)"
    using same by (simp add: sameKeys_def GetEOTSKeyName_def kv_view_def read_bucket_def)
  ultimately show ?thesis
    using sk unfolding verifiedPrivKey_file [OF fb] by (auto simp: verifiedPrivKey_file)
qed

context eots_codec
begin

text \<open>A new signature on the way through a batch: the records of the other heights and the keys stay.\<close>

lemma sign_new_sameKeys:
  assumes fb: "kr_Backend x (lm_kr s) = BackendFile"
    and sk: "verifiedPrivKey x NoFault (wrapS ''failed to get EOTS private key: '') pk s = (Ok sk, s)"
    and same: "sameKeys s t" and wf: "wf_store x (lm_es t)" and none: "signRecords x (lm_es t) c pk h = None"
    and r: "getRandomnessPair x sk c h = Ok (pr, fv)" and sig: "eots_Sign x sk pr msg = Ok sig"
  obtains db where "SignEOTS x (\<lambda>_. NoFault) now pk c msg h t = (Ok sig, t\<lparr>lm_es := db\<rparr>)"
    "wf_store x db" "sameKeys s (t\<lparr>lm_es := db\<rparr>)"
    "recordOf x db = (recordOf x (lm_es t))(getSignRecordKey x c pk h \<mapsto>
        \<lparr>SR_Msg = msg, SR_Signature = sc_Bytes x sig, SR_Timestamp = now\<rparr>)"
    "\<And>h'. h' \<noteq> h \<Longrightarrow> signRecords x db c pk h' = signRecords x (lm_es t) c pk h'"
proof -
  have skt: "verifiedPrivKey x NoFault (wrapS ''failed to get EOTS private key: '') pk t = (Ok sk, t)"
    using verifiedPrivKey_sameKeys [OF fb same sk] by simp
  obtain db where run: "SignEOTS x (\<lambda>_. NoFault) now pk c msg h t = (Ok sig, t\<lparr>lm_es := db\<rparr>)"
    and wf': "wf_store x db"
    and rec: "recordOf x db = (recordOf x (lm_es t))(getSignRecordKey x c pk h \<mapsto>
      \<lparr>SR_Msg = msg, SR_Signature = sc_Bytes x sig, SR_Timestamp = now\<rparr>)"
    and keys: "kv_buckets db eotsBucketName = kv_buckets (lm_es t) eotsBucketName"
      "kv_open db = kv_open (lm_es t)"
    using SignEOTS_new [OF wf none skt r sig, of now] by auto
  have "sameKeys s (t\<lparr>lm_es := db\<rparr>)" using same keys by (simp add: sameKeys_def)
  moreover have "signRecords x db c pk h' = signRecords x (lm_es t) c pk h'" if "h' \<noteq> h" for h'
    using that by (simp add: signRecords_def rec key_height_inject)
  ultimately show thesis using that [OF run wf' _ rec] by blast
qed

lemma signEach_batchLoop:
  assumes fb: "kr_Backend x (lm_kr s) = BackendFile"
    and sk: "verifiedPrivKey x NoFault (wrapS ''failed to get EOTS private key: '') pk s = (Ok sk, s)"
  shows "sameKeys s t \<Longrightarrow> wf_store x (lm_es t) \<Longrightarrow> distinct (map rq_Height reqs) \<Longrightarrow>
    (\<And>h. h \<in> rq_Height ` set reqs \<Longrightarrow> signRecords x (lm_es t) c pk h = ex h) \<Longrightarrow>
    signBatchLoop x sk pk c ex reqs = Ok (resp, recs) \<Longrightarrow>
    \<exists>t'. signEach x now pk c reqs t = (Ok resp, t') \<and> sameKeys s t' \<and>
      recordOf x (lm_es t') =
        recordOf x (lm_es t) ++ map_of (map (\<lambda>r. (recordKey x r, newRecord now r)) recs)"
proof (induction reqs arbitrary: t resp recs)
  case Nil
  then show ?case by simp
next
  case (Cons q reqs)
  let ?h = "rq_Height q"
  note wf = Cons.prems(2)
  have ex: "signRecords x (lm_es t) c pk ?h = ex ?h" using Cons.prems(4) by simp
  show ?case
  proof (cases "ex ?h")
    case (Some r)
    let ?again = "SignEOTS x (\<lambda>_. NoFault) now pk c (rq_Msg q) ?h t"
    have again: "?again = (if rq_Msg q = SR_Msg r then Ok (fst (SetByteSlice x (SR_Signature r)))
        else Err (Sentinel ErrDoubleSign), t)"
      using SignEOTS_existing [OF wf] ex Some by simp
    obtain resp' where rest: "signBatchLoop x sk pk c ex reqs = Ok (resp', recs)"
      and resp: "resp = (if rq_Msg q = SR_Msg r then
        \<lparr>rs_Signature = fst (SetByteSlice x (SR_Signature r)), rs_Height = ?h\<rparr> # resp' else resp')"
      using Cons.prems(5) Some by (auto simp: Let_def go_simps split: if_splits)
    from Cons.IH [OF Cons.prems(1) wf _ _ rest] Cons.prems(3,4) resp again show ?thesis by auto
  next
    case None
    with Cons.prems(5) obtain pr fv sig resp' recs' where
      r: "getRandomnessPair x sk c ?h = Ok (pr, fv)" and sig: "eots_Sign x sk pr (rq_Msg q) = Ok sig"
      and rest: "signBatchLoop x sk pk c ex reqs = Ok (resp', recs')"
      and resp: "resp = \<lparr>rs_Signature = sig, rs_Height = ?h\<rparr> # resp'"
      and recs: "recs = \<lparr>BR_Height = ?h, BR_ChainID = c, BR_Msg = rq_Msg q, BR_EotsPk = pk,
        BR_Sig = sc_Bytes x sig\<rparr> # recs'"
      by (auto simp: Let_def go_simps)
    from ex None have none: "signRecords x (lm_es t) c pk ?h = None" by simp
    obtain db where run: "SignEOTS x (\<lambda>_. NoFault) now pk c (rq_Msg q) ?h t = (Ok sig, t\<lparr>lm_es := db\<rparr>)"
      and wf': "wf_store x db" and same: "sameKeys s (t\<lparr>lm_es := db\<rparr>)"
      and rec: "recordOf x db = (recordOf x (lm_es t))(getSignRecordKey x c pk ?h \<mapsto>
        \<lparr>SR_Msg = rq_Msg q, SR_Signature = sc_Bytes x sig, SR_Timestamp = now\<rparr>)"
      and others: "\<And>h. h \<noteq> ?h \<Longrightarrow> signRecords x db c pk h = signRecords x (lm_es t) c pk h"
      using sign_new_sameKeys [OF fb sk Cons.prems(1) wf none r sig, where now = now] by blast
    have "signRecords x db c pk h = ex h" if h: "h \<in> rq_Height ` set reqs" for h
      using h others [of h] Cons.prems(3) Cons.prems(4) [of h] by (metis distinct.simps(2) image_set list.simps(9) list.set_intros(2))
    then obtain t' where "signEach x now pk c reqs (t\<lparr>lm_es := db\<rparr>) = (Ok resp', t')" "sameKeys s t'"
      "recordOf x (lm_es t') = recordOf x db ++ map_of (map (\<lambda>r. (recordKey x r, newRecord now r)) recs')"
      using Cons.IH [OF same _ _ _ rest] wf' Cons.prems(3) by auto
    moreover have "getSignRecordKey x c pk ?h \<notin> recordKey x ` set recs'"
      using signBatchLoop_recs [OF rest] Cons.prems(3)
      by (fastforce simp: recordKey_def key_height_inject)
    then have "map_of (map (\<lambda>r. (recordKey x r, newRecord now r)) recs') (getSignRecordKey x c pk ?h) = None"
      by (simp only: map_of_keyed_None not_False_eq_True)
    note map_upd_add [of "map_of (map (\<lambda>r. (recordKey x r, newRecord now r)) recs')"
        "getSignRecordKey x c pk ?h" "recordOf x (lm_es t)", OF this]
    then have "recordOf x db ++ map_of (map (\<lambda>r. (recordKey x r, newRecord now r)) recs') =
      recordOf x (lm_es t) ++ map_of (map (\<lambda>r. (recordKey x r, newRecord now r)) recs)"
      by (simp add: rec recs recordKey_def newRecord_def fun_upd_def)
    ultimately show ?thesis using run resp by auto
  qed
qed

lemma SignEOTS_new_fails:
  assumes wf: "wf_store x (lm_es s)" and none: "signRecords x (lm_es s) c pk h = None"
    and sk: "verifiedPrivKey x NoFault (wrapS ''failed to get EOTS private key: '') pk s = (Ok sk, s)"
    and f: "\<And>pr fv sig. getRandomnessPair x sk c h = Ok (pr, fv) \<Longrightarrow> eots_Sign x sk pr msg \<noteq> Ok sig"
  shows "\<exists>r. SignEOTS x (\<lambda>_. NoFault) now pk c msg h s = (r, s) \<and> (\<forall>sig. r \<noteq> Ok sig) \<and> r \<noteq> Err (Sentinel ErrDoubleSign)"
proof (cases "getRandomnessPair x sk c h")
  case (Ok p)
  obtain pr fv where p: "p = (pr, fv)" by (cases p)
  with Ok f have "\<not> (\<exists>sig. eots_Sign x sk pr msg = Ok sig)" by simp
  with Ok p show ?thesis
    using GetSignRecord_refines [OF wf, of pk c h] none sk
    by (cases "eots_Sign x sk pr msg") (simp_all add: SignEOTS_def sbind_def wrapS_def get_es_def liftR_def)
qed (use GetSignRecord_refines [OF wf, of pk c h] none sk in
      \<open>simp_all add: SignEOTS_def sbind_def wrapS_def get_es_def liftR_def\<close>)

lemma signEach_batchLoop_fails:
  assumes fb: "kr_Backend x (lm_kr s) = BackendFile"
    and sk: "verifiedPrivKey x NoFault (wrapS ''failed to get EOTS private key: '') pk s = (Ok sk, s)"
  shows "sameKeys s t \<Longrightarrow> wf_store x (lm_es t) \<Longrightarrow> distinct (map rq_Height reqs) \<Longrightarrow>
    (\<And>h. h \<in> rq_Height ` set reqs \<Longrightarrow> signRecords x (lm_es t) c pk h = ex h) \<Longrightarrow>
    (\<And>p. signBatchLoop x sk pk c ex reqs \<noteq> Ok p) \<Longrightarrow> fst (signEach x now pk c reqs t) \<noteq> Ok resp"
proof (induction reqs arbitrary: t resp)
  case Nil
  from Nil.prems(5) [of "([], [])"] show ?case by simp
next
  case (Cons q reqs)
  let ?h = "rq_Height q"
  note wf = Cons.prems(2)
  have ex: "signRecords x (lm_es t) c pk ?h = ex ?h" using Cons.prems(4) by simp
  show ?case
  proof (cases "ex ?h")
    case (Some r)
    have again: "SignEOTS x (\<lambda>_. NoFault) now pk c (rq_Msg q) ?h t =
        (if rq_Msg q = SR_Msg r then Ok (fst (SetByteSlice x (SR_Signature r))) else Err (Sentinel ErrDoubleSign), t)"
      using SignEOTS_existing [OF wf] ex Some by simp
    have "signBatchLoop x sk pk c ex reqs \<noteq> Ok p" for p
    proof
      assume "signBatchLoop x sk pk c ex reqs = Ok p"
      with Some have "\<exists>p'. signBatchLoop x sk pk c ex (q # reqs) = Ok p'" by (cases p) (simp add: Let_def)
      with Cons.prems(5) show False by blast
    qed
    then have "fst (signEach x now pk c reqs t) \<noteq> Ok resp'" for resp'
      using Cons.IH [OF Cons.prems(1) wf] Cons.prems(3,4) by simp
    with again show ?thesis by (cases "signEach x now pk c reqs t"; cases "fst (signEach x now pk c reqs t)") auto
  next
    case None
    with ex have none: "signRecords x (lm_es t) c pk ?h = None" by simp
    have skt: "verifiedPrivKey x NoFault (wrapS ''failed to get EOTS private key: '') pk t = (Ok sk, t)"
      using verifiedPrivKey_sameKeys [OF fb Cons.prems(1) sk] by simp
    show ?thesis
    proof (cases "\<exists>pr fv sig. getRandomnessPair x sk c ?h = Ok (pr, fv) \<and> eots_Sign x sk pr (rq_Msg q) = Ok sig")
      case True
      then obtain pr fv sig where r: "getRandomnessPair x sk c ?h = Ok (pr, fv)"
        and sig: "eots_Sign x sk pr (rq_Msg q) = Ok sig" by blast
      obtain db where run: "SignEOTS x (\<lambda>_. NoFault) now pk c (rq_Msg q) ?h t = (Ok sig, t\<lparr>lm_es := db\<rparr>)"
        and wf': "wf_store x db" and same: "sameKeys s (t\<lparr>lm_es := db\<rparr>)"
        and others: "\<And>h. h \<noteq> ?h \<Longrightarrow> signRecords x db c pk h = signRecords x (lm_es t) c pk h"
        using sign_new_sameKeys [OF fb sk Cons.prems(1) wf none r sig, where now = now] by blast
      have "signBatchLoop x sk pk c ex reqs \<noteq> Ok p" for p
      proof
        assume "signBatchLoop x sk pk c ex reqs = Ok p"
        with None r sig have "\<exists>p'. signBatchLoop x sk pk c ex (q # reqs) = Ok p'" by (cases p) (simp add: Let_def)
        with Cons.prems(5) show False by blast
      qed
      moreover have "signRecords x db c pk h = ex h" if h: "h \<in> rq_Height ` set reqs" for h
        using h others [of h] Cons.prems(3) Cons.prems(4) [of h] by (metis distinct.simps(2) image_set list.simps(9) list.set_intros(2))
      ultimately have "fst (signEach x now pk c reqs (t\<lparr>lm_es := db\<rparr>)) \<noteq> Ok resp'" for resp'
        using Cons.IH [OF same] wf' Cons.prems(3) by simp
      with run show ?thesis by (cases "signEach x now pk c reqs (t\<lparr>lm_es := db\<rparr>)"; cases "fst (signEach x now pk c reqs (t\<lparr>lm_es := db\<rparr>))") auto
    next
      case False
      then obtain r where "SignEOTS x (\<lambda>_. NoFault) now pk c (rq_Msg q) ?h t = (r, t)"
        "\<forall>sig. r \<noteq> Ok sig" "r \<noteq> Err (Sentinel ErrDoubleSign)"
        using SignEOTS_new_fails [OF wf none skt, of "rq_Msg q" now] by blast
      then show ?thesis by (cases r) auto
    qed
  qed
qed

end

section \<open>Randomness and keys\<close>

lemma verifiedPrivKey_wrap_iff:
  "verifiedPrivKey x flt (wrapS p) pk s = (Ok sk, s') \<longleftrightarrow> getEOTSPrivKey x flt pk s = (Ok sk, s')"
  by (simp add: getEOTSPrivKey_def verifiedPrivKey_def sbind_eq_Ok wrapS_eq_Ok)

lemma getEOTSPrivKey_file:
  assumes "kr_Backend x (lm_kr s) = BackendFile" and "getEOTSPrivKey x flt pk s = (Ok sk, s')"
  shows "s' = s \<and> SerializePubKey x (PubKey x sk) = pk \<and>
    (\<exists>name. GetEOTSKeyName flt pk (lm_es s) = Ok name \<and> lm_privateKeys s name = Some (Some sk))"
  using assms
  by (auto simp: getEOTSPrivKey_def verifiedPrivKey_def go_simps eotsPrivKeyFromKeyName_def BackendTest_def
      BackendFile_def getKeyFromMap_def split: option.splits if_splits)

lemma randLoop_Ok:
  "randLoop x sk c start iv is = Ok prs \<Longrightarrow> length prs = length is \<and>
    (\<forall>i < length is. \<exists>pr. getRandomnessPair x sk c
       (start + ucast (is ! i) * (case iv of Some d \<Rightarrow> d | None \<Rightarrow> 1)) = Ok (pr, prs ! i))"
proof (induction "is" arbitrary: prs)
  case (Cons i "is")
  then obtain pr fv prs' where "randLoop x sk c start iv is = Ok prs'" "prs = fv # prs'"
    "getRandomnessPair x sk c (start + ucast i * (case iv of Some d \<Rightarrow> d | None \<Rightarrow> 1)) = Ok (pr, fv)"
    by (auto simp: Let_def go_simps split: option.splits)
  with Cons.IH show ?case by (auto simp: nth_Cons split: nat.splits)
qed simp

lemma ucast_index: "i < unat (n :: u32) \<Longrightarrow> ucast (of_nat i :: u32) = (of_nat i :: u64)"
proof -
  assume "i < unat n"
  moreover have "unat n < 2 ^ 32" using unsigned_less [of n] by simp
  ultimately have "i < 2 ^ 32" by simp
  then show ?thesis by (simp add: unsigned_ucast_eq word_eq_iff_unsigned unsigned_of_nat take_bit_nat_eq_self)
qed

text \<open>The interval that a list of options selects: the last one given.\<close>

definition intervalOf :: "RandomnessOption list \<Rightarrow> u64 option" where
  "intervalOf opts = rc_Interval (fold applyOption opts \<lparr>rc_Interval = None\<rparr>)"

lemma CreateRandomnessPairList_Ok:
  assumes "CreateRandomnessPairList x flt pk c start num opts s = (Ok prs, s')"
  obtains sk where "getEOTSPrivKey x flt pk s = (Ok sk, s')" "intervalOf opts \<noteq> Some 0"
    "length prs = unat num"
    "\<forall>i < unat num. \<exists>pr. getRandomnessPair x sk c
       (start + of_nat i * (case intervalOf opts of Some d \<Rightarrow> d | None \<Rightarrow> 1)) = Ok (pr, prs ! i)"
proof -
  from assms obtain sk where sk: "getEOTSPrivKey x flt pk s = (Ok sk, s')" and iv: "intervalOf opts \<noteq> Some 0"
    and loop: "randLoop x sk c start (intervalOf opts) (map of_nat [0..<unat num]) = Ok prs"
    by (auto simp: CreateRandomnessPairList_def Let_def go_simps intervalOf_def split: if_splits)
  from randLoop_Ok [OF loop] show thesis
    by (intro that [OF sk iv]) (auto simp: ucast_index)
qed

context eots_codec
begin

text \<open>Without database failures a batch with distinct heights whose loop succeeds is signed.\<close>

lemma SignBatchEOTS_runs:
  assumes wf: "wf_store x (lm_es s)" and d: "distinct (map rq_Height (rq_SignRequest req))"
    and sk: "verifiedPrivKey x NoFault (wrapS ''failed to get EOTS private key: '') (rq_UID req) s = (Ok sk, s1)"
    and loop: "signBatchLoop x sk (rq_UID req) (rq_ChainID req)
       (\<lambda>h. if h \<in> rq_Height ` set (rq_SignRequest req)
         then signRecords x (lm_es s) (rq_ChainID req) (rq_UID req) h else None)
       (rq_SignRequest req) = Ok (resp, recs)"
    and save: "SaveSignRecordsBatch x NoFault now recs (lm_es s) = (Ok (), db)"
  shows "SignBatchEOTS x (\<lambda>_. NoFault) now req s = (Ok resp, s1\<lparr>lm_es := db\<rparr>)"
proof -
  have es: "lm_es s1 = lm_es s" using sk by (rule verifiedPrivKey_keeps_es)
  have "s1\<lparr>lm_es := db\<rparr> = s1" if "recs = []"
    using that save es by (cases s1) (simp add: SaveSignRecordsBatch_def)
  then show ?thesis
    using GetSignRecordsBatch_refines [OF wf, of "rq_UID req" "rq_ChainID req" "map rq_Height (rq_SignRequest req)"]
      sk loop save es d
    by (simp add: SignBatchEOTS_def Let_def sbind_def wrapS_def get_es_def on_es_def liftR_def)
qed

text \<open>The records a batch saves are new, so saving them succeeds.\<close>

lemma signBatchLoop_keys_distinct:
  "signBatchLoop x sk pk c ex reqs = Ok (resp, recs) \<Longrightarrow> distinct (map rq_Height reqs) \<Longrightarrow>
    distinct (map (recordKey x) recs)"
proof (induction reqs arbitrary: resp recs)
  case (Cons q reqs)
  show ?case
  proof (cases "ex (rq_Height q)")
    case (Some r)
    with Cons show ?thesis by (auto simp: Let_def go_simps split: if_splits)
  next
    case None
    with Cons.prems(1) obtain sig resp' recs' where rest: "signBatchLoop x sk pk c ex reqs = Ok (resp', recs')"
      and recs: "recs = \<lparr>BR_Height = rq_Height q, BR_ChainID = c, BR_Msg = rq_Msg q, BR_EotsPk = pk,
        BR_Sig = sc_Bytes x sig\<rparr> # recs'" by (auto simp: Let_def go_simps)
    have "getSignRecordKey x c pk (rq_Height q) \<notin> recordKey x ` set recs'"
      using signBatchLoop_recs [OF rest] Cons.prems(2) by (fastforce simp: recordKey_def key_height_inject)
    then show ?thesis using Cons.IH [OF rest] Cons.prems(2) recs by (simp add: recordKey_def)
  qed
qed simp

lemma SignBatchEOTS_loop_succeeds:
  assumes wf: "wf_store x (lm_es s)" and d: "distinct (map rq_Height (rq_SignRequest req))"
    and sk: "verifiedPrivKey x NoFault (wrapS ''failed to get EOTS private key: '') (rq_UID req) s = (Ok sk, s1)"
    and loop: "signBatchLoop x sk (rq_UID req) (rq_ChainID req)
       (\<lambda>h. if h \<in> rq_Height ` set (rq_SignRequest req)
         then signRecords x (lm_es s) (rq_ChainID req) (rq_UID req) h else None)
       (rq_SignRequest req) = Ok (resp, recs)"
  shows "\<exists>db. SignBatchEOTS x (\<lambda>_. NoFault) now req s = (Ok resp, s1\<lparr>lm_es := db\<rparr>)"
proof -
  have "recordOf x (lm_es s) (recordKey x r) = None" if "r \<in> set recs" for r
    using signBatchLoop_recs [OF loop that] by (auto simp: recordKey_def signRecords_def split: if_splits)
  with SaveSignRecordsBatch_succeeds [OF wf signBatchLoop_keys_distinct [OF loop d]]
  obtain db where "SaveSignRecordsBatch x NoFault now recs (lm_es s) = (Ok (), db)" by blast
  from SignBatchEOTS_runs [OF wf d sk loop this] show ?thesis by blast
qed

lemma SignBatchEOTS_same:
  assumes wf: "wf_store x (lm_es s)" and fb: "kr_Backend x (lm_kr s) = BackendFile"
    and d: "distinct (map rq_Height (rq_SignRequest req))"
    and sk: "verifiedPrivKey x NoFault (wrapS ''failed to get EOTS private key: '') (rq_UID req) s = (Ok sk, s1)"
    and batch: "SignBatchEOTS x (\<lambda>_. NoFault) now req s = (r, s')"
    and each: "signEach x now (rq_UID req) (rq_ChainID req) (rq_SignRequest req) s = (r1, t)"
  shows "(r = Ok resp \<longleftrightarrow> r1 = Ok resp) \<and>
    (r = Ok resp \<longrightarrow> recordOf x (lm_es t) = recordOf x (lm_es s') \<and> t\<lparr>lm_es := lm_es s'\<rparr> = s')"
proof -
  let ?ex = "\<lambda>h. if h \<in> rq_Height ` set (rq_SignRequest req)
         then signRecords x (lm_es s) (rq_ChainID req) (rq_UID req) h else None"
  have same: "sameKeys s s" by (simp add: sameKeys_def)
  have [simp]: "s1 = s" using verifiedPrivKey_sameKeys [OF fb same sk] by simp
  note loop_each = signEach_batchLoop [OF fb sk [simplified] same wf d, of "rq_ChainID req" ?ex]
  note loop_fails = signEach_batchLoop_fails [OF fb sk [simplified] same wf d, of "rq_ChainID req" ?ex]
  show ?thesis
  proof (cases "\<exists>p. signBatchLoop x sk (rq_UID req) (rq_ChainID req) ?ex (rq_SignRequest req) = Ok p")
    case True
    then obtain resp' recs where
      loop: "signBatchLoop x sk (rq_UID req) (rq_ChainID req) ?ex (rq_SignRequest req) = Ok (resp', recs)" by auto
    have r: "r = Ok resp'" "r1 = Ok resp'"
      using SignBatchEOTS_loop_succeeds [OF wf d sk loop, of now] batch loop_each [OF _ loop, of now] each by auto
    have keys: "sameKeys s t" and rec: "recordOf x (lm_es t) =
        recordOf x (lm_es s) ++ map_of (map (\<lambda>r. (recordKey x r, newRecord now r)) recs)"
      using loop_each [OF _ loop, of now] each by auto
    from batch r have ok: "SignBatchEOTS x (\<lambda>_. NoFault) now req s = (Ok resp', s')" by simp
    obtain recs' where "signBatchLoop x sk (rq_UID req) (rq_ChainID req) ?ex (rq_SignRequest req) = Ok (resp', recs')"
      and save: "SaveSignRecordsBatch x NoFault now recs' (lm_es s) = (Ok (), lm_es s')" and s': "s' = s\<lparr>lm_es := lm_es s'\<rparr>"
      using sk by (auto intro: SignBatchEOTS_steps [OF wf ok])
    with loop have [simp]: "recs' = recs" by simp
    have "t\<lparr>lm_es := lm_es s'\<rparr> = s'" using keys s' by (cases s; cases t; cases s') (simp add: sameKeys_def)
    then show ?thesis using r rec SaveSignRecordsBatch_Ok [OF wf save] by auto
  next
    case False
    then have "r1 \<noteq> Ok resp" using loop_fails [of now resp] each by auto
    moreover have "r \<noteq> Ok resp"
    proof
      assume "r = Ok resp"
      with batch have ok: "SignBatchEOTS x (\<lambda>_. NoFault) now req s = (Ok resp, s')" by simp
      show False by (rule SignBatchEOTS_steps [OF wf ok]) (use False sk in auto)
    qed
    ultimately show ?thesis by simp
  qed
qed

lemmas calls_no_equivocation = calls.no_equivocation

end

text \<open>A batch with a repeated height is refused at once; a batch that fails leaves the store alone.\<close>

lemma eots_batch_duplicates:
  assumes "\<not> distinct (map rq_Height (rq_SignRequest req))"
  shows "\<exists>e. SignBatchEOTS x tx now req s = (Err e, s) \<and> error_is e ErrDuplicateHeight"
proof (cases "ValidateNoDuplicateHeights (map rq_Height (rq_SignRequest req))")
  case (Ok u)
  with assms show ?thesis by (simp add: ValidateNoDuplicateHeights_Ok)
qed (auto simp: SignBatchEOTS_def Let_def liftR_def)

lemma SignBatchEOTS_fails_es:
  assumes run: "SignBatchEOTS x tx now req s = (r, s')" and "\<not> (\<exists>resp. r = Ok resp)"
  shows "lm_es s' = lm_es s"
proof -
  have save: "r' = Ok () \<or> lm_es s'' = lm_es t" if "on_es (SaveSignRecordsBatch x flt now recs) t = (r', s'')"
    for flt recs t r' s''
    using that SaveSignRecordsBatch_fails [of x flt now recs "lm_es t" "()"]
    by (cases "r' = Ok ()") (auto simp: on_es_def split: prod.splits)
  from assms show ?thesis
    by (auto simp: SignBatchEOTS_def Let_def liftR_eq wrapS_eq go_simps get_es_eq
        elim!: sbindE dest!: verifiedPrivKey_keeps_es save split: if_splits go.splits)
qed

end
