(* ===== verification/Eots_Claims.thy ===== *)
theory Eots_Claims
  imports Eots_Safety
begin

text \<open>
  The properties of the EOTS manager, with a concrete instance of its external functions on which
  their examples run.
\<close>

section \<open>A concrete instance\<close>

text \<open>Scalars, keys and points are byte strings, and the keyring holds one key. It satisfies the
  contract; the examples below run on it.\<close>

definition demo_ext :: "(bytes, bytes, bytes, bytes, bytes, bytes) eots_ext" where
  "demo_ext = \<lparr>u64be = be64, beu64 = be64_inv, marshalSR = plain_marshal, unmarshalSR = plain_unmarshal,
     kr_Backend = (\<lambda>kr. kr),
     kr_Key = (\<lambda>name input kr. (Ok \<lparr>rec_Local = Some (Secp256k1Key ''k''), rec_PubKey = Ok (Secp256k1Key ''k'')\<rparr>,
       input, kr)),
     kr_SigningAlgo = (\<lambda>kr. Ok ()), kr_NewAccount = (\<lambda>name mn input kr. (Ok (), input, kr)),
     ParsePubKey = Ok, SerializePubKey = (\<lambda>p. p), NewBIP340PubKeyFromBTCPK = (\<lambda>p. p), ToBTCPK = Ok,
     BIP340Marshal = Ok, PrivKeyFromBytes = (\<lambda>b. b), PubKey = (\<lambda>k. k), sk_Serialize = (\<lambda>k. k),
     hmac_sha256 = (\<lambda>k m. k @ m), SetByteSlice = (\<lambda>b. (b, False)), IsZero = (\<lambda>b. b = []),
     sc_Bytes = (\<lambda>b. b), rand_point_X = (\<lambda>b. b), eots_Sign = (\<lambda>k r m. Ok (k @ r @ m)),
     schnorr_Sign = (\<lambda>k m. Ok (k @ m))\<rparr>"

interpretation demo: eots_codec demo_ext
proof -
  have "store_codec demo_ext"
    using plain_round_trip be64.be_codec_axioms
    by (simp add: store_codec_def store_codec_axioms_def demo_ext_def)
  then show "eots_codec demo_ext"
    by (simp add: eots_codec_def eots_codec_axioms_def demo_ext_def)
qed

text \<open>A manager with the file backend, one key named \<^verbatim>\<open>fp\<close> and that key unlocked.\<close>

definition demo_lm :: "(bytes, bytes) LocalEOTSManager" where
  "demo_lm = \<lparr>lm_kr = BackendFile,
     lm_es = \<lparr>kv_open = True, kv_buckets = [eotsBucketName \<mapsto> [(''k'', ''fp'')], signRecordBucketName \<mapsto> []]\<rparr>,
     lm_input = [], lm_privateKeys = [''fp'' \<mapsto> Some ''k'']\<rparr>"

lemma wf_demo_lm [simp]: "wf_store x (lm_es demo_lm)"
  by (auto simp: wf_store_def demo_lm_def kv_ok_def bucket_ok_def split: if_splits)

lemma demo_lm_none [simp]: "signRecords x (lm_es demo_lm) c pk h = None"
  by (simp add: signRecords_def recordOf_def kv_bucket_of_def demo_lm_def bkt_get_def)

lemma demo_key:
  "verifiedPrivKey demo_ext NoFault (wrapS p) ''k'' demo_lm = (Ok ''k'', demo_lm)"
  by (simp add: verifiedPrivKey_def sbind_def wrapS_def get_es_def GetEOTSKeyName_def read_bucket_def
      demo_lm_def demo_ext_def bkt_get_def eotsPrivKeyFromKeyName_def BackendTest_def BackendFile_def
      getKeyFromMap_def liftR_def)

lemma demo_rand:
  "getRandomnessPair demo_ext ''k'' c h = Ok (''k'' @ be64 h @ c @ be64 0, ''k'' @ be64 h @ c @ be64 0)"
  by (simp add: getRandomnessPair_def GenerateRandomness_def demo_ext_def sampleLoop.simps)

lemma demo_sign:
  "\<exists>db. SignEOTS demo_ext (\<lambda>_. NoFault) now ''k'' c m h demo_lm =
      (Ok (''k'' @ ''k'' @ be64 h @ c @ be64 0 @ m), demo_lm\<lparr>lm_es := db\<rparr>) \<and> wf_store demo_ext db \<and>
    signRecords demo_ext db c ''k'' h = Some \<lparr>SR_Msg = m,
      SR_Signature = ''k'' @ ''k'' @ be64 h @ c @ be64 0 @ m, SR_Timestamp = now\<rparr>"
proof -
  have sig: "eots_Sign demo_ext ''k'' (''k'' @ be64 h @ c @ be64 0) m = Ok (''k'' @ ''k'' @ be64 h @ c @ be64 0 @ m)"
    by (simp add: demo_ext_def)
  from demo.SignEOTS_new [OF wf_demo_lm demo_lm_none demo_key demo_rand sig, of now]
  obtain db where "SignEOTS demo_ext (\<lambda>_. NoFault) now ''k'' c m h demo_lm =
      (Ok (''k'' @ ''k'' @ be64 h @ c @ be64 0 @ m), demo_lm\<lparr>lm_es := db\<rparr>)" "wf_store demo_ext db"
    "recordOf demo_ext db = (recordOf demo_ext (lm_es demo_lm))(getSignRecordKey demo_ext c ''k'' h \<mapsto>
      \<lparr>SR_Msg = m, SR_Signature = sc_Bytes demo_ext (''k'' @ ''k'' @ be64 h @ c @ be64 0 @ m), SR_Timestamp = now\<rparr>)"
    by blast
  then show ?thesis by (auto simp: signRecords_def demo_ext_def)
qed

section \<open>Properties\<close>

text \<open>C2. No double signing. In every sequence of calls of the manager, with failing database
  transactions, crashes, restarts, unsafe signatures, and deletions of the sign records from a height \<open>n\<close> or above,
  starting from any well-formed store: two signatures that \<^verbatim>\<open>SignEOTS\<close> and \<^verbatim>\<open>SignBatchEOTS\<close> release for
  the same chain, key and height below \<open>n\<close> are signatures of the same message, and the same signature.
  With \<open>n = 2 ^ 64\<close> nothing is deleted and every height is covered.\<close>

theorem eots_no_double_sign:
  assumes "eots_codec x" and "wf_store x (lm_es s)" and "trace (manager_call x n) s events t" and "unat h < n"
    and "((chainID, pk, h), (msg, sig)) \<in> set events"
    and "((chainID, pk, h), (msg', sig')) \<in> set events"
  shows "msg = msg' \<and> sig = sig'"
  using eots_codec.calls_no_equivocation [OF assms(1,3,2) _ assms(5,6)] assms(4) by simp

text \<open>A height signed, an unsafe signature of another message for it, the records of later heights
  deleted, and the height signed again.\<close>

lemma demo_calls:
  obtains sig t where "trace (manager_call demo_ext 9) demo_lm
    [((''c'', ''k'', 7), (''m'', sig)), ((''c'', ''k'', 7), (''m'', sig))] t"
proof -
  let ?sig = "''k'' @ ''k'' @ be64 7 @ ''c'' @ be64 0 @ ''m''"
  let ?rec = "\<lparr>SR_Msg = ''m'', SR_Signature = ?sig, SR_Timestamp = 1\<rparr>"
  obtain db where run: "SignEOTS demo_ext (\<lambda>_. NoFault) 1 ''k'' ''c'' ''m'' 7 demo_lm = (Ok ?sig, demo_lm\<lparr>lm_es := db\<rparr>)"
    and wf: "wf_store demo_ext (lm_es (demo_lm\<lparr>lm_es := db\<rparr>))"
    and rec: "signRecords demo_ext (lm_es (demo_lm\<lparr>lm_es := db\<rparr>)) ''c'' ''k'' 7 = Some ?rec"
    using demo_sign [of 1 "''c''" "''m''" 7] by auto
  define s1 where "s1 = demo_lm\<lparr>lm_es := db\<rparr>"
  obtain r s2 where un: "UnsafeSignEOTS demo_ext NoFault ''k'' ''c'' ''other'' 7 s1 = (r, s2)" by force
  obtain r' s3 where del: "UnsafeDeleteSignStoreRecords demo_ext NoFault (Some ''k'') (Some ''c'') 9 s2 = (r', s3)" by force
  have c1: "manager_call demo_ext 9 s1 [] s2" using un by (rule unsafe_sign)
  have c2: "manager_call demo_ext 9 s2 [] s3" using del by (rule unsafe_delete) simp
  have k1: "keepsBelow demo_ext 9 s1 s2" using demo.call_keepsBelow [OF c1] wf by (simp add: s1_def)
  then have k2: "keepsBelow demo_ext 9 s2 s3" using demo.call_keepsBelow [OF c2] by (simp add: keepsBelow_def)
  have rec3: "signRecords demo_ext (lm_es s3) ''c'' ''k'' 7 = Some ?rec" and wf3: "wf_store demo_ext (lm_es s3)"
    using k1 k2 rec by (auto simp: keepsBelow_def s1_def)
  have again: "SignEOTS demo_ext (\<lambda>_. NoFault) 2 ''k'' ''c'' ''m'' 7 s3 = (Ok ?sig, s3)"
    using SignEOTS_existing [OF wf3 rec3, of 2 "''m''"] by (simp add: demo_ext_def)
  have "trace (manager_call demo_ext 9) demo_lm ([] @ [((''c'', ''k'', 7), (''m'', ?sig))]) s1"
    unfolding s1_def by (rule trace_snoc, rule trace_nil, rule protecting, rule sign, rule run)
  then have "trace (manager_call demo_ext 9) demo_lm (([] @ [((''c'', ''k'', 7), (''m'', ?sig))]) @ []) s2"
    using c1 by (rule trace_snoc)
  then have "trace (manager_call demo_ext 9) demo_lm ((([] @ [((''c'', ''k'', 7), (''m'', ?sig))]) @ []) @ []) s3"
    using c2 by (rule trace_snoc)
  then have "trace (manager_call demo_ext 9) demo_lm (((([] @ [((''c'', ''k'', 7), (''m'', ?sig))]) @ []) @ []) @
      [((''c'', ''k'', 7), (''m'', ?sig))]) s3"
    by (rule trace_snoc) (rule protecting, rule sign, rule again)
  with that show thesis by simp
qed

theorem eots_no_double_sign_witness:
  "\<exists>events t. trace (manager_call demo_ext 9) demo_lm events t \<and> length events = 2 \<and>
     (\<forall>m sig m' sig'. ((''c'', ''k'', 7), (m, sig)) \<in> set events \<longrightarrow>
        ((''c'', ''k'', 7), (m', sig')) \<in> set events \<longrightarrow> m = m' \<and> sig = sig')"
proof -
  obtain sig t where t: "trace (manager_call demo_ext 9) demo_lm
    [((''c'', ''k'', 7), (''m'', sig)), ((''c'', ''k'', 7), (''m'', sig))] t" by (rule demo_calls)
  have "unat (7 :: u64) < 9" by simp
  with eots_no_double_sign [OF demo.eots_codec_axioms wf_demo_lm t] t show ?thesis
    by (intro exI [of _ "[((''c'', ''k'', 7), (''m'', sig)), ((''c'', ''k'', 7), (''m'', sig))]"] exI [of _ t]) auto
qed

text \<open>Records that were in the store before, for example from a restored database, bind too: a
  signature released for a chain, key and height with a record is a signature of the recorded
  message.\<close>

theorem eots_respects_existing_records:
  assumes "eots_codec x" and "wf_store x (lm_es s)" and "trace (eots_step x) s events t"
    and "signRecords x (lm_es s) chainID pk h = Some r"
    and "((chainID, pk, h), (msg, sig)) \<in> set events"
  shows "msg = SR_Msg r \<and> sig = fst (SetByteSlice x (SR_Signature r))"
  using eots_codec.respects_records [OF assms(1,3,2) _ assms(5), of "releasedOf x r"] assms(4)
  by (simp add: signedFor_def releasedOf_def)

theorem eots_respects_existing_records_witness:
  "\<exists>s t events r. wf_store demo_ext (lm_es s) \<and> signRecords demo_ext (lm_es s) ''c'' ''k'' 7 = Some r \<and>
     trace (eots_step demo_ext) s events t \<and> events \<noteq> [] \<and>
     (\<forall>msg sig. ((''c'', ''k'', 7), (msg, sig)) \<in> set events \<longrightarrow> msg = SR_Msg r)"
proof -
  obtain db where wf: "wf_store demo_ext (lm_es (demo_lm\<lparr>lm_es := db\<rparr>))"
    and rec: "signRecords demo_ext (lm_es (demo_lm\<lparr>lm_es := db\<rparr>)) ''c'' ''k'' 7 = Some \<lparr>SR_Msg = ''m'',
      SR_Signature = ''k'' @ ''k'' @ be64 7 @ ''c'' @ be64 0 @ ''m'', SR_Timestamp = 1\<rparr>"
    using demo_sign [of 1 "''c''" "''m''" 7] by auto
  have t: "trace (eots_step demo_ext) (demo_lm\<lparr>lm_es := db\<rparr>)
    ([] @ [((''c'', ''k'', 7), (''m'', fst (SetByteSlice demo_ext (''k'' @ ''k'' @ be64 7 @ ''c'' @ be64 0 @ ''m''))))])
    (demo_lm\<lparr>lm_es := db\<rparr>)"
    using SignEOTS_existing [OF wf rec, of 2 "''m''"]
    by (intro trace_snoc [where t = "demo_lm\<lparr>lm_es := db\<rparr>"] trace_nil) (auto intro!: sign)
  from eots_respects_existing_records [OF demo.eots_codec_axioms wf t rec] wf rec t show ?thesis by blast
qed

text \<open>C3. Signing is idempotent and final. After a successful call, the same request returns the
  same signature and changes nothing, and a request with another message for that height fails with
  \<^verbatim>\<open>ErrDoubleSign\<close> and changes nothing.\<close>

theorem SignEOTS_idempotent:
  assumes "eots_codec x" and "wf_store x (lm_es s)" and "SignEOTS x tx now pk c msg h s = (Ok sig, s')"
  shows "SignEOTS x (\<lambda>_. NoFault) now' pk c msg h s' = (Ok sig, s') \<and>
    (msg' \<noteq> msg \<longrightarrow> SignEOTS x (\<lambda>_. NoFault) now' pk c msg' h s' = (Err (Sentinel ErrDoubleSign), s'))"
proof -
  have wf: "wf_store x (lm_es s')"
    using preservesD [OF eots_codec.extends_SignEOTS [OF assms(1)] assms(3) extends_same [OF assms(2)]]
    by (simp add: extends_def)
  obtain r where "signRecords x (lm_es s') c pk h = Some r" "releasedOf x r = (msg, sig)"
    using eots_codec.SignEOTS_recorded [OF assms] by (auto simp: signedFor_def)
  then show ?thesis using SignEOTS_existing [OF wf] by (auto simp: releasedOf_def)
qed

theorem SignEOTS_idempotent_witness:
  "\<exists>sig s'. SignEOTS demo_ext (\<lambda>_. NoFault) 1 ''k'' ''c'' ''m'' 7 demo_lm = (Ok sig, s') \<and>
     SignEOTS demo_ext (\<lambda>_. NoFault) 2 ''k'' ''c'' ''m'' 7 s' = (Ok sig, s') \<and>
     SignEOTS demo_ext (\<lambda>_. NoFault) 2 ''k'' ''c'' ''n'' 7 s' = (Err (Sentinel ErrDoubleSign), s')"
proof -
  obtain sig s' where run: "SignEOTS demo_ext (\<lambda>_. NoFault) 1 ''k'' ''c'' ''m'' 7 demo_lm = (Ok sig, s')"
    using demo_sign [of 1 "''c''" "''m''" 7] by blast
  with SignEOTS_idempotent [OF demo.eots_codec_axioms wf_demo_lm run, of 2 "''n''"] show ?thesis by auto
qed

text \<open>C4. The batch call against signing its requests one after the other, with those refused as double
  signs left out (file keyring backend, no database failure). A batch that names a height twice is
  refused and changes nothing. When the heights are distinct and the key is available, the batch
  succeeds exactly when the single calls do, with the same responses in the same order, and then
  leaves the same sign records and the same keys. A batch that fails saves nothing.\<close>

theorem SignBatchEOTS_sequential:
  assumes "eots_codec x" and "wf_store x (lm_es s)" and "kr_Backend x (lm_kr s) = BackendFile"
    and "SignBatchEOTS x (\<lambda>_. NoFault) now req s = (r, s')"
    and "signEach x now (rq_UID req) (rq_ChainID req) (rq_SignRequest req) s = (r1, t)"
  shows "(\<not> distinct (map rq_Height (rq_SignRequest req)) \<longrightarrow>
      (\<exists>e. r = Err e \<and> error_is e ErrDuplicateHeight) \<and> s' = s) \<and>
    (distinct (map rq_Height (rq_SignRequest req)) \<and>
       getEOTSPrivKey x NoFault (rq_UID req) s = (Ok sk, s1) \<longrightarrow>
      (\<forall>resp. r = Ok resp \<longleftrightarrow> r1 = Ok resp) \<and>
      (\<forall>resp. r = Ok resp \<longrightarrow> recordOf x (lm_es t) = recordOf x (lm_es s') \<and> t\<lparr>lm_es := lm_es s'\<rparr> = s')) \<and>
    ((\<forall>resp. r \<noteq> Ok resp) \<longrightarrow> lm_es s' = lm_es s)"
proof (intro conjI impI)
  assume "\<not> distinct (map rq_Height (rq_SignRequest req))"
  from eots_batch_duplicates [OF this, of x "\<lambda>_. NoFault" now s] assms(4)
  show "\<exists>e. r = Err e \<and> error_is e ErrDuplicateHeight" "s' = s" by auto
next
  assume "\<forall>resp. r \<noteq> Ok resp"
  then show "lm_es s' = lm_es s" by (metis SignBatchEOTS_fails_es assms(4))
next
  assume *: "distinct (map rq_Height (rq_SignRequest req)) \<and> getEOTSPrivKey x NoFault (rq_UID req) s = (Ok sk, s1)"
  then have sk: "verifiedPrivKey x NoFault (wrapS ''failed to get EOTS private key: '') (rq_UID req) s = (Ok sk, s1)"
    by (simp add: verifiedPrivKey_wrap_iff)
  note same = eots_codec.SignBatchEOTS_same [OF assms(1-3) conjunct1 [OF *] sk assms(4,5)]
  then show "\<forall>resp. r = Ok resp \<longleftrightarrow> r1 = Ok resp"
    "\<forall>resp. r = Ok resp \<longrightarrow> recordOf x (lm_es t) = recordOf x (lm_es s') \<and> t\<lparr>lm_es := lm_es s'\<rparr> = s'"
    by blast+
qed

definition demo_req :: SignBatchEOTSRequest where
  "demo_req = \<lparr>rq_UID = ''k'', rq_ChainID = ''c'', rq_SignRequest =
     [\<lparr>rq_Msg = ''m'', rq_Height = 7\<rparr>, \<lparr>rq_Msg = ''n'', rq_Height = 8\<rparr>]\<rparr>"

lemma demo_batch_heights:
  fixes m n :: bytes assumes "h \<noteq> h'"
  defines "req \<equiv> \<lparr>rq_UID = ''k'', rq_ChainID = ''c'', rq_SignRequest =
     [\<lparr>rq_Msg = m, rq_Height = h\<rparr>, \<lparr>rq_Msg = n, rq_Height = h'\<rparr>]\<rparr>"
  shows "\<exists>resp s'. SignBatchEOTS demo_ext (\<lambda>_. NoFault) 1 req demo_lm = (Ok resp, s') \<and> map rs_Height resp = [h, h']"
proof -
  let ?sig = "\<lambda>m h. ''k'' @ ''k'' @ be64 h @ ''c'' @ be64 0 @ m"
  let ?rec = "\<lambda>m h. \<lparr>BR_Height = h, BR_ChainID = ''c'', BR_Msg = m, BR_EotsPk = ''k'', BR_Sig = ?sig m h\<rparr>"
  let ?resp = "[\<lparr>rs_Signature = ?sig m h, rs_Height = h\<rparr>, \<lparr>rs_Signature = ?sig n h', rs_Height = h'\<rparr>]"
  have ext: "eots_Sign demo_ext sk r m = Ok (sk @ r @ m)" "sc_Bytes demo_ext sg = sg" for sk r m sg
    by (simp_all add: demo_ext_def)
  have loop: "signBatchLoop demo_ext ''k'' (rq_UID req) (rq_ChainID req)
      (\<lambda>h. if h \<in> rq_Height ` set (rq_SignRequest req)
         then signRecords demo_ext (lm_es demo_lm) (rq_ChainID req) (rq_UID req) h else None)
      (rq_SignRequest req) = Ok (?resp, [?rec m h, ?rec n h'])"
    by (simp add: req_def Let_def demo_rand ext)
  have "recordKey demo_ext (?rec m h) \<noteq> recordKey demo_ext (?rec n h')"
    using assms(1) by (simp add: recordKey_def demo.key_height_inject)
  moreover have "recordOf demo_ext (lm_es demo_lm) k = None" for k
    by (simp add: recordOf_def kv_bucket_of_def demo_lm_def bkt_get_def)
  ultimately obtain db where
    "SaveSignRecordsBatch demo_ext NoFault 1 [?rec m h, ?rec n h'] (lm_es demo_lm) = (Ok (), db)"
    using demo.SaveSignRecordsBatch_succeeds [OF wf_demo_lm, of "[?rec m h, ?rec n h']" 1] by auto
  from demo.SignBatchEOTS_runs [OF wf_demo_lm _ _ loop this] show ?thesis
    using demo_key assms(1) by (auto simp: req_def)
qed

lemma demo_batch:
  "\<exists>resp s'. SignBatchEOTS demo_ext (\<lambda>_. NoFault) 1 demo_req demo_lm = (Ok resp, s') \<and> length resp = 2"
  using demo_batch_heights [of 7 8 "''m''" "''n''"] unfolding demo_req_def by (auto dest: arg_cong [of _ _ length])

theorem SignBatchEOTS_sequential_witness:
  "\<exists>resp s' t. SignBatchEOTS demo_ext (\<lambda>_. NoFault) 1 demo_req demo_lm = (Ok resp, s') \<and> length resp = 2 \<and>
     signEach demo_ext 1 ''k'' ''c'' (rq_SignRequest demo_req) demo_lm = (Ok resp, t) \<and>
     recordOf demo_ext (lm_es t) = recordOf demo_ext (lm_es s')"
proof -
  obtain resp s' where run: "SignBatchEOTS demo_ext (\<lambda>_. NoFault) 1 demo_req demo_lm = (Ok resp, s')"
    and len: "length resp = 2" using demo_batch by blast
  obtain r1 t where each: "signEach demo_ext 1 (rq_UID demo_req) (rq_ChainID demo_req) (rq_SignRequest demo_req) demo_lm = (r1, t)"
    by force
  have "kr_Backend demo_ext (lm_kr demo_lm) = BackendFile" by (simp add: demo_ext_def demo_lm_def)
  moreover have "getEOTSPrivKey demo_ext NoFault (rq_UID demo_req) demo_lm = (Ok ''k'', demo_lm)"
    using demo_key [of "[]"] by (simp add: verifiedPrivKey_wrap_iff demo_req_def)
  moreover have "distinct (map rq_Height (rq_SignRequest demo_req))" by (simp add: demo_req_def)
  ultimately have "r1 = Ok resp \<and> recordOf demo_ext (lm_es t) = recordOf demo_ext (lm_es s')"
    using SignBatchEOTS_sequential [OF demo.eots_codec_axioms wf_demo_lm _ run each, of "''k''" demo_lm] by auto
  with run len each show ?thesis by (auto simp: demo_req_def)
qed

text \<open>The randomness list covers the heights it is asked for: with interval \<open>d\<close> (1 when no
  interval is given, 0 is refused) entry \<open>i\<close> is the public randomness of height \<open>start + i * d\<close> in
  64-bit arithmetic, there are exactly \<open>num\<close> entries, and all are derived from the private key of the
  public key asked for.\<close>

theorem CreateRandomnessPairList_heights:
  "(intervalOf opts = Some 0 \<longrightarrow>
     fst (CreateRandomnessPairList x flt pk c start num opts s) = Err (ErrText ''interval must be greater than 0'')) \<and>
   (\<forall>prs s'. CreateRandomnessPairList x flt pk c start num opts s = (Ok prs, s') \<longrightarrow>
     length prs = unat num \<and>
     (\<exists>sk. SerializePubKey x (PubKey x sk) = pk \<and>
       (\<forall>i < unat num. \<exists>pr. getRandomnessPair x sk c
          (start + of_nat i * (case intervalOf opts of Some d \<Rightarrow> d | None \<Rightarrow> 1)) = Ok (pr, prs ! i))))"
proof (intro conjI impI allI)
  show "fst (CreateRandomnessPairList x flt pk c start num opts s) = Err (ErrText ''interval must be greater than 0'')"
    if "intervalOf opts = Some 0"
    using that by (simp add: CreateRandomnessPairList_def intervalOf_def Let_def liftR_def)
next
  fix prs s' assume "CreateRandomnessPairList x flt pk c start num opts s = (Ok prs, s')"
  then show "length prs = unat num" by (rule CreateRandomnessPairList_Ok)
next
  fix prs s' assume "CreateRandomnessPairList x flt pk c start num opts s = (Ok prs, s')"
  then obtain sk where sk: "getEOTSPrivKey x flt pk s = (Ok sk, s')"
    and "intervalOf opts \<noteq> Some 0" and "length prs = unat num"
    and prs: "\<forall>i < unat num. \<exists>pr. getRandomnessPair x sk c
       (start + of_nat i * (case intervalOf opts of Some d \<Rightarrow> d | None \<Rightarrow> 1)) = Ok (pr, prs ! i)"
    by (rule CreateRandomnessPairList_Ok)
  have "SerializePubKey x (PubKey x sk) = pk"
    using sk unfolding getEOTSPrivKey_def by (rule verifiedPrivKey_bound)
  with prs show "\<exists>sk. SerializePubKey x (PubKey x sk) = pk \<and> (\<forall>i < unat num. \<exists>pr. getRandomnessPair x sk c
      (start + of_nat i * (case intervalOf opts of Some d \<Rightarrow> d | None \<Rightarrow> 1)) = Ok (pr, prs ! i))"
    by blast
qed

theorem CreateRandomnessPairList_heights_witness:
  "fst (CreateRandomnessPairList demo_ext NoFault ''k'' ''c'' 5 3 [WithInterval 0] demo_lm) =
     Err (ErrText ''interval must be greater than 0'') \<and>
   (\<exists>prs s'. CreateRandomnessPairList demo_ext NoFault ''k'' ''c'' 5 2 [WithInterval 10] demo_lm = (Ok prs, s') \<and>
     length prs = 2)"
proof -
  have key: "getEOTSPrivKey demo_ext NoFault ''k'' demo_lm = (Ok ''k'', demo_lm)"
    using demo_key [of "[]"] by (simp add: verifiedPrivKey_wrap_iff)
  have two: "[0..<2] = [0, 1]" by (simp add: upt_rec)
  obtain prs where "CreateRandomnessPairList demo_ext NoFault ''k'' ''c'' 5 2 [WithInterval 10] demo_lm = (Ok prs, demo_lm)"
    using key by (simp add: CreateRandomnessPairList_def two Let_def sbind_def wrapS_def liftR_def
        applyOption_def demo_rand)
  with CreateRandomnessPairList_heights [of "[WithInterval 0]" demo_ext NoFault "''k''" "''c''" 5 3 demo_lm]
    CreateRandomnessPairList_heights [of "[WithInterval 10]" demo_ext NoFault "''k''" "''c''" 5 2 demo_lm]
  show ?thesis by (simp add: intervalOf_def applyOption_def)
qed

text \<open>C5. Signing uses the randomness that was committed: a new signature at a height of a randomness
  list is made with the private key of the requested public key and with the private randomness whose
  public point is the list's entry for that height.\<close>

theorem SignEOTS_uses_committed_randomness:
  assumes "wf_store x (lm_es s)" and "kr_Backend x (lm_kr s) = BackendFile"
    and "CreateRandomnessPairList x NoFault pk c start num [] s = (Ok prs, s1)" and "i < unat num"
    and "signRecords x (lm_es s) c pk (start + of_nat i) = None"
    and "SignEOTS x (\<lambda>_. NoFault) now pk c msg (start + of_nat i) s = (Ok sig, s2)"
  shows "\<exists>sk pr. SerializePubKey x (PubKey x sk) = pk \<and> rand_point_X x pr = prs ! i \<and>
    eots_Sign x sk pr msg = Ok sig"
proof -
  obtain sk where sk: "getEOTSPrivKey x NoFault pk s = (Ok sk, s1)"
    and prs: "\<forall>i < unat num. \<exists>pr. getRandomnessPair x sk c (start + of_nat i) = Ok (pr, prs ! i)"
    by (rule CreateRandomnessPairList_Ok [OF assms(3)]) (simp add: intervalOf_def)
  obtain sk' pr fv where sk': "getEOTSPrivKey x NoFault pk s = (Ok sk', s1)"
    and pr: "getRandomnessPair x sk' c (start + of_nat i) = Ok (pr, fv)" and "eots_Sign x sk' pr msg = Ok sig"
    using assms(6) GetSignRecord_refines [OF assms(1), of pk c "start + of_nat i"] assms(5) sk
    by (auto simp: SignEOTS_def go_simps verifiedPrivKey_wrap_iff)
  moreover have "sk' = sk" using sk sk' by simp
  moreover have "SerializePubKey x (PubKey x sk) = pk"
    using getEOTSPrivKey_file [OF assms(2) sk] by simp
  moreover have "rand_point_X x pr = prs ! i"
    using prs assms(4) pr getRandomnessPair_pub [OF pr] calculation(4) by auto
  ultimately show ?thesis by blast
qed

theorem SignEOTS_uses_committed_randomness_witness:
  "\<exists>prs s1 sig s2. CreateRandomnessPairList demo_ext NoFault ''k'' ''c'' 7 1 [] demo_lm = (Ok prs, s1) \<and>
     SignEOTS demo_ext (\<lambda>_. NoFault) 1 ''k'' ''c'' ''m'' 7 demo_lm = (Ok sig, s2) \<and>
     (\<exists>sk pr. rand_point_X demo_ext pr = prs ! 0 \<and> eots_Sign demo_ext sk pr ''m'' = Ok sig)"
proof -
  have key: "getEOTSPrivKey demo_ext NoFault ''k'' demo_lm = (Ok ''k'', demo_lm)"
    using demo_key [of "[]"] by (simp add: verifiedPrivKey_wrap_iff)
  obtain prs where prs: "CreateRandomnessPairList demo_ext NoFault ''k'' ''c'' 7 1 [] demo_lm = (Ok prs, demo_lm)"
    using key by (simp add: CreateRandomnessPairList_def Let_def sbind_def wrapS_def liftR_def demo_rand)
  obtain sig s2 where sig: "SignEOTS demo_ext (\<lambda>_. NoFault) 1 ''k'' ''c'' ''m'' 7 demo_lm = (Ok sig, s2)"
    using demo_sign [of 1 "''c''" "''m''" 7] by blast
  have "kr_Backend demo_ext (lm_kr demo_lm) = BackendFile" by (simp add: demo_ext_def demo_lm_def)
  from SignEOTS_uses_committed_randomness [OF wf_demo_lm this prs, of 0 1 "''m''" sig s2] prs sig
  show ?thesis by auto
qed

text \<open>With the file keyring backend a key is unusable until it is unlocked: asking for a locked key
  fails and changes nothing. Unlocking puts the key of the keyring into memory; from then on a request
  for that public key gets this key if it is the right one and a mismatch error otherwise, and a
  second unlock fails.\<close>

theorem Unlock_required:
  assumes "wf_store x (lm_es s)" and "kr_Backend x (lm_kr s) = BackendFile"
    and "keyNameOf (lm_es s) pk = Some name"
  shows "(lm_privateKeys s name = None \<longrightarrow> (\<exists>e. getEOTSPrivKey x NoFault pk s = (Err e, s))) \<and>
    (\<forall>s'. Unlock x NoFault pk pass s = (Ok (), s') \<and> kr_Backend x (lm_kr s') = BackendFile \<longrightarrow>
      lm_privateKeys s name = None \<and>
      (\<exists>sk. lm_privateKeys s' = (lm_privateKeys s)(name \<mapsto> Some sk) \<and>
        getEOTSPrivKey x NoFault pk s' = (if SerializePubKey x (PubKey x sk) = pk then Ok sk
          else Err (ErrText ''public key mismatch: requested key does not match stored key''), s')) \<and>
      (\<forall>u. fst (Unlock x NoFault pk pass' s') \<noteq> Ok u))"
proof -
  have name: "GetEOTSKeyName NoFault pk (lm_es t) = Ok name" if "lm_es t = lm_es s" for t :: "('a, 'b) LocalEOTSManager"
  proof -
    from assms(1) obtain kb where "kv_open (lm_es s)" "kv_buckets (lm_es s) eotsBucketName = Some kb"
      by (rule wf_storeE)
    with that assms(3) show ?thesis
      by (auto simp: GetEOTSKeyName_def read_bucket_def keyNameOf_def kv_bucket_of_def)
  qed
  have locked: "\<exists>e. getEOTSPrivKey x NoFault pk s = (Err e, s)" if "lm_privateKeys s name = None"
    using that assms(2) name [of s]
    by (simp add: getEOTSPrivKey_def verifiedPrivKey_def sbind_def wrapS_def get_es_def
        eotsPrivKeyFromKeyName_def BackendTest_def BackendFile_def getKeyFromMap_def)
  have "lm_privateKeys s name = None \<and>
      (\<exists>sk. lm_privateKeys s' = (lm_privateKeys s)(name \<mapsto> Some sk) \<and>
        getEOTSPrivKey x NoFault pk s' = (if SerializePubKey x (PubKey x sk) = pk then Ok sk
          else Err (ErrText ''public key mismatch: requested key does not match stored key''), s')) \<and>
      (\<forall>u. fst (Unlock x NoFault pk pass' s') \<noteq> Ok u)"
    if run: "Unlock x NoFault pk pass s = (Ok (), s')" and be: "kr_Backend x (lm_kr s') = BackendFile" for s'
  proof -
    from run name [of s] obtain sk s1 where "getKeyFromKeyring x name pass s = (Ok sk, s1)"
      and free: "lm_privateKeys s1 name = None"
      and s': "s' = s1\<lparr>lm_privateKeys := (lm_privateKeys s1)(name \<mapsto> Some sk)\<rparr>"
      by (auto simp: Unlock_def go_simps split: if_splits)
    then have keys: "lm_privateKeys s1 = lm_privateKeys s" and es: "lm_es s1 = lm_es s"
      using keepsD [OF keeps_getKeyFromKeyring] keepsD [OF keeps_getKeyFromKeyring_keys] by blast+
    have "lm_es s' = lm_es s" using s' es by simp
    note name' = name [OF this]
    have "getEOTSPrivKey x NoFault pk s' = (if SerializePubKey x (PubKey x sk) = pk then Ok sk
          else Err (ErrText ''public key mismatch: requested key does not match stored key''), s')"
      using name' be s' by (simp add: getEOTSPrivKey_def verifiedPrivKey_def sbind_def wrapS_def get_es_def
          eotsPrivKeyFromKeyName_def BackendTest_def BackendFile_def getKeyFromMap_def liftR_def)
    moreover have "fst (Unlock x NoFault pk pass' s') \<noteq> Ok u" for u
    proof
      assume "fst (Unlock x NoFault pk pass' s') = Ok u"
      then obtain s'' where "Unlock x NoFault pk pass' s' = (Ok u, s'')" by (metis prod.collapse)
      with name' obtain sk' s2 where "getKeyFromKeyring x name pass' s' = (Ok sk', s2)"
        "lm_privateKeys s2 name = None"
        by (auto simp: Unlock_def go_simps split: if_splits)
      then show False using keepsD [OF keeps_getKeyFromKeyring_keys, of x name pass' s'] s' by simp
    qed
    ultimately show ?thesis using keys free s' by auto
  qed
  with locked show ?thesis by blast
qed

definition demo_locked :: "(bytes, bytes) LocalEOTSManager" where
  "demo_locked = demo_lm\<lparr>lm_privateKeys := Map.empty\<rparr>"

theorem Unlock_required_witness:
  "(\<exists>e. getEOTSPrivKey demo_ext NoFault ''k'' demo_locked = (Err e, demo_locked)) \<and>
   (\<exists>s'. Unlock demo_ext NoFault ''k'' ''pass'' demo_locked = (Ok (), s') \<and>
     (\<exists>sk. lm_privateKeys s' = [''fp'' \<mapsto> Some sk]))"
proof -
  have wf: "wf_store demo_ext (lm_es demo_locked)" using wf_demo_lm by (simp add: demo_locked_def)
  have be: "kr_Backend demo_ext (lm_kr demo_locked) = BackendFile"
    by (simp add: demo_locked_def demo_lm_def demo_ext_def)
  have name: "keyNameOf (lm_es demo_locked) ''k'' = Some ''fp''"
    by (simp add: keyNameOf_def kv_bucket_of_def demo_locked_def demo_lm_def bkt_get_def)
  obtain s' where "Unlock demo_ext NoFault ''k'' ''pass'' demo_locked = (Ok (), s')"
    "kr_Backend demo_ext (lm_kr s') = BackendFile"
    by (simp add: Unlock_def sbind_def wrapS_def get_es_def GetEOTSKeyName_def read_bucket_def bkt_get_def
        getKeyFromKeyring_def krKey_def liftR_def ValidatePrivKeyBytes_def
        demo_locked_def demo_lm_def demo_ext_def)
  with Unlock_required [OF wf be name, of "''pass''"] show ?thesis
    by (auto simp: demo_locked_def demo_lm_def)
qed

text \<open>Randomness generation returns as soon as some iteration gives a scalar that neither
  overflows nor is zero, and it returns the scalar of the first such iteration with its public point;
  if no iteration does, the loop never ends, so it never returns a scalar that is zero or
  overflowed.\<close>

theorem GenerateRandomness_first_accepted:
  "((\<exists>r. GenerateRandomness x key chainID height = Ok r) \<longleftrightarrow> (\<exists>i. accepted x key chainID height i)) \<and>
   (GenerateRandomness x key chainID height = Ok (sc, fv) \<longleftrightarrow>
      (\<exists>n. accepted x key chainID height (of_nat n) \<and>
         (\<forall>m < n. \<not> accepted x key chainID height (of_nat m)) \<and>
         sc = fst (sampleAt x key chainID height (of_nat n)) \<and> \<not> IsZero x sc) \<and>
      fv = rand_point_X x sc)"
proof (intro conjI)
  show "(\<exists>r. GenerateRandomness x key chainID height = Ok r) \<longleftrightarrow> (\<exists>i. accepted x key chainID height i)"
  proof
    assume "\<exists>r. GenerateRandomness x key chainID height = Ok r"
    then obtain sc fv where "GenerateRandomness x key chainID height = Ok (sc, fv)" by auto
    then show "\<exists>i. accepted x key chainID height i" by (rule GenerateRandomness_accepted) blast
  next
    assume "\<exists>i. accepted x key chainID height i"
    then show "\<exists>r. GenerateRandomness x key chainID height = Ok r"
      using GenerateRandomness_returns by blast
  qed
  show "GenerateRandomness x key chainID height = Ok (sc, fv) \<longleftrightarrow>
      (\<exists>n. accepted x key chainID height (of_nat n) \<and>
         (\<forall>m < n. \<not> accepted x key chainID height (of_nat m)) \<and>
         sc = fst (sampleAt x key chainID height (of_nat n)) \<and> \<not> IsZero x sc) \<and>
      fv = rand_point_X x sc"
    unfolding GenerateRandomness_Ok by (auto simp: accepted_nonzero)
qed

theorem GenerateRandomness_first_accepted_witness:
  "\<exists>r. GenerateRandomness demo_ext ''k'' ''c'' 7 = Ok r"
proof -
  have "accepted demo_ext ''k'' ''c'' 7 0" by (simp add: accepted_def sampleAt_def demo_ext_def)
  with GenerateRandomness_first_accepted [of demo_ext "''k''" "''c''" 7] show ?thesis by blast
qed

section \<open>More runs of the instance\<close>

lemma demo_getKey: "getEOTSPrivKey demo_ext NoFault ''k'' demo_lm = (Ok ''k'', demo_lm)"
  using demo_key [of "[]"] by (simp add: verifiedPrivKey_wrap_iff)

lemma demo_randomness:
  "CreateRandomnessPairList demo_ext NoFault ''k'' ''c'' h 2 [] demo_lm =
     (Ok [''k'' @ be64 h @ ''c'' @ be64 0, ''k'' @ be64 (h + 1) @ ''c'' @ be64 0], demo_lm)"
proof -
  have two: "[0..<2] = [0, 1]" by (simp add: upt_rec)
  show ?thesis
    using demo_getKey by (simp add: CreateRandomnessPairList_def two Let_def sbind_def wrapS_def liftR_def demo_rand)
qed

lemma demo_schnorr: "SignSchnorrSig demo_ext NoFault ''k'' msg demo_lm = (Ok (''k'' @ msg), demo_lm)"
  using demo_getKey by (simp add: SignSchnorrSig_def sbind_def wrapS_def liftR_def signSchnorrSigFromPrivKey_def demo_ext_def)

end
