(* ===== verification/Eots_Pop.thy ===== *)
theory Eots_Pop
  imports Eots_Claims
begin

text \<open>
  Proofs of possession (\<^verbatim>\<open>eotsmanager/cmd/eotsd/daemon/pop.go\<close>): an export signs the Babylon address with the EOTS key
  and the EOTS public key with the Babylon key; validation checks both signatures. The flags are arguments,
  and the value handed to the printer is the result.
\<close>

section \<open>Data\<close>

record PoPExport =
  pe_EotsPublicKey :: string
  pe_BabyPublicKey :: string
  pe_BabySignEotsPk :: string
  pe_EotsSignBaby :: string
  pe_BabyAddress :: string

record PoPExportDelete =
  pd_EotsPublicKey :: string
  pd_BabyPublicKey :: string
  pd_BabySignature :: string
  pd_BabyAddress :: string

record MsgValue =
  mv_Signer :: string
  mv_Data :: string

record Msg =
  mg_Type :: string
  mg_Value :: MsgValue

record Fee =
  fe_Gas :: string
  fe_Amount :: "string list"

record SignDoc =
  sd_ChainID :: string
  sd_AccountNumber :: string
  sd_Sequence :: string
  sd_Fee :: Fee
  sd_Msgs :: "Msg list"
  sd_Memo :: string

definition NewCosmosSignDoc :: "string \<Rightarrow> string \<Rightarrow> SignDoc" where
  "NewCosmosSignDoc signer data =
     \<lparr>sd_ChainID = [], sd_AccountNumber = ''0'', sd_Sequence = ''0'', sd_Fee = \<lparr>fe_Gas = ''0'', fe_Amount = []\<rparr>,
      sd_Msgs = [\<lparr>mg_Type = ''sign/MsgSignData'', mg_Value = \<lparr>mv_Signer = signer, mv_Data = data\<rparr>\<rparr>], sd_Memo = []\<rparr>"

text \<open>Functions of other packages: encodings, the hash, the two signature schemes, addresses, and the Babylon keyring.\<close>

record ('bkr, 'sg, 'pk) pop_ext =
  px_Base64 :: "bytes \<Rightarrow> string"
  px_FromBase64 :: "string \<Rightarrow> bytes go"
  px_JsonMarshal :: "SignDoc \<Rightarrow> bytes go"
  px_SortJSON :: "bytes \<Rightarrow> bytes go"
  px_FmtPop :: "PoPExport \<Rightarrow> string"
  px_Unquote :: "string \<Rightarrow> string go"
  px_tmhash :: "bytes \<Rightarrow> bytes"
  px_FromHex :: "string \<Rightarrow> bytes go"
  px_MarshalHex :: "bytes \<Rightarrow> string"
  px_ToBTCPK :: "bytes \<Rightarrow> 'pk go"
  px_ParseSignature :: "bytes \<Rightarrow> 'sg go"
  px_SigSerialize :: "'sg \<Rightarrow> bytes"
  px_Verify :: "'sg \<Rightarrow> bytes \<Rightarrow> 'pk \<Rightarrow> bool"
  px_VerifySignature :: "bytes \<Rightarrow> bytes \<Rightarrow> bytes \<Rightarrow> bool"
  px_BabyAddress :: "bytes \<Rightarrow> string"
  px_KeyringNew :: "string \<Rightarrow> string \<Rightarrow> 'bkr go"
  px_Key :: "'bkr \<Rightarrow> string \<Rightarrow> keyring_record go"
  px_Sign :: "'bkr \<Rightarrow> string \<Rightarrow> bytes \<Rightarrow> bytes go"

section \<open>Keys\<close>

definition babyPk :: "keyring_record \<Rightarrow> bytes go" where
  "babyPk babyRecord =
     rbind (wrap ''failed to get baby public key: '' (rec_PubKey babyRecord)) (\<lambda>pubKey.
       case pubKey of Secp256k1Key key \<Rightarrow> Ok key | OtherKey \<Rightarrow> Err (ErrText ''unsupported key type in keyring''))"

definition babyKeyring :: "('bkr, 'sg, 'pk) pop_ext \<Rightarrow> string \<Rightarrow> string \<Rightarrow> string \<Rightarrow> ('bkr \<times> bytes \<times> string) go" where
  "babyKeyring px babyHomePath babyKeyName babyKeyringBackend =
     rbind (wrap ''failed to create keyring: '' (px_KeyringNew px babyKeyringBackend babyHomePath)) (\<lambda>kr.
     rbind (wrap ''failed to get baby keyring: '' (px_Key px kr babyKeyName)) (\<lambda>rec.
     rbind (wrap ''failed to get baby public key: '' (babyPk rec)) (\<lambda>babyPubKey.
     Ok (kr, babyPubKey, px_BabyAddress px babyPubKey))))"

text \<open>\<open>dbBackend\<close>: loading the configuration and opening the database.\<close>

definition loadEotsManager ::
  "(bytes \<Rightarrow> bytes \<Rightarrow> 'kr go) \<Rightarrow> dbfault \<Rightarrow> kvdb go \<Rightarrow> string \<Rightarrow> string \<Rightarrow> string \<Rightarrow> string \<Rightarrow> ('kr, 'sk) LocalEOTSManager go" where
  "loadEotsManager keyringNew flt dbBackend eotsHomePath eotsFpPubKeyStr eotsKeyName eotsKeyringBackend =
     (if length eotsFpPubKeyStr = 0 \<and> length eotsKeyName = 0
      then Err (ErrText ''at least one of the flags: key-name, eots-pk needs to be informed'')
      else
        rbind dbBackend (\<lambda>db.
        wrap ''failed to create EOTS manager: '' (NewLocalEOTSManager keyringNew flt eotsHomePath eotsKeyringBackend db)))"

definition eotsPubKey ::
  "('kr, 'sk, 'sc, 'fv, 'sg, 'pk) eots_ext \<Rightarrow> ('bkr, 'sg, 'pk) pop_ext \<Rightarrow> string \<Rightarrow> string \<Rightarrow> (('kr, 'sk) LocalEOTSManager, bytes) cmd" where
  "eotsPubKey x px keyName fpPkStr =
     (if 0 < length fpPkStr
      then liftR (wrap (''invalid finality-provider public key '' @ fpPkStr @ '': '') (px_FromHex px fpPkStr))
      else wrapS ''failed to load EOTS public key from key name: '' (LoadBIP340PubKeyFromKeyName x keyName))"

definition eotsSignMsg ::
  "('kr, 'sk, 'sc, 'fv, 'sg, 'pk) eots_ext \<Rightarrow> ('bkr, 'sg, 'pk) pop_ext \<Rightarrow> dbfault \<Rightarrow> string \<Rightarrow> string \<Rightarrow> bytes \<Rightarrow>
     (('kr, 'sk) LocalEOTSManager, 'sg \<times> bytes) cmd" where
  "eotsSignMsg x px flt keyName fpPkStr hashOfMsgToSign =
     (if 0 < length fpPkStr
      then
        sbind (liftR (wrap (''invalid finality-provider public key '' @ fpPkStr @ '': '') (px_FromHex px fpPkStr))) (\<lambda>fpPk.
        sbind (wrapS (''unable to sign msg with pk '' @ fpPkStr @ '': '') (SignSchnorrSig x flt fpPk hashOfMsgToSign)) (\<lambda>signature.
        liftR (Ok (signature, fpPk))))
      else wrapS (''unable to sign msg with key name '' @ keyName @ '': '') (SignSchnorrSigFromKeyname x keyName hashOfMsgToSign))"

section \<open>Export\<close>

text \<open>The bytes the Babylon key signs: a sign document with the address and the data.\<close>

definition adr36Bytes :: "('bkr, 'sg, 'pk) pop_ext \<Rightarrow> string \<Rightarrow> bytes \<Rightarrow> bytes go" where
  "adr36Bytes px cosmosBech32Address bytesToSign =
     rbind (wrap ''failed to marshal sign doc: '' (px_JsonMarshal px (NewCosmosSignDoc cosmosBech32Address (px_Base64 px bytesToSign))))
       (\<lambda>marshaled. must (px_SortJSON px marshaled))"

definition SignCosmosAdr36 :: "('bkr, 'sg, 'pk) pop_ext \<Rightarrow> 'bkr \<Rightarrow> string \<Rightarrow> string \<Rightarrow> bytes \<Rightarrow> bytes go" where
  "SignCosmosAdr36 px kr keyName cosmosBech32Address bytesToSign =
     rbind (adr36Bytes px cosmosBech32Address bytesToSign) (\<lambda>bz.
     wrap ''failed to sign btc address bytes: '' (px_Sign px kr keyName bz))"

definition exportPop ::
  "('kr, 'sk, 'sc, 'fv, 'sg, 'pk) eots_ext \<Rightarrow> ('bkr, 'sg, 'pk) pop_ext \<Rightarrow> (bytes \<Rightarrow> bytes \<Rightarrow> 'kr go) \<Rightarrow> (nat \<Rightarrow> dbfault) \<Rightarrow> kvdb go \<Rightarrow>
     string \<Rightarrow> string \<Rightarrow> string \<Rightarrow> string \<Rightarrow> string \<Rightarrow> string \<Rightarrow> string \<Rightarrow> PoPExport go" where
  "exportPop x px keyringNew flt dbBackend eotsHomePath eotsKeyName eotsFpPubKeyStr eotsKeyringBackend babyHomePath babyKeyName babyKeyringBackend =
     rbind (babyKeyring px babyHomePath babyKeyName babyKeyringBackend) (\<lambda>(kr, babyPubKey, bbnAddrStr).
     rbind (loadEotsManager keyringNew (flt 0) dbBackend eotsHomePath eotsFpPubKeyStr eotsKeyName eotsKeyringBackend) (\<lambda>eotsManager.
     rbind (wrap (''failed to sign address '' @ bbnAddrStr @ '': '')
       (fst (eotsSignMsg x px (flt 1) eotsKeyName eotsFpPubKeyStr (px_tmhash px bbnAddrStr) eotsManager))) (\<lambda>(schnorrSigOverBabyAddr, eotsPk).
     let eotsPkHex = px_MarshalHex px eotsPk in
     rbind (SignCosmosAdr36 px kr babyKeyName bbnAddrStr eotsPkHex) (\<lambda>babySignature.
     Ok \<lparr>pe_EotsPublicKey = eotsPkHex, pe_BabyPublicKey = px_Base64 px babyPubKey, pe_BabySignEotsPk = px_Base64 px babySignature,
         pe_EotsSignBaby = px_Base64 px (px_SigSerialize px schnorrSigOverBabyAddr), pe_BabyAddress = bbnAddrStr\<rparr>))))"

definition getInterpretedMessage :: "('bkr, 'sg, 'pk) pop_ext \<Rightarrow> string \<Rightarrow> string go" where
  "getInterpretedMessage px msg =
     (if length msg = 0 then Err (ErrText ''flage --message is empty'')
      else wrap ''failed to unquote message: '' (px_Unquote px (''\"'' @ msg @ ''\"'')))"

definition deletePop ::
  "('kr, 'sk, 'sc, 'fv, 'sg, 'pk) eots_ext \<Rightarrow> ('bkr, 'sg, 'pk) pop_ext \<Rightarrow> (bytes \<Rightarrow> bytes \<Rightarrow> 'kr go) \<Rightarrow> dbfault \<Rightarrow> kvdb go \<Rightarrow>
     string \<Rightarrow> string \<Rightarrow> string \<Rightarrow> string \<Rightarrow> string \<Rightarrow> string \<Rightarrow> string \<Rightarrow> string \<Rightarrow> PoPExportDelete go" where
  "deletePop x px keyringNew flt dbBackend eotsHomePath eotsKeyName eotsFpPubKeyStr eotsKeyringBackend babyHomePath babyKeyName babyKeyringBackend msg =
     rbind (babyKeyring px babyHomePath babyKeyName babyKeyringBackend) (\<lambda>(kr, babyPubKey, bbnAddrStr).
     rbind (loadEotsManager keyringNew flt dbBackend eotsHomePath eotsFpPubKeyStr eotsKeyName eotsKeyringBackend) (\<lambda>eotsManager.
     rbind (wrap ''failed to get eots pk '' (fst (eotsPubKey x px eotsKeyName eotsFpPubKeyStr (eotsManager :: ('kr, 'sk) LocalEOTSManager)))) (\<lambda>btcPubKey.
     rbind (getInterpretedMessage px msg) (\<lambda>interpretedMsg.
     rbind (SignCosmosAdr36 px kr babyKeyName bbnAddrStr interpretedMsg) (\<lambda>babySignature.
     Ok \<lparr>pd_EotsPublicKey = px_MarshalHex px btcPubKey, pd_BabyPublicKey = px_Base64 px babyPubKey,
         pd_BabySignature = px_Base64 px babySignature, pd_BabyAddress = bbnAddrStr\<rparr>)))))"

section \<open>Validation\<close>

definition ValidEotsSignBaby :: "('bkr, 'sg, 'pk) pop_ext \<Rightarrow> string \<Rightarrow> string \<Rightarrow> string \<Rightarrow> bool go" where
  "ValidEotsSignBaby px eotsPk babyAddr eotsSigOverBabyAddr =
     rbind (wrap ''failed to parse eots public key: '' (px_FromHex px eotsPk)) (\<lambda>eotsPubKey.
     rbind (wrap ''failed to decode signature: '' (px_FromBase64 px eotsSigOverBabyAddr)) (\<lambda>schnorrSigBase64.
     rbind (wrap ''failed to parse schnorr signature: '' (px_ParseSignature px schnorrSigBase64)) (\<lambda>schnorrSig.
     rbind (must (px_ToBTCPK px eotsPubKey)) (\<lambda>pk.
     Ok (px_Verify px schnorrSig (px_tmhash px babyAddr) pk)))))"

definition ValidBabySignEots :: "('bkr, 'sg, 'pk) pop_ext \<Rightarrow> string \<Rightarrow> string \<Rightarrow> string \<Rightarrow> string \<Rightarrow> bool go" where
  "ValidBabySignEots px babyPk' babyAddr eotsPkHex babySigOverEotsPk =
     rbind (wrap ''failed to parse baby public key: '' (px_FromBase64 px babyPk')) (\<lambda>babyPubKeyBz.
     rbind (wrap ''failed to parse eots public key: '' (px_FromHex px eotsPkHex)) (\<lambda>eotsPk.
     rbind (adr36Bytes px babyAddr (px_MarshalHex px eotsPk)) (\<lambda>babySignEotsBz.
     rbind (wrap ''failed to parse baby signature: '' (px_FromBase64 px babySigOverEotsPk)) (\<lambda>secp256SigBase64.
     Ok (px_VerifySignature px babyPubKeyBz babySignEotsBz secp256SigBase64)))))"

definition ValidPopExport :: "('bkr, 'sg, 'pk) pop_ext \<Rightarrow> PoPExport \<Rightarrow> bool go" where
  "ValidPopExport px pop =
     (case ValidEotsSignBaby px (pe_EotsPublicKey pop) (pe_BabyAddress pop) (pe_EotsSignBaby pop) of
        Crash c \<Rightarrow> Crash c
      | Err e \<Rightarrow> Err e
      | Ok False \<Rightarrow> Ok False
      | Ok True \<Rightarrow> ValidBabySignEots px (pe_BabyPublicKey pop) (pe_BabyAddress pop) (pe_EotsPublicKey pop) (pe_BabySignEotsPk pop))"

text \<open>\<open>readPop\<close>: reading and decoding the file.\<close>

definition validatePop :: "('bkr, 'sg, 'pk) pop_ext \<Rightarrow> PoPExport go \<Rightarrow> unit go" where
  "validatePop px readPop =
     rbind readPop (\<lambda>pop.
     rbind (wrap (''failed to validate pop '' @ px_FmtPop px pop @ '', reason: '') (ValidPopExport px pop)) (\<lambda>valid.
     if \<not> valid then Err (ErrText (''invalid pop '' @ px_FmtPop px pop)) else Ok ()))"

section \<open>What is exported is valid\<close>

text \<open>A key name of the EOTS keyring stands for one key pair: in a manager without unlocked keys, as the command opens it, the
  private key found under a name belongs to the public key found under it.\<close>

definition keyringPairs :: "('kr, 'sk, 'sc, 'fv, 'sg, 'pk) eots_ext \<Rightarrow> bool" where
  "keyringPairs x \<longleftrightarrow> (\<forall>keyName s pk s1 sk s2. lm_privateKeys s = Map.empty \<longrightarrow> loadBIP340PubKey x keyName s = (Ok pk, s1) \<longrightarrow>
     eotsPrivKeyFromKeyName x keyName s1 = (Ok (Some sk), s2) \<longrightarrow> SerializePubKey x (PubKey x sk) = pk)"

lemma babyPk_Ok [go_simps]: "babyPk rec = Ok key \<longleftrightarrow> rec_PubKey rec = Ok (Secp256k1Key key)"
proof (cases "rec_PubKey rec")
  case (Ok k)
  then show ?thesis by (cases k) (auto simp: babyPk_def)
qed (auto simp: babyPk_def)

lemma eotsSignMsg_signs:
  assumes "keyringPairs x" and "fst (eotsSignMsg x px flt keyName fpPkStr m s) = Ok (sg, pk)" and "lm_privateKeys s = Map.empty"
  shows "\<exists>sk. schnorr_Sign x sk m = Ok sg \<and> SerializePubKey x (PubKey x sk) = pk"
proof -
  from assms(2) obtain s' where run: "eotsSignMsg x px flt keyName fpPkStr m s = (Ok (sg, pk), s')" by (metis prod.collapse)
  show ?thesis
  proof (cases "0 < length fpPkStr")
    case True
    with run obtain s1 where "SignSchnorrSig x flt pk m s1 = (Ok sg, s')"
      by (auto simp: eotsSignMsg_def liftR_eq wrapS_eq go_simps elim!: sbindE)
    then show ?thesis using verifiedPrivKey_bound [of x flt "\<lambda>m. m" pk]
      by (fastforce simp: SignSchnorrSig_def getEOTSPrivKey_def liftR_eq wrapS_eq go_simps signSchnorrSigFromPrivKey_def elim!: sbindE)
  next
    case False
    with run obtain s1 p where "loadBIP340PubKey x keyName s = (Ok pk, s1)" "eotsPrivKeyFromKeyName x keyName s1 = (Ok p, s')"
      "signSchnorrSigFromPrivKey x p m = Ok sg"
      by (auto simp: eotsSignMsg_def SignSchnorrSigFromKeyname_def LoadBIP340PubKeyFromKeyName_def liftR_eq wrapS_eq go_simps elim!: sbindE)
    then show ?thesis using assms(1,3) unfolding keyringPairs_def
      by (cases p) (auto simp: signSchnorrSigFromPrivKey_def go_simps)
  qed
qed

text \<open>What \<^verbatim>\<open>pop export\<close> prints, \<^verbatim>\<open>pop validate\<close> accepts: when the encodings can be read back, the two signature schemes
  accept their own signatures and a key name stands for one key pair, the exported proof is valid.\<close>

lemma exportPop_validates:
  assumes "keyringPairs x"
    and base64: "\<And>b. px_FromBase64 px (px_Base64 px b) = Ok b" and hex: "\<And>pk k. px_ToBTCPK px pk = Ok k \<Longrightarrow> px_FromHex px (px_MarshalHex px pk) = Ok pk"
    and parse: "\<And>sg. px_ParseSignature px (px_SigSerialize px sg) = Ok sg"
    and schnorr: "\<And>sk m sg. schnorr_Sign x sk m = Ok sg \<Longrightarrow>
      \<exists>pk. px_ToBTCPK px (SerializePubKey x (PubKey x sk)) = Ok pk \<and> px_Verify px sg m pk"
    and baby: "\<And>kr name rec pk m sig. px_Key px kr name = Ok rec \<Longrightarrow> rec_PubKey rec = Ok (Secp256k1Key pk) \<Longrightarrow> px_Sign px kr name m = Ok sig \<Longrightarrow>
      px_VerifySignature px pk m sig"
    and run: "exportPop x px keyringNew flt dbBackend home keyName fpPkStr backend babyHome babyKey babyBackend = Ok pop"
  shows "validatePop px (Ok pop) = Ok ()"
proof -
  from run obtain kr rec bpk lm sg pk sig bz where key: "px_Key px kr babyKey = Ok rec" "rec_PubKey rec = Ok (Secp256k1Key bpk)"
    and load: "loadEotsManager keyringNew (flt 0) dbBackend home fpPkStr keyName backend = Ok lm"
    and sign: "fst (eotsSignMsg x px (flt 1) keyName fpPkStr (px_tmhash px (px_BabyAddress px bpk)) lm) = Ok (sg, pk)"
    and bz: "adr36Bytes px (px_BabyAddress px bpk) (px_MarshalHex px pk) = Ok bz" "px_Sign px kr babyKey bz = Ok sig"
    and pop: "pop = \<lparr>pe_EotsPublicKey = px_MarshalHex px pk, pe_BabyPublicKey = px_Base64 px bpk, pe_BabySignEotsPk = px_Base64 px sig,
      pe_EotsSignBaby = px_Base64 px (px_SigSerialize px sg), pe_BabyAddress = px_BabyAddress px bpk\<rparr>"
    by (auto simp: exportPop_def babyKeyring_def SignCosmosAdr36_def Let_def go_simps)
  have "lm_privateKeys lm = Map.empty"
    using load by (auto simp: loadEotsManager_def NewLocalEOTSManager_def go_simps split: if_splits)
  from eotsSignMsg_signs [OF assms(1) sign this] obtain sk where "schnorr_Sign x sk (px_tmhash px (px_BabyAddress px bpk)) = Ok sg"
    "SerializePubKey x (PubKey x sk) = pk" by blast
  with schnorr obtain k where k: "px_ToBTCPK px pk = Ok k" "px_Verify px sg (px_tmhash px (px_BabyAddress px bpk)) k" by blast
  with baby [OF key bz(2)] bz(1) hex [OF k(1)] show ?thesis
    by (simp add: pop validatePop_def ValidPopExport_def ValidEotsSignBaby_def ValidBabySignEots_def base64 parse)
qed

text \<open>A concrete instance: the signatures name the key and the message, the encodings are the identity.\<close>

definition demo_px :: "(bytes, bytes, bytes) pop_ext" where
  "demo_px = \<lparr>px_Base64 = (\<lambda>b. b), px_FromBase64 = Ok, px_JsonMarshal = (\<lambda>d. Ok (concat (map (mv_Signer \<circ> mg_Value) (sd_Msgs d)) @
       concat (map (mv_Data \<circ> mg_Value) (sd_Msgs d)))), px_SortJSON = Ok, px_FmtPop = pe_BabyAddress, px_Unquote = Ok, px_tmhash = (\<lambda>b. b),
     px_FromHex = Ok, px_MarshalHex = (\<lambda>b. b), px_ToBTCPK = Ok, px_ParseSignature = Ok, px_SigSerialize = (\<lambda>s. s),
     px_Verify = (\<lambda>s m pk. s = pk @ m), px_VerifySignature = (\<lambda>pk m s. s = pk @ m), px_BabyAddress = (\<lambda>pk. ''bbn'' @ pk),
     px_KeyringNew = (\<lambda>_ _. Ok []), px_Key = (\<lambda>_ _. Ok \<lparr>rec_Local = None, rec_PubKey = Ok (Secp256k1Key ''b'')\<rparr>),
     px_Sign = (\<lambda>_ _ m. Ok (''b'' @ m))\<rparr>"

lemma demo_keyringPairs: "keyringPairs demo_ext"
  unfolding keyringPairs_def
  by (auto simp: demo_ext_def loadBIP340PubKey_def krKey_def eotsPrivKeyFromKeyName_def getKeyFromKeyring_def getKeyFromMap_def
      sbind_def liftR_def wrapS_def go_simps ValidatePrivKeyBytes_def split: if_splits option.splits prod.splits)

lemma demo_export:
  "\<exists>pop. exportPop demo_ext demo_px (\<lambda>backend _. Ok backend) (\<lambda>_. NoFault) (Ok (lm_es demo_lm)) home ''fp'' [] BackendTest babyHome ''baby'' babyBackend = Ok pop \<and>
     pe_BabyAddress pop = ''bbnb''"
proof -
  obtain es where "loadEotsManager (\<lambda>backend _. Ok backend) NoFault (Ok (lm_es demo_lm)) home [] ''fp'' BackendTest =
      (Ok \<lparr>lm_kr = BackendTest, lm_es = es, lm_input = [], lm_privateKeys = Map.empty\<rparr> :: (bytes, bytes) LocalEOTSManager go)"
    by (simp add: loadEotsManager_def NewLocalEOTSManager_def NewEOTSStore_def initBuckets_def InitKeyring_def demo_lm_def kv_update_def
        tx_create_bucket_def wrapS_def)
  moreover have "fst (eotsSignMsg demo_ext demo_px NoFault ''fp'' [] m \<lparr>lm_kr = BackendTest, lm_es = es, lm_input = [], lm_privateKeys = Map.empty\<rparr>) =
      Ok (''k'' @ m, ''k'')" for m
    by (simp add: eotsSignMsg_def SignSchnorrSigFromKeyname_def LoadBIP340PubKeyFromKeyName_def loadBIP340PubKey_def krKey_def
        eotsPrivKeyFromKeyName_def getKeyFromKeyring_def signSchnorrSigFromPrivKey_def demo_ext_def ValidatePrivKeyBytes_def sbind_def liftR_def wrapS_def)
  ultimately show ?thesis
    by (simp add: exportPop_def babyKeyring_def babyPk_def SignCosmosAdr36_def adr36Bytes_def Let_def) (simp add: demo_px_def)
qed

text \<open>C40. A valid proof says nothing about whose address it names. Somebody who signs with an EOTS key and a Babylon key of their
  own the two messages for any address \<open>addr\<close>, which are the hash of the address and the document with that signer and the EOTS key,
  has a proof that names \<open>addr\<close> and is accepted: the address is part of both messages, but it is never compared with the Babylon
  public key. What the encodings and the signature schemes are assumed to do is as for the exported proof.\<close>

theorem pop_address_unbound:
  fixes x :: "('kr, 'sk, 'sc, 'fv, 'sg, 'pk) eots_ext" and px :: "('bkr, 'sg, 'pk) pop_ext" and sk :: 'sk and addr :: string
  defines "eotsPk \<equiv> SerializePubKey x (PubKey x sk)"
  assumes "\<And>b. px_FromBase64 px (px_Base64 px b) = Ok b"
    and "\<And>pk k. px_ToBTCPK px pk = Ok k \<Longrightarrow> px_FromHex px (px_MarshalHex px pk) = Ok pk"
    and "\<And>sg. px_ParseSignature px (px_SigSerialize px sg) = Ok sg"
    and "\<And>sk m sg. schnorr_Sign x sk m = Ok sg \<Longrightarrow> \<exists>pk. px_ToBTCPK px (SerializePubKey x (PubKey x sk)) = Ok pk \<and> px_Verify px sg m pk"
    and "\<And>kr name rec pk m sig. px_Key px kr name = Ok rec \<Longrightarrow> rec_PubKey rec = Ok (Secp256k1Key pk) \<Longrightarrow> px_Sign px kr name m = Ok sig \<Longrightarrow>
      px_VerifySignature px pk m sig"
    and "schnorr_Sign x sk (px_tmhash px addr) = Ok sg"
    and "px_Key px kr name = Ok rec" and "rec_PubKey rec = Ok (Secp256k1Key babyKey)"
    and "SignCosmosAdr36 px kr name addr (px_MarshalHex px eotsPk) = Ok sig"
  shows "validatePop px (Ok \<lparr>pe_EotsPublicKey = px_MarshalHex px eotsPk, pe_BabyPublicKey = px_Base64 px babyKey,
    pe_BabySignEotsPk = px_Base64 px sig, pe_EotsSignBaby = px_Base64 px (px_SigSerialize px sg), pe_BabyAddress = addr\<rparr>) = Ok ()"
proof -
  obtain k where k: "px_ToBTCPK px eotsPk = Ok k" "px_Verify px sg (px_tmhash px addr) k"
    using assms(5) [OF assms(7)] unfolding eotsPk_def by blast
  moreover obtain bz where "adr36Bytes px addr (px_MarshalHex px eotsPk) = Ok bz" "px_Sign px kr name bz = Ok sig"
    using assms(10) by (auto simp: SignCosmosAdr36_def go_simps)
  ultimately show ?thesis
    using assms(3) [OF k(1)] assms(6) [OF assms(8,9)]
    by (simp add: validatePop_def ValidPopExport_def ValidEotsSignBaby_def ValidBabySignEots_def assms(2,4))
qed

theorem pop_address_unbound_witness:
  "\<exists>pop. pe_BabyPublicKey pop = ''b'' \<and> pe_BabyAddress pop = ''bbn1victim'' \<and> px_BabyAddress demo_px ''b'' \<noteq> ''bbn1victim'' \<and>
     validatePop demo_px (Ok pop) = Ok ()"
proof -
  let ?pop = "\<lparr>pe_EotsPublicKey = ''k'', pe_BabyPublicKey = ''b'', pe_BabySignEotsPk = ''bbbn1victimk'', pe_EotsSignBaby = ''kbbn1victim'',
    pe_BabyAddress = ''bbn1victim''\<rparr>"
  have "validatePop demo_px (Ok \<lparr>pe_EotsPublicKey = px_MarshalHex demo_px (SerializePubKey demo_ext (PubKey demo_ext ''k'')),
      pe_BabyPublicKey = px_Base64 demo_px ''b'', pe_BabySignEotsPk = px_Base64 demo_px ''bbbn1victimk'',
      pe_EotsSignBaby = px_Base64 demo_px (px_SigSerialize demo_px ''kbbn1victim''), pe_BabyAddress = ''bbn1victim''\<rparr>) = Ok ()"
    by (rule pop_address_unbound [where kr = "[]" and name = "''baby''" and rec = "\<lparr>rec_Local = None, rec_PubKey = Ok (Secp256k1Key ''b'')\<rparr>"])
       (auto simp: demo_px_def demo_ext_def SignCosmosAdr36_def adr36Bytes_def NewCosmosSignDoc_def)
  then have "validatePop demo_px (Ok ?pop) = Ok ()" by (simp add: demo_px_def demo_ext_def)
  then show ?thesis by (intro exI [of _ ?pop]) (simp add: demo_px_def)
qed

section \<open>The file keyring\<close>

text \<open>The command opens a manager of its own, in which no key is unlocked: with the file backend it signs nothing.\<close>

lemma exportPop_file_backend:
  assumes "\<And>kr. keyringNew BackendFile home = Ok kr \<Longrightarrow> kr_Backend x kr = BackendFile"
    and "\<And>name input kr r input' kr'. kr_Key x name input kr = (r, input', kr') \<Longrightarrow> kr_Backend x kr' = kr_Backend x kr"
  shows "exportPop x px keyringNew flt dbBackend home keyName fpPkStr BackendFile babyHome babyKey babyBackend \<noteq> Ok pop"
proof
  assume run: "exportPop x px keyringNew flt dbBackend home keyName fpPkStr BackendFile babyHome babyKey babyBackend = Ok pop"
  then obtain lm m sg pk s' where load: "loadEotsManager keyringNew (flt 0) dbBackend home fpPkStr keyName BackendFile = Ok lm"
    and sign: "eotsSignMsg x px (flt 1) keyName fpPkStr m lm = (Ok (sg, pk), s')"
    by (auto simp: exportPop_def Let_def go_simps) (metis prod.collapse)
  from load assms(1) have lm: "lm_privateKeys lm = Map.empty" "kr_Backend x (lm_kr lm) = BackendFile"
    by (auto simp: loadEotsManager_def NewLocalEOTSManager_def InitKeyring_def go_simps split: if_splits)
  have locked: "eotsPrivKeyFromKeyName x n s \<noteq> (Ok p, t)" if "lm_privateKeys s = Map.empty" "kr_Backend x (lm_kr s) = BackendFile" for n s p t
    using that by (auto simp: eotsPrivKeyFromKeyName_def getKeyFromMap_def BackendFile_def BackendTest_def)
  have "lm_privateKeys s1 = Map.empty \<and> kr_Backend x (lm_kr s1) = BackendFile" if "LoadBIP340PubKeyFromKeyName x keyName lm = (Ok k, s1)" for k s1
    using that lm assms(2) by (auto simp: LoadBIP340PubKeyFromKeyName_def loadBIP340PubKey_def krKey_def wrapS_eq liftR_eq elim!: sbindE split: prod.splits)
  with sign lm locked show False
    by (auto simp: eotsSignMsg_def SignSchnorrSig_def getEOTSPrivKey_def verifiedPrivKey_def SignSchnorrSigFromKeyname_def get_es_def
        wrapS_eq liftR_eq go_simps elim!: sbindE split: if_splits)
qed

end
