(* ===== verification/FP_Paths.thy ===== *)
theory FP_Paths
  imports FP_Prelude
begin

text \<open>
  File system paths of both daemons: the functions of Go's \<^verbatim>\<open>path/filepath\<close> and \<^verbatim>\<open>os\<close> the code calls (on a Unix system),
  \<^verbatim>\<open>util/path.go\<close>, the paths below a home directory (\<^verbatim>\<open>config/config.go\<close> of both daemons) and how the commands find
  the home directory (\<^verbatim>\<open>eotsd/daemon/utils.go\<close>). The environment, the user's home and the working directory are
  arguments.
\<close>

section \<open>The standard library\<close>

fun splitSlash :: "string \<Rightarrow> string list" where
  "splitSlash [] = [[]]"
| "splitSlash (c # cs) =
     (case splitSlash cs of
        [] \<Rightarrow> [[c]]
      | s # ss \<Rightarrow> if c = CHR ''/'' then [] # s # ss else (c # s) # ss)"

fun joinSlash :: "string list \<Rightarrow> string" where
  "joinSlash [] = []"
| "joinSlash [s] = s"
| "joinSlash (s # t # ss) = s @ ''/'' @ joinSlash (t # ss)"

text \<open>The elements kept so far, latest first: a dot or nothing is dropped, two dots take the element before them.\<close>

fun cleanElems :: "bool \<Rightarrow> string list \<Rightarrow> string list \<Rightarrow> string list" where
  "cleanElems rooted kept [] = rev kept"
| "cleanElems rooted kept (e # es) =
     (if e = [] \<or> e = ''.'' then cleanElems rooted kept es
      else if e = ''..''
      then (case kept of
          [] \<Rightarrow> cleanElems rooted (if rooted then [] else [e]) es
        | k # ks \<Rightarrow> if k = ''..'' then cleanElems rooted (e # kept) es else cleanElems rooted ks es)
      else cleanElems rooted (e # kept) es)"

definition isRooted :: "string \<Rightarrow> bool" where
  "isRooted p \<longleftrightarrow> prefix ''/'' p"

definition path_Clean :: "string \<Rightarrow> string" where
  "path_Clean p =
     (let es = cleanElems (isRooted p) [] (splitSlash p) in
      if isRooted p then ''/'' @ joinSlash es else if es = [] then ''.'' else joinSlash es)"

definition filepath_Join :: "string list \<Rightarrow> string" where
  "filepath_Join elems =
     (case dropWhile (\<lambda>e. e = []) elems of [] \<Rightarrow> [] | es \<Rightarrow> path_Clean (joinSlash es))"

text \<open>\<open>wd\<close>: the working directory, which the system may fail to report.\<close>

definition filepath_Abs :: "string go \<Rightarrow> string \<Rightarrow> string go" where
  "filepath_Abs wd p = (if isRooted p then Ok (path_Clean p) else rbind wd (\<lambda>d. Ok (filepath_Join [d, p])))"

definition isShellSpecialVar :: "char \<Rightarrow> bool" where
  "isShellSpecialVar c \<longleftrightarrow> c \<in> set ''*#$@!?-0123456789''"

definition isAlphaNum :: "char \<Rightarrow> bool" where
  "isAlphaNum c \<longleftrightarrow> c = CHR ''_'' \<or> (let n = (of_char c :: nat) in 48 \<le> n \<and> n \<le> 57 \<or> 97 \<le> n \<and> n \<le> 122 \<or> 65 \<le> n \<and> n \<le> 90)"

text \<open>The name after a dollar sign and the number of characters it takes.\<close>

definition getShellName :: "string \<Rightarrow> string \<times> nat" where
  "getShellName s =
     (case s of
        [] \<Rightarrow> ([], 0)
      | c # cs \<Rightarrow>
          if c = CHR ''{''
          then if 2 \<le> length cs \<and> isShellSpecialVar (cs ! 0) \<and> cs ! 1 = CHR ''}'' then ([cs ! 0], 3)
            else let name = takeWhile (\<lambda>d. d \<noteq> CHR ''}'') cs in
              if length name = length cs then ([], 1)
              else if name = [] then ([], 2)
              else (name, length name + 2)
          else if isShellSpecialVar c then ([c], 1)
          else let name = takeWhile isAlphaNum s in (name, length name))"

function os_Expand :: "(string \<Rightarrow> string) \<Rightarrow> string \<Rightarrow> string" where
  "os_Expand mapping [] = []"
| "os_Expand mapping (c # cs) =
     (if c = CHR ''$'' \<and> cs \<noteq> []
      then case getShellName cs of
          (name, w) \<Rightarrow>
            (if name = [] then if 0 < w then [] else [c] else mapping name) @ os_Expand mapping (drop w cs)
      else c # os_Expand mapping cs)"
  by pat_completeness auto
termination
  by (relation "measure (\<lambda>(_, s). length s)") auto

section \<open>Paths of the program\<close>

text \<open>\<open>user\<close>: the home directory of the current user, if the system knows the user; \<open>getenv\<close>: the environment, empty for
  a variable that is not set.\<close>

definition CleanAndExpandPath :: "string option \<Rightarrow> (string \<Rightarrow> string) \<Rightarrow> string \<Rightarrow> string" where
  "CleanAndExpandPath user getenv p =
     (if p = [] then []
      else
        let p = (if prefix ''~'' p then (case user of Some h \<Rightarrow> h | None \<Rightarrow> getenv ''HOME'') @ tl p else p) in
        path_Clean (os_Expand getenv p))"

definition getCleanPath :: "string option \<Rightarrow> (string \<Rightarrow> string) \<Rightarrow> string go \<Rightarrow> string \<Rightarrow> string go" where
  "getCleanPath user getenv wd rawPath =
     rbind (wrap ''failed to get absolute path: '' (filepath_Abs wd rawPath)) (\<lambda>cleanPath.
     Ok (CleanAndExpandPath user getenv cleanPath))"

definition CfgFile :: "string \<Rightarrow> string" where
  "CfgFile homePath = filepath_Join [homePath, ''fpd.conf'']"

definition LogDir :: "string \<Rightarrow> string" where
  "LogDir homePath = filepath_Join [homePath, ''logs'']"

definition LogFile :: "string \<Rightarrow> string" where
  "LogFile homePath = filepath_Join [LogDir homePath, ''fpd.log'']"

definition DataDir :: "string \<Rightarrow> string" where
  "DataDir homePath = filepath_Join [homePath, ''data'']"

definition eots_CfgFile :: "string \<Rightarrow> string" where
  "eots_CfgFile homePath = filepath_Join [homePath, ''eotsd.conf'']"

definition eots_LogDir :: "string \<Rightarrow> string" where
  "eots_LogDir homePath = filepath_Join [homePath, ''logs'']"

definition eots_LogFile :: "string \<Rightarrow> string" where
  "eots_LogFile homePath = filepath_Join [eots_LogDir homePath, ''eotsd.log'']"

definition eots_DataDir :: "string \<Rightarrow> string" where
  "eots_DataDir homePath = filepath_Join [homePath, ''data'']"

section \<open>Properties\<close>

text \<open>Examples of the library functions, as its documentation gives them.\<close>

lemma path_Clean_examples:
  "path_Clean ''a//b/./c'' = ''a/b/c''" "path_Clean ''/../a'' = ''/a''" "path_Clean ''a/b/..'' = ''a''" "path_Clean '''' = ''.''"
  "path_Clean ''../a'' = ''../a''" "path_Clean ''/'' = ''/''"
  by (simp_all add: path_Clean_def isRooted_def)

lemma os_Expand_examples:
  "os_Expand (\<lambda>_. ''v'') ''a/$HOME/b'' = ''a/v/b''" "os_Expand (\<lambda>_. ''v'') ''${X}y'' = ''vy''" "os_Expand (\<lambda>_. ''v'') ''5$'' = ''5$''"
  by (simp_all add: getShellName_def isShellSpecialVar_def isAlphaNum_def Let_def)

text \<open>Cleaning: the elements kept are never empty, a dot, or two dots after a name, so that cleaning them again keeps them.\<close>

definition plainElem :: "string \<Rightarrow> bool" where
  "plainElem e \<longleftrightarrow> CHR ''/'' \<notin> set e \<and> e \<noteq> [] \<and> e \<noteq> ''.''"

fun keptOk :: "bool \<Rightarrow> string list \<Rightarrow> bool" where
  "keptOk rooted [] \<longleftrightarrow> True"
| "keptOk rooted (k # ks) \<longleftrightarrow>
     plainElem k \<and> keptOk rooted ks \<and> (k = ''..'' \<longrightarrow> \<not> rooted \<and> (\<forall>x\<in>set ks. x = ''..''))"

lemma splitSlash_not_Nil [simp]: "splitSlash s \<noteq> []"
  by (induction s) (auto split: list.splits)

lemma splitSlash_no_slash: "e \<in> set (splitSlash s) \<Longrightarrow> CHR ''/'' \<notin> set e"
proof (induction s arbitrary: e)
  case (Cons c cs)
  then show ?case by (cases "splitSlash cs") (auto split: if_splits)
qed simp

lemma splitSlash_elem: "CHR ''/'' \<notin> set s \<Longrightarrow> splitSlash s = [s]"
  by (induction s) auto

lemma splitSlash_append: "CHR ''/'' \<notin> set s \<Longrightarrow> splitSlash (s @ CHR ''/'' # t) = s # splitSlash t"
  by (induction s) (auto split: list.splits)

lemma splitSlash_joinSlash:
  "es \<noteq> [] \<Longrightarrow> (\<And>e. e \<in> set es \<Longrightarrow> CHR ''/'' \<notin> set e) \<Longrightarrow> splitSlash (joinSlash es) = es"
  by (induction es rule: joinSlash.induct) (auto simp: splitSlash_elem splitSlash_append)

lemma cleanElems_keptOk:
  "keptOk rooted kept \<Longrightarrow> (\<And>e. e \<in> set es \<Longrightarrow> CHR ''/'' \<notin> set e) \<Longrightarrow> keptOk rooted (rev (cleanElems rooted kept es))"
  by (induction rooted kept es rule: cleanElems.induct) (auto simp: plainElem_def split: list.splits)

lemma keptOk_plain: "keptOk rooted ks \<Longrightarrow> e \<in> set ks \<Longrightarrow> plainElem e"
  by (induction ks) auto

lemma keptOk_tail: "keptOk rooted (ks @ ls) \<Longrightarrow> keptOk rooted ls"
  by (induction ks) auto

lemma keptOk_last: "keptOk rooted (ks @ ''..'' # ls) \<Longrightarrow> \<not> rooted \<and> (\<forall>x\<in>set ls. x = ''..'')"
  using keptOk_tail [of rooted ks "''..'' # ls"] by simp

lemma cleanElems_fixpoint: "keptOk rooted (rev es @ kept) \<Longrightarrow> cleanElems rooted kept es = rev kept @ es"
proof (induction es arbitrary: kept)
  case (Cons e es)
  have plain: "plainElem e" using Cons.prems keptOk_plain [of rooted _ e] by auto
  have step: "cleanElems rooted (e # kept) es = rev kept @ e # es"
    using Cons.IH [of "e # kept"] Cons.prems by simp
  show ?case
  proof (cases "e = ''..''")
    case True
    then have "\<not> rooted \<and> (\<forall>x\<in>set kept. x = ''..'')" using Cons.prems keptOk_last [of rooted "rev es" kept] by simp
    with step True show ?thesis by (auto split: list.splits)
  next
    case False
    with plain step show ?thesis by (auto simp: plainElem_def)
  qed
qed simp

lemma isRooted_Cons: "isRooted (c # cs) \<longleftrightarrow> c = CHR ''/''"
  by (auto simp: isRooted_def)

lemma joinSlash_unrooted: "es \<noteq> [] \<Longrightarrow> plainElem (hd es) \<Longrightarrow> \<not> isRooted (joinSlash es)"
  by (cases es rule: joinSlash.cases) (auto simp: plainElem_def isRooted_def prefix_def append_eq_Cons_conv)

lemma path_Clean_rooted: "isRooted p \<Longrightarrow> isRooted (path_Clean p)"
  by (simp add: path_Clean_def Let_def isRooted_Cons)

lemma path_Clean_idempotent: "path_Clean (path_Clean p) = path_Clean p"
proof -
  define es where "es = cleanElems (isRooted p) [] (splitSlash p)"
  have ok: "keptOk (isRooted p) (rev es)"
    unfolding es_def by (rule cleanElems_keptOk) (auto dest: splitSlash_no_slash)
  then have plain: "plainElem e" if "e \<in> set es" for e using keptOk_plain [OF ok] that by simp
  have fix_es: "cleanElems (isRooted p) [] es = es" using cleanElems_fixpoint [of "isRooted p" es "[]"] ok by simp
  have split: "es \<noteq> [] \<Longrightarrow> splitSlash (joinSlash es) = es"
    by (rule splitSlash_joinSlash) (use plain in \<open>auto simp: plainElem_def\<close>)
  have clean: "path_Clean p = (if isRooted p then ''/'' @ joinSlash es else if es = [] then ''.'' else joinSlash es)"
    by (simp add: path_Clean_def es_def Let_def)
  consider (root) "isRooted p" | (dot) "\<not> isRooted p" "es = []" | (rel) "\<not> isRooted p" "es \<noteq> []" by blast
  then show ?thesis
  proof cases
    case root
    then have c: "path_Clean p = CHR ''/'' # joinSlash es" using clean by simp
    have "cleanElems True [] (splitSlash (joinSlash es)) = es"
      by (cases "es = []") (use fix_es root split in auto)
    then show ?thesis unfolding c using splitSlash_append [of "[]" "joinSlash es"] by (simp add: path_Clean_def isRooted_Cons Let_def)
  next
    case dot
    then show ?thesis unfolding clean by (simp add: path_Clean_def isRooted_Cons)
  next
    case rel
    then have c: "path_Clean p = joinSlash es" using clean by simp
    have "\<not> isRooted (joinSlash es)" using joinSlash_unrooted [of es] rel plain [of "hd es"] by simp
    then show ?thesis unfolding c using fix_es rel split by (simp add: path_Clean_def Let_def)
  qed
qed

lemma filepath_Abs_rooted: "isRooted d \<Longrightarrow> filepath_Abs (Ok d) p = Ok q \<Longrightarrow> isRooted q"
  by (cases d) (auto simp: filepath_Abs_def go_simps filepath_Join_def isRooted_def [of "[]"] isRooted_Cons split: if_splits
      intro!: path_Clean_rooted)

lemma rooted_no_tilde: "isRooted q \<Longrightarrow> \<not> prefix ''~'' q"
  by (auto simp: isRooted_def prefix_def)

lemma CleanAndExpandPath_rooted: "isRooted q \<Longrightarrow> CleanAndExpandPath user getenv q = path_Clean (os_Expand getenv q)"
  by (auto simp: CleanAndExpandPath_def Let_def rooted_no_tilde isRooted_def)

text \<open>The home directory of every command is made absolute before its leading tilde would be expanded, so the tilde is
  never expanded: the result does not depend on the user, and a home of \<^verbatim>\<open>~/.eotsd\<close> is the directory of that name below
  the working directory.\<close>

theorem home_tilde_not_expanded:
  assumes "isRooted d"
  shows "\<exists>q. filepath_Abs (Ok d) p = Ok q \<and> getCleanPath user getenv (Ok d) p = Ok (path_Clean (os_Expand getenv q))"
proof -
  obtain q where q: "filepath_Abs (Ok d) p = Ok q" by (cases "isRooted p") (auto simp: filepath_Abs_def go_simps)
  with assms have "isRooted q" by (rule filepath_Abs_rooted)
  with q show ?thesis by (auto simp: getCleanPath_def go_simps CleanAndExpandPath_rooted)
qed

lemma home_tilde_example: "getCleanPath (Some ''/home/a'') getenv (Ok ''/srv'') ''~/.eotsd'' = Ok ''/srv/~/.eotsd''"
  by (simp add: getCleanPath_def filepath_Abs_def isRooted_def go_simps filepath_Join_def path_Clean_def
      CleanAndExpandPath_def)

end
