(* ===== verification/DB_Config.thy ===== *)
theory DB_Config
  imports FP_Paths KV_Backend
begin

text \<open>
  The database settings of both daemons (\<^verbatim>\<open>finality-provider/config/db.go\<close>, \<^verbatim>\<open>eotsmanager/config/db.go\<close>): the same
  record, with another file name. The bolt backend itself is an argument.
\<close>

record DBConfig =
  dbc_DBPath :: string
  dbc_DBFileName :: string
  dbc_NoFreelistSync :: bool
  dbc_AutoCompact :: bool
  dbc_AutoCompactMinAge :: int
  dbc_DBTimeout :: int

text \<open>The settings the backend takes.\<close>

record BoltBackendConfig =
  bb_DBPath :: string
  bb_DBFileName :: string
  bb_NoFreelistSync :: bool
  bb_AutoCompact :: bool
  bb_AutoCompactMinAge :: int
  bb_DBTimeout :: int

text \<open>The two durations are defaults of the backend: \<open>minAge\<close> and \<open>timeout\<close>.\<close>

definition DefaultDBConfigWithHomePath :: "int \<times> int \<Rightarrow> string \<Rightarrow> DBConfig" where
  "DefaultDBConfigWithHomePath kd homePath =
     \<lparr>dbc_DBPath = DataDir homePath, dbc_DBFileName = ''finality-provider.db'', dbc_NoFreelistSync = True, dbc_AutoCompact = False,
      dbc_AutoCompactMinAge = fst kd, dbc_DBTimeout = snd kd\<rparr>"

definition eots_DefaultDBConfigWithHomePath :: "int \<times> int \<Rightarrow> string \<Rightarrow> DBConfig" where
  "eots_DefaultDBConfigWithHomePath kd homePath =
     \<lparr>dbc_DBPath = eots_DataDir homePath, dbc_DBFileName = ''eots.db'', dbc_NoFreelistSync = True, dbc_AutoCompact = False,
      dbc_AutoCompactMinAge = fst kd, dbc_DBTimeout = snd kd\<rparr>"

definition DBConfigToBoltBackendConfig :: "DBConfig \<Rightarrow> BoltBackendConfig" where
  "DBConfigToBoltBackendConfig db =
     \<lparr>bb_DBPath = dbc_DBPath db, bb_DBFileName = dbc_DBFileName db, bb_NoFreelistSync = dbc_NoFreelistSync db,
      bb_AutoCompact = dbc_AutoCompact db, bb_AutoCompactMinAge = dbc_AutoCompactMinAge db, bb_DBTimeout = dbc_DBTimeout db\<rparr>"

text \<open>\<open>bolt\<close> opens the database; a missing section of the configuration is a nil pointer.\<close>

definition GetDBBackend :: "(BoltBackendConfig \<Rightarrow> kvdb go) \<Rightarrow> DBConfig option \<Rightarrow> kvdb go" where
  "GetDBBackend bolt db =
     rbind (deref db) (\<lambda>db. wrap ''failed to get bolt backend: '' (bolt (DBConfigToBoltBackendConfig db)))"

lemma GetDBBackend_Ok:
  assumes "GetDBBackend bolt c = Ok db"
  obtains d where "c = Some d" "bolt (DBConfigToBoltBackendConfig d) = Ok db"
  using assms by (auto simp: GetDBBackend_def go_simps)

text \<open>The databases of the two daemons never share a file, even in one home directory.\<close>

lemma daemon_databases_differ:
  "DBConfigToBoltBackendConfig (DefaultDBConfigWithHomePath kd home) \<noteq> DBConfigToBoltBackendConfig (eots_DefaultDBConfigWithHomePath kd home)"
  by (simp add: DBConfigToBoltBackendConfig_def DefaultDBConfigWithHomePath_def eots_DefaultDBConfigWithHomePath_def)

end
