(* ===== verification/Eots_Rpc.thy ===== *)
theory Eots_Rpc
  imports Eots_Claims DB_Config
begin

text \<open>
  The EOTS manager as a service: the daemon's configuration (\<^verbatim>\<open>eotsmanager/config\<close>), the gRPC
  handlers (\<^verbatim>\<open>eotsmanager/service/rpcserver.go\<close>), the message authentication of requests on both
  sides (\<^verbatim>\<open>service/hmac.go\<close>, \<^verbatim>\<open>client/hmac.go\<close>, \<^verbatim>\<open>client/secrets.go\<close>) and the client stub
  (\<^verbatim>\<open>client/rpcclient.go\<close>). The generated protobuf messages are datatypes; the gRPC transport is an
  argument of the client's methods. With the unsafe endpoint disabled every request is a step of the
  manager or leaves it alone, which carries the safety theorem over to all request sequences.
\<close>

section \<open>Configuration\<close>

record MetricsConfig =
  mc_Host :: bytes
  mc_Port :: int
  mc_UpdateInterval :: int

record EotsConfig =
  ec_LogLevel :: string
  ec_KeyringBackend :: bytes
  ec_RPCListener :: bytes
  ec_HMACKey :: bytes
  ec_DisableUnsafeEndpoints :: "bool option"
  ec_Metrics :: "MetricsConfig option"
  ec_GRPCMaxContentLength :: int
  ec_DatabaseConfig :: "DBConfig option"

text \<open>\<open>parseIP\<close> is \<^verbatim>\<open>net.ParseIP(host) != nil\<close> and \<open>resolve\<close> is \<^verbatim>\<open>net.ResolveTCPAddr\<close>, which asks the
  operating system.\<close>

definition MetricsConfig_Validate :: "(bytes \<Rightarrow> bool) \<Rightarrow> MetricsConfig \<Rightarrow> unit go" where
  "MetricsConfig_Validate parseIP cfg =
     (if mc_Port cfg < 0 \<or> mc_Port cfg > 65535 then Err (ErrText (''invalid port: '' @ fmt_int (mc_Port cfg)))
      else if \<not> parseIP (mc_Host cfg) then Err (ErrText (''invalid host: '' @ mc_Host cfg))
      else Ok ())"

definition EotsConfig_Validate :: "(bytes \<Rightarrow> unit go) \<Rightarrow> (bytes \<Rightarrow> bool) \<Rightarrow> EotsConfig \<Rightarrow> unit go" where
  "EotsConfig_Validate resolve parseIP cfg =
     rbind (wrap (''invalid RPC listener address '' @ ec_RPCListener cfg @ '', '') (resolve (ec_RPCListener cfg)))
     (\<lambda>_. if ec_KeyringBackend cfg = [] then Err (ErrText ''the keyring backend should not be empty'')
      else if ec_KeyringBackend cfg \<noteq> BackendTest \<and> ec_KeyringBackend cfg \<noteq> BackendFile
      then Err (ErrText (''the keyring backend should be be either 'test' or 'file', got '' @
        [CHR 0x27] @ ec_KeyringBackend cfg @ [CHR 0x27]))
      else case ec_Metrics cfg of
          None \<Rightarrow> Err (ErrText ''empty metrics config'')
        | Some m \<Rightarrow> (case MetricsConfig_Validate parseIP m of
            Err e \<Rightarrow> Err (ErrText ''invalid metrics config'')
          | Crash c \<Rightarrow> Crash c
          | Ok _ \<Rightarrow> if ec_GRPCMaxContentLength cfg \<le> 0 then Err (ErrText (''invalid grpcmaxcontentlength '' @
                      fmt_int (ec_GRPCMaxContentLength cfg)))
                    else Ok ()))"

definition IsUnsafeEndpointsDisabled :: "EotsConfig \<Rightarrow> bool" where
  "IsUnsafeEndpointsDisabled cfg =
     (case ec_DisableUnsafeEndpoints cfg of None \<Rightarrow> True | Some b \<Rightarrow> b)"

definition DefaultEotsConfig :: MetricsConfig where
  "DefaultEotsConfig = \<lparr>mc_Host = ''127.0.0.1'', mc_Port = 2113, mc_UpdateInterval = 100000000\<rparr>"

definition DefaultConfigWithHomePathAndPorts ::
  "(bytes \<Rightarrow> unit go) \<Rightarrow> (bytes \<Rightarrow> bool) \<Rightarrow> int \<times> int \<Rightarrow> string \<Rightarrow> int \<Rightarrow> int \<Rightarrow> EotsConfig go" where
  "DefaultConfigWithHomePathAndPorts resolve parseIP kd homePath rpcPort metricsPort =
     (let cfg = \<lparr>ec_LogLevel = ''debug'', ec_KeyringBackend = BackendTest, ec_RPCListener = ''127.0.0.1:'' @ fmt_int rpcPort, ec_HMACKey = [],
        ec_DisableUnsafeEndpoints = Some True, ec_Metrics = Some (DefaultEotsConfig\<lparr>mc_Port := metricsPort\<rparr>),
        ec_GRPCMaxContentLength = 16 * 1024 * 1024, ec_DatabaseConfig = Some (eots_DefaultDBConfigWithHomePath kd homePath)\<rparr> in
      rbind (must (EotsConfig_Validate resolve parseIP cfg)) (\<lambda>_. Ok cfg))"

definition DefaultConfigWithHomePath :: "(bytes \<Rightarrow> unit go) \<Rightarrow> (bytes \<Rightarrow> bool) \<Rightarrow> int \<times> int \<Rightarrow> string \<Rightarrow> EotsConfig go" where
  "DefaultConfigWithHomePath resolve parseIP kd homePath = DefaultConfigWithHomePathAndPorts resolve parseIP kd homePath 12582 2113"

text \<open>\<open>exists\<close> and \<open>parse\<close> are the file system and the parser of configuration files.\<close>

definition eots_LoadConfig ::
  "(bytes \<Rightarrow> unit go) \<Rightarrow> (bytes \<Rightarrow> bool) \<Rightarrow> (string \<Rightarrow> bool) \<Rightarrow> (string \<Rightarrow> EotsConfig go) \<Rightarrow> string \<Rightarrow> EotsConfig go" where
  "eots_LoadConfig resolve parseIP fileExists parse homePath =
     (let cfgFile = eots_CfgFile homePath in
      if \<not> fileExists cfgFile then Err (ErrText (''specified config file does not exist in '' @ cfgFile))
      else
        rbind (wrap ''failed to parse config file: '' (parse cfgFile)) (\<lambda>cfg.
        rbind (EotsConfig_Validate resolve parseIP cfg) (\<lambda>_. Ok cfg)))"

section \<open>Messages\<close>

datatype eots_request =
    PingRequest
  | CreateRandomnessPairListRequest bytes bytes u64 u32 "u64 option"
  | SignEOTSRequest bytes bytes bytes u64
  | SignSchnorrSigRequest bytes bytes
  | pb_SignBatchEOTSRequest bytes bytes "SignDataRequest list"
  | SaveEOTSKeyNameRequest bytes bytes
  | BackupRequest bytes bytes
  | UnlockKeyRequest bytes bytes

text \<open>Encodings of field values, signatures and public keys that cross the wire, and \<^verbatim>\<open>proto.Marshal\<close>.\<close>

record ('fv, 'sg, 'pk) rpc_ext =
  fv_Bytes :: "'fv \<Rightarrow> bytes"
  fv_SetByteSlice :: "bytes \<Rightarrow> 'fv"
  sg_Serialize :: "'sg \<Rightarrow> bytes"
  sg_Parse :: "bytes \<Rightarrow> 'sg go"
  pk_SerializeUncompressed :: "'pk \<Rightarrow> bytes"
  req_Marshal :: "eots_request \<Rightarrow> bytes go"

section \<open>Server handlers\<close>

definition rpc_CreateRandomnessPairList ::
  "('kr, 'sk, 'sc, 'fv, 'sg, 'pk) eots_ext \<Rightarrow> ('fv, 'sg, 'pk) rpc_ext \<Rightarrow> dbfault \<Rightarrow>
     bytes \<Rightarrow> bytes \<Rightarrow> u64 \<Rightarrow> u32 \<Rightarrow> u64 option \<Rightarrow> (('kr, 'sk) LocalEOTSManager, bytes list) cmd" where
  "rpc_CreateRandomnessPairList x w flt uid chainId startHeight num interval =
     (let options = (case interval of Some i \<Rightarrow> if i > 0 then [WithInterval i] else [] | None \<Rightarrow> []) in
      sbind (wrapS ''failed to create randomness pair list: ''
        (CreateRandomnessPairList x flt uid chainId startHeight num options)) (\<lambda>pubRandList.
      liftR (Ok (map (fv_Bytes w) pubRandList))))"

text \<open>A double sign becomes a status error; every other error is wrapped.\<close>

definition signError :: "string \<Rightarrow> (('s, 'a) cmd) \<Rightarrow> ('s, 'a) cmd" where
  "signError p m s = (case m s of
     (Ok a, s') \<Rightarrow> (Ok a, s')
   | (Err e, s') \<Rightarrow> (Err (if error_is e ErrDoubleSign then StatusErr FailedPrecondition (error_text e)
       else Wrapf p e), s')
   | (Crash c, s') \<Rightarrow> (Crash c, s'))"

definition rpc_SignEOTS ::
  "('kr, 'sk, 'sc, 'fv, 'sg, 'pk) eots_ext \<Rightarrow> (nat \<Rightarrow> dbfault) \<Rightarrow> u64 \<Rightarrow>
     bytes \<Rightarrow> bytes \<Rightarrow> bytes \<Rightarrow> u64 \<Rightarrow> (('kr, 'sk) LocalEOTSManager, bytes) cmd" where
  "rpc_SignEOTS x tx now uid chainId msg height =
     sbind (signError ''failed to sign EOTS: '' (SignEOTS x tx now uid chainId msg height)) (\<lambda>sig.
     liftR (Ok (sc_Bytes x sig)))"

definition rpc_UnsafeSignEOTS ::
  "('kr, 'sk, 'sc, 'fv, 'sg, 'pk) eots_ext \<Rightarrow> EotsConfig \<Rightarrow> dbfault \<Rightarrow>
     bytes \<Rightarrow> bytes \<Rightarrow> bytes \<Rightarrow> u64 \<Rightarrow> (('kr, 'sk) LocalEOTSManager, bytes) cmd" where
  "rpc_UnsafeSignEOTS x cfg flt uid chainId msg height =
     (if IsUnsafeEndpointsDisabled cfg
      then liftR (Err (StatusErr PermissionDenied
        ''UnsafeSignEOTS endpoint is disabled in configuration for security reasons''))
      else sbind (wrapS ''failed to sign EOTS: '' (UnsafeSignEOTS x flt uid chainId msg height)) (\<lambda>sig.
        liftR (Ok (sc_Bytes x sig))))"

definition rpc_SignSchnorrSig ::
  "('kr, 'sk, 'sc, 'fv, 'sg, 'pk) eots_ext \<Rightarrow> ('fv, 'sg, 'pk) rpc_ext \<Rightarrow> dbfault \<Rightarrow>
     bytes \<Rightarrow> bytes \<Rightarrow> (('kr, 'sk) LocalEOTSManager, bytes) cmd" where
  "rpc_SignSchnorrSig x w flt uid msg =
     sbind (wrapS ''failed to sign EOTS: '' (SignSchnorrSig x flt uid msg)) (\<lambda>sig.
     liftR (Ok (sg_Serialize w sig)))"

definition rpc_SignBatchEOTS ::
  "('kr, 'sk, 'sc, 'fv, 'sg, 'pk) eots_ext \<Rightarrow> (nat \<Rightarrow> dbfault) \<Rightarrow> u64 \<Rightarrow>
     bytes \<Rightarrow> bytes \<Rightarrow> SignDataRequest list \<Rightarrow> (('kr, 'sk) LocalEOTSManager, (bytes \<times> u64) list) cmd" where
  "rpc_SignBatchEOTS x tx now uid chainId signRequests =
     (case ValidateNoDuplicateHeights (map rq_Height signRequests) of
        Err e \<Rightarrow> liftR (Err (StatusErr InvalidArgument (''duplicate height in batch: '' @ error_text e)))
      | Crash c \<Rightarrow> liftR (Crash c)
      | Ok _ \<Rightarrow>
          sbind (signError ''failed to sign batch EOTS: ''
            (SignBatchEOTS x tx now \<lparr>rq_UID = uid, rq_ChainID = chainId,
               rq_SignRequest = map (\<lambda>r. \<lparr>rq_Msg = rq_Msg r, rq_Height = rq_Height r\<rparr>) signRequests\<rparr>))
          (\<lambda>responses. liftR (Ok (map (\<lambda>resp. (sc_Bytes x (rs_Signature resp), rs_Height resp)) responses))))"

definition rpc_SaveEOTSKeyName ::
  "('kr, 'sk, 'sc, 'fv, 'sg, 'pk) eots_ext \<Rightarrow> dbfault \<Rightarrow> bytes \<Rightarrow> bytes \<Rightarrow>
     (('kr, 'sk) LocalEOTSManager, unit) cmd" where
  "rpc_SaveEOTSKeyName x flt keyName eotsPk =
     sbind (liftR (wrap ''failed to parse EOTS public key: '' (ParsePubKey x eotsPk))) (\<lambda>pk.
     wrapS ''failed to save EOTS key name: '' (SaveEOTSKeyName x flt pk keyName))"

definition rpc_UnlockKey ::
  "('kr, 'sk, 'sc, 'fv, 'sg, 'pk) eots_ext \<Rightarrow> dbfault \<Rightarrow> bytes \<Rightarrow> bytes \<Rightarrow>
     (('kr, 'sk) LocalEOTSManager, unit) cmd" where
  "rpc_UnlockKey x flt uid passphrase = wrapS ''failed to unlock key: '' (Unlock x flt uid passphrase)"

definition rpc_Backup ::
  "unit go \<Rightarrow> unit go \<Rightarrow> unit go \<Rightarrow> bytes \<Rightarrow> bytes \<Rightarrow> bytes \<Rightarrow> ('kr, 'sk) LocalEOTSManager \<Rightarrow> (backups, bytes) cmd"
where
  "rpc_Backup mkdirRes createRes copyRes timestamp dbPath backupDir s =
     wrapS ''failed to backup: '' (Backup mkdirRes createRes copyRes timestamp dbPath backupDir s)"

section \<open>Request authentication\<close>

text \<open>Standard base64 with padding.\<close>

definition b64_char :: "nat \<Rightarrow> char" where
  "b64_char n = (if n < 26 then char_of (65 + n) else if n < 52 then char_of (71 + n)
     else if n < 62 then char_of (n - 4) else if n = 62 then CHR ''+'' else CHR ''/'')"

fun base64 :: "bytes \<Rightarrow> bytes" where
  "base64 [] = []"
| "base64 [a] = (let n = of_char a in [b64_char (n div 4), b64_char (n mod 4 * 16), CHR ''='', CHR ''=''])"
| "base64 [a, b] = (let n = of_char a * 256 + of_char b in
     [b64_char (n div 1024), b64_char (n div 16 mod 64), b64_char (n mod 16 * 4), CHR ''=''])"
| "base64 (a # b # c # rest) = (let n = of_char a * 65536 + of_char b * 256 + of_char c in
     [b64_char (n div 262144), b64_char (n div 4096 mod 64), b64_char (n div 64 mod 64), b64_char (n mod 64)]
     @ base64 rest)"

definition HMACHeaderKey :: bytes where "HMACHeaderKey = ''X-FPD-HMAC''"

type_synonym metadata = "bytes \<Rightarrow> bytes list"

definition hmac_exempt :: "bytes \<Rightarrow> bool" where
  "hmac_exempt method \<longleftrightarrow> method = ''/proto.EOTSManager/Ping'' \<or> method = ''/proto.EOTSManager/SaveEOTSKeyName''"

text \<open>The server side calls the handler, or refuses without calling it.\<close>

definition HMACUnaryServerInterceptor ::
  "(bytes \<Rightarrow> bytes \<Rightarrow> bytes) \<Rightarrow> (eots_request \<Rightarrow> bytes go) \<Rightarrow> bytes \<Rightarrow> bytes \<Rightarrow> eots_request \<Rightarrow>
     metadata option \<Rightarrow> ('s, 'r) cmd \<Rightarrow> ('s, 'r) cmd" where
  "HMACUnaryServerInterceptor hmac marshal hmacKey fullMethod req md handler =
     (if hmac_exempt fullMethod then handler
      else if hmacKey = [] then handler
      else case md of
        None \<Rightarrow> liftR (Err (StatusErr Unauthenticated ''metadata is not provided''))
      | Some md \<Rightarrow> (case md HMACHeaderKey of
          [] \<Rightarrow> liftR (Err (StatusErr Unauthenticated ''HMAC not provided''))
        | receivedHMAC # _ \<Rightarrow> (case marshal req of
            Err e \<Rightarrow> liftR (Err (StatusErr Internal (''failed to marshal request: '' @ error_text e)))
          | Crash c \<Rightarrow> liftR (Crash c)
          | Ok data \<Rightarrow>
              if receivedHMAC \<noteq> base64 (hmac hmacKey data)
              then liftR (Err (StatusErr Unauthenticated ''invalid HMAC''))
              else handler)))"

text \<open>The client side passes the request on with the metadata it computed.\<close>

definition HMACUnaryClientInterceptor ::
  "(bytes \<Rightarrow> bytes \<Rightarrow> bytes) \<Rightarrow> (eots_request \<Rightarrow> bytes go) \<Rightarrow> bytes \<Rightarrow> bytes \<Rightarrow> eots_request \<Rightarrow>
     metadata option \<Rightarrow> (metadata option \<Rightarrow> ('s, 'r) cmd) \<Rightarrow> ('s, 'r) cmd" where
  "HMACUnaryClientInterceptor hmac marshal hmacKey method req md invoker =
     (if hmac_exempt method then invoker md
      else if hmacKey = [] then invoker md
      else case wrap ''failed to marshal request: '' (marshal req) of
        Err e \<Rightarrow> liftR (Err e)
      | Crash c \<Rightarrow> liftR (Crash c)
      | Ok data \<Rightarrow>
          (let hmacValue = base64 (hmac hmacKey data);
               md = (case md of None \<Rightarrow> (\<lambda>_. []) | Some m \<Rightarrow> m) in
           invoker (Some (md(HMACHeaderKey := [hmacValue])))))"

definition AWSPrefix :: bytes where "AWSPrefix = ''arn:aws:secretsmanager:''"
definition GCPPrefix :: bytes where "GCPPrefix = ''projects/''"
definition AzurePrefix :: bytes where "AzurePrefix = ''https://''"

definition getAWSSecret :: "bytes \<Rightarrow> bytes go" where
  "getAWSSecret arn = Err (ErrText (''AWS Secrets Manager integration not implemented: '' @ arn))"

definition getGCPSecret :: "bytes \<Rightarrow> bytes go" where
  "getGCPSecret secretName = Err (ErrText (''google cloud secret Manager integration not implemented: '' @ secretName))"

definition getAzureSecret :: "bytes \<Rightarrow> bytes go" where
  "getAzureSecret secretName = Err (ErrText (''azure key vault integration not implemented: '' @ secretName))"

definition GetSecretValue :: "bytes \<Rightarrow> bytes go" where
  "GetSecretValue reference =
     (if reference = [] then Ok []
      else if prefix AWSPrefix reference then getAWSSecret reference
      else if prefix GCPPrefix reference \<and> contains reference ''/secrets/'' then getGCPSecret reference
      else if prefix AzurePrefix reference \<and> contains reference ''.vault.azure.net/secrets/''
      then getAzureSecret reference
      else Ok reference)"

definition ProcessHMACKey :: "bytes \<Rightarrow> bytes go" where
  "ProcessHMACKey hmacKey = (if hmacKey = [] then Ok [] else GetSecretValue hmacKey)"

text \<open>The key the client's interceptor is installed with (none for the empty key): an error of
  \<open>ProcessHMACKey\<close> leaves the key empty. The connection and the ping are arguments.\<close>

definition clientHMACKey :: "bytes \<Rightarrow> bytes" where
  "clientHMACKey hmacKey = (case ProcessHMACKey hmacKey of Ok k \<Rightarrow> k | _ \<Rightarrow> [])"

definition NewEOTSManagerGRPCClient :: "unit go \<Rightarrow> unit go \<Rightarrow> bytes \<Rightarrow> bytes \<Rightarrow> bytes go" where
  "NewEOTSManagerGRPCClient dialRes pingRes remoteAddr hmacKey =
     (let processedHmacKey = clientHMACKey hmacKey in
      rbind (wrap (''failed to build gRPC connection to '' @ remoteAddr @ '': '') dialRes) (\<lambda>_.
      rbind (wrap ''the EOTS manager server is not responding: ''
        (wrap ''failed to ping EOTS manager: '' pingRes)) (\<lambda>_. Ok processedHmacKey)))"

section \<open>Client stub\<close>

text \<open>\<open>call\<close> is the generated gRPC call of the method: the round trip to the server.\<close>

definition client_CreateRandomnessPairList ::
  "('fv, 'sg, 'pk) rpc_ext \<Rightarrow> (eots_request \<Rightarrow> ('s, bytes list) cmd) \<Rightarrow>
     bytes \<Rightarrow> bytes \<Rightarrow> u64 \<Rightarrow> u32 \<Rightarrow> RandomnessOption list \<Rightarrow> ('s, 'fv list) cmd" where
  "client_CreateRandomnessPairList w call uid chainID startHeight num options =
     (let cfg = fold applyOption options \<lparr>rc_Interval = None\<rparr> in
      sbind (wrapS ''failed to create randomness pair list: ''
        (call (CreateRandomnessPairListRequest uid chainID startHeight num (rc_Interval cfg)))) (\<lambda>res.
      liftR (Ok (map (fv_SetByteSlice w) res))))"

definition client_SaveEOTSKeyName ::
  "('fv, 'sg, 'pk) rpc_ext \<Rightarrow> (eots_request \<Rightarrow> ('s, unit) cmd) \<Rightarrow> 'pk \<Rightarrow> bytes \<Rightarrow> ('s, unit) cmd" where
  "client_SaveEOTSKeyName w call pk keyName =
     wrapS ''failed to save EOTS key name: ''
       (call (SaveEOTSKeyNameRequest keyName (pk_SerializeUncompressed w pk)))"

definition client_SignEOTS ::
  "('kr, 'sk, 'sc, 'fv, 'sg, 'pk) eots_ext \<Rightarrow> (eots_request \<Rightarrow> ('s, bytes) cmd) \<Rightarrow>
     bytes \<Rightarrow> bytes \<Rightarrow> bytes \<Rightarrow> u64 \<Rightarrow> ('s, 'sc) cmd" where
  "client_SignEOTS x call uid chaiID msg height =
     sbind (wrapS ''failed to sign EOTS: '' (call (SignEOTSRequest uid chaiID msg height))) (\<lambda>sig.
     liftR (Ok (fst (SetByteSlice x sig))))"

definition client_UnsafeSignEOTS ::
  "('kr, 'sk, 'sc, 'fv, 'sg, 'pk) eots_ext \<Rightarrow> (eots_request \<Rightarrow> ('s, bytes) cmd) \<Rightarrow>
     bytes \<Rightarrow> bytes \<Rightarrow> bytes \<Rightarrow> u64 \<Rightarrow> ('s, 'sc) cmd" where
  "client_UnsafeSignEOTS x call uid chaiID msg height =
     sbind (wrapS ''failed to unsafe sign EOTS: '' (call (SignEOTSRequest uid chaiID msg height))) (\<lambda>sig.
     liftR (Ok (fst (SetByteSlice x sig))))"

definition client_SignBatchEOTS ::
  "('kr, 'sk, 'sc, 'fv, 'sg, 'pk) eots_ext \<Rightarrow> (eots_request \<Rightarrow> ('s, (bytes \<times> u64) list) cmd) \<Rightarrow>
     SignBatchEOTSRequest \<Rightarrow> ('s, 'sc SignDataResponse list) cmd" where
  "client_SignBatchEOTS x call req =
     sbind (wrapS ''failed to sign batch EOTS: ''
       (call (pb_SignBatchEOTSRequest (rq_UID req) (rq_ChainID req)
         (map (\<lambda>r. \<lparr>rq_Msg = rq_Msg r, rq_Height = rq_Height r\<rparr>) (rq_SignRequest req))))) (\<lambda>res.
     liftR (Ok (map (\<lambda>(sig, h). \<lparr>rs_Signature = fst (SetByteSlice x sig), rs_Height = h\<rparr>) res)))"

definition client_SignSchnorrSig ::
  "('fv, 'sg, 'pk) rpc_ext \<Rightarrow> (eots_request \<Rightarrow> ('s, bytes) cmd) \<Rightarrow> bytes \<Rightarrow> bytes \<Rightarrow> ('s, 'sg) cmd" where
  "client_SignSchnorrSig w call uid msg =
     sbind (wrapS ''failed to sign Schnorr signature: '' (call (SignSchnorrSigRequest uid msg))) (\<lambda>res.
     liftR (wrap ''failed to parse Schnorr signature: '' (sg_Parse w res)))"

definition client_Unlock :: "(eots_request \<Rightarrow> ('s, unit) cmd) \<Rightarrow> bytes \<Rightarrow> bytes \<Rightarrow> ('s, unit) cmd" where
  "client_Unlock call uid passphrase =
     wrapS ''failed to unlock key: '' (call (UnlockKeyRequest uid passphrase))"

definition client_Backup :: "(eots_request \<Rightarrow> ('s, bytes) cmd) \<Rightarrow> bytes \<Rightarrow> bytes \<Rightarrow> ('s, bytes) cmd" where
  "client_Backup call dbPath backupDir =
     wrapS ''failed to backup: '' (call (BackupRequest dbPath backupDir))"

section \<open>Requests as steps of the manager\<close>

text \<open>What the service releases on the wire for a request, as in \<open>eots_step\<close>, with the unsafe
  endpoint included.\<close>

inductive rpc_step ::
  "('kr, 'sk, 'sc, 'fv, 'sg, 'pk) eots_ext \<Rightarrow> ('fv, 'sg, 'pk) rpc_ext \<Rightarrow> EotsConfig \<Rightarrow>
     ('kr, 'sk) LocalEOTSManager \<Rightarrow> ((bytes \<times> bytes \<times> u64) \<times> (bytes \<times> bytes)) list \<Rightarrow>
     ('kr, 'sk) LocalEOTSManager \<Rightarrow> bool"
  for x :: "('kr, 'sk, 'sc, 'fv, 'sg, 'pk) eots_ext" and w :: "('fv, 'sg, 'pk) rpc_ext" and cfg where
  rpc_sign: "rpc_SignEOTS x tx now uid c msg h s = (Ok b, s') \<Longrightarrow> rpc_step x w cfg s [((c, uid, h), (msg, b))] s'"
| rpc_sign_fails: "rpc_SignEOTS x tx now uid c msg h s = (r, s') \<Longrightarrow> (\<And>b. r \<noteq> Ok b) \<Longrightarrow> rpc_step x w cfg s [] s'"
| rpc_unsafe: "rpc_UnsafeSignEOTS x cfg flt uid c msg h s = (Ok b, s') \<Longrightarrow>
    rpc_step x w cfg s [((c, uid, h), (msg, b))] s'"
| rpc_unsafe_fails: "rpc_UnsafeSignEOTS x cfg flt uid c msg h s = (r, s') \<Longrightarrow> (\<And>b. r \<noteq> Ok b) \<Longrightarrow>
    rpc_step x w cfg s [] s'"
| rpc_batch: "rpc_SignBatchEOTS x tx now uid c reqs s = (Ok resp, s') \<Longrightarrow>
    rpc_step x w cfg s [((c, uid, h), (rq_Msg q, b)). (b, h) \<leftarrow> resp, q \<leftarrow> reqs, rq_Height q = h] s'"
| rpc_batch_fails: "rpc_SignBatchEOTS x tx now uid c reqs s = (r, s') \<Longrightarrow> (\<And>resp. r \<noteq> Ok resp) \<Longrightarrow>
    rpc_step x w cfg s [] s'"
| rpc_rand: "rpc_CreateRandomnessPairList x w flt uid c h n iv s = (r, s') \<Longrightarrow> rpc_step x w cfg s [] s'"
| rpc_schnorr: "rpc_SignSchnorrSig x w flt uid msg s = (r, s') \<Longrightarrow> rpc_step x w cfg s [] s'"
| rpc_save: "rpc_SaveEOTSKeyName x flt name pk s = (r, s') \<Longrightarrow> rpc_step x w cfg s [] s'"
| rpc_unlock: "rpc_UnlockKey x flt uid pass s = (r, s') \<Longrightarrow> rpc_step x w cfg s [] s'"
| rpc_restart: "NewLocalEOTSManager keyringNew flt home backend (lm_es s) = Ok s' \<Longrightarrow> rpc_step x w cfg s [] s'"

lemma snd_sbind_liftR [simp]: "snd (sbind m (\<lambda>a. liftR (f a)) s) = snd (m s)"
  by (cases "m s"; cases "fst (m s)") (auto simp: sbind_def liftR_def)

lemma snd_signError [simp]: "snd (signError p m s) = snd (m s)"
  by (cases "m s"; cases "fst (m s)") (auto simp: signError_def)

lemma signError_eq_Ok [go_simps]: "signError p m s = (Ok a, s') \<longleftrightarrow> m s = (Ok a, s')"
  by (auto simp: signError_def split: prod.splits go.splits)

lemma signError_not_Ok: "\<forall>a. fst (signError p m s) \<noteq> Ok a \<Longrightarrow> \<forall>a. fst (m s) \<noteq> Ok a"
  by (cases "m s"; cases "fst (m s)") (auto simp: signError_def)

definition wire :: "('kr, 'sk, 'sc, 'fv, 'sg, 'pk) eots_ext \<Rightarrow> 'k \<times> (bytes \<times> 'sc) \<Rightarrow> 'k \<times> (bytes \<times> bytes)" where
  "wire x = (\<lambda>(k, (msg, sig)). (k, (msg, sc_Bytes x sig)))"

text \<open>The pieces of the simulation: each handler is the manager's operation on the same state.\<close>

lemma rpc_SignEOTS_step:
  assumes "rpc_SignEOTS x tx now uid c msg h s = (r, s')"
  shows "\<exists>es. eots_step x s es s' \<and> map (wire x) es = (case r of Ok b \<Rightarrow> [((c, uid, h), (msg, b))] | _ \<Rightarrow> [])"
proof (cases "SignEOTS x tx now uid c msg h s")
  case (Pair q t)
  then have "s' = t" using assms
    by (auto simp: rpc_SignEOTS_def sbind_def signError_def liftR_def split: go.splits)
  with Pair assms show ?thesis
    by (cases q)
       (auto 4 4 simp: rpc_SignEOTS_def sbind_def signError_def liftR_def wire_def
         intro: eots_step.sign eots_step.sign_fails)
qed

lemma rpc_SignBatchEOTS_step:
  assumes "rpc_SignBatchEOTS x tx now uid c reqs s = (r, s')"
  shows "s' = s \<and> (\<forall>a. r \<noteq> Ok a) \<or>
    (\<exists>es. eots_step x s es s' \<and> map (wire x) es = (case r of
      Ok resp \<Rightarrow> [((c, uid, h), (rq_Msg q, b)). (b, h) \<leftarrow> resp, q \<leftarrow> reqs, rq_Height q = h] | _ \<Rightarrow> []))"
proof (cases "ValidateNoDuplicateHeights (map rq_Height reqs)")
  case (Ok u)
  let ?req = "\<lparr>rq_UID = uid, rq_ChainID = c, rq_SignRequest = reqs\<rparr>"
  have reqs: "map (\<lambda>r. \<lparr>rq_Msg = rq_Msg r, rq_Height = rq_Height r\<rparr>) reqs = reqs" by (simp add: map_idI)
  obtain q t where run: "SignBatchEOTS x tx now ?req s = (q, t)" by (cases "SignBatchEOTS x tx now ?req s")
  show ?thesis
  proof (cases q)
    case (Ok resp)
    have "map (wire x) (releasedBatch ?req resp) =
      [((c, uid, h), (rq_Msg q, b)). (b, h) \<leftarrow> map (\<lambda>p. (sc_Bytes x (rs_Signature p), rs_Height p)) resp,
         q \<leftarrow> reqs, rq_Height q = h]"
      by (simp add: releasedBatch_def wire_def map_concat comp_def if_distrib [of "map _"] cong: if_cong)
    then show ?thesis
      using assms run Ok \<open>ValidateNoDuplicateHeights (map rq_Height reqs) = Ok u\<close> reqs
      by (auto simp: rpc_SignBatchEOTS_def sbind_def signError_def liftR_def intro!: eots_step.batch)
  qed (use assms run \<open>ValidateNoDuplicateHeights (map rq_Height reqs) = Ok u\<close> reqs in
      \<open>auto simp: rpc_SignBatchEOTS_def sbind_def signError_def liftR_def intro!: exI [of _ "[]"]
        intro: eots_step.batch_fails\<close>)
qed (use assms in \<open>auto simp: rpc_SignBatchEOTS_def liftR_def\<close>)

text \<open>The other handlers release nothing.\<close>

lemma step_of_state:
  "(\<And>r t. m s = (r, t) \<Longrightarrow> eots_step x s [] t) \<Longrightarrow> snd (m s) = s' \<Longrightarrow> eots_step x s [] s'"
  by (cases "m s") auto

lemma rpc_quiet_step:
  "rpc_CreateRandomnessPairList x w flt uid c h n iv s = (r1, s') \<Longrightarrow> eots_step x s [] s'"
  "rpc_SignSchnorrSig x w flt uid msg s = (r2, s') \<Longrightarrow> eots_step x s [] s'"
  "rpc_UnlockKey x flt uid pass s = (r3, s') \<Longrightarrow> eots_step x s [] s'"
  "rpc_SaveEOTSKeyName x flt name pk s = (r4, s') \<Longrightarrow> s' = s \<or> eots_step x s [] s'"
proof -
  assume "rpc_CreateRandomnessPairList x w flt uid c h n iv s = (r1, s')"
  from arg_cong [OF this, of snd] show "eots_step x s [] s'"
    unfolding rpc_CreateRandomnessPairList_def Let_def snd_sbind_liftR snd_wrapS
    by (intro step_of_state [OF eots_step.rand]) auto
next
  assume "rpc_SignSchnorrSig x w flt uid msg s = (r2, s')"
  from arg_cong [OF this, of snd] show "eots_step x s [] s'"
    unfolding rpc_SignSchnorrSig_def snd_sbind_liftR snd_wrapS
    by (intro step_of_state [OF eots_step.schnorr]) auto
next
  assume "rpc_UnlockKey x flt uid pass s = (r3, s')"
  from arg_cong [OF this, of snd] show "eots_step x s [] s'"
    unfolding rpc_UnlockKey_def snd_wrapS
    by (intro step_of_state [OF eots_step.unlock]) auto
next
  assume run: "rpc_SaveEOTSKeyName x flt name pk s = (r4, s')"
  show "s' = s \<or> eots_step x s [] s'"
  proof (cases "ParsePubKey x pk")
    case (Ok key)
    with arg_cong [OF run, of snd] have "snd (SaveEOTSKeyName x flt key name s) = s'"
      by (simp add: rpc_SaveEOTSKeyName_def sbind_def liftR_def)
    then show ?thesis by (intro disjI2 step_of_state [OF eots_step.save_name])
  qed (use run in \<open>simp_all add: rpc_SaveEOTSKeyName_def sbind_def liftR_def\<close>)
qed

lemma rpc_step_simulated:
  assumes "rpc_step x w cfg s es t" and "IsUnsafeEndpointsDisabled cfg"
  shows "(t = s \<and> es = []) \<or> (\<exists>fs. eots_step x s fs t \<and> map (wire x) fs = es)"
  using assms
proof (induction rule: rpc_step.induct)
  case (rpc_sign tx now uid c msg h s b s')
  from rpc_SignEOTS_step [OF this(1)] show ?case by auto
next
  case (rpc_sign_fails tx now uid c msg h s r s')
  from rpc_SignEOTS_step [OF this(1)] this(2) show ?case by (cases r) auto
next
  case (rpc_batch tx now uid c reqs s resp s')
  from rpc_SignBatchEOTS_step [OF this(1)] show ?case by auto
next
  case (rpc_batch_fails tx now uid c reqs s r s')
  from rpc_SignBatchEOTS_step [OF this(1)] this(2) show ?case by (cases r) auto
next
  case (rpc_rand flt uid c h n iv s r s')
  then have "eots_step x s [] s'" by (intro rpc_quiet_step(1))
  then show ?case by blast
next
  case (rpc_schnorr flt uid msg s r s')
  then have "eots_step x s [] s'" by (intro rpc_quiet_step(2))
  then show ?case by blast
next
  case (rpc_save flt name pk s r s')
  then have "s' = s \<or> eots_step x s [] s'" by (intro rpc_quiet_step(4))
  then show ?case by auto
next
  case (rpc_unlock flt uid pass s r s')
  then have "eots_step x s [] s'" by (intro rpc_quiet_step(3))
  then show ?case by blast
next
  case (rpc_restart kn flt home be s s')
  from eots_step.restart [OF this(1)] have "eots_step x s [] s'" .
  then show ?case by blast
qed (auto simp: rpc_UnsafeSignEOTS_def liftR_def)

lemma rpc_trace_simulated:
  "trace (rpc_step x w cfg) s es t \<Longrightarrow> IsUnsafeEndpointsDisabled cfg \<Longrightarrow>
    \<exists>fs. trace (eots_step x) s fs t \<and> map (wire x) fs = es"
proof (induction rule: trace.induct)
  case (trace_nil s)
  then show ?case by (auto intro: trace.trace_nil)
next
  case (trace_snoc s es t fs u)
  then obtain es' where IH: "trace (eots_step x) s es' t" "map (wire x) es' = es" by blast
  from rpc_step_simulated [OF trace_snoc.hyps(2) trace_snoc.prems] show ?case
  proof
    assume "u = t \<and> fs = []"
    with IH show ?thesis by auto
  next
    assume "\<exists>gs. eots_step x t gs u \<and> map (wire x) gs = fs"
    then obtain gs where gs: "eots_step x t gs u" "map (wire x) gs = fs" by blast
    from trace.trace_snoc [of "eots_step x", OF IH(1) gs(1)] IH(2) gs(2) show ?thesis
      by (intro exI [of _ "es' @ gs"]) simp
  qed
qed

section \<open>Properties\<close>

text \<open>C7. The service does not double sign. While the unsafe endpoint is disabled, which is the
  default, two signatures sent out for the same chain, key and height over any sequence of requests
  are signatures of the same message with the same bytes.\<close>

theorem rpc_no_double_sign:
  assumes "eots_codec x" and "wf_store x (lm_es s)" and "IsUnsafeEndpointsDisabled cfg"
    and "trace (rpc_step x w cfg) s events t"
    and "((c, uid, h), (msg, b)) \<in> set events" and "((c, uid, h), (msg', b')) \<in> set events"
  shows "msg = msg' \<and> b = b'"
proof -
  obtain fs where fs: "trace (eots_step x) s fs t" "map (wire x) fs = events"
    using rpc_trace_simulated [OF assms(4,3)] by blast
  from assms(5,6) fs(2) obtain sig sig' where
    "((c, uid, h), (msg, sig)) \<in> set fs" "b = sc_Bytes x sig"
    "((c, uid, h), (msg', sig')) \<in> set fs" "b' = sc_Bytes x sig'"
    by (auto simp: wire_def)
  with eots_codec.no_double_sign [OF assms(1) fs(1) assms(2)] show ?thesis by blast
qed

definition demo_rpc :: "(bytes, bytes, bytes) rpc_ext" where
  "demo_rpc = \<lparr>fv_Bytes = (\<lambda>b. b), fv_SetByteSlice = (\<lambda>b. b), sg_Serialize = (\<lambda>b. b), sg_Parse = Ok,
     pk_SerializeUncompressed = (\<lambda>b. b), req_Marshal = (\<lambda>_. Ok ''req'')\<rparr>"

definition demo_cfg :: EotsConfig where
  "demo_cfg = \<lparr>ec_LogLevel = [], ec_KeyringBackend = BackendFile, ec_RPCListener = [], ec_HMACKey = ''key'',
     ec_DisableUnsafeEndpoints = None, ec_Metrics = None, ec_GRPCMaxContentLength = 1, ec_DatabaseConfig = None\<rparr>"

theorem rpc_no_double_sign_witness:
  "\<exists>events t. trace (rpc_step demo_ext demo_rpc demo_cfg) demo_lm events t \<and> events \<noteq> [] \<and>
     (\<forall>m b m' b'. ((''c'', ''k'', 7), (m, b)) \<in> set events \<longrightarrow>
        ((''c'', ''k'', 7), (m', b')) \<in> set events \<longrightarrow> m = m' \<and> b = b')"
proof -
  obtain sig s' where "SignEOTS demo_ext (\<lambda>_. NoFault) 1 ''k'' ''c'' ''m'' 7 demo_lm = (Ok sig, s')"
    using demo_sign [of 1 "''c''" "''m''" 7] by blast
  then have "rpc_SignEOTS demo_ext (\<lambda>_. NoFault) 1 ''k'' ''c'' ''m'' 7 demo_lm = (Ok (sc_Bytes demo_ext sig), s')"
    by (simp add: rpc_SignEOTS_def sbind_def signError_def liftR_def)
  then have t: "trace (rpc_step demo_ext demo_rpc demo_cfg) demo_lm
    ([] @ [((''c'', ''k'', 7), (''m'', sc_Bytes demo_ext sig))]) s'"
    by (blast intro: trace_nil trace_snoc rpc_sign)
  have "IsUnsafeEndpointsDisabled demo_cfg" by (simp add: IsUnsafeEndpointsDisabled_def demo_cfg_def)
  from rpc_no_double_sign [OF demo.eots_codec_axioms wf_demo_lm this t] t show ?thesis by blast
qed

text \<open>C8. Request authentication. A request sent by a client with the server's key reaches the
  handler; with a key configured, a request for a method that is not exempt whose metadata is missing
  or whose authenticator differs is refused without running the handler.\<close>

theorem hmac_accepts_and_rejects:
  "(marshal req = Ok data \<longrightarrow>
      HMACUnaryClientInterceptor hmac marshal key method req md
        (\<lambda>md'. HMACUnaryServerInterceptor hmac marshal key method req md' handler) = handler) \<and>
   (key \<noteq> [] \<and> \<not> hmac_exempt method \<and> marshal req = Ok data \<and>
      (\<forall>m v vs. md = Some m \<and> m HMACHeaderKey = v # vs \<longrightarrow> v \<noteq> base64 (hmac key data)) \<longrightarrow>
      (\<exists>reason. HMACUnaryServerInterceptor hmac marshal key method req md handler s =
         (Err (StatusErr Unauthenticated reason), s)))"
  by (auto simp: HMACUnaryClientInterceptor_def HMACUnaryServerInterceptor_def Let_def liftR_def
      split: option.splits list.splits)

theorem hmac_accepts_and_rejects_witness:
  "\<exists>reason. HMACUnaryServerInterceptor (\<lambda>k m. k @ m) (req_Marshal demo_rpc) ''key''
     ''/proto.EOTSManager/SignEOTS'' (SignEOTSRequest ''k'' ''c'' ''m'' 7) (Some (\<lambda>_. [''forged'']))
     (liftR (Ok ''sig'')) (0 :: nat) = (Err (StatusErr Unauthenticated reason), 0)"
  using hmac_accepts_and_rejects [of "req_Marshal demo_rpc" "SignEOTSRequest ''k'' ''c'' ''m'' 7" "''req''"
      "\<lambda>k m. k @ m" "''key''" "''/proto.EOTSManager/SignEOTS''" "Some (\<lambda>_. [''forged''])" "liftR (Ok ''sig'')" "0 :: nat"]
  by (simp add: demo_rpc_def hmac_exempt_def b64_char_def Let_def)

text \<open>C39. The authenticator covers the request but not the method. A client with the server's key asks for a signature with
  \<^verbatim>\<open>SignEOTS\<close>, for a height that has a record of another message. Delivered as sent, the request is refused as
  a double sign. Delivered as \<^verbatim>\<open>UnsafeSignEOTS\<close>, with the metadata the client made for \<^verbatim>\<open>SignEOTS\<close>, it passes the
  authentication, and where the unsafe endpoint is enabled the second signature for the height is returned.\<close>

theorem hmac_does_not_bind_method:
  fixes x :: "('kr, 'sk, 'sc, 'fv, 'sg, 'pk) eots_ext" and hmac marshal cfg uid c msg h
  defines "asked \<equiv> SignEOTSRequest uid c msg h"
  defines "delivered \<equiv> \<lambda>method handler.
     HMACUnaryClientInterceptor hmac marshal (ec_HMACKey cfg) ''/proto.EOTSManager/SignEOTS'' asked None
       (\<lambda>md. HMACUnaryServerInterceptor hmac marshal (ec_HMACKey cfg) method asked md handler)
       :: (('kr, 'sk) LocalEOTSManager, bytes) cmd"
  assumes "wf_store x (lm_es s)" and "signRecords x (lm_es s) c uid h = Some r" and "msg \<noteq> SR_Msg r"
    and "marshal asked = Ok data" and "\<not> IsUnsafeEndpointsDisabled cfg"
    and "getEOTSPrivKey x flt uid s = (Ok sk, s')" and "getRandomnessPair x sk c h = Ok (pr, fv)" and "eots_Sign x sk pr msg = Ok sig"
  shows "(\<exists>text. delivered ''/proto.EOTSManager/SignEOTS'' (rpc_SignEOTS x (\<lambda>_. NoFault) now uid c msg h) s =
      (Err (StatusErr FailedPrecondition text), s)) \<and>
    delivered ''/proto.EOTSManager/UnsafeSignEOTS'' (rpc_UnsafeSignEOTS x cfg flt uid c msg h) s = (Ok (sc_Bytes x sig), s')"
proof -
  have accepted: "delivered mth hdl = hdl"
    if "mth \<in> {''/proto.EOTSManager/SignEOTS'', ''/proto.EOTSManager/UnsafeSignEOTS''}" for mth hdl
    using assms(6) that unfolding delivered_def
    by (auto simp: HMACUnaryClientInterceptor_def HMACUnaryServerInterceptor_def hmac_exempt_def Let_def)
  have "rpc_SignEOTS x (\<lambda>_. NoFault) now uid c msg h s = (Err (StatusErr FailedPrecondition (error_text (Sentinel ErrDoubleSign))), s)"
    using SignEOTS_existing [OF assms(3,4), of now msg] assms(5) by (simp add: rpc_SignEOTS_def signError_def sbind_def)
  moreover have "rpc_UnsafeSignEOTS x cfg flt uid c msg h s = (Ok (sc_Bytes x sig), s')"
    using assms(7-10) by (simp add: rpc_UnsafeSignEOTS_def UnsafeSignEOTS_def sbind_def wrapS_def liftR_def)
  ultimately show ?thesis by (simp add: accepted)
qed

theorem hmac_does_not_bind_method_witness:
  "\<exists>s sig s'. wf_store demo_ext (lm_es s) \<and> signRecords demo_ext (lm_es s) ''c'' ''k'' 7 \<noteq> None \<and>
     HMACUnaryClientInterceptor (\<lambda>k m. k @ m) (req_Marshal demo_rpc) ''key'' ''/proto.EOTSManager/SignEOTS'' (SignEOTSRequest ''k'' ''c'' ''n'' 7) None
       (\<lambda>md. HMACUnaryServerInterceptor (\<lambda>k m. k @ m) (req_Marshal demo_rpc) ''key'' ''/proto.EOTSManager/UnsafeSignEOTS''
         (SignEOTSRequest ''k'' ''c'' ''n'' 7) md
         (rpc_UnsafeSignEOTS demo_ext (demo_cfg\<lparr>ec_DisableUnsafeEndpoints := Some False\<rparr>) NoFault ''k'' ''c'' ''n'' 7)) s = (Ok sig, s')"
proof -
  let ?cfg = "demo_cfg\<lparr>ec_DisableUnsafeEndpoints := Some False\<rparr>"
  have fb: "kr_Backend demo_ext (lm_kr demo_lm) = BackendFile" and sign: "eots_Sign demo_ext ''k'' r m = Ok (''k'' @ r @ m)" for r m
    by (simp_all add: demo_ext_def demo_lm_def)
  have same: "sameKeys demo_lm demo_lm" by (simp add: sameKeys_def)
  obtain db where wf: "wf_store demo_ext (lm_es (demo_lm\<lparr>lm_es := db\<rparr>))" and same': "sameKeys demo_lm (demo_lm\<lparr>lm_es := db\<rparr>)"
    and rec: "\<exists>sg. signRecords demo_ext (lm_es (demo_lm\<lparr>lm_es := db\<rparr>)) ''c'' ''k'' 7 = Some \<lparr>SR_Msg = ''m'', SR_Signature = sg, SR_Timestamp = 1\<rparr>"
    by (rule demo.sign_new_sameKeys [OF fb demo_key same wf_demo_lm demo_lm_none [of _ "''c''" _ 7] demo_rand sign [of _ "''m''"], where now = 1])
       (simp add: signRecords_def)
  from rec obtain sg where rec: "signRecords demo_ext (lm_es (demo_lm\<lparr>lm_es := db\<rparr>)) ''c'' ''k'' 7 =
      Some \<lparr>SR_Msg = ''m'', SR_Signature = sg, SR_Timestamp = 1\<rparr>" by blast
  have key: "getEOTSPrivKey demo_ext NoFault ''k'' (demo_lm\<lparr>lm_es := db\<rparr>) = (Ok ''k'', demo_lm\<lparr>lm_es := db\<rparr>)"
    using verifiedPrivKey_sameKeys [OF fb same' demo_key [of "[]"]] by (simp add: verifiedPrivKey_wrap_iff)
  have "req_Marshal demo_rpc (SignEOTSRequest ''k'' ''c'' ''n'' 7) = Ok ''req''" "\<not> IsUnsafeEndpointsDisabled ?cfg"
    "ec_HMACKey ?cfg = ''key''"
    by (simp_all add: demo_rpc_def IsUnsafeEndpointsDisabled_def demo_cfg_def)
  with hmac_does_not_bind_method [OF wf rec _ _ _ key demo_rand sign, where cfg = ?cfg and msg = "''n''" and marshal = "req_Marshal demo_rpc"
      and data = "''req''" and hmac = "\<lambda>k m. k @ m"] wf rec
  show ?thesis by fastforce
qed

lemma CreateRandomnessPairList_cong:
  "intervalOf os = intervalOf os' \<Longrightarrow>
    CreateRandomnessPairList x flt pk c h n os = CreateRandomnessPairList x flt pk c h n os'"
  by (simp add: CreateRandomnessPairList_def intervalOf_def Let_def)

text \<open>The remote manager agrees with the local one on randomness lists for every interval except
  zero: through client and server an interval of zero is treated as no interval and answered with
  consecutive heights, while the local manager refuses it.\<close>

theorem remote_randomness_equivalent:
  assumes "\<And>v. fv_SetByteSlice w (fv_Bytes w v) = v"
    and "\<And>u c h n i. call (CreateRandomnessPairListRequest u c h n i) = rpc_CreateRandomnessPairList x w flt u c h n i"
    and "client_CreateRandomnessPairList w call uid c start num opts s = (Ok prs, s')"
  shows "CreateRandomnessPairList x flt uid c start num
    (if intervalOf opts = Some 0 then [] else opts) s = (Ok prs, s')"
proof -
  let ?opts = "case intervalOf opts of Some i \<Rightarrow> if i > 0 then [WithInterval i] else [] | None \<Rightarrow> []"
  from assms(3) obtain prs' where run: "CreateRandomnessPairList x flt uid c start num ?opts s = (Ok prs', s')"
    and "prs = map (fv_SetByteSlice w) (map (fv_Bytes w) prs')"
    by (auto simp: client_CreateRandomnessPairList_def rpc_CreateRandomnessPairList_def assms(2) Let_def
        go_simps intervalOf_def)
  from this(2) have prs: "prs = prs'" by (simp add: assms(1) map_idI)
  have "intervalOf ?opts = intervalOf (if intervalOf opts = Some 0 then [] else opts)"
    by (auto simp: intervalOf_def applyOption_def word_gt_0 split: option.splits)
  from CreateRandomnessPairList_cong [OF this, of x flt uid c start num] show ?thesis
    using run unfolding prs by (simp only:)
qed

theorem remote_randomness_equivalent_witness:
  "\<exists>prs. client_CreateRandomnessPairList demo_rpc (\<lambda>req. case req of
       CreateRandomnessPairListRequest u c h n i \<Rightarrow> rpc_CreateRandomnessPairList demo_ext demo_rpc NoFault u c h n i
     | _ \<Rightarrow> liftR (Err not_open)) ''k'' ''c'' 7 1 [WithInterval 0] demo_lm = (Ok prs, demo_lm) \<and>
     CreateRandomnessPairList demo_ext NoFault ''k'' ''c'' 7 1 [] demo_lm = (Ok prs, demo_lm)"
proof -
  let ?call = "\<lambda>req. case req of
       CreateRandomnessPairListRequest u c h n i \<Rightarrow> rpc_CreateRandomnessPairList demo_ext demo_rpc NoFault u c h n i
     | _ \<Rightarrow> liftR (Err not_open)"
  have key: "getEOTSPrivKey demo_ext NoFault ''k'' demo_lm = (Ok ''k'', demo_lm)"
    using demo_key [of "[]"] by (simp add: verifiedPrivKey_wrap_iff)
  obtain prs where run: "client_CreateRandomnessPairList demo_rpc ?call ''k'' ''c'' 7 1 [WithInterval 0] demo_lm = (Ok prs, demo_lm)"
    using key by (simp add: client_CreateRandomnessPairList_def rpc_CreateRandomnessPairList_def
        CreateRandomnessPairList_def Let_def sbind_def wrapS_def liftR_def demo_rand applyOption_def)
  with remote_randomness_equivalent [of demo_rpc ?call demo_ext NoFault, OF _ _ run] show ?thesis
    by (auto simp: demo_rpc_def intervalOf_def applyOption_def)
qed

text \<open>A reference to a cloud secret never yields a key: the client then sends no authenticator.\<close>

lemma clientHMACKey_cloud: "prefix AWSPrefix k \<Longrightarrow> clientHMACKey k = []"
  by (auto simp: clientHMACKey_def ProcessHMACKey_def GetSecretValue_def getAWSSecret_def)

text \<open>A validated configuration names a backend for which private keys are never nil.\<close>

lemma EotsConfig_Validate_backend:
  "EotsConfig_Validate resolve parseIP cfg = Ok u \<Longrightarrow> ec_KeyringBackend cfg \<in> {BackendTest, BackendFile}"
  by (auto simp: EotsConfig_Validate_def go_simps split: if_splits option.splits go.splits)

lemma eotsPrivKeyFromKeyName_not_nil:
  assumes "kr_Backend x (lm_kr s) \<in> {BackendTest, BackendFile}"
  shows "fst (eotsPrivKeyFromKeyName x name s) \<noteq> Ok None"
proof (cases "getKeyFromKeyring x name [] s")
  case (Pair r t)
  with assms show ?thesis
    by (cases r) (auto simp: eotsPrivKeyFromKeyName_def BackendTest_def BackendFile_def rbind_eq_Ok
        sbind_def liftR_def)
qed

end
