(* ===== verification/Eots_Tools.thy ===== *)
theory Eots_Tools
  imports Eots_Rpc
begin

text \<open>
  Two commands of the EOTS daemon that write to its database: recording the name of a key that was added or imported
  (\<^verbatim>\<open>saveKeyNameMapping\<close> in \<^verbatim>\<open>eotsd/daemon/keys.go\<close>) and rolling back the signing history (\<^verbatim>\<open>rollbackSignStore\<close> in
  \<^verbatim>\<open>eotsd/daemon/store.go\<close>). Flags, the configuration file and the connection are arguments; a command that runs beside
  the daemon changes the database, one that calls the daemon changes the state of the server.
\<close>

section \<open>The name of a key\<close>

text \<open>The command has a keyring of its own; looking up a key does not read the store.\<close>

definition ctxKey :: "('kr, 'sk, 'sc, 'fv, 'sg, 'pk) eots_ext \<Rightarrow> 'kr \<Rightarrow> bytes \<Rightarrow> bytes \<Rightarrow> bytes go" where
  "ctxKey x kr input keyName = wrap (''failed to get public key for key '' @ keyName @ '': '')
     (fst (LoadBIP340PubKeyFromKeyName x keyName (\<lparr>lm_kr = kr, lm_es = \<lparr>kv_open = False, kv_buckets = Map.empty\<rparr>, lm_input = input,
       lm_privateKeys = Map.empty\<rparr> :: ('kr, 'sk) LocalEOTSManager)))"

definition saveRemote ::
  "('kr, 'sk, 'sc, 'fv, 'sg, 'pk) eots_ext \<Rightarrow> ('fv, 'sg, 'pk) rpc_ext \<Rightarrow> unit go \<Rightarrow> (eots_request \<Rightarrow> ('s, unit) cmd) \<Rightarrow> 'kr \<Rightarrow> bytes \<Rightarrow> bytes \<Rightarrow>
     ('s, bytes) cmd" where
  "saveRemote x w dial call kr input keyName =
     sbind (liftR (wrap ''failed to create eots client: '' dial)) (\<lambda>_.
     sbind (liftR (ctxKey x kr input keyName)) (\<lambda>eotsPk.
     sbind (liftR (must (ToBTCPK x eotsPk))) (\<lambda>pk.
     \<lambda>s. case client_SaveEOTSKeyName w call pk keyName s of
         (Ok _, s') \<Rightarrow> (Ok eotsPk, s')
       | (Err e, s') \<Rightarrow> (if error_is e ErrDuplicateEOTSKeyName then Ok eotsPk else Err (Wrapf ''failed to save key name mapping: '' e), s')
       | (Crash c, s') \<Rightarrow> (Crash c, s'))))"

definition saveInManager ::
  "('kr, 'sk, 'sc, 'fv, 'sg, 'pk) eots_ext \<Rightarrow> dbfault \<Rightarrow> 'kr \<Rightarrow> bytes \<Rightarrow> bytes \<Rightarrow> (('kr, 'sk) LocalEOTSManager, bytes) cmd" where
  "saveInManager x flt kr input keyName =
     sbind (liftR (ctxKey x kr input keyName)) (\<lambda>eotsPk.
     sbind (liftR (must (ToBTCPK x eotsPk))) (\<lambda>pk.
     \<lambda>lm. case SaveEOTSKeyName x flt pk keyName lm of
         (Ok _, lm') \<Rightarrow> (Ok eotsPk, lm')
       | (Err e, lm') \<Rightarrow>
           (if error_is e ErrDuplicateEOTSKeyName then Ok eotsPk
            else if error_is e ErrDuplicateEOTSKeyRecord
            then Err (ErrText (''key name '' @ keyName @ '' already exists in the database for a different eotsPK. '' @
                   ''Delete this key from the keyring and save it under a different name''))
            else Err (Wrapf ''failed to save key name mapping: '' e), lm')
       | (Crash c, lm') \<Rightarrow> (Crash c, lm')))"

text \<open>Opening the store creates its buckets, also when the keyring of the manager then cannot be opened.\<close>

definition saveLocal ::
  "('kr, 'sk, 'sc, 'fv, 'sg, 'pk) eots_ext \<Rightarrow> (bytes \<Rightarrow> bytes \<Rightarrow> 'kr go) \<Rightarrow> (nat \<Rightarrow> dbfault) \<Rightarrow> unit go \<Rightarrow> bytes \<Rightarrow> 'kr \<Rightarrow> bytes \<Rightarrow> bytes \<Rightarrow>
     (kvdb, bytes) cmd" where
  "saveLocal x keyringNew flt dbBackend home kr input keyName =
     sbind (liftR (wrap ''failed to create db backend: '' dbBackend)) (\<lambda>_ db.
       case (NewLocalEOTSManager keyringNew (flt 0) home (kr_Backend x kr) db :: ('kr, 'sk) LocalEOTSManager go) of
         Ok lm \<Rightarrow> (case saveInManager x (flt 1) kr input keyName lm of (r, lm') \<Rightarrow> (r, lm_es lm'))
       | Err e \<Rightarrow> (Err (Wrapf ''failed to create EOTS manager: '' e), snd (initBuckets (flt 0) db))
       | Crash c \<Rightarrow> (Crash c, snd (initBuckets (flt 0) db)))"

definition saveKeyNameMapping ::
  "('kr, 'sk, 'sc, 'fv, 'sg, 'pk) eots_ext \<Rightarrow> ('fv, 'sg, 'pk) rpc_ext \<Rightarrow> (bytes \<Rightarrow> bytes \<Rightarrow> 'kr go) \<Rightarrow> (nat \<Rightarrow> dbfault) \<Rightarrow> unit go \<Rightarrow> unit go \<Rightarrow> unit go \<Rightarrow>
     (eots_request \<Rightarrow> ('s, unit) cmd) \<Rightarrow> string \<Rightarrow> bytes \<Rightarrow> 'kr \<Rightarrow> bytes \<Rightarrow> bytes \<Rightarrow> (kvdb \<times> 's, bytes) cmd" where
  "saveKeyNameMapping x w keyringNew flt cfg dial dbBackend call rpcListener home kr input keyName =
     sbind (liftR (wrap ''failed to load config: '' cfg)) (\<lambda>_ (db, s).
       if 0 < length rpcListener
       then (case saveRemote x w dial call kr input keyName s of (r, s') \<Rightarrow> (r, (db, s')))
       else (case saveLocal x keyringNew flt dbBackend home kr input keyName db of (r, db') \<Rightarrow> (r, (db', s))))"

section \<open>Rolling back the signing history\<close>

definition rollbackSignStore ::
  "'z store_ext_scheme \<Rightarrow> (string \<Rightarrow> bytes go) \<Rightarrow> (bytes \<Rightarrow> bytes go) \<Rightarrow> (nat \<Rightarrow> dbfault) \<Rightarrow> string \<Rightarrow> unit go \<Rightarrow> unit go \<Rightarrow> u64 \<Rightarrow> string \<Rightarrow> string \<Rightarrow>
     (kvdb, unit) cmd" where
  "rollbackSignStore x fromHex marshal flt home cfg dbBackend height eotsFpPubKeyStr chainID =
     (if height = 0 then liftR (Err (ErrText ''rollback-until-height flag is required''))
      else if length chainID = 0 then liftR (Err (ErrText ''flag chain-id is required''))
      else
        sbind (liftR (wrap (''failed to load config at '' @ home @ '': '') cfg)) (\<lambda>_.
        sbind (liftR (wrap ''failed to create db backend: '' dbBackend)) (\<lambda>_.
        sbind (wrapS ''failed to create eots store: '' (initBuckets (flt 0))) (\<lambda>_.
        sbind (liftR (wrap (''invalid finality-provider public key '' @ eotsFpPubKeyStr @ '': '') (fromHex eotsFpPubKeyStr))) (\<lambda>fpPk.
        sbind (liftR (must (marshal fpPk))) (\<lambda>pkBytes.
        wrapS ''failed to delete sign store records: ''
          (DeleteSignRecordsFromHeight x (flt 1) (Some pkBytes) (Some chainID) height)))))))"

section \<open>Properties\<close>

lemma AddEOTSKeyName_taken:
  assumes "wf_store y db" and "keyNameOf db (ser pk) = Some n" and "name \<noteq> []"
  shows "AddEOTSKeyName ser NoFault pk name db = (Err (Wrapf ''failed to add EOTS key name: ''
    (Sentinel (if n = name then ErrDuplicateEOTSKeyRecord else ErrDuplicateEOTSKeyName))), db)"
proof -
  from assms(1) obtain kb where "kv_open db" "kv_buckets db eotsBucketName = Some kb" by (rule wf_storeE)
  then show ?thesis using assms(2)
    by (simp add: keyNameOf_def kv_bucket_of_def AddEOTSKeyName_def wrapS_def kv_update_def write_bucket_def Let_def)
qed

text \<open>Recording a key name in the database: a key without a name gets it, and no other key is touched. A key that has
  another name keeps that one although the command reports success. A key that has this very name already
  is refused with a message that blames a different key. That the name belongs to another key is never
  noticed.\<close>

theorem saveLocal_outcomes:
  fixes x :: "('kr, 'sk, 'sc, 'fv, 'sg, 'pk) eots_ext"
  assumes "NewLocalEOTSManager keyringNew (flt 0) home (kr_Backend x kr) db = (Ok lm :: ('kr, 'sk) LocalEOTSManager go)"
    and "wf_store y (lm_es lm)" and "ctxKey x kr input keyName = Ok eotsPk" and "ToBTCPK x eotsPk = Ok pk" and "flt 1 = NoFault" and "keyName \<noteq> []"
  shows "case keyNameOf (lm_es lm) (SerializePubKey x pk) of
      None \<Rightarrow> (\<exists>db'. saveLocal x keyringNew flt (Ok ()) home kr input keyName db = (Ok eotsPk, db') \<and>
        GetEOTSKeyName NoFault (SerializePubKey x pk) db' = Ok keyName \<and>
        (\<forall>k. k \<noteq> SerializePubKey x pk \<longrightarrow> keyNameOf db' k = keyNameOf (lm_es lm) k))
    | Some name \<Rightarrow> saveLocal x keyringNew flt (Ok ()) home kr input keyName db =
        (if name = keyName
         then Err (ErrText (''key name '' @ keyName @ '' already exists in the database for a different eotsPK. '' @
           ''Delete this key from the keyring and save it under a different name''))
         else Ok eotsPk, lm_es lm)"
proof -
  have "saveLocal x keyringNew flt (Ok ()) home kr input keyName db =
      (case saveInManager x NoFault kr input keyName lm of (r, lm') \<Rightarrow> (r, lm_es lm'))"
    using assms(1,5) by (simp add: saveLocal_def sbind_def liftR_def)
  then show ?thesis
    using AddEOTSKeyName_write_once [OF assms(2,6), where ser = "SerializePubKey x" and pk = pk]
      AddEOTSKeyName_taken [OF assms(2) _ assms(6), where ser = "SerializePubKey x" and pk = pk] assms(3,4)
    by (auto simp: saveInManager_def sbind_def liftR_def SaveEOTSKeyName_def wrapS_def on_es_def split: option.splits if_splits)
qed

text \<open>The key of the demonstration store is imported again under another name.\<close>

theorem saveLocal_outcomes_witness:
  "saveLocal demo_ext (\<lambda>backend _. Ok backend) (\<lambda>_. NoFault) (Ok ()) [] BackendTest [] ''other'' (lm_es demo_lm) = (Ok ''k'', lm_es demo_lm) \<and>
     GetEOTSKeyName NoFault ''k'' (lm_es demo_lm) = Ok ''fp''"
proof -
  let ?lm = "\<lparr>lm_kr = BackendTest, lm_es = lm_es demo_lm, lm_input = [], lm_privateKeys = Map.empty\<rparr> :: (bytes, bytes) LocalEOTSManager"
  have lm: "NewLocalEOTSManager (\<lambda>backend _. Ok backend) ((\<lambda>_. NoFault) 0) [] (kr_Backend demo_ext BackendTest) (lm_es demo_lm) = Ok ?lm"
    by (simp add: NewLocalEOTSManager_def NewEOTSStore_def initBuckets_def InitKeyring_def demo_lm_def demo_ext_def kv_update_def
        tx_create_bucket_def wrapS_def)
  have wf: "wf_store demo_ext (lm_es ?lm)" by simp
  have key: "ctxKey demo_ext BackendTest [] ''other'' = Ok ''k''"
    by (simp add: ctxKey_def LoadBIP340PubKeyFromKeyName_def loadBIP340PubKey_def krKey_def demo_ext_def sbind_def liftR_def wrapS_def)
  have name: "keyNameOf (lm_es demo_lm) ''k'' = Some ''fp''" by (simp add: keyNameOf_def kv_bucket_of_def demo_lm_def bkt_get_def)
  have pk: "ToBTCPK demo_ext ''k'' = Ok ''k''" "SerializePubKey demo_ext ''k'' = ''k''" by (simp_all add: demo_ext_def)
  have "GetEOTSKeyName NoFault ''k'' (lm_es demo_lm) = Ok ''fp''" by (simp add: GetEOTSKeyName_def read_bucket_def demo_lm_def bkt_get_def)
  with saveLocal_outcomes [where flt = "\<lambda>_. NoFault", OF lm wf key pk(1)] name pk(2) show ?thesis by simp
qed

text \<open>A rollback removes the records of the chain and key from the height on, and with them the protection of those
  heights; everything else stays.\<close>

lemma rollbackSignStore_Ok:
  assumes "store_codec x" and "rollbackSignStore x fromHex marshal flt home cfg dbBackend height pkStr chainID db = (Ok (), db')"
    and "wf_store x (snd (initBuckets (flt 0) db))"
  shows "0 < height \<and> (\<exists>fpPk pk. fromHex pkStr = Ok fpPk \<and> marshal fpPk = Ok pk \<and>
    (\<forall>chainID' pk' h. length chainID' = length chainID \<and> length pk' = length pk \<longrightarrow>
      signRecords x db' chainID' pk' h =
        (if chainID' = chainID \<and> pk' = pk \<and> height \<le> h then None else signRecords x (snd (initBuckets (flt 0) db)) chainID' pk' h)))"
proof -
  from assms(2) obtain fpPk pk where pk: "0 < height" "fromHex pkStr = Ok fpPk" "marshal fpPk = Ok pk"
    and run: "DeleteSignRecordsFromHeight x (flt 1) (Some pk) (Some chainID) height (snd (initBuckets (flt 0) db)) = (Ok (), db')"
    by (auto simp: rollbackSignStore_def liftR_eq wrapS_eq go_simps word_gt_0 elim!: sbindE split: if_splits)
  have "signRecords x db' chainID' pk' h =
      (if chainID' = chainID \<and> pk' = pk \<and> height \<le> h then None else signRecords x (snd (initBuckets (flt 0) db)) chainID' pk' h)"
    if "length chainID' = length chainID" "length pk' = length pk" for chainID' pk' h
    using DeleteSignRecordsFromHeight_Ok [OF assms(3) run] store_codec.hasKeyPrefix_key_iff [OF assms(1) that]
      store_codec.extract_key [OF assms(1)] by (simp add: signRecords_def)
  with pk show ?thesis by blast
qed

end
