(* ===== verification/Eots_Service.thy ===== *)
theory Eots_Service
  imports Eots_Claims FP_Util
begin

text \<open>
  The interface \<^verbatim>\<open>eotsmanager.EOTSManager\<close> as the finality provider's services use it: a record of methods on
  the state of the manager. The locale \<open>eots_service\<close> states what a manager promises: the randomness of a
  range is that of its heights, a batch names no height twice, every signature it returns is recorded, and a recorded vote stays what it
  is. The local manager keeps these promises, whatever its database does.
\<close>

record ('s, 'fv, 'sc, 'sg) EOTSManager =
  em_CreateRandomnessPairList :: "bytes \<Rightarrow> bytes \<Rightarrow> u64 \<Rightarrow> u32 \<Rightarrow> ('s, 'fv list) cmd"
  em_SignEOTS :: "bytes \<Rightarrow> bytes \<Rightarrow> bytes \<Rightarrow> u64 \<Rightarrow> ('s, 'sc) cmd"
  em_UnsafeSignEOTS :: "bytes \<Rightarrow> bytes \<Rightarrow> bytes \<Rightarrow> u64 \<Rightarrow> ('s, 'sc) cmd"
  em_SignBatchEOTS :: "SignBatchEOTSRequest \<Rightarrow> ('s, 'sc SignDataResponse list) cmd"
  em_SignSchnorrSig :: "bytes \<Rightarrow> bytes \<Rightarrow> ('s, 'sg) cmd"

locale eots_service =
  fixes em :: "('s, 'fv, 'sc, 'sg) EOTSManager"
    and emInv :: "'s \<Rightarrow> bool"
    and randFor :: "bytes \<Rightarrow> bytes \<Rightarrow> u64 \<Rightarrow> 'fv \<Rightarrow> bool"
    and voteOf :: "'s \<Rightarrow> bytes \<times> bytes \<times> u64 \<Rightarrow> (bytes \<times> 'sc) option"
  assumes rand_heights: "em_CreateRandomnessPairList em pk c start num s = (Ok prs, s') \<Longrightarrow>
      length prs = unat num \<and> (\<forall>i < unat num. randFor pk c (start + of_nat i) (prs ! i))"
    and rand_keeps: "em_CreateRandomnessPairList em pk c start num s = (r, s') \<Longrightarrow> emInv s \<Longrightarrow> emInv s' \<and> voteOf s' = voteOf s"
    and batch_distinct: "em_SignBatchEOTS em req s = (Ok resp, s') \<Longrightarrow> distinct (map rq_Height (rq_SignRequest req))"
    and batch_recorded: "em_SignBatchEOTS em req s = (Ok resp, s') \<Longrightarrow> emInv s \<Longrightarrow> p \<in> set resp \<Longrightarrow>
      \<exists>q \<in> set (rq_SignRequest req). rq_Height q = rs_Height p \<and>
        voteOf s' (rq_ChainID req, rq_UID req, rs_Height p) = Some (rq_Msg q, rs_Signature p)"
    and batch_inv: "em_SignBatchEOTS em req s = (rb, s') \<Longrightarrow> emInv s \<Longrightarrow> emInv s'"
    and batch_keeps: "em_SignBatchEOTS em req s = (rb, s') \<Longrightarrow> emInv s \<Longrightarrow> voteOf s k = Some v \<Longrightarrow> voteOf s' k = Some v"
    and sign_recorded: "em_SignEOTS em pk c msg h s = (Ok sig, s') \<Longrightarrow> emInv s \<Longrightarrow> voteOf s' (c, pk, h) = Some (msg, sig)"
    and sign_inv: "em_SignEOTS em pk c msg h s = (rg, s') \<Longrightarrow> emInv s \<Longrightarrow> emInv s'"
    and sign_keeps: "em_SignEOTS em pk c msg h s = (rg, s') \<Longrightarrow> emInv s \<Longrightarrow> voteOf s k = Some v \<Longrightarrow> voteOf s' k = Some v"
    and schnorr_keeps: "em_SignSchnorrSig em pk msg s = (rs, s') \<Longrightarrow> emInv s \<Longrightarrow> emInv s' \<and> voteOf s' = voteOf s"

definition localManager ::
  "('kr, 'sk, 'sc, 'fv, 'sg, 'pk) eots_ext \<Rightarrow> (nat \<Rightarrow> dbfault) \<Rightarrow> u64 \<Rightarrow>
     (('kr, 'sk) LocalEOTSManager, 'fv, 'sc, 'sg) EOTSManager" where
  "localManager x tx nowMilli =
     \<lparr>em_CreateRandomnessPairList = (\<lambda>pk c start num. CreateRandomnessPairList x (tx 0) pk c start num []),
      em_SignEOTS = SignEOTS x tx nowMilli,
      em_UnsafeSignEOTS = UnsafeSignEOTS x (tx 0),
      em_SignBatchEOTS = SignBatchEOTS x tx nowMilli,
      em_SignSchnorrSig = SignSchnorrSig x (tx 0)\<rparr>"

definition randFor_local :: "('kr, 'sk, 'sc, 'fv, 'sg, 'pk) eots_ext \<Rightarrow> bytes \<Rightarrow> bytes \<Rightarrow> u64 \<Rightarrow> 'fv \<Rightarrow> bool" where
  "randFor_local x pk c h fv \<longleftrightarrow>
     (\<exists>sk pr. SerializePubKey x (PubKey x sk) = pk \<and> getRandomnessPair x sk c h = Ok (pr, fv))"

lemma voteOf_keeps_es: "keeps lm_es m \<Longrightarrow> m s = (r, s') \<Longrightarrow> signedFor x s' = signedFor x s"
  by (drule (1) keepsD) (simp add: signedFor_def)

lemma signedFor_extends:
  assumes "preserves (extends x (recordOf x (lm_es s))) m" and "m s = (r, s')" and "wf_store x (lm_es s)"
  shows "wf_store x (lm_es s')" and "signedFor x s k = Some v \<Longrightarrow> signedFor x s' k = Some v"
proof -
  have ext: "extends x (recordOf x (lm_es s)) s'"
    using preservesD [OF assms(1,2) extends_same [OF assms(3)]] .
  then show "wf_store x (lm_es s')" by (simp add: extends_def)
  show "signedFor x s' k = Some v" if "signedFor x s k = Some v"
    using ext that by (rule extends_signedFor)
qed

lemma CreateRandomnessPairList_randFor:
  assumes "CreateRandomnessPairList x flt pk c start num [] s = (Ok prs, s')"
  shows "length prs = unat num \<and> (\<forall>i < unat num. randFor_local x pk c (start + of_nat i) (prs ! i))"
proof -
  from assms obtain sk where sk: "getEOTSPrivKey x flt pk s = (Ok sk, s')" and len: "length prs = unat num"
    and prs: "\<forall>i < unat num. \<exists>pr. getRandomnessPair x sk c
       (start + of_nat i * (case intervalOf [] of Some d \<Rightarrow> d | None \<Rightarrow> 1)) = Ok (pr, prs ! i)"
    by (rule CreateRandomnessPairList_Ok)
  have "SerializePubKey x (PubKey x sk) = pk"
    using sk unfolding getEOTSPrivKey_def by (rule verifiedPrivKey_bound)
  with prs len show ?thesis by (auto simp: randFor_local_def intervalOf_def)
qed

context eots_codec
begin

lemma SignBatchEOTS_response:
  assumes "SignBatchEOTS x tx now req s = (Ok resp, s')" and "wf_store x (lm_es s)" and "p \<in> set resp"
  shows "\<exists>q \<in> set (rq_SignRequest req). rq_Height q = rs_Height p \<and>
    signedFor x s' (rq_ChainID req, rq_UID req, rs_Height p) = Some (rq_Msg q, rs_Signature p)"
proof -
  obtain sk s1 recs where loop: "signBatchLoop x sk (rq_UID req) (rq_ChainID req)
       (\<lambda>h. if h \<in> rq_Height ` set (rq_SignRequest req)
         then signRecords x (lm_es s) (rq_ChainID req) (rq_UID req) h else None)
       (rq_SignRequest req) = Ok (resp, recs)"
    by (rule SignBatchEOTS_steps [OF assms(2,1)])
  from signBatchLoop_Ok [OF loop assms(3)]
  obtain q where q: "q \<in> set (rq_SignRequest req)" "rq_Height q = rs_Height p" by blast
  with SignBatchEOTS_recorded [OF assms(2,1,3) q] show ?thesis by blast
qed

end

sublocale eots_codec \<subseteq> svc: eots_service "localManager x tx now" "\<lambda>s. wf_store x (lm_es s)"
  "randFor_local x" "signedFor x" for tx now
proof
  fix pk c start num s prs s' r rb rg rs req resp p k v msg h sig
  let ?m = "localManager x tx now"
  show "length prs = unat num \<and> (\<forall>i < unat num. randFor_local x pk c (start + of_nat i) (prs ! i))"
    if "em_CreateRandomnessPairList ?m pk c start num s = (Ok prs, s')"
    using that by (simp add: localManager_def CreateRandomnessPairList_randFor)
  show "wf_store x (lm_es s') \<and> signedFor x s' = signedFor x s"
    if "em_CreateRandomnessPairList ?m pk c start num s = (r, s')" "wf_store x (lm_es s)"
    using that by (auto simp: localManager_def dest: keepsD [OF keeps_CreateRandomnessPairList] intro: voteOf_keeps_es [OF keeps_CreateRandomnessPairList])
  show "distinct (map rq_Height (rq_SignRequest req))" if "em_SignBatchEOTS ?m req s = (Ok resp, s')"
    using that by (auto simp: localManager_def SignBatchEOTS_def Let_def go_simps split: go.splits)
  show "\<exists>q \<in> set (rq_SignRequest req). rq_Height q = rs_Height p \<and>
      signedFor x s' (rq_ChainID req, rq_UID req, rs_Height p) = Some (rq_Msg q, rs_Signature p)"
    if "em_SignBatchEOTS ?m req s = (Ok resp, s')" "wf_store x (lm_es s)" "p \<in> set resp"
    using that by (simp add: localManager_def SignBatchEOTS_response)
  show "wf_store x (lm_es s')" if "em_SignBatchEOTS ?m req s = (rb, s')" "wf_store x (lm_es s)"
    using that signedFor_extends(1) [OF extends_SignBatchEOTS] by (simp add: localManager_def)
  show "signedFor x s' k = Some v"
    if "em_SignBatchEOTS ?m req s = (rb, s')" "wf_store x (lm_es s)" "signedFor x s k = Some v"
    using that signedFor_extends(2) [OF extends_SignBatchEOTS] by (simp add: localManager_def)
  show "signedFor x s' (c, pk, h) = Some (msg, sig)"
    if "em_SignEOTS ?m pk c msg h s = (Ok sig, s')" "wf_store x (lm_es s)"
    using that by (simp add: localManager_def SignEOTS_recorded)
  show "wf_store x (lm_es s')" if "em_SignEOTS ?m pk c msg h s = (rg, s')" "wf_store x (lm_es s)"
    using that signedFor_extends(1) [OF extends_SignEOTS] by (simp add: localManager_def)
  show "signedFor x s' k = Some v"
    if "em_SignEOTS ?m pk c msg h s = (rg, s')" "wf_store x (lm_es s)" "signedFor x s k = Some v"
    using that signedFor_extends(2) [OF extends_SignEOTS] by (simp add: localManager_def)
  show "wf_store x (lm_es s') \<and> signedFor x s' = signedFor x s"
    if "em_SignSchnorrSig ?m pk msg s = (rs, s')" "wf_store x (lm_es s)"
    using that by (auto simp: localManager_def dest: keepsD [OF keeps_SignSchnorrSig] intro: voteOf_keeps_es [OF keeps_SignSchnorrSig])
qed

context eots_codec
begin

lemmas local_eots_service = svc.eots_service_axioms

end

end
