(* ===== verification/FP_Store.thy ===== *)
theory FP_Store
  imports Big_Endian KV_Backend
begin

text \<open>
  The finality provider's own database records (\<^verbatim>\<open>finality-provider/store/fpstore.go\<close>,
  \<^verbatim>\<open>storedfp.go\<close>, \<^verbatim>\<open>proto/finality_providers.go\<close>), one definition per method of
  \<^verbatim>\<open>FinalityProviderStore\<close>. Keys, decimals, descriptions and the protobuf encoding belong to other
  packages and are fields of \<open>fp_ext\<close>; \<open>fp_codec\<close> states what is documented of them. The abstract
  content is the map \<open>fpOf\<close> from serialized public key to record; the lemmas say what each method does
  to it, and that every record stays filed under its own key.
\<close>

section \<open>Data\<close>

definition finalityProviderBucketName :: bytes where
  "finalityProviderBucketName = ''finalityProviders''"

datatype FinalityProviderStatus = REGISTERED | ACTIVE | INACTIVE | SLASHED | JAILED

record CommissionInfo =
  ci_MaxRate :: bytes
  ci_MaxChangeRate :: bytes
  ci_UpdateTime :: u64

record pb_FinalityProvider =
  pf_FpAddr :: bytes
  pf_BtcPk :: bytes
  pf_Description :: bytes
  pf_Commission :: bytes
  pf_ChainId :: bytes
  pf_LastVotedHeight :: u64
  pf_Status :: FinalityProviderStatus
  pf_CommissionInfo :: "CommissionInfo option"

record ('pk, 'ds, 'dc) StoredFinalityProvider =
  sf_FPAddr :: bytes
  sf_BtcPk :: 'pk
  sf_Description :: 'ds
  sf_Commission :: 'dc
  sf_ChainID :: bytes
  sf_LastVotedHeight :: u64
  sf_Status :: FinalityProviderStatus
  sf_CommissionInfo :: "CommissionInfo option"

record 'dc CommissionRates =
  cr_Rate :: 'dc
  cr_MaxRate :: 'dc
  cr_MaxChangeRate :: 'dc

record ('pk, 'ds, 'dc) fp_ext =
  fx_SerializePubKey :: "'pk \<Rightarrow> bytes"
  fx_ParsePubKey :: "bytes \<Rightarrow> 'pk go"
  fx_MarshalFP :: "pb_FinalityProvider \<Rightarrow> bytes go"
  fx_UnmarshalFP :: "bytes \<Rightarrow> pb_FinalityProvider go"
  fx_DescMarshal :: "'ds \<Rightarrow> bytes go"
  fx_DescUnmarshal :: "bytes \<Rightarrow> 'ds go"
  fx_DecString :: "'dc \<Rightarrow> bytes"
  fx_DecFromStr :: "bytes \<Rightarrow> 'dc go"

definition NewCommissionInfoWithTime ::
  "('pk, 'ds, 'dc) fp_ext \<Rightarrow> 'dc \<Rightarrow> 'dc \<Rightarrow> u64 \<Rightarrow> CommissionInfo" where
  "NewCommissionInfoWithTime x maxRate maxChangeRate updatedAt =
     \<lparr>ci_MaxRate = fx_DecString x maxRate, ci_MaxChangeRate = fx_DecString x maxChangeRate,
      ci_UpdateTime = updatedAt\<rparr>"

text \<open>The commission of a creation request: three decimal strings, or none.\<close>

definition GetCommissionRates ::
  "('pk, 'ds, 'dc) fp_ext \<Rightarrow> (bytes \<times> bytes \<times> bytes) option \<Rightarrow> 'dc CommissionRates go" where
  "GetCommissionRates x commission = (case commission of
     None \<Rightarrow> Err (ErrText ''nil Commission in request. Cannot get CommissionRates'')
   | Some (r, mr, mcr) \<Rightarrow>
       rbind (wrap ''invalid commission rate: '' (fx_DecFromStr x r)) (\<lambda>rate.
       rbind (wrap ''invalid commission max rate: '' (fx_DecFromStr x mr)) (\<lambda>maxRate.
       rbind (wrap ''invalid commission max change rate: '' (fx_DecFromStr x mcr)) (\<lambda>maxChangeRate.
       Ok \<lparr>cr_Rate = rate, cr_MaxRate = maxRate, cr_MaxChangeRate = maxChangeRate\<rparr>))))"

definition protoFpToStoredFinalityProvider ::
  "('pk, 'ds, 'dc) fp_ext \<Rightarrow> pb_FinalityProvider \<Rightarrow> ('pk, 'ds, 'dc) StoredFinalityProvider go" where
  "protoFpToStoredFinalityProvider x fp =
     rbind (wrap ''invalid BTC public key: '' (fx_ParsePubKey x (pf_BtcPk fp))) (\<lambda>btcPk.
     rbind (wrap ''invalid description: '' (fx_DescUnmarshal x (pf_Description fp))) (\<lambda>des.
     rbind (wrap ''invalid commission: '' (fx_DecFromStr x (pf_Commission fp))) (\<lambda>commission.
     Ok \<lparr>sf_FPAddr = pf_FpAddr fp, sf_BtcPk = btcPk, sf_Description = des, sf_Commission = commission,
         sf_ChainID = pf_ChainId fp, sf_LastVotedHeight = pf_LastVotedHeight fp,
         sf_Status = pf_Status fp, sf_CommissionInfo = pf_CommissionInfo fp\<rparr>)))"

section \<open>Operations\<close>

definition fp_initBuckets :: "dbfault \<Rightarrow> (kvdb, unit) cmd" where
  "fp_initBuckets flt = wrapS ''failed to initialize finality provider bucket: '' (kv_update flt (\<lambda>d.
     wrap ''failed to create finality provider bucket: ''
       (tx_create_bucket flt 0 d finalityProviderBucketName)))"

definition NewFinalityProviderStore :: "dbfault \<Rightarrow> kvdb \<Rightarrow> kvdb go" where
  "NewFinalityProviderStore flt db = (case fp_initBuckets flt db of (r, db') \<Rightarrow> rbind r (\<lambda>_. Ok db'))"

definition saveFinalityProvider ::
  "('pk, 'ds, 'dc) fp_ext \<Rightarrow> dbfault \<Rightarrow> bucket \<Rightarrow> pb_FinalityProvider option \<Rightarrow> bucket go" where
  "saveFinalityProvider x flt fpBucket fp = (case fp of
     None \<Rightarrow> Err (ErrText ''cannot save nil finality provider'')
   | Some fp \<Rightarrow>
       rbind (wrap ''failed to marshal finality provider: '' (fx_MarshalFP x fp)) (\<lambda>marshalled.
       wrap ''failed to store finality provider: '' (tx_put flt 0 fpBucket (pf_BtcPk fp) marshalled)))"

definition createFinalityProviderInternal ::
  "('pk, 'ds, 'dc) fp_ext \<Rightarrow> dbfault \<Rightarrow> pb_FinalityProvider \<Rightarrow> (kvdb, unit) cmd" where
  "createFinalityProviderInternal x flt fp =
     wrapS ''failed to create finality provider: '' (kv_update flt
       (write_bucket finalityProviderBucketName ErrCorruptedFinalityProviderDB (\<lambda>fpBucket.
         if bkt_get fpBucket (pf_BtcPk fp) \<noteq> None then Err (Sentinel ErrDuplicateFinalityProvider)
         else saveFinalityProvider x flt fpBucket (Some fp))))"

definition CreateFinalityProvider ::
  "('pk, 'ds, 'dc) fp_ext \<Rightarrow> dbfault \<Rightarrow> u64 \<Rightarrow> bytes \<Rightarrow> 'pk \<Rightarrow> 'ds \<Rightarrow> 'dc CommissionRates \<Rightarrow> bytes \<Rightarrow>
     (kvdb, unit) cmd" where
  "CreateFinalityProvider x flt now fpAddr btcPk description commission chainID =
     sbind (liftR (wrap ''invalid description: '' (fx_DescMarshal x description))) (\<lambda>desBytes.
     createFinalityProviderInternal x flt
       \<lparr>pf_FpAddr = fpAddr, pf_BtcPk = fx_SerializePubKey x btcPk, pf_Description = desBytes,
        pf_Commission = fx_DecString x (cr_Rate commission), pf_ChainId = chainID, pf_LastVotedHeight = 0,
        pf_Status = REGISTERED,
        pf_CommissionInfo = Some (NewCommissionInfoWithTime x (cr_MaxRate commission)
          (cr_MaxChangeRate commission) now)\<rparr>)"

definition setFinalityProviderState ::
  "('pk, 'ds, 'dc) fp_ext \<Rightarrow> dbfault \<Rightarrow> 'pk \<Rightarrow> (pb_FinalityProvider \<Rightarrow> pb_FinalityProvider go) \<Rightarrow>
     (kvdb, unit) cmd" where
  "setFinalityProviderState x flt btcPk stateTransitionFn =
     (let pkBytes = fx_SerializePubKey x btcPk in
      wrapS ''failed to set finality provider state: '' (kv_update flt
        (write_bucket finalityProviderBucketName ErrCorruptedFinalityProviderDB (\<lambda>fpBucket.
          case bkt_get fpBucket pkBytes of
            None \<Rightarrow> Err (Sentinel ErrFinalityProviderNotFound)
          | Some fpFromDB \<Rightarrow> (case fx_UnmarshalFP x fpFromDB of
              Err _ \<Rightarrow> Err (Sentinel ErrCorruptedFinalityProviderDB)
            | Crash c \<Rightarrow> Crash c
            | Ok storedFp \<Rightarrow> rbind (stateTransitionFn storedFp) (\<lambda>storedFp.
                saveFinalityProvider x flt fpBucket (Some storedFp)))))))"

definition SetFpStatus ::
  "('pk, 'ds, 'dc) fp_ext \<Rightarrow> dbfault \<Rightarrow> 'pk \<Rightarrow> FinalityProviderStatus \<Rightarrow> (kvdb, unit) cmd" where
  "SetFpStatus x flt btcPk status =
     setFinalityProviderState x flt btcPk (\<lambda>fp. Ok (fp\<lparr>pf_Status := status\<rparr>))"

definition MustSetFpStatus ::
  "('pk, 'ds, 'dc) fp_ext \<Rightarrow> dbfault \<Rightarrow> 'pk \<Rightarrow> FinalityProviderStatus \<Rightarrow> (kvdb, unit) cmd" where
  "MustSetFpStatus x flt btcPk status db =
     (case SetFpStatus x flt btcPk status db of (r, db') \<Rightarrow> (must r, db'))"

text \<open>The method returns a status together with the error of storing it.\<close>

definition UpdateFpStatusFromVotingPower ::
  "('pk, 'ds, 'dc) fp_ext \<Rightarrow> dbfault \<Rightarrow> bool \<Rightarrow> ('pk, 'ds, 'dc) StoredFinalityProvider \<Rightarrow> kvdb \<Rightarrow>
     (FinalityProviderStatus \<times> unit go) \<times> kvdb" where
  "UpdateFpStatusFromVotingPower x flt hasPower fp db =
     (if sf_Status fp = SLASHED then ((SLASHED, Ok ()), db)
      else if hasPower
      then (case SetFpStatus x flt (sf_BtcPk fp) ACTIVE db of (r, db') \<Rightarrow> ((ACTIVE, r), db'))
      else if sf_Status fp = ACTIVE
      then (case SetFpStatus x flt (sf_BtcPk fp) INACTIVE db of (r, db') \<Rightarrow> ((INACTIVE, r), db'))
      else ((sf_Status fp, Ok ()), db))"

definition SetFpLastVotedHeight ::
  "('pk, 'ds, 'dc) fp_ext \<Rightarrow> dbfault \<Rightarrow> 'pk \<Rightarrow> u64 \<Rightarrow> (kvdb, unit) cmd" where
  "SetFpLastVotedHeight x flt btcPk lastVotedHeight =
     setFinalityProviderState x flt btcPk (\<lambda>fp.
       Ok (if pf_LastVotedHeight fp < lastVotedHeight then fp\<lparr>pf_LastVotedHeight := lastVotedHeight\<rparr> else fp))"

definition SetFpDescription ::
  "('pk, 'ds, 'dc) fp_ext \<Rightarrow> dbfault \<Rightarrow> u64 \<Rightarrow> 'pk \<Rightarrow> 'ds \<Rightarrow> 'dc option \<Rightarrow> (kvdb, unit) cmd" where
  "SetFpDescription x flt now btcPk desc rate =
     setFinalityProviderState x flt btcPk (\<lambda>fp.
       rbind (wrap ''failed to marshal description: '' (fx_DescMarshal x desc)) (\<lambda>descBytes.
       let fp = fp\<lparr>pf_Description := descBytes\<rparr> in
       Ok (case rate of
         None \<Rightarrow> fp
       | Some rate \<Rightarrow>
           let info = (case pf_CommissionInfo fp of
               None \<Rightarrow> \<lparr>ci_MaxRate = [], ci_MaxChangeRate = [], ci_UpdateTime = 0\<rparr> | Some i \<Rightarrow> i) in
           fp\<lparr>pf_Commission := fx_DecString x rate, pf_CommissionInfo := Some (info\<lparr>ci_UpdateTime := now\<rparr>)\<rparr>)))"

text \<open>Reading one record and all records.\<close>

definition decodeStored ::
  "('pk, 'ds, 'dc) fp_ext \<Rightarrow> bytes \<Rightarrow> ('pk, 'ds, 'dc) StoredFinalityProvider go" where
  "decodeStored x fpBytes = (case fx_UnmarshalFP x fpBytes of
     Err _ \<Rightarrow> Err (Sentinel ErrCorruptedFinalityProviderDB)
   | Crash c \<Rightarrow> Crash c
   | Ok fpProto \<Rightarrow> protoFpToStoredFinalityProvider x fpProto)"

definition GetFinalityProvider ::
  "('pk, 'ds, 'dc) fp_ext \<Rightarrow> dbfault \<Rightarrow> 'pk \<Rightarrow> kvdb \<Rightarrow> ('pk, 'ds, 'dc) StoredFinalityProvider go" where
  "GetFinalityProvider x flt btcPk db =
     (let pkBytes = fx_SerializePubKey x btcPk in
      wrap ''failed to get finality provider: '' (kv_view flt
        (read_bucket finalityProviderBucketName ErrCorruptedFinalityProviderDB (\<lambda>fpBucket.
          case bkt_get fpBucket pkBytes of
            None \<Rightarrow> Err (Sentinel ErrFinalityProviderNotFound)
          | Some fpBytes \<Rightarrow> decodeStored x fpBytes)) db))"

fun decodeAll ::
  "('pk, 'ds, 'dc) fp_ext \<Rightarrow> bucket \<Rightarrow> ('pk, 'ds, 'dc) StoredFinalityProvider list go" where
  "decodeAll x [] = Ok []"
| "decodeAll x ((k, v) # es) =
     rbind (decodeStored x v) (\<lambda>fp. rbind (decodeAll x es) (\<lambda>fps. Ok (fp # fps)))"

definition GetAllStoredFinalityProviders ::
  "('pk, 'ds, 'dc) fp_ext \<Rightarrow> dbfault \<Rightarrow> kvdb \<Rightarrow> ('pk, 'ds, 'dc) StoredFinalityProvider list go" where
  "GetAllStoredFinalityProviders x flt db =
     wrap ''failed to get all stored finality providers: '' (kv_view flt
       (read_bucket finalityProviderBucketName ErrCorruptedFinalityProviderDB (decodeAll x)) db)"

section \<open>The in-memory state of a running provider\<close>

text \<open>\<^verbatim>\<open>service/fp_store_adapter.go\<close>: a cached record and the store. The setters write the cache first.\<close>

record ('pk, 'ds, 'dc) FpState =
  fps_sfp :: "('pk, 'ds, 'dc) StoredFinalityProvider"
  fps_s :: kvdb

definition NewFpState :: "('pk, 'ds, 'dc) StoredFinalityProvider \<Rightarrow> kvdb \<Rightarrow> ('pk, 'ds, 'dc) FpState" where
  "NewFpState fp s = \<lparr>fps_sfp = fp, fps_s = s\<rparr>"

definition on_store :: "(kvdb, 'a) cmd \<Rightarrow> (('pk, 'ds, 'dc) FpState, 'a) cmd" where
  "on_store m s = (case m (fps_s s) of (r, db) \<Rightarrow> (r, s\<lparr>fps_s := db\<rparr>))"

definition GetChainID :: "('pk, 'ds, 'dc) FpState \<Rightarrow> bytes" where
  "GetChainID fps = sf_ChainID (fps_sfp fps)"

definition GetLastVotedHeight :: "('pk, 'ds, 'dc) FpState \<Rightarrow> u64" where
  "GetLastVotedHeight fps = sf_LastVotedHeight (fps_sfp fps)"

definition GetStatus :: "('pk, 'ds, 'dc) FpState \<Rightarrow> FinalityProviderStatus" where
  "GetStatus fps = sf_Status (fps_sfp fps)"

definition SetStatus ::
  "('pk, 'ds, 'dc) fp_ext \<Rightarrow> dbfault \<Rightarrow> FinalityProviderStatus \<Rightarrow> (('pk, 'ds, 'dc) FpState, unit) cmd" where
  "SetStatus x flt st fps =
     wrapS ''failed to set finality provider status: ''
       (on_store (SetFpStatus x flt (sf_BtcPk (fps_sfp fps)) st))
       (fps\<lparr>fps_sfp := (fps_sfp fps)\<lparr>sf_Status := st\<rparr>\<rparr>)"

definition SetLastVotedHeight ::
  "('pk, 'ds, 'dc) fp_ext \<Rightarrow> dbfault \<Rightarrow> u64 \<Rightarrow> (('pk, 'ds, 'dc) FpState, unit) cmd" where
  "SetLastVotedHeight x flt height fps =
     wrapS ''failed to set finality provider last voted height: ''
       (on_store (SetFpLastVotedHeight x flt (sf_BtcPk (fps_sfp fps)) height))
       (fps\<lparr>fps_sfp := (fps_sfp fps)\<lparr>sf_LastVotedHeight := height\<rparr>\<rparr>)"

section \<open>Well-formedness and abstract content\<close>

definition fpOf :: "('pk, 'ds, 'dc) fp_ext \<Rightarrow> kvdb \<Rightarrow> bytes \<Rightarrow> pb_FinalityProvider option" where
  "fpOf x db = decodedOf (fx_UnmarshalFP x) db finalityProviderBucketName"

definition wf_fpstore :: "('pk, 'ds, 'dc) fp_ext \<Rightarrow> kvdb \<Rightarrow> bool" where
  "wf_fpstore x db \<longleftrightarrow> kv_open db \<and> kv_ok db \<and>
     (\<exists>b. kv_buckets db finalityProviderBucketName = Some b \<and>
       (\<forall>k v. bkt_get b k = Some v \<longrightarrow> (\<exists>fp. fx_UnmarshalFP x v = Ok fp \<and> pf_BtcPk fp = k)))"

locale fp_codec =
  fixes x :: "('pk, 'ds, 'dc) fp_ext"
  assumes fp_round_trip: "fx_MarshalFP x fp = Ok b \<Longrightarrow> fx_UnmarshalFP x b = Ok fp"
    and parse_serialize: "fx_ParsePubKey x b = Ok pk \<Longrightarrow> fx_SerializePubKey x pk = b"
    and desc_round_trip: "fx_DescMarshal x d = Ok b \<Longrightarrow> fx_DescUnmarshal x b = Ok d"
    and dec_round_trip: "fx_DecFromStr x (fx_DecString x r) = Ok r"
begin

text \<open>A transition that keeps the key updates the record under that key and nothing else.\<close>

lemma setFinalityProviderState_Ok:
  assumes wf: "wf_fpstore x db" and run: "setFinalityProviderState x flt pk f db = (Ok u, db')"
    and key: "\<And>fp fp'. f fp = Ok fp' \<Longrightarrow> pf_BtcPk fp' = pf_BtcPk fp"
  shows "wf_fpstore x db' \<and> (\<exists>fp fp'. fpOf x db (fx_SerializePubKey x pk) = Some fp \<and> f fp = Ok fp' \<and>
    fpOf x db' = (fpOf x db)(fx_SerializePubKey x pk \<mapsto> fp'))"
proof -
  let ?k = "fx_SerializePubKey x pk"
  from run obtain b v fp fp' m where o: "kv_open db" and b: "kv_buckets db finalityProviderBucketName = Some b"
    and v: "bkt_get b ?k = Some v" and fp: "fx_UnmarshalFP x v = Ok fp" and f: "f fp = Ok fp'"
    and m: "fx_MarshalFP x fp' = Ok m"
    and db': "db' = db\<lparr>kv_buckets := (kv_buckets db)(finalityProviderBucketName \<mapsto> bkt_put b (pf_BtcPk fp') m)\<rparr>"
    by (auto simp: setFinalityProviderState_def saveFinalityProvider_def Let_def go_simps)
  have k: "pf_BtcPk fp' = ?k" using wf b v fp key [OF f] by (fastforce simp: wf_fpstore_def)
  have m': "fx_UnmarshalFP x m = Ok fp'" using m by (rule fp_round_trip)
  have "fpOf x db' = (fpOf x db)(?k \<mapsto> fp')"
    unfolding fpOf_def using decodedOf_put [of db _ b "fx_UnmarshalFP x", OF b m' db'] k by simp
  moreover have "fpOf x db ?k = Some fp"
    using b v fp by (simp add: fpOf_def decodedOf_bucket)
  moreover have "wf_fpstore x db'"
    using wf b db' k m' by (auto simp: wf_fpstore_def kv_ok_def bk.get_put)
  ultimately show ?thesis using f by blast
qed

lemma setFinalityProviderState_succeeds:
  assumes wf: "wf_fpstore x db" and "fpOf x db (fx_SerializePubKey x pk) = Some fp"
    and "f fp = Ok fp'" and "fx_MarshalFP x fp' = Ok m"
  shows "\<exists>db'. setFinalityProviderState x NoFault pk f db = (Ok (), db')"
  using assms
  by (auto simp: wf_fpstore_def fpOf_def decodedOf_bucket setFinalityProviderState_def saveFinalityProvider_def
      Let_def wrapS_def kv_update_def write_bucket_def split: option.splits go.splits)

lemma setFinalityProviderState_missing:
  assumes wf: "wf_fpstore x db" and "fpOf x db (fx_SerializePubKey x pk) = None"
  shows "setFinalityProviderState x flt pk f db =
    (Err (Wrapf ''failed to set finality provider state: '' (Sentinel ErrFinalityProviderNotFound)), db)"
proof -
  from wf obtain b where b: "kv_open db" "kv_buckets db finalityProviderBucketName = Some b"
    and dec: "\<forall>k v. bkt_get b k = Some v \<longrightarrow> (\<exists>fp. fx_UnmarshalFP x v = Ok fp)"
    unfolding wf_fpstore_def by blast
  have "bkt_get b (fx_SerializePubKey x pk) = None"
    using assms(2) b dec by (fastforce simp: fpOf_def decodedOf_bucket split: option.splits go.splits)
  with b show ?thesis
    by (simp add: setFinalityProviderState_def Let_def wrapS_def kv_update_def write_bucket_def)
qed

lemma GetFinalityProvider_refines:
  assumes "wf_fpstore x db"
  shows "GetFinalityProvider x NoFault pk db = wrap ''failed to get finality provider: ''
    (case fpOf x db (fx_SerializePubKey x pk) of
       None \<Rightarrow> Err (Sentinel ErrFinalityProviderNotFound)
     | Some fp \<Rightarrow> protoFpToStoredFinalityProvider x fp)"
proof -
  from assms obtain b where "kv_open db" "kv_buckets db finalityProviderBucketName = Some b"
    "\<forall>k v. bkt_get b k = Some v \<longrightarrow> (\<exists>fp. fx_UnmarshalFP x v = Ok fp)"
    unfolding wf_fpstore_def by blast
  then show ?thesis
    by (cases "bkt_get b (fx_SerializePubKey x pk)")
       (force simp: GetFinalityProvider_def Let_def read_bucket_def fpOf_def decodedOf_bucket decodeStored_def)+
qed

text \<open>Whatever is read is the stored record, also when the database can fail.\<close>

lemma GetFinalityProvider_status:
  assumes "wf_fpstore x db" and "fpOf x db (fx_SerializePubKey x pk) = Some p" and "GetFinalityProvider x flt pk db = Ok sfp"
  shows "sf_Status sfp = pf_Status p"
proof -
  have "GetFinalityProvider x NoFault pk db = Ok sfp"
    using assms(3) by (cases flt) (auto simp: GetFinalityProvider_def Let_def kv_view_def split: if_splits)
  with GetFinalityProvider_refines [OF assms(1)] assms(2) show ?thesis
    by (auto simp: go_simps protoFpToStoredFinalityProvider_def)
qed

end

section \<open>A concrete encoding\<close>

definition enc_status :: "FinalityProviderStatus \<Rightarrow> char" where
  "enc_status s = (case s of REGISTERED \<Rightarrow> CHR ''0'' | ACTIVE \<Rightarrow> CHR ''1'' | INACTIVE \<Rightarrow> CHR ''2''
     | SLASHED \<Rightarrow> CHR ''3'' | JAILED \<Rightarrow> CHR ''4'')"

definition dec_status :: "char \<Rightarrow> FinalityProviderStatus" where
  "dec_status c = (if c = CHR ''1'' then ACTIVE else if c = CHR ''2'' then INACTIVE
     else if c = CHR ''3'' then SLASHED else if c = CHR ''4'' then JAILED else REGISTERED)"

lemma dec_enc_status [simp]: "dec_status (enc_status s) = s"
  by (cases s) (simp_all add: dec_status_def enc_status_def)

fun unescs :: "nat \<Rightarrow> bytes \<Rightarrow> (bytes list \<times> bytes) option" where
  "unescs 0 b = Some ([], b)"
| "unescs (Suc n) b = (case unesc b of None \<Rightarrow> None
     | Some (f, b) \<Rightarrow> map_option (\<lambda>(fs, r). (f # fs, r)) (unescs n b))"

definition enc_info :: "CommissionInfo option \<Rightarrow> bytes" where
  "enc_info i = (case i of None \<Rightarrow> [] | Some i \<Rightarrow> esc (ci_MaxRate i) @ esc (ci_MaxChangeRate i) @ esc (be64 (ci_UpdateTime i)))"

definition dec_info :: "bytes \<Rightarrow> CommissionInfo option" where
  "dec_info b = (case unescs 3 b of
     Some ([r, c, t], _) \<Rightarrow> Some \<lparr>ci_MaxRate = r, ci_MaxChangeRate = c, ci_UpdateTime = be64_inv t\<rparr> | _ \<Rightarrow> None)"

definition plain_marshalFP :: "pb_FinalityProvider \<Rightarrow> bytes go" where
  "plain_marshalFP p = Ok (esc (pf_FpAddr p) @ esc (pf_BtcPk p) @ esc (pf_Description p) @ esc (pf_Commission p) @
     esc (pf_ChainId p) @ esc (be64 (pf_LastVotedHeight p)) @ esc [enc_status (pf_Status p)] @
     esc (enc_info (pf_CommissionInfo p)))"

definition plain_unmarshalFP :: "bytes \<Rightarrow> pb_FinalityProvider go" where
  "plain_unmarshalFP b = (case unescs 8 b of
     Some ([a, k, d, c, i, h, s, ci], _) \<Rightarrow> Ok \<lparr>pf_FpAddr = a, pf_BtcPk = k, pf_Description = d, pf_Commission = c,
       pf_ChainId = i, pf_LastVotedHeight = be64_inv h, pf_Status = dec_status (hd s), pf_CommissionInfo = dec_info ci\<rparr>
   | _ \<Rightarrow> Err (ErrText ''unexpected EOF''))"

definition plain_fp :: "(bytes, bytes, bytes) fp_ext" where
  "plain_fp = \<lparr>fx_SerializePubKey = (\<lambda>k. k), fx_ParsePubKey = Ok, fx_MarshalFP = plain_marshalFP,
     fx_UnmarshalFP = plain_unmarshalFP, fx_DescMarshal = Ok, fx_DescUnmarshal = Ok,
     fx_DecString = (\<lambda>d. d), fx_DecFromStr = Ok\<rparr>"

lemma unesc_esc_end [simp]: "unesc (esc b) = Some (b, [])"
  using unesc_esc [of b "[]"] by simp

lemma dec_enc_info [simp]: "dec_info (enc_info i) = i"
  by (cases i) (simp_all add: dec_info_def enc_info_def numeral_3_eq_3)

lemma plain_fp_round_trip: "plain_marshalFP p = Ok b \<Longrightarrow> plain_unmarshalFP b = Ok p"
  by (auto simp: plain_marshalFP_def plain_unmarshalFP_def eval_nat_numeral)

interpretation plain_fp: fp_codec plain_fp
  by unfold_locales (auto simp: plain_fp_def plain_fp_round_trip)

definition emptyFpStore :: kvdb where
  "emptyFpStore = \<lparr>kv_open = True, kv_buckets = [finalityProviderBucketName \<mapsto> []]\<rparr>"

lemma wf_emptyFpStore [simp]: "wf_fpstore x emptyFpStore"
  by (auto simp: wf_fpstore_def emptyFpStore_def kv_ok_def bucket_ok_def bkt_get_def split: if_splits)

definition demoFp :: pb_FinalityProvider where
  "demoFp = \<lparr>pf_FpAddr = ''bbn1'', pf_BtcPk = ''pk'', pf_Description = ''desc'', pf_Commission = ''0.1'',
     pf_ChainId = ''bbn-1'', pf_LastVotedHeight = 4, pf_Status = ACTIVE, pf_CommissionInfo = None\<rparr>"

definition demoFpStore :: kvdb where
  "demoFpStore = \<lparr>kv_open = True, kv_buckets = [finalityProviderBucketName \<mapsto> [(''pk'', 
     case plain_marshalFP demoFp of Ok m \<Rightarrow> m | _ \<Rightarrow> [])]]\<rparr>"

lemma fpOf_demoFpStore [simp]: "fpOf plain_fp demoFpStore = [''pk'' \<mapsto> demoFp]"
proof -
  obtain m where m: "plain_marshalFP demoFp = Ok m" by (simp add: plain_marshalFP_def)
  then have "plain_unmarshalFP m = Ok demoFp" by (rule plain_fp_round_trip)
  with m show ?thesis
    by (simp add: fpOf_def decodedOf_def kv_bucket_of_def demoFpStore_def bkt_get_def plain_fp_def fun_eq_iff)
qed

lemma wf_demoFpStore [simp]: "wf_fpstore plain_fp demoFpStore"
proof -
  obtain m where m: "plain_marshalFP demoFp = Ok m" by (simp add: plain_marshalFP_def)
  then have "plain_unmarshalFP m = Ok demoFp" by (rule plain_fp_round_trip)
  with m show ?thesis
    by (auto simp: wf_fpstore_def demoFpStore_def kv_ok_def bucket_ok_def bkt_get_def plain_fp_def demoFp_def
        split: if_splits)
qed

lemma ser_plain_fp [simp]: "fx_SerializePubKey plain_fp pk = pk"
  by (simp add: plain_fp_def)

lemma demo_set: "f demoFp = Ok fp' \<Longrightarrow> \<exists>db'. setFinalityProviderState plain_fp NoFault ''pk'' f demoFpStore = (Ok (), db')"
  by (rule plain_fp.setFinalityProviderState_succeeds [OF wf_demoFpStore])
    (auto simp: plain_fp_def plain_marshalFP_def fpOf_demoFpStore [unfolded plain_fp_def])

lemma demo_set_height: "\<exists>db'. SetFpLastVotedHeight plain_fp NoFault ''pk'' h demoFpStore = (Ok (), db')"
  unfolding SetFpLastVotedHeight_def by (rule demo_set) (rule refl)

section \<open>Creation\<close>

lemma createFinalityProviderInternal_dup:
  assumes wf: "wf_fpstore x db" and "fpOf x db (pf_BtcPk fp) \<noteq> None"
  shows "createFinalityProviderInternal x flt fp db =
    (Err (Wrapf ''failed to create finality provider: '' (Sentinel ErrDuplicateFinalityProvider)), db)"
proof -
  from wf obtain b where b: "kv_open db" "kv_buckets db finalityProviderBucketName = Some b"
    unfolding wf_fpstore_def by blast
  with assms(2) have "bkt_get b (pf_BtcPk fp) \<noteq> None"
    by (auto simp: fpOf_def decodedOf_bucket split: option.splits)
  with b show ?thesis
    by (simp add: createFinalityProviderInternal_def wrapS_def kv_update_def write_bucket_def)
qed

context fp_codec
begin

lemma createFinalityProviderInternal_Ok:
  assumes wf: "wf_fpstore x db" and run: "createFinalityProviderInternal x flt fp db = (Ok u, db')"
  shows "wf_fpstore x db' \<and> fpOf x db (pf_BtcPk fp) = None \<and> fpOf x db' = (fpOf x db)(pf_BtcPk fp \<mapsto> fp)"
proof -
  from run obtain b m where b: "kv_buckets db finalityProviderBucketName = Some b"
    and new: "bkt_get b (pf_BtcPk fp) = None" and m: "fx_MarshalFP x fp = Ok m"
    and db': "db' = db\<lparr>kv_buckets := (kv_buckets db)(finalityProviderBucketName \<mapsto> bkt_put b (pf_BtcPk fp) m)\<rparr>"
    by (auto simp: createFinalityProviderInternal_def saveFinalityProvider_def go_simps split: if_splits)
  have m': "fx_UnmarshalFP x m = Ok fp" using m by (rule fp_round_trip)
  have "fpOf x db' = (fpOf x db)(pf_BtcPk fp \<mapsto> fp)"
    unfolding fpOf_def using b m' db' by (rule decodedOf_put [where dec = "fx_UnmarshalFP x"])
  moreover have "fpOf x db (pf_BtcPk fp) = None" using b new by (simp add: fpOf_def decodedOf_bucket)
  moreover have "wf_fpstore x db'" using wf b db' m' by (auto simp: wf_fpstore_def kv_ok_def bk.get_put)
  ultimately show ?thesis by blast
qed

end

section \<open>Properties\<close>

text \<open>A created finality provider is read back as it was given, registered and with last voted
  height 0; the other providers are untouched; and creating one with the same key again fails with
  \<^verbatim>\<open>ErrDuplicateFinalityProvider\<close> and changes nothing.\<close>

theorem CreateFinalityProvider_round_trip:
  assumes "fp_codec x" and "wf_fpstore x db" and "fx_ParsePubKey x (fx_SerializePubKey x pk) = Ok pk'"
    and "CreateFinalityProvider x flt now addr pk ds cr chain db = (Ok u, db')"
  shows "wf_fpstore x db' \<and>
    GetFinalityProvider x NoFault pk db' = Ok \<lparr>sf_FPAddr = addr, sf_BtcPk = pk', sf_Description = ds,
      sf_Commission = cr_Rate cr, sf_ChainID = chain, sf_LastVotedHeight = 0, sf_Status = REGISTERED,
      sf_CommissionInfo = Some (NewCommissionInfoWithTime x (cr_MaxRate cr) (cr_MaxChangeRate cr) now)\<rparr> \<and>
    (\<forall>k. k \<noteq> fx_SerializePubKey x pk \<longrightarrow> fpOf x db' k = fpOf x db k) \<and>
    (\<exists>e. CreateFinalityProvider x flt' now' addr' pk ds cr' chain' db' = (Err e, db') \<and>
      error_is e ErrDuplicateFinalityProvider)"
proof -
  from assms(4) obtain desBytes fp where des: "fx_DescMarshal x ds = Ok desBytes"
    and fp: "fp = \<lparr>pf_FpAddr = addr, pf_BtcPk = fx_SerializePubKey x pk, pf_Description = desBytes,
        pf_Commission = fx_DecString x (cr_Rate cr), pf_ChainId = chain, pf_LastVotedHeight = 0,
        pf_Status = REGISTERED, pf_CommissionInfo = Some (NewCommissionInfoWithTime x (cr_MaxRate cr)
          (cr_MaxChangeRate cr) now)\<rparr>"
    and run: "createFinalityProviderInternal x flt fp db = (Ok u, db')"
    by (auto simp: CreateFinalityProvider_def go_simps)
  note R = fp_codec.createFinalityProviderInternal_Ok [OF assms(1,2) run]
  have "\<exists>e. CreateFinalityProvider x flt' now' addr' pk ds cr' chain' db' = (Err e, db') \<and>
      error_is e ErrDuplicateFinalityProvider"
    using createFinalityProviderInternal_dup [of x db'] R fp des
    by (simp add: CreateFinalityProvider_def sbind_def liftR_def)
  then show ?thesis
    using R fp des assms(3) fp_codec.GetFinalityProvider_refines [OF assms(1), of db' pk]
      fp_codec.desc_round_trip [OF assms(1) des] fp_codec.dec_round_trip [OF assms(1)]
    by (simp add: protoFpToStoredFinalityProvider_def)
qed

definition demo_rates :: "bytes CommissionRates" where
  "demo_rates = \<lparr>cr_Rate = ''0.1'', cr_MaxRate = ''0.5'', cr_MaxChangeRate = ''0.01''\<rparr>"

lemma demo_create:
  "\<exists>db'. CreateFinalityProvider plain_fp NoFault 5 ''bbn1'' ''pk'' ''desc'' demo_rates ''bbn-1'' emptyFpStore = (Ok (), db')"
  by (simp add: CreateFinalityProvider_def plain_fp_def sbind_def liftR_def createFinalityProviderInternal_def
      wrapS_def kv_update_def write_bucket_def emptyFpStore_def saveFinalityProvider_def plain_marshalFP_def)

theorem CreateFinalityProvider_round_trip_witness:
  "\<exists>db' sfp. CreateFinalityProvider plain_fp NoFault 5 ''bbn1'' ''pk'' ''desc'' demo_rates ''bbn-1'' emptyFpStore = (Ok (), db') \<and>
     GetFinalityProvider plain_fp NoFault ''pk'' db' = Ok sfp \<and> sf_Status sfp = REGISTERED"
proof -
  obtain db' where run: "CreateFinalityProvider plain_fp NoFault 5 ''bbn1'' ''pk'' ''desc'' demo_rates ''bbn-1'' emptyFpStore = (Ok (), db')"
    using demo_create by blast
  have "fx_ParsePubKey plain_fp (fx_SerializePubKey plain_fp ''pk'') = Ok ''pk''" by (simp add: plain_fp_def)
  from CreateFinalityProvider_round_trip [OF plain_fp.fp_codec_axioms wf_emptyFpStore this run] run
  show ?thesis by auto
qed

text \<open>The stored last voted height only grows: after a successful update it is the larger of the
  old and the given height, every other field of the record and every other provider is unchanged, and
  an update for an unknown provider fails with \<^verbatim>\<open>ErrFinalityProviderNotFound\<close>.\<close>

theorem SetFpLastVotedHeight_monotone:
  assumes "fp_codec x" and "wf_fpstore x db"
  shows "(\<forall>u db'. SetFpLastVotedHeight x flt pk h db = (Ok u, db') \<longrightarrow>
      wf_fpstore x db' \<and> (\<exists>fp. fpOf x db (fx_SerializePubKey x pk) = Some fp \<and>
        fpOf x db' = (fpOf x db)(fx_SerializePubKey x pk \<mapsto>
          fp\<lparr>pf_LastVotedHeight := max (pf_LastVotedHeight fp) h\<rparr>))) \<and>
    (fpOf x db (fx_SerializePubKey x pk) = None \<longrightarrow>
      (\<exists>e. SetFpLastVotedHeight x flt pk h db = (Err e, db) \<and> error_is e ErrFinalityProviderNotFound))"
proof -
  have max: "(if pf_LastVotedHeight fp < h then fp\<lparr>pf_LastVotedHeight := h\<rparr> else fp) =
      fp\<lparr>pf_LastVotedHeight := max (pf_LastVotedHeight fp) h\<rparr>" for fp
    by (cases fp) (auto simp: max_def not_le)
  show ?thesis
    using fp_codec.setFinalityProviderState_missing [OF assms, of pk]
      fp_codec.setFinalityProviderState_Ok [OF assms, of flt pk
        "\<lambda>fp. Ok (if pf_LastVotedHeight fp < h then fp\<lparr>pf_LastVotedHeight := h\<rparr> else fp)"]
    unfolding SetFpLastVotedHeight_def max by auto
qed

theorem SetFpLastVotedHeight_monotone_witness:
  "\<exists>db'. SetFpLastVotedHeight plain_fp NoFault ''pk'' 9 demoFpStore = (Ok (), db') \<and>
     fpOf plain_fp db' ''pk'' = Some (demoFp\<lparr>pf_LastVotedHeight := 9\<rparr>)"
proof -
  obtain db' where run: "SetFpLastVotedHeight plain_fp NoFault ''pk'' 9 demoFpStore = (Ok (), db')"
    using demo_set_height by blast
  moreover have "fpOf plain_fp db' ''pk'' = Some (demoFp\<lparr>pf_LastVotedHeight := 9\<rparr>)"
    using SetFpLastVotedHeight_monotone [OF plain_fp.fp_codec_axioms wf_demoFpStore, of NoFault "''pk''" 9] run
    by (simp add: demoFp_def max_def)
  ultimately show ?thesis by blast
qed

text \<open>Voting power decides the status, except for a slashed provider, which keeps its status and
  its record: power makes a provider active, the loss of power makes an active provider inactive, and
  any other provider without power keeps its status; the returned status is the stored one.\<close>

theorem UpdateFpStatusFromVotingPower_transitions:
  assumes "fp_codec x" and "wf_fpstore x db"
    and "UpdateFpStatusFromVotingPower x flt hasPower sfp db = ((st, Ok u), db')"
  shows "st = (if sf_Status sfp = SLASHED then SLASHED else if hasPower then ACTIVE
      else if sf_Status sfp = ACTIVE then INACTIVE else sf_Status sfp) \<and>
    (if sf_Status sfp = SLASHED \<or> (\<not> hasPower \<and> sf_Status sfp \<noteq> ACTIVE) then db' = db
     else \<exists>fp. fpOf x db (fx_SerializePubKey x (sf_BtcPk sfp)) = Some fp \<and>
       fpOf x db' = (fpOf x db)(fx_SerializePubKey x (sf_BtcPk sfp) \<mapsto> fp\<lparr>pf_Status := st\<rparr>))"
proof -
  have set: "\<exists>fp. fpOf x db (fx_SerializePubKey x pk) = Some fp \<and>
      fpOf x db2 = (fpOf x db)(fx_SerializePubKey x pk \<mapsto> fp\<lparr>pf_Status := s\<rparr>)"
    if "SetFpStatus x flt pk s db = (Ok u, db2)" for pk s db2
    using fp_codec.setFinalityProviderState_Ok [OF assms(1,2) that [unfolded SetFpStatus_def]] by auto
  show ?thesis using assms(3) set
    by (auto simp: UpdateFpStatusFromVotingPower_def split: if_splits prod.splits)
qed

theorem UpdateFpStatusFromVotingPower_transitions_witness:
  "UpdateFpStatusFromVotingPower plain_fp NoFault True \<lparr>sf_FPAddr = [], sf_BtcPk = ''pk'', sf_Description = [],
     sf_Commission = [], sf_ChainID = [], sf_LastVotedHeight = 4, sf_Status = SLASHED, sf_CommissionInfo = None\<rparr>
     emptyFpStore = ((SLASHED, Ok ()), emptyFpStore)"
proof -
  let ?sfp = "\<lparr>sf_FPAddr = [], sf_BtcPk = ''pk'', sf_Description = [], sf_Commission = [], sf_ChainID = [],
     sf_LastVotedHeight = 4, sf_Status = SLASHED, sf_CommissionInfo = None\<rparr>"
  obtain st r db' where run: "UpdateFpStatusFromVotingPower plain_fp NoFault True ?sfp emptyFpStore = ((st, r), db')"
    by (metis surj_pair)
  then have "r = Ok ()" by (auto simp: UpdateFpStatusFromVotingPower_def)
  with UpdateFpStatusFromVotingPower_transitions [OF plain_fp.fp_codec_axioms wf_emptyFpStore] run
  show ?thesis by fastforce
qed

text \<open>The cached record agrees with the stored one.\<close>

definition synced :: "('pk, 'ds, 'dc) fp_ext \<Rightarrow> ('pk, 'ds, 'dc) FpState \<Rightarrow> bool" where
  "synced x fps \<longleftrightarrow> wf_fpstore x (fps_s fps) \<and>
     (\<exists>fp. fpOf x (fps_s fps) (fx_SerializePubKey x (sf_BtcPk (fps_sfp fps))) = Some fp \<and>
       pf_Status fp = GetStatus fps \<and> pf_LastVotedHeight fp = GetLastVotedHeight fps)"

lemma SetStatus_synced:
  assumes "fp_codec x" and "synced x fps" and "SetStatus x flt st fps = (Ok u, fps')"
  shows "synced x fps' \<and> GetStatus fps' = st"
proof -
  from assms(2) obtain fp where wf: "wf_fpstore x (fps_s fps)"
    and fp: "fpOf x (fps_s fps) (fx_SerializePubKey x (sf_BtcPk (fps_sfp fps))) = Some fp"
    "pf_Status fp = GetStatus fps" "pf_LastVotedHeight fp = GetLastVotedHeight fps"
    by (auto simp: synced_def)
  from assms(3) obtain db' where db: "SetFpStatus x flt (sf_BtcPk (fps_sfp fps)) st (fps_s fps) = (Ok u, db')"
    and fps': "fps' = fps\<lparr>fps_sfp := (fps_sfp fps)\<lparr>sf_Status := st\<rparr>, fps_s := db'\<rparr>"
    by (auto simp: SetStatus_def on_store_def go_simps split: prod.splits)
  from fp_codec.setFinalityProviderState_Ok [OF assms(1) wf db [unfolded SetFpStatus_def]] fp fps' show ?thesis
    by (auto simp: synced_def GetStatus_def GetLastVotedHeight_def)
qed

lemma SetLastVotedHeight_synced:
  assumes "fp_codec x" and "synced x fps" and "SetLastVotedHeight x flt h fps = (Ok u, fps')"
  shows "synced x fps' \<longleftrightarrow> GetLastVotedHeight fps \<le> h"
proof -
  from assms(2) obtain fp where wf: "wf_fpstore x (fps_s fps)"
    and fp: "fpOf x (fps_s fps) (fx_SerializePubKey x (sf_BtcPk (fps_sfp fps))) = Some fp"
    "pf_Status fp = GetStatus fps" "pf_LastVotedHeight fp = GetLastVotedHeight fps"
    by (auto simp: synced_def)
  from assms(3) obtain db' where db: "SetFpLastVotedHeight x flt (sf_BtcPk (fps_sfp fps)) h (fps_s fps) = (Ok u, db')"
    and fps': "fps' = fps\<lparr>fps_sfp := (fps_sfp fps)\<lparr>sf_LastVotedHeight := h\<rparr>, fps_s := db'\<rparr>"
    by (auto simp: SetLastVotedHeight_def on_store_def go_simps split: prod.splits)
  from fp_codec.setFinalityProviderState_Ok [OF assms(1) wf db [unfolded SetFpLastVotedHeight_def]] fp fps'
  show ?thesis by (auto simp: synced_def GetStatus_def GetLastVotedHeight_def)
qed

text \<open>Whatever the store answers, the cache takes the new value.\<close>

lemma SetLastVotedHeight_cache: "SetLastVotedHeight x flt h fps = (r, fps') \<Longrightarrow>
    GetLastVotedHeight fps' = h \<and> GetStatus fps' = GetStatus fps"
  by (auto simp: SetLastVotedHeight_def on_store_def wrapS_def GetLastVotedHeight_def GetStatus_def split: prod.splits)

lemma SetStatus_cache: "SetStatus x flt st fps = (r, fps') \<Longrightarrow>
    GetStatus fps' = st \<and> GetLastVotedHeight fps' = GetLastVotedHeight fps"
  by (auto simp: SetStatus_def on_store_def wrapS_def GetLastVotedHeight_def GetStatus_def split: prod.splits)

text \<open>The cache of a running provider follows the store: setting the status keeps them equal, and
  setting the last voted height keeps them equal exactly when the new height is not below the old one;
  a lower height lowers the cache only.\<close>

theorem FpState_setters_synced:
  assumes "fp_codec x" and "synced x fps"
  shows "(\<forall>u fps'. SetStatus x flt st fps = (Ok u, fps') \<longrightarrow> synced x fps' \<and> GetStatus fps' = st) \<and>
    (\<forall>u fps'. SetLastVotedHeight x flt h fps = (Ok u, fps') \<longrightarrow>
      GetLastVotedHeight fps' = h \<and> (synced x fps' \<longleftrightarrow> GetLastVotedHeight fps \<le> h))"
  using SetStatus_synced [OF assms] SetLastVotedHeight_synced [OF assms] SetLastVotedHeight_cache by blast

theorem FpState_setters_synced_witness:
  "\<exists>fps fps'. synced plain_fp fps \<and> GetLastVotedHeight fps = 4 \<and>
     SetLastVotedHeight plain_fp NoFault 3 fps = (Ok (), fps') \<and> \<not> synced plain_fp fps'"
proof -
  let ?sfp = "\<lparr>sf_FPAddr = [], sf_BtcPk = ''pk'', sf_Description = [], sf_Commission = [], sf_ChainID = [],
     sf_LastVotedHeight = 4, sf_Status = ACTIVE, sf_CommissionInfo = None\<rparr>"
  let ?fps = "NewFpState ?sfp demoFpStore"
  have sync: "synced plain_fp ?fps"
    by (simp add: synced_def NewFpState_def GetStatus_def GetLastVotedHeight_def demoFp_def)
  obtain db' where "SetFpLastVotedHeight plain_fp NoFault ''pk'' 3 demoFpStore = (Ok (), db')"
    using demo_set_height by blast
  then obtain fps' where run: "SetLastVotedHeight plain_fp NoFault 3 ?fps = (Ok (), fps')"
    by (auto simp: SetLastVotedHeight_def on_store_def NewFpState_def sbind_def wrapS_def)
  with FpState_setters_synced [OF plain_fp.fp_codec_axioms sync] sync show ?thesis
    by (intro exI [of _ ?fps] exI [of _ fps']) (auto simp: NewFpState_def GetLastVotedHeight_def)
qed

end
