(* ===== verification/Service_Base.thy ===== *)
theory Service_Base
  imports Consumer_Client
begin

text \<open>
  What the services of a running finality provider rely on: the retry helper with the options every call
  uses (\<^verbatim>\<open>RtyAtt\<close>, \<^verbatim>\<open>RtyErr\<close> of \<^verbatim>\<open>service/chain_poller.go\<close>), the interface \<^verbatim>\<open>api.ConsumerController\<close> as a
  record of its query methods, the Babylon implementation as an instance of it, and the guarantee of the
  implementation the services use (\<open>block_source\<close>).
\<close>

section \<open>Retrying\<close>

definition RtyAttNum :: nat where
  "RtyAttNum = 5"

text \<open>\<^verbatim>\<open>retry.Do\<close> with \<^verbatim>\<open>Attempts(n)\<close> and \<^verbatim>\<open>LastErrorOnly\<close>: the \<open>i\<close>-th attempt gives \<open>f i\<close>; the first success
  ends the loop, and the error of the last attempt is returned. A cancelled context shows as attempts that
  fail with the context's error.\<close>

fun retryFrom :: "nat \<Rightarrow> nat \<Rightarrow> (nat \<Rightarrow> 'a go) \<Rightarrow> 'a go" where
  "retryFrom 0 i f = Err (ErrText ''no attempts'')"
| "retryFrom (Suc n) i f =
     (case f i of Ok a \<Rightarrow> Ok a | Crash c \<Rightarrow> Crash c
      | Err e \<Rightarrow> if n = 0 then Err e else retryFrom n (Suc i) f)"

definition retryDo :: "(nat \<Rightarrow> 'a go) \<Rightarrow> 'a go" where
  "retryDo f = retryFrom RtyAttNum 0 f"

lemma retryFrom_Ok:
  "retryFrom n i f = Ok a \<longleftrightarrow> (\<exists>k < n. f (i + k) = Ok a \<and> (\<forall>j < k. \<exists>e. f (i + j) = Err e))"
proof (induction n arbitrary: i)
  case (Suc n)
  show ?case
  proof (cases "f i")
    case (Ok b)
    then show ?thesis by (auto simp: all_less_Suc_split ex_less_Suc_split)
  next
    case (Err e)
    then have "retryFrom (Suc n) i f = Ok a \<longleftrightarrow> retryFrom n (Suc i) f = Ok a" by auto
    also have "\<dots> \<longleftrightarrow> (\<exists>k < n. f (Suc i + k) = Ok a \<and> (\<forall>j < k. \<exists>e. f (Suc i + j) = Err e))" by (rule Suc.IH)
    also have "\<dots> \<longleftrightarrow> (\<exists>k < Suc n. f (i + k) = Ok a \<and> (\<forall>j < k. \<exists>e. f (i + j) = Err e))"
      using Err by (simp add: ex_less_Suc_split all_less_Suc_split)
    finally show ?thesis .
  next
    case (Crash c)
    then show ?thesis by (auto simp: ex_less_Suc_split all_less_Suc_split)
  qed
qed simp

lemma retryDo_Ok: "retryDo f = Ok a \<longleftrightarrow> (\<exists>k < RtyAttNum. f k = Ok a \<and> (\<forall>j < k. \<exists>e. f j = Err e))"
  by (simp add: retryDo_def retryFrom_Ok)

text \<open>A success among the attempts is found unless an attempt before it ends the process.\<close>

lemma retryDo_first: "k < RtyAttNum \<Longrightarrow> f k = Ok a \<Longrightarrow> (\<And>j. j < k \<Longrightarrow> \<exists>e. f j = Err e) \<Longrightarrow> retryDo f = Ok a"
  by (auto simp: retryDo_Ok)

lemma retryFrom_const: "retryFrom (Suc n) i (\<lambda>_. r) = r"
  by (induction n arbitrary: i) (auto split: go.splits)

lemma retryDo_const [simp]: "retryDo (\<lambda>_. r) = r"
  by (simp add: retryDo_def RtyAttNum_def eval_nat_numeral retryFrom_const del: retryFrom.simps)

section \<open>The consumer chain interface\<close>

record 'pk ConsumerController =
  cc_QueryLatestFinalizedBlock :: "BlockInfo option go"
  cc_QueryBlock :: "u64 \<Rightarrow> BlockInfo go"
  cc_QueryBlocks :: "u64 \<Rightarrow> u64 \<Rightarrow> u32 \<Rightarrow> BlockInfo list go"
  cc_QueryLatestBlock :: "BlockInfo option go"
  cc_QueryFinalityActivationBlockHeight :: "u64 go"
  cc_QueryLastPubRandCommit :: "'pk \<Rightarrow> BabylonPubRandCommit option go"
  cc_QueryFinalityProviderHasPower :: "'pk \<Rightarrow> u64 \<Rightarrow> bool go"
  cc_QueryFinalityProviderStatus :: "'pk \<Rightarrow> (bool \<times> bool) go"
  cc_QueryFinalityProviderHighestVotedHeight :: "'pk \<Rightarrow> u64 go"
  cc_Close :: "unit go"

definition babylonConsumer ::
  "('pk, 'fv, 'sc, 'sg, 'pr) bbn_ext \<Rightarrow> 'm bbn_client \<Rightarrow> 'pk ConsumerController" where
  "babylonConsumer x c =
     \<lparr>cc_QueryLatestFinalizedBlock = QueryLatestFinalizedBlock c,
      cc_QueryBlock = QueryBlock c,
      cc_QueryBlocks = QueryBlocks x c,
      cc_QueryLatestBlock = rbind (QueryLatestBlock c) (\<lambda>b. Ok (Some b)),
      cc_QueryFinalityActivationBlockHeight = QueryFinalityActivationBlockHeight c,
      cc_QueryLastPubRandCommit = QueryLastPubRandCommit x c,
      cc_QueryFinalityProviderHasPower = QueryFinalityProviderHasPower x c,
      cc_QueryFinalityProviderStatus = QueryFinalityProviderStatus x c,
      cc_QueryFinalityProviderHighestVotedHeight = QueryFinalityProviderHighestVotedHeight x c,
      cc_Close = consumer_Close c\<rparr>"

text \<open>What every implementation owes the services: a block queried by height has that height, and a range
  never holds one height twice.\<close>

locale block_source =
  fixes cc :: "'pk ConsumerController"
  assumes block_height: "cc_QueryBlock cc h = Ok b \<Longrightarrow> bi_height b = h"
    and blocks_distinct: "cc_QueryBlocks cc s e l = Ok bs \<Longrightarrow> distinct (map bi_height bs)"
    and blocks_range: "e < s \<Longrightarrow> cc_QueryBlocks cc s e l \<noteq> Ok bs"
    and last_commit_valid: "cc_QueryLastPubRandCommit cc pk = Ok (Some cm) \<Longrightarrow> 1 \<le> bp_NumPubRand cm"

lemma queryLatestBlocks_distinct: "queryLatestBlocks c k n st rv = Ok bs \<Longrightarrow> distinct (map bi_height bs)"
proof -
  assume "queryLatestBlocks c k n st rv = Ok bs"
  moreover have "bi_height \<circ> (\<lambda>b :: IndexedBlock. NewBlockInfo (ib_Height b) (ib_AppHash b) (ib_Finalized b)) = ib_Height"
    by (simp add: fun_eq_iff NewBlockInfo_def)
  ultimately show ?thesis by (auto simp: queryLatestBlocks_def Let_def go_simps)
qed

lemma commit_Validate_Ok [go_simps]: "commit_Validate cm = Ok u \<longleftrightarrow> 1 \<le> bp_NumPubRand cm"
proof -
  have "commit_Validate cm = Ok u \<longleftrightarrow> \<not> bp_NumPubRand cm < 1" by (simp only: commit_Validate_def) simp
  then show ?thesis by (simp only: not_less)
qed

lemma QueryLastPubRandCommit_valid:
  assumes "QueryLastPubRandCommit x c pk = Ok (Some cm)"
  shows "1 \<le> bp_NumPubRand cm"
proof -
  from assms obtain res :: CommitPage where "(case cp_Map res of [] \<Rightarrow> Ok None
      | [(height, commitRes)] \<Rightarrow> let commit = toCommit height commitRes in
          rbind (wrap ''failed to validate public randomness commitment: '' (commit_Validate commit)) (\<lambda>_. Ok (Some commit))
      | m \<Rightarrow> Err (ErrText (''expected length to be 1, but get :'' @ fmt_nat (length m)))) = Ok (Some cm)"
    unfolding QueryLastPubRandCommit_def by (auto simp: rbind_eq_Ok)
  then show ?thesis
    by (cases "cp_Map res"; cases "tl (cp_Map res)") (auto simp: Let_def go_simps)
qed

interpretation babylon: block_source "babylonConsumer x c" for x c
proof
  fix h b s e l bs pk cm
  show "bi_height b = h" if "cc_QueryBlock (babylonConsumer x c) h = Ok b"
    using that by (auto simp: babylonConsumer_def QueryBlock_def NewBlockInfo_def go_simps)
  show "distinct (map bi_height bs)" if "cc_QueryBlocks (babylonConsumer x c) s e l = Ok bs"
    using that by (auto simp: babylonConsumer_def QueryBlocks_def Let_def split: if_splits intro: queryLatestBlocks_distinct)
  show "cc_QueryBlocks (babylonConsumer x c) s e l \<noteq> Ok bs" if "e < s"
    using that by (simp add: babylonConsumer_def QueryBlocks_def)
  show "1 \<le> bp_NumPubRand cm" if "cc_QueryLastPubRandCommit (babylonConsumer x c) pk = Ok (Some cm)"
    using that by (auto simp: babylonConsumer_def intro: QueryLastPubRandCommit_valid)
qed

end
