(* ===== verification/Start_Height.thy ===== *)
theory Start_Height
  imports Service_Base
begin

text \<open>
  Where a finality provider starts to process blocks: \<^verbatim>\<open>finality-provider/service/bootstrap.go\<close> and the
  poller's configuration \<^verbatim>\<open>finality-provider/config/poller.go\<close>. Each of the three chain queries is retried
  on its own; \<open>cc p i\<close> is the consumer chain as seen by attempt \<open>i\<close> of query \<open>p\<close>.
\<close>

section \<open>Configuration\<close>

record ChainPollerConfig =
  pc_BufferSize :: u32
  pc_PollInterval :: int
  pc_StaticChainScanningStartHeight :: u64
  pc_AutoChainScanningMode :: bool
  pc_PollSize :: u32

definition DefaultChainPollerConfig :: ChainPollerConfig where
  "DefaultChainPollerConfig = \<lparr>pc_BufferSize = 1000, pc_PollInterval = 1000000000,
     pc_StaticChainScanningStartHeight = 1, pc_AutoChainScanningMode = True, pc_PollSize = 1000\<rparr>"

definition poller_Validate :: "ChainPollerConfig \<Rightarrow> unit go" where
  "poller_Validate c =
     (if pc_BufferSize c = 0 then Err (ErrText (''invalid buffersize: '' @ fmt_nat (unat (pc_BufferSize c))))
      else if pc_PollSize c = 0 then Err (ErrText (''invalid pollsize: '' @ fmt_nat (unat (pc_PollSize c))))
      else if pc_PollInterval c = 0 then Err (ErrText (''invalid pollinterval: '' @ fmt_int (pc_PollInterval c)))
      else Ok ())"

section \<open>Start height\<close>

definition highestVotedHeightWithRetry ::
  "('bpk \<Rightarrow> 'pk go) \<Rightarrow> (nat \<Rightarrow> 'pk ConsumerController) \<Rightarrow> 'bpk \<Rightarrow> u64 go" where
  "highestVotedHeightWithRetry toBTCPK cc btcPk =
     wrap ''failed to query the highest voted height: '' (retryDo (\<lambda>i.
       rbind (must (toBTCPK btcPk)) (\<lambda>pk.
         wrap ''failed to query the highest voted height: '' (cc_QueryFinalityProviderHighestVotedHeight (cc i) pk))))"

definition latestFinalizedHeightWithRetry :: "(nat \<Rightarrow> 'pk ConsumerController) \<Rightarrow> u64 go" where
  "latestFinalizedHeightWithRetry cc =
     wrap ''failed to query the latest finalized height: '' (retryDo (\<lambda>i.
       rbind (wrap ''failed to query the latest finalized height: '' (cc_QueryLatestFinalizedBlock (cc i))) (\<lambda>block.
         Ok (case block of None \<Rightarrow> 0 | Some b \<Rightarrow> bi_height b))))"

definition getFinalityActivationHeightWithRetry :: "(nat \<Rightarrow> 'pk ConsumerController) \<Rightarrow> u64 go" where
  "getFinalityActivationHeightWithRetry cc =
     wrap ''failed to query the finality activation height: '' (retryDo (\<lambda>i.
       wrap ''failed to query the finality activation height: '' (cc_QueryFinalityActivationBlockHeight (cc i))))"

definition DetermineStartHeight ::
  "('bpk \<Rightarrow> 'pk go) \<Rightarrow> (nat \<Rightarrow> nat \<Rightarrow> 'pk ConsumerController) \<Rightarrow> ChainPollerConfig \<Rightarrow> 'bpk option \<Rightarrow> u64 go option \<Rightarrow> u64 go" where
  "DetermineStartHeight toBTCPK cc cfg btcPk lastVotedHeightFunc =
     (case btcPk of
        None \<Rightarrow> Err (ErrText ''BIP340 public key cannot be nil'')
      | Some btcPk \<Rightarrow>
          (case lastVotedHeightFunc of
             None \<Rightarrow> Err (ErrText ''lastVotedHeightFunc cannot be nil'')
           | Some lastVoted \<Rightarrow>
               if \<not> pc_AutoChainScanningMode cfg then Ok (pc_StaticChainScanningStartHeight cfg)
               else
                 rbind (wrap ''failed to get the highest voted height: '' (highestVotedHeightWithRetry toBTCPK (cc 0) btcPk)) (\<lambda>highestVotedHeight.
                 rbind (wrap ''failed to get the last finalized height: '' (latestFinalizedHeightWithRetry (cc 1))) (\<lambda>lastFinalizedHeight.
                 rbind (wrap ''failed to get last voted height: '' lastVoted) (\<lambda>lastVotedHeight.
                 let startHeight = max lastVotedHeight (max highestVotedHeight lastFinalizedHeight) + 1 in
                 rbind (wrap ''failed to get finality activation height: '' (getFinalityActivationHeightWithRetry (cc 2))) (\<lambda>finalityActivationHeight.
                 Ok (max startHeight finalityActivationHeight)))))))"

section \<open>Properties\<close>

text \<open>C32. In automatic mode the start height is above every height the provider knows to have voted for, above
  every height the chain recorded a vote for, above the last finalized height, and not below the
  activation height; it is the least such height. In static mode it is the configured height. The
  premise excludes the largest 64-bit number, where the addition would wrap to 0.\<close>

theorem DetermineStartHeight_least:
  assumes "DetermineStartHeight toBTCPK cc cfg (Some btcPk) (Some (Ok lastVoted)) = Ok h"
    and "highestVotedHeightWithRetry toBTCPK (cc 0) btcPk = Ok highestVoted"
    and "latestFinalizedHeightWithRetry (cc 1) = Ok lastFinalized"
    and "getFinalityActivationHeightWithRetry (cc 2) = Ok activation"
    and "lastVoted \<noteq> - 1" "highestVoted \<noteq> - 1" "lastFinalized \<noteq> - 1"
  shows "if pc_AutoChainScanningMode cfg
    then lastVoted < h \<and> highestVoted < h \<and> lastFinalized < h \<and> activation \<le> h \<and>
      (\<forall>h'. lastVoted < h' \<and> highestVoted < h' \<and> lastFinalized < h' \<and> activation \<le> h' \<longrightarrow> h \<le> h')
    else h = pc_StaticChainScanningStartHeight cfg"
proof (cases "pc_AutoChainScanningMode cfg")
  case True
  let ?m = "max lastVoted (max highestVoted lastFinalized)"
  have h: "h = max (?m + 1) activation" using assms(1-4) True by (simp add: DetermineStartHeight_def Let_def)
  have "?m \<noteq> - 1" using assms(5-7) by (simp add: max_def)
  then have m: "b < ?m + 1" if "b \<le> ?m" for b using that by (rule word_less_add_1)
  have "?m + 1 \<le> h'" if "?m < h'" for h' using that by unat_arith
  then have "h \<le> h'" if "lastVoted < h' \<and> highestVoted < h' \<and> lastFinalized < h' \<and> activation \<le> h'" for h'
    using that unfolding h by simp
  moreover have "lastVoted < ?m + 1" "highestVoted < ?m + 1" "lastFinalized < ?m + 1"
    by (auto intro: m simp: le_max_iff_disj)
  ultimately show ?thesis using True unfolding h by (simp add: less_max_iff_disj)
next
  case False
  with assms(1) show ?thesis by (simp add: DetermineStartHeight_def)
qed

definition demo_cc :: "bytes ConsumerController" where
  "demo_cc = \<lparr>cc_QueryLatestFinalizedBlock = Ok (Some (NewBlockInfo 8 ''h'' True)),
     cc_QueryBlock = (\<lambda>h. Ok (NewBlockInfo h ''h'' False)),
     cc_QueryBlocks = (\<lambda>s e l. Ok [NewBlockInfo s ''h'' False, NewBlockInfo (s + 1) ''h'' False]),
     cc_QueryLatestBlock = Ok (Some (NewBlockInfo 12 ''h'' False)),
     cc_QueryFinalityActivationBlockHeight = Ok 5,
     cc_QueryLastPubRandCommit = (\<lambda>_. Ok None),
     cc_QueryFinalityProviderHasPower = (\<lambda>_ _. Ok True),
     cc_QueryFinalityProviderStatus = (\<lambda>_. Ok (False, False)),
     cc_QueryFinalityProviderHighestVotedHeight = (\<lambda>_. Ok 6), cc_Close = Ok ()\<rparr>"

theorem DetermineStartHeight_least_witness:
  "\<exists>h. DetermineStartHeight Ok (\<lambda>_ _. demo_cc) DefaultChainPollerConfig (Some ''pk'') (Some (Ok 7)) = Ok h \<and> 8 < h \<and> h \<le> 9"
proof -
  have q: "highestVotedHeightWithRetry Ok (\<lambda>_. demo_cc) ''pk'' = Ok 6" "latestFinalizedHeightWithRetry (\<lambda>_. demo_cc) = Ok 8"
    "getFinalityActivationHeightWithRetry (\<lambda>_. demo_cc) = Ok 5"
    by (simp_all add: highestVotedHeightWithRetry_def latestFinalizedHeightWithRetry_def
        getFinalityActivationHeightWithRetry_def demo_cc_def NewBlockInfo_def)
  then obtain h where run: "DetermineStartHeight Ok (\<lambda>_ _. demo_cc) DefaultChainPollerConfig (Some ''pk'') (Some (Ok 7)) = Ok h"
    by (simp add: DetermineStartHeight_def DefaultChainPollerConfig_def)
  with DetermineStartHeight_least [where cc = "\<lambda>_ _. demo_cc", OF run q] show ?thesis
    by (auto simp: DefaultChainPollerConfig_def)
qed

end
