(* ===== verification/Finality_Submitter.thy ===== *)
theory Finality_Submitter
  imports Eots_Service FP_Store Start_Height
begin

text \<open>
  The vote submission of a running provider (\<^verbatim>\<open>service/finality_submitter.go\<close>): filtering of the blocks by
  the last voted height and the voting power, one submission attempt, and the retry loop around it. The
  submitter's state holds the states of the three parts it drives: the EOTS manager, the consumer chain
  client and the provider's own record. What an attempt meets (the answers of the chain, the faults of the
  databases, the end of the context) is its environment \<open>attempt_env\<close>.
\<close>

section \<open>State and environment\<close>

record ('s, 'c, 'pk, 'ds, 'dc) DefaultFinalitySubmitter =
  ds_Em :: 's
  ds_ConsumerCtrl :: 'c
  ds_State :: "('pk, 'ds, 'dc) FpState"

record FinalitySubmitterConfig =
  fc_MaxSubmissionRetries :: u32
  fc_ContextSigningHeight :: u64
  fc_SubmissionRetryInterval :: int

text \<open>Functions of other packages: the bytes of a public key, the big-endian encoding, the two conversions
  between a scalar and \<^verbatim>\<open>bbntypes.SchnorrEOTSSig\<close>, and the error texts of the chain.\<close>

record ('pk, 'sc) sub_ext =
  sx_PkBytes :: "'pk \<Rightarrow> bytes"
  sx_Uint64ToBigEndian :: "u64 \<Rightarrow> bytes"
  sx_NewSchnorrEOTSSigFromModNScalar :: "'sc \<Rightarrow> bytes"
  sx_ToModNScalar :: "bytes \<Rightarrow> 'sc"
  sx_txt :: "sdkerr \<Rightarrow> string"

record ('s, 'c, 'pk, 'fv, 'sc, 'sg) attempt_env =
  ae_Em :: "('s, 'fv, 'sc, 'sg) EOTSManager"
  ae_ProofListGetterFunc :: "u64 \<Rightarrow> u64 \<Rightarrow> bytes list go"
  ae_SubmitBatchFinalitySigs :: "('pk, 'fv, 'sc) SubmitBatchFinalitySigsRequest \<Rightarrow> ('c, TxResponse option) cmd"
  ae_ConsumerCtrl :: "'pk ConsumerController"
  ae_flt :: dbfault
  ae_ctxDone :: bool

definition on_State :: "(('pk, 'ds, 'dc) FpState, 'a) cmd \<Rightarrow> (('s, 'c, 'pk, 'ds, 'dc) DefaultFinalitySubmitter, 'a) cmd" where
  "on_State m ds = (case m (ds_State ds) of (r, fps) \<Rightarrow> (r, ds\<lparr>ds_State := fps\<rparr>))"

definition on_Em :: "('s, 'a) cmd \<Rightarrow> (('s, 'c, 'pk, 'ds, 'dc) DefaultFinalitySubmitter, 'a) cmd" where
  "on_Em m ds = (case m (ds_Em ds) of (r, em) \<Rightarrow> (r, ds\<lparr>ds_Em := em\<rparr>))"

definition on_ConsumerCtrl :: "('c, 'a) cmd \<Rightarrow> (('s, 'c, 'pk, 'ds, 'dc) DefaultFinalitySubmitter, 'a) cmd" where
  "on_ConsumerCtrl m ds = (case m (ds_ConsumerCtrl ds) of (r, c) \<Rightarrow> (r, ds\<lparr>ds_ConsumerCtrl := c\<rparr>))"

definition GetBtcPk :: "('pk, 'ds, 'dc) FpState \<Rightarrow> 'pk" where
  "GetBtcPk fps = sf_BtcPk (fps_sfp fps)"

text \<open>The state is set once, before the first call.\<close>

definition InitState ::
  "('pk, 'ds, 'dc) FpState \<Rightarrow> (('pk, 'ds, 'dc) FpState option, unit) cmd" where
  "InitState fps st =
     (if st \<noteq> None then (Err (ErrText ''finality provider state is already set''), st) else (Ok (), Some fps))"

text \<open>\<^verbatim>\<open>logger.Fatal\<close> ends the process.\<close>

definition MustSetLastVotedHeight ::
  "('pk, 'ds, 'dc) fp_ext \<Rightarrow> dbfault \<Rightarrow> u64 \<Rightarrow> (('pk, 'ds, 'dc) FpState, unit) cmd" where
  "MustSetLastVotedHeight x flt height fps =
     (case SetLastVotedHeight x flt height fps of
        (Err e, fps) \<Rightarrow>
          if contains (error_text e) ''database not open'' then (Ok (), fps)
          else (Crash ''failed to update state after finality signature submitted'', fps)
      | (r, fps) \<Rightarrow> (r, fps))"

definition mustSetStatus ::
  "('pk, 'ds, 'dc) fp_ext \<Rightarrow> dbfault \<Rightarrow> FinalityProviderStatus \<Rightarrow> (('pk, 'ds, 'dc) FpState, unit) cmd" where
  "mustSetStatus x flt s fps =
     (case SetStatus x flt s fps of
        (Err e, fps) \<Rightarrow> (Crash ''failed to set finality-provider status'', fps)
      | (r, fps) \<Rightarrow> (r, fps))"

section \<open>Filtering\<close>

definition getVotingPowerWithRetry :: "(nat \<Rightarrow> 'pk ConsumerController) \<Rightarrow> 'pk \<Rightarrow> u64 \<Rightarrow> bool go" where
  "getVotingPowerWithRetry cc pk height =
     wrap ''failed to query the voting power: '' (retryDo (\<lambda>i.
       wrap ''failed to query the voting power: '' (cc_QueryFinalityProviderHasPower (cc i) pk height)))"

text \<open>The loop over the blocks returns the blocks kept and the power found for the last block it asked about;
  \<open>q i\<close> answers the queries for the \<open>i\<close>-th block.\<close>

fun filterLoop ::
  "(nat \<Rightarrow> nat \<Rightarrow> 'pk ConsumerController) \<Rightarrow> 'pk \<Rightarrow> u64 \<Rightarrow> nat \<Rightarrow> BlockInfo list \<Rightarrow> bool \<Rightarrow> (BlockInfo list \<times> bool) go" where
  "filterLoop q pk lastVoted i [] hasPower = Ok ([], hasPower)"
| "filterLoop q pk lastVoted i (blk # blocks) hasPower =
     (if bi_height blk \<le> lastVoted then filterLoop q pk lastVoted (Suc i) blocks hasPower
      else rbind (wrap (''failed to get voting power for height '' @ fmt_u64 (bi_height blk) @ '': '')
                   (getVotingPowerWithRetry (q i) pk (bi_height blk))) (\<lambda>hasPower.
           rbind (filterLoop q pk lastVoted (Suc i) blocks hasPower) (\<lambda>(processedBlocks, p).
             Ok (if hasPower then blk # processedBlocks else processedBlocks, p))))"

definition FilterBlocksForVoting ::
  "('pk, 'ds, 'dc) fp_ext \<Rightarrow> (nat \<Rightarrow> nat \<Rightarrow> 'pk ConsumerController) \<Rightarrow> dbfault \<Rightarrow> BlockInfo list \<Rightarrow>
     (('pk, 'ds, 'dc) FpState, BlockInfo list) cmd" where
  "FilterBlocksForVoting x q flt blocks fps =
     sbind (liftR (filterLoop q (GetBtcPk fps) (GetLastVotedHeight fps) 0 blocks False)) (\<lambda>(processedBlocks, hasPower).
     sbind (\<lambda>fps. if hasPower \<and> GetStatus fps \<noteq> ACTIVE then mustSetStatus x flt ACTIVE fps else (Ok (), fps)) (\<lambda>_.
     sbind (\<lambda>fps. if \<not> hasPower \<and> GetStatus fps = ACTIVE then mustSetStatus x flt INACTIVE fps else (Ok (), fps)) (\<lambda>_.
     liftR (Ok processedBlocks)))) fps"

section \<open>One attempt\<close>

definition failedPreconditionErrStr :: string where
  "failedPreconditionErrStr = ''FailedPrecondition''"

fun eotsSignError :: "'a go \<Rightarrow> 'a go" where
  "eotsSignError (Err e) = (if contains (error_text e) failedPreconditionErrStr then Err (Sentinel ErrFailedPrecondition)
     else Err (Wrapf ''failed to sign EOTS: '' e))"
| "eotsSignError r = r"

definition ds_GetPubRandList ::
  "('pk, 'sc) sub_ext \<Rightarrow> ('s, 'fv, 'sc, 'sg) EOTSManager \<Rightarrow> u64 \<Rightarrow> u32 \<Rightarrow>
     (('s, 'c, 'pk, 'ds, 'dc) DefaultFinalitySubmitter, 'fv list) cmd" where
  "ds_GetPubRandList sx em startHeight numPubRand ds =
     wrapS ''failed to create public randomness list: ''
       (on_Em (em_CreateRandomnessPairList em (sx_PkBytes sx (GetBtcPk (ds_State ds))) (GetChainID (ds_State ds))
          startHeight numPubRand)) ds"

definition ds_SignFinalitySig ::
  "('pk, 'sc) sub_ext \<Rightarrow> ('s, 'fv, 'sc, 'sg) EOTSManager \<Rightarrow> BlockInfo \<Rightarrow>
     (('s, 'c, 'pk, 'ds, 'dc) DefaultFinalitySubmitter, bytes) cmd" where
  "ds_SignFinalitySig sx em b ds =
     (case on_Em (em_SignEOTS em (sx_PkBytes sx (GetBtcPk (ds_State ds))) (GetChainID (ds_State ds))
        (MsgToSign (sx_Uint64ToBigEndian sx) b []) (bi_height b)) ds of
        (r, ds) \<Rightarrow> (rbind (eotsSignError r) (\<lambda>sig. Ok (sx_NewSchnorrEOTSSigFromModNScalar sx sig)), ds))"

definition sigMap :: "('sc \<Rightarrow> bytes) \<Rightarrow> 'sc SignDataResponse list \<Rightarrow> u64 \<rightharpoonup> bytes" where
  "sigMap newSig resp = foldl (\<lambda>m sig. m(rs_Height sig \<mapsto> newSig (rs_Signature sig))) Map.empty resp"

definition SignFinalitySigBatch ::
  "('pk, 'sc) sub_ext \<Rightarrow> ('s, 'fv, 'sc, 'sg) EOTSManager \<Rightarrow> BlockInfo list \<Rightarrow>
     (('s, 'c, 'pk, 'ds, 'dc) DefaultFinalitySubmitter, u64 \<rightharpoonup> bytes) cmd" where
  "SignFinalitySigBatch sx em blocks ds =
     (let signDataReq = map (\<lambda>b. \<lparr>rq_Msg = MsgToSign (sx_Uint64ToBigEndian sx) b [], rq_Height = bi_height b\<rparr>) blocks in
      case on_Em (em_SignBatchEOTS em \<lparr>rq_UID = sx_PkBytes sx (GetBtcPk (ds_State ds)),
             rq_ChainID = GetChainID (ds_State ds), rq_SignRequest = signDataReq\<rparr>) ds of
        (r, ds) \<Rightarrow> (rbind (eotsSignError r) (\<lambda>resp. Ok (sigMap (sx_NewSchnorrEOTSSigFromModNScalar sx) resp)), ds))"

text \<open>The blocks that were signed, each with the randomness and the proof at its index in the batch.\<close>

fun validLoop ::
  "(bytes \<Rightarrow> 'sc) \<Rightarrow> (u64 \<rightharpoonup> bytes) \<Rightarrow> 'fv list \<Rightarrow> bytes list \<Rightarrow> nat \<Rightarrow> BlockInfo list \<Rightarrow>
     (BlockInfo \<times> 'fv \<times> bytes \<times> 'sc) list go" where
  "validLoop toScalar batchSigMap prList proofBytesList i [] = Ok []"
| "validLoop toScalar batchSigMap prList proofBytesList i (block # blocks) =
     (case batchSigMap (bi_height block) of
        None \<Rightarrow> validLoop toScalar batchSigMap prList proofBytesList (Suc i) blocks
      | Some sig \<Rightarrow>
          if i < length prList \<and> i < length proofBytesList
          then rbind (validLoop toScalar batchSigMap prList proofBytesList (Suc i) blocks) (\<lambda>rest.
            Ok ((block, prList ! i, proofBytesList ! i, toScalar sig) # rest))
          else Crash ''index out of range'')"

definition submitRequest ::
  "'pk \<Rightarrow> (BlockInfo \<times> 'fv \<times> bytes \<times> 'sc) list \<Rightarrow> ('pk, 'fv, 'sc) SubmitBatchFinalitySigsRequest" where
  "submitRequest pk valid =
     \<lparr>sb_FpPk = pk, sb_Blocks = map fst valid, sb_PubRandList = map (fst \<circ> snd) valid,
      sb_ProofList = map (fst \<circ> snd \<circ> snd) valid, sb_Sigs = map (snd \<circ> snd \<circ> snd) valid\<rparr>"

fun submitError :: "'a go \<Rightarrow> 'a go" where
  "submitError (Err err) =
     (if contains (error_text err) ''jailed'' then Err (Sentinel ErrFinalityProviderJailed)
      else if contains (error_text err) ''slashed'' then Err (Sentinel ErrFinalityProviderSlashed)
      else Err (Wrapf ''failed to submit finality signature to the consumer chain: '' err))"
| "submitError r = r"

definition sendValid ::
  "('s, 'c, 'pk, 'fv, 'sc, 'sg) attempt_env \<Rightarrow> (BlockInfo \<times> 'fv \<times> bytes \<times> 'sc) list \<Rightarrow>
     (('s, 'c, 'pk, 'ds, 'dc) DefaultFinalitySubmitter, TxResponse) cmd" where
  "sendValid env valid ds =
     (case on_ConsumerCtrl (ae_SubmitBatchFinalitySigs env (submitRequest (GetBtcPk (ds_State ds)) valid)) ds of
        (r, ds) \<Rightarrow> (rbind (submitError r) deref, ds))"

definition sendVotes ::
  "('pk, 'ds, 'dc) fp_ext \<Rightarrow> ('s, 'c, 'pk, 'fv, 'sc, 'sg) attempt_env \<Rightarrow> BlockInfo list \<Rightarrow>
     (BlockInfo \<times> 'fv \<times> bytes \<times> 'sc) list \<Rightarrow> (('s, 'c, 'pk, 'ds, 'dc) DefaultFinalitySubmitter, TxResponse option) cmd" where
  "sendVotes x env blocks valid =
     sbind (sendValid env valid) (\<lambda>res.
     if tx_TxHash res = [] then liftR (Ok (Some res))
     else sbind (on_State (MustSetLastVotedHeight x (ae_flt env) (bi_height (last blocks)))) (\<lambda>_. liftR (Ok (Some res))))"

definition submitBatchFinalitySignaturesOnce ::
  "('pk, 'ds, 'dc) fp_ext \<Rightarrow> ('pk, 'sc) sub_ext \<Rightarrow> ('s, 'c, 'pk, 'fv, 'sc, 'sg) attempt_env \<Rightarrow> BlockInfo list \<Rightarrow>
     (('s, 'c, 'pk, 'ds, 'dc) DefaultFinalitySubmitter, TxResponse option) cmd" where
  "submitBatchFinalitySignaturesOnce x sx env blocks =
     (if blocks = [] then liftR (Err (ErrText ''should not submit batch finality signature with zero block''))
      else if 2 ^ 32 - 1 < length blocks
      then liftR (Err (ErrText ''should not submit batch finality signature with too many blocks''))
      else let numPubRand = of_nat (length blocks) :: u32; startHeight = bi_height (hd blocks) in
        sbind (wrapS (''failed to get public randomness for height '' @ fmt_u64 startHeight @ '': '')
          (ds_GetPubRandList sx (ae_Em env) startHeight numPubRand)) (\<lambda>prList.
        sbind (liftR (case ae_ProofListGetterFunc env startHeight (ucast numPubRand) of
            Err e \<Rightarrow> Err (Wrapfs (''failed to get public randomness inclusion proof for height '' @ fmt_u64 startHeight @ '': '')
              e ([CHR 0x0A] @ ''please recover the randomness proof from db''))
          | r \<Rightarrow> r)) (\<lambda>proofBytesList.
        sbind (SignFinalitySigBatch sx (ae_Em env) blocks) (\<lambda>batchSigMap.
        sbind (liftR (validLoop (sx_ToModNScalar sx) batchSigMap prList proofBytesList 0 blocks)) (\<lambda>valid.
        if valid = [] then liftR (Ok None)
        else sendVotes x env blocks valid)))))"

section \<open>The retry loop\<close>

definition CheckBlockFinalization :: "'pk ConsumerController \<Rightarrow> u64 \<Rightarrow> bool go" where
  "CheckBlockFinalization cc height =
     rbind (wrap (''failed to query block at height '' @ fmt_u64 height @ '': '') (cc_QueryBlock cc height))
       (\<lambda>b. Ok (bi_Finalized b))"

text \<open>\<^verbatim>\<open>for { ... }\<close>: \<open>None\<close> is a loop that never ends. The \<open>i\<close>-th attempt runs in the environment \<open>env i\<close>.\<close>

partial_function (option) submitLoop ::
  "('pk, 'ds, 'dc) fp_ext \<Rightarrow> ('pk, 'sc) sub_ext \<Rightarrow> FinalitySubmitterConfig \<Rightarrow>
     (nat \<Rightarrow> ('s, 'c, 'pk, 'fv, 'sc, 'sg) attempt_env) \<Rightarrow> BlockInfo list \<Rightarrow> nat \<Rightarrow> u32 \<Rightarrow>
     ('s, 'c, 'pk, 'ds, 'dc) DefaultFinalitySubmitter \<Rightarrow>
     (TxResponse option go \<times> ('s, 'c, 'pk, 'ds, 'dc) DefaultFinalitySubmitter) option" where
  "submitLoop x sx cfg env blocks i failedCycles ds =
     (case submitBatchFinalitySignaturesOnce x sx (env i) blocks ds of
        (Ok res, ds) \<Rightarrow> Some (Ok res, ds)
      | (Crash c, ds) \<Rightarrow> Some (Crash c, ds)
      | (Err err, ds) \<Rightarrow>
          if IsUnrecoverable (sx_txt sx) err then Some (Err err, ds)
          else if IsExpected err then Some (Ok None, ds)
          else if fc_MaxSubmissionRetries cfg < failedCycles + 1
          then Some (Err (Wrapf ''reached max failed cycles with err: '' err), ds)
          else (let targetHeight = bi_height (last blocks) in
            case CheckBlockFinalization (ae_ConsumerCtrl (env i)) targetHeight of
              Err e \<Rightarrow> Some (Err (Wrapf (''failed to query block finalization at height '' @ fmt_u64 targetHeight @ '': '') e), ds)
            | Crash c \<Rightarrow> Some (Crash c, ds)
            | Ok finalized \<Rightarrow>
                if finalized then Some (Ok None, ds)
                else if ae_ctxDone (env i) then Some (Err (Sentinel ErrFinalityProviderShutDown), ds)
                else submitLoop x sx cfg env blocks (Suc i) (failedCycles + 1) ds))"

definition SubmitBatchFinalitySignatures ::
  "('pk, 'ds, 'dc) fp_ext \<Rightarrow> ('pk, 'sc) sub_ext \<Rightarrow> FinalitySubmitterConfig \<Rightarrow>
     (nat \<Rightarrow> nat \<Rightarrow> 'pk ConsumerController) \<Rightarrow> dbfault \<Rightarrow>
     (nat \<Rightarrow> ('s, 'c, 'pk, 'fv, 'sc, 'sg) attempt_env) \<Rightarrow> BlockInfo list \<Rightarrow>
     ('s, 'c, 'pk, 'ds, 'dc) DefaultFinalitySubmitter \<Rightarrow>
     (TxResponse option go \<times> ('s, 'c, 'pk, 'ds, 'dc) DefaultFinalitySubmitter) option" where
  "SubmitBatchFinalitySignatures x sx cfg q flt env blocks ds =
     (if blocks = [] then Some (Err (ErrText ''cannot send signatures for empty blocks''), ds)
      else case wrapS ''failed to filter blocks for voting: '' (on_State (FilterBlocksForVoting x q flt blocks)) ds of
          (Err e, ds) \<Rightarrow> Some (Err e, ds)
        | (Crash c, ds) \<Rightarrow> Some (Crash c, ds)
        | (Ok blocks, ds) \<Rightarrow>
            if blocks = [] then Some (Ok None, ds)
            else submitLoop x sx cfg env blocks 0 0 ds)"

section \<open>Lemmas on the steps\<close>

lemma keeps_on_State: "keeps f m \<Longrightarrow> keeps (f \<circ> ds_State) (on_State m)"
  by (auto simp: keeps_def on_State_def split: prod.split) (metis snd_conv)

lemma on_State_fields [simp]:
  "ds_Em (snd (on_State m ds)) = ds_Em ds" "ds_ConsumerCtrl (snd (on_State m ds)) = ds_ConsumerCtrl ds"
  by (simp_all add: on_State_def split: prod.split)

lemma on_Em_eq: "on_Em m ds = (r, ds') \<longleftrightarrow> (\<exists>s. m (ds_Em ds) = (r, s) \<and> ds' = ds\<lparr>ds_Em := s\<rparr>)"
  by (auto simp: on_Em_def split: prod.splits)

lemma on_ConsumerCtrl_eq:
  "on_ConsumerCtrl m ds = (r, ds') \<longleftrightarrow> (\<exists>c. m (ds_ConsumerCtrl ds) = (r, c) \<and> ds' = ds\<lparr>ds_ConsumerCtrl := c\<rparr>)"
  by (auto simp: on_ConsumerCtrl_def split: prod.splits)

lemma eotsSignError_Ok [go_simps]: "eotsSignError r = Ok a \<longleftrightarrow> r = Ok a"
  by (cases r) auto

lemma submitError_Ok [go_simps]: "submitError r = Ok a \<longleftrightarrow> r = Ok a"
  by (cases r) auto

lemma sigMap_Some: "sigMap f resp h = Some g \<Longrightarrow> \<exists>r \<in> set resp. rs_Height r = h \<and> g = f (rs_Signature r)"
proof (induction resp rule: rev_induct)
  case (snoc r resp)
  then show ?case by (cases "rs_Height r = h") (auto simp: sigMap_def)
qed (simp add: sigMap_def)

text \<open>The provider's identity, the only part of its record the votes depend on.\<close>

definition identity :: "('pk, 'ds, 'dc) FpState \<Rightarrow> 'pk \<times> bytes" where
  "identity fps = (GetBtcPk fps, GetChainID fps)"

lemma keeps_identity [keeps_intros]:
  "keeps identity (SetStatus x flt st)" "keeps identity (SetLastVotedHeight x flt h)"
  by (auto simp: keeps_def identity_def SetStatus_def SetLastVotedHeight_def GetBtcPk_def GetChainID_def on_store_def
      split: prod.splits)

lemma keeps_must [keeps_intros]:
  "keeps identity (mustSetStatus x flt st)" "keeps identity (MustSetLastVotedHeight x flt h)"
  by (auto simp: keeps_def mustSetStatus_def MustSetLastVotedHeight_def split: prod.split go.split
      dest: keepsD [OF keeps_identity(1)] keepsD [OF keeps_identity(2)])

lemma mustSetStatus_Ok: "mustSetStatus x flt st fps = (Ok u, fps') \<longleftrightarrow> SetStatus x flt st fps = (Ok u, fps')"
  by (auto simp: mustSetStatus_def split: prod.splits go.splits)

section \<open>Filtering is exact\<close>

text \<open>The chain's answers, when they arrive, are those of a fixed power table.\<close>

lemma filterLoop_exact:
  assumes "filterLoop q pk lastVoted i blocks p = Ok (ps, p')"
    and "\<And>j h b. getVotingPowerWithRetry (q j) pk h = Ok b \<Longrightarrow> b = powerAt h"
  shows "ps = filter (\<lambda>b. powerAt (bi_height b)) (filter (\<lambda>b. lastVoted < bi_height b) blocks) \<and>
    p' = (if filter (\<lambda>b. lastVoted < bi_height b) blocks = [] then p
      else powerAt (bi_height (last (filter (\<lambda>b. lastVoted < bi_height b) blocks))))"
  using assms(1)
proof (induction blocks arbitrary: i p ps)
  case (Cons b blocks)
  show ?case
  proof (cases "bi_height b \<le> lastVoted")
    case True
    with Cons.prems have "filterLoop q pk lastVoted (Suc i) blocks p = Ok (ps, p')" by simp
    from Cons.IH [OF this] True show ?thesis by (simp add: leD)
  next
    case False
    with Cons.prems obtain hp ps' where hp: "getVotingPowerWithRetry (q i) pk (bi_height b) = Ok hp"
      and rest: "filterLoop q pk lastVoted (Suc i) blocks hp = Ok (ps', p')" and ps: "ps = (if hp then b # ps' else ps')"
      by (auto simp: go_simps)
    from Cons.IH [OF rest] ps False assms(2) [OF hp] show ?thesis by (simp add: not_le)
  qed
qed simp

lemma FilterBlocksForVoting_Ok:
  assumes "FilterBlocksForVoting x q flt blocks fps = (Ok ps, fps')"
  obtains p where "filterLoop q (GetBtcPk fps) (GetLastVotedHeight fps) 0 blocks False = Ok (ps, p)"
    "if p \<and> GetStatus fps \<noteq> ACTIVE then SetStatus x flt ACTIVE fps = (Ok (), fps')
     else if \<not> p \<and> GetStatus fps = ACTIVE then SetStatus x flt INACTIVE fps = (Ok (), fps') else fps' = fps"
proof -
  from assms obtain p fps1 where loop: "filterLoop q (GetBtcPk fps) (GetLastVotedHeight fps) 0 blocks False = Ok (ps, p)"
    and s1: "(if p \<and> GetStatus fps \<noteq> ACTIVE then mustSetStatus x flt ACTIVE fps else (Ok (), fps)) = (Ok (), fps1)"
    and s2: "(if \<not> p \<and> GetStatus fps1 = ACTIVE then mustSetStatus x flt INACTIVE fps1 else (Ok (), fps1)) = (Ok (), fps')"
    by (auto simp: FilterBlocksForVoting_def go_simps)
  from s1 s2 show thesis
    by (intro that [OF loop]) (auto simp: mustSetStatus_Ok split: if_splits)
qed

lemma FilterBlocksForVoting_subset:
  assumes "FilterBlocksForVoting x q flt blocks fps = (Ok ps, fps')" and "b \<in> set ps"
  shows "b \<in> set blocks \<and> GetLastVotedHeight fps < bi_height b"
proof -
  have "filterLoop q pk v i blocks p = Ok (ps, p') \<Longrightarrow> \<forall>b \<in> set ps. b \<in> set blocks \<and> v < bi_height b" for pk v i p ps p'
    by (induction blocks arbitrary: i p ps) (auto simp: go_simps not_le split: if_splits)
  with assms show ?thesis by (auto elim: FilterBlocksForVoting_Ok)
qed

lemma FilterBlocksForVoting_height:
  "FilterBlocksForVoting x q flt blocks fps = (r, fps') \<Longrightarrow> GetLastVotedHeight fps' = GetLastVotedHeight fps"
  unfolding FilterBlocksForVoting_def
  by (auto simp: liftR_eq mustSetStatus_def elim!: sbindE split: if_splits prod.splits go.splits dest!: SetStatus_cache)

text \<open>C14. Filtering keeps exactly the blocks above the last voted height at which the chain gives the provider
  voting power. Afterwards the provider is active when the last block above that height has power; an
  active provider without such a block becomes inactive, also when the chain was not asked at all. Cache
  and store stay equal, and the last voted height does not move.\<close>

theorem FilterBlocksForVoting_exact:
  assumes "fp_codec x" and "synced x fps"
    and "\<And>j h b. getVotingPowerWithRetry (q j) (GetBtcPk fps) h = Ok b \<Longrightarrow> b = powerAt h"
    and "FilterBlocksForVoting x q flt blocks fps = (Ok ps, fps')"
  defines "recent \<equiv> filter (\<lambda>b. GetLastVotedHeight fps < bi_height b) blocks"
  shows "ps = filter (\<lambda>b. powerAt (bi_height b)) recent \<and> synced x fps' \<and> GetLastVotedHeight fps' = GetLastVotedHeight fps \<and>
    GetStatus fps' = (if recent \<noteq> [] \<and> powerAt (bi_height (last recent)) then ACTIVE
      else if GetStatus fps = ACTIVE then INACTIVE else GetStatus fps)"
proof -
  from FilterBlocksForVoting_Ok [OF assms(4)] obtain p where
    loop: "filterLoop q (GetBtcPk fps) (GetLastVotedHeight fps) 0 blocks False = Ok (ps, p)"
    and set: "if p \<and> GetStatus fps \<noteq> ACTIVE then SetStatus x flt ACTIVE fps = (Ok (), fps')
      else if \<not> p \<and> GetStatus fps = ACTIVE then SetStatus x flt INACTIVE fps = (Ok (), fps') else fps' = fps" .
  from filterLoop_exact [OF loop assms(3)] have L: "ps = filter (\<lambda>b. powerAt (bi_height b)) recent"
    "p = (recent \<noteq> [] \<and> powerAt (bi_height (last recent)))" unfolding recent_def by auto
  from set L(2) show ?thesis
    using assms(2) L(1) by (auto split: if_splits dest: SetStatus_synced [OF assms(1,2)] SetStatus_cache)
qed

definition demo_fps :: "(bytes, bytes, bytes) FpState" where
  "demo_fps = NewFpState \<lparr>sf_FPAddr = [], sf_BtcPk = ''pk'', sf_Description = [], sf_Commission = [], sf_ChainID = ''c'',
     sf_LastVotedHeight = 4, sf_Status = ACTIVE, sf_CommissionInfo = None\<rparr> demoFpStore"

lemma demo_fps_simps [simp]:
  "GetBtcPk demo_fps = ''pk''" "GetChainID demo_fps = ''c''" "GetLastVotedHeight demo_fps = 4" "GetStatus demo_fps = ACTIVE"
  by (simp_all add: demo_fps_def NewFpState_def GetBtcPk_def GetChainID_def GetLastVotedHeight_def GetStatus_def)

lemma synced_demo_fps: "synced plain_fp demo_fps"
  by (simp add: synced_def demo_fps_def NewFpState_def GetStatus_def GetLastVotedHeight_def demoFp_def)

theorem FilterBlocksForVoting_exact_witness:
  "\<exists>fps'. FilterBlocksForVoting plain_fp (\<lambda>_ _. demo_cc\<lparr>cc_QueryFinalityProviderHasPower := \<lambda>_ h. Ok (h \<noteq> 5)\<rparr>) NoFault
     (map (\<lambda>h. NewBlockInfo h ''h'' False) [3, 5, 6]) demo_fps = (Ok [NewBlockInfo 6 ''h'' False], fps') \<and> synced plain_fp fps'"
proof -
  let ?q = "\<lambda>(_ :: nat) (_ :: nat). demo_cc\<lparr>cc_QueryFinalityProviderHasPower := \<lambda>_ h. Ok (h \<noteq> 5)\<rparr>"
  let ?bs = "map (\<lambda>h. NewBlockInfo h ''h'' False) [3, 5, 6]"
  have q: "getVotingPowerWithRetry (?q j) pk h = Ok (h \<noteq> 5)" for j pk h by (simp add: getVotingPowerWithRetry_def)
  have run: "FilterBlocksForVoting plain_fp ?q NoFault ?bs demo_fps = (Ok [NewBlockInfo 6 ''h'' False], demo_fps)"
    by (simp add: FilterBlocksForVoting_def q NewBlockInfo_def sbind_def liftR_def)
  from FilterBlocksForVoting_exact [OF plain_fp.fp_codec_axioms synced_demo_fps _ run, of "\<lambda>h. h \<noteq> 5"] run
  show ?thesis by (auto simp: q)
qed

section \<open>What an attempt sends\<close>

lemma validLoop_Ok:
  assumes "validLoop ts m prs pfs i blocks = Ok vs"
  shows "map fst vs = filter (\<lambda>b. m (bi_height b) \<noteq> None) blocks \<and>
    (\<forall>v \<in> set vs. \<exists>j < length blocks. \<exists>sig. i + j < length prs \<and> i + j < length pfs \<and>
      m (bi_height (blocks ! j)) = Some sig \<and> v = (blocks ! j, prs ! (i + j), pfs ! (i + j), ts sig))"
  using assms
proof (induction blocks arbitrary: i vs)
  case (Cons b blocks)
  show ?case
  proof (cases "m (bi_height b)")
    case None
    with Cons.prems have "validLoop ts m prs pfs (Suc i) blocks = Ok vs" by simp
    from Cons.IH [OF this] None show ?thesis by (auto simp: ex_less_Suc_split)
  next
    case (Some sig)
    with Cons.prems obtain rest where i: "i < length prs" "i < length pfs"
      and rest: "validLoop ts m prs pfs (Suc i) blocks = Ok rest" and vs: "vs = (b, prs ! i, pfs ! i, ts sig) # rest"
      by (auto simp: go_simps split: if_splits)
    from Cons.IH [OF rest] Some i vs show ?thesis by (auto simp: ex_less_Suc_split)
  qed
qed simp

text \<open>An entry of a submission: the block at index \<open>i\<close> of the batch, the randomness of the \<open>i\<close>-th height from the
  first block's on, the \<open>i\<close>-th proof of that range, and the signature recorded for the block.\<close>

definition vote_entry ::
  "('pk, 'sc) sub_ext \<Rightarrow> (bytes \<Rightarrow> bytes \<Rightarrow> u64 \<Rightarrow> 'fv \<Rightarrow> bool) \<Rightarrow> (bytes \<times> bytes \<times> u64 \<Rightarrow> (bytes \<times> 'sc) option) \<Rightarrow>
     ('s, 'c, 'pk, 'fv, 'sc, 'sg) attempt_env \<Rightarrow> 'pk \<times> bytes \<Rightarrow> BlockInfo list \<Rightarrow> BlockInfo \<times> 'fv \<times> bytes \<times> 'sc \<Rightarrow> bool" where
  "vote_entry sx randFor vote env ident blocks v \<longleftrightarrow>
     (case ident of (pk, chain) \<Rightarrow> case v of (b, r, proof, sig) \<Rightarrow>
       \<exists>i < length blocks. \<exists>pfs. b = blocks ! i \<and> randFor (sx_PkBytes sx pk) chain (bi_height (hd blocks) + of_nat i) r \<and>
         ae_ProofListGetterFunc env (bi_height (hd blocks)) (of_nat (length blocks)) = Ok pfs \<and> i < length pfs \<and> proof = pfs ! i \<and>
         vote (chain, sx_PkBytes sx pk, bi_height b) = Some (MsgToSign (sx_Uint64ToBigEndian sx) b [], sig))"

definition grows :: "('s \<Rightarrow> bool) \<Rightarrow> ('s \<Rightarrow> 'k \<rightharpoonup> 'v) \<Rightarrow> 's \<Rightarrow> 's \<Rightarrow> bool" where
  "grows emInv voteOf s s' \<longleftrightarrow> emInv s' \<and> voteOf s \<subseteq>\<^sub>m voteOf s'"

lemma grows_trans: "grows emInv v s t \<Longrightarrow> grows emInv v t u \<Longrightarrow> grows emInv v s u"
  by (auto simp: grows_def intro: map_le_trans)

lemma grows_refl: "emInv s \<Longrightarrow> grows emInv v s s"
  by (simp add: grows_def)

context eots_service
begin

lemma SignFinalitySigBatch_Ok:
  assumes "SignFinalitySigBatch sx em blocks ds = (Ok m, ds')" and "emInv (ds_Em ds)"
  shows "distinct (map bi_height blocks) \<and> (\<forall>b \<in> set blocks. \<forall>g. m (bi_height b) = Some g \<longrightarrow>
     (\<exists>sig. g = sx_NewSchnorrEOTSSigFromModNScalar sx sig \<and>
       voteOf (ds_Em ds') (GetChainID (ds_State ds), sx_PkBytes sx (GetBtcPk (ds_State ds)), bi_height b) =
         Some (MsgToSign (sx_Uint64ToBigEndian sx) b [], sig)))"
proof -
  let ?reqs = "map (\<lambda>b. \<lparr>rq_Msg = MsgToSign (sx_Uint64ToBigEndian sx) b [], rq_Height = bi_height b\<rparr>) blocks"
  let ?req = "\<lparr>rq_UID = sx_PkBytes sx (GetBtcPk (ds_State ds)), rq_ChainID = GetChainID (ds_State ds), rq_SignRequest = ?reqs\<rparr>"
  from assms(1) obtain resp s where run: "em_SignBatchEOTS em ?req (ds_Em ds) = (Ok resp, s)"
    and m: "m = sigMap (sx_NewSchnorrEOTSSigFromModNScalar sx) resp" and ds': "ds' = ds\<lparr>ds_Em := s\<rparr>"
    by (auto simp: SignFinalitySigBatch_def Let_def go_simps on_Em_eq split: prod.splits)
  have d: "distinct (map bi_height blocks)" using batch_distinct [OF run] by (simp add: comp_def)
  have "\<exists>sig. g = sx_NewSchnorrEOTSSigFromModNScalar sx sig \<and>
      voteOf s (rq_ChainID ?req, rq_UID ?req, bi_height b) = Some (MsgToSign (sx_Uint64ToBigEndian sx) b [], sig)"
    if b: "b \<in> set blocks" and g: "m (bi_height b) = Some g" for b g
  proof -
    from sigMap_Some [OF g [unfolded m]] obtain p where p: "p \<in> set resp" "rs_Height p = bi_height b"
      "g = sx_NewSchnorrEOTSSigFromModNScalar sx (rs_Signature p)" by blast
    from batch_recorded [OF run assms(2) p(1)] obtain b' where b': "b' \<in> set blocks" "bi_height b' = rs_Height p"
      "voteOf s (rq_ChainID ?req, rq_UID ?req, rs_Height p) = Some (MsgToSign (sx_Uint64ToBigEndian sx) b' [], rs_Signature p)"
      by auto
    from distinct_map_nth_eq [OF d b'(1) b] b'(2) p(2) have "b' = b" by simp
    with b' p show ?thesis by auto
  qed
  with d ds' show ?thesis by simp
qed

lemma ds_GetPubRandList_keeps:
  assumes "ds_GetPubRandList sx em h n ds = (r, ds')" and "emInv (ds_Em ds)"
  shows "grows emInv voteOf (ds_Em ds) (ds_Em ds') \<and> ds_State ds' = ds_State ds \<and> ds_ConsumerCtrl ds' = ds_ConsumerCtrl ds"
  using assms rand_keeps by (fastforce simp: ds_GetPubRandList_def wrapS_eq on_Em_eq grows_def)

lemma ds_GetPubRandList_Ok:
  assumes "ds_GetPubRandList sx em h n ds = (Ok prs, ds')"
  shows "length prs = unat n \<and> (\<forall>i < unat n.
    randFor (sx_PkBytes sx (GetBtcPk (ds_State ds))) (GetChainID (ds_State ds)) (h + of_nat i) (prs ! i))"
  using assms rand_heights by (auto simp: ds_GetPubRandList_def go_simps on_Em_eq)

lemma SignFinalitySigBatch_keeps:
  assumes "SignFinalitySigBatch sx em blocks ds = (r, ds')" and "emInv (ds_Em ds)"
  shows "grows emInv voteOf (ds_Em ds) (ds_Em ds') \<and> ds_State ds' = ds_State ds \<and> ds_ConsumerCtrl ds' = ds_ConsumerCtrl ds"
proof -
  from assms(1) obtain req rb s where run: "em_SignBatchEOTS em req (ds_Em ds) = (rb, s)" and ds': "ds' = ds\<lparr>ds_Em := s\<rparr>"
    by (auto simp: SignFinalitySigBatch_def Let_def on_Em_eq split: prod.splits)
  from batch_inv [OF run assms(2)] batch_keeps [OF run assms(2)] ds' show ?thesis by (auto simp: grows_def map_le_def)
qed

lemma vote_entries:
  assumes "ds_GetPubRandList sx em (bi_height (hd blocks)) (of_nat (length blocks)) ds = (Ok prs, ds1)"
    and "ae_ProofListGetterFunc env (bi_height (hd blocks)) (ucast (of_nat (length blocks) :: u32)) = Ok pfs"
    and "SignFinalitySigBatch sx em blocks ds1 = (Ok m, ds2)" and "ds_State ds1 = ds_State ds" and "emInv (ds_Em ds1)"
    and "validLoop (sx_ToModNScalar sx) m prs pfs 0 blocks = Ok valid" and "length blocks < 2 ^ 32"
    and "\<And>s. sx_ToModNScalar sx (sx_NewSchnorrEOTSSigFromModNScalar sx s) = s" and "v \<in> set valid"
  shows "vote_entry sx randFor (voteOf (ds_Em ds2)) env (identity (ds_State ds)) blocks v"
proof -
  from validLoop_Ok [OF assms(6)] assms(9) obtain j g where j: "j < length blocks" "j < length pfs"
    and g: "m (bi_height (blocks ! j)) = Some g" and v: "v = (blocks ! j, prs ! j, pfs ! j, sx_ToModNScalar sx g)" by auto
  have n: "unat (of_nat (length blocks) :: u32) = length blocks"
    using assms(7) by (simp add: unsigned_of_nat take_bit_nat_eq_self)
  have "ucast (of_nat (length blocks) :: u32) = (of_nat (length blocks) :: u64)"
    by (rule word_unat_eq_iff [THEN iffD2]) (use assms(7) n in \<open>simp add: unsigned_ucast_eq unsigned_of_nat take_bit_nat_eq_self\<close>)
  moreover from SignFinalitySigBatch_Ok [OF assms(3,5)] j(1) g obtain sig where
    "g = sx_NewSchnorrEOTSSigFromModNScalar sx sig"
    "voteOf (ds_Em ds2) (GetChainID (ds_State ds), sx_PkBytes sx (GetBtcPk (ds_State ds)), bi_height (blocks ! j)) =
       Some (MsgToSign (sx_Uint64ToBigEndian sx) (blocks ! j) [], sig)"
    unfolding assms(4) by (meson nth_mem)
  ultimately show ?thesis
    using ds_GetPubRandList_Ok [OF assms(1)] n j v assms(2,8) unfolding vote_entry_def identity_def by auto
qed

end

lemma sendValid_eq:
  "sendValid env valid ds = (r, ds') \<Longrightarrow> \<exists>c r'. ds' = ds\<lparr>ds_ConsumerCtrl := c\<rparr> \<and>
     ae_SubmitBatchFinalitySigs env (submitRequest (GetBtcPk (ds_State ds)) valid) (ds_ConsumerCtrl ds) = (r', c)"
  by (auto simp: sendValid_def on_ConsumerCtrl_eq split: prod.splits)

lemma on_State_keeps:
  "on_State m ds = (r, ds') \<Longrightarrow> keeps identity m \<Longrightarrow> identity (ds_State ds') = identity (ds_State ds) \<and>
     ds_Em ds' = ds_Em ds \<and> ds_ConsumerCtrl ds' = ds_ConsumerCtrl ds"
  using keepsD [OF keeps_on_State] on_State_fields by (metis comp_apply snd_conv)

text \<open>What an attempt leaves behind, whatever it returns.\<close>

definition attempt_effect ::
  "('pk, 'sc) sub_ext \<Rightarrow> ('s \<Rightarrow> bool) \<Rightarrow> (bytes \<Rightarrow> bytes \<Rightarrow> u64 \<Rightarrow> 'fv \<Rightarrow> bool) \<Rightarrow>
     ('s \<Rightarrow> bytes \<times> bytes \<times> u64 \<Rightarrow> (bytes \<times> 'sc) option) \<Rightarrow> ('s, 'c, 'pk, 'fv, 'sc, 'sg) attempt_env \<Rightarrow> BlockInfo list \<Rightarrow>
     ('s, 'c, 'pk, 'ds, 'dc) DefaultFinalitySubmitter \<Rightarrow> ('s, 'c, 'pk, 'ds, 'dc) DefaultFinalitySubmitter \<Rightarrow> bool" where
  "attempt_effect sx emInv randFor voteOf env blocks ds ds' \<longleftrightarrow>
     grows emInv voteOf (ds_Em ds) (ds_Em ds') \<and> identity (ds_State ds') = identity (ds_State ds) \<and>
     (ds_ConsumerCtrl ds' = ds_ConsumerCtrl ds \<or> (\<exists>valid r. valid \<noteq> [] \<and>
       ae_SubmitBatchFinalitySigs env (submitRequest (GetBtcPk (ds_State ds)) valid) (ds_ConsumerCtrl ds) = (r, ds_ConsumerCtrl ds') \<and>
       (\<forall>v \<in> set valid. vote_entry sx randFor (voteOf (ds_Em ds')) env (identity (ds_State ds)) blocks v)))"

context eots_service
begin

lemma send_effect:
  assumes run: "sendVotes x env blocks valid ds2 = (r, ds')"
    and "grows emInv voteOf (ds_Em ds) (ds_Em ds2)" "ds_State ds2 = ds_State ds" "ds_ConsumerCtrl ds2 = ds_ConsumerCtrl ds"
    and "valid \<noteq> []"
    and "\<And>v. v \<in> set valid \<Longrightarrow> vote_entry sx randFor (voteOf (ds_Em ds2)) env (identity (ds_State ds)) blocks v"
  shows "attempt_effect sx emInv randFor voteOf env blocks ds ds'"
proof -
  obtain rs ds3 where send: "sendValid env valid ds2 = (rs, ds3)" by fastforce
  from sendValid_eq [OF send] obtain c r' where ds3: "ds3 = ds2\<lparr>ds_ConsumerCtrl := c\<rparr>"
    and c: "ae_SubmitBatchFinalitySigs env (submitRequest (GetBtcPk (ds_State ds)) valid) (ds_ConsumerCtrl ds) = (r', c)"
    unfolding assms(3,4) by blast
  have "identity (ds_State ds') = identity (ds_State ds3) \<and> ds_Em ds' = ds_Em ds3 \<and> ds_ConsumerCtrl ds' = ds_ConsumerCtrl ds3"
    using run send unfolding sendVotes_def
    by (elim sbindE) (auto simp: liftR_eq split: if_splits elim!: sbindE dest!: on_State_keeps [OF _ keeps_must(2)])
  then show ?thesis
    using ds3 c assms(2-6) unfolding attempt_effect_def by auto
qed

lemma once_effect:
  assumes run: "submitBatchFinalitySignaturesOnce x sx env blocks ds = (r, ds')" and em: "ae_Em env = em"
    and inv: "emInv (ds_Em ds)" and conv: "\<And>s. sx_ToModNScalar sx (sx_NewSchnorrEOTSSigFromModNScalar sx s) = s"
  shows "attempt_effect sx emInv randFor voteOf env blocks ds ds'"
proof -
  have unchanged: ?thesis if "grows emInv voteOf (ds_Em ds) (ds_Em ds')" "ds_State ds' = ds_State ds" "ds_ConsumerCtrl ds' = ds_ConsumerCtrl ds"
    using that by (simp add: attempt_effect_def)
  show ?thesis
  proof (cases "blocks = [] \<or> 2 ^ 32 - 1 < length blocks")
    case True
    with run have "ds' = ds" by (auto simp: submitBatchFinalitySignaturesOnce_def liftR_def split: if_splits)
    then show ?thesis using unchanged inv by (simp add: grows_refl)
  next
    case False
    then have len: "length blocks < 2 ^ 32" by simp
    let ?h = "bi_height (hd blocks)" and ?n = "of_nat (length blocks) :: u32"
    obtain r1 ds1 where A: "ds_GetPubRandList sx em ?h ?n ds = (r1, ds1)" by fastforce
    note A' = ds_GetPubRandList_keeps [OF A inv]
    then have inv1: "emInv (ds_Em ds1)" by (simp add: grows_def)
    obtain r2 ds2 where B: "SignFinalitySigBatch sx em blocks ds1 = (r2, ds2)" by fastforce
    note B' = SignFinalitySigBatch_keeps [OF B inv1]
    have grow: "grows emInv voteOf (ds_Em ds) (ds_Em ds2)" using A' B' by (blast intro: grows_trans)
    consider "ds' = ds1" | "ds' = ds2" | prs pfs m valid where "r1 = Ok prs" "r2 = Ok m"
        "ae_ProofListGetterFunc env ?h (ucast ?n) = Ok pfs" "valid \<noteq> []"
        "validLoop (sx_ToModNScalar sx) m prs pfs 0 blocks = Ok valid"
        "sendVotes x env blocks valid ds2 = (r, ds')"
      using run False A B unfolding submitBatchFinalitySignaturesOnce_def Let_def em
      by (auto simp: wrapS_eq liftR_eq go_simps elim!: sbindE split: if_splits go.splits)
    then show ?thesis
    proof cases
      case 3
      have "vote_entry sx randFor (voteOf (ds_Em ds2)) env (identity (ds_State ds)) blocks v" if "v \<in> set valid" for v
        using vote_entries [OF A [unfolded 3(1)] 3(3) B [unfolded 3(2)] _ inv1 3(5) len conv that] A' by blast
      then show ?thesis using send_effect [OF 3(6) grow _ _ 3(4)] A' B' by simp
    qed (use unchanged grow A' B' in simp_all)
  qed
qed

end

text \<open>C9. One attempt, whatever it returns and whatever fails: recorded votes stay, and if the chain was called,
  the request carries for each of its blocks the signature recorded for exactly that block, the randomness
  and the proof that belong to the block's index counted from the first block's height. These are the
  block's own when the batch has consecutive heights; after a gap they are those of another height.\<close>

theorem submitOnce_request:
  assumes "eots_service (ae_Em env) emInv randFor voteOf" and "emInv (ds_Em ds)"
    and "\<And>s. sx_ToModNScalar sx (sx_NewSchnorrEOTSSigFromModNScalar sx s) = s"
    and "submitBatchFinalitySignaturesOnce x sx env blocks ds = (r, ds')"
  defines "pk \<equiv> sx_PkBytes sx (GetBtcPk (ds_State ds))" and "chain \<equiv> GetChainID (ds_State ds)"
  shows "voteOf (ds_Em ds) \<subseteq>\<^sub>m voteOf (ds_Em ds') \<and>
    (ds_ConsumerCtrl ds' = ds_ConsumerCtrl ds \<or> (\<exists>valid res. valid \<noteq> [] \<and>
      ae_SubmitBatchFinalitySigs env (submitRequest (GetBtcPk (ds_State ds)) valid) (ds_ConsumerCtrl ds) = (res, ds_ConsumerCtrl ds') \<and>
      (\<forall>(b, rand, proof, sig) \<in> set valid. \<exists>i < length blocks. \<exists>pfs. b = blocks ! i \<and>
        voteOf (ds_Em ds') (chain, pk, bi_height b) = Some (MsgToSign (sx_Uint64ToBigEndian sx) b [], sig) \<and>
        randFor pk chain (bi_height (hd blocks) + of_nat i) rand \<and>
        ae_ProofListGetterFunc env (bi_height (hd blocks)) (of_nat (length blocks)) = Ok pfs \<and> proof = pfs ! i \<and>
        ((\<forall>j < length blocks. bi_height (blocks ! j) = bi_height (hd blocks) + of_nat j) \<longrightarrow> randFor pk chain (bi_height b) rand))))"
proof -
  have "attempt_effect sx emInv randFor voteOf env blocks ds ds'"
    using eots_service.once_effect [OF assms(1,4) refl assms(2,3)] .
  then consider "voteOf (ds_Em ds) \<subseteq>\<^sub>m voteOf (ds_Em ds')" "ds_ConsumerCtrl ds' = ds_ConsumerCtrl ds"
    | valid res where "voteOf (ds_Em ds) \<subseteq>\<^sub>m voteOf (ds_Em ds')" "valid \<noteq> []"
      "ae_SubmitBatchFinalitySigs env (submitRequest (GetBtcPk (ds_State ds)) valid) (ds_ConsumerCtrl ds) = (res, ds_ConsumerCtrl ds')"
      "\<And>v. v \<in> set valid \<Longrightarrow> vote_entry sx randFor (voteOf (ds_Em ds')) env (identity (ds_State ds)) blocks v"
    unfolding attempt_effect_def grows_def by blast
  then show ?thesis
  proof cases
    case 2
    have "case v of (b, rand, proof, sig) \<Rightarrow> \<exists>i < length blocks. \<exists>pfs. b = blocks ! i \<and>
        voteOf (ds_Em ds') (chain, pk, bi_height b) = Some (MsgToSign (sx_Uint64ToBigEndian sx) b [], sig) \<and>
        randFor pk chain (bi_height (hd blocks) + of_nat i) rand \<and>
        ae_ProofListGetterFunc env (bi_height (hd blocks)) (of_nat (length blocks)) = Ok pfs \<and> proof = pfs ! i \<and>
        ((\<forall>j < length blocks. bi_height (blocks ! j) = bi_height (hd blocks) + of_nat j) \<longrightarrow> randFor pk chain (bi_height b) rand)"
      if "v \<in> set valid" for v
      using 2(4) [OF that] unfolding vote_entry_def identity_def pk_def chain_def by auto
    with 2(1-3) show ?thesis by blast
  qed blast
qed

text \<open>A submitter of the demonstration manager, with a chain client that records the requests, and a batch with a
  gap: the votes for the heights 5 and 7.\<close>

definition demo_sx :: "(bytes, bytes) sub_ext" where
  "demo_sx = \<lparr>sx_PkBytes = (\<lambda>_. ''k''), sx_Uint64ToBigEndian = be64, sx_NewSchnorrEOTSSigFromModNScalar = (\<lambda>s. s),
     sx_ToModNScalar = (\<lambda>s. s), sx_txt = (\<lambda>_. ''chain error'')\<rparr>"

definition demo_recorder ::
  "(bytes, bytes, bytes) SubmitBatchFinalitySigsRequest \<Rightarrow> ((bytes, bytes, bytes) SubmitBatchFinalitySigsRequest list, TxResponse option) cmd" where
  "demo_recorder req sent = (Ok (Some emptyTxResponse), sent @ [req])"

definition demo_attempt ::
  "((bytes, bytes, bytes) SubmitBatchFinalitySigsRequest \<Rightarrow> ('c, TxResponse option) cmd) \<Rightarrow>
     ((bytes, bytes) LocalEOTSManager, 'c, bytes, bytes, bytes, bytes) attempt_env" where
  "demo_attempt submit = \<lparr>ae_Em = localManager demo_ext (\<lambda>_. NoFault) 1, ae_ProofListGetterFunc = (\<lambda>h n. Ok (replicate (unat n) ''p'')),
     ae_SubmitBatchFinalitySigs = submit, ae_ConsumerCtrl = demo_cc, ae_flt = NoFault, ae_ctxDone = False\<rparr>"

definition demo_ds :: "'c \<Rightarrow> ((bytes, bytes) LocalEOTSManager, 'c, bytes, bytes, bytes) DefaultFinalitySubmitter" where
  "demo_ds sent = \<lparr>ds_Em = demo_lm, ds_ConsumerCtrl = sent, ds_State = demo_fps\<rparr>"

definition demo_gap :: "BlockInfo list" where
  "demo_gap = [NewBlockInfo 5 ''h'' False, NewBlockInfo 7 ''h'' False]"

definition demo_valid :: "bytes \<Rightarrow> bytes \<Rightarrow> (BlockInfo \<times> bytes \<times> bytes \<times> bytes) list" where
  "demo_valid sig sig' = [(hd demo_gap, ''k'' @ be64 5 @ ''c'' @ be64 0, ''p'', sig), (last demo_gap, ''k'' @ be64 6 @ ''c'' @ be64 0, ''p'', sig')]"

lemma demo_attempt_runs:
  "\<exists>s' sig sig'. submitBatchFinalitySignaturesOnce plain_fp demo_sx (demo_attempt submit) demo_gap (demo_ds sent) =
     sendVotes plain_fp (demo_attempt submit) demo_gap (demo_valid sig sig') (demo_ds sent\<lparr>ds_Em := s'\<rparr>)"
proof -
  let ?ds = "demo_ds sent" and ?env = "demo_attempt submit"
  have rand: "ds_GetPubRandList demo_sx (ae_Em ?env) 5 2 ?ds =
      (Ok [''k'' @ be64 5 @ ''c'' @ be64 0, ''k'' @ be64 6 @ ''c'' @ be64 0], ?ds)"
    using demo_randomness [of 5] by (simp add: ds_GetPubRandList_def wrapS_def on_Em_def demo_attempt_def localManager_def demo_sx_def demo_ds_def)
  obtain resp s' where sign: "SignBatchEOTS demo_ext (\<lambda>_. NoFault) 1 \<lparr>rq_UID = ''k'', rq_ChainID = ''c'', rq_SignRequest =
     [\<lparr>rq_Msg = MsgToSign be64 (hd demo_gap) [], rq_Height = 5\<rparr>, \<lparr>rq_Msg = MsgToSign be64 (last demo_gap) [], rq_Height = 7\<rparr>]\<rparr> demo_lm =
      (Ok resp, s')" and hs: "map rs_Height resp = [5, 7]"
    using demo_batch_heights [of 5 7 "MsgToSign be64 (hd demo_gap) []" "MsgToSign be64 (last demo_gap) []"] by auto
  from hs obtain a b where resp: "resp = [a, b]" "rs_Height a = 5" "rs_Height b = 7" by (auto simp: map_eq_Cons_conv)
  have batch: "SignFinalitySigBatch demo_sx (ae_Em ?env) demo_gap ?ds = (Ok [5 \<mapsto> rs_Signature a, 7 \<mapsto> rs_Signature b], ?ds\<lparr>ds_Em := s'\<rparr>)"
    using sign resp by (simp add: SignFinalitySigBatch_def on_Em_def demo_attempt_def localManager_def demo_sx_def demo_ds_def
        demo_gap_def NewBlockInfo_def sigMap_def)
  have h: "bi_height (hd demo_gap) = 5" "length demo_gap = 2" "demo_gap \<noteq> []" by (simp_all add: demo_gap_def NewBlockInfo_def)
  have "validLoop (sx_ToModNScalar demo_sx) [5 \<mapsto> rs_Signature a, 7 \<mapsto> rs_Signature b]
      [''k'' @ be64 5 @ ''c'' @ be64 0, ''k'' @ be64 6 @ ''c'' @ be64 0] [''p'', ''p''] 0 demo_gap =
    Ok (demo_valid (rs_Signature a) (rs_Signature b))"
    by (simp add: demo_gap_def NewBlockInfo_def demo_sx_def demo_valid_def)
  moreover have "replicate 2 p = [p, p]" for p :: bytes by (simp add: numeral_2_eq_2)
  then have "ae_ProofListGetterFunc ?env 5 2 = Ok [''p'', ''p'']" by (simp add: demo_attempt_def)
  moreover have "demo_valid (rs_Signature a) (rs_Signature b) \<noteq> []" by (simp add: demo_valid_def)
  ultimately have "submitBatchFinalitySignaturesOnce plain_fp demo_sx ?env demo_gap ?ds =
     sendVotes plain_fp ?env demo_gap (demo_valid (rs_Signature a) (rs_Signature b)) (?ds\<lparr>ds_Em := s'\<rparr>)"
    using rand batch h by (simp add: submitBatchFinalitySignaturesOnce_def sbind_def liftR_def wrapS_def)
  then show ?thesis by blast
qed

lemma demo_attempt_sends:
  "\<exists>s' sig sig'. submitBatchFinalitySignaturesOnce plain_fp demo_sx (demo_attempt demo_recorder) demo_gap (demo_ds []) =
     (Ok (Some emptyTxResponse), demo_ds []\<lparr>ds_Em := s', ds_ConsumerCtrl := [submitRequest ''pk'' (demo_valid sig sig')]\<rparr>)"
proof -
  have "sendVotes plain_fp (demo_attempt demo_recorder) demo_gap v (demo_ds []\<lparr>ds_Em := s'\<rparr>) =
     (Ok (Some emptyTxResponse), demo_ds []\<lparr>ds_Em := s', ds_ConsumerCtrl := [submitRequest ''pk'' v]\<rparr>)" for s' v
    by (simp add: sendVotes_def sendValid_def on_ConsumerCtrl_def demo_attempt_def demo_recorder_def sbind_def liftR_def demo_ds_def
        emptyTxResponse_def)
  then show ?thesis using demo_attempt_runs [of demo_recorder "[]"] by metis
qed

theorem submitOnce_request_witness:
  "\<exists>r ds' valid. submitBatchFinalitySignaturesOnce plain_fp demo_sx (demo_attempt demo_recorder) demo_gap (demo_ds []) = (r, ds') \<and>
     ds_ConsumerCtrl ds' = [submitRequest ''pk'' valid] \<and> signedFor demo_ext demo_lm \<subseteq>\<^sub>m signedFor demo_ext (ds_Em ds') \<and>
     (\<exists>rand proof sig. (last demo_gap, rand, proof, sig) \<in> set valid \<and> randFor_local demo_ext ''k'' ''c'' 6 rand)"
proof -
  let ?r = "Ok (Some emptyTxResponse)" and ?ds = "demo_ds [] :: (_, (bytes, bytes, bytes) SubmitBatchFinalitySigsRequest list, _, _, _) DefaultFinalitySubmitter"
  obtain s' sig sig' where run: "submitBatchFinalitySignaturesOnce plain_fp demo_sx (demo_attempt demo_recorder) demo_gap ?ds =
      (?r, ?ds\<lparr>ds_Em := s', ds_ConsumerCtrl := [submitRequest ''pk'' (demo_valid sig sig')]\<rparr>)"
    using demo_attempt_sends by blast
  have svc: "eots_service (ae_Em (demo_attempt demo_recorder)) (\<lambda>s. wf_store demo_ext (lm_es s)) (randFor_local demo_ext) (signedFor demo_ext)"
    using demo.local_eots_service [of "\<lambda>_. NoFault" 1] by (simp add: demo_attempt_def)
  have "randFor_local demo_ext ''k'' ''c'' 6 (''k'' @ be64 6 @ ''c'' @ be64 0)"
    using demo_rand by (auto simp: randFor_local_def) (simp_all add: demo_ext_def)
  moreover have "signedFor demo_ext (ds_Em ?ds) \<subseteq>\<^sub>m signedFor demo_ext s'"
    using submitOnce_request [OF svc _ _ run] by (simp add: demo_sx_def demo_ds_def)
  moreover have "(last demo_gap, ''k'' @ be64 6 @ ''c'' @ be64 0, ''p'', sig') \<in> set (demo_valid sig sig')" by (simp add: demo_valid_def)
  ultimately show ?thesis
    using run by (intro exI [of _ ?r] exI [of _ "?ds\<lparr>ds_Em := s', ds_ConsumerCtrl := [submitRequest ''pk'' (demo_valid sig sig')]\<rparr>"]
        exI [of _ "demo_valid sig sig'"]) (auto simp: demo_ds_def)
qed

section \<open>The retry loop ends\<close>

lemma submitLoop_returns:
  assumes "fc_MaxSubmissionRetries cfg \<noteq> - 1" and "unat failed + k = unat (fc_MaxSubmissionRetries cfg)"
    and "\<forall>j \<in> {i..i + k}. env' j = env j"
  shows "submitLoop x sx cfg env' blocks i failed ds = submitLoop x sx cfg env blocks i failed ds \<and>
    submitLoop x sx cfg env blocks i failed ds \<noteq> None"
  using assms(2,3)
proof (induction k arbitrary: failed i ds)
  case (0 failed i ds)
  have "failed = fc_MaxSubmissionRetries cfg" using 0 by (simp add: word_unat_eq_iff)
  then have "fc_MaxSubmissionRetries cfg < failed + 1" using assms(1) by (simp add: word_less_add_1)
  with 0 show ?case
    by (simp add: submitLoop.simps [where i = i] split: go.split prod.split)
next
  case (Suc k failed i ds)
  have "failed < fc_MaxSubmissionRetries cfg" using Suc.prems by (simp add: word_less_nat_alt)
  then have "unat (failed + 1) + k = unat (fc_MaxSubmissionRetries cfg)"
    using Suc.prems(1) by (simp add: word_unat_Suc)
  note IH = Suc.IH [OF this, of "Suc i"]
  have "submitLoop x sx cfg env' blocks (Suc i) (failed + 1) ds1 = submitLoop x sx cfg env blocks (Suc i) (failed + 1) ds1 \<and>
      submitLoop x sx cfg env blocks (Suc i) (failed + 1) ds1 \<noteq> None" for ds1 using IH [of ds1] Suc.prems(2) by simp
  moreover have "env' i = env i" using Suc.prems(2) by simp
  ultimately show ?case
    by (simp add: submitLoop.simps [where i = i] Let_def split: go.split prod.split)
qed

text \<open>C12. Submission always returns, after at most one attempt more than the configured number of retries: what
  the environment would do in later attempts has no influence. (The largest 32-bit number of retries is
  excluded: the counter wraps around and the loop has no bound.)\<close>

theorem SubmitBatchFinalitySignatures_returns:
  assumes "fc_MaxSubmissionRetries cfg \<noteq> - 1"
  shows "\<exists>out. \<forall>env'. (\<forall>i \<le> unat (fc_MaxSubmissionRetries cfg). env' i = env i) \<longrightarrow>
    SubmitBatchFinalitySignatures x sx cfg q flt env' blocks ds = Some out"
proof -
  obtain r ds1 where F: "wrapS ''failed to filter blocks for voting: '' (on_State (FilterBlocksForVoting x q flt blocks)) ds = (r, ds1)"
    by fastforce
  have loop: "submitLoop x sx cfg env' bs 0 0 ds1 = submitLoop x sx cfg env bs 0 0 ds1 \<and> submitLoop x sx cfg env bs 0 0 ds1 \<noteq> None"
    if "\<forall>i \<le> unat (fc_MaxSubmissionRetries cfg). env' i = env i" for env' bs
    by (rule submitLoop_returns [OF assms, where k = "unat (fc_MaxSubmissionRetries cfg)"]) (use that in simp_all)
  have "SubmitBatchFinalitySignatures x sx cfg q flt env' blocks ds = SubmitBatchFinalitySignatures x sx cfg q flt env blocks ds \<and>
      SubmitBatchFinalitySignatures x sx cfg q flt env blocks ds \<noteq> None"
    if "\<forall>i \<le> unat (fc_MaxSubmissionRetries cfg). env' i = env i" for env'
    using loop [OF that] unfolding SubmitBatchFinalitySignatures_def F by (cases r) simp_all
  then show ?thesis by (metis option.exhaust_sel)
qed

theorem SubmitBatchFinalitySignatures_returns_witness:
  "\<exists>out. SubmitBatchFinalitySignatures plain_fp demo_sx
     \<lparr>fc_MaxSubmissionRetries = 20, fc_ContextSigningHeight = 0, fc_SubmissionRetryInterval = 1\<rparr> (\<lambda>_ _. demo_cc) NoFault
     (\<lambda>_. demo_attempt demo_recorder) demo_gap (demo_ds []) = Some out"
  using SubmitBatchFinalitySignatures_returns
    [of "\<lparr>fc_MaxSubmissionRetries = 20, fc_ContextSigningHeight = 0, fc_SubmissionRetryInterval = 1\<rparr>" "\<lambda>_. demo_attempt demo_recorder"]
  by fastforce

section \<open>The last voted height\<close>

text \<open>A transaction was included.\<close>

definition voted :: "TxResponse option go \<Rightarrow> bool" where
  "voted r = (case r of Ok (Some res) \<Rightarrow> tx_TxHash res \<noteq> [] | _ \<Rightarrow> False)"

abbreviation lastVoted :: "('s, 'c, 'pk, 'ds, 'dc) DefaultFinalitySubmitter \<Rightarrow> u64" where
  "lastVoted ds \<equiv> GetLastVotedHeight (ds_State ds)"

definition height_effect ::
  "u64 \<Rightarrow> TxResponse option go \<Rightarrow> ('s, 'c, 'pk, 'ds, 'dc) DefaultFinalitySubmitter \<Rightarrow> ('s, 'c, 'pk, 'ds, 'dc) DefaultFinalitySubmitter \<Rightarrow> bool" where
  "height_effect h r ds ds' \<longleftrightarrow> (voted r \<longrightarrow> lastVoted ds' = h) \<and> (\<not> voted r \<and> (\<forall>c. r \<noteq> Crash c) \<longrightarrow> lastVoted ds' = lastVoted ds) \<and>
     (lastVoted ds' = lastVoted ds \<or> lastVoted ds' = h)"

lemma MustSetLastVotedHeight_height:
  "MustSetLastVotedHeight x flt h fps = (r, fps') \<Longrightarrow> GetLastVotedHeight fps' = h \<and> (\<forall>e. r \<noteq> Err e)"
  by (auto simp: MustSetLastVotedHeight_def split: prod.splits go.splits if_splits dest: SetLastVotedHeight_cache)

lemma lastVoted_keeps [keeps_intros]:
  "keeps ds_State (ds_GetPubRandList sx em h n)" "keeps ds_State (SignFinalitySigBatch sx em blocks)" "keeps ds_State (sendValid env valid)"
  by (auto simp: keeps_def ds_GetPubRandList_def SignFinalitySigBatch_def sendValid_def on_Em_def on_ConsumerCtrl_def Let_def
      split: prod.splits)

lemma not_voted: "\<forall>a. r \<noteq> Ok a \<Longrightarrow> \<not> voted r"
  by (cases r) (auto simp: voted_def)

lemma not_voted_simps [simp]: "\<not> voted (Ok None)" "\<not> voted (Err e)" "\<not> voted (Crash c)"
  by (simp_all add: voted_def)

lemma sendVotes_height:
  assumes "sendVotes x env blocks valid ds = (r, ds')"
  shows "height_effect (bi_height (last blocks)) r ds ds'"
  using assms unfolding sendVotes_def
proof (cases rule: sbindE)
  case (Ok res ds1)
  have st: "ds_State ds1 = ds_State ds" using keepsD [OF lastVoted_keeps(3) Ok(1)] .
  show ?thesis
  proof (cases "tx_TxHash res = []")
    case True
    with Ok(2) st show ?thesis by (auto simp: liftR_eq height_effect_def voted_def)
  next
    case False
    obtain r2 fps2 where set: "MustSetLastVotedHeight x (ae_flt env) (bi_height (last blocks)) (ds_State ds1) = (r2, fps2)" by fastforce
    from MustSetLastVotedHeight_height [OF set] Ok(2) False set show ?thesis
      by (cases r2) (auto simp: on_State_def sbind_def liftR_def height_effect_def voted_def)
  qed
next
  case (stop r')
  have "ds_State ds' = ds_State ds" using keepsD [OF lastVoted_keeps(3) stop(1)] .
  with not_voted stop(3) show ?thesis by (simp add: height_effect_def)
qed

lemma once_height:
  assumes "submitBatchFinalitySignaturesOnce x sx env blocks ds = (r, ds')"
  shows "height_effect (bi_height (last blocks)) r ds ds'"
proof -
  have same: ?thesis if "ds_State ds' = ds_State ds" "\<not> voted r" using that by (simp add: height_effect_def)
  consider "ds_State ds' = ds_State ds" "\<not> voted r"
    | valid ds2 where "ds_State ds2 = ds_State ds" "sendVotes x env blocks valid ds2 = (r, ds')"
    using assms unfolding submitBatchFinalitySignaturesOnce_def Let_def
    by (auto simp: liftR_eq wrapS_eq not_voted split: if_splits elim!: sbindE dest!: keepsD [OF lastVoted_keeps(1)] keepsD [OF lastVoted_keeps(2)])
  then show ?thesis
  proof cases
    case 2
    from sendVotes_height [OF 2(2)] 2(1) show ?thesis by (simp add: height_effect_def)
  qed (use same in blast)
qed

text \<open>An induction rule for the loop: a relation that holds for every attempt whose result is returned as it is,
  for a failed attempt with whatever the loop returns in its place, and that passes through a failed
  attempt, holds for the loop.\<close>

lemma submitLoop_rule:
  assumes "submitLoop x sx cfg env blocks i failed ds = Some (r, ds')"
    and base: "\<And>i ds r ds1. submitBatchFinalitySignaturesOnce x sx (env i) blocks ds = (r, ds1) \<Longrightarrow> Q ds r ds1"
    and err: "\<And>i ds e ds1 r. submitBatchFinalitySignaturesOnce x sx (env i) blocks ds = (Err e, ds1) \<Longrightarrow>
      \<forall>res. r \<noteq> Ok (Some res) \<Longrightarrow> Q ds r ds1"
    and step: "\<And>i ds e ds1 r ds'. submitBatchFinalitySignaturesOnce x sx (env i) blocks ds = (Err e, ds1) \<Longrightarrow>
      Q ds1 r ds' \<Longrightarrow> Q ds r ds'"
  shows "Q ds r ds'"
proof -
  let ?P = "\<lambda>x' sx' cfg env' blocks' (i :: nat) (failed :: u32) ds out.
    x' = x \<and> sx' = sx \<and> env' = env \<and> blocks' = blocks \<longrightarrow> Q ds (fst out) (snd out)"
  note induct = submitLoop.raw_induct [of ?P "(((((((x, sx), cfg), env), blocks), i), failed), ds)" "(r, ds')", unfolded split_conv, OF _ assms(1)]
  have "?P x sx cfg env blocks i failed ds (r, ds')"
  proof (rule induct, intro impI, goal_cases)
    case (1 loop x' sx' cfg env' blocks' i failed ds out)
    then have eq: "x' = x" "sx' = sx" "env' = env" "blocks' = blocks" by auto
    obtain r1 ds1 where once: "submitBatchFinalitySignaturesOnce x sx (env i) blocks ds = (r1, ds1)" by fastforce
    show ?case
    proof (cases r1)
      case (Err e)
      note o = once [unfolded Err]
      show ?thesis
        using 1(2) err [OF o] 1(1) step [OF o] unfolding eq o
        by (auto simp: Let_def split: if_splits go.splits)
    qed (use base [OF once] 1(2) [unfolded eq once] in auto)
  qed
  then show ?thesis by simp
qed

lemma submitLoop_height:
  assumes "submitLoop x sx cfg env blocks i failed ds = Some (r, ds')"
  shows "height_effect (bi_height (last blocks)) r ds ds'"
  using assms
proof (rule submitLoop_rule, goal_cases)
  case (2 i ds e ds1 r)
  from once_height [OF 2(1)] have "lastVoted ds1 = lastVoted ds" by (simp add: height_effect_def)
  moreover have "\<not> voted r" using 2(2) by (auto simp: voted_def split: go.splits option.splits)
  ultimately show ?case by (simp add: height_effect_def)
next
  case (3 i ds e ds1 r ds')
  from once_height [OF 3(1)] have "lastVoted ds1 = lastVoted ds" by (simp add: height_effect_def)
  with 3(2) show ?case by (simp add: height_effect_def)
qed (rule once_height)

text \<open>C13. The last voted height never decreases. It becomes the height of a block of the batch above the old
  height when a transaction was included, and otherwise stays as it was (unless the process ended on a
  failed database write, where the cached height may already have moved).\<close>

theorem SubmitBatchFinalitySignatures_last_voted:
  assumes "SubmitBatchFinalitySignatures x sx cfg q flt env blocks ds = Some (r, ds')"
  shows "(voted r \<longrightarrow> (\<exists>b \<in> set blocks. lastVoted ds < bi_height b \<and> lastVoted ds' = bi_height b)) \<and>
    (\<not> voted r \<and> (\<forall>c. r \<noteq> Crash c) \<longrightarrow> lastVoted ds' = lastVoted ds) \<and> lastVoted ds \<le> lastVoted ds'"
proof -
  obtain r1 fps1 where F: "FilterBlocksForVoting x q flt blocks (ds_State ds) = (r1, fps1)" by fastforce
  have lv: "GetLastVotedHeight fps1 = lastVoted ds" using FilterBlocksForVoting_height [OF F] .
  show ?thesis
  proof (cases "\<exists>ps. r1 = Ok ps \<and> ps \<noteq> [] \<and> blocks \<noteq> []")
    case True
    then obtain ps where ps: "r1 = Ok ps" "ps \<noteq> []" "blocks \<noteq> []" by blast
    with assms F have "submitLoop x sx cfg env ps 0 0 (ds\<lparr>ds_State := fps1\<rparr>) = Some (r, ds')"
      by (simp add: SubmitBatchFinalitySignatures_def wrapS_def on_State_def)
    from submitLoop_height [OF this] have E: "height_effect (bi_height (last ps)) r (ds\<lparr>ds_State := fps1\<rparr>) ds'" .
    have "last ps \<in> set blocks \<and> lastVoted ds < bi_height (last ps)"
      using FilterBlocksForVoting_subset [OF F [unfolded ps(1)], of "last ps"] ps(2) by simp
    with E lv show ?thesis by (auto simp: height_effect_def)
  next
    case False
    with assms F lv show ?thesis
      by (cases r1) (auto simp: SubmitBatchFinalitySignatures_def wrapS_def on_State_def split: if_splits)
  qed
qed

lemma demo_filter: "FilterBlocksForVoting plain_fp (\<lambda>_ _. demo_cc) NoFault demo_gap demo_fps = (Ok demo_gap, demo_fps)"
  by (simp add: FilterBlocksForVoting_def demo_gap_def NewBlockInfo_def sbind_def liftR_def getVotingPowerWithRetry_def demo_cc_def)

theorem SubmitBatchFinalitySignatures_last_voted_witness:
  "\<exists>r ds'. SubmitBatchFinalitySignatures plain_fp demo_sx
     \<lparr>fc_MaxSubmissionRetries = 0, fc_ContextSigningHeight = 0, fc_SubmissionRetryInterval = 1\<rparr> (\<lambda>_ _. demo_cc) NoFault
     (\<lambda>_. demo_attempt demo_recorder) demo_gap (demo_ds []) = Some (r, ds') \<and> ds_ConsumerCtrl ds' \<noteq> [] \<and> lastVoted ds' = 4"
proof -
  let ?cfg = "\<lparr>fc_MaxSubmissionRetries = 0, fc_ContextSigningHeight = 0, fc_SubmissionRetryInterval = 1\<rparr>"
  obtain s' req where "submitBatchFinalitySignaturesOnce plain_fp demo_sx (demo_attempt demo_recorder) demo_gap (demo_ds []) =
     (Ok (Some emptyTxResponse), demo_ds []\<lparr>ds_Em := s', ds_ConsumerCtrl := [req]\<rparr>)" using demo_attempt_sends by blast
  then have "submitLoop plain_fp demo_sx ?cfg (\<lambda>_. demo_attempt demo_recorder) demo_gap 0 0 (demo_ds []) =
      Some (Ok (Some emptyTxResponse), demo_ds []\<lparr>ds_Em := s', ds_ConsumerCtrl := [req]\<rparr>)" by (simp add: submitLoop.simps)
  moreover have "demo_gap \<noteq> []" by (simp add: demo_gap_def)
  ultimately have run: "SubmitBatchFinalitySignatures plain_fp demo_sx ?cfg (\<lambda>_ _. demo_cc) NoFault (\<lambda>_. demo_attempt demo_recorder) demo_gap (demo_ds []) =
      Some (Ok (Some emptyTxResponse), demo_ds []\<lparr>ds_Em := s', ds_ConsumerCtrl := [req]\<rparr>)"
    using demo_filter by (simp add: SubmitBatchFinalitySignatures_def wrapS_def on_State_def demo_ds_def)
  with SubmitBatchFinalitySignatures_last_voted [OF run] show ?thesis
    by (auto simp: voted_def emptyTxResponse_def demo_ds_def)
qed

end
