(* ===== verification/Voting_Safety.thy ===== *)
theory Voting_Safety
  imports Finality_Submitter
begin

text \<open>
  The composition of the submission service, the EOTS manager and the Babylon client: what reaches the chain.
  The locale \<open>vote_sink\<close> states the client's side of the contract, that the votes it sends are those of the
  requests; the Babylon client keeps it whatever the chain answers. With the manager's contract it follows
  that a provider never sends votes for two different blocks of one height, over any sequence of
  submissions, other uses of the manager and restarts of both programs.
\<close>

section \<open>The consumer chain client\<close>

locale vote_sink =
  fixes submit :: "('pk, 'fv, 'sc) SubmitBatchFinalitySigsRequest \<Rightarrow> ('c, TxResponse option) cmd"
    and votes :: "'c \<Rightarrow> (u64 \<times> bytes \<times> 'g) set"
    and pk :: 'pk
    and sigOf :: "'sc \<Rightarrow> 'g"
  assumes votes_from_request: "submit req c = (r, c') \<Longrightarrow> sb_FpPk req = pk \<Longrightarrow>
    votes c' \<subseteq> votes c \<union> (\<lambda>(b, sig). (bi_height b, bi_Hash b, sigOf sig)) ` set (zip (sb_Blocks req) (sb_Sigs req))"

definition babylonSubmit ::
  "('pk, 'fv, 'sc, 'sg, 'pr) bbn_ext \<Rightarrow> 'pr finality_msg bbn_client \<Rightarrow> bbn_config \<Rightarrow>
     ('pk, 'fv, 'sc) SubmitBatchFinalitySigsRequest \<Rightarrow> ('pr finality_msg list list, TxResponse option) cmd" where
  "babylonSubmit x c cfg req = sbind (SubmitBatchFinalitySigs x c cfg req) (\<lambda>res. liftR (Ok (Some res)))"

text \<open>The votes of a public key among the messages sent.\<close>

definition babylonVotes :: "bytes \<Rightarrow> 'pr finality_msg list list \<Rightarrow> (u64 \<times> bytes \<times> bytes) set" where
  "babylonVotes pk sent = {(h, hash, sig). \<exists>signer rand proof.
     MsgAddFinalitySig signer pk h rand proof hash sig \<in> set (concat sent)}"

lemma sigMsgs_Ok:
  assumes "sigMsgs x c cfg pk blocks proofs rands sigs = Ok msgs" and "m \<in> set msgs"
  shows "\<exists>b sig signer rand proof. (b, sig) \<in> set (zip blocks sigs) \<and>
    m = MsgAddFinalitySig signer (bx_BIP340 x pk) (bi_height b) rand proof (bi_Hash b) (bx_EOTSSig x sig)"
  using assms
proof (induction blocks arbitrary: proofs rands sigs msgs)
  case (Cons b blocks)
  then obtain pf proofs' r rands' s sigs' cp signer rest where eq: "proofs = pf # proofs'" "rands = r # rands'" "sigs = s # sigs'"
    and rest: "sigMsgs x c cfg pk blocks proofs' rands' sigs' = Ok rest"
    and msgs: "msgs = MsgAddFinalitySig signer (bx_BIP340 x pk) (bi_height b) (bx_PubRand x r) cp (bi_Hash b) (bx_EOTSSig x s) # rest"
    by (cases proofs; cases rands; cases sigs) (auto simp: go_simps)
  show ?case
  proof (cases "m \<in> set rest")
    case True
    from Cons.IH [OF rest True] show ?thesis unfolding eq by force
  next
    case False
    with Cons.prems(2) msgs show ?thesis unfolding eq by force
  qed
qed simp

lemma resending_sends_messages:
  assumes "reliablySendMsgsResendingOnMsgErr txt c cfg msgs expd unrec sent = (r, sent')"
  shows "set (concat sent') \<subseteq> set (concat sent) \<union> set msgs"
proof -
  from assms have loop: "resendLoop txt c expd unrec (unat (BatchRetries msgs (bb_MaxRetriesBatchRemovingMsgs cfg))) msgs None sent = (r, sent')"
    by (simp add: reliablySendMsgsResendingOnMsgErr_def)
  obtain bs where bs: "sent' = sent @ bs" "\<forall>i < length bs. subseq (bs ! i) msgs"
  proof (cases "unat (BatchRetries msgs (bb_MaxRetriesBatchRemovingMsgs cfg))")
    case (Suc n)
    from resendLoop_outcome [OF loop [unfolded Suc]] obtain bs where bs: "sent' = sent @ bs" "hd bs = msgs"
      and out: "resend_outcome txt c expd unrec (Suc n) sent r bs" by blast
    with resend_outcome_batches [OF out] show thesis by (intro that [of bs]) auto
  qed (use loop in \<open>auto intro: that [of "[]"]\<close>)
  then have "\<forall>b \<in> set bs. set b \<subseteq> set msgs" by (metis in_set_conv_nth subseq_subset)
  with bs(1) show ?thesis by auto
qed

lemma SubmitBatchFinalitySigs_sends:
  assumes "SubmitBatchFinalitySigs x c cfg req sent = (r, sent')" and "m \<in> set (concat sent')"
  shows "m \<in> set (concat sent) \<or> (\<exists>b sig signer rand proof. (b, sig) \<in> set (zip (sb_Blocks req) (sb_Sigs req)) \<and>
    m = MsgAddFinalitySig signer (bx_BIP340 x (sb_FpPk req)) (bi_height b) rand proof (bi_Hash b) (bx_EOTSSig x sig))"
proof -
  consider "sent' = sent" | msgs r' where
      "sigMsgs x c cfg (sb_FpPk req) (sb_Blocks req) (sb_ProofList req) (sb_PubRandList req) (sb_Sigs req) = Ok msgs"
      "reliablySendMsgsResendingOnMsgErr (bx_txt x) c cfg msgs [ErrDuplicatedFinalitySig, ErrSigHeightOutdated]
        [ErrInvalidFinalitySig, ErrPubRandNotFound, ErrFpAlreadySlashed] sent = (r', sent')"
    using assms(1) unfolding SubmitBatchFinalitySigs_def
    by (auto simp: liftR_eq split: if_splits elim!: sbindE)
  then show ?thesis
  proof cases
    case 2
    from resending_sends_messages [OF 2(2)] assms(2) consider "m \<in> set (concat sent)" | "m \<in> set msgs" by blast
    then show ?thesis using sigMsgs_Ok [OF 2(1)] by cases blast+
  qed (use assms(2) in blast)
qed

interpretation babylon_votes: vote_sink "babylonSubmit x c cfg" "babylonVotes (bx_BIP340 x pk)" pk "bx_EOTSSig x" for x c cfg pk
proof
  fix req sent r sent'
  assume run: "babylonSubmit x c cfg req sent = (r, sent')" and pk: "sb_FpPk req = pk"
  from run obtain r' where r': "SubmitBatchFinalitySigs x c cfg req sent = (r', sent')"
    unfolding babylonSubmit_def by (auto simp: liftR_eq elim!: sbindE)
  show "babylonVotes (bx_BIP340 x pk) sent' \<subseteq> babylonVotes (bx_BIP340 x pk) sent \<union>
      (\<lambda>(b, sig). (bi_height b, bi_Hash b, bx_EOTSSig x sig)) ` set (zip (sb_Blocks req) (sb_Sigs req))"
    using SubmitBatchFinalitySigs_sends [OF r'] unfolding babylonVotes_def by force
qed

section \<open>Sent votes are recorded votes\<close>

definition recorded ::
  "('pk, 'sc) sub_ext \<Rightarrow> ('sc \<Rightarrow> 'g) \<Rightarrow> 'pk \<times> bytes \<Rightarrow> (bytes \<times> bytes \<times> u64 \<Rightarrow> (bytes \<times> 'sc) option) \<Rightarrow> u64 \<times> bytes \<times> 'g \<Rightarrow> bool" where
  "recorded sx sigOf ident vote = (\<lambda>(h, hash, g). \<exists>sig. g = sigOf sig \<and>
     vote (snd ident, sx_PkBytes sx (fst ident), h) = Some (sx_Uint64ToBigEndian sx h @ hash, sig))"

definition votes_recorded ::
  "('pk, 'sc) sub_ext \<Rightarrow> ('s \<Rightarrow> bytes \<times> bytes \<times> u64 \<Rightarrow> (bytes \<times> 'sc) option) \<Rightarrow> ('c \<Rightarrow> (u64 \<times> bytes \<times> 'g) set) \<Rightarrow> ('sc \<Rightarrow> 'g) \<Rightarrow>
     ('s, 'c, 'pk, 'ds, 'dc) DefaultFinalitySubmitter \<Rightarrow> bool" where
  "votes_recorded sx voteOf votes sigOf ds \<longleftrightarrow>
     (\<forall>v \<in> votes (ds_ConsumerCtrl ds). recorded sx sigOf (identity (ds_State ds)) (voteOf (ds_Em ds)) v)"

lemma recorded_mono: "vote \<subseteq>\<^sub>m vote' \<Longrightarrow> recorded sx sigOf ident vote v \<Longrightarrow> recorded sx sigOf ident vote' v"
  unfolding recorded_def by (auto dest: map_leD)

lemma recorded_agree: "recorded sx sigOf ident vote (h, hash, g) \<Longrightarrow> recorded sx sigOf ident vote (h, hash', g') \<Longrightarrow>
    hash = hash' \<and> g = g'"
  unfolding recorded_def by auto

lemma vote_entry_recorded:
  "vote_entry sx randFor vote env ident blocks (b, r, p, sig) \<Longrightarrow> recorded sx sigOf ident vote (bi_height b, bi_Hash b, sigOf sig)"
  unfolding vote_entry_def recorded_def MsgToSign_def by (auto split: prod.splits)

lemma votes_recorded_grows:
  assumes "votes_recorded sx voteOf votes sigOf ds" and "voteOf (ds_Em ds) \<subseteq>\<^sub>m voteOf (ds_Em ds')"
    and "identity (ds_State ds') = identity (ds_State ds)" and "votes (ds_ConsumerCtrl ds') = votes (ds_ConsumerCtrl ds)"
  shows "votes_recorded sx voteOf votes sigOf ds'"
  using assms(1,3,4) unfolding votes_recorded_def by (auto intro: recorded_mono [OF assms(2)])

text \<open>One attempt keeps this: what it sends was recorded first.\<close>

lemma zip_submitRequest:
  "zip (sb_Blocks (submitRequest pk valid)) (sb_Sigs (submitRequest pk valid)) = map (\<lambda>(b, r, p, sig). (b, sig)) valid"
  by (induction valid) (auto simp: submitRequest_def)

lemma attempt_safe:
  assumes "attempt_effect sx emInv randFor voteOf env blocks ds ds'"
    and "vote_sink (ae_SubmitBatchFinalitySigs env) votes (GetBtcPk (ds_State ds)) sigOf"
    and "votes_recorded sx voteOf votes sigOf ds"
  shows "votes_recorded sx voteOf votes sigOf ds'"
proof (cases "ds_ConsumerCtrl ds' = ds_ConsumerCtrl ds")
  case True
  with assms(1) show ?thesis by (intro votes_recorded_grows [OF assms(3)]) (simp_all add: attempt_effect_def grows_def)
next
  case False
  let ?pk = "GetBtcPk (ds_State ds)" and ?id = "identity (ds_State ds)"
  from False assms(1) obtain valid r where
    run: "ae_SubmitBatchFinalitySigs env (submitRequest ?pk valid) (ds_ConsumerCtrl ds) = (r, ds_ConsumerCtrl ds')"
    and entry: "\<And>v. v \<in> set valid \<Longrightarrow> vote_entry sx randFor (voteOf (ds_Em ds')) env ?id blocks v"
    and le: "voteOf (ds_Em ds) \<subseteq>\<^sub>m voteOf (ds_Em ds')" and id: "identity (ds_State ds') = ?id"
    unfolding attempt_effect_def grows_def by blast
  have "recorded sx sigOf ?id (voteOf (ds_Em ds')) v" if "v \<in> votes (ds_ConsumerCtrl ds')" for v
  proof -
    have "v \<in> votes (ds_ConsumerCtrl ds) \<union> (\<lambda>(b, sig). (bi_height b, bi_Hash b, sigOf sig)) ` (\<lambda>(b, r, p, sig). (b, sig)) ` set valid"
      using vote_sink.votes_from_request [OF assms(2) run] that unfolding zip_submitRequest by (auto simp: submitRequest_def)
    then consider "v \<in> votes (ds_ConsumerCtrl ds)"
      | b r p sig where "(b, r, p, sig) \<in> set valid" "v = (bi_height b, bi_Hash b, sigOf sig)" by auto
    then show ?thesis
    proof cases
      case 1
      with assms(3) show ?thesis unfolding votes_recorded_def by (blast intro: recorded_mono [OF le])
    next
      case 2
      from vote_entry_recorded [OF entry [OF 2(1)]] 2(2) show ?thesis by simp
    qed
  qed
  with id show ?thesis by (simp add: votes_recorded_def)
qed

section \<open>A whole submission\<close>

definition voting_safe where
  "voting_safe sx emInv voteOf votes sigOf ident ds \<longleftrightarrow>
     emInv (ds_Em ds) \<and> identity (ds_State ds) = ident \<and> votes_recorded sx voteOf votes sigOf ds"

lemma voting_safeD: "voting_safe sx emInv voteOf votes sigOf ident ds \<Longrightarrow> v \<in> votes (ds_ConsumerCtrl ds) \<Longrightarrow>
    recorded sx sigOf ident (voteOf (ds_Em ds)) v"
  unfolding voting_safe_def votes_recorded_def by auto

lemma keeps_FilterBlocksForVoting: "keeps identity (FilterBlocksForVoting x q flt blocks)"
proof -
  have "identity fps' = identity fps" if "FilterBlocksForVoting x q flt blocks fps = (r, fps')" for r fps fps'
    using that unfolding FilterBlocksForVoting_def
    by (auto simp: liftR_eq elim!: sbindE split: if_splits dest: keepsD [OF keeps_must(1)])
  then show ?thesis unfolding keeps_def by (metis prod.collapse)
qed

lemma submission_safe:
  assumes svc: "\<And>i. eots_service (ae_Em (env i)) emInv randFor voteOf"
    and sink: "\<And>i. vote_sink (ae_SubmitBatchFinalitySigs (env i)) votes (fst ident) sigOf"
    and conv: "\<And>s. sx_ToModNScalar sx (sx_NewSchnorrEOTSSigFromModNScalar sx s) = s"
    and run: "SubmitBatchFinalitySignatures x sx cfg q flt env blocks ds = Some (r, ds')"
    and safe: "voting_safe sx emInv voteOf votes sigOf ident ds"
  shows "voting_safe sx emInv voteOf votes sigOf ident ds'"
proof -
  let ?safe = "voting_safe sx emInv voteOf votes sigOf ident"
  have once: "?safe ds1"
    if "submitBatchFinalitySignaturesOnce x sx (env i) bs ds0 = (r1, ds1)" "?safe ds0" for i bs ds0 r1 ds1
  proof -
    have E: "attempt_effect sx emInv randFor voteOf (env i) bs ds0 ds1"
      using eots_service.once_effect [OF svc that(1) refl _ conv] that(2) by (simp add: voting_safe_def)
    have "GetBtcPk (ds_State ds0) = fst ident" using that(2) by (auto simp: voting_safe_def identity_def)
    then have "votes_recorded sx voteOf votes sigOf ds1"
      using attempt_safe [OF E, of votes sigOf] sink [of i] that(2) by (simp add: voting_safe_def)
    with E that(2) show ?thesis by (simp add: voting_safe_def attempt_effect_def grows_def)
  qed
  have loop: "?safe ds1" if "submitLoop x sx cfg env bs 0 0 ds0 = Some (r, ds1)" "?safe ds0" for bs ds0 ds1
    using submitLoop_rule [where Q = "\<lambda>a r b. ?safe a \<longrightarrow> ?safe b", OF that(1)] that(2) once by blast
  obtain r1 ds1 where F: "on_State (FilterBlocksForVoting x q flt blocks) ds = (r1, ds1)" by fastforce
  from on_State_keeps [OF F keeps_FilterBlocksForVoting] safe have "?safe ds1"
    by (auto simp: voting_safe_def votes_recorded_def)
  with run F safe loop show ?thesis
    by (cases r1) (auto simp: SubmitBatchFinalitySignatures_def wrapS_def split: if_splits)
qed

section \<open>Any sequence of events\<close>

text \<open>Submissions in any environment of the local manager and the Babylon client, any other use of the manager
  and its restarts, and restarts of the provider with any record of the same key and chain.\<close>

inductive voting_step ::
  "('pk, 'ds, 'dc) fp_ext \<Rightarrow> ('pk, 'sc) sub_ext \<Rightarrow> ('kr, 'sk, 'sc, 'fv, 'sg, 'pk2) eots_ext \<Rightarrow> ('pk, 'fv, 'sc, 'sg, 'pr) bbn_ext \<Rightarrow>
     (('kr, 'sk) LocalEOTSManager, 'pr finality_msg list list, 'pk, 'ds, 'dc) DefaultFinalitySubmitter \<Rightarrow>
     (('kr, 'sk) LocalEOTSManager, 'pr finality_msg list list, 'pk, 'ds, 'dc) DefaultFinalitySubmitter \<Rightarrow> bool"
  for x :: "('pk, 'ds, 'dc) fp_ext" and sx :: "('pk, 'sc) sub_ext" and e :: "('kr, 'sk, 'sc, 'fv, 'sg, 'pk2) eots_ext"
    and bx :: "('pk, 'fv, 'sc, 'sg, 'pr) bbn_ext" where
  submit: "SubmitBatchFinalitySignatures x sx cfg q flt env blocks ds = Some (r, ds') \<Longrightarrow>
    (\<And>i. \<exists>tx now. ae_Em (env i) = localManager e tx now) \<Longrightarrow>
    (\<And>i. \<exists>c bcfg. ae_SubmitBatchFinalitySigs (env i) = babylonSubmit bx c bcfg) \<Longrightarrow> voting_step x sx e bx ds ds'"
| manager: "eots_step e (ds_Em ds) events s' \<Longrightarrow> voting_step x sx e bx ds (ds\<lparr>ds_Em := s'\<rparr>)"
| restart: "identity fps = identity (ds_State ds) \<Longrightarrow> voting_step x sx e bx ds (ds\<lparr>ds_State := fps\<rparr>)"

lemma voting_step_safe:
  assumes codec: "eots_codec e" and conv: "\<And>s. sx_ToModNScalar sx (sx_NewSchnorrEOTSSigFromModNScalar sx s) = s"
    and step: "voting_step x sx e bx ds ds'"
    and safe: "voting_safe sx (\<lambda>s. wf_store e (lm_es s)) (signedFor e) (babylonVotes (bx_BIP340 bx (fst ident))) (bx_EOTSSig bx) ident ds"
  shows "voting_safe sx (\<lambda>s. wf_store e (lm_es s)) (signedFor e) (babylonVotes (bx_BIP340 bx (fst ident))) (bx_EOTSSig bx) ident ds'"
  using step
proof cases
  case (submit cfg q flt env blocks r)
  have "eots_service (ae_Em (env i)) (\<lambda>s. wf_store e (lm_es s)) (randFor_local e) (signedFor e)" for i
    using submit(2) [of i] eots_codec.local_eots_service [OF codec] by metis
  moreover have "vote_sink (ae_SubmitBatchFinalitySigs (env i)) (babylonVotes (bx_BIP340 bx (fst ident))) (fst ident) (bx_EOTSSig bx)" for i
    using submit(3) [of i] babylon_votes.vote_sink_axioms by metis
  ultimately show ?thesis using submission_safe [OF _ _ conv submit(1) safe] by blast
next
  case (manager events s')
  have wf: "wf_store e (lm_es (ds_Em ds))" using safe by (simp add: voting_safe_def)
  have ext: "extends e (recordOf e (lm_es (ds_Em ds))) s'"
    using eots_codec.step_extends [OF codec manager(2) extends_same [OF wf]] .
  then have "signedFor e (ds_Em ds) \<subseteq>\<^sub>m signedFor e s'" by (auto simp: map_le_def dom_def dest: extends_signedFor)
  with ext safe show ?thesis unfolding manager(1)
    by (auto simp: voting_safe_def extends_def intro: votes_recorded_grows)
next
  case (restart fps)
  with safe show ?thesis by (auto simp: voting_safe_def votes_recorded_def)
qed

text \<open>A provider never sends conflicting votes: from an empty outbox, in any sequence of submissions (with
  whatever the chain, the databases and the retries do), other uses of the manager and restarts of the two
  programs, two finality signature messages of the provider for one height carry the same block hash and
  the same signature.\<close>

theorem no_conflicting_votes:
  assumes "eots_codec e" and "\<And>s. sx_ToModNScalar sx (sx_NewSchnorrEOTSSigFromModNScalar sx s) = s"
    and "wf_store e (lm_es (ds_Em ds))" and "ds_ConsumerCtrl ds = []"
    and "(voting_step x sx e bx)\<^sup>*\<^sup>* ds ds'"
  defines "pk \<equiv> bx_BIP340 bx (GetBtcPk (ds_State ds))"
  assumes "MsgAddFinalitySig signer pk h rand proof hash sig \<in> set (concat (ds_ConsumerCtrl ds'))"
    and "MsgAddFinalitySig signer' pk h rand' proof' hash' sig' \<in> set (concat (ds_ConsumerCtrl ds'))"
  shows "hash = hash' \<and> sig = sig'"
proof -
  let ?ident = "identity (ds_State ds)"
  let ?safe = "voting_safe sx (\<lambda>s. wf_store e (lm_es s)) (signedFor e) (babylonVotes (bx_BIP340 bx (fst ?ident))) (bx_EOTSSig bx) ?ident"
  have "?safe ds" using assms(3,4) by (simp add: voting_safe_def votes_recorded_def babylonVotes_def)
  with assms(5) have "?safe ds'"
    by (induction rule: rtranclp_induct) (use voting_step_safe [OF assms(1,2)] in blast)+
  then have rec: "recorded sx (bx_EOTSSig bx) ?ident (signedFor e (ds_Em ds')) v"
    if "v \<in> babylonVotes pk (ds_ConsumerCtrl ds')" for v
    by (rule voting_safeD) (use that in \<open>simp add: pk_def identity_def\<close>)
  have "(h, hash, sig) \<in> babylonVotes pk (ds_ConsumerCtrl ds')" "(h, hash', sig') \<in> babylonVotes pk (ds_ConsumerCtrl ds')"
    using assms(7,8) by (auto simp: babylonVotes_def)
  from recorded_agree [OF rec [OF this(1)] rec [OF this(2)]] show ?thesis .
qed

definition demo_accept :: "bytes finality_msg bbn_client" where
  "demo_accept = \<lparr>bc_Key = Ok, bc_GetAddress = Ok, bc_Send = (\<lambda>_ _ _ _. Ok (Some emptyTxResponse)), bc_PowerAtHeight = (\<lambda>_ _. Ok 1),
     bc_ListBlocks = (\<lambda>_ _. Ok []), bc_Block = (\<lambda>h. Ok \<lparr>ib_Height = h, ib_AppHash = ''h'', ib_Finalized = False\<rparr>),
     bc_ListPubRandCommit = (\<lambda>_ _. Ok \<lparr>cp_Map = [], cp_NextKey = None\<rparr>), bc_FinalityActivationHeight = Ok 1,
     bc_FinalityProvider = (\<lambda>_. Err (ErrText ''not found'')), bc_BlockchainInfo = Ok [], bc_IsRunning = True, bc_Stop = Ok ()\<rparr>"

abbreviation demo_submit where
  "demo_submit \<equiv> babylonSubmit demo_bbn demo_accept demo_bbn_cfg"

lemma demo_submits:
  "\<exists>ds'. SubmitBatchFinalitySignatures plain_fp demo_sx
     \<lparr>fc_MaxSubmissionRetries = 0, fc_ContextSigningHeight = 0, fc_SubmissionRetryInterval = 1\<rparr> (\<lambda>_ _. demo_cc) NoFault
     (\<lambda>_. demo_attempt demo_submit) demo_gap (demo_ds []) = Some (Ok (Some emptyTxResponse), ds') \<and>
     (\<exists>signer rand sig. MsgAddFinalitySig signer ''pk'' 7 rand ''p'' ''h'' sig \<in> set (concat (ds_ConsumerCtrl ds')))"
proof -
  let ?cfg = "\<lparr>fc_MaxSubmissionRetries = 0, fc_ContextSigningHeight = 0, fc_SubmissionRetryInterval = 1\<rparr>"
  let ?env = "\<lambda>_ :: nat. demo_attempt demo_submit" and ?ds = "demo_ds [] :: (_, bytes finality_msg list list, _, _, _) DefaultFinalitySubmitter"
  let ?msg = "\<lambda>h k sig. MsgAddFinalitySig ''bbn'' ''pk'' h (''k'' @ be64 k @ ''c'' @ be64 0) ''p'' ''h'' sig"
  obtain s' sig sig' where once: "submitBatchFinalitySignaturesOnce plain_fp demo_sx (demo_attempt demo_submit) demo_gap ?ds =
     sendVotes plain_fp (demo_attempt demo_submit) demo_gap (demo_valid sig sig') (?ds\<lparr>ds_Em := s'\<rparr>)"
    using demo_attempt_runs [of demo_submit "[]"] by blast
  have n: "unat (BatchRetries [?msg 5 5 sig, ?msg 7 6 sig'] (bb_MaxRetriesBatchRemovingMsgs demo_bbn_cfg)) = Suc (Suc 0)"
    by (simp add: BatchRetries_def demo_bbn_cfg_def)
  have signer: "MustGetTxSigner demo_bbn demo_accept demo_bbn_cfg = Ok ''bbn''"
    by (simp add: MustGetTxSigner_def GetKeyAddress_def demo_accept_def demo_bbn_cfg_def demo_bbn_def)
  have "SubmitBatchFinalitySigs demo_bbn demo_accept demo_bbn_cfg (submitRequest ''pk'' (demo_valid sig sig')) [] =
      (Ok emptyTxResponse, [[?msg 5 5 sig, ?msg 7 6 sig']])"
    using n by (simp add: SubmitBatchFinalitySigs_def submitRequest_def demo_valid_def demo_gap_def NewBlockInfo_def signer sbind_def liftR_def
        reliablySendMsgsResendingOnMsgErr_def sendMsgs_def) (simp add: demo_bbn_def demo_accept_def sbind_def liftR_def sendMsgs_def)
  then have "sendVotes plain_fp (demo_attempt demo_submit) demo_gap (demo_valid sig sig') (?ds\<lparr>ds_Em := s'\<rparr>) =
      (Ok (Some emptyTxResponse), ?ds\<lparr>ds_Em := s', ds_ConsumerCtrl := [[?msg 5 5 sig, ?msg 7 6 sig']]\<rparr>)"
    by (simp add: sendVotes_def sendValid_def on_ConsumerCtrl_def demo_attempt_def babylonSubmit_def sbind_def liftR_def demo_ds_def
        emptyTxResponse_def)
  with once have "submitLoop plain_fp demo_sx ?cfg ?env demo_gap 0 0 ?ds =
      Some (Ok (Some emptyTxResponse), ?ds\<lparr>ds_Em := s', ds_ConsumerCtrl := [[?msg 5 5 sig, ?msg 7 6 sig']]\<rparr>)"
    by (simp add: submitLoop.simps)
  then have "SubmitBatchFinalitySignatures plain_fp demo_sx ?cfg (\<lambda>_ _. demo_cc) NoFault ?env demo_gap ?ds =
      Some (Ok (Some emptyTxResponse), ?ds\<lparr>ds_Em := s', ds_ConsumerCtrl := [[?msg 5 5 sig, ?msg 7 6 sig']]\<rparr>)"
    using demo_filter by (simp add: SubmitBatchFinalitySignatures_def wrapS_def on_State_def demo_ds_def demo_gap_def)
  then show ?thesis by (intro exI [of _ "?ds\<lparr>ds_Em := s', ds_ConsumerCtrl := [[?msg 5 5 sig, ?msg 7 6 sig']]\<rparr>"]) auto
qed

lemma demo_votes_sent:
  "\<exists>ds'. voting_step plain_fp demo_sx demo_ext demo_bbn (demo_ds []) ds' \<and>
     (\<exists>signer rand sig. MsgAddFinalitySig signer ''pk'' 7 rand ''p'' ''h'' sig \<in> set (concat (ds_ConsumerCtrl ds')))"
proof -
  obtain ds' signer rand sig where run: "SubmitBatchFinalitySignatures plain_fp demo_sx
     \<lparr>fc_MaxSubmissionRetries = 0, fc_ContextSigningHeight = 0, fc_SubmissionRetryInterval = 1\<rparr> (\<lambda>_ _. demo_cc) NoFault
     (\<lambda>_. demo_attempt demo_submit) demo_gap (demo_ds []) = Some (Ok (Some emptyTxResponse), ds')"
    and m: "MsgAddFinalitySig signer ''pk'' 7 rand ''p'' ''h'' sig \<in> set (concat (ds_ConsumerCtrl ds'))" using demo_submits by blast
  from run have "voting_step plain_fp demo_sx demo_ext demo_bbn (demo_ds []) ds'"
    by (rule voting_step.submit) (auto simp: demo_attempt_def)
  with m show ?thesis by blast
qed

theorem no_conflicting_votes_witness:
  "\<exists>ds' signer rand sig. (voting_step plain_fp demo_sx demo_ext demo_bbn)\<^sup>*\<^sup>* (demo_ds []) ds' \<and>
     MsgAddFinalitySig signer ''pk'' 7 rand ''p'' ''h'' sig \<in> set (concat (ds_ConsumerCtrl ds')) \<and>
     (\<forall>signer' rand' proof' hash' sig'. MsgAddFinalitySig signer' ''pk'' 7 rand' proof' hash' sig' \<in> set (concat (ds_ConsumerCtrl ds')) \<longrightarrow>
       hash' = ''h'' \<and> sig' = sig)"
proof -
  obtain ds' signer rand sig where step: "voting_step plain_fp demo_sx demo_ext demo_bbn (demo_ds []) ds'"
    and m: "MsgAddFinalitySig signer ''pk'' 7 rand ''p'' ''h'' sig \<in> set (concat (ds_ConsumerCtrl ds'))" using demo_votes_sent by blast
  have steps: "(voting_step plain_fp demo_sx demo_ext demo_bbn)\<^sup>*\<^sup>* (demo_ds []) ds'" using step by (rule r_into_rtranclp)
  have "''h'' = hash' \<and> sig = sig'"
    if "MsgAddFinalitySig signer' ''pk'' 7 rand' proof' hash' sig' \<in> set (concat (ds_ConsumerCtrl ds'))" for signer' rand' proof' hash' sig'
    by (rule no_conflicting_votes [OF demo.eots_codec_axioms _ _ _ steps])
      (use m that in \<open>simp_all add: demo_sx_def demo_ds_def demo_bbn_def\<close>)
  with steps m show ?thesis by blast
qed

end
