(* ===== verification/PubRand_Store.thy ===== *)
theory PubRand_Store
  imports KV_Backend Big_Endian
begin

text \<open>
  The store of the inclusion proofs of committed public randomness
  (\<^verbatim>\<open>finality-provider/store/pub_rand.go\<close> and its adapter
  \<^verbatim>\<open>service/pub_rand_store_adapter.go\<close>). A proof is filed under the chain, the public key and the
  height; the lemmas say which heights an added list covers, what a query of a range returns, and that
  pruning removes exactly the heights up to the target. \<^verbatim>\<open>proof.ToProto().Marshal()\<close> and the
  cosmos SDK's big-endian functions are arguments.
\<close>

section \<open>Operations\<close>

definition pubRandProofBucketName :: bytes where
  "pubRandProofBucketName = ''pub_rand_proof''"

record 'pf pr_ext =
  pr_enc :: "u64 \<Rightarrow> bytes"
  pr_dec :: "bytes \<Rightarrow> u64"
  pr_marshal :: "'pf \<Rightarrow> bytes go"

definition pr_initBuckets :: "dbfault \<Rightarrow> (kvdb, unit) cmd" where
  "pr_initBuckets flt = wrapS ''failed to initialize pub rand proof bucket: '' (kv_update flt (\<lambda>d.
     wrap ''failed to create pub rand proof bucket: '' (tx_create_bucket flt 0 d pubRandProofBucketName)))"

definition NewPubRandProofStore :: "dbfault \<Rightarrow> kvdb \<Rightarrow> kvdb go" where
  "NewPubRandProofStore flt db = (case pr_initBuckets flt db of (r, db') \<Rightarrow> rbind r (\<lambda>_. Ok db'))"

definition getKey :: "'pf pr_ext \<Rightarrow> bytes \<Rightarrow> bytes \<Rightarrow> u64 \<Rightarrow> bytes" where
  "getKey x chainID pk height = (let heightBytes = pr_enc x height in chainID @ pk @ heightBytes)"

definition getPrefixKey :: "bytes \<Rightarrow> bytes \<Rightarrow> bytes" where
  "getPrefixKey chainID pk = chainID @ pk"

text \<open>The option \<^verbatim>\<open>WithInterval\<close> overrides the default interval 1. The loop variable, the product and the
  sum are 64-bit.\<close>

definition buildKeys :: "'pf pr_ext \<Rightarrow> bytes \<Rightarrow> bytes \<Rightarrow> u64 \<Rightarrow> u64 \<Rightarrow> u64 option \<Rightarrow> bytes list" where
  "buildKeys x chainID pk startHeight num withInterval =
     (let interval = (case withInterval of None \<Rightarrow> 1 | Some n \<Rightarrow> n) in
      map (\<lambda>i. getKey x chainID pk (startHeight + of_nat i * interval)) [0..<unat num])"

fun marshalProofs :: "'pf pr_ext \<Rightarrow> 'pf list \<Rightarrow> bytes list go" where
  "marshalProofs x [] = Ok []"
| "marshalProofs x (proof # proofList) =
     rbind (wrap ''invalid proof: '' (pr_marshal x proof)) (\<lambda>proofBytes.
     rbind (marshalProofs x proofList) (\<lambda>rest. Ok (proofBytes # rest)))"

fun putProofs :: "dbfault \<Rightarrow> nat \<Rightarrow> (bytes \<times> bytes) list \<Rightarrow> bucket \<Rightarrow> bucket go" where
  "putProofs flt i [] bucket = Ok bucket"
| "putProofs flt i ((key, proofBytes) # es) bucket =
     rbind (wrap ''failed to store pub rand proof: '' (tx_put flt i bucket key proofBytes))
       (putProofs flt (Suc i) es)"

definition AddPubRandProofList ::
  "'pf pr_ext \<Rightarrow> dbfault \<Rightarrow> bytes \<Rightarrow> bytes \<Rightarrow> u64 \<Rightarrow> u64 \<Rightarrow> 'pf list \<Rightarrow> u64 option \<Rightarrow> (kvdb, unit) cmd" where
  "AddPubRandProofList x flt chainID pk height numPubRand proofList withInterval =
     (let keys = buildKeys x chainID pk height numPubRand withInterval in
      if length keys \<noteq> length proofList
      then liftR (Err (ErrText ''the number of public randomness is not same as the number of proofs''))
      else sbind (liftR (marshalProofs x proofList)) (\<lambda>proofBytesList.
        wrapS ''failed to add pub rand proof list: '' (kv_update flt
          (write_bucket pubRandProofBucketName ErrCorruptedPubRandProofDB (putProofs flt 0 (zip keys proofBytesList))))))"

definition GetPubRandProof :: "'pf pr_ext \<Rightarrow> dbfault \<Rightarrow> bytes \<Rightarrow> bytes \<Rightarrow> u64 \<Rightarrow> kvdb \<Rightarrow> bytes go" where
  "GetPubRandProof x flt chainID pk height db =
     (let key = getKey x chainID pk height in
      wrap ''failed to get pub rand proof: '' (kv_view flt
        (read_bucket pubRandProofBucketName ErrCorruptedPubRandProofDB (\<lambda>bucket.
          case bkt_get bucket key of
            None \<Rightarrow> Err (Sentinel ErrPubRandProofNotFound)
          | Some proofBytes \<Rightarrow> Ok proofBytes)) db))"

fun getProofs :: "bucket \<Rightarrow> bytes list \<Rightarrow> bytes list go" where
  "getProofs bucket [] = Ok []"
| "getProofs bucket (key # keys) =
     (case bkt_get bucket key of
        None \<Rightarrow> Err (Sentinel ErrPubRandProofNotFound)
      | Some proofBytes \<Rightarrow> rbind (getProofs bucket keys) (\<lambda>rest. Ok (proofBytes # rest)))"

definition GetPubRandProofList ::
  "'pf pr_ext \<Rightarrow> dbfault \<Rightarrow> bytes \<Rightarrow> bytes \<Rightarrow> u64 \<Rightarrow> u64 \<Rightarrow> kvdb \<Rightarrow> bytes list go" where
  "GetPubRandProofList x flt chainID pk height numPubRand db =
     (let keys = buildKeys x chainID pk height numPubRand None in
      wrap ''failed to get pub rand proof list: '' (kv_view flt
        (read_bucket pubRandProofBucketName ErrCorruptedPubRandProofDB (\<lambda>bucket. getProofs bucket keys)) db))"

text \<open>The loop of the cursor over the entries from the first key not below the prefix. A key of fewer
  than eight bytes makes the slice expression panic. \<^verbatim>\<open>cursor.Delete\<close> removes the current entry without
  invalidating the cursor, so the next entry is the next one of the bucket.\<close>

fun removeLoop ::
  "'pf pr_ext \<Rightarrow> dbfault \<Rightarrow> bytes \<Rightarrow> u64 \<Rightarrow> nat \<Rightarrow> bucket \<Rightarrow> bucket \<Rightarrow> bucket go" where
  "removeLoop x flt pre targetHeight i [] bucket = Ok bucket"
| "removeLoop x flt pre targetHeight i ((k, v) # es) bucket =
     (if \<not> prefix pre k then Ok bucket
      else if length k < 8 then Crash ''slice bounds out of range''
      else let heightBytes = drop (length k - 8) k; height = pr_dec x heightBytes in
        if height > targetHeight then Ok bucket
        else rbind (wrap ''failed to delete pub rand proof: '' (tx_del flt i bucket k))
               (removeLoop x flt pre targetHeight (Suc i) es))"

definition RemovePubRandProofList ::
  "'pf pr_ext \<Rightarrow> dbfault \<Rightarrow> bytes \<Rightarrow> bytes \<Rightarrow> u64 \<Rightarrow> (kvdb, unit) cmd" where
  "RemovePubRandProofList x flt chainID pk targetHeight =
     (let pre = getPrefixKey chainID pk in
      wrapS ''failed to remove pub rand proof list: '' (kv_update flt (\<lambda>d.
        case d pubRandProofBucketName of
          None \<Rightarrow> Err (ErrText ''bucket not found'')
        | Some bucket \<Rightarrow>
            rbind (removeLoop x flt pre targetHeight 0 (dropWhile (\<lambda>e. fst e < pre) bucket) bucket) (\<lambda>bucket.
              Ok (d(pubRandProofBucketName \<mapsto> bucket))))))"

definition pr_Close :: "goerror option \<Rightarrow> (kvdb, unit) cmd" where
  "pr_Close flt = wrapS ''failed to close pub rand proof store database: '' (kv_close flt)"

text \<open>\<^verbatim>\<open>BackupDB\<close>: the state is the set of backup files by directory and name; a file whose copy failed has
  no content that can be relied on.\<close>

type_synonym fp_backups = "bytes \<times> bytes \<rightharpoonup> (bytes \<rightharpoonup> bucket) option"

definition pr_BackupDB ::
  "unit go \<Rightarrow> unit go \<Rightarrow> unit go \<Rightarrow> bytes \<Rightarrow> bytes \<Rightarrow> bytes \<Rightarrow> kvdb \<Rightarrow> (fp_backups, bytes) cmd" where
  "pr_BackupDB mkdirRes createRes copyRes timestamp dbPath backupDir db fs =
     (if dbPath = [] then (Err (ErrText ''database path must be provided''), fs)
      else if backupDir = [] then (Err (ErrText ''backup dir path must be provided''), fs)
      else let backupName = ''fp_'' @ timestamp @ ''.db''; backupPath = (backupDir, backupName) in
        case wrap ''failed to create backup directory: '' mkdirRes of
          Err e \<Rightarrow> (Err e, fs) | Crash c \<Rightarrow> (Crash c, fs)
        | Ok _ \<Rightarrow> (case wrap ''failed to create backup file: '' createRes of
            Err e \<Rightarrow> (Err e, fs) | Crash c \<Rightarrow> (Crash c, fs)
          | Ok _ \<Rightarrow> (case wrap ''failed to copy database contents: '' copyRes of
              Err e \<Rightarrow> (Err e, fs(backupPath \<mapsto> None)) | Crash c \<Rightarrow> (Crash c, fs(backupPath \<mapsto> None))
            | Ok _ \<Rightarrow> (Ok backupName, fs(backupPath \<mapsto> Some (kv_buckets db))))))"

text \<open>The adapter \<^verbatim>\<open>PubRandState\<close>: the same calls with the public key first and one more context on errors.\<close>

definition addPubRandProofList ::
  "'pf pr_ext \<Rightarrow> dbfault \<Rightarrow> bytes \<Rightarrow> bytes \<Rightarrow> u64 \<Rightarrow> u64 \<Rightarrow> 'pf list \<Rightarrow> u64 option \<Rightarrow> (kvdb, unit) cmd" where
  "addPubRandProofList x flt pk chainID height numPubRand proofList withInterval =
     wrapS ''failed to add pub rand proof list: ''
       (AddPubRandProofList x flt chainID pk height numPubRand proofList withInterval)"

definition getPubRandProof :: "'pf pr_ext \<Rightarrow> dbfault \<Rightarrow> bytes \<Rightarrow> bytes \<Rightarrow> u64 \<Rightarrow> kvdb \<Rightarrow> bytes go" where
  "getPubRandProof x flt pk chainID height db =
     wrap ''failed to get pub rand proof: '' (GetPubRandProof x flt chainID pk height db)"

definition getPubRandProofList ::
  "'pf pr_ext \<Rightarrow> dbfault \<Rightarrow> bytes \<Rightarrow> bytes \<Rightarrow> u64 \<Rightarrow> u64 \<Rightarrow> kvdb \<Rightarrow> bytes list go" where
  "getPubRandProofList x flt pk chainID height numPubRand db =
     wrap ''failed to get pub rand proof list: '' (GetPubRandProofList x flt chainID pk height numPubRand db)"

definition pubRandState_close :: "goerror option \<Rightarrow> (kvdb, unit) cmd" where
  "pubRandState_close flt = wrapS ''failed to close pub rand store: '' (pr_Close flt)"

section \<open>Content and invariant\<close>

definition proofOf :: "'pf pr_ext \<Rightarrow> kvdb \<Rightarrow> bytes \<Rightarrow> bytes \<Rightarrow> u64 \<Rightarrow> bytes option" where
  "proofOf x db chainID pk h = kv_bucket_of db pubRandProofBucketName (getKey x chainID pk h)"

text \<open>The store holds keys for chain and public key of \<open>n\<close> bytes together.\<close>

definition keys_of_length :: "'pf pr_ext \<Rightarrow> nat \<Rightarrow> bucket \<Rightarrow> bool" where
  "keys_of_length x n b \<longleftrightarrow> (\<forall>k \<in> fst ` set b. \<exists>q h. length q = n \<and> k = q @ pr_enc x h)"

definition wf_prstore :: "'pf pr_ext \<Rightarrow> nat \<Rightarrow> kvdb \<Rightarrow> bool" where
  "wf_prstore x n db \<longleftrightarrow> kv_open db \<and> kv_ok db \<and>
     (\<exists>b. kv_buckets db pubRandProofBucketName = Some b \<and> keys_of_length x n b)"

text \<open>An entry of the given chain and key up to the target height.\<close>

definition expired :: "'pf pr_ext \<Rightarrow> bytes \<Rightarrow> bytes \<Rightarrow> u64 \<Rightarrow> bytes \<times> bytes \<Rightarrow> bool" where
  "expired x c p t = (\<lambda>(k, v). prefix (getPrefixKey c p) k \<and> pr_dec x (drop (length k - 8) k) \<le> t)"

lemma putProofs_Ok:
  "putProofs flt i es b = Ok b' \<Longrightarrow> b' = foldl (\<lambda>b (k, v). bkt_put b k v) b es"
  by (induction flt i es b rule: putProofs.induct) (auto simp: go_simps)

lemma putProofs_NoFault: "putProofs NoFault i es b = Ok (foldl (\<lambda>b (k, v). bkt_put b k v) b es)"
  by (induction es arbitrary: i b) auto

lemma marshalProofs_Ok:
  "marshalProofs x ps = Ok bs \<longleftrightarrow> list_all2 (\<lambda>p b. pr_marshal x p = Ok b) ps bs"
  by (induction ps arbitrary: bs) (auto simp: go_simps list_all2_Cons1)

lemma getProofs_pointwise:
  "getProofs b ks = (if \<forall>k \<in> set ks. bkt_get b k \<noteq> None then Ok (map (the \<circ> bkt_get b) ks)
     else Err (Sentinel ErrPubRandProofNotFound))"
  by (induction ks) (auto split: option.splits)

lemma prefix_le: "prefix p k \<Longrightarrow> p \<le> (k :: bytes)"
  by (induction p arbitrary: k) (auto simp: prefix_def)

lemma prefix_between: "p \<le> k \<Longrightarrow> k \<le> k' \<Longrightarrow> prefix p k' \<Longrightarrow> prefix p (k :: bytes)"
proof (induction p arbitrary: k k')
  case (Cons c p)
  then show ?case by (cases k; cases k') auto
qed simp

lemma append_less_iff: "p @ a < p @ b \<longleftrightarrow> a < (b :: bytes)"
  by (induction p) auto

lemma set_takeWhile_dropWhile:
  assumes "sorted_wrt (<) (map fst es)" and "\<And>e. e \<in> set es \<Longrightarrow> P e \<Longrightarrow> p \<le> fst e"
    and "\<And>e e'. e \<in> set es \<Longrightarrow> e' \<in> set es \<Longrightarrow> p \<le> fst e \<Longrightarrow> fst e < (fst e' :: bytes) \<Longrightarrow> P e' \<Longrightarrow> P e"
  shows "set (takeWhile P (dropWhile (\<lambda>e. fst e < p) es)) = {e \<in> set es. P e}"
  using assms
proof (induction es)
  case (Cons e es)
  have IH: "set (takeWhile P (dropWhile (\<lambda>e. fst e < p) es)) = {e \<in> set es. P e}"
  proof (rule Cons.IH)
    show "sorted_wrt (<) (map fst es)" using Cons.prems(1) by simp
    show "p \<le> fst a" if "a \<in> set es" "P a" for a using Cons.prems(2) [of a] that by simp
    show "P a" if "a \<in> set es" "c \<in> set es" "p \<le> fst a" "fst a < fst c" "P c" for a c
      using Cons.prems(3) [of a c] that by simp
  qed
  show ?case
  proof (cases "fst e < p")
    case True
    with IH Cons.prems(2) [of e] show ?thesis by auto
  next
    case False
    have low: "\<not> fst e' < p" if "e' \<in> set es" for e' using Cons.prems(1) that False by (auto simp: not_less intro: order.trans [OF _ less_imp_le])
    then have "dropWhile (\<lambda>e. fst e < p) es = es" by (cases es) auto
    moreover have "\<not> P e'" if "\<not> P e" "e' \<in> set es" for e'
      using that Cons.prems(1) Cons.prems(3) [of e e'] False by (auto simp: not_less)
    ultimately show ?thesis using False IH by auto
  qed
qed simp

lemma removeLoop_Ok:
  assumes "\<And>e. e \<in> set es \<Longrightarrow> prefix pre (fst e) \<Longrightarrow> 8 \<le> length (fst e)"
  shows "removeLoop x flt pre t i es b = Ok b' \<Longrightarrow>
      b' = foldl bkt_del b (map fst (takeWhile (\<lambda>(k, v). prefix pre k \<and> pr_dec x (drop (length k - 8) k) \<le> t) es))"
    and "\<exists>b'. removeLoop x NoFault pre t i es b = Ok b'"
  using assms
proof (induction es arbitrary: b i)
  case (Cons e es)
  obtain k v where e: "e = (k, v)" by (cases e)
  { case 1 then show ?case using Cons(1) [of "Suc i" "bkt_del b k"] e by (auto simp: go_simps Let_def not_less split: if_splits)
  next case 2 then show ?case using Cons(2) [of "Suc i" "bkt_del b k"] e by (fastforce simp: Let_def) }
qed auto

lemma foldl_put_keys: "fst ` set (foldl (\<lambda>b (k, v). bkt_put b k v) b es) = fst ` set es \<union> fst ` set b"
  by (induction es arbitrary: b) (simp_all add: bkt_put_keys split_beta)

lemma buildKeys_nth:
  "i < unat num \<Longrightarrow> buildKeys x chainID pk h num iv ! i =
    getKey x chainID pk (h + of_nat i * (case iv of None \<Rightarrow> 1 | Some n \<Rightarrow> n))"
  by (simp add: buildKeys_def)

lemma length_buildKeys [simp]: "length (buildKeys x chainID pk h num iv) = unat num"
  by (simp add: buildKeys_def)

text \<open>Heights that do not pass the largest 64-bit number are distinct.\<close>

lemma heights_inj:
  assumes "0 < interval" and "i * unat interval + unat h < 2 ^ 64" and "j * unat interval + unat h < 2 ^ 64"
    and "h + of_nat i * interval = h + of_nat j * (interval :: u64)"
  shows "i = j"
proof -
  have *: "unat (of_nat i * interval) = i * unat interval" if "i * unat interval < 2 ^ 64" for i
  proof -
    have "of_nat i * interval = of_nat (i * unat interval)" by simp
    with that show ?thesis by (simp add: unat_of_nat del: of_nat_mult)
  qed
  have "unat (of_nat i * interval) = unat (of_nat j * interval)" using assms(4) by simp
  then have "i * unat interval = j * unat interval" using * [of i] * [of j] assms(2,3) by linarith
  moreover have "0 < unat interval" using assms(1) by (simp add: word_less_nat_alt)
  ultimately show ?thesis by (metis mult_cancel2 not_less_iff_gr_or_eq)
qed

section \<open>What the operations do\<close>

locale pr_codec = be_codec "pr_enc x" "pr_dec x" for x :: "'pf pr_ext"
begin

lemma getKey_inject [simp]: "getKey x c p h = getKey x c p h' \<longleftrightarrow> h = h'"
  by (simp add: getKey_def)

lemma getKey_prefix_iff:
  assumes "length c + length p = length c' + length p'"
  shows "prefix (getPrefixKey c p) (getKey x c' p' h) \<longleftrightarrow> c @ p = c' @ p'"
  using assms by (auto simp: getPrefixKey_def getKey_def prefix_def append_eq_append_conv_if simp flip: append_assoc)

lemma GetPubRandProof_proofOf:
  assumes "wf_prstore x n db"
  shows "GetPubRandProof x NoFault c p h db = (case proofOf x db c p h of
    None \<Rightarrow> Err (Wrapf ''failed to get pub rand proof: '' (Sentinel ErrPubRandProofNotFound)) | Some b \<Rightarrow> Ok b)"
  using assms
  by (auto simp: wf_prstore_def GetPubRandProof_def proofOf_def kv_bucket_of_def read_bucket_def split: option.splits)

lemma GetPubRandProofList_stored:
  assumes "wf_prstore x n db" and "\<And>i. i < unat num \<Longrightarrow> proofOf x db c p (h + of_nat i) = Some (bs ! i)" and "length bs = unat num"
  shows "GetPubRandProofList x NoFault c p h num db = Ok bs"
proof -
  from assms(1) obtain b where "kv_open db" and b: "kv_buckets db pubRandProofBucketName = Some b" by (auto simp: wf_prstore_def)
  then have "GetPubRandProofList x NoFault c p h num db = wrap ''failed to get pub rand proof list: ''
      (getProofs b (map (\<lambda>i. getKey x c p (h + of_nat i)) [0..<unat num]))"
    by (simp add: GetPubRandProofList_def buildKeys_def read_bucket_def Let_def)
  moreover have "bkt_get b (getKey x c p (h + of_nat i)) = Some (bs ! i)" if "i < unat num" for i
    using assms(2) [OF that] b by (simp add: proofOf_def kv_bucket_of_def)
  ultimately show ?thesis using assms(3) by (auto simp: getProofs_pointwise intro: nth_equalityI)
qed

lemma AddPubRandProofList_OkE:
  assumes "AddPubRandProofList x flt c p h num proofs iv db = (Ok u, db')"
  obtains bs b where "length proofs = unat num" "list_all2 (\<lambda>p b. pr_marshal x p = Ok b) proofs bs"
    "kv_buckets db pubRandProofBucketName = Some b"
    "db' = db\<lparr>kv_buckets := (kv_buckets db)(pubRandProofBucketName \<mapsto>
      foldl (\<lambda>b (k, v). bkt_put b k v) b (zip (buildKeys x c p h num iv) bs))\<rparr>"
  using assms by (auto simp: AddPubRandProofList_def go_simps marshalProofs_Ok dest!: putProofs_Ok split: if_splits)

lemma AddPubRandProofList_wf:
  assumes wf: "wf_prstore x (length c + length p) db" and run: "AddPubRandProofList x flt c p h num proofs iv db = (Ok u, db')"
  shows "wf_prstore x (length c + length p) db'"
proof -
  let ?ok = "\<lambda>k. \<exists>q h. length q = length c + length p \<and> k = q @ pr_enc x h"
  from run obtain bs b where b: "kv_buckets db pubRandProofBucketName = Some b"
    and db': "db' = db\<lparr>kv_buckets := (kv_buckets db)(pubRandProofBucketName \<mapsto>
      foldl (\<lambda>b (k, v). bkt_put b k v) b (zip (buildKeys x c p h num iv) bs))\<rparr>"
    by (rule AddPubRandProofList_OkE)
  define b' where b': "b' = foldl (\<lambda>b (k, v). bkt_put b k v) b (zip (buildKeys x c p h num iv) bs)"
  note db' = db' [folded b']
  have new: "?ok k" if "(k, v) \<in> set (zip (buildKeys x c p h num iv) bs)" for k v
  proof -
    from that obtain h' where "k = getKey x c p h'" by (auto simp: buildKeys_def dest!: set_zip_leftD)
    then show ?thesis by (intro exI [of _ "c @ p"] exI [of _ h']) (simp add: getKey_def)
  qed
  have old: "?ok k" if "k \<in> fst ` set b" for k using wf b that by (auto simp: wf_prstore_def keys_of_length_def)
  have "?ok k" if "k \<in> fst ` set b'" for k
  proof -
    from that consider v where "(k, v) \<in> set (zip (buildKeys x c p h num iv) bs)" | "k \<in> fst ` set b"
      unfolding b' foldl_put_keys by auto
    then show ?thesis by cases (rule new, assumption, rule old)
  qed
  moreover have "kv_open db'" "kv_ok db'" using wf b db' b' by (auto simp: wf_prstore_def kv_ok_def)
  ultimately show ?thesis unfolding wf_prstore_def keys_of_length_def using db' by simp
qed

lemma AddPubRandProofList_content:
  assumes run: "AddPubRandProofList x flt c p h num proofs iv db = (Ok u, db')"
    and iv: "interval = (case iv of None \<Rightarrow> 1 | Some n \<Rightarrow> n)" "0 < interval"
    and fits: "(unat num - 1) * unat interval + unat h < 2 ^ 64"
  shows "(\<forall>i < unat num. \<exists>b. pr_marshal x (proofs ! i) = Ok b \<and> proofOf x db' c p (h + of_nat i * interval) = Some b) \<and>
    (\<forall>h'. (\<forall>i < unat num. h' \<noteq> h + of_nat i * interval) \<longrightarrow> proofOf x db' c p h' = proofOf x db c p h')"
proof -
  from run obtain bs b where len: "length proofs = unat num"
    and bs: "list_all2 (\<lambda>p b. pr_marshal x p = Ok b) proofs bs"
    and b: "kv_buckets db pubRandProofBucketName = Some b"
    and db': "db' = db\<lparr>kv_buckets := (kv_buckets db)(pubRandProofBucketName \<mapsto>
      foldl (\<lambda>b (k, v). bkt_put b k v) b (zip (buildKeys x c p h num iv) bs))\<rparr>"
    by (rule AddPubRandProofList_OkE)
  let ?es = "zip (buildKeys x c p h num iv) bs"
  have lbs: "length bs = unat num" using bs len list_all2_lengthD by fastforce
  have fits_i: "i * unat interval + unat h < 2 ^ 64" if "i < unat num" for i
  proof -
    have "i * unat interval \<le> (unat num - 1) * unat interval" using that by (intro mult_le_mono1) simp
    with fits show ?thesis by linarith
  qed
  have keys: "map fst ?es = map (\<lambda>i. getKey x c p (h + of_nat i * interval)) [0..<unat num]"
    using lbs iv by (simp add: buildKeys_def)
  have "distinct (map fst ?es)" unfolding keys
    using heights_inj [OF iv(2) fits_i fits_i] by (simp add: distinct_map inj_on_def)
  note get = bk.get_foldl_put [OF this]
  have new: "\<exists>bi. pr_marshal x (proofs ! i) = Ok bi \<and> proofOf x db' c p (h + of_nat i * interval) = Some bi"
    if i: "i < unat num" for i
  proof -
    have "(getKey x c p (h + of_nat i * interval), bs ! i) \<in> set ?es"
      using i lbs iv by (auto simp: set_zip buildKeys_nth intro!: exI [of _ i])
    then show ?thesis using get list_all2_nthD [OF bs] i len db'
      by (auto simp: proofOf_def kv_bucket_of_def)
  qed
  have "proofOf x db' c p h' = proofOf x db c p h'" if "\<forall>i < unat num. h' \<noteq> h + of_nat i * interval" for h'
  proof -
    have "fst ` set ?es = set (map fst ?es)" by simp
    also have "\<dots> = (\<lambda>i. getKey x c p (h + of_nat i * interval)) ` {0..<unat num}" unfolding keys by simp
    finally have "getKey x c p h' \<notin> fst ` set ?es" using that by auto
    then show ?thesis using b db' by (simp add: proofOf_def kv_bucket_of_def bk.get_foldl_put_notin)
  qed
  with new show ?thesis by blast
qed

text \<open>The entries the cursor loop deletes.\<close>

lemma prefixed_key:
  assumes "keys_of_length x (length c + length p) b" and "k \<in> fst ` set b" and "prefix (getPrefixKey c p) k"
  shows "\<exists>h. k = getKey x c p h"
  using assms
  by (auto simp: keys_of_length_def getPrefixKey_def getKey_def prefix_def append_eq_append_conv_if simp flip: append_assoc)

lemma expired_getKey [simp]: "expired x c p t (getKey x c p h, v) \<longleftrightarrow> h \<le> t"
  using drop_suffix [of "c @ p" h] getKey_prefix_iff [of c p c p h] by (simp add: getKey_def expired_def)

lemma expired_prefix: "expired x c p t e \<Longrightarrow> prefix (getPrefixKey c p) (fst e)"
  by (auto simp: expired_def)

lemma removed_entries:
  assumes ok: "bucket_ok b" and keys: "keys_of_length x (length c + length p) b"
  shows "set (takeWhile (expired x c p t) (dropWhile (\<lambda>e. fst e < getPrefixKey c p) b)) = {e \<in> set b. expired x c p t e}"
proof (rule set_takeWhile_dropWhile)
  let ?pre = "getPrefixKey c p"
  show "sorted_wrt (<) (map fst b)" using ok by (simp add: bucket_ok_def)
  show "?pre \<le> fst e" if "expired x c p t e" for e using that by (auto intro: prefix_le expired_prefix)
  show "expired x c p t e"
    if m: "e \<in> set b" "e' \<in> set b" and l: "?pre \<le> fst e" "fst e < fst e'" and e': "expired x c p t e'" for e e'
  proof -
    have pre': "prefix ?pre (fst e')" using e' by (rule expired_prefix)
    then have pre: "prefix ?pre (fst e)" using l by (metis prefix_between less_imp_le)
    obtain h h' where h: "fst e = getKey x c p h" "fst e' = getKey x c p h'"
      using prefixed_key [OF keys _ pre] prefixed_key [OF keys _ pre'] m by auto
    have "h < h'" using l(2) unfolding h getKey_def by (simp add: append_less_iff)
    moreover have "h' \<le> t" using e' h(2) expired_getKey [of c p t h' "snd e'"] by (metis prod.collapse)
    ultimately have "expired x c p t (getKey x c p h, snd e)" by simp
    with h(1) show ?thesis by (metis prod.collapse)
  qed
qed

lemma expired_keys:
  assumes ok: "bucket_ok b" and keys: "keys_of_length x (length c + length p) b"
  shows "k \<in> fst ` {e \<in> set b. expired x c p t e} \<longleftrightarrow> bkt_get b k \<noteq> None \<and> (\<exists>h \<le> t. k = getKey x c p h)"
proof -
  have "k \<in> fst ` {e \<in> set b. expired x c p t e} \<longleftrightarrow> (\<exists>v. (k, v) \<in> set b \<and> expired x c p t (k, v))" by (auto simp: image_iff)
  also have "\<dots> \<longleftrightarrow> (\<exists>v. (k, v) \<in> set b) \<and> (\<exists>h \<le> t. k = getKey x c p h)"
  proof (intro iffI; elim exE conjE)
    fix v assume e: "(k, v) \<in> set b" "expired x c p t (k, v)"
    have "k \<in> fst ` set b" using e(1) by (rule rev_image_eqI) simp
    then obtain h where "k = getKey x c p h" using prefixed_key [OF keys] expired_prefix [OF e(2)] by auto
    with e show "(\<exists>v. (k, v) \<in> set b) \<and> (\<exists>h \<le> t. k = getKey x c p h)" by auto
  next
    fix v h assume "(k, v) \<in> set b" "h \<le> t" "k = getKey x c p h"
    then show "\<exists>v. (k, v) \<in> set b \<and> expired x c p t (k, v)" by auto
  qed
  finally show ?thesis by (simp add: bk.entries_get [OF ok])
qed

lemma RemovePubRandProofList_content:
  assumes wf: "wf_prstore x (length c + length p) db"
  shows "\<exists>db'. RemovePubRandProofList x NoFault c p t db = (Ok (), db')"
    and "RemovePubRandProofList x flt c p t db = (Ok u, db') \<Longrightarrow> wf_prstore x (length c + length p) db' \<and>
      kv_bucket_of db' pubRandProofBucketName k =
        (if \<exists>h \<le> t. k = getKey x c p h then None else kv_bucket_of db pubRandProofBucketName k)"
proof -
  let ?pre = "getPrefixKey c p" and ?n = pubRandProofBucketName
  from wf obtain b where o: "kv_open db" "kv_ok db" and b: "kv_buckets db ?n = Some b"
    and keys: "keys_of_length x (length c + length p) b"
    unfolding wf_prstore_def by blast
  then have ok: "bucket_ok b" by (auto simp: kv_ok_def)
  let ?es = "dropWhile (\<lambda>e. fst e < ?pre) b"
  let ?b' = "foldl bkt_del b (map fst (takeWhile (expired x c p t) ?es))"
  have long: "8 \<le> length (fst e)" if "e \<in> set ?es" for e
    using keys set_dropWhileD [OF that] unfolding keys_of_length_def by fastforce
  have removes: "\<exists>b'. removeLoop x NoFault ?pre t 0 ?es b = Ok b'"
    by (rule removeLoop_Ok(2)) (rule long)
  have removed: "b2 = ?b'" if "removeLoop x flt ?pre t 0 ?es b = Ok b2" for b2
    unfolding expired_def using _ that by (rule removeLoop_Ok(1)) (rule long)
  show "\<exists>db'. RemovePubRandProofList x NoFault c p t db = (Ok (), db')"
    using removes o b by (auto simp: RemovePubRandProofList_def Let_def wrapS_def kv_update_def)
  assume "RemovePubRandProofList x flt c p t db = (Ok u, db')"
  then have db': "db' = db\<lparr>kv_buckets := (kv_buckets db)(?n \<mapsto> ?b')\<rparr>"
    using b removed by (auto simp: RemovePubRandProofList_def Let_def go_simps)
  have get: "bkt_get ?b' k = (if \<exists>h \<le> t. k = getKey x c p h then None else bkt_get b k)" for k
    unfolding bk.get_foldl_del list.set_map removed_entries [OF ok keys] expired_keys [OF ok keys] by auto
  have ok': "bucket_ok ?b'" by (rule bk.ok_foldl_del [OF ok])
  have "k \<in> fst ` set b" if "k \<in> fst ` set ?b'" for k
    using that unfolding bk.entries_keys [OF ok] bk.entries_keys [OF ok'] get by (simp split: if_splits)
  then have "keys_of_length x (length c + length p) ?b'" using keys unfolding keys_of_length_def by blast
  moreover have "kv_ok db'" using o ok' unfolding db' kv_ok_def by simp
  ultimately have "wf_prstore x (length c + length p) db'"
    using o unfolding wf_prstore_def db' by simp
  moreover have "kv_bucket_of db' ?n k = (if \<exists>h \<le> t. k = getKey x c p h then None else kv_bucket_of db ?n k)"
    using get [of k] b unfolding db' by (auto simp: kv_bucket_of_def)
  ultimately show "wf_prstore x (length c + length p) db' \<and> kv_bucket_of db' ?n k =
        (if \<exists>h \<le> t. k = getKey x c p h then None else kv_bucket_of db ?n k)" ..
qed

end

section \<open>The big-endian instance\<close>

definition plain_pr :: "bytes pr_ext" where
  "plain_pr = \<lparr>pr_enc = be64, pr_dec = be64_inv, pr_marshal = Ok\<rparr>"

interpretation plain_pr: pr_codec plain_pr
  by unfold_locales (simp_all add: plain_pr_def be64.enc_mono)

definition emptyPrStore :: kvdb where
  "emptyPrStore = \<lparr>kv_open = True, kv_buckets = [pubRandProofBucketName \<mapsto> []]\<rparr>"

lemma wf_emptyPrStore [simp]: "wf_prstore x n emptyPrStore"
  by (auto simp: wf_prstore_def emptyPrStore_def keys_of_length_def kv_ok_def bucket_ok_def split: if_splits)

lemma plain_add:
  "length proofs = unat num \<Longrightarrow> \<exists>db'. AddPubRandProofList plain_pr NoFault c p h num proofs iv emptyPrStore = (Ok (), db')"
proof -
  assume "length proofs = unat num"
  moreover have "marshalProofs plain_pr proofs = Ok proofs" by (induction proofs) (simp_all add: plain_pr_def)
  ultimately show ?thesis
    by (simp add: AddPubRandProofList_def Let_def sbind_def liftR_def wrapS_def kv_update_def write_bucket_def
        emptyPrStore_def putProofs_NoFault)
qed

section \<open>Properties\<close>

text \<open>Adding a list of proofs files the \<open>i\<close>-th proof under the \<open>i\<close>-th height of the interval, so each
  is read back there, and no other height of that chain and key changes. The heights must not pass the
  64-bit range and the interval must be positive; otherwise heights coincide.\<close>

theorem AddPubRandProofList_round_trip:
  assumes "pr_codec x" and "wf_prstore x (length chainID + length pk) db"
    and "AddPubRandProofList x flt chainID pk height num proofs iv db = (Ok u, db')"
    and "interval = (case iv of None \<Rightarrow> 1 | Some n \<Rightarrow> n)" and "0 < interval"
    and "(unat num - 1) * unat interval + unat height < 2 ^ 64"
  shows "length proofs = unat num \<and> wf_prstore x (length chainID + length pk) db' \<and>
    (\<forall>i < unat num. GetPubRandProof x NoFault chainID pk (height + of_nat i * interval) db' = pr_marshal x (proofs ! i)) \<and>
    (\<forall>h. (\<forall>i < unat num. h \<noteq> height + of_nat i * interval) \<longrightarrow>
      GetPubRandProof x NoFault chainID pk h db' = GetPubRandProof x NoFault chainID pk h db)"
proof -
  note wf' = pr_codec.AddPubRandProofList_wf [OF assms(1-3)]
  note get = pr_codec.GetPubRandProof_proofOf [OF assms(1)]
  have "length proofs = unat num" using assms(3) by (rule pr_codec.AddPubRandProofList_OkE [OF assms(1)])
  with wf' pr_codec.AddPubRandProofList_content [OF assms(1,3-6)] show ?thesis
    unfolding get [OF wf'] get [OF assms(2)] by fastforce
qed

theorem AddPubRandProofList_round_trip_witness:
  "\<exists>db'. AddPubRandProofList plain_pr NoFault ''c'' ''pk'' 100 3 [''a'', ''b'', ''d''] (Some 5) emptyPrStore = (Ok (), db') \<and>
     GetPubRandProof plain_pr NoFault ''c'' ''pk'' 110 db' = Ok ''d''"
proof -
  obtain db' where run: "AddPubRandProofList plain_pr NoFault ''c'' ''pk'' 100 3 [''a'', ''b'', ''d''] (Some 5) emptyPrStore = (Ok (), db')"
    using plain_add [of "[''a'', ''b'', ''d'']" 3 "''c''" "''pk''" 100 "Some 5"] by auto
  have "GetPubRandProof plain_pr NoFault ''c'' ''pk'' (100 + of_nat 2 * 5) db' = pr_marshal plain_pr ''d''"
    using AddPubRandProofList_round_trip [OF plain_pr.pr_codec_axioms wf_emptyPrStore run, of 5,
        THEN conjunct2, THEN conjunct2, THEN conjunct1, THEN spec, of 2] by simp
  with run show ?thesis by (auto simp: plain_pr_def)
qed

text \<open>A query of a range of heights returns the stored proofs in order when all of them are there, and
  fails with \<^verbatim>\<open>ErrPubRandProofNotFound\<close> as soon as one is missing; it agrees with the single query at each
  height.\<close>

theorem GetPubRandProofList_pointwise:
  assumes "pr_codec x" and "wf_prstore x n db"
  shows "GetPubRandProofList x NoFault chainID pk height num db =
    (if \<forall>i < unat num. \<exists>b. GetPubRandProof x NoFault chainID pk (height + of_nat i) db = Ok b
     then Ok (map (\<lambda>i. case GetPubRandProof x NoFault chainID pk (height + of_nat i) db of Ok b \<Rightarrow> b | _ \<Rightarrow> []) [0..<unat num])
     else Err (Wrapf ''failed to get pub rand proof list: '' (Sentinel ErrPubRandProofNotFound)))"
proof -
  from assms(2) obtain b where "kv_open db" and b: "kv_buckets db pubRandProofBucketName = Some b"
    by (auto simp: wf_prstore_def)
  then have "GetPubRandProofList x NoFault chainID pk height num db = wrap ''failed to get pub rand proof list: ''
      (getProofs b (map (\<lambda>i. getKey x chainID pk (height + of_nat i)) [0..<unat num]))"
    by (simp add: GetPubRandProofList_def buildKeys_def read_bucket_def Let_def)
  moreover have get: "GetPubRandProof x NoFault chainID pk h db = (case bkt_get b (getKey x chainID pk h) of
      None \<Rightarrow> Err (Wrapf ''failed to get pub rand proof: '' (Sentinel ErrPubRandProofNotFound)) | Some b \<Rightarrow> Ok b)" for h
    using b by (simp add: pr_codec.GetPubRandProof_proofOf [OF assms] proofOf_def kv_bucket_of_def)
  moreover have "(\<exists>v. GetPubRandProof x NoFault chainID pk h db = Ok v) \<longleftrightarrow> bkt_get b (getKey x chainID pk h) \<noteq> None" for h
    by (simp add: get split: option.split)
  ultimately show ?thesis
    by (cases "\<forall>i < unat num. bkt_get b (getKey x chainID pk (height + of_nat i)) \<noteq> None")
      (auto simp: getProofs_pointwise)
qed

theorem GetPubRandProofList_pointwise_witness:
  "GetPubRandProofList plain_pr NoFault ''c'' ''pk'' 7 1 emptyPrStore =
     Err (Wrapf ''failed to get pub rand proof list: '' (Sentinel ErrPubRandProofNotFound))"
proof -
  have "GetPubRandProof plain_pr NoFault ''c'' ''pk'' h emptyPrStore \<noteq> Ok v" for h v
    by (simp add: plain_pr.GetPubRandProof_proofOf [OF wf_emptyPrStore] proofOf_def kv_bucket_of_def)
      (simp add: emptyPrStore_def)
  then show ?thesis
    unfolding GetPubRandProofList_pointwise [OF plain_pr.pr_codec_axioms wf_emptyPrStore] by simp
qed

text \<open>Pruning removes exactly the proofs of the given chain and key up to and including the target
  height: every later height and every other chain or key (of the same total length) keeps its proof, and
  without a database fault the operation succeeds.\<close>

theorem RemovePubRandProofList_exact:
  assumes "pr_codec x" and "wf_prstore x (length chainID + length pk) db"
  shows "(\<exists>db'. RemovePubRandProofList x NoFault chainID pk target db = (Ok (), db')) \<and>
    (\<forall>flt u db'. RemovePubRandProofList x flt chainID pk target db = (Ok u, db') \<longrightarrow>
      wf_prstore x (length chainID + length pk) db' \<and>
      (\<forall>h. proofOf x db' chainID pk h = (if h \<le> target then None else proofOf x db chainID pk h)) \<and>
      (\<forall>chainID' pk' h. length chainID' + length pk' = length chainID + length pk \<and> chainID' @ pk' \<noteq> chainID @ pk \<longrightarrow>
        proofOf x db' chainID' pk' h = proofOf x db chainID' pk' h))"
proof -
  have other: "getKey x chainID' pk' h \<noteq> getKey x chainID pk h'" if "chainID' @ pk' \<noteq> chainID @ pk" for chainID' pk' h h'
    using that be_codec.suffix_inject [OF pr_codec.axioms [OF assms(1)], of "chainID' @ pk'" h "chainID @ pk" h']
    by (simp add: getKey_def)
  show ?thesis
    using pr_codec.RemovePubRandProofList_content [OF assms, where t = target] other
      pr_codec.getKey_inject [OF assms(1)]
    unfolding proofOf_def by simp
qed

theorem RemovePubRandProofList_exact_witness:
  "\<exists>db db' . AddPubRandProofList plain_pr NoFault ''c'' ''pk'' 100 2 [''a'', ''b''] None emptyPrStore = (Ok (), db) \<and>
     RemovePubRandProofList plain_pr NoFault ''c'' ''pk'' 100 db = (Ok (), db') \<and>
     proofOf plain_pr db' ''c'' ''pk'' 100 = None \<and> proofOf plain_pr db' ''c'' ''pk'' 101 = Some ''b''"
proof -
  obtain db where run: "AddPubRandProofList plain_pr NoFault ''c'' ''pk'' 100 2 [''a'', ''b''] None emptyPrStore = (Ok (), db)"
    using plain_add [of "[''a'', ''b'']" 2 "''c''" "''pk''" 100 None] by auto
  have wf: "wf_prstore plain_pr (length ''c'' + length ''pk'') db"
    by (rule plain_pr.AddPubRandProofList_wf [OF _ run]) simp
  have "proofOf plain_pr db ''c'' ''pk'' (100 + of_nat 1 * 1) = Some ''b''"
    using plain_pr.AddPubRandProofList_content [OF run, of 1, THEN conjunct1, THEN spec, of 1]
    by (auto simp: plain_pr_def)
  moreover obtain db' where rm: "RemovePubRandProofList plain_pr NoFault ''c'' ''pk'' 100 db = (Ok (), db')"
    using RemovePubRandProofList_exact [OF plain_pr.pr_codec_axioms wf] by blast
  moreover have "\<forall>h. proofOf plain_pr db' ''c'' ''pk'' h = (if h \<le> 100 then None else proofOf plain_pr db ''c'' ''pk'' h)"
    using RemovePubRandProofList_exact [OF plain_pr.pr_codec_axioms wf, of 100] rm by blast
  ultimately show ?thesis using run by auto
qed

end
