(* ===== verification/Rand_Committer.thy ===== *)
theory Rand_Committer
  imports Eots_Service PubRand_Store Start_Height
begin

text \<open>
  The randomness commitment of a running provider (\<^verbatim>\<open>service/rand_committer.go\<close>, with
  \<^verbatim>\<open>getHashToSignForCommitPubRandWithContext\<close> and \<^verbatim>\<open>types/pub_rand_commit.go\<close>): the decision whether and from which
  height to commit, and the commitment itself, which draws the randomness from the EOTS manager, files the
  inclusion proofs in the proof store and sends the signed commitment to the chain.
\<close>

section \<open>State\<close>

record RandomnessCommitterConfig =
  rcc_NumPubRand :: u32
  rcc_TimestampingDelayBlocks :: int
  rcc_ContextSigningHeight :: u64
  rcc_ChainID :: "bytes option"

record ('s, 'c) DefaultRandomnessCommitter =
  rc_BtcPk :: "bytes option"
  rc_Cfg :: RandomnessCommitterConfig
  rc_PubRandState :: kvdb
  rc_ConsumerCon :: 'c
  rc_Em :: 's

text \<open>Functions of other packages: the proof encoding of the store, the conversions of keys and randomness, the
  Merkle tree, the hash and the big-endian encoding.\<close>

record ('pk, 'fv, 'pf) rc_ext =
  rx_pr :: "'pf pr_ext"
  rx_ToBTCPK :: "bytes \<Rightarrow> 'pk go"
  rx_PubRandBytes :: "'fv \<Rightarrow> bytes"
  rx_ProofsFromByteSlices :: "bytes list \<Rightarrow> bytes \<times> 'pf list"
  rx_tmhash :: "bytes \<Rightarrow> bytes"
  rx_Uint64ToBigEndian :: "u64 \<Rightarrow> bytes"

definition NewRandomnessCommitterConfig :: "u32 \<Rightarrow> int \<Rightarrow> u64 \<Rightarrow> RandomnessCommitterConfig" where
  "NewRandomnessCommitterConfig numPubRand timestampingDelayBlocks contextSigningHeight =
     \<lparr>rcc_NumPubRand = numPubRand, rcc_TimestampingDelayBlocks = timestampingDelayBlocks,
      rcc_ContextSigningHeight = contextSigningHeight, rcc_ChainID = None\<rparr>"

definition rc_Init :: "bytes option \<Rightarrow> bytes \<Rightarrow> (('s, 'c) DefaultRandomnessCommitter, unit) cmd" where
  "rc_Init btcPk chainID rc =
     (if btcPk = None then (Err (ErrText ''BtcPk cannot be nil''), rc)
      else if chainID = [] then (Err (ErrText ''chainID cannot be empty''), rc)
      else if rc_BtcPk rc \<noteq> None \<and> rcc_ChainID (rc_Cfg rc) \<noteq> None
      then (Err (ErrText ''randomness committer is already initialized with BtcPk and chainID''), rc)
      else (Ok (), rc\<lparr>rc_BtcPk := btcPk, rc_Cfg := (rc_Cfg rc)\<lparr>rcc_ChainID := Some chainID\<rparr>\<rparr>))"

text \<open>Reading a nil slice gives the empty slice.\<close>

definition rc_chainID :: "('s, 'c) DefaultRandomnessCommitter \<Rightarrow> bytes" where
  "rc_chainID rc = (case rcc_ChainID (rc_Cfg rc) of None \<Rightarrow> [] | Some c \<Rightarrow> c)"

section \<open>Whether to commit\<close>

definition lastCommittedPublicRandWithRetry ::
  "('pk, 'fv, 'pf) rc_ext \<Rightarrow> (nat \<Rightarrow> 'pk ConsumerController) \<Rightarrow> bytes option \<Rightarrow> BabylonPubRandCommit option go" where
  "lastCommittedPublicRandWithRetry x cc btcPk =
     wrap ''failed to query the last committed public randomness: '' (retryDo (\<lambda>i.
       rbind (rbind (deref btcPk) (\<lambda>pk. must (rx_ToBTCPK x pk))) (\<lambda>pk.
       rbind (wrap ''failed to query the last committed public randomness: '' (cc_QueryLastPubRandCommit (cc i) pk)) (\<lambda>resp.
       case resp of
         None \<Rightarrow> Ok None
       | Some commit \<Rightarrow> rbind (wrap ''failed to validate the last committed public randomness: '' (commit_Validate commit)) (\<lambda>_.
           Ok (Some commit))))))"

definition GetLastCommittedHeight ::
  "('pk, 'fv, 'pf) rc_ext \<Rightarrow> (nat \<Rightarrow> 'pk ConsumerController) \<Rightarrow> bytes option \<Rightarrow> u64 go" where
  "GetLastCommittedHeight x cc btcPk =
     rbind (wrap ''failed to query the last committed public randomness: '' (lastCommittedPublicRandWithRetry x cc btcPk))
       (\<lambda>pubRandCommit. case pubRandCommit of None \<Rightarrow> Ok 0 | Some commit \<Rightarrow> Ok (GetEndHeight commit))"

definition getLatestBlockHeightWithRetry :: "(nat \<Rightarrow> 'pk ConsumerController) \<Rightarrow> BlockInfo go" where
  "getLatestBlockHeightWithRetry cc =
     wrap ''failed to get latest block height after retries: '' (retryDo (\<lambda>i.
       case cc_QueryLatestBlock (cc i) of
         Crash c \<Rightarrow> Crash c
       | Err e \<Rightarrow> Err (Wrapf ''failed to query latest block height: '' e)
       | Ok None \<Rightarrow> Err (ErrText ''failed to query latest block height: %!w(<nil>)'')
       | Ok (Some latestBlock) \<Rightarrow> Ok latestBlock))"

text \<open>The three queries see the chain as \<open>cc 0\<close>, \<open>cc 1\<close> and \<open>cc 2\<close>; the last one is not retried.\<close>

definition ShouldCommit ::
  "('pk, 'fv, 'pf) rc_ext \<Rightarrow> (nat \<Rightarrow> nat \<Rightarrow> 'pk ConsumerController) \<Rightarrow> ('s, 'c) DefaultRandomnessCommitter \<Rightarrow> (bool \<times> u64) go" where
  "ShouldCommit x cc rc =
     rbind (wrap ''failed to get last committed height: '' (GetLastCommittedHeight x (cc 0) (rc_BtcPk rc))) (\<lambda>lastCommittedHeight.
     rbind (wrap ''failed to get the last block: '' (getLatestBlockHeightWithRetry (cc 1))) (\<lambda>tipBlock.
     if rcc_TimestampingDelayBlocks (rc_Cfg rc) < 0
     then Err (ErrText (''TimestampingDelayBlocks cannot be negative: '' @ fmt_int (rcc_TimestampingDelayBlocks (rc_Cfg rc))))
     else
       let tipHeightWithDelay = bi_height tipBlock + word_of_int (rcc_TimestampingDelayBlocks (rc_Cfg rc));
           startHeight = (if lastCommittedHeight < tipHeightWithDelay then Some tipHeightWithDelay
             else if lastCommittedHeight < tipHeightWithDelay + ucast (rcc_NumPubRand (rc_Cfg rc)) then Some (lastCommittedHeight + 1)
             else None) in
       case startHeight of
         None \<Rightarrow> Ok (False, 0)
       | Some startHeight \<Rightarrow>
           rbind (wrap ''failed to query finality activation block height: '' (cc_QueryFinalityActivationBlockHeight (cc 2 0)))
             (\<lambda>activationBlkHeight. Ok (True, max startHeight activationBlkHeight))))"

section \<open>Committing\<close>

definition GetPubRandCommitAndProofs :: "('pk, 'fv, 'pf) rc_ext \<Rightarrow> 'fv list \<Rightarrow> bytes \<times> 'pf list" where
  "GetPubRandCommitAndProofs x pubRandList = rx_ProofsFromByteSlices x (map (rx_PubRandBytes x) pubRandList)"

definition getHashToSignForCommitPubRandWithContext ::
  "('pk, 'fv, 'pf) rc_ext \<Rightarrow> string \<Rightarrow> u64 \<Rightarrow> u64 \<Rightarrow> bytes \<Rightarrow> bytes" where
  "getHashToSignForCommitPubRandWithContext x signingContext startHeight numPubRand commitment =
     rx_tmhash x ((if 0 < length signingContext then signingContext else []) @ rx_Uint64ToBigEndian x startHeight @
       rx_Uint64ToBigEndian x numPubRand @ commitment)"

definition on_rcEm :: "('s, 'a) cmd \<Rightarrow> (('s, 'c) DefaultRandomnessCommitter, 'a) cmd" where
  "on_rcEm m rc = (case m (rc_Em rc) of (r, em) \<Rightarrow> (r, rc\<lparr>rc_Em := em\<rparr>))"

definition on_PubRandState :: "(kvdb, 'a) cmd \<Rightarrow> (('s, 'c) DefaultRandomnessCommitter, 'a) cmd" where
  "on_PubRandState m rc = (case m (rc_PubRandState rc) of (r, db) \<Rightarrow> (r, rc\<lparr>rc_PubRandState := db\<rparr>))"

definition on_ConsumerCon :: "('c, 'a) cmd \<Rightarrow> (('s, 'c) DefaultRandomnessCommitter, 'a) cmd" where
  "on_ConsumerCon m rc = (case m (rc_ConsumerCon rc) of (r, c) \<Rightarrow> (r, rc\<lparr>rc_ConsumerCon := c\<rparr>))"

definition rc_getPubRandList ::
  "('s, 'fv, 'sc, 'sg) EOTSManager \<Rightarrow> u64 \<Rightarrow> u32 \<Rightarrow> (('s, 'c) DefaultRandomnessCommitter, 'fv list) cmd" where
  "rc_getPubRandList em startHeight numPubRand rc =
     sbind (liftR (deref (rc_BtcPk rc))) (\<lambda>pk.
       wrapS ''failed to create randomness pair list: ''
         (on_rcEm (em_CreateRandomnessPairList em pk (rc_chainID rc) startHeight numPubRand))) rc"

definition rc_SignPubRandCommit ::
  "('pk, 'fv, 'pf) rc_ext \<Rightarrow> ('s, 'fv, 'sc, 'sg) EOTSManager \<Rightarrow> u64 \<Rightarrow> u64 \<Rightarrow> bytes \<Rightarrow>
     (('s, 'c) DefaultRandomnessCommitter, 'sg) cmd" where
  "rc_SignPubRandCommit x em startHeight numPubRand commitment rc =
     sbind (liftR (deref (rc_BtcPk rc))) (\<lambda>pk.
       wrapS ''failed to sign the commit public randomness message: ''
         (on_rcEm (em_SignSchnorrSig em pk
           (getHashToSignForCommitPubRandWithContext x [] startHeight numPubRand commitment)))) rc"

definition addProofs ::
  "('pk, 'fv, 'pf) rc_ext \<Rightarrow> dbfault \<Rightarrow> u64 \<Rightarrow> u64 \<Rightarrow> 'pf list \<Rightarrow> u64 option \<Rightarrow> (('s, 'c) DefaultRandomnessCommitter, unit) cmd" where
  "addProofs x flt startHeight numPubRand proofList interval rc =
     sbind (liftR (deref (rc_BtcPk rc))) (\<lambda>pk.
       on_PubRandState (addPubRandProofList (rx_pr x) flt pk (rc_chainID rc) startHeight numPubRand proofList interval)) rc"

definition rc_Commit ::
  "('pk, 'fv, 'pf) rc_ext \<Rightarrow> ('s, 'fv, 'sc, 'sg) EOTSManager \<Rightarrow> (('pk, 'sg) CommitPubRandListRequest \<Rightarrow> ('c, TxResponse) cmd) \<Rightarrow>
     dbfault \<Rightarrow> u64 \<Rightarrow> (('s, 'c) DefaultRandomnessCommitter, TxResponse) cmd" where
  "rc_Commit x em commitPubRandList flt startHeight rc =
     sbind (wrapS ''failed to generate randomness: '' (rc_getPubRandList em startHeight (rcc_NumPubRand (rc_Cfg rc)))) (\<lambda>pubRandList.
     let numPubRand = of_nat (length pubRandList); (commitment, proofList) = GetPubRandCommitAndProofs x pubRandList in
     sbind (wrapS ''failed to save public randomness to DB: ''
       (addProofs x flt startHeight (ucast (rcc_NumPubRand (rc_Cfg rc))) proofList None)) (\<lambda>_.
     sbind (wrapS ''failed to sign the Schnorr signature: '' (rc_SignPubRandCommit x em startHeight numPubRand commitment)) (\<lambda>schnorrSig.
     sbind (liftR (rbind (deref (rc_BtcPk rc)) (\<lambda>pk. must (rx_ToBTCPK x pk)))) (\<lambda>fpPk.
     wrapS ''failed to commit public randomness to the consumer chain: ''
       (on_ConsumerCon (commitPubRandList \<lparr>rq_FpPk = fpPk, rq_StartHeight = startHeight, rq_NumPubRand = numPubRand,
          rq_Commitment = commitment, rq_Sig = schnorrSig\<rparr>)))))) rc"

definition rc_GetPubRandProofList ::
  "('pk, 'fv, 'pf) rc_ext \<Rightarrow> dbfault \<Rightarrow> u64 \<Rightarrow> u64 \<Rightarrow> ('s, 'c) DefaultRandomnessCommitter \<Rightarrow> bytes list go" where
  "rc_GetPubRandProofList x flt height numPubRand rc =
     rbind (deref (rc_BtcPk rc)) (\<lambda>pk.
     rbind (wrap ''failed to get public randomness proof list: ''
       (getPubRandProofList (rx_pr x) flt pk (rc_chainID rc) height numPubRand (rc_PubRandState rc))) (\<lambda>proofList.
     if proofList = []
     then Err (ErrText (''no public randomness proof found for height '' @ fmt_u64 height @ '' and num '' @ fmt_u64 numPubRand))
     else Ok proofList))"

definition AddPubRandProofListWithInterval ::
  "('pk, 'fv, 'pf) rc_ext \<Rightarrow> dbfault \<Rightarrow> u64 \<Rightarrow> u64 \<Rightarrow> 'pf list \<Rightarrow> u64 \<Rightarrow> (('s, 'c) DefaultRandomnessCommitter, unit) cmd" where
  "AddPubRandProofListWithInterval x flt startHeight numPubRand proofList interval =
     wrapS ''failed to add public randomness proof list with interval: ''
       (addProofs x flt startHeight numPubRand proofList (Some interval))"

section \<open>The decision covers the heights to come\<close>

text \<open>C18. The decision to commit leaves no height uncovered and commits none twice. Randomness is usable from the
  tip plus the timestamping delay on. When it commits, the start height is above the last committed height
  and not below the activation height or that point, and every height skipped before it has a commitment
  already or lies before activation. When it does not commit, a whole batch of heights from that point on is
  committed already. The heights must stay in the 64-bit range.\<close>

theorem ShouldCommit_covers:
  assumes "ShouldCommit x cc rc = Ok (commit, start)"
    and "GetLastCommittedHeight x (cc 0) (rc_BtcPk rc) = Ok lastH" and "getLatestBlockHeightWithRetry (cc 1) = Ok tip"
    and "cc_QueryFinalityActivationBlockHeight (cc 2 0) = Ok activation"
  defines "usable \<equiv> unat (bi_height tip) + nat (rcc_TimestampingDelayBlocks (rc_Cfg rc))"
  assumes "usable + unat (rcc_NumPubRand (rc_Cfg rc)) < 2 ^ 64"
  shows "if commit
    then lastH < start \<and> activation \<le> start \<and> usable \<le> unat start \<and>
      (\<forall>h. usable \<le> h \<and> h < unat start \<longrightarrow> h \<le> unat lastH \<or> h < unat activation)
    else usable + unat (rcc_NumPubRand (rc_Cfg rc)) \<le> unat lastH"
proof -
  let ?d = "rcc_TimestampingDelayBlocks (rc_Cfg rc)" and ?n = "rcc_NumPubRand (rc_Cfg rc)"
  let ?t = "bi_height tip + word_of_int ?d :: u64"
  have d: "0 \<le> ?d" using assms(1-4) by (auto simp: ShouldCommit_def split: if_splits)
  then have "(word_of_int ?d :: u64) = of_nat (nat ?d)" by (simp add: of_nat_nat)
  moreover have "unat (of_nat (nat ?d) :: u64) = nat ?d"
    using assms(6) by (simp add: usable_def unsigned_of_nat take_bit_nat_eq_self)
  ultimately have t: "unat ?t = usable"
    using assms(6) by (simp add: usable_def unat_add_no_wrap)
  have n: "unat (ucast ?n :: u64) = unat ?n"
    using unsigned_less [of ?n, where 'a = nat] by (simp add: unsigned_ucast_eq take_bit_nat_eq_self)
  then have tn: "unat (?t + ucast ?n) = usable + unat ?n" using assms(6) t by (simp add: unat_add_no_wrap)
  have result: "(commit, start) = (if lastH < ?t then (True, max ?t activation)
      else if lastH < ?t + ucast ?n then (True, max (lastH + 1) activation) else (False, 0))"
    using assms(1-4) d by (auto simp: ShouldCommit_def Let_def split: if_splits)
  show ?thesis
  proof (cases "lastH < ?t")
    case True
    then show ?thesis using result t by (auto simp: max_def word_less_nat_alt word_le_nat_alt split: if_splits)
  next
    case False
    show ?thesis
    proof (cases "lastH < ?t + ucast ?n")
      case True
      then have "unat (lastH + 1) = Suc (unat lastH)" by (rule word_unat_Suc)
      with False True result t show ?thesis by (auto simp: max_def word_less_nat_alt word_le_nat_alt split: if_splits)
    next
      case F: False
      with False result tn show ?thesis by (simp add: word_less_nat_alt)
    qed
  qed
qed

definition demo_rx :: "(bytes, bytes, bytes) rc_ext" where
  "demo_rx = \<lparr>rx_pr = plain_pr, rx_ToBTCPK = Ok, rx_PubRandBytes = (\<lambda>r. r), rx_ProofsFromByteSlices = (\<lambda>bs. (concat bs, bs)),
     rx_tmhash = (\<lambda>b. b), rx_Uint64ToBigEndian = be64\<rparr>"

definition demo_rc :: "((bytes, bytes) LocalEOTSManager, (bytes, bytes) CommitPubRandListRequest list) DefaultRandomnessCommitter" where
  "demo_rc = \<lparr>rc_BtcPk = Some ''k'', rc_Cfg = (NewRandomnessCommitterConfig 2 10 0)\<lparr>rcc_ChainID := Some ''c''\<rparr>,
     rc_PubRandState = emptyPrStore, rc_ConsumerCon = [], rc_Em = demo_lm\<rparr>"

theorem ShouldCommit_covers_witness:
  "\<exists>start. ShouldCommit demo_rx (\<lambda>_ _. demo_cc) demo_rc = Ok (True, start) \<and> 22 \<le> unat start"
proof -
  have q: "GetLastCommittedHeight demo_rx (\<lambda>_. demo_cc) (rc_BtcPk demo_rc) = Ok 0"
    "getLatestBlockHeightWithRetry (\<lambda>_. demo_cc) = Ok (NewBlockInfo 12 ''h'' False)"
    "cc_QueryFinalityActivationBlockHeight demo_cc = Ok 5"
    by (simp_all add: GetLastCommittedHeight_def lastCommittedPublicRandWithRetry_def demo_rx_def demo_rc_def demo_cc_def
        getLatestBlockHeightWithRetry_def)
  have cfg: "rcc_TimestampingDelayBlocks (rc_Cfg demo_rc) = 10" "rcc_NumPubRand (rc_Cfg demo_rc) = 2"
    by (simp_all add: demo_rc_def NewRandomnessCommitterConfig_def)
  obtain start where run: "ShouldCommit demo_rx (\<lambda>_ _. demo_cc) demo_rc = Ok (True, start)"
    using q by (simp add: ShouldCommit_def cfg NewBlockInfo_def)
  from ShouldCommit_covers [where cc = "\<lambda>_ _. demo_cc", OF run q] run show ?thesis by (auto simp: cfg NewBlockInfo_def)
qed

section \<open>What a commitment sends and stores\<close>

lemma on_rcEm_eq: "on_rcEm m rc = (r, rc') \<longleftrightarrow> (\<exists>s. m (rc_Em rc) = (r, s) \<and> rc' = rc\<lparr>rc_Em := s\<rparr>)"
  by (auto simp: on_rcEm_def split: prod.splits)

lemma on_PubRandState_eq:
  "on_PubRandState m rc = (r, rc') \<longleftrightarrow> (\<exists>db. m (rc_PubRandState rc) = (r, db) \<and> rc' = rc\<lparr>rc_PubRandState := db\<rparr>)"
  by (auto simp: on_PubRandState_def split: prod.splits)

lemma on_ConsumerCon_eq:
  "on_ConsumerCon m rc = (r, rc') \<longleftrightarrow> (\<exists>c. m (rc_ConsumerCon rc) = (r, c) \<and> rc' = rc\<lparr>rc_ConsumerCon := c\<rparr>)"
  by (auto simp: on_ConsumerCon_def split: prod.splits)

lemmas on_rc_eq = on_rcEm_eq on_PubRandState_eq on_ConsumerCon_eq

lemma rc_Commit_sends:
  assumes "rc_Commit x em send flt start rc = (r, rc')" and "rc_BtcPk rc = Some pk"
    and "rc_ConsumerCon rc' \<noteq> rc_ConsumerCon rc"
  obtains prs commitment proofs s1 db u s2 sig fpPk res where
    "em_CreateRandomnessPairList em pk (rc_chainID rc) start (rcc_NumPubRand (rc_Cfg rc)) (rc_Em rc) = (Ok prs, s1)"
    "rx_ProofsFromByteSlices x (map (rx_PubRandBytes x) prs) = (commitment, proofs)"
    "AddPubRandProofList (rx_pr x) flt (rc_chainID rc) pk start (ucast (rcc_NumPubRand (rc_Cfg rc))) proofs None (rc_PubRandState rc) = (Ok u, db)"
    "em_SignSchnorrSig em pk (getHashToSignForCommitPubRandWithContext x [] start (of_nat (length prs)) commitment) s1 = (Ok sig, s2)"
    "send \<lparr>rq_FpPk = fpPk, rq_StartHeight = start, rq_NumPubRand = of_nat (length prs), rq_Commitment = commitment, rq_Sig = sig\<rparr>
       (rc_ConsumerCon rc) = (res, rc_ConsumerCon rc')"
    "rc' = rc\<lparr>rc_Em := s2, rc_PubRandState := db, rc_ConsumerCon := rc_ConsumerCon rc'\<rparr>" "rx_ToBTCPK x pk = Ok fpPk"
  using assms(1,3)
  by (auto simp: rc_Commit_def rc_getPubRandList_def GetPubRandCommitAndProofs_def addProofs_def rc_SignPubRandCommit_def Let_def
      assms(2) addPubRandProofList_def liftR_eq wrapS_eq on_rc_eq go_simps rc_chainID_def split: prod.splits elim!: sbindE)

lemma demo_rc_cfg: "rcc_NumPubRand (rc_Cfg demo_rc) = 2" "rc_chainID demo_rc = ''c''" "rc_BtcPk demo_rc = Some ''k''" "rc_Em demo_rc = demo_lm"
    "rc_PubRandState demo_rc = emptyPrStore" "rc_ConsumerCon demo_rc = []"
  by (simp_all add: demo_rc_def NewRandomnessCommitterConfig_def rc_chainID_def)

lemma demo_rc_Commit:
  "\<exists>db req. rc_Commit demo_rx (localManager demo_ext (\<lambda>_. NoFault) 1) (\<lambda>req sent. (Ok emptyTxResponse, sent @ [req])) NoFault 22 demo_rc =
     (Ok emptyTxResponse, demo_rc\<lparr>rc_PubRandState := db, rc_ConsumerCon := [req]\<rparr>)"
proof -
  let ?em = "localManager demo_ext (\<lambda>_. NoFault) 1" and ?send = "\<lambda>req sent. (Ok emptyTxResponse, sent @ [req])"
  let ?prs = "[''k'' @ be64 22 @ ''c'' @ be64 0, ''k'' @ be64 23 @ ''c'' @ be64 0]"
  note cfg = demo_rc_cfg
  have A: "rc_getPubRandList ?em 22 2 demo_rc = (Ok ?prs, demo_rc)"
    using demo_randomness [of 22] by (simp add: rc_getPubRandList_def cfg sbind_def liftR_def wrapS_def on_rcEm_def localManager_def)
  obtain db where "AddPubRandProofList plain_pr NoFault ''c'' ''k'' 22 2 ?prs None emptyPrStore = (Ok (), db)"
    using plain_add [of ?prs 2 "''c''" "''k''" 22 None] by auto
  then have B: "addProofs demo_rx NoFault 22 2 ?prs None demo_rc = (Ok (), demo_rc\<lparr>rc_PubRandState := db\<rparr>)"
    by (simp add: addProofs_def cfg sbind_def liftR_def on_PubRandState_def addPubRandProofList_def wrapS_def demo_rx_def)
  have C: "rc_SignPubRandCommit demo_rx ?em 22 2 cm (demo_rc\<lparr>rc_PubRandState := db\<rparr>) =
      (Ok (''k'' @ getHashToSignForCommitPubRandWithContext demo_rx [] 22 2 cm), demo_rc\<lparr>rc_PubRandState := db\<rparr>)" for cm
    using demo_schnorr by (simp add: rc_SignPubRandCommit_def cfg sbind_def liftR_def wrapS_def on_rcEm_def localManager_def)
  have "GetPubRandCommitAndProofs demo_rx ?prs = (concat ?prs, ?prs)" by (simp add: GetPubRandCommitAndProofs_def demo_rx_def)
  moreover have "rx_ToBTCPK demo_rx ''k'' = Ok ''k''" by (simp add: demo_rx_def)
  ultimately obtain req where "rc_Commit demo_rx ?em ?send NoFault 22 demo_rc =
      (Ok emptyTxResponse, demo_rc\<lparr>rc_PubRandState := db, rc_ConsumerCon := [req]\<rparr>)"
    using A B C by (simp add: rc_Commit_def cfg sbind_def wrapS_def liftR_def on_ConsumerCon_def)
  then show ?thesis by blast
qed

text \<open>C15. A commitment that reaches the chain is backed: it names the start height and the configured number of
  values, its root is that of the manager's public randomness for exactly these heights, it is signed with
  the provider's key, and every proof is in the store before it is sent, so that the proofs of any range of
  the committed heights can be fetched afterwards. No recorded vote changes. The heights must stay in the
  64-bit range.\<close>

theorem Commit_backed:
  assumes svc: "eots_service em emInv randFor voteOf" and codec: "pr_codec (rx_pr x)"
    and pk: "rc_BtcPk rc = Some pk" and wf: "wf_prstore (rx_pr x) (length (rc_chainID rc) + length pk) (rc_PubRandState rc)"
    and inv: "emInv (rc_Em rc)" and run: "rc_Commit x em send flt start rc = (r, rc')"
    and sent: "rc_ConsumerCon rc' \<noteq> rc_ConsumerCon rc"
  defines "n \<equiv> unat (rcc_NumPubRand (rc_Cfg rc))"
  assumes fits: "unat start + n \<le> 2 ^ 64"
  shows "\<exists>prs commitment proofs sig fpPk res s1 s2 bs. length prs = n \<and> length bs = n \<and>
    (\<forall>i < n. randFor pk (rc_chainID rc) (start + of_nat i) (prs ! i)) \<and>
    rx_ProofsFromByteSlices x (map (rx_PubRandBytes x) prs) = (commitment, proofs) \<and>
    em_SignSchnorrSig em pk (getHashToSignForCommitPubRandWithContext x [] start (of_nat n) commitment) s1 = (Ok sig, s2) \<and>
    rx_ToBTCPK x pk = Ok fpPk \<and>
    send \<lparr>rq_FpPk = fpPk, rq_StartHeight = start, rq_NumPubRand = of_nat n, rq_Commitment = commitment, rq_Sig = sig\<rparr>
      (rc_ConsumerCon rc) = (res, rc_ConsumerCon rc') \<and>
    (\<forall>i < n. pr_marshal (rx_pr x) (proofs ! i) = Ok (bs ! i)) \<and>
    (\<forall>i k. 0 < k \<and> i + k \<le> n \<longrightarrow> rc_GetPubRandProofList x NoFault (start + of_nat i) (of_nat k) rc' = Ok (take k (drop i bs))) \<and>
    voteOf (rc_Em rc') = voteOf (rc_Em rc)"
proof -
  let ?c = "rc_chainID rc" and ?N = "rcc_NumPubRand (rc_Cfg rc)"
  obtain prs commitment proofs s1 db u s2 sig fpPk res where
    A: "em_CreateRandomnessPairList em pk ?c start ?N (rc_Em rc) = (Ok prs, s1)"
    and B: "rx_ProofsFromByteSlices x (map (rx_PubRandBytes x) prs) = (commitment, proofs)"
    and C: "AddPubRandProofList (rx_pr x) flt ?c pk start (ucast ?N) proofs None (rc_PubRandState rc) = (Ok u, db)"
    and D: "em_SignSchnorrSig em pk (getHashToSignForCommitPubRandWithContext x [] start (of_nat (length prs)) commitment) s1 = (Ok sig, s2)"
    and E: "send \<lparr>rq_FpPk = fpPk, rq_StartHeight = start, rq_NumPubRand = of_nat (length prs), rq_Commitment = commitment, rq_Sig = sig\<rparr>
       (rc_ConsumerCon rc) = (res, rc_ConsumerCon rc')"
    and rc': "rc' = rc\<lparr>rc_Em := s2, rc_PubRandState := db, rc_ConsumerCon := rc_ConsumerCon rc'\<rparr>" and F: "rx_ToBTCPK x pk = Ok fpPk"
    by (rule rc_Commit_sends [OF run pk sent])
  note rand = eots_service.rand_heights [OF svc A] and keep1 = eots_service.rand_keeps [OF svc A inv]
  have len: "length prs = n" using rand by (simp add: n_def)
  have N: "unat (ucast ?N :: u64) = n"
    using unsigned_less [of ?N, where 'a = nat] by (simp add: n_def unsigned_ucast_eq take_bit_nat_eq_self)
  have wf': "wf_prstore (rx_pr x) (length ?c + length pk) db" using pr_codec.AddPubRandProofList_wf [OF codec wf C] .
  from pr_codec.AddPubRandProofList_content [OF codec C refl] fits N
  have content: "\<exists>b. pr_marshal (rx_pr x) (proofs ! i) = Ok b \<and> proofOf (rx_pr x) db ?c pk (start + of_nat i) = Some b" if "i < n" for i
    using that by simp
  define bs where "bs = map (\<lambda>i. the (proofOf (rx_pr x) db ?c pk (start + of_nat i))) [0..<n]"
  have bs: "length bs = n" "\<And>i. i < n \<Longrightarrow> pr_marshal (rx_pr x) (proofs ! i) = Ok (bs ! i) \<and> proofOf (rx_pr x) db ?c pk (start + of_nat i) = Some (bs ! i)"
    using content by (fastforce simp: bs_def)+
  have state: "rc_BtcPk rc' = Some pk" "rc_chainID rc' = ?c" "rc_PubRandState rc' = db" "rc_Em rc' = s2"
    using pk by (subst rc', simp add: rc_chainID_def)+
  have "rc_GetPubRandProofList x NoFault (start + of_nat i) (of_nat k) rc' = Ok (take k (drop i bs))" if "0 < k" "i + k \<le> n" for i k
  proof -
    have "n < 2 ^ 32" using unsigned_less [of ?N, where 'a = nat] by (simp add: n_def)
    then have k: "unat (of_nat k :: u64) = k" using that by (simp add: unsigned_of_nat take_bit_nat_eq_self)
    have "GetPubRandProofList (rx_pr x) NoFault ?c pk (start + of_nat i) (of_nat k) db = Ok (take k (drop i bs))"
    proof (rule pr_codec.GetPubRandProofList_stored [OF codec wf'])
      fix j assume "j < unat (of_nat k :: u64)"
      then show "proofOf (rx_pr x) db ?c pk (start + of_nat i + of_nat j) = Some (take k (drop i bs) ! j)"
        using bs(2) [of "i + j"] that bs(1) k by (simp add: add.assoc)
    qed (use that bs(1) k in simp)
    then show ?thesis using that bs(1) state by (simp add: rc_GetPubRandProofList_def getPubRandProofList_def)
  qed
  moreover have "voteOf s2 = voteOf (rc_Em rc)" using eots_service.schnorr_keeps [OF svc D] keep1 by simp
  ultimately show ?thesis
    using rand len B D E F bs state(4) by (intro exI conjI; (simp add: n_def)?) auto
qed

theorem Commit_backed_witness:
  "\<exists>r rc'. rc_Commit demo_rx (localManager demo_ext (\<lambda>_. NoFault) 1) (\<lambda>req sent. (Ok emptyTxResponse, sent @ [req])) NoFault 22 demo_rc = (r, rc') \<and>
     rc_ConsumerCon rc' \<noteq> [] \<and> (\<exists>bs. rc_GetPubRandProofList demo_rx NoFault 22 2 rc' = Ok bs \<and> length bs = 2)"
proof -
  let ?em = "localManager demo_ext (\<lambda>_. NoFault) 1" and ?send = "\<lambda>req sent. (Ok emptyTxResponse, sent @ [req])"
  note cfg = demo_rc_cfg
  obtain db req where run: "rc_Commit demo_rx ?em ?send NoFault 22 demo_rc =
      (Ok emptyTxResponse, demo_rc\<lparr>rc_PubRandState := db, rc_ConsumerCon := [req]\<rparr>)"
    using demo_rc_Commit by blast
  have codec: "pr_codec (rx_pr demo_rx)" using plain_pr.pr_codec_axioms by (simp add: demo_rx_def)
  from Commit_backed [OF demo.local_eots_service codec cfg(3) _ _ run]
  obtain bs where bs: "length bs = 2" and "\<forall>i k. 0 < k \<and> i + k \<le> 2 \<longrightarrow> rc_GetPubRandProofList demo_rx NoFault (22 + of_nat i) (of_nat k)
      (demo_rc\<lparr>rc_PubRandState := db, rc_ConsumerCon := [req]\<rparr>) = Ok (take k (drop i bs))"
    by (auto simp: cfg)
  from this(2) [rule_format, of 2 0] bs run show ?thesis by auto
qed

end
