(* ===== verification/Chain_Poller.thy ===== *)
theory Chain_Poller
  imports Start_Height
begin

text \<open>
  The poller that moves blocks from the chain into a bounded channel
  (\<^verbatim>\<open>finality-provider/service/chain_poller.go\<close>). The state is the poller's fields; the channel is the
  list of blocks in it, oldest first, and \<open>cp_taken\<close> records the blocks its consumer received so far.
  The consumer runs at the same time as the poller: \<open>takes i\<close> says how many blocks it receives before the
  \<open>i\<close>-th send, and \<open>ev i\<close> how the select statement of that send ends. The mutex protects
  \<^verbatim>\<open>nextHeight\<close> only; \<^verbatim>\<open>logger.Fatal\<close> ends the process.
\<close>

section \<open>State\<close>

definition maxFailedCycles :: nat where
  "maxFailedCycles = 20"

record ChainPoller =
  cp_isStarted :: bool
  cp_quit :: bool
  cp_nextHeight :: u64
  cp_blockChan :: "BlockInfo list"
  cp_blockChanSize :: nat
  cp_chanClosed :: bool
  cp_taken :: "BlockInfo list"

definition NewChainPoller :: "ChainPollerConfig \<Rightarrow> ChainPoller" where
  "NewChainPoller cfg =
     (let bufferSize = (if pc_BufferSize cfg > 0 then unat (pc_BufferSize cfg) else 100) in
      \<lparr>cp_isStarted = False, cp_quit = False, cp_nextHeight = 0, cp_blockChan = [], cp_blockChanSize = bufferSize,
       cp_chanClosed = False, cp_taken = []\<rparr>)"

section \<open>The consumer's side\<close>

text \<open>A receive from a closed, empty channel gives nil.\<close>

definition TryNextBlock :: "ChainPoller \<Rightarrow> BlockInfo option \<times> ChainPoller" where
  "TryNextBlock cp =
     (if \<not> cp_isStarted cp then (None, cp)
      else case cp_blockChan cp of
        [] \<Rightarrow> (None, cp)
      | b # bs \<Rightarrow> (Some b, cp\<lparr>cp_blockChan := bs, cp_taken := cp_taken cp @ [b]\<rparr>))"

text \<open>The blocking receive. \<open>wait\<close> says which ready case of the select statement is taken: a block, the end of the
  context, or the end of the poller; a channel that stays empty while neither ends blocks the caller.\<close>

datatype wait_event = TakeBlock | WaitCtxDone goerror | WaitQuit

definition NextBlock :: "wait_event \<Rightarrow> (ChainPoller, BlockInfo) cmd" where
  "NextBlock wait cp =
     (if \<not> cp_isStarted cp then (Err (ErrText ''chain poller is not running''), cp)
      else case wait of
        WaitCtxDone e \<Rightarrow> (Err (Wrapf ''context done: '' e), cp)
      | WaitQuit \<Rightarrow> if cp_quit cp then (Err (ErrText ''chain poller is shutting down''), cp)
                    else (Crash ''blocked forever'', cp)
      | TakeBlock \<Rightarrow> (case cp_blockChan cp of
          b # bs \<Rightarrow> (Ok b, cp\<lparr>cp_blockChan := bs, cp_taken := cp_taken cp @ [b]\<rparr>)
        | [] \<Rightarrow> if cp_chanClosed cp then (Err (ErrText ''received nil block from channel''), cp)
                else (Crash ''blocked forever'', cp)))"

definition NextHeight :: "ChainPoller \<Rightarrow> u64" where
  "NextHeight cp = cp_nextHeight cp"

section \<open>Starting and stopping\<close>

text \<open>The part of \<^verbatim>\<open>SetStartHeight\<close> before the polling goroutine.\<close>

definition SetStartHeight :: "u64 \<Rightarrow> (ChainPoller, unit) cmd" where
  "SetStartHeight height cp =
     (if cp_isStarted cp then (Err (ErrText ''the chain poller has already started''), cp)
      else (Ok (), cp\<lparr>cp_isStarted := True, cp_nextHeight := height, cp_quit := False, cp_blockChan := [],
                     cp_chanClosed := False\<rparr>))"

text \<open>Stopping waits for the goroutine to end and then closes the channel.\<close>

definition poller_Stop :: "'pk ConsumerController \<Rightarrow> (ChainPoller, unit) cmd" where
  "poller_Stop cc cp =
     (if \<not> cp_isStarted cp then (Err (ErrText ''the chain poller has already stopped''), cp)
      else (wrap ''failed to close consumer connection: '' (cc_Close cc),
            cp\<lparr>cp_isStarted := False, cp_quit := True, cp_chanClosed := True\<rparr>))"

section \<open>Polling\<close>

text \<open>Waiting for activation: one entry of the list per tick; the list ends when the context or the poller ends.\<close>

fun waitForActivation :: "goerror \<Rightarrow> u64 go list \<Rightarrow> (ChainPoller, unit) cmd" where
  "waitForActivation done [] cp = (Err done, cp)"
| "waitForActivation done (r # rs) cp =
     (case r of
        Crash c \<Rightarrow> (Crash c, cp)
      | Err _ \<Rightarrow> waitForActivation done rs cp
      | Ok activatedHeight \<Rightarrow>
          (Ok (), if cp_nextHeight cp < activatedHeight then cp\<lparr>cp_nextHeight := activatedHeight\<rparr> else cp))"

definition latestBlockHeightWithRetry :: "(nat \<Rightarrow> 'pk ConsumerController) \<Rightarrow> u64 go" where
  "latestBlockHeightWithRetry cc =
     wrap ''failed to query latest block height: '' (retryDo (\<lambda>i.
       case cc_QueryLatestBlock (cc i) of
         Crash c \<Rightarrow> Crash c
       | Err e \<Rightarrow> Err (Wrapf ''failed to query latest block height: '' e)
       | Ok None \<Rightarrow> Err (ErrText ''failed to query latest block height: %!w(<nil>)'')
       | Ok (Some latestBlock) \<Rightarrow> Ok (bi_height latestBlock)))"

definition blocksWithRetry :: "(nat \<Rightarrow> 'pk ConsumerController) \<Rightarrow> u64 \<Rightarrow> u64 \<Rightarrow> u32 \<Rightarrow> BlockInfo list go" where
  "blocksWithRetry cc start end limit =
     wrap ''failed to query blocks: '' (retryDo (\<lambda>i.
       wrap ''failed to query blocks: '' (cc_QueryBlocks (cc i) start end limit)))"

text \<open>The send of one block: it goes through while there is room, and a full channel that stays full for thirty
  seconds ends the cycle.\<close>

datatype send_event = SendBlock | SendTimeout | SendQuit | SendCtxDone goerror

fun sendBlocks :: "(nat \<Rightarrow> nat) \<Rightarrow> (nat \<Rightarrow> send_event) \<Rightarrow> nat \<Rightarrow> BlockInfo list \<Rightarrow> (ChainPoller, unit) cmd" where
  "sendBlocks takes ev i [] cp = (Ok (), cp)"
| "sendBlocks takes ev i (block # blocks) cp =
     (let cp = cp\<lparr>cp_taken := cp_taken cp @ take (takes i) (cp_blockChan cp),
                  cp_blockChan := drop (takes i) (cp_blockChan cp)\<rparr> in
      case ev i of
        SendQuit \<Rightarrow> (Err (ErrText ''poller shutting down''), cp)
      | SendCtxDone e \<Rightarrow> (Err (Wrapf ''context done: '' e), cp)
      | SendTimeout \<Rightarrow> (Err (ErrText (''failed to send block '' @ fmt_u64 (bi_height block) @ '': channel full for too long'')), cp)
      | SendBlock \<Rightarrow>
          if length (cp_blockChan cp) < cp_blockChanSize cp
          then sendBlocks takes ev (Suc i) blocks (cp\<lparr>cp_blockChan := cp_blockChan cp @ [block]\<rparr>)
          else (Err (ErrText (''failed to send block '' @ fmt_u64 (bi_height block) @ '': channel full for too long'')), cp))"

text \<open>The environment of one poll cycle: the chain seen by the attempts of the two retried queries and of the
  single block query, and the consumer during the sends.\<close>

record 'pk cycle_env =
  ce_latest :: "nat \<Rightarrow> 'pk ConsumerController"
  ce_block :: "'pk ConsumerController"
  ce_blocks :: "nat \<Rightarrow> 'pk ConsumerController"
  ce_takes :: "nat \<Rightarrow> nat"
  ce_ev :: "nat \<Rightarrow> send_event"

definition pollBlocks :: "u32 \<Rightarrow> 'pk cycle_env \<Rightarrow> u64 \<Rightarrow> u64 \<Rightarrow> BlockInfo list go" where
  "pollBlocks pollSize env latestBlockHeight blockToRetrieve =
     (if blockToRetrieve > latestBlockHeight then Ok []
      else if blockToRetrieve = latestBlockHeight
      then rbind (wrap ''failed to query latest block: '' (cc_QueryBlock (ce_block env) latestBlockHeight)) (\<lambda>b. Ok [b])
      else wrap ''failed to query block range: '' (blocksWithRetry (ce_blocks env) blockToRetrieve latestBlockHeight pollSize))"

definition tryPollChain :: "u32 \<Rightarrow> 'pk cycle_env \<Rightarrow> u64 \<Rightarrow> u64 \<Rightarrow> (ChainPoller, unit) cmd" where
  "tryPollChain pollSize env latestBlockHeight blockToRetrieve =
     sbind (liftR (pollBlocks pollSize env latestBlockHeight blockToRetrieve)) (\<lambda>blocks.
       if blocks = [] then liftR (Ok ())
       else sbind (sendBlocks (ce_takes env) (ce_ev env) 0 blocks) (\<lambda>_ cp.
         (Ok (), cp\<lparr>cp_nextHeight := bi_height (last blocks) + 1\<rparr>)))"

definition pollCycle :: "u32 \<Rightarrow> 'pk cycle_env \<Rightarrow> (ChainPoller, unit) cmd" where
  "pollCycle pollSize env cp =
     scont (wrap ''failed to get latest block height: '' (latestBlockHeightWithRetry (ce_latest env)), cp)
       (\<lambda>latestBlockHeight cp. tryPollChain pollSize env latestBlockHeight (cp_nextHeight cp) cp)"

text \<open>The loop after activation: one environment per tick, ending when the list ends (the context or the poller
  ended). \<open>failedCycles\<close> counts the failures in a row.\<close>

fun pollLoop :: "u32 \<Rightarrow> nat \<Rightarrow> 'pk cycle_env list \<Rightarrow> (ChainPoller, unit) cmd" where
  "pollLoop pollSize failedCycles [] cp = (Ok (), cp)"
| "pollLoop pollSize failedCycles (env # envs) cp =
     (case pollCycle pollSize env cp of
        (Crash c, cp) \<Rightarrow> (Crash c, cp)
      | (Err e, cp) \<Rightarrow>
          if Suc failedCycles > maxFailedCycles
          then (Crash ''the poller has reached the max failed cycles, exiting'', cp)
          else pollLoop pollSize (Suc failedCycles) envs cp
      | (Ok _, cp) \<Rightarrow> pollLoop pollSize 0 envs cp)"

definition pollChain :: "u32 \<Rightarrow> goerror \<Rightarrow> u64 go list \<Rightarrow> 'pk cycle_env list \<Rightarrow> ChainPoller \<Rightarrow> unit go \<times> ChainPoller" where
  "pollChain pollSize done activation envs cp =
     (case waitForActivation done activation cp of
        (Ok _, cp) \<Rightarrow> pollLoop pollSize 0 envs cp
      | (Err _, cp) \<Rightarrow> (Ok (), cp)
      | (Crash c, cp) \<Rightarrow> (Crash c, cp))"

section \<open>What is sent\<close>

text \<open>Every block that ever entered the channel, in order: the blocks received and those still in it.\<close>

definition delivered :: "ChainPoller \<Rightarrow> BlockInfo list" where
  "delivered cp = cp_taken cp @ cp_blockChan cp"

lemma delivered_taken [simp]:
  "delivered (cp\<lparr>cp_taken := cp_taken cp @ take n (cp_blockChan cp), cp_blockChan := drop n (cp_blockChan cp)\<rparr>) = delivered cp"
  by (simp add: delivered_def)

lemma sendBlocks_delivers:
  "sendBlocks takes ev i blocks cp = (r, cp') \<Longrightarrow>
    cp_nextHeight cp' = cp_nextHeight cp \<and> cp_blockChanSize cp' = cp_blockChanSize cp \<and>
    (length (cp_blockChan cp) \<le> cp_blockChanSize cp \<longrightarrow> length (cp_blockChan cp') \<le> cp_blockChanSize cp) \<and>
    (\<exists>sent rest. blocks = sent @ rest \<and> delivered cp' = delivered cp @ sent \<and> (r = Ok () \<longleftrightarrow> rest = []) \<and> (\<forall>c. r \<noteq> Crash c))"
proof (induction blocks arbitrary: i cp)
  case (Cons b bs)
  let ?cp = "cp\<lparr>cp_taken := cp_taken cp @ take (takes i) (cp_blockChan cp), cp_blockChan := drop (takes i) (cp_blockChan cp)\<rparr>"
  show ?case
  proof (cases "ev i = SendBlock \<and> length (cp_blockChan ?cp) < cp_blockChanSize ?cp")
    case True
    with Cons.prems have run: "sendBlocks takes ev (Suc i) bs (?cp\<lparr>cp_blockChan := cp_blockChan ?cp @ [b]\<rparr>) = (r, cp')"
      by (simp add: Let_def)
    have "delivered (?cp\<lparr>cp_blockChan := cp_blockChan ?cp @ [b]\<rparr>) = delivered cp @ [b]" by (simp add: delivered_def)
    with Cons.IH [OF run] True show ?thesis by (auto intro: exI [of _ "b # _"])
  next
    case False
    with Cons.prems have "cp' = ?cp" "\<exists>e. r = Err e" by (auto simp: Let_def split: send_event.splits)
    then show ?thesis by (auto intro!: exI [of _ "[]"])
  qed
qed (auto simp: delivered_def)

text \<open>The answers of the chain in one cycle are those of a chain: the block of a height has that height, a range
  starts where it was asked to start and goes on without a gap within the range, and the tip is not the
  largest 64-bit number.\<close>

definition consecutive :: "u64 \<Rightarrow> BlockInfo list \<Rightarrow> bool" where
  "consecutive s bs \<longleftrightarrow> map (unat \<circ> bi_height) bs = [unat s..<unat s + length bs]"

definition chain_env :: "'pk cycle_env \<Rightarrow> bool" where
  "chain_env env \<longleftrightarrow>
     (\<forall>h b. cc_QueryBlock (ce_block env) h = Ok b \<longrightarrow> bi_height b = h) \<and>
     (\<forall>i s e l bs. cc_QueryBlocks (ce_blocks env i) s e l = Ok bs \<longrightarrow> consecutive s bs \<and> unat s + length bs \<le> unat e + 1) \<and>
     (\<forall>i b. cc_QueryLatestBlock (ce_latest env i) = Ok (Some b) \<longrightarrow> bi_height b \<noteq> - 1)"

lemma latestBlockHeightWithRetry_bound:
  "chain_env env \<Longrightarrow> latestBlockHeightWithRetry (ce_latest env) = Ok h \<Longrightarrow> h \<noteq> - 1"
  by (auto simp: latestBlockHeightWithRetry_def go_simps retryDo_Ok chain_env_def split: go.splits option.splits)

lemma pollBlocks_chain:
  assumes "chain_env env" and "pollBlocks ps env latest next = Ok bs"
  shows "consecutive next bs \<and> (bs = [] \<or> unat next + length bs \<le> unat latest + 1)"
proof -
  consider "next > latest" | "next = latest" | "next < latest" by force
  then show ?thesis
  proof cases
    case 2
    with assms show ?thesis by (auto simp: pollBlocks_def go_simps chain_env_def consecutive_def)
  next
    case 3
    then have "\<not> latest < next" "next \<noteq> latest" by auto
    with assms(2) obtain k where "cc_QueryBlocks (ce_blocks env k) next latest ps = Ok bs"
      by (auto simp: pollBlocks_def blocksWithRetry_def retryDo_Ok go_simps)
    with assms(1) show ?thesis by (auto simp: chain_env_def)
  qed (use assms in \<open>auto simp: pollBlocks_def consecutive_def\<close>)
qed

lemma tryPollChain_cases:
  assumes "tryPollChain ps env latest next cp = (r, cp')"
  obtains "cp' = cp" | blocks sent rest where "pollBlocks ps env latest next = Ok blocks" "blocks \<noteq> []"
    "blocks = sent @ rest" "delivered cp' = delivered cp @ sent" "r = Ok () \<longleftrightarrow> rest = []" "cp_blockChanSize cp' = cp_blockChanSize cp"
    "length (cp_blockChan cp) \<le> cp_blockChanSize cp \<longrightarrow> length (cp_blockChan cp') \<le> cp_blockChanSize cp"
    "cp_nextHeight cp' = (if r = Ok () then bi_height (last blocks) + 1 else cp_nextHeight cp)" "\<forall>c. r \<noteq> Crash c"
proof (cases "pollBlocks ps env latest next")
  case (Ok blocks)
  show thesis
  proof (cases "blocks = []")
    case True
    with Ok assms that(1) show thesis by (simp add: tryPollChain_def sbind_def liftR_def)
  next
    case False
    obtain r1 cp1 where send: "sendBlocks (ce_takes env) (ce_ev env) 0 blocks cp = (r1, cp1)" by fastforce
    note D = sendBlocks_delivers [OF send]
    from D obtain sent rest where "blocks = sent @ rest" "delivered cp1 = delivered cp @ sent" "r1 = Ok () \<longleftrightarrow> rest = []"
      "\<forall>c. r1 \<noteq> Crash c" by blast
    moreover from Ok False send assms have "scont (r1, cp1) (\<lambda>_ cp. (Ok (), cp\<lparr>cp_nextHeight := bi_height (last blocks) + 1\<rparr>)) = (r, cp')"
      by (simp add: tryPollChain_def sbind_def liftR_def)
    ultimately show thesis using D that(2) [OF Ok False] by (cases r1) (auto simp: delivered_def)
  qed
qed (use assms that(1) in \<open>auto simp: tryPollChain_def sbind_def liftR_def\<close>)

text \<open>The invariant of the delivered heights: they start at \<open>s\<close>, never jump ahead of the next height, and every
  height from \<open>s\<close> to the next one to poll was delivered.\<close>

definition no_gap :: "nat \<Rightarrow> ChainPoller \<Rightarrow> bool" where
  "no_gap s cp \<longleftrightarrow> (let hs = map (unat \<circ> bi_height) (delivered cp); n = unat (cp_nextHeight cp) in
     {s..<n} \<subseteq> set hs \<and> (\<forall>h \<in> set hs. s \<le> h) \<and> successively (\<lambda>a b. b \<le> Suc a) hs \<and> s \<le> n \<and>
     (if hs = [] then n = s else hd hs = s \<and> n \<le> Suc (last hs)))"

lemma no_gap_send:
  assumes inv: "no_gap s cp" and del: "delivered cp' = delivered cp @ sent" and sent: "consecutive (cp_nextHeight cp) sent"
    and n: "unat (cp_nextHeight cp') = unat (cp_nextHeight cp) \<or> unat (cp_nextHeight cp') = unat (cp_nextHeight cp) + length sent"
  shows "no_gap s cp'"
proof (cases "sent = []")
  case True
  with assms show ?thesis by (auto simp: no_gap_def Let_def)
next
  case False
  let ?hs = "map (unat \<circ> bi_height) (delivered cp)" and ?n = "unat (cp_nextHeight cp)"
  have hs': "map (unat \<circ> bi_height) (delivered cp') = ?hs @ [?n..<?n + length sent]"
    using del sent by (simp add: consecutive_def)
  have ne: "[?n..<?n + length sent] \<noteq> []" using False by simp
  have succ: "successively (\<lambda>a b. b \<le> Suc a) [i..<j]" for i j
    by (auto simp: successively_conv_nth)
  show ?thesis
    using inv n ne succ [of ?n] unfolding no_gap_def Let_def hs'
    by (auto simp: successively_append_iff hd_append last_append)
qed

lemma consecutive_prefix: "consecutive s (sent @ rest) \<Longrightarrow> consecutive s sent"
proof -
  assume "consecutive s (sent @ rest)"
  then have "take (length sent) (map (unat \<circ> bi_height) (sent @ rest)) = take (length sent) [unat s..<unat s + length (sent @ rest)]"
    by (simp only: consecutive_def)
  then show ?thesis by (simp add: consecutive_def take_upt)
qed

lemma consecutive_next:
  assumes "consecutive s bs" "bs \<noteq> []" "unat s + length bs \<le> unat latest + 1" "(latest :: u64) \<noteq> - 1"
  shows "unat (bi_height (last bs) + 1) = unat s + length bs"
proof -
  have "unat (bi_height (last bs)) = last [unat s..<unat s + length bs]"
    using assms(1,2) by (metis comp_apply consecutive_def last_map)
  then have last: "unat (bi_height (last bs)) = unat s + length bs - 1" using assms(2) by simp
  have "latest + 1 \<noteq> 0" using assms(4) by (metis add_eq_0_iff2)
  then have "unat latest + 1 < 2 ^ 64" by unat_arith auto
  with last assms(2,3) show ?thesis by (subst unat_add_no_wrap) auto
qed

lemma pollCycle_no_gap:
  assumes env: "chain_env env" and inv: "no_gap s cp" and run: "pollCycle ps env cp = (r, cp')"
  shows "no_gap s cp'"
proof (cases "latestBlockHeightWithRetry (ce_latest env)")
  case (Ok latest)
  with run have "tryPollChain ps env latest (cp_nextHeight cp) cp = (r, cp')" by (simp add: pollCycle_def)
  then show ?thesis
  proof (cases rule: tryPollChain_cases)
    case 1
    with inv show ?thesis by simp
  next
    case (2 blocks sent rest)
    note C = pollBlocks_chain [OF env 2(1)]
    have bound: "unat (cp_nextHeight cp) + length blocks \<le> unat latest + 1" using C 2(2) by auto
    note top = latestBlockHeightWithRetry_bound [OF env Ok]
    have "unat (cp_nextHeight cp') = unat (cp_nextHeight cp) \<or> unat (cp_nextHeight cp') = unat (cp_nextHeight cp) + length sent"
    proof (cases "r = Ok ()")
      case True
      with 2(3,5) have "blocks = sent" by simp
      with True 2(8) consecutive_next [OF _ 2(2) bound top] C show ?thesis by simp
    next
      case False
      with 2(8) show ?thesis by simp
    qed
    with no_gap_send [OF inv 2(4)] C 2(3) show ?thesis by (auto dest: consecutive_prefix)
  qed
qed (use run inv in \<open>auto simp: pollCycle_def\<close>)

lemma pollCycle_capacity:
  assumes "pollCycle ps env cp = (r, cp')" and "length (cp_blockChan cp) \<le> cp_blockChanSize cp"
  shows "length (cp_blockChan cp') \<le> cp_blockChanSize cp' \<and> cp_blockChanSize cp' = cp_blockChanSize cp"
proof (cases "latestBlockHeightWithRetry (ce_latest env)")
  case (Ok latest)
  with assms have "tryPollChain ps env latest (cp_nextHeight cp) cp = (r, cp')" by (simp add: pollCycle_def)
  then show ?thesis using assms(2) by (cases rule: tryPollChain_cases) auto
qed (use assms in \<open>auto simp: pollCycle_def\<close>)

lemma pollLoop_invariant:
  assumes "pollLoop ps n envs cp = (r, cp')" and "P cp"
    and "\<And>env cp r cp'. env \<in> set envs \<Longrightarrow> P cp \<Longrightarrow> pollCycle ps env cp = (r, cp') \<Longrightarrow> P cp'"
  shows "P cp'"
  using assms
proof (induction envs arbitrary: n cp)
  case (Cons env envs)
  obtain r1 cp1 where c: "pollCycle ps env cp = (r1, cp1)" by fastforce
  have P1: "P cp1" by (rule Cons.prems(3) [OF _ Cons.prems(2) c]) simp
  have IH: "P cp'" if "pollLoop ps m envs cp1 = (r, cp')" for m
    using that P1 by (rule Cons.IH) (rule Cons.prems(3); simp)
  show ?case
    using Cons.prems(1) c P1 IH by (cases r1) (auto split: if_splits)
qed simp

lemma waitForActivation_raises:
  "waitForActivation done rs cp = (r, cp') \<Longrightarrow>
    delivered cp' = delivered cp \<and> cp_blockChan cp' = cp_blockChan cp \<and> cp_blockChanSize cp' = cp_blockChanSize cp \<and>
    cp_nextHeight cp \<le> cp_nextHeight cp'"
  by (induction rs) (auto simp: delivered_def split: go.splits if_splits)

section \<open>Properties\<close>

text \<open>C31. From a fresh poller, whatever queries and sends fail, the channel delivers the blocks without a gap:
  the first block is that of the start height (not below the height asked for), a delivered height is
  never more than one above the one delivered before it, and every height from the start to the next
  height to poll has been delivered. The channel never holds more blocks than its capacity.\<close>

theorem pollChain_no_gap:
  assumes "pollChain ps done activation envs cp = (r, cp')"
    and "delivered cp = []" and "\<forall>env \<in> set envs. chain_env env"
  shows "\<exists>s \<ge> unat (cp_nextHeight cp). no_gap s cp' \<and> length (cp_blockChan cp') \<le> cp_blockChanSize cp'"
proof -
  obtain r1 cp1 where w: "waitForActivation done activation cp = (r1, cp1)" by fastforce
  note W = waitForActivation_raises [OF w]
  let ?s = "unat (cp_nextHeight cp1)"
  let ?P = "\<lambda>cp. no_gap ?s cp \<and> length (cp_blockChan cp) \<le> cp_blockChanSize cp"
  have "?P cp1" using W assms(2) by (simp add: no_gap_def delivered_def)
  moreover have "?P cp'" if "pollLoop ps 0 envs cp1 = (r, cp')"
    using that \<open>?P cp1\<close>
  proof (rule pollLoop_invariant)
    show "?P cp2'" if "env \<in> set envs" "?P cp2" "pollCycle ps env cp2 = (r2, cp2')" for env cp2 r2 cp2'
      using that assms(3) pollCycle_no_gap pollCycle_capacity by metis
  qed
  ultimately have "?P cp'" using assms(1) w by (cases r1) (auto simp: pollChain_def)
  moreover have "unat (cp_nextHeight cp) \<le> ?s" using W by (simp add: word_le_nat_alt)
  ultimately show ?thesis by blast
qed

definition demo_env :: "bytes cycle_env" where
  "demo_env = \<lparr>ce_latest = (\<lambda>_. demo_cc), ce_block = demo_cc,
     ce_blocks = (\<lambda>_. demo_cc\<lparr>cc_QueryBlocks := (\<lambda>s e l. if s < e then Ok [NewBlockInfo s ''h'' False, NewBlockInfo (s + 1) ''h'' False]
        else Err (ErrText ''range''))\<rparr>),
     ce_takes = (\<lambda>_. 0), ce_ev = (\<lambda>i. if i = 0 then SendBlock else SendTimeout)\<rparr>"

lemma demo_env_chain: "chain_env demo_env"
proof -
  have "consecutive s [NewBlockInfo s ''h'' False, NewBlockInfo (s + 1) ''h'' False] \<and> unat s + 2 \<le> unat e + 1" if "s < e" for s e :: u64
    using that word_unat_Suc [OF that] by (auto simp: consecutive_def NewBlockInfo_def upt_rec word_less_nat_alt)
  then show ?thesis by (auto simp: chain_env_def demo_env_def demo_cc_def NewBlockInfo_def split: if_splits)
qed

theorem pollChain_no_gap_witness:
  "\<exists>r cp'. pollChain 10 (ErrText ''done'') [Ok 5] [demo_env] (NewChainPoller DefaultChainPollerConfig) = (r, cp') \<and>
     (\<exists>s. no_gap s cp')"
proof -
  obtain r cp' where run: "pollChain 10 (ErrText ''done'') [Ok 5] [demo_env] (NewChainPoller DefaultChainPollerConfig) = (r, cp')"
    by fastforce
  have "delivered (NewChainPoller DefaultChainPollerConfig) = []" by (simp add: NewChainPoller_def delivered_def)
  from pollChain_no_gap [OF run this] demo_env_chain run show ?thesis by auto
qed

text \<open>One poll: on success the blocks of the poll enter the channel in order and the next height is the one
  after the last of them (or there was nothing to poll); on failure the next height does not move, and what
  was sent before the failure is a proper prefix of the blocks, which the next poll sends again.\<close>

theorem tryPollChain_effect:
  assumes "tryPollChain ps env latest height cp = (r, cp')"
  shows "case r of
      Ok _ \<Rightarrow> (\<exists>blocks. pollBlocks ps env latest height = Ok blocks \<and> delivered cp' = delivered cp @ blocks \<and>
        cp_nextHeight cp' = (if blocks = [] then cp_nextHeight cp else bi_height (last blocks) + 1))
    | Err _ \<Rightarrow> cp_nextHeight cp' = cp_nextHeight cp \<and>
        (delivered cp' = delivered cp \<or> (\<exists>sent rest. pollBlocks ps env latest height = Ok (sent @ rest) \<and> rest \<noteq> [] \<and>
          delivered cp' = delivered cp @ sent))
    | Crash _ \<Rightarrow> cp' = cp"
proof (cases "\<exists>blocks. pollBlocks ps env latest height = Ok blocks \<and> blocks \<noteq> []")
  case True
  then obtain blocks where p: "pollBlocks ps env latest height = Ok blocks" "blocks \<noteq> []" by blast
  obtain r1 cp1 where send: "sendBlocks (ce_takes env) (ce_ev env) 0 blocks cp = (r1, cp1)" by fastforce
  with p assms have sc: "scont (r1, cp1) (\<lambda>_ cp. (Ok (), cp\<lparr>cp_nextHeight := bi_height (last blocks) + 1\<rparr>)) = (r, cp')"
    by (simp add: tryPollChain_def sbind_def liftR_def)
  from sendBlocks_delivers [OF send] sc p show ?thesis by (cases r1) (auto simp: delivered_def)
next
  case False
  with assms show ?thesis
    by (cases "pollBlocks ps env latest height") (auto simp: tryPollChain_def sbind_def liftR_def)
qed

theorem tryPollChain_effect_witness:
  "\<exists>e cp'. tryPollChain 10 demo_env 12 5 (NewChainPoller DefaultChainPollerConfig) = (Err e, cp') \<and>
     cp_nextHeight cp' = 0 \<and> delivered cp' = [NewBlockInfo 5 ''h'' False]"
proof -
  let ?cp = "NewChainPoller DefaultChainPollerConfig"
  obtain r cp' where run: "tryPollChain 10 demo_env 12 5 ?cp = (r, cp')" by fastforce
  then have "\<exists>e. r = Err e" and d: "delivered cp' = [NewBlockInfo 5 ''h'' False]"
    by (auto simp: tryPollChain_def sbind_def liftR_def pollBlocks_def blocksWithRetry_def demo_env_def NewChainPoller_def
        DefaultChainPollerConfig_def Let_def delivered_def)
  moreover have "cp_nextHeight ?cp = 0" by (simp add: NewChainPoller_def Let_def)
  ultimately show ?thesis using tryPollChain_effect [OF run] run by auto
qed

end
