(* ===== verification/FP_Instance.thy ===== *)
theory FP_Instance
  imports Voting_Safety Rand_Committer Chain_Poller
begin

text \<open>
  A running finality provider (\<^verbatim>\<open>service/fp_instance.go\<close>, \<^verbatim>\<open>service/eots_manager_adapter.go\<close>): creation from the store,
  start and stop, and the bodies of its two loops. The instance holds the states its services share: the
  EOTS manager, the chain client, the provider's record and the proof store; the submitter and the
  committer work on their parts of it. A loop of the program is the sequence of its iterations.
\<close>

section \<open>State\<close>

record CriticalError =
  ce_err :: goerror
  ce_fpBtcPk :: bytes

text \<open>\<open>fi_quit\<close> is the channel \<^verbatim>\<open>quit\<close>: nil before the first start, then open (\<open>Some False\<close>) or closed
  (\<open>Some True\<close>). \<open>fi_criticalErrs\<close> are the errors the daemon has received.\<close>

record ('s, 'c, 'pk, 'ds, 'dc) FinalityProviderInstance =
  fi_btcPk :: bytes
  fi_fpState :: "('pk, 'ds, 'dc) FpState"
  fi_pubRandState :: kvdb
  fi_em :: 's
  fi_consumerCon :: 'c
  fi_poller :: ChainPoller
  fi_rcBtcPk :: "bytes option"
  fi_rcCfg :: RandomnessCommitterConfig
  fi_criticalErrs :: "CriticalError list"
  fi_isStarted :: bool
  fi_quit :: "bool option"

text \<open>The part of the configuration the instance reads.\<close>

record fpi_config =
  fc_BatchSubmissionSize :: u32
  fc_AdvancedResetLastVotedHeight :: bool
  fc_PollerConfig :: ChainPollerConfig
  fc_Submitter :: FinalitySubmitterConfig

definition submitter_of :: "('s, 'c, 'pk, 'ds, 'dc) FinalityProviderInstance \<Rightarrow> ('s, 'c, 'pk, 'ds, 'dc) DefaultFinalitySubmitter" where
  "submitter_of fp = \<lparr>ds_Em = fi_em fp, ds_ConsumerCtrl = fi_consumerCon fp, ds_State = fi_fpState fp\<rparr>"

definition on_submitter ::
  "(('s, 'c, 'pk, 'ds, 'dc) DefaultFinalitySubmitter, 'a) cmd \<Rightarrow> (('s, 'c, 'pk, 'ds, 'dc) FinalityProviderInstance, 'a) cmd" where
  "on_submitter m fp =
     (case m (submitter_of fp) of
        (r, ds) \<Rightarrow> (r, fp\<lparr>fi_em := ds_Em ds, fi_consumerCon := ds_ConsumerCtrl ds, fi_fpState := ds_State ds\<rparr>))"

definition committer_of :: "('s, 'c, 'pk, 'ds, 'dc) FinalityProviderInstance \<Rightarrow> ('s, 'c) DefaultRandomnessCommitter" where
  "committer_of fp = \<lparr>rc_BtcPk = fi_rcBtcPk fp, rc_Cfg = fi_rcCfg fp, rc_PubRandState = fi_pubRandState fp,
     rc_ConsumerCon = fi_consumerCon fp, rc_Em = fi_em fp\<rparr>"

definition on_committer ::
  "(('s, 'c) DefaultRandomnessCommitter, 'a) cmd \<Rightarrow> (('s, 'c, 'pk, 'ds, 'dc) FinalityProviderInstance, 'a) cmd" where
  "on_committer m fp =
     (case m (committer_of fp) of
        (r, rc) \<Rightarrow> (r, fp\<lparr>fi_em := rc_Em rc, fi_consumerCon := rc_ConsumerCon rc, fi_pubRandState := rc_PubRandState rc\<rparr>))"

definition on_fpState :: "(('pk, 'ds, 'dc) FpState, 'a) cmd \<Rightarrow> (('s, 'c, 'pk, 'ds, 'dc) FinalityProviderInstance, 'a) cmd" where
  "on_fpState m fp = (case m (fi_fpState fp) of (r, fps) \<Rightarrow> (r, fp\<lparr>fi_fpState := fps\<rparr>))"

definition on_fpEm :: "('s, 'a) cmd \<Rightarrow> (('s, 'c, 'pk, 'ds, 'dc) FinalityProviderInstance, 'a) cmd" where
  "on_fpEm m fp = (case m (fi_em fp) of (r, em) \<Rightarrow> (r, fp\<lparr>fi_em := em\<rparr>))"

definition on_poller :: "(ChainPoller, 'a) cmd \<Rightarrow> (('s, 'c, 'pk, 'ds, 'dc) FinalityProviderInstance, 'a) cmd" where
  "on_poller m fp = (case m (fi_poller fp) of (r, cp) \<Rightarrow> (r, fp\<lparr>fi_poller := cp\<rparr>))"

section \<open>Creation\<close>

text \<open>The committer and the submitter are created once with the daemon and shared by the instances; both can be
  initialized once only.\<close>

record ('pk, 'ds, 'dc) fp_services =
  sv_rcBtcPk :: "bytes option"
  sv_rcCfg :: RandomnessCommitterConfig
  sv_fsState :: "('pk, 'ds, 'dc) FpState option"

definition newFinalityProviderInstanceFromStore ::
  "('pk \<Rightarrow> bytes) \<Rightarrow> ('pk, 'ds, 'dc) StoredFinalityProvider \<Rightarrow> kvdb \<Rightarrow> kvdb \<Rightarrow> 's \<Rightarrow> 'c \<Rightarrow> ChainPoller \<Rightarrow>
     (('pk, 'ds, 'dc) fp_services, ('s, 'c, 'pk, 'ds, 'dc) FinalityProviderInstance) cmd" where
  "newFinalityProviderInstanceFromStore bip340 sfp s prStore em consumerCon poller =
     (let btcPk = bip340 (sf_BtcPk sfp); fpState = NewFpState sfp s in
      sbind (\<lambda>sv. case rc_Init (Some btcPk) (sf_ChainID sfp)
            \<lparr>rc_BtcPk = sv_rcBtcPk sv, rc_Cfg = sv_rcCfg sv, rc_PubRandState = prStore, rc_ConsumerCon = consumerCon, rc_Em = em\<rparr> of
          (r, rc) \<Rightarrow> (wrap ''failed to initialize randomness committer: '' r, sv\<lparr>sv_rcBtcPk := rc_BtcPk rc, sv_rcCfg := rc_Cfg rc\<rparr>)) (\<lambda>_.
      sbind (\<lambda>sv. case InitState fpState (sv_fsState sv) of
          (r, st) \<Rightarrow> (wrap ''failed to initialize finality submitter state: '' r, sv\<lparr>sv_fsState := st\<rparr>)) (\<lambda>_.
      (\<lambda>sv. (Ok \<lparr>fi_btcPk = btcPk, fi_fpState = fpState, fi_pubRandState = prStore, fi_em = em, fi_consumerCon = consumerCon,
         fi_poller = poller, fi_rcBtcPk = sv_rcBtcPk sv, fi_rcCfg = sv_rcCfg sv, fi_criticalErrs = [],
         fi_isStarted = False, fi_quit = None\<rparr>, sv)))))"

definition NewFinalityProviderInstance ::
  "('pk, 'ds, 'dc) fp_ext \<Rightarrow> dbfault \<Rightarrow> (bytes \<Rightarrow> 'pk go) \<Rightarrow> ('pk \<Rightarrow> bytes) \<Rightarrow> (bytes \<Rightarrow> string) \<Rightarrow> bytes \<Rightarrow> kvdb \<Rightarrow> kvdb \<Rightarrow> 's \<Rightarrow> 'c \<Rightarrow>
     ChainPoller \<Rightarrow> (('pk, 'ds, 'dc) fp_services, ('s, 'c, 'pk, 'ds, 'dc) FinalityProviderInstance) cmd" where
  "NewFinalityProviderInstance x flt toBTCPK bip340 hex fpPk s prStore em consumerCon poller =
     sbind (liftR (must (toBTCPK fpPk))) (\<lambda>pk.
     sbind (liftR (wrap (''failed to retrieve the finality provider '' @ hex fpPk @ '' from DB: '') (GetFinalityProvider x flt pk s))) (\<lambda>sfp.
     if sf_Status sfp = SLASHED then liftR (Err (ErrText ''the finality provider instance is already slashed''))
     else newFinalityProviderInstanceFromStore bip340 sfp s prStore em consumerCon poller))"

section \<open>Status\<close>

text \<open>The status is read from the store and the cache follows it.\<close>

definition IsJailed ::
  "('pk, 'ds, 'dc) fp_ext \<Rightarrow> (nat \<Rightarrow> dbfault) \<Rightarrow> (('s, 'c, 'pk, 'ds, 'dc) FinalityProviderInstance, bool) cmd" where
  "IsJailed x flt fp =
     (case GetFinalityProvider x (flt 0) (GetBtcPk (fi_fpState fp)) (fps_s (fi_fpState fp)) of
        Err e \<Rightarrow> (Crash ''failed to retrieve the finality provider from db'', fp)
      | Crash c \<Rightarrow> (Crash c, fp)
      | Ok storedFp \<Rightarrow>
          sbind (\<lambda>fp. if sf_Status storedFp \<noteq> GetStatus (fi_fpState fp)
                      then on_fpState (mustSetStatus x (flt 1) (sf_Status storedFp)) fp else (Ok (), fp)) (\<lambda>_.
          \<lambda>fp. (Ok (GetStatus (fi_fpState fp) = JAILED), fp)) fp)"

section \<open>Start and stop\<close>

definition fpi_DetermineStartHeight ::
  "(bytes \<Rightarrow> 'pk go) \<Rightarrow> (nat \<Rightarrow> nat \<Rightarrow> 'pk ConsumerController) \<Rightarrow> ChainPollerConfig \<Rightarrow>
     ('s, 'c, 'pk, 'ds, 'dc) FinalityProviderInstance \<Rightarrow> u64 go" where
  "fpi_DetermineStartHeight toBTCPK cc pcfg fp =
     wrap ''failed to determine start height: ''
       (DetermineStartHeight toBTCPK cc pcfg (Some (fi_btcPk fp)) (Some (Ok (GetLastVotedHeight (fi_fpState fp)))))"

text \<open>\<^verbatim>\<open>isStarted.Swap(true)\<close> sets the flag before anything can fail.\<close>

definition fpi_Start ::
  "('pk, 'ds, 'dc) fp_ext \<Rightarrow> (nat \<Rightarrow> dbfault) \<Rightarrow> (bytes \<Rightarrow> 'pk go) \<Rightarrow> (bytes \<Rightarrow> string) \<Rightarrow> (nat \<Rightarrow> nat \<Rightarrow> 'pk ConsumerController) \<Rightarrow>
     fpi_config \<Rightarrow> (('s, 'c, 'pk, 'ds, 'dc) FinalityProviderInstance, unit) cmd" where
  "fpi_Start x flt toBTCPK hex cc cfg fp =
     (if fi_isStarted fp
      then (Err (ErrText (''the finality-provider instance '' @ hex (fi_btcPk fp) @ '' is already started'')), fp)
      else
        sbind (IsJailed x flt) (\<lambda>_.
        sbind (\<lambda>fp. (wrap ''failed to get the start height: '' (fpi_DetermineStartHeight toBTCPK cc (fc_PollerConfig cfg) fp), fp)) (\<lambda>startHeight.
        sbind (wrapS (''failed to start the poller with start height '' @ fmt_u64 startHeight @ '': '')
          (on_poller (SetStartHeight startHeight))) (\<lambda>_.
        sbind (\<lambda>fp. if fc_AdvancedResetLastVotedHeight cfg
                    then wrapS (''failed to overwrite finality provider state with last voted height '' @ fmt_u64 (startHeight - 1) @ '': '')
                           (on_fpState (SetLastVotedHeight x (flt 2) (startHeight - 1))) fp
                    else (Ok (), fp)) (\<lambda>_.
        \<lambda>fp. (Ok (), fp\<lparr>fi_quit := Some False\<rparr>))))) (fp\<lparr>fi_isStarted := True\<rparr>))"

definition closeQuit :: "(('s, 'c, 'pk, 'ds, 'dc) FinalityProviderInstance, unit) cmd" where
  "closeQuit fp =
     (case fi_quit fp of
        None \<Rightarrow> (Crash ''close of nil channel'', fp)
      | Some True \<Rightarrow> (Crash ''close of closed channel'', fp)
      | Some False \<Rightarrow> (Ok (), fp\<lparr>fi_quit := Some True\<rparr>))"

definition fpi_Stop ::
  "(bytes \<Rightarrow> string) \<Rightarrow> 'pk ConsumerController \<Rightarrow> (('s, 'c, 'pk, 'ds, 'dc) FinalityProviderInstance, unit) cmd" where
  "fpi_Stop hex cc fp =
     (if \<not> fi_isStarted fp
      then (Err (ErrText (''the finality-provider '' @ hex (fi_btcPk fp) @ '' has already stopped'')), fp)
      else
        sbind (wrapS ''failed to stop the poller: '' (on_poller (poller_Stop cc))) (\<lambda>_. closeQuit)
          (fp\<lparr>fi_isStarted := False\<rparr>))"

definition fpi_Shutdown ::
  "(bytes \<Rightarrow> string) \<Rightarrow> 'pk ConsumerController \<Rightarrow> goerror option \<Rightarrow> (('s, 'c, 'pk, 'ds, 'dc) FinalityProviderInstance, unit) cmd" where
  "fpi_Shutdown hex cc closeErr =
     sbind (wrapS ''failed to stop finality provider instance: '' (fpi_Stop hex cc)) (\<lambda>_ fp.
       case pubRandState_close closeErr (fi_pubRandState fp) of
         (r, db) \<Rightarrow> (wrap ''failed to close the pub rand state: '' r, fp\<lparr>fi_pubRandState := db\<rparr>))"

section \<open>Voting\<close>

text \<open>Blocks that are in the channel already, at most a batch of them; a batch size of 0 sets no limit.\<close>

function getBatchBlocksFromPoller :: "u32 \<Rightarrow> BlockInfo list \<Rightarrow> ChainPoller \<Rightarrow> BlockInfo list \<times> ChainPoller" where
  "getBatchBlocksFromPoller batchSize pollerBlocks cp =
     (case TryNextBlock cp of
        (None, cp) \<Rightarrow> (pollerBlocks, cp)
      | (Some block, cp) \<Rightarrow>
          let pollerBlocks = pollerBlocks @ [block] in
          if length pollerBlocks = unat batchSize then (pollerBlocks, cp)
          else getBatchBlocksFromPoller batchSize pollerBlocks cp)"
  by auto
termination
  by (relation "measure (\<lambda>(_, _, cp). length (cp_blockChan cp))") (auto simp: TryNextBlock_def split: if_splits list.splits)

declare getBatchBlocksFromPoller.simps [simp del]

text \<open>A report reaches the daemon only when it is waiting for one; otherwise it is dropped.\<close>

definition reportCriticalErr :: "bool \<Rightarrow> goerror \<Rightarrow> (('s, 'c, 'pk, 'ds, 'dc) FinalityProviderInstance, unit) cmd" where
  "reportCriticalErr received err fp =
     (Ok (), if received then fp\<lparr>fi_criticalErrs := fi_criticalErrs fp @ [\<lparr>ce_err = err, ce_fpBtcPk = fi_btcPk fp\<rparr>]\<rparr> else fp)"

record ('s, 'c, 'pk, 'fv, 'sc, 'sg) tick_env =
  te_flt :: "nat \<Rightarrow> dbfault"
  te_power :: "nat \<Rightarrow> nat \<Rightarrow> 'pk ConsumerController"
  te_attempt :: "nat \<Rightarrow> ('s, 'c, 'pk, 'fv, 'sc, 'sg) attempt_env"
  te_received :: bool

definition submitBlocks ::
  "('pk, 'ds, 'dc) fp_ext \<Rightarrow> ('pk, 'sc) sub_ext \<Rightarrow> fpi_config \<Rightarrow> ('s, 'c, 'pk, 'fv, 'sc, 'sg) tick_env \<Rightarrow> BlockInfo list \<Rightarrow>
     (('s, 'c, 'pk, 'ds, 'dc) FinalityProviderInstance, TxResponse option) cmd" where
  "submitBlocks x sx cfg env blocks = on_submitter (\<lambda>ds.
     case SubmitBatchFinalitySignatures x sx (fc_Submitter cfg) (te_power env) (te_flt env 2) (te_attempt env) blocks ds of
       None \<Rightarrow> (Crash ''endless loop'', ds)
     | Some out \<Rightarrow> out)"

definition processAndSubmitSignatures ::
  "('pk, 'ds, 'dc) fp_ext \<Rightarrow> ('pk, 'sc) sub_ext \<Rightarrow> fpi_config \<Rightarrow> ('s, 'c, 'pk, 'fv, 'sc, 'sg) tick_env \<Rightarrow>
     (('s, 'c, 'pk, 'ds, 'dc) FinalityProviderInstance, unit) cmd" where
  "processAndSubmitSignatures x sx cfg env fp =
     (if fi_quit fp = Some True then (Ok (), fp)
      else case getBatchBlocksFromPoller (fc_BatchSubmissionSize cfg) [] (fi_poller fp) of
        (pollerBlocks, cp) \<Rightarrow>
          if pollerBlocks = [] then (Ok (), fp\<lparr>fi_poller := cp\<rparr>)
          else sbind (IsJailed x (te_flt env)) (\<lambda>jailed.
            if jailed then liftR (Ok ())
            else (\<lambda>fp. case submitBlocks x sx cfg env pollerBlocks fp of
                (Crash c, fp) \<Rightarrow> (Crash c, fp)
              | (Ok _, fp) \<Rightarrow> (Ok (), fp)
              | (Err err, fp) \<Rightarrow>
                  if error_is err ErrFinalityProviderJailed then on_fpState (mustSetStatus x (te_flt env 3) JAILED) fp
                  else if \<not> error_is err ErrFinalityProviderShutDown then reportCriticalErr (te_received env) err fp
                  else (Ok (), fp))) (fp\<lparr>fi_poller := cp\<rparr>))"

text \<open>The loop runs once at the start and then at every tick until the quit channel is closed, where the list ends.\<close>

fun finalitySigSubmissionLoop ::
  "('pk, 'ds, 'dc) fp_ext \<Rightarrow> ('pk, 'sc) sub_ext \<Rightarrow> fpi_config \<Rightarrow> ('s, 'c, 'pk, 'fv, 'sc, 'sg) tick_env list \<Rightarrow>
     (('s, 'c, 'pk, 'ds, 'dc) FinalityProviderInstance, unit) cmd" where
  "finalitySigSubmissionLoop x sx cfg [] = liftR (Ok ())"
| "finalitySigSubmissionLoop x sx cfg (env # envs) =
     sbind (processAndSubmitSignatures x sx cfg env) (\<lambda>_. finalitySigSubmissionLoop x sx cfg envs)"

section \<open>Committing randomness\<close>

record ('s, 'c, 'pk, 'fv, 'sc, 'sg) rand_env =
  re_cc :: "nat \<Rightarrow> nat \<Rightarrow> 'pk ConsumerController"
  re_Em :: "('s, 'fv, 'sc, 'sg) EOTSManager"
  re_CommitPubRandList :: "('pk, 'sg) CommitPubRandListRequest \<Rightarrow> ('c, TxResponse) cmd"
  re_flt :: dbfault
  re_received :: bool

definition processRandomnessCommitment ::
  "('pk, 'fv, 'pf) rc_ext \<Rightarrow> ('s, 'c, 'pk, 'fv, 'sc, 'sg) rand_env \<Rightarrow>
     (('s, 'c, 'pk, 'ds, 'dc) FinalityProviderInstance, unit) cmd" where
  "processRandomnessCommitment rx env fp =
     (case ShouldCommit rx (re_cc env) (committer_of fp) of
        Crash c \<Rightarrow> (Crash c, fp)
      | Err err \<Rightarrow> reportCriticalErr (re_received env) err fp
      | Ok (should, startHeight) \<Rightarrow>
          if \<not> should then (Ok (), fp)
          else (case on_committer (rc_Commit rx (re_Em env) (re_CommitPubRandList env) (re_flt env) startHeight) fp of
              (Crash c, fp) \<Rightarrow> (Crash c, fp)
            | (Ok _, fp) \<Rightarrow> (Ok (), fp)
            | (Err err, fp) \<Rightarrow> reportCriticalErr (re_received env) err fp))"

fun randomnessCommitmentLoop ::
  "('pk, 'fv, 'pf) rc_ext \<Rightarrow> ('s, 'c, 'pk, 'fv, 'sc, 'sg) rand_env list \<Rightarrow>
     (('s, 'c, 'pk, 'ds, 'dc) FinalityProviderInstance, unit) cmd" where
  "randomnessCommitmentLoop rx [] = liftR (Ok ())"
| "randomnessCommitmentLoop rx (env # envs) =
     sbind (processRandomnessCommitment rx env) (\<lambda>_. randomnessCommitmentLoop rx envs)"

definition fpi_CommitPubRand ::
  "('pk, 'fv, 'pf) rc_ext \<Rightarrow> ('s, 'c, 'pk, 'fv, 'sc, 'sg) rand_env \<Rightarrow> u64 \<Rightarrow>
     (('s, 'c, 'pk, 'ds, 'dc) FinalityProviderInstance, TxResponse) cmd" where
  "fpi_CommitPubRand rx env startHeight =
     wrapS ''failed to commit public randomness: ''
       (on_committer (rc_Commit rx (re_Em env) (re_CommitPubRandList env) (re_flt env) startHeight))"

definition fpi_GetLastCommittedHeight ::
  "('pk, 'fv, 'pf) rc_ext \<Rightarrow> (nat \<Rightarrow> 'pk ConsumerController) \<Rightarrow> ('s, 'c, 'pk, 'ds, 'dc) FinalityProviderInstance \<Rightarrow> u64 go" where
  "fpi_GetLastCommittedHeight rx cc fp =
     wrap ''failed to get last committed height: '' (GetLastCommittedHeight rx cc (fi_rcBtcPk fp))"

section \<open>Queries and the EOTS manager adapter\<close>

definition LatestBlockHeightWithRetry :: "(nat \<Rightarrow> 'pk ConsumerController) \<Rightarrow> u64 go" where
  "LatestBlockHeightWithRetry cc =
     wrap ''failed to query latest block height: '' (retryDo (\<lambda>i.
       case cc_QueryLatestBlock (cc i) of
         Crash c \<Rightarrow> Crash c
       | Err e \<Rightarrow> Err (Wrapf ''failed to query latest block height: '' e)
       | Ok None \<Rightarrow> Err (ErrText ''failed to query latest block height: %!w(<nil>)'')
       | Ok (Some latestBlock) \<Rightarrow> Ok (bi_height latestBlock)))"

definition GetVotingPowerWithRetry ::
  "(nat \<Rightarrow> 'pk ConsumerController) \<Rightarrow> ('s, 'c, 'pk, 'ds, 'dc) FinalityProviderInstance \<Rightarrow> u64 \<Rightarrow> bool go" where
  "GetVotingPowerWithRetry cc fp height =
     wrap ''failed to get voting power after retries: '' (retryDo (\<lambda>i.
       wrap ''failed to query finality provider voting power: ''
         (cc_QueryFinalityProviderHasPower (cc i) (GetBtcPk (fi_fpState fp)) height)))"

definition fpi_GetPubRandList ::
  "('s, 'fv, 'sc, 'sg) EOTSManager \<Rightarrow> u64 \<Rightarrow> u32 \<Rightarrow> (('s, 'c, 'pk, 'ds, 'dc) FinalityProviderInstance, 'fv list) cmd" where
  "fpi_GetPubRandList em startHeight numPubRand fp =
     wrapS ''failed to create randomness pair list: ''
       (on_fpEm (em_CreateRandomnessPairList em (fi_btcPk fp) (GetChainID (fi_fpState fp)) startHeight numPubRand)) fp"

definition fpi_SignPubRandCommit ::
  "('pk, 'fv, 'pf) rc_ext \<Rightarrow> ('s, 'fv, 'sc, 'sg) EOTSManager \<Rightarrow> u64 \<Rightarrow> u64 \<Rightarrow> bytes \<Rightarrow>
     (('s, 'c, 'pk, 'ds, 'dc) FinalityProviderInstance, 'sg) cmd" where
  "fpi_SignPubRandCommit rx em startHeight numPubRand commitment fp =
     wrapS ''failed to sign the commit public randomness message: ''
       (on_fpEm (em_SignSchnorrSig em (fi_btcPk fp)
         (getHashToSignForCommitPubRandWithContext rx [] startHeight numPubRand commitment))) fp"

definition fpi_SignFinalitySig ::
  "('pk, 'sc) sub_ext \<Rightarrow> ('s, 'fv, 'sc, 'sg) EOTSManager \<Rightarrow> BlockInfo \<Rightarrow> (('s, 'c, 'pk, 'ds, 'dc) FinalityProviderInstance, bytes) cmd" where
  "fpi_SignFinalitySig sx em b fp =
     (case on_fpEm (em_SignEOTS em (fi_btcPk fp) (GetChainID (fi_fpState fp))
        (MsgToSign (sx_Uint64ToBigEndian sx) b []) (bi_height b)) fp of
        (r, fp) \<Rightarrow> (rbind (eotsSignError r) (\<lambda>sig. Ok (sx_NewSchnorrEOTSSigFromModNScalar sx sig)), fp))"

section \<open>What the parts leave alone\<close>

lemma on_submitter_eq: "on_submitter m fp = (r, fp') \<longleftrightarrow> (\<exists>ds. m (submitter_of fp) = (r, ds) \<and>
    fp' = fp\<lparr>fi_em := ds_Em ds, fi_consumerCon := ds_ConsumerCtrl ds, fi_fpState := ds_State ds\<rparr>)"
  by (auto simp: on_submitter_def split: prod.splits)

lemma on_committer_eq: "on_committer m fp = (r, fp') \<longleftrightarrow> (\<exists>rc. m (committer_of fp) = (r, rc) \<and>
    fp' = fp\<lparr>fi_em := rc_Em rc, fi_consumerCon := rc_ConsumerCon rc, fi_pubRandState := rc_PubRandState rc\<rparr>)"
  by (auto simp: on_committer_def split: prod.splits)

lemma on_fpState_eq: "on_fpState m fp = (r, fp') \<longleftrightarrow> (\<exists>fps. m (fi_fpState fp) = (r, fps) \<and> fp' = fp\<lparr>fi_fpState := fps\<rparr>)"
  by (auto simp: on_fpState_def split: prod.splits)

lemma on_poller_eq: "on_poller m fp = (r, fp') \<longleftrightarrow> (\<exists>cp. m (fi_poller fp) = (r, cp) \<and> fp' = fp\<lparr>fi_poller := cp\<rparr>)"
  by (auto simp: on_poller_def split: prod.splits)

lemmas on_fpi_eq = on_submitter_eq on_committer_eq on_fpState_eq on_poller_eq

text \<open>Reading the status changes the provider's record only.\<close>

lemma IsJailed_effect:
  assumes "IsJailed x flt fp = (r, fp')"
  shows "(\<forall>e. r \<noteq> Err e) \<and> (\<exists>fps. fp' = fp\<lparr>fi_fpState := fps\<rparr> \<and> identity fps = identity (fi_fpState fp))"
proof (cases "GetFinalityProvider x (flt 0) (GetBtcPk (fi_fpState fp)) (fps_s (fi_fpState fp))")
  case (Ok sfp)
  have must: "(\<forall>e. rm \<noteq> Err e) \<and> identity fps = identity (fi_fpState fp)"
    if "mustSetStatus x (flt 1) st (fi_fpState fp) = (rm, fps)" for st rm fps
    using that keepsD [OF keeps_must(1) that] by (auto simp: mustSetStatus_def split: prod.splits go.splits)
  show ?thesis
  proof (cases "sf_Status sfp = GetStatus (fi_fpState fp)")
    case True
    with assms Ok show ?thesis
      by (auto simp: IsJailed_def sbind_def intro: exI [of _ "fi_fpState fp"])
  next
    case False
    obtain rm fps where m: "mustSetStatus x (flt 1) (sf_Status sfp) (fi_fpState fp) = (rm, fps)" by fastforce
    with assms Ok False must [OF m] show ?thesis
      by (cases rm) (auto simp: IsJailed_def sbind_def on_fpState_def intro: exI [of _ fps])
  qed
qed (use assms in \<open>auto simp: IsJailed_def intro: exI [of _ "fi_fpState fp"]\<close>)

text \<open>A tick is over when the quit channel is closed or there is no block; otherwise it takes a batch off the channel,
  and either the provider is jailed and the batch is dropped or it is submitted.\<close>

lemma processAndSubmitSignatures_cases:
  assumes run: "processAndSubmitSignatures x sx cfg env fp = (r, fp')"
    and batch: "getBatchBlocksFromPoller (fc_BatchSubmissionSize cfg) [] (fi_poller fp) = (blocks, cp)"
  obtains (quit) "fi_quit fp = Some True" "r = Ok ()" "fp' = fp"
  | (idle) "fi_quit fp \<noteq> Some True" "blocks = []" "r = Ok ()" "fp' = fp\<lparr>fi_poller := cp\<rparr>"
  | (unread) c where "fi_quit fp \<noteq> Some True" "IsJailed x (te_flt env) (fp\<lparr>fi_poller := cp\<rparr>) = (Crash c, fp')" "r = Crash c"
  | (jailed) "fi_quit fp \<noteq> Some True" "IsJailed x (te_flt env) (fp\<lparr>fi_poller := cp\<rparr>) = (Ok True, fp')" "r = Ok ()"
  | (submit) fp1 rs fp2 where "fi_quit fp \<noteq> Some True" "IsJailed x (te_flt env) (fp\<lparr>fi_poller := cp\<rparr>) = (Ok False, fp1)"
      "submitBlocks x sx cfg env blocks fp1 = (rs, fp2)" "\<forall>e. r \<noteq> Err e"
      "fp' = fp2 \<or> (\<exists>rm. on_fpState (mustSetStatus x (te_flt env 3) JAILED) fp2 = (rm, fp')) \<or>
       (\<exists>e. reportCriticalErr (te_received env) e fp2 = (Ok (), fp'))"
proof (cases "fi_quit fp = Some True \<or> blocks = []")
  case True
  with run batch that(1,2) show ?thesis by (auto simp: processAndSubmitSignatures_def split: if_splits)
next
  case False
  obtain rj fp1 where J: "IsJailed x (te_flt env) (fp\<lparr>fi_poller := cp\<rparr>) = (rj, fp1)" by fastforce
  show ?thesis
  proof (cases rj)
    case (Ok jailed)
    show ?thesis
    proof (cases jailed)
      case True
      with run batch False J Ok that(4) show ?thesis by (simp add: processAndSubmitSignatures_def sbind_def liftR_def)
    next
      case nj: False
      obtain rs fp2 where S: "submitBlocks x sx cfg env blocks fp1 = (rs, fp2)" by fastforce
      have "\<forall>e. rm \<noteq> Err e" if "on_fpState (mustSetStatus x (te_flt env 3) JAILED) fp2 = (rm, fp3)" for rm fp3
        using that by (auto simp: on_fpState_eq mustSetStatus_def split: prod.splits go.splits)
      with run batch False J Ok nj S show ?thesis
        by (intro that(5) [of fp1 rs fp2])
          (auto simp: processAndSubmitSignatures_def sbind_def reportCriticalErr_def split: go.splits if_splits)
    qed
  next
    case (Err e)
    with IsJailed_effect [OF J] show ?thesis by simp
  next
    case (Crash c)
    with run batch False J that(3) show ?thesis by (simp add: processAndSubmitSignatures_def sbind_def)
  qed
qed

end
