(* ===== verification/Test_Vote.thy ===== *)
theory Test_Vote
  imports FP_Instance
begin

text \<open>
  The request to vote for a given block outside the voting loop (\<^verbatim>\<open>service/fp_test_helper.go\<close>), with the protection of
  the sign records or, to demonstrate slashing, without it.
\<close>

text \<open>What the request needs of other packages: the fields of a transaction event, the evidence and the key it reveals.\<close>

record ('ev, 'xk) evidence_ext =
  ev_EventType :: "bytes \<Rightarrow> string"
  ev_EvidenceAttr :: "bytes \<Rightarrow> string"
  ev_UnmarshalString :: "string \<Rightarrow> 'ev go"
  ev_ExtractBTCSK :: "'ev \<Rightarrow> 'xk go"

fun extractPrivKey :: "('ev, 'xk) evidence_ext \<Rightarrow> bytes list \<Rightarrow> 'xk option go" where
  "extractPrivKey vx [] = Ok None"
| "extractPrivKey vx (ev # evs) =
     (if contains (ev_EventType vx ev) ''EventSlashedFinalityProvider''
      then (case ev_UnmarshalString vx (ev_EvidenceAttr vx ev) of
          Crash c \<Rightarrow> Crash c
        | Err e \<Rightarrow> Err (ErrText (''failed to decode evidence bytes to evidence: '' @ error_text e))
        | Ok evidence \<Rightarrow>
            (case ev_ExtractBTCSK vx evidence of
               Crash c \<Rightarrow> Crash c
             | Err e \<Rightarrow> Err (ErrText (''failed to extract private key: '' @ error_text e))
             | Ok privKey \<Rightarrow> Ok (Some privKey)))
      else extractPrivKey vx evs)"

definition unsafeSigner ::
  "('pk, 'sc) sub_ext \<Rightarrow> ('s, 'fv, 'sc, 'sg) EOTSManager \<Rightarrow> BlockInfo \<Rightarrow> (('s, 'c, 'pk, 'ds, 'dc) FinalityProviderInstance, bytes) cmd" where
  "unsafeSigner sx em b fp =
     (case on_fpEm (em_UnsafeSignEOTS em (fi_btcPk fp) (GetChainID (fi_fpState fp))
        (MsgToSign (sx_Uint64ToBigEndian sx) b []) (bi_height b)) fp of
        (r, fp) \<Rightarrow> (rbind (wrap ''failed to sign EOTS: '' r) (\<lambda>sig. Ok (sx_NewSchnorrEOTSSigFromModNScalar sx sig)), fp))"

definition on_fpCon :: "('c, 'a) cmd \<Rightarrow> (('s, 'c, 'pk, 'ds, 'dc) FinalityProviderInstance, 'a) cmd" where
  "on_fpCon m fp = (case m (fi_consumerCon fp) of (r, c) \<Rightarrow> (r, fp\<lparr>fi_consumerCon := c\<rparr>))"

definition sendVote ::
  "('pk, 'sc) sub_ext \<Rightarrow> (('pk, 'fv, 'sc) SubmitBatchFinalitySigsRequest \<Rightarrow> ('c, TxResponse option) cmd) \<Rightarrow> BlockInfo \<Rightarrow> 'fv \<Rightarrow> bytes \<Rightarrow> bytes \<Rightarrow>
     (('s, 'c, 'pk, 'ds, 'dc) FinalityProviderInstance, TxResponse) cmd" where
  "sendVote sx submit b pubRand proofBytes eotsSig fp =
     sbind (wrapS ''failed to send finality signature to the consumer chain: '' (on_fpCon (submit \<lparr>sb_FpPk = GetBtcPk (fi_fpState fp), sb_Blocks = [b],
       sb_PubRandList = [pubRand], sb_ProofList = [proofBytes], sb_Sigs = [sx_ToModNScalar sx eotsSig]\<rparr>))) (\<lambda>res. liftR (deref res)) fp"

definition SubmitFinalitySignatureAndExtractPrivKey ::
  "('pk, 'sc) sub_ext \<Rightarrow> 'pf pr_ext \<Rightarrow> ('ev, 'xk) evidence_ext \<Rightarrow> ('s, 'fv, 'sc, 'sg) EOTSManager \<Rightarrow> dbfault \<Rightarrow>
     (('pk, 'fv, 'sc) SubmitBatchFinalitySigsRequest \<Rightarrow> ('c, TxResponse option) cmd) \<Rightarrow> BlockInfo \<Rightarrow> bool \<Rightarrow>
     (('s, 'c, 'pk, 'ds, 'dc) FinalityProviderInstance, TxResponse \<times> 'xk option) cmd" where
  "SubmitFinalitySignatureAndExtractPrivKey sx px vx em flt submit b useSafeEOTSFunc =
     sbind (wrapS ''failed to get public randomness list: '' (fpi_GetPubRandList em (bi_height b) 1)) (\<lambda>prList.
     sbind (liftR (case prList of [] \<Rightarrow> Crash ''index out of range'' | pubRand # _ \<Rightarrow> Ok pubRand)) (\<lambda>pubRand.
     sbind (\<lambda>fp. (wrap ''failed to get public randomness inclusion proof: ''
         (getPubRandProof px flt (fi_btcPk fp) (GetChainID (fi_fpState fp)) (bi_height b) (fi_pubRandState fp)), fp)) (\<lambda>proofBytes.
     sbind (if useSafeEOTSFunc then fpi_SignFinalitySig sx em b else unsafeSigner sx em b) (\<lambda>eotsSig.
     sbind (sendVote sx submit b pubRand proofBytes eotsSig) (\<lambda>res.
     if tx_TxHash res = [] then liftR (Ok (res, None))
     else sbind (liftR (extractPrivKey vx (tx_Events res))) (\<lambda>privKey. liftR (Ok (res, privKey))))))))"

section \<open>What the request leaves behind\<close>

lemma on_fpEm_eq: "on_fpEm m fp = (r, fp') \<longleftrightarrow> (\<exists>s. m (fi_em fp) = (r, s) \<and> fp' = fp\<lparr>fi_em := s\<rparr>)"
  by (auto simp: on_fpEm_def split: prod.splits)

lemma on_fpCon_eq: "on_fpCon m fp = (r, fp') \<longleftrightarrow> (\<exists>c. m (fi_consumerCon fp) = (r, c) \<and> fp' = fp\<lparr>fi_consumerCon := c\<rparr>)"
  by (auto simp: on_fpCon_def split: prod.splits)

lemma fpi_SignFinalitySig_eq: "fpi_SignFinalitySig sx em b fp = (r, fp') \<longleftrightarrow> (\<exists>q s. em_SignEOTS em (fi_btcPk fp) (GetChainID (fi_fpState fp))
    (MsgToSign (sx_Uint64ToBigEndian sx) b []) (bi_height b) (fi_em fp) = (q, s) \<and> fp' = fp\<lparr>fi_em := s\<rparr> \<and>
    r = rbind (eotsSignError q) (\<lambda>sig. Ok (sx_NewSchnorrEOTSSigFromModNScalar sx sig)))"
  by (auto simp: fpi_SignFinalitySig_def on_fpEm_def split: prod.splits)

text \<open>It changes the manager and the chain client only.\<close>

definition fp_frame where
  "fp_frame fp = (fi_btcPk fp, fi_fpState fp, fi_pubRandState fp, fi_poller fp, fi_rcBtcPk fp, fi_rcCfg fp, fi_criticalErrs fp, fi_isStarted fp, fi_quit fp)"

lemma keeps_frame [keeps_intros]:
  "keeps fp_frame (on_fpEm m)" "keeps fp_frame (on_fpCon mc)" "keeps fp_frame (fpi_GetPubRandList em h n)"
  "keeps fp_frame (fpi_SignFinalitySig sx em b)" "keeps fp_frame (unsafeSigner sx em b)" "keeps fp_frame (sendVote sx submit b pr pf sig)"
proof -
  show em: "keeps fp_frame (on_fpEm m)" for m by (auto simp: keeps_def on_fpEm_def fp_frame_def split: prod.splits)
  show con: "keeps fp_frame (on_fpCon mc)" for mc by (auto simp: keeps_def on_fpCon_def fp_frame_def split: prod.splits)
  show "keeps fp_frame (fpi_GetPubRandList em h n)"
    by (auto simp: keeps_def fpi_GetPubRandList_def on_fpEm_def fp_frame_def split: prod.splits)
  show "keeps fp_frame (fpi_SignFinalitySig sx em b)" "keeps fp_frame (unsafeSigner sx em b)"
    by (auto simp: keeps_def fpi_SignFinalitySig_def unsafeSigner_def on_fpEm_def fp_frame_def split: prod.splits)
  show "keeps fp_frame (sendVote sx submit b pr pf sig)"
    unfolding keeps_def sendVote_def
    by (intro allI) (rule keeps_sbind [unfolded keeps_def, THEN spec]; use con in \<open>auto simp: keeps_def liftR_def\<close>)
qed

lemma SubmitFinalitySignature_keeps: "keeps fp_frame (SubmitFinalitySignatureAndExtractPrivKey sx px vx em flt submit b safe)"
proof -
  have read: "keeps fp_frame (\<lambda>fp. (f fp, fp))" for f by (simp add: keeps_def)
  show ?thesis unfolding SubmitFinalitySignatureAndExtractPrivKey_def by (intro keeps_intros read)
qed

end
