(* ===== verification/Instance_Behaviour.thy ===== *)
theory Instance_Behaviour
  imports Test_Vote
begin

text \<open>
  What a running finality provider does over many iterations of its loops: every block handed over by the
  poller is taken in order, a jailed provider signs and sends nothing, a failed start, and the guarantee
  against conflicting votes for the whole instance.
\<close>

section \<open>Every block is taken\<close>

lemma getBatchBlocksFromPoller_eq:
  assumes "cp_isStarted cp" and "k = (if length acc < unat n then unat n - length acc else length (cp_blockChan cp))"
  shows "getBatchBlocksFromPoller n acc cp = (acc @ take k (cp_blockChan cp),
    cp\<lparr>cp_blockChan := drop k (cp_blockChan cp), cp_taken := cp_taken cp @ take k (cp_blockChan cp)\<rparr>)"
  using assms
proof (induction "cp_blockChan cp" arbitrary: cp acc k)
  case Nil
  then show ?case by (subst getBatchBlocksFromPoller.simps) (auto simp: TryNextBlock_def)
next
  case (Cons b bs)
  let ?cp = "cp\<lparr>cp_blockChan := bs, cp_taken := cp_taken cp @ [b]\<rparr>"
  have nxt: "getBatchBlocksFromPoller n acc cp =
      (if length (acc @ [b]) = unat n then (acc @ [b], ?cp) else getBatchBlocksFromPoller n (acc @ [b]) ?cp)"
    using Cons.prems(1) Cons.hyps(2) [symmetric] by (subst getBatchBlocksFromPoller.simps) (simp add: TryNextBlock_def Let_def)
  show ?case
  proof (cases "length (acc @ [b]) = unat n")
    case True
    then have "k = Suc 0" by (simp add: Cons.prems(2))
    with True nxt show ?thesis by (simp add: Cons.hyps(2) [symmetric])
  next
    case False
    let ?k = "if length (acc @ [b]) < unat n then unat n - length (acc @ [b]) else length bs"
    have "getBatchBlocksFromPoller n (acc @ [b]) ?cp = (acc @ [b] @ take ?k bs,
        cp\<lparr>cp_blockChan := drop ?k bs, cp_taken := cp_taken cp @ [b] @ take ?k bs\<rparr>)"
      using Cons.hyps(1) [of ?cp ?k "acc @ [b]"] Cons.prems(1) by simp
    moreover have "k = Suc ?k" using False by (auto simp: Cons.prems(2) Cons.hyps(2) [symmetric])
    ultimately show ?thesis using False nxt by (simp add: Cons.hyps(2) [symmetric])
  qed
qed

lemma processAndSubmitSignatures_poller:
  assumes "processAndSubmitSignatures x sx cfg env fp = (r, fp')" and "fi_quit fp \<noteq> Some True"
  shows "(\<forall>e. r \<noteq> Err e) \<and> fi_quit fp' = fi_quit fp \<and>
    fi_poller fp' = snd (getBatchBlocksFromPoller (fc_BatchSubmissionSize cfg) [] (fi_poller fp))"
proof -
  obtain blocks cp where batch: "getBatchBlocksFromPoller (fc_BatchSubmissionSize cfg) [] (fi_poller fp) = (blocks, cp)" by fastforce
  show ?thesis
    using assms(1) batch
  proof (cases rule: processAndSubmitSignatures_cases)
    case (submit fp1 rs fp2)
    have "fi_quit fp2 = fi_quit fp \<and> fi_poller fp2 = cp"
      using submit(3) IsJailed_effect [OF submit(2)] by (auto simp: submitBlocks_def on_submitter_eq)
    with submit(4,5) batch show ?thesis by (auto simp: on_fpState_eq reportCriticalErr_def)
  qed (use assms(2) batch in \<open>auto dest: IsJailed_effect\<close>)
qed

text \<open>C10. Progress of voting: unless the process ends, a loop whose ticks make room for all waiting blocks (as many
  batches as needed) hands every one of them, in order and once, to the submission, whatever the
  submissions return. A batch size of 0 takes all blocks at the first tick.\<close>

theorem finalitySigSubmissionLoop_takes_all:
  assumes "finalitySigSubmissionLoop x sx cfg envs fp = (r, fp')" and "envs \<noteq> []"
    and "cp_isStarted (fi_poller fp)" and "fi_quit fp \<noteq> Some True"
    and "fc_BatchSubmissionSize cfg = 0 \<or> length (cp_blockChan (fi_poller fp)) \<le> length envs * unat (fc_BatchSubmissionSize cfg)"
  shows "(\<exists>c. r = Crash c) \<or> r = Ok () \<and> cp_blockChan (fi_poller fp') = [] \<and>
    cp_taken (fi_poller fp') = cp_taken (fi_poller fp) @ cp_blockChan (fi_poller fp)"
  using assms
proof (induction envs arbitrary: fp)
  case (Cons env envs)
  let ?n = "unat (fc_BatchSubmissionSize cfg)" and ?chan = "cp_blockChan (fi_poller fp)"
  let ?k = "if 0 < ?n then ?n else length ?chan"
  obtain r1 fp1 where tick: "processAndSubmitSignatures x sx cfg env fp = (r1, fp1)" by fastforce
  from processAndSubmitSignatures_poller [OF tick Cons.prems(4)] getBatchBlocksFromPoller_eq [OF Cons.prems(3) refl, where acc = "[]"]
  have r1: "\<forall>e. r1 \<noteq> Err e" and quit: "fi_quit fp1 \<noteq> Some True" and poller: "fi_poller fp1 =
      (fi_poller fp)\<lparr>cp_blockChan := drop ?k ?chan, cp_taken := cp_taken (fi_poller fp) @ take ?k ?chan\<rparr>"
    using Cons.prems(4) by simp_all
  show ?case
  proof (cases r1)
    case (Ok u)
    have rest: "finalitySigSubmissionLoop x sx cfg envs fp1 = (r, fp')" using Cons.prems(1) tick Ok by (simp add: sbind_def)
    show ?thesis
    proof (cases "envs = []")
      case True
      then have "length ?chan \<le> ?k" using Cons.prems(5) by (auto simp: unat_eq_zero)
      with True rest poller show ?thesis by (simp add: liftR_def)
    next
      case False
      have "fc_BatchSubmissionSize cfg = 0 \<or> length (cp_blockChan (fi_poller fp1)) \<le> length envs * ?n"
        using Cons.prems(5) poller by (auto simp: unat_gt_0)
      from Cons.IH [OF rest False _ quit this] poller Cons.prems(3) show ?thesis by simp
    qed
  qed (use r1 Cons.prems(1) tick in \<open>auto simp: sbind_def\<close>)
qed simp

definition demo_fpi :: "(bytes, bytes, bytes) FpState \<Rightarrow> BlockInfo list \<Rightarrow>
    ((bytes, bytes) LocalEOTSManager, bytes finality_msg list list, bytes, bytes, bytes) FinalityProviderInstance" where
  "demo_fpi fps blocks = \<lparr>fi_btcPk = ''pk'', fi_fpState = fps, fi_pubRandState = emptyPrStore, fi_em = demo_lm, fi_consumerCon = [],
     fi_poller = (NewChainPoller DefaultChainPollerConfig)\<lparr>cp_isStarted := True, cp_blockChan := blocks\<rparr>, fi_rcBtcPk = Some ''k'',
     fi_rcCfg = NewRandomnessCommitterConfig 2 10 0, fi_criticalErrs = [], fi_isStarted = False, fi_quit = None\<rparr>"

definition demo_fpcfg :: fpi_config where
  "demo_fpcfg = \<lparr>fc_BatchSubmissionSize = 0, fc_AdvancedResetLastVotedHeight = False,
     fc_PollerConfig = DefaultChainPollerConfig\<lparr>pc_AutoChainScanningMode := False\<rparr>,
     fc_Submitter = \<lparr>fc_MaxSubmissionRetries = 0, fc_ContextSigningHeight = 0, fc_SubmissionRetryInterval = 1\<rparr>\<rparr>"

definition demo_tick where
  "demo_tick = \<lparr>te_flt = (\<lambda>_. NoFault), te_power = (\<lambda>_ _. demo_cc), te_attempt = (\<lambda>_. demo_attempt demo_submit), te_received = True\<rparr>"

lemma demo_IsJailed:
  assumes "fi_fpState fp = demo_fps"
  shows "IsJailed plain_fp (\<lambda>_. NoFault) fp = (Ok False, fp)"
proof -
  obtain sfp where "protoFpToStoredFinalityProvider plain_fp demoFp = Ok sfp" and st: "sf_Status sfp = ACTIVE"
    by (simp add: protoFpToStoredFinalityProvider_def plain_fp_def demoFp_def)
  then have "GetFinalityProvider plain_fp NoFault ''pk'' demoFpStore = Ok sfp"
    using plain_fp.GetFinalityProvider_refines [OF wf_demoFpStore, of "''pk''"] by simp
  moreover have "fps_s demo_fps = demoFpStore" by (simp add: demo_fps_def NewFpState_def)
  ultimately show ?thesis using st by (simp add: IsJailed_def sbind_def assms)
qed

text \<open>A block at height 3, below the last voted height: the submission filters it and returns without a vote.\<close>

theorem finalitySigSubmissionLoop_takes_all_witness:
  "\<exists>r fp'. finalitySigSubmissionLoop plain_fp demo_sx demo_fpcfg [demo_tick] (demo_fpi demo_fps [NewBlockInfo 3 ''h'' False]) = (r, fp') \<and>
     r = Ok () \<and> cp_taken (fi_poller fp') = [NewBlockInfo 3 ''h'' False]"
proof -
  let ?b = "NewBlockInfo 3 ''h'' False" let ?fp = "demo_fpi demo_fps [?b]"
  obtain r fp' where run: "finalitySigSubmissionLoop plain_fp demo_sx demo_fpcfg [demo_tick] ?fp = (r, fp')" by fastforce
  have "\<exists>fps. FilterBlocksForVoting plain_fp (\<lambda>_ _. demo_cc) NoFault [?b] demo_fps = (Ok [], fps)"
  proof -
    obtain db where "SetFpStatus plain_fp NoFault ''pk'' INACTIVE demoFpStore = (Ok (), db)"
      using demo_set by (fastforce simp: SetFpStatus_def)
    then have "\<exists>fps. mustSetStatus plain_fp NoFault INACTIVE demo_fps = (Ok (), fps)"
      by (simp add: mustSetStatus_Ok SetStatus_def on_store_def demo_fps_def NewFpState_def wrapS_def)
    then show ?thesis by (auto simp: FilterBlocksForVoting_def NewBlockInfo_def sbind_def liftR_def)
  qed
  then obtain fps where "FilterBlocksForVoting plain_fp (\<lambda>_ _. demo_cc) NoFault [?b] demo_fps = (Ok [], fps)" by blast
  then have "\<exists>fp. submitBlocks plain_fp demo_sx demo_fpcfg demo_tick [?b] (?fp\<lparr>fi_poller := cp\<rparr>) = (Ok None, fp)" for cp
    by (simp add: submitBlocks_def on_submitter_def submitter_of_def SubmitBatchFinalitySignatures_def on_State_def demo_fpi_def
        demo_tick_def wrapS_def)
  moreover have "\<exists>cp. getBatchBlocksFromPoller 0 [] (fi_poller ?fp) = ([?b], cp)"
    using getBatchBlocksFromPoller_eq [OF _ refl, of "fi_poller ?fp" 0 "[]"] by (simp add: demo_fpi_def)
  moreover have "IsJailed plain_fp (\<lambda>_. NoFault) (?fp\<lparr>fi_poller := cp\<rparr>) = (Ok False, ?fp\<lparr>fi_poller := cp\<rparr>)" for cp
    by (rule demo_IsJailed) (simp add: demo_fpi_def)
  moreover have "fi_quit ?fp = None" "fc_BatchSubmissionSize demo_fpcfg = 0" "te_flt demo_tick = (\<lambda>_. NoFault)"
    by (simp_all add: demo_fpi_def demo_fpcfg_def demo_tick_def)
  ultimately have "\<exists>fp. processAndSubmitSignatures plain_fp demo_sx demo_fpcfg demo_tick ?fp = (Ok (), fp)"
    by (auto simp: processAndSubmitSignatures_def sbind_def) (metis fst_conv go.simps(10) prod.case)
  then have "r = Ok ()" using run by (auto simp: sbind_def liftR_def)
  with finalitySigSubmissionLoop_takes_all [OF run] run show ?thesis
    by (auto simp: demo_fpi_def demo_fpcfg_def NewChainPoller_def Let_def)
qed

section \<open>A jailed provider\<close>

definition stored_jailed :: "('pk, 'ds, 'dc) fp_ext \<Rightarrow> ('pk, 'ds, 'dc) FpState \<Rightarrow> bool" where
  "stored_jailed x fps \<longleftrightarrow> wf_fpstore x (fps_s fps) \<and>
     (\<exists>p. fpOf x (fps_s fps) (fx_SerializePubKey x (GetBtcPk fps)) = Some p \<and> pf_Status p = JAILED)"

lemma IsJailed_stored:
  assumes codec: "fp_codec x" and jailed: "stored_jailed x (fi_fpState fp)" and run: "IsJailed x flt fp = (r, fp')"
  shows "(\<exists>c. r = Crash c) \<or> r = Ok True \<and> stored_jailed x (fi_fpState fp')"
proof (cases "GetFinalityProvider x (flt 0) (GetBtcPk (fi_fpState fp)) (fps_s (fi_fpState fp))")
  case got: (Ok sfp)
  let ?fps = "fi_fpState fp"
  from jailed obtain p where wf: "wf_fpstore x (fps_s ?fps)"
    and p: "fpOf x (fps_s ?fps) (fx_SerializePubKey x (GetBtcPk ?fps)) = Some p" "pf_Status p = JAILED"
    unfolding stored_jailed_def by blast
  from fp_codec.GetFinalityProvider_status [OF codec wf p(1) got] p(2) have st: "sf_Status sfp = JAILED" by simp
  show ?thesis
  proof (cases "GetStatus ?fps = JAILED")
    case True
    with got st run jailed show ?thesis by (auto simp: IsJailed_def sbind_def)
  next
    case False
    obtain rm fps where m: "mustSetStatus x (flt 1) JAILED ?fps = (rm, fps)" by fastforce
    show ?thesis
    proof (cases rm)
      case (Ok u)
      then have set: "SetStatus x (flt 1) JAILED ?fps = (Ok u, fps)" using m by (simp add: mustSetStatus_Ok)
      then obtain db where db: "SetFpStatus x (flt 1) (GetBtcPk ?fps) JAILED (fps_s ?fps) = (Ok u, db)"
        and fps: "fps_s fps = db" "GetBtcPk fps = GetBtcPk ?fps"
        by (auto simp: SetStatus_def on_store_def go_simps GetBtcPk_def split: prod.splits)
      from fp_codec.setFinalityProviderState_Ok [OF codec wf db [unfolded SetFpStatus_def]] fps
      have "stored_jailed x fps" by (auto simp: stored_jailed_def)
      moreover have "GetStatus fps = JAILED" using SetStatus_cache [OF set] by simp
      ultimately show ?thesis
        using got st False m Ok run by (auto simp: IsJailed_def sbind_def on_fpState_def)
    qed (use m run got st False in
        \<open>auto simp: IsJailed_def sbind_def on_fpState_def mustSetStatus_def split: prod.splits go.splits\<close>)
  qed
qed (use run in \<open>auto simp: IsJailed_def\<close>)

text \<open>C11. A jailed provider does not vote: while the store says jailed, no tick of the submission loop asks the
  manager for a signature or sends anything, whatever the cached status says, and the record stays jailed.\<close>

theorem finalitySigSubmissionLoop_jailed:
  assumes "fp_codec x" and "stored_jailed x (fi_fpState fp)"
    and "finalitySigSubmissionLoop x sx cfg envs fp = (r, fp')"
  shows "fi_em fp' = fi_em fp \<and> fi_consumerCon fp' = fi_consumerCon fp \<and>
    ((\<exists>c. r = Crash c) \<or> r = Ok () \<and> stored_jailed x (fi_fpState fp'))"
  using assms(2,3)
proof (induction envs arbitrary: fp)
  case (Cons env envs)
  obtain r1 fp1 where tick: "processAndSubmitSignatures x sx cfg env fp = (r1, fp1)" by fastforce
  obtain blocks cp where batch: "getBatchBlocksFromPoller (fc_BatchSubmissionSize cfg) [] (fi_poller fp) = (blocks, cp)" by fastforce
  have pre: "stored_jailed x (fi_fpState (fp\<lparr>fi_poller := cp\<rparr>))" using Cons.prems(1) by simp
  note J = IsJailed_stored [OF assms(1) pre] IsJailed_effect
  have "fi_em fp1 = fi_em fp \<and> fi_consumerCon fp1 = fi_consumerCon fp \<and>
      ((\<exists>c. r1 = Crash c) \<or> r1 = Ok () \<and> stored_jailed x (fi_fpState fp1))"
    using tick batch by (cases rule: processAndSubmitSignatures_cases) (use Cons.prems(1) in \<open>auto dest: J\<close>)
  with Cons.prems(2) tick Cons.IH [of fp1] show ?case by (auto simp: sbind_def)
qed (simp add: liftR_def)

theorem finalitySigSubmissionLoop_jailed_witness:
  "\<exists>fps r fp'. stored_jailed plain_fp fps \<and> GetStatus fps = ACTIVE \<and>
     finalitySigSubmissionLoop plain_fp demo_sx demo_fpcfg [demo_tick, demo_tick] (demo_fpi fps demo_gap) = (r, fp') \<and>
     fi_consumerCon fp' = [] \<and> fi_em fp' = demo_lm"
proof -
  obtain db where db: "SetFpStatus plain_fp NoFault ''pk'' JAILED demoFpStore = (Ok (), db)"
    using demo_set by (fastforce simp: SetFpStatus_def)
  let ?fps = "demo_fps\<lparr>fps_s := db\<rparr>"
  have jailed: "stored_jailed plain_fp ?fps"
    using plain_fp.setFinalityProviderState_Ok [OF wf_demoFpStore db [unfolded SetFpStatus_def]]
    by (auto simp: stored_jailed_def demo_fps_def NewFpState_def GetBtcPk_def)
  obtain r fp' where run: "finalitySigSubmissionLoop plain_fp demo_sx demo_fpcfg [demo_tick, demo_tick] (demo_fpi ?fps demo_gap) = (r, fp')"
    by fastforce
  have "stored_jailed plain_fp (fi_fpState (demo_fpi ?fps demo_gap))" using jailed by (simp add: demo_fpi_def)
  from finalitySigSubmissionLoop_jailed [OF plain_fp.fp_codec_axioms this run] run jailed show ?thesis
    by (intro exI [of _ ?fps] exI [of _ r] exI [of _ fp']) (simp add: demo_fpi_def demo_fps_def NewFpState_def GetStatus_def)
qed

section \<open>A start that fails\<close>

text \<open>A failed start cannot be repaired: the instance counts as started although its loops never run, so another
  start is refused, and no stop succeeds: it fails, or closes the quit channel that was never opened (or is
  closed already), which ends the process.\<close>

theorem fpi_Start_failure:
  assumes "fpi_Start x flt toBTCPK hex cc cfg fp = (Err e, fp')" and "\<not> fi_isStarted fp" and "fi_quit fp \<noteq> Some False"
  shows "fi_isStarted fp' \<and> fi_em fp' = fi_em fp \<and> fi_consumerCon fp' = fi_consumerCon fp \<and>
    fst (fpi_Start x flt' toBTCPK hex cc' cfg' fp') =
      Err (ErrText (''the finality-provider instance '' @ hex (fi_btcPk fp) @ '' is already started'')) \<and>
    (\<forall>u. fst (fpi_Stop hex cc0 fp') \<noteq> Ok u)"
proof -
  have eff: "fi_isStarted fp' \<and> fi_quit fp' = fi_quit fp \<and> fi_btcPk fp' = fi_btcPk fp \<and> fi_em fp' = fi_em fp \<and>
      fi_consumerCon fp' = fi_consumerCon fp"
    using assms(1,2) unfolding fpi_Start_def
    by (auto simp: wrapS_eq on_fpi_eq elim!: sbindE split: if_splits dest!: IsJailed_effect)
  moreover have "\<forall>u. fst (fpi_Stop hex cc0 fp') \<noteq> Ok u"
  proof (intro allI notI)
    fix u assume "fst (fpi_Stop hex cc0 fp') = Ok u"
    then obtain fp2 where "fpi_Stop hex cc0 fp' = (Ok u, fp2)" by (metis prod.collapse)
    then show False using eff assms(3)
      by (auto simp: fpi_Stop_def wrapS_eq on_poller_eq closeQuit_def Ok_eq_wrap elim!: sbindE split: option.splits bool.splits)
  qed
  ultimately show ?thesis by (simp add: fpi_Start_def)
qed

text \<open>The poller runs already, so that setting its start height is refused.\<close>

theorem fpi_Start_failure_witness:
  "\<exists>e fp'. fpi_Start plain_fp (\<lambda>_. NoFault) Ok id (\<lambda>_ _. demo_cc) demo_fpcfg (demo_fpi demo_fps []) = (Err e, fp') \<and>
     (\<forall>u. fst (fpi_Stop id demo_cc fp') \<noteq> Ok u)"
proof -
  let ?fp = "demo_fpi demo_fps []"
  have J: "IsJailed plain_fp (\<lambda>_. NoFault) (?fp\<lparr>fi_isStarted := True\<rparr>) = (Ok False, ?fp\<lparr>fi_isStarted := True\<rparr>)"
    by (rule demo_IsJailed) (simp add: demo_fpi_def)
  have fp: "fi_isStarted ?fp = False" "fi_quit ?fp = None" "cp_isStarted (fi_poller ?fp)" by (simp_all add: demo_fpi_def)
  obtain e where "fpi_Start plain_fp (\<lambda>_. NoFault) Ok id (\<lambda>_ _. demo_cc) demo_fpcfg ?fp = (Err e, ?fp\<lparr>fi_isStarted := True\<rparr>)"
    using J fp by (simp add: fpi_Start_def sbind_def fpi_DetermineStartHeight_def DetermineStartHeight_def demo_fpcfg_def wrapS_def
        on_poller_def SetStartHeight_def)
  with fpi_Start_failure [OF this] fp show ?thesis by auto
qed

section \<open>No conflicting votes\<close>

text \<open>The other messages of the provider carry no vote.\<close>

lemma babylonVotes_append [simp]:
  "babylonVotes pk (sent @ [[MsgCommitPubRandList a b c d g h]]) = babylonVotes pk sent"
  "babylonVotes pk (sent @ [[MsgUnjailFinalityProvider a b]]) = babylonVotes pk sent"
  by (simp_all add: babylonVotes_def)

lemma babylonVotes_other:
  "CommitPubRandList bx c cfg req sent = (r, sent') \<Longrightarrow> babylonVotes pk sent' = babylonVotes pk sent"
  "UnjailFinalityProvider_tx bx c cfg fpPk sent = (r', sent') \<Longrightarrow> babylonVotes pk sent' = babylonVotes pk sent"
  by (auto simp: CommitPubRandList_def UnjailFinalityProvider_tx_def Let_def reliablySendMsg_def reliablySendMsgs_def sendMsgs_def
      liftR_eq wrapS_eq elim!: sbindE)

text \<open>A commitment leaves the recorded votes as they are.\<close>

lemma rc_Commit_votes:
  assumes svc: "eots_service em emInv randFor voteOf" and inv: "emInv (rc_Em rc)"
    and send: "\<And>req c r c'. send req c = (r, c') \<Longrightarrow> votes c' = votes c"
    and run: "rc_Commit rx em send flt start rc = (r, rc')"
  shows "emInv (rc_Em rc') \<and> voteOf (rc_Em rc') = voteOf (rc_Em rc) \<and> votes (rc_ConsumerCon rc') = votes (rc_ConsumerCon rc)"
proof -
  let ?ok = "\<lambda>rc'. emInv (rc_Em rc') \<and> voteOf (rc_Em rc') = voteOf (rc_Em rc) \<and> votes (rc_ConsumerCon rc') = votes (rc_ConsumerCon rc)"
  have rand: "?ok t" if "rc_getPubRandList em h n s = (rr, t)" "?ok s" for h n s rr t
    using that eots_service.rand_keeps [OF svc]
    by (fastforce simp: rc_getPubRandList_def wrapS_eq liftR_eq on_rc_eq elim!: sbindE)
  have sign: "?ok t" if "rc_SignPubRandCommit rx em h n cm s = (rs, t)" "?ok s" for h n cm s rs t
    using that eots_service.schnorr_keeps [OF svc]
    by (fastforce simp: rc_SignPubRandCommit_def wrapS_eq liftR_eq on_rc_eq elim!: sbindE)
  have proofs: "?ok t" if "addProofs rx flt h n ps i s = (ra, t)" "?ok s" for h n ps i s ra t
    using that by (auto simp: addProofs_def liftR_eq on_rc_eq elim!: sbindE)
  have sends: "?ok t" if "on_ConsumerCon (send req) s = (rr, t)" "?ok s" for req s rr t
    using that send by (auto simp: on_rc_eq)
  have "?ok rc" using inv by simp
  with run show ?thesis
    unfolding rc_Commit_def
    by (auto simp: Let_def wrapS_eq liftR_eq split: prod.splits elim!: sbindE dest!: rand proofs sign sends)
qed

text \<open>Everything that can happen to a provider: the iterations of its loops in any environment of the local manager and
  the Babylon client, requests to commit randomness, to unjail and to vote by hand, starts and stops, whatever the poller
  and the other users of the database and of the manager do, and a restart of the program.\<close>

inductive instance_step ::
  "('pk, 'ds, 'dc) fp_ext \<Rightarrow> ('pk, 'sc) sub_ext \<Rightarrow> ('pk, 'fv, 'pf) rc_ext \<Rightarrow> ('kr, 'sk, 'sc, 'fv, 'sg, 'pk2) eots_ext \<Rightarrow>
     ('pk, 'fv, 'sc, 'sg, 'pr) bbn_ext \<Rightarrow>
     (('kr, 'sk) LocalEOTSManager, 'pr finality_msg list list, 'pk, 'ds, 'dc) FinalityProviderInstance \<Rightarrow>
     (('kr, 'sk) LocalEOTSManager, 'pr finality_msg list list, 'pk, 'ds, 'dc) FinalityProviderInstance \<Rightarrow> bool"
  for x :: "('pk, 'ds, 'dc) fp_ext" and sx :: "('pk, 'sc) sub_ext" and rx :: "('pk, 'fv, 'pf) rc_ext"
    and e :: "('kr, 'sk, 'sc, 'fv, 'sg, 'pk2) eots_ext" and bx :: "('pk, 'fv, 'sc, 'sg, 'pr) bbn_ext" where
  vote: "processAndSubmitSignatures x sx cfg env fp = (r, fp') \<Longrightarrow>
    (\<And>i. \<exists>tx now. ae_Em (te_attempt env i) = localManager e tx now) \<Longrightarrow>
    (\<And>i. \<exists>c bcfg. ae_SubmitBatchFinalitySigs (te_attempt env i) = babylonSubmit bx c bcfg) \<Longrightarrow> instance_step x sx rx e bx fp fp'"
| randomness: "processRandomnessCommitment rx renv fp = (r, fp') \<Longrightarrow> re_Em renv = localManager e tx now \<Longrightarrow>
    re_CommitPubRandList renv = CommitPubRandList bx c bcfg \<Longrightarrow> instance_step x sx rx e bx fp fp'"
| commit: "fpi_CommitPubRand rx renv start fp = (rt, fp') \<Longrightarrow> re_Em renv = localManager e tx now \<Longrightarrow>
    re_CommitPubRandList renv = CommitPubRandList bx c bcfg \<Longrightarrow> instance_step x sx rx e bx fp fp'"
| unjail: "UnjailFinalityProvider_tx bx c bcfg pk (fi_consumerCon fp) = (rt, con) \<Longrightarrow>
    instance_step x sx rx e bx fp (fp\<lparr>fi_consumerCon := con\<rparr>)"
| by_hand: "SubmitFinalitySignatureAndExtractPrivKey sx (rx_pr rx) (vx :: (bytes, 'sk) evidence_ext) (localManager e tx now) flt1 (babylonSubmit bx c bcfg) b True fp = (rv, fp') \<Longrightarrow>
    fi_btcPk fp = sx_PkBytes sx (GetBtcPk (fi_fpState fp)) \<Longrightarrow> instance_step x sx rx e bx fp fp'"
| start: "fpi_Start x flt toBTCPK hex cc cfg fp = (r, fp') \<Longrightarrow> instance_step x sx rx e bx fp fp'"
| stop: "fpi_Stop hex cc1 fp = (r, fp') \<Longrightarrow> instance_step x sx rx e bx fp fp'"
| poller: "instance_step x sx rx e bx fp (fp\<lparr>fi_poller := cp\<rparr>)"
| database: "instance_step x sx rx e bx fp (fp\<lparr>fi_fpState := (fi_fpState fp)\<lparr>fps_s := db\<rparr>\<rparr>)"
| manager: "eots_step e (fi_em fp) events s' \<Longrightarrow> instance_step x sx rx e bx fp (fp\<lparr>fi_em := s'\<rparr>)"
| restart: "NewFinalityProviderInstance x dflt toBTCPK bip340 hex fpPk s pr (fi_em fp) (fi_consumerCon fp) cp sv = (Ok fp', sv') \<Longrightarrow>
    identity (fi_fpState fp') = identity (fi_fpState fp) \<Longrightarrow> instance_step x sx rx e bx fp fp'"

definition instance_safe ::
  "('pk, 'sc) sub_ext \<Rightarrow> ('kr, 'sk, 'sc, 'fv, 'sg, 'pk2) eots_ext \<Rightarrow> ('pk, 'fv, 'sc, 'sg, 'pr) bbn_ext \<Rightarrow> 'pk \<times> bytes \<Rightarrow>
     (('kr, 'sk) LocalEOTSManager, 'pr finality_msg list list, 'pk, 'ds, 'dc) FinalityProviderInstance \<Rightarrow> bool" where
  "instance_safe sx e bx ident fp \<longleftrightarrow> voting_safe sx (\<lambda>s. wf_store e (lm_es s)) (signedFor e)
     (babylonVotes (bx_BIP340 bx (fst ident))) (bx_EOTSSig bx) ident (submitter_of fp)"

lemma instance_safe_same:
  assumes "instance_safe sx e bx ident fp" and "wf_store e (lm_es (fi_em fp'))" and "signedFor e (fi_em fp') = signedFor e (fi_em fp)"
    and "babylonVotes (bx_BIP340 bx (fst ident)) (fi_consumerCon fp') = babylonVotes (bx_BIP340 bx (fst ident)) (fi_consumerCon fp)"
    and "identity (fi_fpState fp') = identity (fi_fpState fp)"
  shows "instance_safe sx e bx ident fp'"
  using assms by (auto simp: instance_safe_def voting_safe_def votes_recorded_def submitter_of_def)

lemma instance_safe_wf: "instance_safe sx e bx ident fp \<Longrightarrow> wf_store e (lm_es (fi_em fp))"
  by (simp add: instance_safe_def voting_safe_def submitter_of_def)

lemma instance_safeD: "instance_safe sx e bx ident fp \<Longrightarrow> v \<in> babylonVotes (bx_BIP340 bx (fst ident)) (fi_consumerCon fp) \<Longrightarrow>
    recorded sx (bx_EOTSSig bx) ident (signedFor e (fi_em fp)) v"
  unfolding instance_safe_def by (drule voting_safeD [of _ _ _ _ _ _ _ v]) (simp_all add: submitter_of_def)

lemma instance_safe_upd:
  "instance_safe sx e bx ident fp \<Longrightarrow> fi_em fp' = fi_em fp \<Longrightarrow> fi_consumerCon fp' = fi_consumerCon fp \<Longrightarrow>
    identity (fi_fpState fp') = identity (fi_fpState fp) \<Longrightarrow> instance_safe sx e bx ident fp'"
  using instance_safe_same [of sx e bx ident fp fp'] instance_safe_wf [of sx e bx ident fp] by simp

lemma instance_safe_report [simp]: "instance_safe sx e bx ident (fp\<lparr>fi_criticalErrs := es\<rparr>) = instance_safe sx e bx ident fp"
  by (simp add: instance_safe_def submitter_of_def)

lemma instance_safe_commit:
  assumes codec: "eots_codec e" and safe: "instance_safe sx e bx ident fp"
    and run: "on_committer (rc_Commit rx (localManager e tx now) (CommitPubRandList bx c bcfg) flt start) fp = (rt, fp')"
  shows "instance_safe sx e bx ident fp'"
proof -
  let ?votes = "babylonVotes (bx_BIP340 bx (fst ident))"
  from run obtain rc where rc: "rc_Commit rx (localManager e tx now) (CommitPubRandList bx c bcfg) flt start (committer_of fp) = (rt, rc)"
    and fp': "fp' = fp\<lparr>fi_em := rc_Em rc, fi_consumerCon := rc_ConsumerCon rc, fi_pubRandState := rc_PubRandState rc\<rparr>"
    by (auto simp: on_committer_eq)
  have "wf_store e (lm_es (rc_Em (committer_of fp)))" using instance_safe_wf [OF safe] by (simp add: committer_of_def)
  from rc_Commit_votes [where votes = ?votes, OF eots_codec.local_eots_service [OF codec] this _ rc]
  have "wf_store e (lm_es (rc_Em rc)) \<and> signedFor e (rc_Em rc) = signedFor e (fi_em fp) \<and> ?votes (rc_ConsumerCon rc) = ?votes (fi_consumerCon fp)"
    using babylonVotes_other(1) by (metis (no_types, lifting) committer_of_def DefaultRandomnessCommitter.select_convs(4,5))
  then show ?thesis by (intro instance_safe_same [OF safe]) (simp_all add: fp')
qed

lemma instance_safe_submit:
  assumes codec: "eots_codec e" and conv: "\<And>s. sx_ToModNScalar sx (sx_NewSchnorrEOTSSigFromModNScalar sx s) = s"
    and em: "\<And>i. \<exists>tx now. ae_Em (te_attempt env i) = localManager e tx now"
    and con: "\<And>i. \<exists>c bcfg. ae_SubmitBatchFinalitySigs (te_attempt env i) = babylonSubmit bx c bcfg"
    and safe: "instance_safe sx e bx ident fp" and run: "submitBlocks x sx cfg env blocks fp = (r, fp')"
  shows "instance_safe sx e bx ident fp'"
proof (cases "SubmitBatchFinalitySignatures x sx (fc_Submitter cfg) (te_power env) (te_flt env 2) (te_attempt env) blocks (submitter_of fp)")
  case None
  with run safe show ?thesis by (auto simp: submitBlocks_def on_submitter_def submitter_of_def intro: instance_safe_upd)
next
  case (Some out)
  obtain ro ds where out: "out = (ro, ds)" by fastforce
  have "voting_step x sx e bx (submitter_of fp) ds" using Some em con unfolding out by (rule voting_step.submit)
  from voting_step_safe [OF codec conv this] safe have "voting_safe sx (\<lambda>s. wf_store e (lm_es s)) (signedFor e)
      (babylonVotes (bx_BIP340 bx (fst ident))) (bx_EOTSSig bx) ident ds" by (simp add: instance_safe_def)
  moreover have "submitter_of fp' = ds" using run Some out by (auto simp: submitBlocks_def on_submitter_eq submitter_of_def)
  ultimately show ?thesis by (simp add: instance_safe_def)
qed

text \<open>A vote requested by hand, with the protection of the sign records, is recorded before it is sent.\<close>

lemma instance_safe_iff: "instance_safe sx e bx ident fp \<longleftrightarrow> wf_store e (lm_es (fi_em fp)) \<and> identity (fi_fpState fp) = ident \<and>
    (\<forall>v \<in> babylonVotes (bx_BIP340 bx (fst ident)) (fi_consumerCon fp). recorded sx (bx_EOTSSig bx) ident (signedFor e (fi_em fp)) v)"
  by (auto simp: instance_safe_def voting_safe_def votes_recorded_def submitter_of_def)

lemma instance_safe_sign:
  assumes codec: "eots_codec e" and conv: "\<And>s. sx_ToModNScalar sx (sx_NewSchnorrEOTSSigFromModNScalar sx s) = s"
    and safe: "instance_safe sx e bx ident fp" and key: "fi_btcPk fp = sx_PkBytes sx (fst ident)"
    and run: "fpi_SignFinalitySig sx (localManager e tx now) b fp = (r, fp')"
  shows "instance_safe sx e bx ident fp'"
    and "r = Ok g \<Longrightarrow> recorded sx (bx_EOTSSig bx) ident (signedFor e (fi_em fp')) (bi_height b, bi_Hash b, bx_EOTSSig bx (sx_ToModNScalar sx g))"
proof -
  let ?em = "localManager e tx now"
  note svc = eots_codec.local_eots_service [OF codec, of tx now]
  from run obtain q s where sign: "em_SignEOTS ?em (fi_btcPk fp) (GetChainID (fi_fpState fp)) (MsgToSign (sx_Uint64ToBigEndian sx) b [])
      (bi_height b) (fi_em fp) = (q, s)" and fp': "fp' = fp\<lparr>fi_em := s\<rparr>"
    and r: "r = rbind (eotsSignError q) (\<lambda>sig. Ok (sx_NewSchnorrEOTSSigFromModNScalar sx sig))"
    unfolding fpi_SignFinalitySig_eq by blast
  have wf: "wf_store e (lm_es (fi_em fp))" using safe by (simp add: instance_safe_iff)
  have "signedFor e (fi_em fp) \<subseteq>\<^sub>m signedFor e s"
    using eots_service.sign_keeps [OF svc sign wf] by (auto simp: map_le_def)
  with safe eots_service.sign_inv [OF svc sign wf] show "instance_safe sx e bx ident fp'"
    by (auto simp: instance_safe_iff fp' intro: recorded_mono)
  assume "r = Ok g"
  then have "rbind (eotsSignError q) (\<lambda>sig. Ok (sx_NewSchnorrEOTSSigFromModNScalar sx sig)) = Ok g" using r by simp
  then obtain sig where q: "q = Ok sig" and g: "g = sx_NewSchnorrEOTSSigFromModNScalar sx sig" by (auto simp: go_simps)
  have "GetChainID (fi_fpState fp) = snd ident" using safe by (auto simp: instance_safe_iff identity_def)
  with eots_service.sign_recorded [OF svc sign [unfolded q] wf] key
  show "recorded sx (bx_EOTSSig bx) ident (signedFor e (fi_em fp')) (bi_height b, bi_Hash b, bx_EOTSSig bx (sx_ToModNScalar sx g))"
    by (auto simp: recorded_def MsgToSign_def fp' g conv)
qed

lemma instance_safe_send:
  assumes safe: "instance_safe sx e bx ident fp"
    and rec: "recorded sx (bx_EOTSSig bx) ident (signedFor e (fi_em fp)) (bi_height b, bi_Hash b, bx_EOTSSig bx (sx_ToModNScalar sx g))"
    and run: "sendVote sx (babylonSubmit bx c bcfg) b pr pf g fp = (r, fp')"
  shows "instance_safe sx e bx ident fp'"
proof -
  from run obtain q con where sub: "babylonSubmit bx c bcfg \<lparr>sb_FpPk = GetBtcPk (fi_fpState fp), sb_Blocks = [b], sb_PubRandList = [pr],
      sb_ProofList = [pf], sb_Sigs = [sx_ToModNScalar sx g]\<rparr> (fi_consumerCon fp) = (q, con)" and fp': "fp' = fp\<lparr>fi_consumerCon := con\<rparr>"
    by (auto simp: sendVote_def wrapS_eq liftR_eq on_fpCon_eq elim!: sbindE)
  have "GetBtcPk (fi_fpState fp) = fst ident" using safe by (auto simp: instance_safe_iff identity_def)
  with babylon_votes.votes_from_request [OF sub, of "fst ident"] safe rec show ?thesis by (auto simp: instance_safe_iff fp')
qed

lemma instance_safe_test_vote:
  assumes codec: "eots_codec e" and conv: "\<And>s. sx_ToModNScalar sx (sx_NewSchnorrEOTSSigFromModNScalar sx s) = s"
    and safe: "instance_safe sx e bx ident fp" and key: "fi_btcPk fp = sx_PkBytes sx (GetBtcPk (fi_fpState fp))"
    and run: "SubmitFinalitySignatureAndExtractPrivKey sx px vx (localManager e tx now) flt (babylonSubmit bx c bcfg) b True fp = (r, fp')"
  shows "instance_safe sx e bx ident fp'"
proof -
  let ?em = "localManager e tx now" and ?ok = "\<lambda>s. instance_safe sx e bx ident s \<and> fi_btcPk s = sx_PkBytes sx (fst ident)"
  have start: "?ok fp" using safe key by (auto simp: instance_safe_iff identity_def)
  have rand: "?ok t" if "fpi_GetPubRandList ?em h n s = (rr, t)" "?ok s" for h n s rr t
    using that eots_service.rand_keeps [OF eots_codec.local_eots_service [OF codec, of tx now]]
    by (auto simp: fpi_GetPubRandList_def wrapS_eq on_fpEm_eq instance_safe_iff)
  have sign: "?ok t" if "fpi_SignFinalitySig sx ?em b s = (rs, t)" "?ok s" for s rs t
    using that instance_safe_sign(1) [OF codec conv _ _ that(1)] by (auto simp: fpi_SignFinalitySig_eq)
  have vote: "?ok u" if "fpi_SignFinalitySig sx ?em b s = (Ok g, t)" "sendVote sx (babylonSubmit bx c bcfg) b pr pf g t = (rv, u)" "?ok s"
    for s g t pr pf rv u
    using instance_safe_send [OF _ instance_safe_sign(2) [OF codec conv _ _ that(1) refl] that(2)] sign [OF that(1,3)] that(3)
      keepsD [OF keeps_frame(6) that(2)] by (auto simp: fp_frame_def)
  obtain r1 fp1 where R: "fpi_GetPubRandList ?em (bi_height b) 1 fp = (r1, fp1)" by fastforce
  obtain r2 fp2 where S: "fpi_SignFinalitySig sx ?em b fp1 = (r2, fp2)" by fastforce
  note ok1 = rand [OF R start]
  consider "fp' = fp1" | "fp' = fp2" | g pr pf rv where "r2 = Ok g" "sendVote sx (babylonSubmit bx c bcfg) b pr pf g fp2 = (rv, fp')"
    using run R S unfolding SubmitFinalitySignatureAndExtractPrivKey_def
    by (auto simp: wrapS_eq liftR_eq elim!: sbindE split: if_splits)
  then show ?thesis
  proof cases
    case 3
    with vote [OF S [unfolded 3(1)] 3(2) ok1] show ?thesis by simp
  qed (use ok1 sign [OF S ok1] in simp_all)
qed

lemma start_stop_effect:
  "fpi_Start x flt toBTCPK hex cc cfg fp = (r, fp') \<Longrightarrow>
    fi_em fp' = fi_em fp \<and> fi_consumerCon fp' = fi_consumerCon fp \<and> identity (fi_fpState fp') = identity (fi_fpState fp)"
  "fpi_Stop hex cc1 fp = (r, fp') \<Longrightarrow>
    fi_em fp' = fi_em fp \<and> fi_consumerCon fp' = fi_consumerCon fp \<and> fi_fpState fp' = fi_fpState fp"
  unfolding fpi_Start_def fpi_Stop_def closeQuit_def
  by (auto simp: wrapS_eq on_fpi_eq elim!: sbindE split: if_splits option.splits bool.splits
      dest!: IsJailed_effect keepsD [OF keeps_identity(2)])

lemma NewFinalityProviderInstance_parts:
  "NewFinalityProviderInstance x flt toBTCPK bip340 hex fpPk s pr em con cp sv = (Ok fp, sv') \<Longrightarrow>
    fi_em fp = em \<and> fi_consumerCon fp = con \<and> fi_pubRandState fp = pr \<and> \<not> fi_isStarted fp \<and> sf_Status (fps_sfp (fi_fpState fp)) \<noteq> SLASHED"
  by (auto simp: NewFinalityProviderInstance_def newFinalityProviderInstanceFromStore_def Let_def NewFpState_def liftR_eq
      elim!: sbindE split: if_splits prod.splits)

lemma instance_step_safe:
  assumes codec: "eots_codec e" and conv: "\<And>s. sx_ToModNScalar sx (sx_NewSchnorrEOTSSigFromModNScalar sx s) = s"
    and step: "instance_step x sx rx e bx fp fp'" and safe: "instance_safe sx e bx ident fp"
  shows "instance_safe sx e bx ident fp'"
  using step
proof cases
  case (vote cfg env r)
  obtain blocks cp where "getBatchBlocksFromPoller (fc_BatchSubmissionSize cfg) [] (fi_poller fp) = (blocks, cp)" by fastforce
  with vote(1) show ?thesis
  proof (cases rule: processAndSubmitSignatures_cases)
    case (submit fp1 rs fp2)
    have "instance_safe sx e bx ident fp1" using IsJailed_effect [OF submit(2)] by (auto intro: instance_safe_upd [OF safe])
    then have "instance_safe sx e bx ident fp2" using instance_safe_submit [OF codec conv vote(2,3) _ submit(3)] by blast
    with submit(5) show ?thesis
      by (auto simp: on_fpState_eq reportCriticalErr_def dest!: keepsD [OF keeps_must(1)] intro: instance_safe_upd split: if_splits)
  qed (use safe in \<open>auto dest!: IsJailed_effect intro: instance_safe_upd [OF safe]\<close>)
next
  case (randomness env r tx now c bcfg)
  then show ?thesis using safe instance_safe_commit [OF codec safe]
    by (auto simp: processRandomnessCommitment_def reportCriticalErr_def split: go.splits prod.splits if_splits intro: instance_safe_upd)
next
  case (commit env start rt tx now c bcfg)
  then show ?thesis using instance_safe_commit [OF codec safe] by (auto simp: fpi_CommitPubRand_def wrapS_eq)
next
  case (unjail c bcfg pk rt con)
  then show ?thesis using babylonVotes_other(2) [OF unjail(2)] instance_safe_wf [OF safe]
    by (intro instance_safe_same [OF safe]) simp_all
next
  case (by_hand vx tx now flt c bcfg b rv)
  then show ?thesis using instance_safe_test_vote [OF codec conv safe] by blast
next
  case (manager events s')
  from voting_step_safe [OF codec conv voting_step.manager, of "submitter_of fp"] manager safe show ?thesis
    by (simp add: instance_safe_def submitter_of_def)
qed (use safe in \<open>auto dest!: start_stop_effect NewFinalityProviderInstance_parts intro: instance_safe_upd [OF safe] simp: identity_def GetBtcPk_def GetChainID_def\<close>)

text \<open>C1. A provider never sends conflicting votes. Take a provider with an empty outbox and let anything happen: voting
  and randomness ticks with whatever the chain, the databases and the retries do, unjailing, starts and
  stops, other users of the signing manager, restarts of the programs. Two finality signature messages
  of the provider for one height then carry the same block hash and the same signature. Left out are the
  request for a signature without a record (\<^verbatim>\<open>UnsafeSignEOTS\<close>) and the vote by hand with the check for double
  signing switched off, which uses it.\<close>

theorem instance_no_conflicting_votes:
  assumes "eots_codec e" and "\<And>s. sx_ToModNScalar sx (sx_NewSchnorrEOTSSigFromModNScalar sx s) = s"
    and "wf_store e (lm_es (fi_em fp))" and "fi_consumerCon fp = []"
    and "(instance_step x sx rx e bx)\<^sup>*\<^sup>* fp fp'"
  defines "pk \<equiv> bx_BIP340 bx (GetBtcPk (fi_fpState fp))"
  assumes "MsgAddFinalitySig signer pk h rand proof hash sig \<in> set (concat (fi_consumerCon fp'))"
    and "MsgAddFinalitySig signer' pk h rand' proof' hash' sig' \<in> set (concat (fi_consumerCon fp'))"
  shows "hash = hash' \<and> sig = sig'"
proof -
  let ?ident = "identity (fi_fpState fp)"
  have "instance_safe sx e bx ?ident fp"
    using assms(3,4) by (simp add: instance_safe_def voting_safe_def votes_recorded_def babylonVotes_def submitter_of_def)
  with assms(5) have "instance_safe sx e bx ?ident fp'"
    by (induction rule: rtranclp_induct) (use instance_step_safe [OF assms(1,2)] in blast)+
  then have rec: "recorded sx (bx_EOTSSig bx) ?ident (signedFor e (fi_em fp')) v"
    if "v \<in> babylonVotes pk (fi_consumerCon fp')" for v
    by (rule instance_safeD) (use that in \<open>simp add: pk_def identity_def\<close>)
  have "(h, hash, sig) \<in> babylonVotes pk (fi_consumerCon fp')" "(h, hash', sig') \<in> babylonVotes pk (fi_consumerCon fp')"
    using assms(7,8) by (auto simp: babylonVotes_def)
  from recorded_agree [OF rec [OF this(1)] rec [OF this(2)]] show ?thesis .
qed

lemma demo_instance_votes:
  "\<exists>fp'. instance_step plain_fp demo_sx demo_rx demo_ext demo_bbn (demo_fpi demo_fps demo_gap) fp' \<and>
     (\<exists>signer rand sig. MsgAddFinalitySig signer ''pk'' 7 rand ''p'' ''h'' sig \<in> set (concat (fi_consumerCon fp')))"
proof -
  let ?fp = "demo_fpi demo_fps demo_gap"
  obtain ds signer rand sig where run: "SubmitBatchFinalitySignatures plain_fp demo_sx (fc_Submitter demo_fpcfg) (te_power demo_tick) (te_flt demo_tick 2)
      (te_attempt demo_tick) demo_gap (demo_ds []) = Some (Ok (Some emptyTxResponse), ds)"
    and m: "MsgAddFinalitySig signer ''pk'' 7 rand ''p'' ''h'' sig \<in> set (concat (ds_ConsumerCtrl ds))"
    using demo_submits unfolding demo_fpcfg_def demo_tick_def fpi_config.simps tick_env.simps by blast
  obtain cp where cp: "getBatchBlocksFromPoller 0 [] (fi_poller ?fp) = (demo_gap, cp)"
    using getBatchBlocksFromPoller_eq [OF _ refl, of "fi_poller ?fp" 0 "[]"] by (simp add: demo_fpi_def)
  let ?fp' = "?fp\<lparr>fi_poller := cp, fi_em := ds_Em ds, fi_consumerCon := ds_ConsumerCtrl ds, fi_fpState := ds_State ds\<rparr>"
  have "submitter_of (?fp\<lparr>fi_poller := cp\<rparr>) = demo_ds []" by (simp add: submitter_of_def demo_fpi_def demo_ds_def)
  then have S: "submitBlocks plain_fp demo_sx demo_fpcfg demo_tick demo_gap (?fp\<lparr>fi_poller := cp\<rparr>) = (Ok (Some emptyTxResponse), ?fp')"
    using run by (simp add: submitBlocks_def on_submitter_def)
  have J: "IsJailed plain_fp (te_flt demo_tick) (?fp\<lparr>fi_poller := cp\<rparr>) = (Ok False, ?fp\<lparr>fi_poller := cp\<rparr>)"
    using demo_IsJailed [of "?fp\<lparr>fi_poller := cp\<rparr>"] by (simp add: demo_fpi_def demo_tick_def)
  have "fi_quit ?fp = None" "fc_BatchSubmissionSize demo_fpcfg = 0" "demo_gap \<noteq> []" by (simp_all add: demo_fpi_def demo_fpcfg_def demo_gap_def)
  then have "processAndSubmitSignatures plain_fp demo_sx demo_fpcfg demo_tick ?fp = (Ok (), ?fp')"
    using cp J S by (simp add: processAndSubmitSignatures_def sbind_def)
  then have "instance_step plain_fp demo_sx demo_rx demo_ext demo_bbn ?fp ?fp'"
    by (rule instance_step.vote) (auto simp: demo_tick_def demo_attempt_def)
  with m show ?thesis by (intro exI [of _ ?fp']) auto
qed

theorem instance_no_conflicting_votes_witness:
  "\<exists>fp' signer rand sig. (instance_step plain_fp demo_sx demo_rx demo_ext demo_bbn)\<^sup>*\<^sup>* (demo_fpi demo_fps demo_gap) fp' \<and>
     MsgAddFinalitySig signer ''pk'' 7 rand ''p'' ''h'' sig \<in> set (concat (fi_consumerCon fp')) \<and>
     (\<forall>signer' rand' proof' hash' sig'. MsgAddFinalitySig signer' ''pk'' 7 rand' proof' hash' sig' \<in> set (concat (fi_consumerCon fp')) \<longrightarrow>
       hash' = ''h'' \<and> sig' = sig)"
proof -
  let ?fp = "demo_fpi demo_fps demo_gap"
  obtain fp' signer rand sig where step: "instance_step plain_fp demo_sx demo_rx demo_ext demo_bbn ?fp fp'"
    and m: "MsgAddFinalitySig signer ''pk'' 7 rand ''p'' ''h'' sig \<in> set (concat (fi_consumerCon fp'))" using demo_instance_votes by blast
  have steps: "(instance_step plain_fp demo_sx demo_rx demo_ext demo_bbn)\<^sup>*\<^sup>* ?fp fp'" using step by (rule r_into_rtranclp)
  have "''h'' = hash' \<and> sig = sig'"
    if "MsgAddFinalitySig signer' ''pk'' 7 rand' proof' hash' sig' \<in> set (concat (fi_consumerCon fp'))" for signer' rand' proof' hash' sig'
    by (rule instance_no_conflicting_votes [OF demo.eots_codec_axioms _ _ _ steps])
      (use m that in \<open>simp_all add: demo_sx_def demo_fpi_def demo_bbn_def\<close>)
  with steps m show ?thesis by blast
qed

end
