(* ===== verification/FP_Config.thy ===== *)
theory FP_Config
  imports Complex_Main Instance_Behaviour Eots_Rpc
begin

text \<open>
  The configuration of the finality provider daemon and its validation (\<^verbatim>\<open>finality-provider/config/config.go\<close>,
  \<^verbatim>\<open>config/babylon.go\<close>), and what a validated configuration means for the start of an instance.
  Durations are nanoseconds. The gas adjustment, a floating point number, is a rational number: no infinity and no NaN.
\<close>

section \<open>Metrics\<close>

text \<open>Functions of other packages: address parsing.\<close>

record config_ext =
  cx_ParseIP :: "string \<Rightarrow> bool"
  cx_ResolveTCPAddr :: "string \<Rightarrow> unit go"
  cx_UrlParse :: "string \<Rightarrow> unit go"

definition metrics_Address :: "config_ext \<Rightarrow> MetricsConfig \<Rightarrow> string go" where
  "metrics_Address cx cfg = rbind (MetricsConfig_Validate (cx_ParseIP cx) cfg) (\<lambda>_. Ok (mc_Host cfg @ '':'' @ fmt_int (mc_Port cfg)))"

definition DefaultFpConfig :: MetricsConfig where
  "DefaultFpConfig = \<lparr>mc_Host = ''127.0.0.1'', mc_Port = 2112, mc_UpdateInterval = 100000000\<rparr>"

section \<open>Babylon client\<close>

record BBNConfig =
  bn_Key :: string
  bn_ChainID :: string
  bn_RPCAddr :: string
  bn_GRPCAddr :: string
  bn_AccountPrefix :: string
  bn_KeyringBackend :: string
  bn_GasAdjustment :: rat
  bn_GasPrices :: string
  bn_KeyDirectory :: string
  bn_Debug :: bool
  bn_Timeout :: int
  bn_BlockTimeout :: int
  bn_OutputFormat :: string
  bn_SignModeStr :: string
  bn_MaxRetriesBatchRemovingMsgs :: u64

text \<open>\<open>dc\<close>: the defaults of the Babylon client library.\<close>

definition DefaultBBNConfig :: "BBNConfig \<Rightarrow> BBNConfig" where
  "DefaultBBNConfig dc =
     \<lparr>bn_Key = bn_Key dc, bn_ChainID = bn_ChainID dc, bn_RPCAddr = bn_RPCAddr dc, bn_GRPCAddr = bn_GRPCAddr dc,
      bn_AccountPrefix = bn_AccountPrefix dc, bn_KeyringBackend = bn_KeyringBackend dc, bn_GasAdjustment = 3 / 2, bn_GasPrices = ''0.002ubbn'',
      bn_KeyDirectory = [], bn_Debug = bn_Debug dc, bn_Timeout = bn_Timeout dc, bn_BlockTimeout = 60000000000, bn_OutputFormat = ''text'',
      bn_SignModeStr = bn_SignModeStr dc, bn_MaxRetriesBatchRemovingMsgs = 0\<rparr>"

definition bbn_Validate :: "config_ext \<Rightarrow> BBNConfig \<Rightarrow> unit go" where
  "bbn_Validate cx cfg =
     rbind (wrap ''rpc-addr is not correctly formatted: '' (cx_UrlParse cx (bn_RPCAddr cfg))) (\<lambda>_.
     if bn_Timeout cfg \<le> 0 then Err (ErrText ''timeout must be positive'')
     else if bn_BlockTimeout cfg < 0 then Err (ErrText (''block-timeout can'' @ [CHR 0x27] @ ''t be negative''))
     else if bn_AccountPrefix cfg = [] then Err (ErrText ''account-prefix must not be empty'')
     else if bn_GasAdjustment cfg = 0 then Err (ErrText ''gas-adjustment must be greater than 0'')
     else if bn_GasPrices cfg = [] then Err (ErrText ''gas-prices must not be empty'')
     else Ok ())"

section \<open>The daemon\<close>

record FpConfig =
  cf_LogLevel :: string
  cf_NumPubRand :: u32
  cf_TimestampingDelayBlocks :: u32
  cf_MaxSubmissionRetries :: u32
  cf_EOTSManagerAddress :: string
  cf_HMACKey :: string
  cf_BatchSubmissionSize :: u32
  cf_RandomnessCommitInterval :: int
  cf_SubmissionRetryInterval :: int
  cf_SignatureSubmissionInterval :: int
  cf_PollerConfig :: "ChainPollerConfig option"
  cf_DatabaseConfig :: "DBConfig option"
  cf_BabylonConfig :: "BBNConfig option"
  cf_RPCListener :: string
  cf_Metrics :: "MetricsConfig option"
  cf_ContextSigningHeight :: u64
  cf_GRPCMaxContentLength :: int
  cf_AdvancedResetLastVotedHeight :: bool

definition resetCheck :: "FpConfig \<Rightarrow> ChainPollerConfig \<Rightarrow> unit go" where
  "resetCheck cfg poller =
     (if cf_AdvancedResetLastVotedHeight cfg
      then if pc_StaticChainScanningStartHeight poller = 0
        then Err (ErrText (''AdvancedResetLastVotedHeight requires StaticChainScanningStartHeight > 0, got: '' @
               fmt_u64 (pc_StaticChainScanningStartHeight poller)))
        else if pc_AutoChainScanningMode poller
        then Err (ErrText (''AdvancedResetLastVotedHeight cannot be used with AutoChainScanningMode; '' @
               ''set AutoChainScanningMode to false and configure StaticChainScanningStartHeight''))
        else Ok ()
      else Ok ())"

definition cfg_Validate :: "config_ext \<Rightarrow> FpConfig \<Rightarrow> unit go" where
  "cfg_Validate cx cfg =
     (if cf_EOTSManagerAddress cfg = [] then Err (ErrText ''EOTS manager address not specified'')
      else
        rbind (wrap (''invalid RPC listener address '' @ cf_RPCListener cfg @ '', '') (cx_ResolveTCPAddr cx (cf_RPCListener cfg))) (\<lambda>_.
        case cf_Metrics cfg of
          None \<Rightarrow> Err (ErrText ''empty metrics config'')
        | Some metrics \<Rightarrow>
            rbind (wrap ''invalid metrics config: '' (MetricsConfig_Validate (cx_ParseIP cx) metrics)) (\<lambda>_.
            case cf_PollerConfig cfg of
              None \<Rightarrow> Err (ErrText ''empty poller config'')
            | Some poller \<Rightarrow>
                rbind (wrap ''invalid poller config: '' (poller_Validate poller)) (\<lambda>_.
                case cf_BabylonConfig cfg of
                  None \<Rightarrow> Err (ErrText ''empty babylon config'')
                | Some babylon \<Rightarrow>
                    rbind (wrap ''invalid babylon config: '' (bbn_Validate cx babylon)) (\<lambda>_.
                    if cf_SignatureSubmissionInterval cfg \<le> 0
                    then Err (ErrText (''invalid signature submission interval: '' @ fmt_int (cf_SignatureSubmissionInterval cfg)))
                    else if cf_RandomnessCommitInterval cfg \<le> 0
                    then Err (ErrText (''invalid randomness commit interval: '' @ fmt_int (cf_RandomnessCommitInterval cfg)))
                    else if cf_SubmissionRetryInterval cfg \<le> 0
                    then Err (ErrText (''invalid submission retry interval: '' @ fmt_int (cf_SubmissionRetryInterval cfg)))
                    else if cf_BatchSubmissionSize cfg = 0
                    then Err (ErrText (''invalid batch submission size: '' @ fmt_nat (unat (cf_BatchSubmissionSize cfg))))
                    else if cf_GRPCMaxContentLength cfg \<le> 0
                    then Err (ErrText (''invalid max content length: '' @ fmt_int (cf_GRPCMaxContentLength cfg)))
                    else resetCheck cfg poller)))))"

definition DefaultConfigWithHome :: "config_ext \<Rightarrow> BBNConfig \<Rightarrow> int \<times> int \<Rightarrow> string \<Rightarrow> FpConfig go" where
  "DefaultConfigWithHome cx dc kd homePath =
     (let cfg = \<lparr>cf_LogLevel = ''debug'', cf_NumPubRand = 50000, cf_TimestampingDelayBlocks = 6000, cf_MaxSubmissionRetries = 20,
        cf_EOTSManagerAddress = ''127.0.0.1:12582'', cf_HMACKey = [], cf_BatchSubmissionSize = 1000, cf_RandomnessCommitInterval = 30000000000,
        cf_SubmissionRetryInterval = 1000000000, cf_SignatureSubmissionInterval = 1000000000, cf_PollerConfig = Some DefaultChainPollerConfig,
        cf_DatabaseConfig = Some (DefaultDBConfigWithHomePath kd homePath),
        cf_BabylonConfig = Some ((DefaultBBNConfig dc)\<lparr>bn_Key := ''finality-provider'', bn_KeyDirectory := homePath\<rparr>),
        cf_RPCListener = ''127.0.0.1:12581'', cf_Metrics = Some DefaultFpConfig, cf_ContextSigningHeight = 0,
        cf_GRPCMaxContentLength = 16 * 1024 * 1024, cf_AdvancedResetLastVotedHeight = False\<rparr> in
      rbind (must (cfg_Validate cx cfg)) (\<lambda>_. Ok cfg))"

text \<open>What an instance reads of the configuration; the daemon hands the settings of the submitter to its constructor.\<close>

definition NewDefaultFinalitySubmitterConfig :: "u32 \<Rightarrow> u64 \<Rightarrow> int \<Rightarrow> FinalitySubmitterConfig" where
  "NewDefaultFinalitySubmitterConfig maxSubmissionRetries contextSigningHeight submissionRetryInterval =
     \<lparr>fc_MaxSubmissionRetries = maxSubmissionRetries, fc_ContextSigningHeight = contextSigningHeight,
      fc_SubmissionRetryInterval = submissionRetryInterval\<rparr>"

definition instanceConfig :: "FpConfig \<Rightarrow> ChainPollerConfig \<Rightarrow> fpi_config" where
  "instanceConfig cfg poller = \<lparr>fc_BatchSubmissionSize = cf_BatchSubmissionSize cfg,
     fc_AdvancedResetLastVotedHeight = cf_AdvancedResetLastVotedHeight cfg, fc_PollerConfig = poller,
     fc_Submitter = NewDefaultFinalitySubmitterConfig (cf_MaxSubmissionRetries cfg) (cf_ContextSigningHeight cfg)
       (cf_SubmissionRetryInterval cfg)\<rparr>"

definition LoadConfig :: "config_ext \<Rightarrow> (string \<Rightarrow> bool) \<Rightarrow> (string \<Rightarrow> FpConfig go) \<Rightarrow> string \<Rightarrow> FpConfig go" where
  "LoadConfig cx fileExists parse homePath =
     (let cfgFile = CfgFile homePath in
      if \<not> fileExists cfgFile then Err (ErrText (''specified config file does not exist in '' @ cfgFile))
      else
        rbind (wrap ''failed to parse config file: '' (parse cfgFile)) (\<lambda>cfg.
        rbind (cfg_Validate cx cfg) (\<lambda>_. Ok cfg)))"

section \<open>Properties\<close>

lemma cfg_Validate_Ok:
  assumes "cfg_Validate cx cfg = Ok u"
  shows "\<exists>poller babylon metrics. cf_PollerConfig cfg = Some poller \<and> cf_BabylonConfig cfg = Some babylon \<and> cf_Metrics cfg = Some metrics \<and>
    poller_Validate poller = Ok () \<and> bbn_Validate cx babylon = Ok () \<and> MetricsConfig_Validate (cx_ParseIP cx) metrics = Ok () \<and>
    cf_BatchSubmissionSize cfg \<noteq> 0 \<and> 0 < cf_SubmissionRetryInterval cfg \<and> resetCheck cfg poller = Ok ()"
  using assms by (auto simp: cfg_Validate_def go_simps split: if_splits option.splits)

text \<open>The default configuration passes its own validation, so that building it does not panic.\<close>

lemma DefaultConfigWithHome_valid:
  assumes "cx_ParseIP cx ''127.0.0.1''" and "cx_ResolveTCPAddr cx ''127.0.0.1:12581'' = Ok ()" and "cx_UrlParse cx (bn_RPCAddr dc) = Ok ()"
    and "0 < bn_Timeout dc" and "bn_AccountPrefix dc \<noteq> []"
  shows "\<exists>cfg. DefaultConfigWithHome cx dc kd homePath = Ok cfg \<and> cfg_Validate cx cfg = Ok () \<and> \<not> cf_AdvancedResetLastVotedHeight cfg"
  using assms by (simp add: DefaultConfigWithHome_def Let_def cfg_Validate_def MetricsConfig_Validate_def DefaultFpConfig_def poller_Validate_def
      DefaultChainPollerConfig_def bbn_Validate_def DefaultBBNConfig_def resetCheck_def)

text \<open>A configuration that loads is the one in the file of the home directory, and it is valid.\<close>

lemma LoadConfig_Ok:
  "LoadConfig cx fileExists parse homePath = Ok cfg \<longleftrightarrow>
     fileExists (CfgFile homePath) \<and> parse (CfgFile homePath) = Ok cfg \<and> cfg_Validate cx cfg = Ok ()"
  by (auto simp: LoadConfig_def Let_def go_simps)

text \<open>C33. With a configuration that passes validation, resetting the last voted height at the start never wraps around: the
  poller starts at the configured height, and the last voted height is the one just below it.\<close>

theorem validated_reset_no_wrap:
  assumes "cfg_Validate cx cfg = Ok ()" and "cf_AdvancedResetLastVotedHeight cfg" and "cf_PollerConfig cfg = Some poller"
    and "fpi_Start x flt toBTCPK hex cc (instanceConfig cfg poller) fp = (Ok (), fp')"
  shows "cp_nextHeight (fi_poller fp') = pc_StaticChainScanningStartHeight poller \<and>
    unat (GetLastVotedHeight (fi_fpState fp')) + 1 = unat (pc_StaticChainScanningStartHeight poller)"
proof -
  have cfg: "pc_StaticChainScanningStartHeight poller \<noteq> 0" "\<not> pc_AutoChainScanningMode poller"
    using cfg_Validate_Ok [OF assms(1)] assms(2,3) by (auto simp: resetCheck_def split: if_splits)
  have "cp_nextHeight (fi_poller fp') = pc_StaticChainScanningStartHeight poller \<and>
      GetLastVotedHeight (fi_fpState fp') = pc_StaticChainScanningStartHeight poller - 1"
    using assms(2,4) cfg(2) unfolding fpi_Start_def fpi_DetermineStartHeight_def DetermineStartHeight_def
    by (auto simp: instanceConfig_def wrapS_eq on_fpi_eq SetStartHeight_def go_simps elim!: sbindE split: if_splits
        dest!: SetLastVotedHeight_cache)
  with cfg(1) show ?thesis by (simp add: unat_minus_one) (metis Suc_pred unat_gt_0)
qed

definition demo_cx :: config_ext where
  "demo_cx = \<lparr>cx_ParseIP = (\<lambda>_. True), cx_ResolveTCPAddr = (\<lambda>_. Ok ()), cx_UrlParse = (\<lambda>_. Ok ())\<rparr>"

definition demo_poller :: ChainPollerConfig where
  "demo_poller = DefaultChainPollerConfig\<lparr>pc_AutoChainScanningMode := False\<rparr>"

definition demo_bbn :: BBNConfig where
  "demo_bbn = \<lparr>bn_Key = [], bn_ChainID = [], bn_RPCAddr = [], bn_GRPCAddr = [], bn_AccountPrefix = ''bbn'', bn_KeyringBackend = [],
     bn_GasAdjustment = 1, bn_GasPrices = [], bn_KeyDirectory = [], bn_Debug = False, bn_Timeout = 1, bn_BlockTimeout = 1, bn_OutputFormat = [],
     bn_SignModeStr = [], bn_MaxRetriesBatchRemovingMsgs = 0\<rparr>"

lemma demo_cfg: "\<exists>cfg. cfg_Validate demo_cx cfg = Ok () \<and> cf_AdvancedResetLastVotedHeight cfg \<and> cf_PollerConfig cfg = Some demo_poller"
proof -
  obtain cfg where cfg: "DefaultConfigWithHome demo_cx demo_bbn (0, 0) [] = Ok cfg" "cfg_Validate demo_cx cfg = Ok ()"
    using DefaultConfigWithHome_valid [of demo_cx demo_bbn "(0, 0)" "[]"] by (auto simp: demo_cx_def demo_bbn_def)
  let ?cfg = "cfg\<lparr>cf_AdvancedResetLastVotedHeight := True, cf_PollerConfig := Some demo_poller\<rparr>"
  have "cfg_Validate demo_cx ?cfg = Ok ()"
    using cfg(2) by (auto simp: cfg_Validate_def go_simps resetCheck_def demo_poller_def poller_Validate_def DefaultChainPollerConfig_def
        split: if_splits option.splits)
  then show ?thesis by (intro exI [of _ ?cfg]) simp
qed

theorem validated_reset_no_wrap_witness:
  "\<exists>cfg fp'. fpi_Start plain_fp (\<lambda>_. NoFault) Ok id (\<lambda>_ _. demo_cc) (instanceConfig cfg demo_poller)
       ((demo_fpi demo_fps [])\<lparr>fi_poller := NewChainPoller demo_poller\<rparr>) = (Ok (), fp') \<and>
     cfg_Validate demo_cx cfg = Ok () \<and> cf_AdvancedResetLastVotedHeight cfg \<and> cf_PollerConfig cfg = Some demo_poller \<and>
     cp_nextHeight (fi_poller fp') = 1 \<and> GetLastVotedHeight (fi_fpState fp') = 0"
proof -
  obtain cfg where cfg: "cfg_Validate demo_cx cfg = Ok ()" "cf_AdvancedResetLastVotedHeight cfg" "cf_PollerConfig cfg = Some demo_poller"
    using demo_cfg by blast
  let ?fp = "(demo_fpi demo_fps [])\<lparr>fi_poller := NewChainPoller demo_poller\<rparr>"
  have J: "IsJailed plain_fp (\<lambda>_. NoFault) (?fp\<lparr>fi_isStarted := True\<rparr>) = (Ok False, ?fp\<lparr>fi_isStarted := True\<rparr>)"
    by (rule demo_IsJailed) (simp add: demo_fpi_def)
  obtain db where db: "SetFpLastVotedHeight plain_fp NoFault ''pk'' 0 demoFpStore = (Ok (), db)" using demo_set_height by blast
  have "\<exists>fp'. fpi_Start plain_fp (\<lambda>_. NoFault) Ok id (\<lambda>_ _. demo_cc) (instanceConfig cfg demo_poller) ?fp = (Ok (), fp')"
    using J db cfg(2)
    by (simp add: fpi_Start_def sbind_def fpi_DetermineStartHeight_def DetermineStartHeight_def instanceConfig_def demo_poller_def wrapS_def
        on_poller_def SetStartHeight_def NewChainPoller_def demo_fpi_def DefaultChainPollerConfig_def on_fpState_def SetLastVotedHeight_def
        on_store_def demo_fps_def NewFpState_def)
  then obtain fp' where run: "fpi_Start plain_fp (\<lambda>_. NoFault) Ok id (\<lambda>_ _. demo_cc) (instanceConfig cfg demo_poller) ?fp = (Ok (), fp')" ..
  from validated_reset_no_wrap [OF cfg run]
  have "cp_nextHeight (fi_poller fp') = 1 \<and> GetLastVotedHeight (fi_fpState fp') = 0"
    by (simp add: demo_poller_def DefaultChainPollerConfig_def unat_eq_0)
  with run cfg show ?thesis by blast
qed

end
