(* ===== verification/FP_Files.thy ===== *)
theory FP_Files
  imports FP_Config
begin

text \<open>
  What both daemons do with the file system when they are set up: \<^verbatim>\<open>FileExists\<close> and \<^verbatim>\<open>MakeDirectory\<close> of
  \<^verbatim>\<open>util/path.go\<close>, the loggers of \<^verbatim>\<open>log/log.go\<close>, and the \<^verbatim>\<open>init\<close> commands (\<^verbatim>\<open>fpd/daemon/init.go\<close>,
  \<^verbatim>\<open>eotsd/daemon/init.go\<close>), and what the two servers share. The writer and the parser of configuration files come from another package: arguments, with
  the law that a written configuration is read back.
\<close>

section \<open>The file system\<close>

record filesystem =
  fs_dirs :: "string list"
  fs_files :: "string \<rightharpoonup> string"

text \<open>What the operating system answers: to \<^verbatim>\<open>MkdirAll\<close>, an error with the path it is about when something that is no directory
  is there; to \<^verbatim>\<open>Readlink\<close>; to a write.\<close>

datatype mkdir_result = MkdirOk | MkdirErr goerror "string option"

record os_env =
  os_Stat :: "string \<Rightarrow> bool"
  os_MkdirAll :: "string \<Rightarrow> mkdir_result"
  os_Readlink :: "string \<Rightarrow> string option"
  os_Write :: "string \<Rightarrow> unit go"
  os_OpenLog :: "string \<Rightarrow> unit go"
  os_Getwd :: "string go"
  os_UserHome :: "string option"
  os_Getenv :: "string \<Rightarrow> string"

text \<open>\<open>os_Stat\<close>: a failure that does not say that the file is missing, which counts as existing.\<close>

definition FileExists :: "os_env \<Rightarrow> filesystem \<Rightarrow> string \<Rightarrow> bool" where
  "FileExists os fs name \<longleftrightarrow> name \<in> set (fs_dirs fs) \<or> fs_files fs name \<noteq> None \<or> os_Stat os name"

definition MakeDirectory :: "os_env \<Rightarrow> string \<Rightarrow> (filesystem, unit) cmd" where
  "MakeDirectory os dir fs =
     (case os_MkdirAll os dir of
        MkdirOk \<Rightarrow> (Ok (), fs\<lparr>fs_dirs := dir # fs_dirs fs\<rparr>)
      | MkdirErr err exist \<Rightarrow>
          (Err (Wrapf (''failed to create dir '' @ dir @ '': '')
             (case exist of
                None \<Rightarrow> err
              | Some p \<Rightarrow> (case os_Readlink os p of
                  None \<Rightarrow> err
                | Some l \<Rightarrow> ErrText (''is symlink '' @ p @ '' -> '' @ l @ '' mounted?'')))), fs))"

definition writeFile :: "os_env \<Rightarrow> string \<Rightarrow> string \<Rightarrow> (filesystem, unit) cmd" where
  "writeFile os path content fs =
     (case os_Write os path of Ok _ \<Rightarrow> (Ok (), fs\<lparr>fs_files := (fs_files fs)(path \<mapsto> content)\<rparr>) | Err e \<Rightarrow> (Err e, fs) | Crash c \<Rightarrow> (Crash c, fs))"

definition readFile :: "filesystem \<Rightarrow> string \<Rightarrow> string go" where
  "readFile fs path = (case fs_files fs path of None \<Rightarrow> Err (ErrText (''open '' @ path @ '': no such file or directory'')) | Some c \<Rightarrow> Ok c)"

section \<open>Loggers\<close>

datatype log_level = DebugLevel | InfoLevel | WarnLevel | ErrorLevel | PanicLevel | FatalLevel

definition lower :: "char \<Rightarrow> char" where
  "lower c = (let n = (of_char c :: nat) in if 65 \<le> n \<and> n \<le> 90 then char_of (n + 32) else c)"

definition NewRootLogger :: "string \<Rightarrow> string \<Rightarrow> log_level go" where
  "NewRootLogger format level =
     (if format \<notin> {''json'', ''auto'', ''console'', ''logfmt''} then Err (ErrText (''unrecognized log format '' @ [CHR 0x22] @ format @ [CHR 0x22]))
      else
        let l = map lower level in
        if l = ''panic'' then Ok PanicLevel
        else if l = ''fatal'' then Ok FatalLevel
        else if l = ''error'' then Ok ErrorLevel
        else if l = ''warn'' \<or> l = ''warning'' then Ok WarnLevel
        else if l = ''info'' then Ok InfoLevel
        else if l = ''debug'' then Ok DebugLevel
        else Err (ErrText (''unsupported log level: '' @ level)))"

definition filepath_Dir :: "string \<Rightarrow> string" where
  "filepath_Dir p = path_Clean (rev (dropWhile (\<lambda>c. c \<noteq> CHR ''/'') (rev p)))"

definition NewRootLoggerWithFile :: "os_env \<Rightarrow> string \<Rightarrow> string \<Rightarrow> (filesystem, log_level) cmd" where
  "NewRootLoggerWithFile os logFile level =
     sbind (wrapS ''failed to create log directory: '' (MakeDirectory os (filepath_Dir logFile))) (\<lambda>_.
     sbind (liftR (wrap ''failed to open log file: '' (os_OpenLog os logFile))) (\<lambda>_.
     liftR (NewRootLogger ''console'' level)))"

section \<open>The init commands\<close>

text \<open>\<open>home\<close>: the home directory of the command line; \<open>ini\<close>: the text of a configuration.\<close>

definition runInitCmd ::
  "os_env \<Rightarrow> config_ext \<Rightarrow> BBNConfig \<Rightarrow> int \<times> int \<Rightarrow> (FpConfig \<Rightarrow> string) \<Rightarrow> string \<Rightarrow> bool \<Rightarrow> (filesystem, unit) cmd" where
  "runInitCmd os cx dc kd ini home force =
     sbind (liftR (wrap ''failed to get absolute path: '' (filepath_Abs (os_Getwd os) home))) (\<lambda>homePath.
     let homePath = CleanAndExpandPath (os_UserHome os) (os_Getenv os) homePath in
     (\<lambda>fs. if FileExists os fs homePath \<and> \<not> force then (Err (ErrText (''home path '' @ homePath @ '' already exists'')), fs)
       else
         sbind (wrapS (''failed to make directory '' @ homePath @ '': '') (MakeDirectory os homePath)) (\<lambda>_.
         let logDir = LogDir homePath in
         sbind (wrapS (''failed to make log directory '' @ logDir @ '': '') (MakeDirectory os logDir)) (\<lambda>_.
         sbind (liftR (DefaultConfigWithHome cx dc kd homePath)) (\<lambda>defaultConfig.
         wrapS ''failed to write config file: '' (writeFile os (CfgFile homePath) (ini defaultConfig))))) fs))"

text \<open>\<open>dir\<close>: the home directory of a manager that is given none.\<close>

definition initHome ::
  "os_env \<Rightarrow> config_ext \<Rightarrow> string \<Rightarrow> int \<times> int \<Rightarrow> (EotsConfig \<Rightarrow> string) \<Rightarrow> string \<Rightarrow> bool \<Rightarrow> (filesystem, unit) cmd" where
  "initHome os cx dir kd ini home force =
     sbind (liftR (wrap ''failed to get home path: '' (getCleanPath (os_UserHome os) (os_Getenv os) (os_Getwd os) home))) (\<lambda>homePath.
     (\<lambda>fs. if FileExists os fs homePath \<and> \<not> force then (Err (ErrText (''home path '' @ homePath @ '' already exists'')), fs)
       else
         sbind (wrapS ''failed to create home directory: '' (MakeDirectory os homePath)) (\<lambda>_.
         sbind (wrapS ''failed to create log directory: '' (MakeDirectory os (eots_LogDir homePath))) (\<lambda>_.
         let dataDir = eots_DataDir homePath in
         sbind (wrapS ''failed to create data directory: '' (MakeDirectory os dataDir)) (\<lambda>_.
         sbind (liftR (DefaultConfigWithHomePath (cx_ResolveTCPAddr cx) (cx_ParseIP cx) kd dir)) (\<lambda>defaultConfig.
         let defaultConfig = defaultConfig\<lparr>ec_DatabaseConfig := map_option (\<lambda>d. d\<lparr>dbc_DBPath := dataDir\<rparr>) (ec_DatabaseConfig defaultConfig)\<rparr> in
         wrapS ''failed to write config file: '' (writeFile os (eots_CfgFile homePath) (ini defaultConfig)))))) fs))"

section \<open>Serving\<close>

text \<open>The requests and ticks until the context ends, in their order. The answer to a request goes to its client; a panic
  ends the process.\<close>

fun serve :: "('a, unit) cmd list \<Rightarrow> ('a, unit) cmd" where
  "serve [] app = (Ok (), app)"
| "serve (e # es) app = (case e app of (Crash c, app) \<Rightarrow> (Crash c, app) | (_, app) \<Rightarrow> serve es app)"

record server_env =
  ve_Listen :: "string \<Rightarrow> unit go"
  ve_Register :: "unit go"
  ve_Close :: "goerror option"

section \<open>Properties\<close>

lemma serve_preserves: "(\<And>e. e \<in> set events \<Longrightarrow> preserves P e) \<Longrightarrow> preserves P (serve events)"
proof (induction events)
  case (Cons e es)
  from Cons.prems have "preserves P e" by simp
  moreover have "preserves P (serve es)" by (rule Cons.IH) (use Cons.prems in simp)
  ultimately show ?case by (auto simp: preserves_def split: prod.splits go.splits) 
qed (simp add: preserves_def)


lemma MakeDirectory_files: "MakeDirectory os dir fs = (r, fs') \<Longrightarrow> fs_files fs' = fs_files fs"
  by (auto simp: MakeDirectory_def split: mkdir_result.splits)

lemma writeFile_Ok: "writeFile os path c fs = (Ok u, fs') \<Longrightarrow> fs_files fs' = (fs_files fs)(path \<mapsto> c)"
  by (auto simp: writeFile_def split: go.splits)

lemma readFile_written: "fs_files fs path = Some c \<Longrightarrow> readFile fs path = Ok c \<and> FileExists os fs path"
  by (simp add: readFile_def FileExists_def)

text \<open>Every level the configuration offers is a level of the logger but one: a daemon configured with \<^verbatim>\<open>trace\<close> does not start.\<close>

lemma NewRootLogger_levels:
  "(\<forall>level \<in> {''debug'', ''info'', ''warn'', ''error'', ''fatal''}. \<exists>l. NewRootLogger ''console'' level = Ok l) \<and>
   NewRootLogger ''console'' ''trace'' = Err (ErrText ''unsupported log level: trace'')"
  by (simp add: NewRootLogger_def lower_def Let_def)

lemma DefaultConfigWithHome_Ok:
  "DefaultConfigWithHome cx dc kd homePath = Ok cfg \<Longrightarrow> cfg_Validate cx cfg = Ok () \<and>
     cf_DatabaseConfig cfg = Some (DefaultDBConfigWithHomePath kd homePath) \<and> map_option bn_KeyDirectory (cf_BabylonConfig cfg) = Some homePath"
  by (auto simp: DefaultConfigWithHome_def Let_def go_simps)

lemma initHome_config:
  assumes "DefaultConfigWithHomePath resolve parseIP kd dir = Ok cfg"
  shows "EotsConfig_Validate resolve parseIP cfg = Ok () \<and> ec_DatabaseConfig cfg = Some (eots_DefaultDBConfigWithHomePath kd dir)"
  using assms by (auto simp: DefaultConfigWithHomePath_def DefaultConfigWithHomePathAndPorts_def Let_def go_simps)

lemma EotsConfig_Validate_db [simp]: "EotsConfig_Validate resolve parseIP (cfg\<lparr>ec_DatabaseConfig := d\<rparr>) = EotsConfig_Validate resolve parseIP cfg"
  by (simp add: EotsConfig_Validate_def cong: go.case_cong option.case_cong if_cong)

lemma initHome_then_load:
  assumes "\<And>c. parse (ini c) = Ok c" and "initHome os cx dir kd ini home force fs = (Ok (), fs')"
  shows "\<exists>h cfg d. getCleanPath (os_UserHome os) (os_Getenv os) (os_Getwd os) home = Ok h \<and>
    eots_LoadConfig (cx_ResolveTCPAddr cx) (cx_ParseIP cx) (FileExists os fs') (\<lambda>p. rbind (readFile fs' p) parse) h = Ok cfg \<and>
    ec_DatabaseConfig cfg = Some d \<and> dbc_DBPath d = eots_DataDir h"
proof -
  from assms(2) obtain h cfg where h: "getCleanPath (os_UserHome os) (os_Getenv os) (os_Getwd os) home = Ok h"
    and c: "DefaultConfigWithHomePath (cx_ResolveTCPAddr cx) (cx_ParseIP cx) kd dir = Ok cfg"
    and f: "fs_files fs' (eots_CfgFile h) =
      Some (ini (cfg\<lparr>ec_DatabaseConfig := map_option (\<lambda>d. d\<lparr>dbc_DBPath := eots_DataDir h\<rparr>) (ec_DatabaseConfig cfg)\<rparr>))"
    by (auto simp: initHome_def liftR_eq wrapS_eq go_simps Let_def elim!: sbindE split: if_splits dest!: writeFile_Ok)
  from initHome_config [OF c] readFile_written [OF f, of os] assms(1) h show ?thesis
    by (auto simp: eots_LoadConfig_def Let_def)
qed

text \<open>A daemon set up by its init command can load its configuration: after the command succeeded, the file in the home
  directory it was given is read back as the default configuration for this directory, it passes validation, and its database and
  its keys lie below the directory, provided the parser reads what the writer wrote.\<close>

theorem init_then_load:
  assumes "\<And>h c. DefaultConfigWithHome cx dc kd h = Ok c \<Longrightarrow> parse (ini c) = Ok c" and "runInitCmd os cx dc kd ini home force fs = (Ok (), fs')"
  shows "\<exists>h cfg d b. getCleanPath (os_UserHome os) (os_Getenv os) (os_Getwd os) home = Ok h \<and>
    LoadConfig cx (FileExists os fs') (\<lambda>p. rbind (readFile fs' p) parse) h = Ok cfg \<and> DefaultConfigWithHome cx dc kd h = Ok cfg \<and>
    cf_DatabaseConfig cfg = Some d \<and> dbc_DBPath d = DataDir h \<and> cf_BabylonConfig cfg = Some b \<and> bn_KeyDirectory b = h"
proof -
  from assms(2) obtain h cfg where h: "getCleanPath (os_UserHome os) (os_Getenv os) (os_Getwd os) home = Ok h"
    and c: "DefaultConfigWithHome cx dc kd h = Ok cfg" and f: "fs_files fs' (CfgFile h) = Some (ini cfg)"
    by (auto simp: runInitCmd_def getCleanPath_def liftR_eq wrapS_eq go_simps Let_def elim!: sbindE split: if_splits dest!: writeFile_Ok)
  from DefaultConfigWithHome_Ok [OF c] readFile_written [OF f, of os] assms(1) h c show ?thesis
    by (intro exI [of _ h] exI [of _ cfg]) (auto simp: LoadConfig_Ok DefaultDBConfigWithHomePath_def)
qed

definition demo_os :: os_env where
  "demo_os = \<lparr>os_Stat = (\<lambda>_. False), os_MkdirAll = (\<lambda>_. MkdirOk), os_Readlink = (\<lambda>_. None), os_Write = (\<lambda>_. Ok ()), os_OpenLog = (\<lambda>_. Ok ()),
     os_Getwd = Ok ''/srv'', os_UserHome = None, os_Getenv = (\<lambda>_. [])\<rparr>"

theorem init_then_load_witness:
  "\<exists>fs' cfg d. runInitCmd demo_os demo_cx demo_bbn (0, 0) (\<lambda>c. bn_KeyDirectory (the (cf_BabylonConfig c))) ''fpd'' False \<lparr>fs_dirs = [], fs_files = Map.empty\<rparr> = (Ok (), fs') \<and>
     LoadConfig demo_cx (FileExists demo_os fs') (\<lambda>p. rbind (readFile fs' p) (DefaultConfigWithHome demo_cx demo_bbn (0, 0))) ''/srv/fpd'' = Ok cfg \<and>
     cf_DatabaseConfig cfg = Some d \<and> dbc_DBPath d = ''/srv/fpd/data''"
proof -
  let ?ini = "\<lambda>c. bn_KeyDirectory (the (cf_BabylonConfig c))"
  let ?parse = "DefaultConfigWithHome demo_cx demo_bbn (0, 0)"
  have rt: "?parse (?ini c) = Ok c" if "?parse h = Ok c" for h c using that DefaultConfigWithHome_Ok [OF that] by auto
  have home: "filepath_Abs (Ok ''/srv'') ''fpd'' = Ok ''/srv/fpd''" "CleanAndExpandPath None (\<lambda>_. []) ''/srv/fpd'' = ''/srv/fpd''"
    "DataDir ''/srv/fpd'' = ''/srv/fpd/data''"
    by (simp_all add: filepath_Abs_def isRooted_def filepath_Join_def path_Clean_def CleanAndExpandPath_def DataDir_def)
  obtain c where "?parse ''/srv/fpd'' = Ok c"
    using DefaultConfigWithHome_valid [of demo_cx demo_bbn "(0, 0)" "''/srv/fpd''"] by (auto simp: demo_cx_def demo_bbn_def)
  then have "\<exists>fs'. runInitCmd demo_os demo_cx demo_bbn (0, 0) ?ini ''fpd'' False \<lparr>fs_dirs = [], fs_files = Map.empty\<rparr> = (Ok (), fs')"
    by (simp add: runInitCmd_def demo_os_def home sbind_def liftR_def Let_def wrapS_def MakeDirectory_def writeFile_def FileExists_def)
  then obtain fs' where run: "runInitCmd demo_os demo_cx demo_bbn (0, 0) ?ini ''fpd'' False \<lparr>fs_dirs = [], fs_files = Map.empty\<rparr> = (Ok (), fs')" ..
  have "getCleanPath (os_UserHome demo_os) (os_Getenv demo_os) (os_Getwd demo_os) ''fpd'' = Ok ''/srv/fpd''"
    by (simp add: demo_os_def getCleanPath_def home)
  with init_then_load [where parse = ?parse and ini = ?ini, OF _ run] rt home(3) run show ?thesis by auto
qed

end
