(* ===== verification/Go_Strings.thy ===== *)
theory Go_Strings
  imports FP_Prelude
begin

text \<open>
  Numbers and bytes as text, as Go's \<^verbatim>\<open>encoding/hex\<close> and \<^verbatim>\<open>strconv\<close> read them: the commands take public keys, hashes and heights
  from the command line. What the formatting functions print is read back.
\<close>

section \<open>Hexadecimal\<close>

definition hexVal :: "char \<Rightarrow> nat option" where
  "hexVal c = (let n = of_char c in
     if 48 \<le> n \<and> n \<le> 57 then Some (n - 48)
     else if 97 \<le> n \<and> n \<le> 102 then Some (n - 87)
     else if 65 \<le> n \<and> n \<le> 70 then Some (n - 55)
     else None)"

text \<open>The error names the byte, and shows it when it is a printable ASCII character.\<close>

definition invalidByte :: "char \<Rightarrow> goerror" where
  "invalidByte c =
     (let n = of_char c; digit = (\<lambda>d :: nat. if d < 10 then char_of (48 + d) else char_of (55 + d)) in
      ErrText (''encoding/hex: invalid byte: U+00'' @ [digit (n div 16), digit (n mod 16)] @
        (if 32 \<le> n \<and> n < 127 then '' '' @ [CHR 0x27, c, CHR 0x27] else [])))"

fun hex_DecodeString :: "string \<Rightarrow> bytes go" where
  "hex_DecodeString [] = Ok []"
| "hex_DecodeString [p] = (case hexVal p of None \<Rightarrow> Err (invalidByte p) | Some _ \<Rightarrow> Err (ErrText ''encoding/hex: odd length hex string''))"
| "hex_DecodeString (p # q # s) =
     (case hexVal p of
        None \<Rightarrow> Err (invalidByte p)
      | Some a \<Rightarrow> (case hexVal q of
          None \<Rightarrow> Err (invalidByte q)
        | Some b \<Rightarrow> rbind (hex_DecodeString s) (\<lambda>bs. Ok (char_of (16 * a + b) # bs))))"

lemma hexVal_digit: "n < 16 \<Longrightarrow> hexVal (hex_digit n) = Some n"
  by (auto simp: hexVal_def hex_digit_def Let_def)

lemma hex_round_trip: "hex_DecodeString (fmt_hex b) = Ok b"
proof (induction b)
  case (Cons c b)
  have "of_char c < (256 :: nat)" by (simp add: nat_of_char_less_256)
  then have "hexVal (hex_digit (of_char c div 16)) = Some (of_char c div 16)" "hexVal (hex_digit (of_char c mod 16)) = Some (of_char c mod 16)"
    by (simp_all add: hexVal_digit less_mult_imp_div_less)
  moreover have "16 * (of_char c div 16) + of_char c mod 16 = (of_char c :: nat)" by simp
  moreover have "fmt_hex (c # b) = hex_digit (of_char c div 16) # hex_digit (of_char c mod 16) # fmt_hex b" by (simp add: fmt_hex_def)
  ultimately show ?case using Cons by simp
qed (simp add: fmt_hex_def)

section \<open>Decimal\<close>

definition decVal :: "char \<Rightarrow> nat option" where
  "decVal c = (let n = of_char c in if 48 \<le> n \<and> n \<le> 57 then Some (n - 48) else None)"

fun decVals :: "nat \<Rightarrow> string \<Rightarrow> nat option" where
  "decVals acc [] = Some acc"
| "decVals acc (c # cs) = (case decVal c of None \<Rightarrow> None | Some d \<Rightarrow> decVals (10 * acc + d) cs)"

definition numError :: "string \<Rightarrow> string \<Rightarrow> goerror" where
  "numError s reason = ErrText (''strconv.ParseUint: parsing '' @ [CHR 0x22] @ s @ [CHR 0x22] @ '': '' @ reason)"

text \<open>Base 10, 64 bits; a digit that is none is a syntax error only when the number does not overflow before it.\<close>

fun uintDigits :: "string \<Rightarrow> nat \<Rightarrow> string \<Rightarrow> u64 go" where
  "uintDigits s acc [] = Ok (of_nat acc)"
| "uintDigits s acc (c # cs) =
     (case decVal c of
        None \<Rightarrow> Err (numError s ''invalid syntax'')
      | Some d \<Rightarrow> if 2 ^ 64 \<le> 10 * acc + d then Err (numError s ''value out of range'') else uintDigits s (10 * acc + d) cs)"

definition ParseUint64 :: "string \<Rightarrow> u64 go" where
  "ParseUint64 s = (if s = [] then Err (numError s ''invalid syntax'') else uintDigits s 0 s)"

lemma decVals_append: "decVals acc (xs @ ys) = (case decVals acc xs of None \<Rightarrow> None | Some a \<Rightarrow> decVals a ys)"
  by (induction xs arbitrary: acc) (auto split: option.splits)

lemma decVal_digit: "d < 10 \<Longrightarrow> decVal (char_of (48 + d)) = Some d"
  by (simp add: decVal_def Let_def)

lemma decVals_fmt: "decVals 0 (fmt_nat n) = Some n"
proof (induction n rule: fmt_nat.induct)
  case (1 n)
  then show ?case by (subst fmt_nat.simps) (simp add: decVals_append decVal_digit)
qed

lemma decVals_bound: "decVals acc s = Some n \<Longrightarrow> acc \<le> n"
  by (induction s arbitrary: acc) (force split: option.splits)+

lemma uintDigits_value: "decVals acc cs = Some n \<Longrightarrow> n < 2 ^ 64 \<Longrightarrow> uintDigits s acc cs = Ok (of_nat n)"
proof (induction cs arbitrary: acc)
  case (Cons c cs)
  then obtain d where d: "decVal c = Some d" "decVals (10 * acc + d) cs = Some n" by (auto split: option.splits)
  with decVals_bound [OF d(2)] Cons show ?case by simp
qed simp

lemma ParseUint64_round_trip: "ParseUint64 (fmt_u64 h) = Ok h"
proof -
  have "fmt_nat n \<noteq> []" for n by (subst fmt_nat.simps) simp
  moreover have "unat h < 2 ^ 64" using unsigned_less [of h] by simp
  ultimately show ?thesis using uintDigits_value [OF decVals_fmt, of "unat h" "fmt_u64 h"] by (simp add: ParseUint64_def fmt_u64_def)
qed

end
