(* ===== verification/Eots_Server.thy ===== *)
theory Eots_Server
  imports Eots_Tools FP_Files Go_Strings
begin

text \<open>
  The process of the EOTS manager: its server (\<^verbatim>\<open>eotsmanager/service/server.go\<close>), the \<^verbatim>\<open>start\<close> command
  (\<^verbatim>\<open>eotsd/daemon/start.go\<close>), and the commands that call a running manager over gRPC: \<^verbatim>\<open>unlock\<close> (\<^verbatim>\<open>unlock.go\<close>) and
  \<^verbatim>\<open>backup\<close> (\<^verbatim>\<open>backup.go\<close>). A call passes the client's interceptor, the transport and the server's interceptor; the transport's own
  headers and the form errors take on the wire are arguments.
\<close>

section \<open>The server\<close>

record ('kr, 'sk) eots_server =
  ev_started :: u32
  ev_cfg :: EotsConfig
  ev_em :: "('kr, 'sk) LocalEOTSManager"

definition NewEOTSManagerServer :: "EotsConfig \<Rightarrow> ('kr, 'sk) LocalEOTSManager \<Rightarrow> ('kr, 'sk) eots_server" where
  "NewEOTSManagerServer cfg em = \<lparr>ev_started = 0, ev_cfg = cfg, ev_em = em\<rparr>"

text \<open>The requests are calls that reached a handler or an interceptor; the deferred calls close the database last.\<close>

definition eots_RunUntilShutdown ::
  "config_ext \<Rightarrow> server_env \<Rightarrow> (('kr, 'sk) LocalEOTSManager, unit) cmd list \<Rightarrow> (('kr, 'sk) eots_server, unit) cmd" where
  "eots_RunUntilShutdown cx ve requests s =
     (let s = s\<lparr>ev_started := ev_started s + 1\<rparr>;
          shutdown = (\<lambda>em. s\<lparr>ev_em := em\<lparr>lm_es := snd (kv_close (ve_Close ve) (lm_es em))\<rparr>\<rparr>) in
      if ev_started s \<noteq> 1 then (Ok (), s)
      else case rbind (deref (ec_Metrics (ev_cfg s))) (\<lambda>m. wrap ''failed to get prometheus address: '' (metrics_Address cx m)) of
          Err e \<Rightarrow> (Err e, s)
        | Crash c \<Rightarrow> (Crash c, s)
        | Ok promAddr \<Rightarrow>
            let listenAddr = ec_RPCListener (ev_cfg s) in
            case rbind (wrap (''failed to listen on '' @ listenAddr @ '': '') (ve_Listen ve listenAddr)) (\<lambda>_.
                wrap ''failed to register gRPC server: '' (ve_Register ve)) of
              Err e \<Rightarrow> (Err e, shutdown (ev_em s))
            | Crash c \<Rightarrow> (Crash c, s)
            | Ok _ \<Rightarrow>
                (case serve requests (ev_em s) of
                   (Crash c, em) \<Rightarrow> (Crash c, s\<lparr>ev_em := em\<rparr>)
                 | (_, em) \<Rightarrow> (Ok (), shutdown em)))"

section \<open>The start command\<close>

definition eots_startSetup ::
  "os_env \<Rightarrow> config_ext \<Rightarrow> (string \<Rightarrow> EotsConfig go) \<Rightarrow> (BoltBackendConfig \<Rightarrow> kvdb go) \<Rightarrow> string \<Rightarrow> string \<Rightarrow>
     filesystem \<Rightarrow> (string \<times> EotsConfig \<times> kvdb) go" where
  "eots_startSetup os cx parse bolt home rpcListener fs =
     rbind (wrap ''failed to load home flag: '' (getCleanPath (os_UserHome os) (os_Getenv os) (os_Getwd os) home)) (\<lambda>homePath.
     rbind (wrap (''failed to load config at '' @ homePath @ '': '')
       (eots_LoadConfig (cx_ResolveTCPAddr cx) (cx_ParseIP cx) (FileExists os fs) (\<lambda>p. rbind (readFile fs p) parse) homePath)) (\<lambda>cfg.
     if ec_KeyringBackend cfg \<noteq> BackendTest \<and> ec_KeyringBackend cfg \<noteq> BackendFile
     then Err (ErrText (''the keyring backend in config must be `test` or `file`, got '' @ ec_KeyringBackend cfg))
     else
       rbind (if rpcListener \<noteq> []
              then rbind (wrap (''invalid RPC listener address '' @ rpcListener @ '': '') (cx_ResolveTCPAddr cx rpcListener)) (\<lambda>_.
                Ok (cfg\<lparr>ec_RPCListener := rpcListener\<rparr>))
              else Ok cfg) (\<lambda>cfg.
       rbind (wrap ''failed to load the logger: '' (fst (NewRootLoggerWithFile os (eots_LogFile homePath) (ec_LogLevel cfg) fs))) (\<lambda>_.
       rbind (wrap ''failed to create db backend: '' (GetDBBackend bolt (ec_DatabaseConfig cfg))) (\<lambda>dbBackend.
       Ok (homePath, cfg, dbBackend))))))"

text \<open>The result of the command, and what it leaves in the database when it got as far as opening it. When the manager cannot be
  created the transaction that makes the buckets has been done or rolled back.\<close>

definition startFn ::
  "os_env \<Rightarrow> config_ext \<Rightarrow> (string \<Rightarrow> EotsConfig go) \<Rightarrow> (BoltBackendConfig \<Rightarrow> kvdb go) \<Rightarrow> (bytes \<Rightarrow> bytes \<Rightarrow> 'kr go) \<Rightarrow> dbfault \<Rightarrow> server_env \<Rightarrow>
     (('kr, 'sk) LocalEOTSManager, unit) cmd list \<Rightarrow> string \<Rightarrow> string \<Rightarrow> filesystem \<Rightarrow> unit go \<times> kvdb option" where
  "startFn os cx parse bolt keyringNew flt ve requests home rpcListener fs =
     (case eots_startSetup os cx parse bolt home rpcListener fs of
        Err e \<Rightarrow> (Err e, None)
      | Crash c \<Rightarrow> (Crash c, None)
      | Ok (homePath, cfg, dbBackend) \<Rightarrow>
          (case wrap ''failed to create EOTS manager: '' (NewLocalEOTSManager keyringNew flt homePath (ec_KeyringBackend cfg) dbBackend) of
             Err e \<Rightarrow> (Err e, Some (snd (initBuckets flt dbBackend)))
           | Crash c \<Rightarrow> (Crash c, Some (snd (initBuckets flt dbBackend)))
           | Ok eotsManager \<Rightarrow>
               (case wrapS ''failed to run EOTS server: '' (eots_RunUntilShutdown cx ve requests) (NewEOTSManagerServer cfg eotsManager) of
                  (r, eotsServer) \<Rightarrow> (r, Some (lm_es (ev_em eotsServer))))))"

section \<open>Calls\<close>

text \<open>\<open>headers\<close>: what the transport adds to a request; \<open>onWire\<close>: the error a client sees for one of the server.\<close>

record transport =
  tr_hmac :: "bytes \<Rightarrow> bytes \<Rightarrow> bytes"
  tr_Marshal :: "eots_request \<Rightarrow> bytes go"
  tr_headers :: metadata
  tr_onWire :: "goerror \<Rightarrow> goerror"

definition received :: "metadata \<Rightarrow> metadata option \<Rightarrow> metadata" where
  "received headers md = (case md of None \<Rightarrow> headers | Some m \<Rightarrow> \<lambda>k. m k @ headers k)"

definition sentBack :: "(goerror \<Rightarrow> goerror) \<Rightarrow> ('s, 'a) cmd \<Rightarrow> ('s, 'a) cmd" where
  "sentBack onWire m s = (case m s of (Err e, s) \<Rightarrow> (Err (onWire e), s) | out \<Rightarrow> out)"

definition eots_call :: "transport \<Rightarrow> bytes \<Rightarrow> EotsConfig \<Rightarrow> bytes \<Rightarrow> (eots_request \<Rightarrow> ('s, 'a) cmd) \<Rightarrow> eots_request \<Rightarrow> ('s, 'a) cmd" where
  "eots_call t clientKey cfg method handler req =
     HMACUnaryClientInterceptor (tr_hmac t) (tr_Marshal t) clientKey method req None (\<lambda>md.
       sentBack (tr_onWire t) (HMACUnaryServerInterceptor (tr_hmac t) (tr_Marshal t) (ec_HMACKey cfg) method req
         (Some (received (tr_headers t) md)) (handler req)))"

section \<open>The unlock command\<close>

text \<open>The password from a pipe, whole, or from the terminal. \<open>pipe\<close>: the standard input is not a terminal.\<close>

definition passwordReader :: "bool go \<Rightarrow> string go \<Rightarrow> string go \<Rightarrow> string go" where
  "passwordReader pipe stdin terminal =
     rbind (wrap ''failed to stat stdin: '' pipe) (\<lambda>notTerminal.
     if notTerminal then wrap ''failed to read passphrase from stdin: '' stdin
     else wrap ''failed to read passphrase from terminal: '' terminal)"

text \<open>\<open>load\<close>: the configuration of a home directory.\<close>

definition getHMACFromConfig :: "string go \<Rightarrow> (string \<Rightarrow> EotsConfig go) \<Rightarrow> string \<Rightarrow> string go" where
  "getHMACFromConfig homePath load flagHome =
     (if flagHome = [] then Ok []
      else
        rbind (wrap ''failed to load home flag: '' homePath) (\<lambda>homePath.
        rbind (wrap (''failed to load config at '' @ homePath @ '': '') (load homePath)) (\<lambda>cfg.
        Ok (ec_HMACKey cfg))))"

record cmd_env =
  ce_LookupEnv :: "string \<Rightarrow> string option"
  ce_homePath :: "string go"
  ce_load :: "string \<Rightarrow> EotsConfig go"
  ce_password :: "string go"
  ce_dial :: "unit go"
  ce_ping :: "unit go"

definition unlockKeyring ::
  "cmd_env \<Rightarrow> (bytes \<Rightarrow> eots_request \<Rightarrow> ('s, unit) cmd) \<Rightarrow> string \<Rightarrow> string \<Rightarrow> string \<Rightarrow> ('s, unit) cmd" where
  "unlockKeyring ce call eotsFpPubKeyStr rpcListener flagHome =
     sbind (liftR (case ce_LookupEnv ce ''HMAC_KEY'' of
         Some hmac \<Rightarrow> Ok hmac
       | None \<Rightarrow> getHMACFromConfig (ce_homePath ce) (ce_load ce) flagHome)) (\<lambda>hmac.
     sbind (liftR (case ce_LookupEnv ce ''EOTSD_KEYRING_PASSWORD'' of
         Some passphrase \<Rightarrow> Ok passphrase
       | None \<Rightarrow> wrap ''failed to read passphrase: '' (ce_password ce))) (\<lambda>passphrase.
     sbind (liftR (wrap ''failed to create eotsd client: '' (NewEOTSManagerGRPCClient (ce_dial ce) (ce_ping ce) rpcListener hmac))) (\<lambda>key.
     sbind (liftR (wrap ''failed to decode eots public key: '' (hex_DecodeString eotsFpPubKeyStr))) (\<lambda>eotsFpPub.
     wrapS ''failed to unlock keyring: '' (client_Unlock (call key) eotsFpPub passphrase)))))"

definition UnlockKey_handler :: "('kr, 'sk, 'sc, 'fv, 'sg, 'pk) eots_ext \<Rightarrow> dbfault \<Rightarrow> eots_request \<Rightarrow> (('kr, 'sk) LocalEOTSManager, unit) cmd" where
  "UnlockKey_handler x flt req =
     (case req of UnlockKeyRequest uid passphrase \<Rightarrow> rpc_UnlockKey x flt uid passphrase | _ \<Rightarrow> liftR (Err (StatusErr Internal ''wrong message'')))"

section \<open>The backup command\<close>

definition backup ::
  "cmd_env \<Rightarrow> (bytes \<Rightarrow> eots_request \<Rightarrow> ('s, bytes) cmd) \<Rightarrow> string \<Rightarrow> string \<Rightarrow> string \<Rightarrow> ('s, string) cmd" where
  "backup ce call dbPath backupDir rpcListener =
     sbind (liftR (wrap ''failed to create eotsd client: '' (NewEOTSManagerGRPCClient (ce_dial ce) (ce_ping ce) rpcListener []))) (\<lambda>key.
     sbind (wrapS ''failed to do backup: '' (client_Backup (call key) dbPath backupDir)) (\<lambda>backupName.
     liftR (Ok (backupDir @ ''/'' @ backupName))))"

definition Backup_handler ::
  "unit go \<Rightarrow> unit go \<Rightarrow> unit go \<Rightarrow> bytes \<Rightarrow> ('kr, 'sk) LocalEOTSManager \<Rightarrow> eots_request \<Rightarrow> (backups, bytes) cmd" where
  "Backup_handler mkdirRes createRes copyRes timestamp em req =
     (case req of
        BackupRequest dbPath backupDir \<Rightarrow> rpc_Backup mkdirRes createRes copyRes timestamp dbPath backupDir em
      | _ \<Rightarrow> liftR (Err (StatusErr Internal ''wrong message'')))"

text \<open>The command against a running manager.\<close>

definition backupManager ::
  "transport \<Rightarrow> cmd_env \<Rightarrow> EotsConfig \<Rightarrow> unit go \<Rightarrow> unit go \<Rightarrow> unit go \<Rightarrow> bytes \<Rightarrow> ('kr, 'sk) LocalEOTSManager \<Rightarrow> string \<Rightarrow> string \<Rightarrow> string \<Rightarrow> (backups, string) cmd" where
  "backupManager t ce cfg mkdirRes createRes copyRes timestamp em =
     backup ce (\<lambda>key. eots_call t key cfg ''/proto.EOTSManager/Backup'' (Backup_handler mkdirRes createRes copyRes timestamp em))"

definition unlockManager ::
  "transport \<Rightarrow> cmd_env \<Rightarrow> EotsConfig \<Rightarrow> ('kr, 'sk, 'sc, 'fv, 'sg, 'pk) eots_ext \<Rightarrow> dbfault \<Rightarrow> string \<Rightarrow> string \<Rightarrow> string \<Rightarrow> (('kr, 'sk) LocalEOTSManager, unit) cmd" where
  "unlockManager t ce cfg x flt = unlockKeyring ce (\<lambda>key. eots_call t key cfg ''/proto.EOTSManager/UnlockKey'' (UnlockKey_handler x flt))"

section \<open>Authenticated calls\<close>

lemma eots_call_same_key:
  assumes "tr_Marshal t req = Ok data"
  shows "eots_call t (ec_HMACKey cfg) cfg method handler req = sentBack (tr_onWire t) (handler req)"
  using assms by (auto simp: eots_call_def HMACUnaryClientInterceptor_def HMACUnaryServerInterceptor_def received_def Let_def)

lemma eots_call_no_key:
  assumes "ec_HMACKey cfg \<noteq> []" and "\<not> hmac_exempt method" and "tr_headers t HMACHeaderKey = []"
  shows "\<exists>e. eots_call t [] cfg method handler req s = (Err e, s)"
  using assms by (auto simp: eots_call_def HMACUnaryClientInterceptor_def HMACUnaryServerInterceptor_def received_def sentBack_def liftR_def)

lemma eots_call_wrong_key:
  assumes "ec_HMACKey cfg \<noteq> []" and "\<not> hmac_exempt method" and "tr_headers t HMACHeaderKey = []" and "tr_Marshal t req = Ok data"
    and "key = [] \<or> base64 (tr_hmac t key data) \<noteq> base64 (tr_hmac t (ec_HMACKey cfg) data)"
  shows "\<exists>e. eots_call t key cfg method handler req s = (Err e, s)"
proof (cases "key = []")
  case True
  with eots_call_no_key [OF assms(1-3)] show ?thesis by simp
next
  case False
  with assms show ?thesis
    by (simp add: eots_call_def HMACUnaryClientInterceptor_def HMACUnaryServerInterceptor_def received_def sentBack_def liftR_def Let_def)
qed

text \<open>C38. The backup command cannot back up a manager that authenticates its clients: it connects without a key whatever the
  configuration says, and a manager with a key refuses the request. Nothing is written. The same request sent with the configured
  key is the manager's backup, and so is the command when the manager has no key.\<close>

theorem backup_command_unauthenticated:
  assumes "tr_headers t HMACHeaderKey = []"
    and "backupManager t ce cfg mkdirRes createRes copyRes timestamp em dbPath backupDir rpcListener fs = (r, fs')"
    and "tr_Marshal t (BackupRequest dbPath backupDir) = Ok data"
  shows "(ec_HMACKey cfg \<noteq> [] \<longrightarrow> (\<forall>out. r \<noteq> Ok out) \<and> fs' = fs) \<and>
    eots_call t (ec_HMACKey cfg) cfg ''/proto.EOTSManager/Backup'' (Backup_handler mkdirRes createRes copyRes timestamp em)
      (BackupRequest dbPath backupDir) fs = sentBack (tr_onWire t) (rpc_Backup mkdirRes createRes copyRes timestamp dbPath backupDir em) fs \<and>
    (ec_HMACKey cfg = [] \<and> ce_dial ce = Ok () \<and> ce_ping ce = Ok () \<longrightarrow>
      fs' = snd (rpc_Backup mkdirRes createRes copyRes timestamp dbPath backupDir em fs))"
proof -
  let ?h = "Backup_handler mkdirRes createRes copyRes timestamp em" and ?new = "NewEOTSManagerGRPCClient (ce_dial ce) (ce_ping ce) rpcListener []"
  have ex: "\<not> hmac_exempt ''/proto.EOTSManager/Backup''" by (simp add: hmac_exempt_def)
  have key: "clientHMACKey [] = []" by (simp add: clientHMACKey_def ProcessHMACKey_def)
  then have none: "k = []" if "?new = Ok k" for k using that by (auto simp: NewEOTSManagerGRPCClient_def Let_def go_simps)
  note run = assms(2) [unfolded backupManager_def backup_def client_Backup_def]
  have refused: "(\<forall>out. r \<noteq> Ok out) \<and> fs' = fs" if k: "ec_HMACKey cfg \<noteq> []"
  proof (cases ?new)
    case (Ok k)
    with none have "k = []" by simp
    with run Ok eots_call_no_key [OF k ex assms(1), of ?h "BackupRequest dbPath backupDir" fs] show ?thesis
      by (auto simp: sbind_def liftR_def wrapS_def)
  qed (use run in \<open>auto simp: sbind_def liftR_def\<close>)
  have "fs' = snd (rpc_Backup mkdirRes createRes copyRes timestamp dbPath backupDir em fs)"
    if "ec_HMACKey cfg = []" "ce_dial ce = Ok ()" "ce_ping ce = Ok ()"
  proof -
    have "?new = Ok []" using that by (simp add: NewEOTSManagerGRPCClient_def key Let_def)
    moreover have "eots_call t [] cfg m ?h (BackupRequest dbPath backupDir) =
        sentBack (tr_onWire t) (rpc_Backup mkdirRes createRes copyRes timestamp dbPath backupDir em)" for m
      using that(1) by (simp add: eots_call_def HMACUnaryClientInterceptor_def HMACUnaryServerInterceptor_def Backup_handler_def)
    ultimately show ?thesis using run
      by (auto simp: sbind_def liftR_def wrapS_def sentBack_def split: prod.splits go.splits)
  qed
  moreover have "eots_call t (ec_HMACKey cfg) cfg m ?h (BackupRequest dbPath backupDir) =
      sentBack (tr_onWire t) (rpc_Backup mkdirRes createRes copyRes timestamp dbPath backupDir em)" for m
    by (simp add: eots_call_same_key [OF assms(3)] Backup_handler_def)
  ultimately show ?thesis using refused by simp
qed

definition demo_t :: transport where
  "demo_t = \<lparr>tr_hmac = (\<lambda>k m. k @ m), tr_Marshal = (\<lambda>_. Ok ''req''), tr_headers = (\<lambda>_. []), tr_onWire = (\<lambda>e. e)\<rparr>"

definition demo_ce :: cmd_env where
  "demo_ce = \<lparr>ce_LookupEnv = [''HMAC_KEY'' \<mapsto> ''key'', ''EOTSD_KEYRING_PASSWORD'' \<mapsto> ''pw''], ce_homePath = Ok [], ce_load = (\<lambda>_. Ok demo_cfg),
     ce_password = Ok ''pw'', ce_dial = Ok (), ce_ping = Ok ()\<rparr>"

theorem backup_command_unauthenticated_witness:
  "(\<exists>r. backupManager demo_t demo_ce demo_cfg (Ok ()) (Ok ()) (Ok ()) ''1'' demo_lm ''eots.db'' ''dir'' ''addr'' Map.empty = (r, Map.empty) \<and> (\<forall>out. r \<noteq> Ok out)) \<and>
   (\<exists>name. fst (eots_call demo_t ''key'' demo_cfg ''/proto.EOTSManager/Backup'' (Backup_handler (Ok ()) (Ok ()) (Ok ()) ''1'' demo_lm)
      (BackupRequest ''eots.db'' ''dir'') Map.empty) = Ok name)"
proof -
  obtain r fs' where run: "backupManager demo_t demo_ce demo_cfg (Ok ()) (Ok ()) (Ok ()) ''1'' demo_lm ''eots.db'' ''dir'' ''addr'' Map.empty = (r, fs')" by fastforce
  have t: "tr_headers demo_t HMACHeaderKey = []" "tr_Marshal demo_t (BackupRequest ''eots.db'' ''dir'') = Ok ''req''" "ec_HMACKey demo_cfg = ''key''"
    by (simp_all add: demo_t_def demo_cfg_def)
  note R = backup_command_unauthenticated [OF t(1) run t(2), unfolded t(3)]
  have "\<exists>name. fst (sentBack (tr_onWire demo_t) (rpc_Backup (Ok ()) (Ok ()) (Ok ()) ''1'' ''eots.db'' ''dir'' demo_lm) Map.empty) = Ok name"
    by (simp add: sentBack_def rpc_Backup_def Backup_def BackupDB_def wrapS_def Let_def)
  with R run show ?thesis by auto
qed



section \<open>A run of the manager\<close>

text \<open>A database a manager can start on.\<close>

definition eots_readable :: "'z store_ext_scheme \<Rightarrow> kvdb \<Rightarrow> bool" where
  "eots_readable x db \<longleftrightarrow> kv_ok db \<and> (\<forall>b. kv_buckets db signRecordBucketName = Some b \<longrightarrow>
     (\<forall>(k, v) \<in> set b. 8 \<le> length k \<and> (\<exists>p. unmarshalSR x v = Ok p)))"

lemma recordOf_close [simp]: "recordOf x (db\<lparr>kv_open := b\<rparr>) = recordOf x db" "eots_readable x (db\<lparr>kv_open := b\<rparr>) = eots_readable x db"
  by (simp_all add: recordOf_def kv_bucket_of_def eots_readable_def kv_ok_def fun_eq_iff)

lemma wf_eots_readable: "wf_store x db \<Longrightarrow> eots_readable x db"
  by (auto simp: wf_store_def eots_readable_def)

text \<open>The buckets of a database after the manager's start on it: those it had, and the two buckets of the manager.\<close>

lemma initBuckets_buckets:
  assumes "initBuckets flt db = (r, db')" and "db' \<noteq> db \<or> r = Ok ()"
  shows "kv_open db' = kv_open db \<and> kv_buckets db' i =
    (if kv_buckets db i = None \<and> i \<in> {eotsBucketName, signRecordBucketName} then Some [] else kv_buckets db i)"
  using assms bucket_names_distinct
  by (auto simp: initBuckets_def wrapS_def kv_update_def tx_create_bucket_def tx_write_def go_simps
      split: prod.splits if_splits go.splits dbfault.splits option.splits)

lemma initBuckets_records:
  assumes "eots_readable x db"
  shows "recordOf x (snd (initBuckets flt db)) = recordOf x db \<and> eots_readable x (snd (initBuckets flt db))"
proof (cases "snd (initBuckets flt db) = db")
  case False
  note lm = initBuckets_buckets [OF prod.collapse [symmetric] disjI1 [OF False]]
  then have "recordOf x (snd (initBuckets flt db)) k = recordOf x db k" for k
    by (auto simp: recordOf_def kv_bucket_of_def bkt_get_def split: option.splits)
  moreover have "eots_readable x (snd (initBuckets flt db))"
    using assms by (cases "kv_buckets db signRecordBucketName") (auto simp: eots_readable_def kv_ok_def bucket_ok_def lm split: if_splits)
  ultimately show ?thesis by blast
qed (use assms in simp)

lemma NewLocalEOTSManager_extends:
  assumes "NewLocalEOTSManager keyringNew flt home backend db = Ok lm" and "eots_readable x db"
  shows "extends x (recordOf x db) lm"
proof -
  have n: "eotsBucketName \<noteq> signRecordBucketName" by (simp add: eotsBucketName_def signRecordBucketName_def)
  have lm: "kv_open (lm_es lm) \<and> kv_buckets (lm_es lm) i =
      (if kv_buckets db i = None \<and> i \<in> {eotsBucketName, signRecordBucketName} then Some [] else kv_buckets db i)" for i
    using assms(1) n by (auto simp: NewLocalEOTSManager_def go_simps NewEOTSStore_def initBuckets_def wrapS_def kv_update_def tx_create_bucket_def tx_write_def
        split: prod.splits if_splits go.splits dbfault.splits option.splits)
  have "recordOf x (lm_es lm) = recordOf x db"
    by (auto simp: recordOf_def kv_bucket_of_def lm bkt_get_def fun_eq_iff split: option.splits)
  moreover have "wf_store x (lm_es lm)"
    using assms(2) by (cases "kv_buckets db signRecordBucketName") (auto simp: wf_store_def lm eots_readable_def kv_ok_def bucket_ok_def split: if_splits)
  ultimately show ?thesis by (simp add: extends_def)
qed

text \<open>No request takes a record away, an unsafe signature included.\<close>

lemma keeps_rpc_UnsafeSignEOTS: "keeps lm_es (rpc_UnsafeSignEOTS x cfg flt uid c msg h)"
  unfolding rpc_UnsafeSignEOTS_def by (intro keeps_intros)

lemma rpc_step_other_config: "rpc_step x w cfg s es t \<Longrightarrow> lm_es t = lm_es s \<or> rpc_step x w cfg' s es t"
proof (induction rule: rpc_step.induct)
  case (rpc_unsafe flt uid c msg h s b s')
  then show ?case by (metis keepsD keeps_rpc_UnsafeSignEOTS)
next
  case (rpc_unsafe_fails flt uid c msg h s r s')
  then show ?case by (metis keepsD keeps_rpc_UnsafeSignEOTS)
qed (blast intro: rpc_step.intros)+

lemma rpc_step_extends:
  assumes "eots_codec x" and step: "rpc_step x w cfg s es t" and ext: "extends x m s"
  shows "extends x m t"
proof -
  have "IsUnsafeEndpointsDisabled (cfg\<lparr>ec_DisableUnsafeEndpoints := Some True\<rparr>)" by (simp add: IsUnsafeEndpointsDisabled_def)
  from rpc_step_other_config [OF step] rpc_step_simulated [OF _ this]
  consider "lm_es t = lm_es s" | gs where "eots_step x s gs t" by blast
  then show ?thesis using ext eots_codec.step_extends [OF assms(1)] by cases (auto simp: extends_def)
qed

lemma eots_RunUntilShutdown_em:
  assumes "eots_RunUntilShutdown cx ve requests s = (r, s')"
  shows "\<exists>em. (em = ev_em s \<or> (\<exists>r'. serve requests (ev_em s) = (r', em))) \<and>
    (ev_em s' = em \<or> ev_em s' = em\<lparr>lm_es := snd (kv_close (ve_Close ve) (lm_es em))\<rparr>)"
  using assms by (auto simp: eots_RunUntilShutdown_def Let_def split: if_splits go.splits prod.splits)

text \<open>C6. A run of the manager's process forgets no signature: whatever fails while it starts, whatever requests it serves, with the unsafe
  endpoint enabled or not, and however it ends, every signing record of the database it opened is in the database it leaves, unchanged, and
  the next process can start on that database. A run that never opens the database fails. With the safety of the requests this makes
  the protection against double signing last across restarts.\<close>

theorem eotsd_never_forgets:
  fixes x :: "('kr, 'sk, 'sc, 'fv, 'sg, 'pk) eots_ext" and requests :: "(('kr, 'sk) LocalEOTSManager, unit) cmd list"
  assumes "eots_codec x" and "\<And>c db. bolt c = Ok db \<Longrightarrow> eots_readable x db"
    and "\<And>e s r s'. e \<in> set requests \<Longrightarrow> e s = (r, s') \<Longrightarrow> \<exists>w cfg es. rpc_step x w cfg s es s'"
    and "startFn os cx parse bolt keyringNew flt ve requests home rpcListener fs = (r, left)"
  shows "case left of
      None \<Rightarrow> r \<noteq> Ok ()
    | Some db' \<Rightarrow> \<exists>c db. bolt c = Ok db \<and> recordOf x db \<subseteq>\<^sub>m recordOf x db' \<and> eots_readable x db'"
proof (cases "eots_startSetup os cx parse bolt home rpcListener fs")
  case (Ok hcd)
  then obtain homePath cfg db where su: "eots_startSetup os cx parse bolt home rpcListener fs = Ok (homePath, cfg, db)" by (cases hcd) auto
  then obtain c where c: "bolt c = Ok db" by (auto simp: eots_startSetup_def go_simps split: if_splits elim!: GetDBBackend_Ok)
  note rd = assms(2) [OF c]
  let ?new = "NewLocalEOTSManager keyringNew flt homePath (ec_KeyringBackend cfg) db :: ('kr, 'sk) LocalEOTSManager go"
  show ?thesis
  proof (cases ?new)
    case (Ok em)
    have run: "preserves (extends x m) (serve requests)" for m
      by (rule serve_preserves)
         (use rpc_step_extends [OF assms(1)] assms(3) [OF _ prod.collapse [symmetric]] in \<open>fastforce simp: preserves_def\<close>)
    from Ok rd have ext: "extends x (recordOf x db) em" by (rule NewLocalEOTSManager_extends)
    obtain srv where srv: "eots_RunUntilShutdown cx ve requests (NewEOTSManagerServer cfg em) =
        (fst (eots_RunUntilShutdown cx ve requests (NewEOTSManagerServer cfg em)), srv)"
      and left: "left = Some (lm_es (ev_em srv))"
      using assms(4) su Ok by (auto simp: startFn_def wrapS_def split: prod.splits)
    obtain em' where em': "em' = em \<or> (\<exists>r'. serve requests em = (r', em'))"
      and last: "ev_em srv = em' \<or> ev_em srv = em'\<lparr>lm_es := snd (kv_close (ve_Close ve) (lm_es em'))\<rparr>"
      using eots_RunUntilShutdown_em [OF srv] by (auto simp: NewEOTSManagerServer_def)
    from em' ext have "extends x (recordOf x db) em'" by (auto dest: preservesD [OF run])
    then have "recordOf x db \<subseteq>\<^sub>m recordOf x (lm_es em')" "eots_readable x (lm_es em')" by (simp_all add: extends_def wf_eots_readable)
    with last left show ?thesis
      by (cases "ve_Close ve") (auto simp: kv_close_def intro!: exI [of _ c] exI [of _ db] c)
  qed (use assms(4) su initBuckets_records [OF rd, of flt] in \<open>auto simp: startFn_def intro!: exI [of _ c] exI [of _ db] c\<close>)
qed (use assms(4) in \<open>auto simp: startFn_def\<close>)

definition demo_request :: "((bytes, bytes) LocalEOTSManager, unit) cmd" where
  "demo_request = sbind (rpc_SignEOTS demo_ext (\<lambda>_. NoFault) 1 ''k'' ''c'' ''m'' 7) (\<lambda>_. liftR (Ok ()))"

lemma demo_request_step:
  assumes "demo_request s = (r, s')"
  shows "\<exists>es. rpc_step demo_ext demo_rpc demo_cfg s es s'"
proof -
  from assms obtain r' where r': "rpc_SignEOTS demo_ext (\<lambda>_. NoFault) 1 ''k'' ''c'' ''m'' 7 s = (r', s')"
    by (auto simp: demo_request_def liftR_eq elim!: sbindE)
  show ?thesis
  proof (cases r')
    case (Ok b)
    with r' rpc_sign show ?thesis by blast
  next
    case (Err e)
    with rpc_sign_fails [OF r', of demo_rpc demo_cfg] show ?thesis by blast
  next
    case (Crash c)
    with rpc_sign_fails [OF r', of demo_rpc demo_cfg] show ?thesis by blast
  qed
qed

definition demo_eots_parse :: "string \<Rightarrow> EotsConfig go" where
  "demo_eots_parse h = DefaultConfigWithHomePath (\<lambda>_. Ok ()) (\<lambda>_. True) (0, 0) h"

definition demo_eots_home :: filesystem where
  "demo_eots_home = \<lparr>fs_dirs = [], fs_files = [''/srv/eots/eotsd.conf'' \<mapsto> ''/srv/eots'']\<rparr>"

definition demo_eve :: server_env where
  "demo_eve = \<lparr>ve_Listen = (\<lambda>_. Ok ()), ve_Register = Ok (), ve_Close = None\<rparr>"

lemma demo_eots_config:
  "getCleanPath None (\<lambda>_. []) (Ok ''/srv'') ''eots'' = Ok ''/srv/eots''"
  "\<exists>cfg. eots_LoadConfig (\<lambda>_. Ok ()) (\<lambda>_. True) (FileExists demo_os demo_eots_home) (\<lambda>p. rbind (readFile demo_eots_home p) demo_eots_parse) ''/srv/eots'' = Ok cfg \<and>
     ec_LogLevel cfg = ''debug'' \<and> ec_KeyringBackend cfg = BackendTest \<and> ec_DatabaseConfig cfg \<noteq> None"
  "fst (NewRootLoggerWithFile demo_os (eots_LogFile ''/srv/eots'') ''debug'' demo_eots_home) = Ok DebugLevel"
proof -
  show "getCleanPath None (\<lambda>_. []) (Ok ''/srv'') ''eots'' = Ok ''/srv/eots''"
    by (simp add: getCleanPath_def filepath_Abs_def isRooted_def filepath_Join_def path_Clean_def CleanAndExpandPath_def)
  have home: "eots_CfgFile ''/srv/eots'' = ''/srv/eots/eotsd.conf''"
    by (simp add: isRooted_def filepath_Join_def path_Clean_def eots_CfgFile_def)
  obtain cfg where cfg: "demo_eots_parse ''/srv/eots'' = Ok cfg" "EotsConfig_Validate (\<lambda>_. Ok ()) (\<lambda>_. True) cfg = Ok ()" "ec_LogLevel cfg = ''debug''"
      "ec_KeyringBackend cfg = BackendTest" "ec_DatabaseConfig cfg \<noteq> None"
    by (simp add: demo_eots_parse_def DefaultConfigWithHomePath_def DefaultConfigWithHomePathAndPorts_def EotsConfig_Validate_def MetricsConfig_Validate_def
        BackendTest_def DefaultEotsConfig_def Let_def)
  then show "\<exists>cfg. eots_LoadConfig (\<lambda>_. Ok ()) (\<lambda>_. True) (FileExists demo_os demo_eots_home) (\<lambda>p. rbind (readFile demo_eots_home p) demo_eots_parse) ''/srv/eots'' = Ok cfg \<and>
     ec_LogLevel cfg = ''debug'' \<and> ec_KeyringBackend cfg = BackendTest \<and> ec_DatabaseConfig cfg \<noteq> None"
    by (simp add: eots_LoadConfig_def home FileExists_def readFile_def demo_eots_home_def)
  show "fst (NewRootLoggerWithFile demo_os (eots_LogFile ''/srv/eots'') ''debug'' demo_eots_home) = Ok DebugLevel"
    by (simp add: NewRootLoggerWithFile_def sbind_def wrapS_def MakeDirectory_def demo_os_def liftR_def NewRootLogger_def lower_def Let_def)
qed

lemma demo_os_simps: "os_Getwd demo_os = Ok ''/srv''" "os_UserHome demo_os = None" "os_Getenv demo_os = (\<lambda>_. [])"
  by (simp_all add: demo_os_def)

text \<open>A run on a database that holds a signature.\<close>

lemma demo_signed_db:
  obtains db rec where "wf_store demo_ext db" "signRecords demo_ext db ''c'' ''k'' 7 = Some rec" "SR_Msg rec = ''m''"
  using demo_sign [of 1 "''c''" "''m''" 7] by fastforce

lemma demo_eots_setup:
  "\<exists>cfg. eots_startSetup demo_os demo_cx demo_eots_parse (\<lambda>_. Ok db) ''eots'' [] demo_eots_home = Ok (''/srv/eots'', cfg, db)"
  using demo_eots_config by (auto simp: eots_startSetup_def demo_os_simps demo_cx_def GetDBBackend_def)

theorem eotsd_never_forgets_witness:
  "\<exists>db r db' rec. startFn demo_os demo_cx demo_eots_parse (\<lambda>_. Ok db) (\<lambda>_ _. Ok (lm_kr demo_lm)) NoFault demo_eve [demo_request] ''eots'' []
       demo_eots_home = (r, Some db') \<and>
     SR_Msg rec = ''m'' \<and> signRecords demo_ext db ''c'' ''k'' 7 = Some rec \<and> signRecords demo_ext db' ''c'' ''k'' 7 = Some rec"
proof -
  obtain db rec where wf: "wf_store demo_ext db" and rec: "signRecords demo_ext db ''c'' ''k'' 7 = Some rec" "SR_Msg rec = ''m''"
    by (rule demo_signed_db)
  let ?run = "startFn demo_os demo_cx demo_eots_parse (\<lambda>_. Ok db) (\<lambda>_ _. Ok (lm_kr demo_lm)) NoFault demo_eve [demo_request] ''eots'' [] demo_eots_home"
  obtain r left where run: "?run = (r, left)" by fastforce
  have "left \<noteq> None" using run demo_eots_setup [of db] by (auto simp: startFn_def split: go.splits prod.splits)
  then obtain db' where left: "left = Some db'" by blast
  have readable: "eots_readable demo_ext d" if "Ok db = Ok d" for d using that wf_eots_readable [OF wf] by simp
  have "\<exists>w cfg es. rpc_step demo_ext w cfg s es s'" if "e \<in> set [demo_request]" "e s = (q, s')" for e s q s'
    using that demo_request_step [of s q s'] by auto
  from eotsd_never_forgets [OF demo.eots_codec_axioms readable this run] left
  have "recordOf demo_ext db \<subseteq>\<^sub>m recordOf demo_ext db'" by auto
  with rec have "signRecords demo_ext db' ''c'' ''k'' 7 = Some rec" by (simp add: signRecords_def map_leD)
  with run left rec show ?thesis by blast
qed

end
