(* ===== verification/Pop_Commands.thy ===== *)
theory Pop_Commands
  imports Eots_Pop Eots_Server
begin

text \<open>
  The proof-of-possession commands from the flags to the output file (\<^verbatim>\<open>eotsd/daemon/pop.go\<close>): the home directories, the
  configuration and the database of the manager, the proof itself as in \<open>Eots_Pop\<close>, and the JSON text that is printed and
  written. The encoding is a parameter. The log file the commands create on the way and the closing of the manager, whose error is only
  printed, do not change the proof or the output file and are left out.
\<close>

section \<open>Flags\<close>

record pop_flags =
  pl_home :: string
  pl_keyName :: string
  pl_eotsPk :: string
  pl_keyringBackend :: string
  pl_babyHome :: string
  pl_babyKeyName :: string
  pl_babyKeyringBackend :: string
  pl_message :: string
  pl_outputFile :: string

definition eotsFlags :: "os_env \<Rightarrow> pop_flags \<Rightarrow> (string \<times> string \<times> string \<times> string) go" where
  "eotsFlags os fl =
     rbind (wrap ''failed to get eots home path: '' (getCleanPath (os_UserHome os) (os_Getenv os) (os_Getwd os) (pl_home fl))) (\<lambda>eotsHomePath.
     Ok (eotsHomePath, pl_keyName fl, pl_eotsPk fl, pl_keyringBackend fl))"

definition babyFlags :: "os_env \<Rightarrow> pop_flags \<Rightarrow> (string \<times> string \<times> string) go" where
  "babyFlags os fl =
     rbind (wrap ''failed to load baby home flag: '' (getCleanPath (os_UserHome os) (os_Getenv os) (os_Getwd os) (pl_babyHome fl))) (\<lambda>babyHomePath.
     Ok (babyHomePath, pl_babyKeyName fl, pl_babyKeyringBackend fl))"

text \<open>What \<^verbatim>\<open>loadEotsManager\<close> opens.\<close>

definition popBackend ::
  "os_env \<Rightarrow> config_ext \<Rightarrow> (string \<Rightarrow> EotsConfig go) \<Rightarrow> (BoltBackendConfig \<Rightarrow> kvdb go) \<Rightarrow> string \<Rightarrow> filesystem \<Rightarrow> kvdb go" where
  "popBackend os cx parse bolt eotsHomePath fs =
     rbind (wrap (''failed to load config at '' @ eotsHomePath @ '': '')
       (eots_LoadConfig (cx_ResolveTCPAddr cx) (cx_ParseIP cx) (FileExists os fs) (\<lambda>p. rbind (readFile fs p) parse) eotsHomePath)) (\<lambda>cfg.
     rbind (wrap ''failed to load the logger: '' (fst (NewRootLoggerWithFile os (eots_LogFile eotsHomePath) (ec_LogLevel cfg) fs))) (\<lambda>_.
     wrap ''failed to get db backend: '' (GetDBBackend bolt (ec_DatabaseConfig cfg))))"

section \<open>Output\<close>

definition mkdirAll :: "os_env \<Rightarrow> string \<Rightarrow> (filesystem, unit) cmd" where
  "mkdirAll os dir fs = (case os_MkdirAll os dir of MkdirOk \<Rightarrow> (Ok (), fs\<lparr>fs_dirs := dir # fs_dirs fs\<rparr>) | MkdirErr err _ \<Rightarrow> (Err err, fs))"

text \<open>The result is what is printed.\<close>

definition handleOutputJSON :: "os_env \<Rightarrow> ('a \<Rightarrow> string go) \<Rightarrow> string \<Rightarrow> 'a \<Rightarrow> (filesystem, string) cmd" where
  "handleOutputJSON os json outputFilePath out =
     sbind (liftR (wrap ''failed to marshal output: '' (json out))) (\<lambda>jsonBz.
     sbind (if 0 < length outputFilePath
            then
              sbind (liftR (wrap ''failed to get absolute path: '' (filepath_Abs (os_Getwd os) (path_Clean outputFilePath)))) (\<lambda>cleanPath.
              sbind (wrapS ''failed to create output directory: '' (mkdirAll os (filepath_Dir cleanPath))) (\<lambda>_.
              wrapS ''failed to write output file: '' (writeFile os cleanPath jsonBz)))
            else liftR (Ok ())) (\<lambda>_. liftR (Ok jsonBz)))"

section \<open>The commands\<close>

definition exportPopCmd ::
  "('kr, 'sk, 'sc, 'fv, 'sg, 'pk) eots_ext \<Rightarrow> ('bkr, 'sg, 'pk) pop_ext \<Rightarrow> os_env \<Rightarrow> config_ext \<Rightarrow> (string \<Rightarrow> EotsConfig go) \<Rightarrow> (BoltBackendConfig \<Rightarrow> kvdb go) \<Rightarrow>
     (bytes \<Rightarrow> bytes \<Rightarrow> 'kr go) \<Rightarrow> (nat \<Rightarrow> dbfault) \<Rightarrow> (PoPExport \<Rightarrow> string go) \<Rightarrow> pop_flags \<Rightarrow> (filesystem, string) cmd" where
  "exportPopCmd x px os cx parse bolt keyringNew flt json fl =
     sbind (liftR (eotsFlags os fl)) (\<lambda>(eotsHomePath, eotsKeyName, eotsFpPubKeyStr, eotsKeyringBackend).
     sbind (liftR (babyFlags os fl)) (\<lambda>(babyHomePath, babyKeyName, babyKeyringBackend).
     sbind (\<lambda>fs. (exportPop x px keyringNew flt (popBackend os cx parse bolt eotsHomePath fs) eotsHomePath eotsKeyName eotsFpPubKeyStr
       eotsKeyringBackend babyHomePath babyKeyName babyKeyringBackend, fs)) (\<lambda>out.
     handleOutputJSON os json (pl_outputFile fl) out)))"

definition deletePopCmd ::
  "('kr, 'sk, 'sc, 'fv, 'sg, 'pk) eots_ext \<Rightarrow> ('bkr, 'sg, 'pk) pop_ext \<Rightarrow> os_env \<Rightarrow> config_ext \<Rightarrow> (string \<Rightarrow> EotsConfig go) \<Rightarrow> (BoltBackendConfig \<Rightarrow> kvdb go) \<Rightarrow>
     (bytes \<Rightarrow> bytes \<Rightarrow> 'kr go) \<Rightarrow> dbfault \<Rightarrow> (PoPExportDelete \<Rightarrow> string go) \<Rightarrow> pop_flags \<Rightarrow> (filesystem, string) cmd" where
  "deletePopCmd x px os cx parse bolt keyringNew flt json fl =
     sbind (liftR (eotsFlags os fl)) (\<lambda>(eotsHomePath, eotsKeyName, eotsFpPubKeyStr, eotsKeyringBackend).
     sbind (liftR (babyFlags os fl)) (\<lambda>(babyHomePath, babyKeyName, babyKeyringBackend).
     sbind (\<lambda>fs. (deletePop x px keyringNew flt (popBackend os cx parse bolt eotsHomePath fs) eotsHomePath eotsKeyName eotsFpPubKeyStr
       eotsKeyringBackend babyHomePath babyKeyName babyKeyringBackend (pl_message fl), fs)) (\<lambda>out.
     handleOutputJSON os json (pl_outputFile fl) out)))"

definition validatePopCmd :: "('bkr, 'sg, 'pk) pop_ext \<Rightarrow> (string \<Rightarrow> PoPExport go) \<Rightarrow> string \<Rightarrow> filesystem \<Rightarrow> unit go" where
  "validatePopCmd px unjson path fs =
     validatePop px
       (rbind (wrap ''failed to read pop file: '' (readFile fs (path_Clean path))) (\<lambda>bzExportJSON.
        case unjson bzExportJSON of
          Ok pop \<Rightarrow> Ok pop
        | Err _ \<Rightarrow> Err (ErrText (''failed to marshal '' @ bzExportJSON @ '' into PoPExport structure''))
        | Crash c \<Rightarrow> Crash c))"

section \<open>Properties\<close>

lemma path_Clean_not_Nil: "path_Clean p \<noteq> []"
proof (cases "isRooted p")
  case False
  have "joinSlash es \<noteq> []" if "es \<noteq> []" "plainElem (hd es)" for es
    using that by (cases es rule: joinSlash.cases) (auto simp: plainElem_def)
  moreover have "plainElem (hd (cleanElems False [] (splitSlash p)))" if "cleanElems False [] (splitSlash p) \<noteq> []"
  proof -
    have "keptOk False (rev (cleanElems False [] (splitSlash p)))" by (rule cleanElems_keptOk) (auto dest: splitSlash_no_slash)
    with that show ?thesis using keptOk_plain [of False _ "hd (cleanElems False [] (splitSlash p))"] by simp
  qed
  ultimately show ?thesis using False by (simp add: path_Clean_def Let_def)
qed (simp add: path_Clean_def)

lemma filepath_Abs_clean: "filepath_Abs wd p = Ok q \<Longrightarrow> p \<noteq> [] \<Longrightarrow> path_Clean q = q"
  by (auto simp: filepath_Abs_def filepath_Join_def go_simps path_Clean_idempotent split: if_splits list.splits)

lemma mkdirAll_files: "mkdirAll os dir fs = (r, fs') \<Longrightarrow> fs_files fs' = fs_files fs"
  by (auto simp: mkdirAll_def split: mkdir_result.splits)

lemma handleOutputJSON_written:
  assumes "handleOutputJSON os json file out fs = (Ok t, fs')"
  shows "json out = Ok t \<and> (if file = [] then fs' = fs
    else \<exists>p. filepath_Abs (os_Getwd os) (path_Clean file) = Ok p \<and> fs_files fs' = (fs_files fs)(p \<mapsto> t))"
  using assms by (auto simp: handleOutputJSON_def liftR_eq wrapS_eq go_simps elim!: sbindE split: if_splits dest!: mkdirAll_files writeFile_Ok)

lemma exportPopCmd_Ok:
  assumes "exportPopCmd x px os cx parse bolt keyringNew flt json fl fs = (Ok t, fs')"
  shows "\<exists>db home babyHome pop. exportPop x px keyringNew flt db home (pl_keyName fl) (pl_eotsPk fl) (pl_keyringBackend fl) babyHome
      (pl_babyKeyName fl) (pl_babyKeyringBackend fl) = Ok pop \<and> handleOutputJSON os json (pl_outputFile fl) pop fs = (Ok t, fs')"
  using assms by (auto simp: exportPopCmd_def eotsFlags_def babyFlags_def liftR_eq go_simps elim!: sbindE)

text \<open>C34. The file that \<^verbatim>\<open>pop export\<close> writes, \<^verbatim>\<open>pop validate\<close> accepts: when the encodings can be read back, the two signature schemes accept their
  own signatures and a key name stands for one key pair, a successful export leaves at the absolute path of its output file, and nowhere
  else, the text it prints, and validating that file succeeds.\<close>

theorem export_command_validates:
  assumes pairs: "keyringPairs x"
    and base64: "\<And>b. px_FromBase64 px (px_Base64 px b) = Ok b" and hex: "\<And>pk k. px_ToBTCPK px pk = Ok k \<Longrightarrow> px_FromHex px (px_MarshalHex px pk) = Ok pk"
    and parse: "\<And>sg. px_ParseSignature px (px_SigSerialize px sg) = Ok sg"
    and schnorr: "\<And>sk m sg. schnorr_Sign x sk m = Ok sg \<Longrightarrow>
      \<exists>pk. px_ToBTCPK px (SerializePubKey x (PubKey x sk)) = Ok pk \<and> px_Verify px sg m pk"
    and baby: "\<And>kr name rec pk m sig. px_Key px kr name = Ok rec \<Longrightarrow> rec_PubKey rec = Ok (Secp256k1Key pk) \<Longrightarrow> px_Sign px kr name m = Ok sig \<Longrightarrow>
      px_VerifySignature px pk m sig"
    and json: "\<And>pop t. json pop = Ok t \<Longrightarrow> unjson t = Ok pop"
    and out: "pl_outputFile fl \<noteq> []" and run: "exportPopCmd x px os cx parseCfg bolt keyringNew flt json fl fs = (Ok t, fs')"
  shows "\<exists>p. filepath_Abs (os_Getwd os) (path_Clean (pl_outputFile fl)) = Ok p \<and> fs_files fs' = (fs_files fs)(p \<mapsto> t) \<and>
    validatePopCmd px unjson p fs' = Ok ()"
proof -
  obtain db home babyHome pop where pop: "exportPop x px keyringNew flt db home (pl_keyName fl) (pl_eotsPk fl) (pl_keyringBackend fl) babyHome
      (pl_babyKeyName fl) (pl_babyKeyringBackend fl) = Ok pop" and w: "handleOutputJSON os json (pl_outputFile fl) pop fs = (Ok t, fs')"
    using exportPopCmd_Ok [OF run] by blast
  from handleOutputJSON_written [OF w] out obtain p where p: "json pop = Ok t" "filepath_Abs (os_Getwd os) (path_Clean (pl_outputFile fl)) = Ok p"
    "fs_files fs' = (fs_files fs)(p \<mapsto> t)" by auto
  have "readFile fs' (path_Clean p) = Ok t"
    using filepath_Abs_clean [OF p(2) path_Clean_not_Nil] p(3) by (simp add: readFile_def)
  moreover have "validatePop px (Ok pop) = Ok ()"
    by (rule exportPop_validates [OF pairs base64 hex parse schnorr baby pop])
  ultimately have "validatePopCmd px unjson p fs' = Ok ()" using json [OF p(1)] by (simp add: validatePopCmd_def)
  with p show ?thesis by blast
qed

text \<open>An export with the test keyring, to a file named relative to the working directory.\<close>

definition demo_json :: "PoPExport \<Rightarrow> string go" where
  "demo_json p = Ok (esc (pe_EotsPublicKey p) @ esc (pe_BabyPublicKey p) @ esc (pe_BabySignEotsPk p) @ esc (pe_EotsSignBaby p) @ esc (pe_BabyAddress p))"

definition demo_unjson :: "string \<Rightarrow> PoPExport go" where
  "demo_unjson t = (case unesc t of None \<Rightarrow> Err (ErrText []) | Some (a, t) \<Rightarrow> case unesc t of None \<Rightarrow> Err (ErrText []) | Some (b, t) \<Rightarrow>
     case unesc t of None \<Rightarrow> Err (ErrText []) | Some (c, t) \<Rightarrow> case unesc t of None \<Rightarrow> Err (ErrText []) | Some (d, t) \<Rightarrow>
     case unesc t of None \<Rightarrow> Err (ErrText []) | Some (e, t) \<Rightarrow>
       Ok \<lparr>pe_EotsPublicKey = a, pe_BabyPublicKey = b, pe_BabySignEotsPk = c, pe_EotsSignBaby = d, pe_BabyAddress = e\<rparr>)"

lemma demo_json_round_trip: "demo_json p = Ok t \<Longrightarrow> demo_unjson t = Ok p"
proof -
  assume "demo_json p = Ok t"
  then have t: "t = esc (pe_EotsPublicKey p) @ esc (pe_BabyPublicKey p) @ esc (pe_BabySignEotsPk p) @ esc (pe_EotsSignBaby p) @ esc (pe_BabyAddress p) @ []"
    by (simp add: demo_json_def)
  show ?thesis unfolding demo_unjson_def t unesc_esc by simp
qed

definition demo_pl :: pop_flags where
  "demo_pl = \<lparr>pl_home = ''eots'', pl_keyName = ''fp'', pl_eotsPk = [], pl_keyringBackend = BackendTest, pl_babyHome = ''baby'', pl_babyKeyName = ''baby'',
     pl_babyKeyringBackend = ''test'', pl_message = [], pl_outputFile = ''pop.json''\<rparr>"

theorem export_command_validates_witness:
  "\<exists>t fs'. exportPopCmd demo_ext demo_px demo_os demo_cx demo_eots_parse (\<lambda>_. Ok (lm_es demo_lm)) (\<lambda>backend _. Ok backend) (\<lambda>_. NoFault) demo_json demo_pl demo_eots_home =
       (Ok t, fs') \<and> fs_files fs' ''/srv/pop.json'' = Some t \<and> validatePopCmd demo_px demo_unjson ''/srv/pop.json'' fs' = Ok ()"
proof -
  let ?run = "exportPopCmd demo_ext demo_px demo_os demo_cx demo_eots_parse (\<lambda>_. Ok (lm_es demo_lm)) (\<lambda>backend _. Ok backend) (\<lambda>_. NoFault) demo_json demo_pl demo_eots_home"
  have db: "popBackend demo_os demo_cx demo_eots_parse (\<lambda>_. Ok (lm_es demo_lm)) ''/srv/eots'' demo_eots_home = Ok (lm_es demo_lm)"
    using demo_eots_config(2,3) by (auto simp: popBackend_def demo_cx_def GetDBBackend_def)
  have paths: "getCleanPath None (\<lambda>_. []) (Ok ''/srv'') ''baby'' = Ok ''/srv/baby''" "filepath_Abs (Ok ''/srv'') (path_Clean ''pop.json'') = Ok ''/srv/pop.json''"
    by (simp_all add: getCleanPath_def filepath_Abs_def isRooted_def filepath_Join_def path_Clean_def CleanAndExpandPath_def)
  obtain pop where pop: "exportPop demo_ext demo_px (\<lambda>backend _. Ok backend) (\<lambda>_. NoFault) (Ok (lm_es demo_lm)) ''/srv/eots'' ''fp'' [] BackendTest ''/srv/baby'' ''baby'' ''test'' = Ok pop"
    using demo_export by blast
  have "\<exists>t fs'. ?run = (Ok t, fs')"
    using pop db paths demo_eots_config(1)
    by (simp add: exportPopCmd_def eotsFlags_def babyFlags_def demo_pl_def demo_os_simps sbind_def liftR_def handleOutputJSON_def demo_json_def wrapS_def
        mkdirAll_def writeFile_def) (simp add: demo_os_def wrapS_def writeFile_def liftR_def)
  then obtain t fs' where run: "?run = (Ok t, fs')" by blast
  have out: "pl_outputFile demo_pl \<noteq> []" by (simp add: demo_pl_def)
  have "\<exists>p. filepath_Abs (os_Getwd demo_os) (path_Clean (pl_outputFile demo_pl)) = Ok p \<and> fs_files fs' = (fs_files demo_eots_home)(p \<mapsto> t) \<and>
      validatePopCmd demo_px demo_unjson p fs' = Ok ()"
    by (rule export_command_validates [OF demo_keyringPairs _ _ _ _ _ demo_json_round_trip out run]) (auto simp: demo_px_def demo_ext_def)
  then show ?thesis using run paths(2) by (auto simp: demo_os_simps demo_pl_def)
qed

end
