(* ===== verification/FP_App.thy ===== *)
theory FP_App
  imports Test_Vote Babylon_Client
begin

text \<open>
  The finality provider daemon (\<^verbatim>\<open>service/app.go\<close>, \<^verbatim>\<open>service/event_loops.go\<close>, \<^verbatim>\<open>service/rpcserver.go\<close>): the status
  synchronization at the start, registration, unjailing, starting, stopping and slashing of the one instance,
  and the handlers of the gRPC service. The event loops are given by what they do with one event; a request
  to a loop that does not run blocks its caller for ever, which is a value \<open>Crash\<close> here.
\<close>

section \<open>State\<close>

text \<open>The databases, the clients, the poller and the services are shared by the daemon and its instance: \<open>on_fpIns\<close> runs a
  method of the instance on the daemon's parts.\<close>

record ('s, 'c, 'b, 'pk, 'dc) FinalityProviderApp =
  ap_fps :: kvdb
  ap_pubRandStore :: kvdb
  ap_em :: 's
  ap_consumerCon :: 'c
  ap_cc :: 'b
  ap_poller :: ChainPoller
  ap_services :: "('pk, Description, 'dc) fp_services"
  ap_fpIns :: "('s, 'c, 'pk, Description, 'dc) FinalityProviderInstance option"
  ap_startOnce :: bool
  ap_stopOnce :: bool
  ap_loops :: bool

definition attach ::
  "('s, 'c, 'b, 'pk, 'dc) FinalityProviderApp \<Rightarrow> ('s, 'c, 'pk, Description, 'dc) FinalityProviderInstance \<Rightarrow>
     ('s, 'c, 'pk, Description, 'dc) FinalityProviderInstance" where
  "attach app fp = fp\<lparr>fi_fpState := (fi_fpState fp)\<lparr>fps_s := ap_fps app\<rparr>, fi_pubRandState := ap_pubRandStore app,
     fi_em := ap_em app, fi_consumerCon := ap_consumerCon app, fi_poller := ap_poller app\<rparr>"

definition detach ::
  "('s, 'c, 'pk, Description, 'dc) FinalityProviderInstance \<Rightarrow> ('s, 'c, 'b, 'pk, 'dc) FinalityProviderApp \<Rightarrow>
     ('s, 'c, 'b, 'pk, 'dc) FinalityProviderApp" where
  "detach fp app = app\<lparr>ap_fps := fps_s (fi_fpState fp), ap_pubRandStore := fi_pubRandState fp, ap_em := fi_em fp,
     ap_consumerCon := fi_consumerCon fp, ap_poller := fi_poller fp, ap_fpIns := Some fp\<rparr>"

definition on_fpIns ::
  "(('s, 'c, 'pk, Description, 'dc) FinalityProviderInstance, 'a) cmd \<Rightarrow> (('s, 'c, 'b, 'pk, 'dc) FinalityProviderApp, 'a) cmd" where
  "on_fpIns m app =
     (case ap_fpIns app of
        None \<Rightarrow> (Crash ''nil pointer dereference'', app)
      | Some fp \<Rightarrow> (case m (attach app fp) of (r, fp) \<Rightarrow> (r, detach fp app)))"

definition on_fps :: "(kvdb, 'a) cmd \<Rightarrow> (('s, 'c, 'b, 'pk, 'dc) FinalityProviderApp, 'a) cmd" where
  "on_fps m app = (case m (ap_fps app) of (r, db) \<Rightarrow> (r, app\<lparr>ap_fps := db\<rparr>))"

definition on_cc :: "('b, 'a) cmd \<Rightarrow> (('s, 'c, 'b, 'pk, 'dc) FinalityProviderApp, 'a) cmd" where
  "on_cc m app = (case m (ap_cc app) of (r, b) \<Rightarrow> (r, app\<lparr>ap_cc := b\<rparr>))"

definition on_apConsumer :: "('c, 'a) cmd \<Rightarrow> (('s, 'c, 'b, 'pk, 'dc) FinalityProviderApp, 'a) cmd" where
  "on_apConsumer m app = (case m (ap_consumerCon app) of (r, c) \<Rightarrow> (r, app\<lparr>ap_consumerCon := c\<rparr>))"

definition on_apEm :: "('s, 'a) cmd \<Rightarrow> (('s, 'c, 'b, 'pk, 'dc) FinalityProviderApp, 'a) cmd" where
  "on_apEm m app = (case m (ap_em app) of (r, s) \<Rightarrow> (r, app\<lparr>ap_em := s\<rparr>))"

text \<open>The Babylon client as the daemon sees it (\<^verbatim>\<open>api.BabylonController\<close>); the provider's record on the chain.\<close>

record 'dc FpOnChain = FinalityProviderResponse +
  oc_BtcPk :: bytes
  oc_Commission :: "'dc option"
  oc_CommissionInfo :: "('dc \<times> 'dc) option"
  oc_Height :: u64

record ('b, 'pk, 'dc) BabylonController =
  ac_QueryFinalityProvider :: "'pk \<Rightarrow> 'dc FpOnChain go"
  ac_RegisterFinalityProvider :: "('pk, 'dc CommissionRates) RegisterFinalityProviderRequest \<Rightarrow> ('b, TxResponse) cmd"
  ac_EditFinalityProvider :: "('pk, 'dc) EditFinalityProviderRequest \<Rightarrow> ('b, Description \<times> 'dc option) cmd"

text \<open>Functions of other packages: keys and addresses, the keyring, the hash, protobuf and the status names.\<close>

record ('pk, 'sg, 'rec) app_ext =
  ax_ToBTCPK :: "bytes \<Rightarrow> 'pk go"
  ax_BIP340 :: "'pk \<Rightarrow> bytes"
  ax_MarshalHex :: "bytes \<Rightarrow> string"
  ax_FromHex :: "string \<Rightarrow> bytes go"
  ax_Key :: "string \<Rightarrow> 'rec go"
  ax_GetAddress :: "'rec \<Rightarrow> bytes go"
  ax_AccString :: "bytes \<Rightarrow> string"
  ax_AccAddressFromBech32 :: "string \<Rightarrow> bytes go"
  ax_tmhash :: "bytes \<Rightarrow> bytes"
  ax_SigBytes :: "'sg \<Rightarrow> bytes"
  ax_PopMarshal :: "bytes \<Rightarrow> bytes go"
  ax_StatusString :: "FinalityProviderStatus \<Rightarrow> string"

text \<open>The answers of the world during one call: faults of the database, by transaction; the chain, by query; the clock.\<close>

record ('s, 'c, 'b, 'pk, 'fv, 'sc, 'sg, 'dc) app_env =
  an_flt :: "nat \<Rightarrow> dbfault"
  an_cc :: "nat \<Rightarrow> 'pk ConsumerController"
  an_bc :: "('b, 'pk, 'dc) BabylonController"
  an_Em :: "('s, 'fv, 'sc, 'sg) EOTSManager"
  an_Unjail :: "'pk \<Rightarrow> ('c, TxResponse) cmd"
  an_now :: u64

section \<open>Queries\<close>

record FinalityProviderInfo =
  in_FpAddr :: bytes
  in_BtcPkHex :: string
  in_Description :: Description
  in_Commission :: bytes
  in_LastVotedHeight :: u64
  in_Status :: string
  in_CommissionInfo :: "CommissionInfo option"
  in_ChainId :: bytes
  in_IsRunning :: bool

definition ToFinalityProviderInfo ::
  "('pk, Description, 'dc) fp_ext \<Rightarrow> ('pk, 'sg, 'rec) app_ext \<Rightarrow> ('pk, Description, 'dc) StoredFinalityProvider \<Rightarrow> FinalityProviderInfo" where
  "ToFinalityProviderInfo x ax sfp =
     \<lparr>in_FpAddr = sf_FPAddr sfp, in_BtcPkHex = ax_MarshalHex ax (ax_BIP340 ax (sf_BtcPk sfp)), in_Description = sf_Description sfp,
      in_Commission = fx_DecString x (sf_Commission sfp), in_LastVotedHeight = sf_LastVotedHeight sfp,
      in_Status = ax_StatusString ax (sf_Status sfp), in_CommissionInfo = sf_CommissionInfo sfp, in_ChainId = sf_ChainID sfp,
      in_IsRunning = False\<rparr>"

definition GetFinalityProviderInstance ::
  "('s, 'c, 'b, 'pk, 'dc) FinalityProviderApp \<Rightarrow> ('s, 'c, 'pk, Description, 'dc) FinalityProviderInstance go" where
  "GetFinalityProviderInstance app =
     (case ap_fpIns app of None \<Rightarrow> Err (ErrText ''finality provider does not exist'') | Some fp \<Rightarrow> Ok fp)"

definition GetBtcPkHex ::
  "('pk, 'sg, 'rec) app_ext \<Rightarrow> ('s, 'c, 'pk, Description, 'dc) FinalityProviderInstance \<Rightarrow> string" where
  "GetBtcPkHex ax fp = ax_MarshalHex ax (ax_BIP340 ax (GetBtcPk (fi_fpState fp)))"

definition IsFinalityProviderRunning ::
  "('pk, 'sg, 'rec) app_ext \<Rightarrow> bytes \<Rightarrow> ('s, 'c, 'b, 'pk, 'dc) FinalityProviderApp \<Rightarrow> bool" where
  "IsFinalityProviderRunning ax fpPk app =
     (case ap_fpIns app of
        None \<Rightarrow> False
      | Some fp \<Rightarrow> if GetBtcPkHex ax fp \<noteq> ax_MarshalHex ax fpPk then False else fi_isStarted fp)"

definition GetFinalityProviderInfo ::
  "('pk, Description, 'dc) fp_ext \<Rightarrow> ('pk, 'sg, 'rec) app_ext \<Rightarrow> dbfault \<Rightarrow> bytes \<Rightarrow>
     ('s, 'c, 'b, 'pk, 'dc) FinalityProviderApp \<Rightarrow> FinalityProviderInfo go" where
  "GetFinalityProviderInfo x ax flt fpPk app =
     rbind (must (ax_ToBTCPK ax fpPk)) (\<lambda>pk.
     rbind (wrap ''failed to get finality provider: '' (GetFinalityProvider x flt pk (ap_fps app))) (\<lambda>storedFp.
     let fpInfo = ToFinalityProviderInfo x ax storedFp in
     Ok (if IsFinalityProviderRunning ax fpPk app then fpInfo\<lparr>in_IsRunning := True\<rparr> else fpInfo)))"

definition ListAllFinalityProvidersInfo ::
  "('pk, Description, 'dc) fp_ext \<Rightarrow> ('pk, 'sg, 'rec) app_ext \<Rightarrow> dbfault \<Rightarrow>
     ('s, 'c, 'b, 'pk, 'dc) FinalityProviderApp \<Rightarrow> FinalityProviderInfo list go" where
  "ListAllFinalityProvidersInfo x ax flt app =
     rbind (wrap ''failed to get all stored finality providers: '' (GetAllStoredFinalityProviders x flt (ap_fps app))) (\<lambda>storedFps.
     Ok (map (\<lambda>fp. let fpInfo = ToFinalityProviderInfo x ax fp in
       if IsFinalityProviderRunning ax (ax_BIP340 ax (sf_BtcPk fp)) app then fpInfo\<lparr>in_IsRunning := True\<rparr> else fpInfo) storedFps))"

section \<open>Starting and stopping the daemon\<close>

definition syncFinalityProviderStatus ::
  "('pk, Description, 'dc) fp_ext \<Rightarrow> ('pk, 'sg, 'rec) app_ext \<Rightarrow> 'pk ConsumerController \<Rightarrow> dbfault \<Rightarrow>
     ('pk, Description, 'dc) StoredFinalityProvider \<Rightarrow> (kvdb, unit) cmd" where
  "syncFinalityProviderStatus x ax cc flt fp =
     (case cc_QueryLatestBlock cc of
        Crash c \<Rightarrow> liftR (Crash c)
      | Err e \<Rightarrow> liftR (Err (Wrapf ''failed to query latest block height: '' e))
      | Ok None \<Rightarrow> liftR (Err (ErrText ''failed to query latest block height: %!w(<nil>)''))
      | Ok (Some latestBlock) \<Rightarrow>
          sbind (liftR (wrap (''failed to query voting power for finality provider '' @ ax_MarshalHex ax (ax_BIP340 ax (sf_BtcPk fp)) @
              '' at height '' @ fmt_u64 (bi_height latestBlock) @ '': '')
            (cc_QueryFinalityProviderHasPower cc (sf_BtcPk fp) (bi_height latestBlock)))) (\<lambda>hasPower.
          if hasPower
          then (if sf_Status fp \<noteq> ACTIVE then MustSetFpStatus x flt (sf_BtcPk fp) ACTIVE else liftR (Ok ()))
          else
            sbind (liftR (wrap ''failed to query finality provider status: '' (cc_QueryFinalityProviderStatus cc (sf_BtcPk fp)))) (\<lambda>(slashed, jailed).
            MustSetFpStatus x flt (sf_BtcPk fp) (if slashed then SLASHED else if jailed then JAILED else INACTIVE))))"

fun syncLoop ::
  "('pk, Description, 'dc) fp_ext \<Rightarrow> ('pk, 'sg, 'rec) app_ext \<Rightarrow> (nat \<Rightarrow> 'pk ConsumerController) \<Rightarrow> (nat \<Rightarrow> dbfault) \<Rightarrow> nat \<Rightarrow>
     ('pk, Description, 'dc) StoredFinalityProvider list \<Rightarrow> (kvdb, unit) cmd" where
  "syncLoop x ax cc flt i [] = liftR (Ok ())"
| "syncLoop x ax cc flt i (fp # fps) =
     sbind (syncFinalityProviderStatus x ax (cc i) (flt (Suc i)) fp) (\<lambda>_. syncLoop x ax cc flt (Suc i) fps)"

definition syncAllFinalityProvidersStatus ::
  "('pk, Description, 'dc) fp_ext \<Rightarrow> ('pk, 'sg, 'rec) app_ext \<Rightarrow> (nat \<Rightarrow> 'pk ConsumerController) \<Rightarrow> (nat \<Rightarrow> dbfault) \<Rightarrow> (kvdb, unit) cmd" where
  "syncAllFinalityProvidersStatus x ax cc flt db =
     sbind (liftR (wrap ''failed to get all stored finality providers: '' (GetAllStoredFinalityProviders x (flt 0) db)))
       (syncLoop x ax cc flt 0) db"

definition app_Start ::
  "('pk, Description, 'dc) fp_ext \<Rightarrow> ('pk, 'sg, 'rec) app_ext \<Rightarrow> (nat \<Rightarrow> 'pk ConsumerController) \<Rightarrow> (nat \<Rightarrow> dbfault) \<Rightarrow>
     (('s, 'c, 'b, 'pk, 'dc) FinalityProviderApp, unit) cmd" where
  "app_Start x ax cc flt app =
     (if ap_startOnce app then (Ok (), app)
      else sbind (on_fps (syncAllFinalityProvidersStatus x ax cc flt)) (\<lambda>_ app. (Ok (), app\<lparr>ap_loops := True\<rparr>)) (app\<lparr>ap_startOnce := True\<rparr>))"

text \<open>The wait ends when the event loops have, which they do at the end of the context only.\<close>

definition app_Stop ::
  "(bytes \<Rightarrow> string) \<Rightarrow> 'pk ConsumerController \<Rightarrow> bool \<Rightarrow> unit go \<Rightarrow> (('s, 'c, 'b, 'pk, 'dc) FinalityProviderApp, unit) cmd" where
  "app_Stop hex cc ctxDone emClose app =
     (if ap_stopOnce app then (Ok (), app)
      else if ap_loops app \<and> \<not> ctxDone then (Crash ''waiting for the event loops'', app\<lparr>ap_stopOnce := True\<rparr>)
      else
        sbind (\<lambda>app. case ap_fpIns app of
            Some fp \<Rightarrow> if fi_isStarted fp then wrapS ''failed to close the fp instance: '' (on_fpIns (fpi_Stop hex cc)) app else (Ok (), app)
          | None \<Rightarrow> (Ok (), app)) (\<lambda>_.
        liftR (wrap ''failed to close the EOTS manager: '' emClose)) (app\<lparr>ap_stopOnce := True, ap_loops := False\<rparr>))"

section \<open>Registration\<close>

definition NewChainKeyringControllerWithKeyring :: "string \<Rightarrow> string go" where
  "NewChainKeyringControllerWithKeyring name = (if name = [] then Err (ErrText ''the key name should not be empty'') else Ok name)"

definition keyring_Address :: "('pk, 'sg, 'rec) app_ext \<Rightarrow> string \<Rightarrow> bytes go" where
  "keyring_Address ax fpName =
     rbind (wrap ''failed to get address: '' (ax_Key ax fpName)) (\<lambda>k.
       wrap ''failed to get address from key: '' (ax_GetAddress ax k))"

text \<open>The proof of possession is a BIP-340 signature of the hashed address; the value is the signature's bytes.\<close>

definition CreatePop ::
  "('pk, 'sg, 'rec) app_ext \<Rightarrow> ('s, 'fv, 'sc, 'sg) EOTSManager \<Rightarrow> bytes \<Rightarrow> bytes \<Rightarrow> (('s, 'c, 'b, 'pk, 'dc) FinalityProviderApp, bytes) cmd" where
  "CreatePop ax em fpAddress fpPk =
     sbind (wrapS ''failed to get schnorr signature from the EOTS manager: ''
       (on_apEm (em_SignSchnorrSig em fpPk (ax_tmhash ax fpAddress)))) (\<lambda>sig. liftR (Ok (ax_SigBytes ax sig)))"

definition putFpFromResponse ::
  "('pk, Description, 'dc) fp_ext \<Rightarrow> ('pk, 'sg, 'rec) app_ext \<Rightarrow> (nat \<Rightarrow> dbfault) \<Rightarrow> u64 \<Rightarrow> 'pk ConsumerController \<Rightarrow> 'dc FpOnChain \<Rightarrow> bytes \<Rightarrow>
     (kvdb, unit) cmd" where
  "putFpFromResponse x ax flt now cc fp chainID =
     sbind (liftR (must (ax_ToBTCPK ax (oc_BtcPk fp)))) (\<lambda>btcPk db.
     case GetFinalityProvider x (flt 0) btcPk db of
       Crash c \<Rightarrow> (Crash c, db)
     | Err err \<Rightarrow>
         if error_is err ErrFinalityProviderNotFound
         then sbind (liftR (wrap ''err converting fp addr: '' (ax_AccAddressFromBech32 ax (fr_Addr fp)))) (\<lambda>addr.
           case (oc_Commission fp, oc_CommissionInfo fp) of
             (None, _) \<Rightarrow> liftR (Err (ErrText ''nil Commission in FinalityProviderResponse''))
           | (_, None) \<Rightarrow> liftR (Err (ErrText ''nil CommissionInfo in FinalityProviderResponse''))
           | (Some rate, Some (maxRate, maxChangeRate)) \<Rightarrow>
               wrapS ''failed to save finality-provider: ''
                 (CreateFinalityProvider x (flt 1) now (ax_AccString ax addr) btcPk (fr_Description fp)
                   \<lparr>cr_Rate = rate, cr_MaxRate = maxRate, cr_MaxChangeRate = maxChangeRate\<rparr> chainID)) db
         else (Err (Wrapf ''failed to get finality provider: '' err), db)
     | Ok _ \<Rightarrow>
         sbind (wrapS ''failed to set finality provider description: '' (SetFpDescription x (flt 1) now btcPk (fr_Description fp) (oc_Commission fp))) (\<lambda>_.
         sbind (wrapS ''failed to set finality provider last voted height: ''
           (SetFpLastVotedHeight x (flt 2) btcPk (ucast (fr_HighestVotedHeight fp)))) (\<lambda>_.
         sbind (liftR (wrap (''failed to query voting power for finality provider '' @ ax_MarshalHex ax (oc_BtcPk fp) @ '': '')
           (cc_QueryFinalityProviderHasPower cc btcPk (oc_Height fp)))) (\<lambda>hasPower.
         wrapS (''failed to update status for finality provider '' @ ax_MarshalHex ax (oc_BtcPk fp) @ '': '')
           (SetFpStatus x (flt 3) btcPk
             (if hasPower then ACTIVE else if fr_SlashedBtcHeight fp > 0 then SLASHED else if fr_Jailed fp then JAILED else INACTIVE))))) db)"

record 'dc CreateFinalityProviderRequest =
  cq_chainID :: bytes
  cq_fpAddr :: bytes
  cq_btcPubKey :: bytes
  cq_pop :: bytes
  cq_description :: Description
  cq_commission :: "'dc CommissionRates"

text \<open>One request of the registration loop: the value sent back to the caller.\<close>

definition registrationLoop ::
  "('pk, Description, 'dc) fp_ext \<Rightarrow> ('pk, 'sg, 'rec) app_ext \<Rightarrow> ('b, 'pk, 'dc) BabylonController \<Rightarrow> 'dc CreateFinalityProviderRequest \<Rightarrow>
     (('s, 'c, 'b, 'pk, 'dc) FinalityProviderApp, string) cmd" where
  "registrationLoop x ax bc req =
     sbind (liftR (ax_PopMarshal ax (cq_pop req))) (\<lambda>popBytes.
     sbind (liftR (fx_DescMarshal x (cq_description req))) (\<lambda>desBytes.
     sbind (liftR (must (ax_ToBTCPK ax (cq_btcPubKey req)))) (\<lambda>fpPk.
     sbind (on_cc (ac_RegisterFinalityProvider bc \<lparr>rr_ChainID = cq_chainID req, rr_FpPk = fpPk, rr_Pop = popBytes,
       rr_Commission = cq_commission req, rr_Description = desBytes\<rparr>)) (\<lambda>res.
     liftR (Ok (tx_TxHash res))))))"

definition storedInfo ::
  "('pk, Description, 'dc) fp_ext \<Rightarrow> ('pk, 'sg, 'rec) app_ext \<Rightarrow> dbfault \<Rightarrow> 'pk \<Rightarrow> (('s, 'c, 'b, 'pk, 'dc) FinalityProviderApp, FinalityProviderInfo) cmd" where
  "storedInfo x ax flt pk app =
     (rbind (wrap ''failed to get finality provider: '' (GetFinalityProvider x flt pk (ap_fps app))) (\<lambda>sfp. Ok (ToFinalityProviderInfo x ax sfp)), app)"

definition registerNew ::
  "('pk, Description, 'dc) fp_ext \<Rightarrow> ('pk, 'sg, 'rec) app_ext \<Rightarrow> ('s, 'c, 'b, 'pk, 'fv, 'sc, 'sg, 'dc) app_env \<Rightarrow> 'dc CreateFinalityProviderRequest \<Rightarrow>
     'pk \<Rightarrow> (('s, 'c, 'b, 'pk, 'dc) FinalityProviderApp, FinalityProviderInfo \<times> string) cmd" where
  "registerNew x ax env req btcPk app =
     (if \<not> ap_loops app then (Crash ''blocked on the request channel'', app)
      else
        sbind (registrationLoop x ax (an_bc env) req) (\<lambda>txHash.
        sbind (wrapS ''failed to save finality-provider: ''
          (on_fps (CreateFinalityProvider x (an_flt env 4) (an_now env) (ax_AccString ax (cq_fpAddr req)) btcPk (cq_description req)
            (cq_commission req) (cq_chainID req)))) (\<lambda>_.
        sbind (storedInfo x ax (an_flt env 5) btcPk) (\<lambda>info. liftR (Ok (info, txHash))))) app)"

definition app_CreateFinalityProvider ::
  "('pk, Description, 'dc) fp_ext \<Rightarrow> ('pk, 'sg, 'rec) app_ext \<Rightarrow> ('s, 'c, 'b, 'pk, 'fv, 'sc, 'sg, 'dc) app_env \<Rightarrow> string \<Rightarrow> bytes \<Rightarrow>
     bytes option \<Rightarrow> Description \<Rightarrow> 'dc CommissionRates \<Rightarrow> (('s, 'c, 'b, 'pk, 'dc) FinalityProviderApp, FinalityProviderInfo \<times> string) cmd" where
  "app_CreateFinalityProvider x ax env keyName chainID eotsPk description commission =
     sbind (liftR (wrap ''failed to create keyring controller: '' (NewChainKeyringControllerWithKeyring keyName))) (\<lambda>kr.
     sbind (liftR (wrap (''the keyname '' @ keyName @ '' does not exist, add the key first: '') (keyring_Address ax kr))) (\<lambda>fpAddr.
     case eotsPk of
       None \<Rightarrow> liftR (Err (ErrText ''eots pk cannot be nil''))
     | Some eotsPk \<Rightarrow>
         sbind (wrapS ''failed to create proof-of-possession of the finality-provider: '' (CreatePop ax (an_Em env) fpAddr eotsPk)) (\<lambda>pop.
         sbind (liftR (must (ax_ToBTCPK ax eotsPk))) (\<lambda>btcPk.
         case ac_QueryFinalityProvider (an_bc env) btcPk of
           Crash c \<Rightarrow> liftR (Crash c)
         | Err err \<Rightarrow>
             if \<not> contains (error_text err) ''the finality provider is not found''
             then liftR (Err (Wrapf ''err getting finality provider: '' err))
             else registerNew x ax env \<lparr>cq_chainID = chainID, cq_fpAddr = fpAddr, cq_btcPubKey = eotsPk, cq_pop = pop,
                    cq_description = description, cq_commission = commission\<rparr> btcPk
         | Ok resp \<Rightarrow>
             sbind (on_fps (putFpFromResponse x ax (an_flt env) (an_now env) (an_cc env 0) resp chainID)) (\<lambda>_.
             sbind (storedInfo x ax (an_flt env 4) btcPk) (\<lambda>info. liftR (Ok (info, []))))))))"

section \<open>Unjailing\<close>

text \<open>One request of the unjailing loop.\<close>

definition unjailFpLoop ::
  "('pk, Description, 'dc) fp_ext \<Rightarrow> ('pk, 'sg, 'rec) app_ext \<Rightarrow> ('s, 'c, 'b, 'pk, 'fv, 'sc, 'sg, 'dc) app_env \<Rightarrow> bytes \<Rightarrow>
     (('s, 'c, 'b, 'pk, 'dc) FinalityProviderApp, string) cmd" where
  "unjailFpLoop x ax env btcPubKey =
     (let pkHex = ax_MarshalHex ax btcPubKey in
      sbind (liftR (must (ax_ToBTCPK ax btcPubKey))) (\<lambda>pk.
      sbind (liftR (wrap (''failed to query jailing status of the finality provider '' @ pkHex @ '': '')
        (cc_QueryFinalityProviderStatus (an_cc env 0) pk))) (\<lambda>(slashed, jailed).
      if slashed then liftR (Err (ErrText (''the finality provider '' @ pkHex @ '' is already slashed'')))
      else if \<not> jailed then liftR (Err (ErrText (''the finality provider '' @ pkHex @ '' is not jailed'')))
      else
        sbind (on_apConsumer (an_Unjail env pk)) (\<lambda>res.
        sbind (on_fps (MustSetFpStatus x (an_flt env 0) pk INACTIVE)) (\<lambda>_.
        liftR (Ok (tx_TxHash res)))))))"

text \<open>\<open>ctxDone\<close>: the context ended before the answer was read.\<close>

definition UnjailFinalityProvider ::
  "('pk, Description, 'dc) fp_ext \<Rightarrow> ('pk, 'sg, 'rec) app_ext \<Rightarrow> ('s, 'c, 'b, 'pk, 'fv, 'sc, 'sg, 'dc) app_env \<Rightarrow> goerror option \<Rightarrow> bytes \<Rightarrow>
     (('s, 'c, 'b, 'pk, 'dc) FinalityProviderApp, string) cmd" where
  "UnjailFinalityProvider x ax env ctxDone fpPk app =
     (if \<not> ap_loops app then (Crash ''blocked on the request channel'', app)
      else case (unjailFpLoop x ax env fpPk app, ctxDone) of
        ((Crash c, app), _) \<Rightarrow> (Crash c, app)
      | ((_, app), Some e) \<Rightarrow> (Err (Wrapf ''finality-provider app is shutting down: '' e), app)
      | ((Err err, app), None) \<Rightarrow> (Err err, app)
      | ((Ok txHash, app), None) \<Rightarrow>
          sbind (liftR (must (ax_ToBTCPK ax fpPk))) (\<lambda>pk.
          sbind (\<lambda>app. (wrap ''failed to get finality provider from db: '' (GetFinalityProvider x (an_flt env 1) pk (ap_fps app)), app)) (\<lambda>_.
          sbind (wrapS ''failed to update finality-provider status after unjailing: '' (on_fps (SetFpStatus x (an_flt env 2) pk INACTIVE))) (\<lambda>_.
          liftR (Ok txHash)))) app)"

section \<open>The instance\<close>

definition startFinalityProviderInstance ::
  "('pk, Description, 'dc) fp_ext \<Rightarrow> ('pk, 'sg, 'rec) app_ext \<Rightarrow> (nat \<Rightarrow> dbfault) \<Rightarrow> (nat \<Rightarrow> nat \<Rightarrow> 'pk ConsumerController) \<Rightarrow> fpi_config \<Rightarrow> bytes \<Rightarrow>
     (('s, 'c, 'b, 'pk, 'dc) FinalityProviderApp, unit) cmd" where
  "startFinalityProviderInstance x ax flt cc cfg pk =
     sbind (\<lambda>app. case ap_fpIns app of
         None \<Rightarrow>
           (case NewFinalityProviderInstance x (flt 3) (ax_ToBTCPK ax) (ax_BIP340 ax) (ax_MarshalHex ax) pk (ap_fps app) (ap_pubRandStore app)
              (ap_em app) (ap_consumerCon app) (ap_poller app) (ap_services app) of
              (r, sv) \<Rightarrow>
                (case wrap (''failed to create finality provider instance '' @ ax_MarshalHex ax pk @ '': '') r of
                   Ok fp \<Rightarrow> (Ok (), app\<lparr>ap_services := sv, ap_fpIns := Some fp\<rparr>)
                 | Err e \<Rightarrow> (Err e, app\<lparr>ap_services := sv\<rparr>)
                 | Crash c \<Rightarrow> (Crash c, app\<lparr>ap_services := sv\<rparr>)))
       | Some fp \<Rightarrow>
           if pk \<noteq> fi_btcPk fp
           then (Err (ErrText (''the finality provider daemon is already bonded with the finality provider '' @ ax_MarshalHex ax (fi_btcPk fp) @
                  '',please restart the daemon to switch to another instance'')), app)
           else (Ok (), app)) (\<lambda>_.
     on_fpIns (fpi_Start x flt (ax_ToBTCPK ax) (ax_MarshalHex ax) cc cfg))"

definition StartFinalityProvider where
  "StartFinalityProvider = startFinalityProviderInstance"

definition removeFinalityProviderInstance ::
  "('pk, 'sg, 'rec) app_ext \<Rightarrow> 'pk ConsumerController \<Rightarrow> (('s, 'c, 'b, 'pk, 'dc) FinalityProviderApp, unit) cmd" where
  "removeFinalityProviderInstance ax cc app =
     (case ap_fpIns app of
        None \<Rightarrow> (Err (ErrText ''the finality provider instance does not exist''), app)
      | Some fpi \<Rightarrow>
          sbind (\<lambda>app. if fi_isStarted fpi
              then (case on_fpIns (fpi_Stop (ax_MarshalHex ax) cc) app of
                  (Err _, app) \<Rightarrow> (Err (ErrText (''failed to stop the finality provider instance '' @ GetBtcPkHex ax fpi)), app)
                | out \<Rightarrow> out)
              else (Ok (), app)) (\<lambda>_ app. (Ok (), app\<lparr>ap_fpIns := None\<rparr>)) app)"

definition setFinalityProviderSlashed ::
  "('pk, Description, 'dc) fp_ext \<Rightarrow> ('pk, 'sg, 'rec) app_ext \<Rightarrow> dbfault \<Rightarrow> 'pk ConsumerController \<Rightarrow> (('s, 'c, 'b, 'pk, 'dc) FinalityProviderApp, unit) cmd" where
  "setFinalityProviderSlashed x ax flt cc =
     sbind (on_fpIns (on_fpState (mustSetStatus x flt SLASHED))) (\<lambda>_ app.
     case removeFinalityProviderInstance ax cc app of
       (Err e, app) \<Rightarrow> (Crash ''failed to terminate a slashed finality-provider'', app)
     | out \<Rightarrow> out)"

text \<open>One critical error: slashing ends the instance, anything else ends the process (\<^verbatim>\<open>logger.Fatal\<close>).\<close>

definition monitorCriticalErr ::
  "('pk, Description, 'dc) fp_ext \<Rightarrow> ('pk, 'sg, 'rec) app_ext \<Rightarrow> dbfault \<Rightarrow> 'pk ConsumerController \<Rightarrow> CriticalError \<Rightarrow>
     (('s, 'c, 'b, 'pk, 'dc) FinalityProviderApp, unit) cmd" where
  "monitorCriticalErr x ax flt cc criticalErr app =
     (case GetFinalityProviderInstance app of
        Crash c \<Rightarrow> (Crash c, app)
      | Err _ \<Rightarrow> (Ok (), app)
      | Ok _ \<Rightarrow>
          if error_is (ce_err criticalErr) ErrFinalityProviderSlashed then setFinalityProviderSlashed x ax flt cc app
          else (Crash ''terminating the finality-provider instance due to critical error'', app))"

section \<open>The gRPC service\<close>

definition parseEotsPk :: "('pk, 'sg, 'rec) app_ext \<Rightarrow> string \<Rightarrow> bytes go" where
  "parseEotsPk ax eotsPkHex =
     (if eotsPkHex = [] then Err (ErrText ''eots-pk cannot be empty'')
      else wrap ''failed to parse EOTS public key: '' (ax_FromHex ax eotsPkHex))"

definition rpc_CreateFinalityProvider ::
  "('pk, Description, 'dc) fp_ext \<Rightarrow> ('pk, 'sg, 'rec) app_ext \<Rightarrow> ('s, 'c, 'b, 'pk, 'fv, 'sc, 'sg, 'dc) app_env \<Rightarrow> string \<Rightarrow> bytes \<Rightarrow>
     string \<Rightarrow> bytes \<Rightarrow> (bytes \<times> bytes \<times> bytes) option \<Rightarrow> (('s, 'c, 'b, 'pk, 'dc) FinalityProviderApp, FinalityProviderInfo \<times> string) cmd" where
  "rpc_CreateFinalityProvider x ax env keyName chainId eotsPkHex description commission =
     sbind (liftR (wrap ''failed to get commission rates: '' (GetCommissionRates x commission))) (\<lambda>commissionRates.
     sbind (liftR (wrap ''failed to unmarshal description: '' (fx_DescUnmarshal x description))) (\<lambda>description.
     sbind (liftR (wrap ''failed to parse EOTS public key: '' (parseEotsPk ax eotsPkHex))) (\<lambda>eotsPk.
     wrapS ''failed to create finality provider: ''
       (app_CreateFinalityProvider x ax env keyName chainId (Some eotsPk) description commissionRates))))"

text \<open>A vote by hand; the answer is the transaction and the key a double vote has revealed.\<close>

definition rpc_AddFinalitySignature ::
  "('pk, 'sc) sub_ext \<Rightarrow> 'pf pr_ext \<Rightarrow> ('pk, 'sg, 'rec) app_ext \<Rightarrow> ('ev, 'xk) evidence_ext \<Rightarrow> ('s, 'fv, 'sc, 'sg) EOTSManager \<Rightarrow> dbfault \<Rightarrow>
     (('pk, 'fv, 'sc) SubmitBatchFinalitySigsRequest \<Rightarrow> ('c, TxResponse option) cmd) \<Rightarrow> bool \<Rightarrow> string \<Rightarrow> u64 \<Rightarrow> bytes \<Rightarrow> bool \<Rightarrow>
     (('s, 'c, 'b, 'pk, 'dc) FinalityProviderApp, (string \<times> 'xk option) option) cmd" where
  "rpc_AddFinalitySignature sx px ax vx em flt submit ctxDone btcPk height appHash checkDoubleSign app =
     (if ctxDone then (Ok None, app)
      else case GetFinalityProviderInstance app of
          Crash c \<Rightarrow> (Crash c, app)
        | Err e \<Rightarrow> (Err (Wrapf ''failed to get finality provider instance: '' e), app)
        | Ok fpi \<Rightarrow>
            if GetBtcPkHex ax fpi \<noteq> btcPk
            then (Err (ErrText (''the finality provider running does not match the request, got: '' @ btcPk @ '', expected: '' @ GetBtcPkHex ax fpi)), app)
            else
              sbind (wrapS ''failed to submit finality signature: '' (on_fpIns
                (SubmitFinalitySignatureAndExtractPrivKey sx px vx em flt submit (NewBlockInfo height appHash False) checkDoubleSign))) (\<lambda>(txRes, privKey).
              liftR (Ok (Some (tx_TxHash txRes, privKey)))) app)"

definition rpc_UnjailFinalityProvider ::
  "('pk, Description, 'dc) fp_ext \<Rightarrow> ('pk, 'sg, 'rec) app_ext \<Rightarrow> ('s, 'c, 'b, 'pk, 'fv, 'sc, 'sg, 'dc) app_env \<Rightarrow> goerror option \<Rightarrow> string \<Rightarrow>
     (('s, 'c, 'b, 'pk, 'dc) FinalityProviderApp, string) cmd" where
  "rpc_UnjailFinalityProvider x ax env ctxDone btcPk =
     sbind (liftR (wrap ''failed to parse BTC public key: '' (ax_FromHex ax btcPk))) (\<lambda>fpPk.
     wrapS ''failed to unjail the finality-provider: '' (UnjailFinalityProvider x ax env ctxDone fpPk))"

definition rpc_QueryFinalityProvider ::
  "('pk, Description, 'dc) fp_ext \<Rightarrow> ('pk, 'sg, 'rec) app_ext \<Rightarrow> dbfault \<Rightarrow> string \<Rightarrow>
     ('s, 'c, 'b, 'pk, 'dc) FinalityProviderApp \<Rightarrow> FinalityProviderInfo go" where
  "rpc_QueryFinalityProvider x ax flt btcPk app =
     rbind (wrap ''failed to parse BTC public key: '' (ax_FromHex ax btcPk)) (\<lambda>fpPk.
     wrap ''failed to get finality provider info: '' (GetFinalityProviderInfo x ax flt fpPk app))"

definition rpc_QueryFinalityProviderList ::
  "('pk, Description, 'dc) fp_ext \<Rightarrow> ('pk, 'sg, 'rec) app_ext \<Rightarrow> dbfault \<Rightarrow> ('s, 'c, 'b, 'pk, 'dc) FinalityProviderApp \<Rightarrow>
     FinalityProviderInfo list go" where
  "rpc_QueryFinalityProviderList x ax flt app =
     wrap ''failed to list all finality providers info: '' (ListAllFinalityProvidersInfo x ax flt app)"

definition rpc_EditFinalityProvider ::
  "('pk, Description, 'dc) fp_ext \<Rightarrow> ('pk, 'sg, 'rec) app_ext \<Rightarrow> ('s, 'c, 'b, 'pk, 'fv, 'sc, 'sg, 'dc) app_env \<Rightarrow> string \<Rightarrow> bytes \<Rightarrow> bytes go \<Rightarrow>
     (('s, 'c, 'b, 'pk, 'dc) FinalityProviderApp, unit) cmd" where
  "rpc_EditFinalityProvider x ax env btcPk commission descBytes =
     sbind (liftR (wrap ''failed to parse BTC public key: '' (ax_FromHex ax btcPk))) (\<lambda>fpPk.
     sbind (liftR (if commission \<noteq> [] then rbind (wrap ''failed to parse commission: '' (fx_DecFromStr x commission)) (\<lambda>v. Ok (Some v)) else Ok None)) (\<lambda>rate.
     sbind (liftR (wrap ''failed to marshal description: '' descBytes)) (\<lambda>descBytes.
     sbind (liftR (must (ax_ToBTCPK ax fpPk))) (\<lambda>fpPub.
     sbind (wrapS ''failed to edit finality provider: ''
       (on_cc (ac_EditFinalityProvider (an_bc env) \<lparr>er_FpPk = fpPub, er_Commission = rate, er_Description = descBytes\<rparr>))) (\<lambda>(desc, comm).
     wrapS ''failed to set finality provider description: ''
       (on_fps (SetFpDescription x (an_flt env 0) (an_now env) fpPub desc comm)))))))"

definition rpc_UnsafeRemoveMerkleProof ::
  "'pf pr_ext \<Rightarrow> ('pk, 'sg, 'rec) app_ext \<Rightarrow> dbfault \<Rightarrow> string \<Rightarrow> bytes \<Rightarrow> u64 \<Rightarrow> (('s, 'c, 'b, 'pk, 'dc) FinalityProviderApp, unit) cmd" where
  "rpc_UnsafeRemoveMerkleProof px ax flt btcPkHex chainId targetHeight =
     sbind (liftR (wrap ''failed to parse EOTS public key: '' (parseEotsPk ax btcPkHex))) (\<lambda>fpPk app.
     case RemovePubRandProofList px flt chainId fpPk targetHeight (ap_pubRandStore app) of
       (r, db) \<Rightarrow> (wrap ''failed to remove merkle proof list: '' r, app\<lparr>ap_pubRandStore := db\<rparr>))"

text \<open>The handler of the daemon's own backup request writes to the file system only.\<close>

definition fpd_rpc_Backup ::
  "unit go \<Rightarrow> unit go \<Rightarrow> unit go \<Rightarrow> bytes \<Rightarrow> bytes \<Rightarrow> bytes \<Rightarrow> ('s, 'c, 'b, 'pk, 'dc) FinalityProviderApp \<Rightarrow> (fp_backups, bytes) cmd" where
  "fpd_rpc_Backup mkdirRes createRes copyRes timestamp dbPath backupDir app =
     wrapS ''failed to backup fpd database: '' (pr_BackupDB mkdirRes createRes copyRes timestamp dbPath backupDir (ap_pubRandStore app))"

end
