(* ===== verification/App_Behaviour.thy ===== *)
theory App_Behaviour
  imports FP_App Instance_Behaviour
begin

text \<open>
  What the daemon does to the stored providers and the chain: the synchronization at the start, unjailing,
  registration, and what happens to a slashed provider.
\<close>

section \<open>A concrete daemon\<close>

definition enc_desc :: "Description \<Rightarrow> bytes" where
  "enc_desc d = esc (ds_Moniker d) @ esc (ds_Identity d) @ esc (ds_Website d) @ esc (ds_SecurityContact d) @ esc (ds_Details d)"

definition dec_desc :: "bytes \<Rightarrow> Description" where
  "dec_desc b = (case unescs 5 b of
     Some ([m, i, w, s, d], _) \<Rightarrow> \<lparr>ds_Moniker = m, ds_Identity = i, ds_Website = w, ds_SecurityContact = s, ds_Details = d\<rparr>
   | _ \<Rightarrow> \<lparr>ds_Moniker = [], ds_Identity = [], ds_Website = [], ds_SecurityContact = [], ds_Details = []\<rparr>)"

lemma dec_enc_desc [simp]: "dec_desc (enc_desc d) = d"
  by (simp add: dec_desc_def enc_desc_def eval_nat_numeral)

definition demo_fpx :: "(bytes, Description, bytes) fp_ext" where
  "demo_fpx = \<lparr>fx_SerializePubKey = (\<lambda>k. k), fx_ParsePubKey = Ok, fx_MarshalFP = plain_marshalFP,
     fx_UnmarshalFP = plain_unmarshalFP, fx_DescMarshal = (\<lambda>d. Ok (enc_desc d)), fx_DescUnmarshal = (\<lambda>b. Ok (dec_desc b)),
     fx_DecString = (\<lambda>d. d), fx_DecFromStr = Ok\<rparr>"

interpretation demo_fpx: fp_codec demo_fpx
  by unfold_locales (auto simp: demo_fpx_def plain_fp_round_trip)

lemma demo_fpx_store [simp]: "fpOf demo_fpx demoFpStore = [''pk'' \<mapsto> demoFp]" "wf_fpstore demo_fpx demoFpStore"
    "fx_SerializePubKey demo_fpx pk = pk"
  using fpOf_demoFpStore wf_demoFpStore by (simp_all add: fpOf_def wf_fpstore_def demo_fpx_def plain_fp_def)

lemma demo_fpx_set:
  assumes "wf_fpstore demo_fpx db" and "fpOf demo_fpx db pk = Some p"
  shows "\<exists>db'. SetFpStatus demo_fpx NoFault pk st db = (Ok (), db')"
proof -
  obtain m where "fx_MarshalFP demo_fpx (p\<lparr>pf_Status := st\<rparr>) = Ok m" by (simp add: demo_fpx_def plain_marshalFP_def)
  from demo_fpx.setFinalityProviderState_succeeds [OF assms(1) _ _ this, of pk p "\<lambda>fp. Ok (fp\<lparr>pf_Status := st\<rparr>)"] assms(2)
  show ?thesis by (simp add: SetFpStatus_def)
qed

lemma demo_fpx_get:
  assumes "wf_fpstore demo_fpx db" and "fpOf demo_fpx db pk = Some p"
  shows "\<exists>sfp. GetFinalityProvider demo_fpx NoFault pk db = Ok sfp \<and> sf_BtcPk sfp = pf_BtcPk p \<and> sf_Status sfp = pf_Status p"
  using demo_fpx.GetFinalityProvider_refines [OF assms(1), of pk] assms(2)
  by (simp add: protoFpToStoredFinalityProvider_def) (simp add: demo_fpx_def)

definition demo_ax :: "(bytes, bytes, bytes) app_ext" where
  "demo_ax = \<lparr>ax_ToBTCPK = Ok, ax_BIP340 = (\<lambda>k. k), ax_MarshalHex = (\<lambda>k. k), ax_FromHex = Ok, ax_Key = Ok, ax_GetAddress = Ok,
     ax_AccString = (\<lambda>a. a), ax_AccAddressFromBech32 = Ok, ax_tmhash = (\<lambda>b. b), ax_SigBytes = (\<lambda>b. b), ax_PopMarshal = Ok,
     ax_StatusString = (\<lambda>_. [])\<rparr>"

definition demo_app :: "((bytes, bytes) LocalEOTSManager, bytes list, bytes, Description, bytes) FinalityProviderInstance option \<Rightarrow>
    ((bytes, bytes) LocalEOTSManager, bytes list, (bytes, bytes CommissionRates) RegisterFinalityProviderRequest list, bytes, bytes) FinalityProviderApp"
where
  "demo_app ins = \<lparr>ap_fps = demoFpStore, ap_pubRandStore = emptyPrStore, ap_em = demo_lm, ap_consumerCon = [], ap_cc = [],
     ap_poller = NewChainPoller DefaultChainPollerConfig,
     ap_services = \<lparr>sv_rcBtcPk = None, sv_rcCfg = NewRandomnessCommitterConfig 2 10 0, sv_fsState = None\<rparr>,
     ap_fpIns = ins, ap_startOnce = False, ap_stopOnce = False, ap_loops = True\<rparr>"

text \<open>The chain does not know the provider; it accepts every registration and every request to unjail.\<close>

definition demo_appenv :: "bytes ConsumerController \<Rightarrow> ((bytes, bytes) LocalEOTSManager, bytes list,
    (bytes, bytes CommissionRates) RegisterFinalityProviderRequest list, bytes, bytes, bytes, bytes, bytes) app_env" where
  "demo_appenv cc = \<lparr>an_flt = (\<lambda>_. NoFault), an_cc = (\<lambda>_. cc),
     an_bc = \<lparr>ac_QueryFinalityProvider = (\<lambda>_. Err (ErrText ''the finality provider is not found'')),
       ac_RegisterFinalityProvider = (\<lambda>req sent. (Ok emptyTxResponse, sent @ [req])),
       ac_EditFinalityProvider = (\<lambda>_ sent. (Err (ErrText ''not found''), sent))\<rparr>,
     an_Em = localManager demo_ext (\<lambda>_. NoFault) 1, an_Unjail = (\<lambda>pk sent. (Ok emptyTxResponse, sent @ [pk])), an_now = 5\<rparr>"

lemma demo_GetAll: "\<exists>sfp. GetAllStoredFinalityProviders demo_fpx NoFault demoFpStore = Ok [sfp] \<and> sf_BtcPk sfp = ''pk''"
proof -
  obtain m where m: "plain_marshalFP demoFp = Ok m" by (simp add: plain_marshalFP_def)
  then have "fx_UnmarshalFP demo_fpx m = Ok demoFp" by (simp add: demo_fpx_def plain_fp_round_trip)
  then obtain sfp where sfp: "decodeStored demo_fpx m = Ok sfp" "sf_BtcPk sfp = ''pk''"
    by (simp add: decodeStored_def protoFpToStoredFinalityProvider_def) (simp add: demo_fpx_def demoFp_def)
  have "GetAllStoredFinalityProviders demo_fpx NoFault demoFpStore = Ok [sfp]"
    using m sfp(1) by (simp add: GetAllStoredFinalityProviders_def demoFpStore_def read_bucket_def)
  with sfp(2) show ?thesis by blast
qed

section \<open>Synchronization\<close>

lemma decodeAll_Ok: "decodeAll x b = Ok fps \<Longrightarrow> list_all2 (\<lambda>(k, v) fp. decodeStored x v = Ok fp) b fps"
  by (induction b arbitrary: fps rule: list.induct) (auto simp: go_simps split: prod.splits)

context fp_codec
begin

lemma GetAllStoredFinalityProviders_records:
  assumes wf: "wf_fpstore x db" and run: "GetAllStoredFinalityProviders x flt db = Ok fps"
  shows "distinct (map (\<lambda>fp. fx_SerializePubKey x (sf_BtcPk fp)) fps) \<and>
    set (map (\<lambda>fp. fx_SerializePubKey x (sf_BtcPk fp)) fps) = dom (fpOf x db) \<and>
    (\<forall>fp \<in> set fps. \<exists>p. fpOf x db (fx_SerializePubKey x (sf_BtcPk fp)) = Some p \<and> pf_Status p = sf_Status fp)"
proof -
  from run obtain b where b: "kv_buckets db finalityProviderBucketName = Some b" and dec: "decodeAll x b = Ok fps"
    by (auto simp: GetAllStoredFinalityProviders_def go_simps)
  have ok: "bucket_ok b" using wf b by (auto simp: wf_fpstore_def kv_ok_def)
  have rec: "fx_SerializePubKey x (sf_BtcPk fp) = k \<and> (\<exists>p. fpOf x db k = Some p \<and> pf_Status p = sf_Status fp)"
    if "(k, v) \<in> set b" "decodeStored x v = Ok fp" for k v fp
  proof -
    have get: "bkt_get b k = Some v" using that(1) ok bk.entries_get by auto
    then obtain p where p: "fx_UnmarshalFP x v = Ok p" "pf_BtcPk p = k" using wf b by (fastforce simp: wf_fpstore_def)
    with get b have "fpOf x db k = Some p" by (simp add: fpOf_def decodedOf_bucket)
    with p that(2) show ?thesis
      by (auto simp: decodeStored_def protoFpToStoredFinalityProvider_def go_simps dest: parse_serialize)
  qed
  have len: "length fps = length b" using list_all2_lengthD [OF decodeAll_Ok [OF dec]] by simp
  have all: "\<exists>v. (map fst b ! i, v) \<in> set b \<and> decodeStored x v = Ok (fps ! i)" if "i < length fps" for i
    using list_all2_nthD2 [OF decodeAll_Ok [OF dec] that] nth_mem [of i b] that len by (cases "b ! i") auto
  have keys: "map (\<lambda>fp. fx_SerializePubKey x (sf_BtcPk fp)) fps = map fst b"
  proof (rule nth_equalityI)
    fix i assume "i < length (map (\<lambda>fp. fx_SerializePubKey x (sf_BtcPk fp)) fps)"
    then have i: "i < length fps" by simp
    from all [OF i] rec show "map (\<lambda>fp. fx_SerializePubKey x (sf_BtcPk fp)) fps ! i = map fst b ! i" using i by auto
  qed (simp add: len)
  have "\<exists>p. fpOf x db (fx_SerializePubKey x (sf_BtcPk fp)) = Some p \<and> pf_Status p = sf_Status fp" if "fp \<in> set fps" for fp
  proof -
    from that obtain i where i: "i < length fps" "fps ! i = fp" by (auto simp: in_set_conv_nth)
    from all [OF i(1)] obtain v where "(map fst b ! i, v) \<in> set b" "decodeStored x v = Ok fp" using i(2) by auto
    from rec [OF this] show ?thesis by auto
  qed
  moreover have "k \<in> set (map fst b) \<longleftrightarrow> fpOf x db k \<noteq> None" for k
  proof
    assume "k \<in> set (map fst b)"
    then obtain i where "i < length fps" "map fst b ! i = k" by (auto simp: in_set_conv_nth len)
    with all [of i] rec show "fpOf x db k \<noteq> None" by fastforce
  next
    assume "fpOf x db k \<noteq> None"
    then obtain v where "bkt_get b k = Some v" using b by (cases "bkt_get b k") (simp_all add: fpOf_def decodedOf_bucket)
    then have "(k, v) \<in> set b" using ok bk.entries_get by blast
    then show "k \<in> set (map fst b)" by force
  qed
  then have "set (map fst b) = dom (fpOf x db)" by blast
  moreover have "distinct (map fst b)" using ok by (simp add: bucket_ok_def strict_sorted_iff)
  ultimately show ?thesis by (simp only: keys) blast
qed


end

text \<open>The status the chain's answers stand for.\<close>

definition chainStatus :: "'pk ConsumerController \<Rightarrow> 'pk \<Rightarrow> FinalityProviderStatus option" where
  "chainStatus cc pk =
     (case cc_QueryLatestBlock cc of
        Ok (Some b) \<Rightarrow>
          (case cc_QueryFinalityProviderHasPower cc pk (bi_height b) of
             Ok True \<Rightarrow> Some ACTIVE
           | Ok False \<Rightarrow>
               (case cc_QueryFinalityProviderStatus cc pk of
                  Ok (slashed, jailed) \<Rightarrow> Some (if slashed then SLASHED else if jailed then JAILED else INACTIVE)
                | _ \<Rightarrow> None)
           | _ \<Rightarrow> None)
      | _ \<Rightarrow> None)"

lemma MustSetFpStatus_Ok: "MustSetFpStatus x flt pk st db = (Ok u, db') \<Longrightarrow> SetFpStatus x flt pk st db = (Ok u, db')"
  by (auto simp: MustSetFpStatus_def go_simps split: prod.splits)

context fp_codec
begin

lemma SetFpStatus_record:
  assumes "wf_fpstore x db" and "SetFpStatus x flt pk st db = (Ok u, db')"
  shows "wf_fpstore x db' \<and> (\<exists>p. fpOf x db (fx_SerializePubKey x pk) = Some p \<and>
    fpOf x db' = (fpOf x db)(fx_SerializePubKey x pk \<mapsto> p\<lparr>pf_Status := st\<rparr>))"
  using setFinalityProviderState_Ok [OF assms(1) assms(2) [unfolded SetFpStatus_def]] by auto

end

lemma syncFinalityProviderStatus_record:
  assumes codec: "fp_codec x" and wf: "wf_fpstore x db" and p: "fpOf x db (fx_SerializePubKey x (sf_BtcPk fp)) = Some p" "pf_Status p = sf_Status fp"
    and run: "syncFinalityProviderStatus x ax cc flt fp db = (Ok u, db')"
  shows "\<exists>st. chainStatus cc (sf_BtcPk fp) = Some st \<and> wf_fpstore x db' \<and>
    fpOf x db' = (fpOf x db)(fx_SerializePubKey x (sf_BtcPk fp) \<mapsto> p\<lparr>pf_Status := st\<rparr>)"
proof -
  have set: "wf_fpstore x db' \<and> fpOf x db' = (fpOf x db)(fx_SerializePubKey x (sf_BtcPk fp) \<mapsto> p\<lparr>pf_Status := st\<rparr>)"
    if "MustSetFpStatus x flt (sf_BtcPk fp) st db = (Ok u, db')" for st
    using fp_codec.SetFpStatus_record [OF codec wf MustSetFpStatus_Ok [OF that]] p by auto
  have same: "sf_Status fp = st \<Longrightarrow> fpOf x db = (fpOf x db)(fx_SerializePubKey x (sf_BtcPk fp) \<mapsto> p\<lparr>pf_Status := st\<rparr>)" for st
    using p by (cases p) auto
  from run obtain b where b: "cc_QueryLatestBlock cc = Ok (Some b)"
    by (auto simp: syncFinalityProviderStatus_def liftR_def split: go.splits option.splits)
  from run obtain power where pw: "cc_QueryFinalityProviderHasPower cc (sf_BtcPk fp) (bi_height b) = Ok power"
    by (auto simp: syncFinalityProviderStatus_def b liftR_eq go_simps elim!: sbindE)
  show ?thesis
  proof (cases power)
    case True
    with run b pw have "(if sf_Status fp \<noteq> ACTIVE then MustSetFpStatus x flt (sf_BtcPk fp) ACTIVE else liftR (Ok ())) db = (Ok u, db')"
      by (simp add: syncFinalityProviderStatus_def sbind_def liftR_def)
    with wf set [of ACTIVE] same [of ACTIVE] have "wf_fpstore x db' \<and>
        fpOf x db' = (fpOf x db)(fx_SerializePubKey x (sf_BtcPk fp) \<mapsto> p\<lparr>pf_Status := ACTIVE\<rparr>)"
      by (cases "sf_Status fp = ACTIVE") (simp_all add: liftR_def)
    with b pw True show ?thesis by (simp add: chainStatus_def)
  next
    case False
    with run b pw obtain sl j where q: "cc_QueryFinalityProviderStatus cc (sf_BtcPk fp) = Ok (sl, j)"
      and "MustSetFpStatus x flt (sf_BtcPk fp) (if sl then SLASHED else if j then JAILED else INACTIVE) db = (Ok u, db')"
      by (auto simp: syncFinalityProviderStatus_def liftR_eq go_simps elim!: sbindE)
    from set [OF this(2)] b pw q False show ?thesis by (simp add: chainStatus_def)
  qed
qed

lemma syncLoop_records:
  assumes "fp_codec x" and "wf_fpstore x db" and "distinct (map (\<lambda>fp. fx_SerializePubKey x (sf_BtcPk fp)) fps)"
    and "\<forall>fp \<in> set fps. \<exists>p. fpOf x db (fx_SerializePubKey x (sf_BtcPk fp)) = Some p \<and> pf_Status p = sf_Status fp"
    and "syncLoop x ax cc flt i fps db = (Ok u, db')"
  shows "wf_fpstore x db' \<and> (\<forall>k. k \<notin> (\<lambda>fp. fx_SerializePubKey x (sf_BtcPk fp)) ` set fps \<longrightarrow> fpOf x db' k = fpOf x db k) \<and>
    (\<forall>fp \<in> set fps. \<exists>j p st. chainStatus (cc j) (sf_BtcPk fp) = Some st \<and> fpOf x db (fx_SerializePubKey x (sf_BtcPk fp)) = Some p \<and>
      fpOf x db' (fx_SerializePubKey x (sf_BtcPk fp)) = Some (p\<lparr>pf_Status := st\<rparr>))"
  using assms(2-)
proof (induction fps arbitrary: i db)
  case (Cons fp fps)
  let ?key = "\<lambda>fp. fx_SerializePubKey x (sf_BtcPk fp)"
  obtain p where p: "fpOf x db (?key fp) = Some p" "pf_Status p = sf_Status fp" using Cons.prems(3) by auto
  from Cons.prems(4) obtain v db1 where one: "syncFinalityProviderStatus x ax (cc i) (flt (Suc i)) fp db = (Ok v, db1)"
    and rest: "syncLoop x ax cc flt (Suc i) fps db1 = (Ok u, db')" by (auto elim!: sbindE)
  from syncFinalityProviderStatus_record [OF assms(1) Cons.prems(1) p one] obtain st where st: "chainStatus (cc i) (sf_BtcPk fp) = Some st"
    and wf1: "wf_fpstore x db1" and db1: "fpOf x db1 = (fpOf x db)(?key fp \<mapsto> p\<lparr>pf_Status := st\<rparr>)" by blast
  have other: "?key fp' \<noteq> ?key fp" if "fp' \<in> set fps" for fp' using that Cons.prems(2) by auto (metis image_eqI)
  have "\<forall>fp' \<in> set fps. \<exists>p. fpOf x db1 (?key fp') = Some p \<and> pf_Status p = sf_Status fp'"
    using Cons.prems(3) other by (auto simp: db1)
  note IH = Cons.IH [OF wf1 _ this rest]
  have same: "fpOf x db1 (?key fp') = fpOf x db (?key fp')" if "fp' \<in> set fps" for fp' using other [OF that] by (simp add: db1)
  have "fpOf x db' (?key fp) = Some (p\<lparr>pf_Status := st\<rparr>)" using IH Cons.prems(2) by (simp add: db1)
  with IH Cons.prems(2) st p(1) same show ?case by (auto simp: db1)
qed (simp add: liftR_def)

text \<open>All records after a synchronization.\<close>

lemma syncAll_statuses:
  assumes "fp_codec x" and "wf_fpstore x db" and "syncAllFinalityProvidersStatus x ax cc flt db = (Ok u, db')"
  shows "wf_fpstore x db' \<and> dom (fpOf x db') = dom (fpOf x db) \<and>
    (\<forall>k p. fpOf x db k = Some p \<longrightarrow> (\<exists>j pk st. fx_SerializePubKey x pk = k \<and> chainStatus (cc j) pk = Some st \<and>
      fpOf x db' k = Some (p\<lparr>pf_Status := st\<rparr>)))"
proof -
  from assms(3) obtain fps where all: "GetAllStoredFinalityProviders x (flt 0) db = Ok fps"
    and loop: "syncLoop x ax cc flt 0 fps db = (Ok u, db')"
    by (auto simp: syncAllFinalityProvidersStatus_def liftR_eq go_simps elim!: sbindE)
  let ?key = "\<lambda>fp. fx_SerializePubKey x (sf_BtcPk fp)"
  from fp_codec.GetAllStoredFinalityProviders_records [OF assms(1,2) all] have dist: "distinct (map ?key fps)"
    and dom: "?key ` set fps = dom (fpOf x db)"
    and recs: "\<forall>fp \<in> set fps. \<exists>p. fpOf x db (?key fp) = Some p \<and> pf_Status p = sf_Status fp" by simp_all
  from syncLoop_records [OF assms(1,2) dist recs loop] have wf: "wf_fpstore x db'"
    and other: "\<And>k. k \<notin> ?key ` set fps \<Longrightarrow> fpOf x db' k = fpOf x db k"
    and sync: "\<And>fp. fp \<in> set fps \<Longrightarrow> \<exists>j p st. chainStatus (cc j) (sf_BtcPk fp) = Some st \<and> fpOf x db (?key fp) = Some p \<and>
      fpOf x db' (?key fp) = Some (p\<lparr>pf_Status := st\<rparr>)" by blast+
  have each: "\<exists>j pk st. fx_SerializePubKey x pk = k \<and> chainStatus (cc j) pk = Some st \<and> fpOf x db' k = Some (p\<lparr>pf_Status := st\<rparr>)"
    if k: "fpOf x db k = Some p" for k p
  proof -
    from k have "k \<in> ?key ` set fps" unfolding dom by blast
    then obtain fp where fp: "fp \<in> set fps" "k = ?key fp" by blast
    from sync [OF fp(1)] k show ?thesis unfolding fp(2) by auto
  qed
  have "k \<in> dom (fpOf x db') \<longleftrightarrow> k \<in> dom (fpOf x db)" for k
    using each [of k] other [of k, unfolded dom domIff] by (cases "fpOf x db k") (auto simp: domIff)
  with wf each show ?thesis by blast
qed

text \<open>C25. The daemon starts from the chain's view: when the synchronization succeeds, every stored provider has the status
  its voting power, slashing and jailing on the chain stand for, power before slashing before jailing; its
  other data is unchanged and no record appears or disappears.\<close>

theorem syncAllFinalityProvidersStatus_exact:
  assumes "fp_codec x" and "wf_fpstore x db" and "syncAllFinalityProvidersStatus x ax cc flt db = (Ok u, db')"
  shows "wf_fpstore x db' \<and> dom (fpOf x db') = dom (fpOf x db) \<and>
    (\<forall>k p. fpOf x db k = Some p \<longrightarrow> (\<exists>j pk st. fx_SerializePubKey x pk = k \<and> chainStatus (cc j) pk = Some st \<and>
      fpOf x db' k = Some (p\<lparr>pf_Status := st\<rparr>)))"
  using assms by (rule syncAll_statuses)

text \<open>The chain has slashed the stored provider.\<close>

theorem syncAllFinalityProvidersStatus_exact_witness:
  "\<exists>db' p. syncAllFinalityProvidersStatus demo_fpx demo_ax (\<lambda>_. demo_cc\<lparr>cc_QueryFinalityProviderHasPower := \<lambda>_ _. Ok False,
       cc_QueryFinalityProviderStatus := \<lambda>_. Ok (True, True)\<rparr>) (\<lambda>_. NoFault) demoFpStore = (Ok (), db') \<and>
     fpOf demo_fpx db' ''pk'' = Some p \<and> pf_Status p = SLASHED"
proof -
  let ?cc = "demo_cc\<lparr>cc_QueryFinalityProviderHasPower := \<lambda>_ _. Ok False, cc_QueryFinalityProviderStatus := \<lambda>_. Ok (True, True)\<rparr>"
  obtain sfp where all: "GetAllStoredFinalityProviders demo_fpx NoFault demoFpStore = Ok [sfp]" and pk: "sf_BtcPk sfp = ''pk''"
    using demo_GetAll by blast
  obtain db' where "SetFpStatus demo_fpx NoFault ''pk'' SLASHED demoFpStore = (Ok (), db')"
    using demo_fpx_set [of demoFpStore "''pk''" demoFp SLASHED] by auto
  then have run: "syncAllFinalityProvidersStatus demo_fpx demo_ax (\<lambda>_. ?cc) (\<lambda>_. NoFault) demoFpStore = (Ok (), db')"
    using all pk by (simp add: syncAllFinalityProvidersStatus_def sbind_def liftR_def syncFinalityProviderStatus_def MustSetFpStatus_def)
      (simp add: demo_cc_def sbind_def liftR_def MustSetFpStatus_def)
  from syncAllFinalityProvidersStatus_exact [OF demo_fpx.fp_codec_axioms demo_fpx_store(2) run] run show ?thesis
    by (auto simp: chainStatus_def demo_cc_def)
qed

section \<open>Running on the daemon's parts\<close>

lemma on_fps_eq: "on_fps m app = (r, app') \<longleftrightarrow> (\<exists>db. m (ap_fps app) = (r, db) \<and> app' = app\<lparr>ap_fps := db\<rparr>)"
  by (auto simp: on_fps_def split: prod.splits)

lemma on_cc_eq: "on_cc m app = (r, app') \<longleftrightarrow> (\<exists>b. m (ap_cc app) = (r, b) \<and> app' = app\<lparr>ap_cc := b\<rparr>)"
  by (auto simp: on_cc_def split: prod.splits)

lemma on_apConsumer_eq: "on_apConsumer m app = (r, app') \<longleftrightarrow> (\<exists>c. m (ap_consumerCon app) = (r, c) \<and> app' = app\<lparr>ap_consumerCon := c\<rparr>)"
  by (auto simp: on_apConsumer_def split: prod.splits)

lemma on_apEm_eq: "on_apEm m app = (r, app') \<longleftrightarrow> (\<exists>s. m (ap_em app) = (r, s) \<and> app' = app\<lparr>ap_em := s\<rparr>)"
  by (auto simp: on_apEm_def split: prod.splits)

lemma on_fpIns_eq: "on_fpIns m app = (r, app') \<longleftrightarrow>
    (case ap_fpIns app of
       None \<Rightarrow> r = Crash ''nil pointer dereference'' \<and> app' = app
     | Some fp \<Rightarrow> (\<exists>fp'. m (attach app fp) = (r, fp') \<and> app' = detach fp' app))"
  by (auto simp: on_fpIns_def split: prod.splits option.splits)

lemmas on_app_eq = on_fps_eq on_cc_eq on_apConsumer_eq on_apEm_eq

section \<open>Unjailing\<close>

lemma unjailFpLoop_effect:
  assumes "unjailFpLoop x ax env fpPk app = (r, app')"
  shows "app' = app \<and> (\<forall>tx. r \<noteq> Ok tx) \<or> (\<exists>pk rt c. ax_ToBTCPK ax fpPk = Ok pk \<and> cc_QueryFinalityProviderStatus (an_cc env 0) pk = Ok (False, True) \<and>
    an_Unjail env pk (ap_consumerCon app) = (rt, c) \<and>
    (app' = app\<lparr>ap_consumerCon := c\<rparr> \<and> (\<forall>tx. r \<noteq> Ok tx) \<or>
     (\<exists>res rs db. rt = Ok res \<and> MustSetFpStatus x (an_flt env 0) pk INACTIVE (ap_fps app) = (rs, db) \<and>
       app' = app\<lparr>ap_consumerCon := c, ap_fps := db\<rparr> \<and> (\<forall>tx. r = Ok tx \<longrightarrow> rs = Ok () \<and> tx = tx_TxHash res))))"
  using assms unfolding unjailFpLoop_def Let_def
  by (auto simp: liftR_eq on_app_eq go_simps elim!: sbindE split: if_splits prod.splits)

lemma UnjailFinalityProvider_cases:
  assumes "UnjailFinalityProvider x ax env ctxDone fpPk app = (r, app')"
  obtains (blocked) "\<not> ap_loops app" "app' = app" "\<forall>tx. r \<noteq> Ok tx"
  | (loop) r1 where "ap_loops app" "unjailFpLoop x ax env fpPk app = (r1, app')" "\<forall>tx. r \<noteq> Ok tx"
  | (stored) tx app1 pk rs db where "ap_loops app" "unjailFpLoop x ax env fpPk app = (Ok tx, app1)" "ax_ToBTCPK ax fpPk = Ok pk"
      "SetFpStatus x (an_flt env 2) pk INACTIVE (ap_fps app1) = (rs, db)" "app' = app1\<lparr>ap_fps := db\<rparr>"
      "\<forall>tx'. r = Ok tx' \<longrightarrow> tx' = tx \<and> rs = Ok ()"
proof (cases "ap_loops app")
  case False
  with assms have "r = Crash ''blocked on the request channel''" "app' = app" by (simp_all add: UnjailFinalityProvider_def)
  with False blocked show ?thesis by simp
next
  case True
  obtain r1 app1 where L: "unjailFpLoop x ax env fpPk app = (r1, app1)" by fastforce
  show ?thesis
  proof (cases "(\<exists>tx. r1 = Ok tx) \<and> ctxDone = None")
    case False
    then have "app' = app1 \<and> (\<forall>tx. r \<noteq> Ok tx)"
      using assms True L by (cases r1; cases ctxDone) (auto simp: UnjailFinalityProvider_def)
    with loop [of r1] True L show ?thesis by simp
  next
    case ok: True
    then obtain tx where tx: "r1 = Ok tx" by blast
    have "(app' = app1 \<and> (\<forall>tx. r \<noteq> Ok tx)) \<or> (\<exists>pk rs db. ax_ToBTCPK ax fpPk = Ok pk \<and>
        SetFpStatus x (an_flt env 2) pk INACTIVE (ap_fps app1) = (rs, db) \<and> app' = app1\<lparr>ap_fps := db\<rparr> \<and>
        (\<forall>tx'. r = Ok tx' \<longrightarrow> tx' = tx \<and> rs = Ok ()))"
      using assms True L ok tx
      by (auto simp: UnjailFinalityProvider_def liftR_eq wrapS_eq on_app_eq go_simps elim!: sbindE) blast
    with loop [of r1] stored [of tx app1] True L tx show ?thesis by blast
  qed
qed

text \<open>C22. Unjailing asks the chain first: the transaction is sent once, and only for a provider the chain calls jailed and
  not slashed; the local status changes only after the chain has accepted it, and a successful call leaves the
  stored provider inactive and the other providers and the other data as they were. Nothing else of the
  daemon changes.\<close>

theorem UnjailFinalityProvider_guarded:
  assumes codec: "fp_codec x" and wf: "wf_fpstore x (ap_fps app)"
    and run: "UnjailFinalityProvider x ax env ctxDone fpPk app = (r, app')"
  shows "(ap_consumerCon app' \<noteq> ap_consumerCon app \<or> ap_fps app' \<noteq> ap_fps app \<longrightarrow> (\<exists>pk rt.
      ax_ToBTCPK ax fpPk = Ok pk \<and> cc_QueryFinalityProviderStatus (an_cc env 0) pk = Ok (False, True) \<and>
      an_Unjail env pk (ap_consumerCon app) = (rt, ap_consumerCon app') \<and> (ap_fps app' \<noteq> ap_fps app \<longrightarrow> (\<exists>res. rt = Ok res)))) \<and>
    (\<forall>tx. r = Ok tx \<longrightarrow> (\<exists>pk p. ax_ToBTCPK ax fpPk = Ok pk \<and> fpOf x (ap_fps app) (fx_SerializePubKey x pk) = Some p \<and>
      fpOf x (ap_fps app') = (fpOf x (ap_fps app))(fx_SerializePubKey x pk \<mapsto> p\<lparr>pf_Status := INACTIVE\<rparr>))) \<and>
    app' = app\<lparr>ap_consumerCon := ap_consumerCon app', ap_fps := ap_fps app'\<rparr>"
  using run
proof (cases rule: UnjailFinalityProvider_cases)
  case (loop r1)
  from unjailFpLoop_effect [OF loop(2)] loop(3) show ?thesis by auto
next
  case (stored tx app1 pk rs db)
  from unjailFpLoop_effect [OF stored(2)] stored(3) obtain res db1 where 2:
    "cc_QueryFinalityProviderStatus (an_cc env 0) pk = Ok (False, True)" "an_Unjail env pk (ap_consumerCon app) = (Ok res, ap_consumerCon app1)"
    "MustSetFpStatus x (an_flt env 0) pk INACTIVE (ap_fps app) = (Ok (), db1)" "app1 = app\<lparr>ap_consumerCon := ap_consumerCon app1, ap_fps := db1\<rparr>"
    by auto
  let ?k = "fx_SerializePubKey x pk"
  from fp_codec.SetFpStatus_record [OF codec wf MustSetFpStatus_Ok [OF 2(3)]] obtain p where wf1: "wf_fpstore x db1"
    and p: "fpOf x (ap_fps app) ?k = Some p" "fpOf x db1 = (fpOf x (ap_fps app))(?k \<mapsto> p\<lparr>pf_Status := INACTIVE\<rparr>)" by blast
  have fps1: "ap_fps app1 = db1" by (subst 2(4)) simp
  have "fpOf x db = (fpOf x (ap_fps app))(?k \<mapsto> p\<lparr>pf_Status := INACTIVE\<rparr>)" if "rs = Ok ()"
    using fp_codec.SetFpStatus_record [OF codec wf1, of "an_flt env 2" pk INACTIVE "()" db] stored(4) that fps1 p(2) by auto
  moreover have "app' = app\<lparr>ap_consumerCon := ap_consumerCon app', ap_fps := ap_fps app'\<rparr>" "ap_consumerCon app' = ap_consumerCon app1"
    "ap_fps app' = db" unfolding stored(5) by (subst 2(4), simp)+
  ultimately show ?thesis using stored(3,6) 2(1,2) p(1) by auto
qed simp

theorem UnjailFinalityProvider_guarded_witness:
  "\<exists>r app'. UnjailFinalityProvider demo_fpx demo_ax
       (demo_appenv (demo_cc\<lparr>cc_QueryFinalityProviderStatus := \<lambda>_. Ok (False, True)\<rparr>)) None ''pk'' (demo_app None) = (r, app') \<and>
     (\<exists>p. fpOf demo_fpx (ap_fps app') ''pk'' = Some p \<and> pf_Status p = INACTIVE) \<and> ap_consumerCon app' = [''pk'']"
proof -
  let ?env = "demo_appenv (demo_cc\<lparr>cc_QueryFinalityProviderStatus := \<lambda>_. Ok (False, True)\<rparr>)"
  obtain db1 where set1: "SetFpStatus demo_fpx NoFault ''pk'' INACTIVE demoFpStore = (Ok (), db1)"
    using demo_fpx_set [of demoFpStore "''pk''" demoFp INACTIVE] by auto
  from demo_fpx.SetFpStatus_record [OF demo_fpx_store(2) set1] obtain p where
    p: "wf_fpstore demo_fpx db1" "fpOf demo_fpx db1 ''pk'' = Some p" by auto
  obtain db2 where set2: "SetFpStatus demo_fpx NoFault ''pk'' INACTIVE db1 = (Ok (), db2)" using demo_fpx_set [OF p] by blast
  obtain sfp where "GetFinalityProvider demo_fpx NoFault ''pk'' db1 = Ok sfp" using demo_fpx_get [OF p] by blast
  then obtain tx where run: "UnjailFinalityProvider demo_fpx demo_ax ?env None ''pk'' (demo_app None) =
      (Ok tx, (demo_app None)\<lparr>ap_consumerCon := [''pk''], ap_fps := db2\<rparr>)"
    using set1 set2 by (simp add: UnjailFinalityProvider_def unjailFpLoop_def Let_def sbind_def liftR_def demo_ax_def demo_appenv_def
        on_apConsumer_def on_fps_def MustSetFpStatus_def wrapS_def demo_app_def)
  have wf: "wf_fpstore demo_fpx (ap_fps (demo_app None))" by (simp add: demo_app_def)
  from UnjailFinalityProvider_guarded [OF demo_fpx.fp_codec_axioms wf run] obtain pk q where pk: "ax_ToBTCPK demo_ax ''pk'' = Ok pk"
    and q: "fpOf demo_fpx db2 = (fpOf demo_fpx (ap_fps (demo_app None)))(fx_SerializePubKey demo_fpx pk \<mapsto> q\<lparr>pf_Status := INACTIVE\<rparr>)" by auto
  have "pk = ''pk''" using pk by (simp add: demo_ax_def)
  with q have "fpOf demo_fpx db2 ''pk'' = Some (q\<lparr>pf_Status := INACTIVE\<rparr>)" by simp
  with run show ?thesis by auto
qed

section \<open>Registration\<close>

lemma CreatePop_effect: "CreatePop ax em a pk app = (r, app') \<Longrightarrow> \<exists>s. app' = app\<lparr>ap_em := s\<rparr>"
  by (auto simp: CreatePop_def liftR_eq wrapS_eq on_app_eq elim!: sbindE)

lemma storedInfo_eq: "storedInfo x ax flt pk app = (r, app') \<longleftrightarrow> app' = app \<and>
    rbind (wrap ''failed to get finality provider: '' (GetFinalityProvider x flt pk (ap_fps app))) (\<lambda>sfp. Ok (ToFinalityProviderInfo x ax sfp)) = r"
  by (auto simp: storedInfo_def)

text \<open>A new registration: the chain is asked to register before anything is stored, and without the loop the request
  blocks.\<close>

lemma registerNew_once:
  assumes run: "registerNew x ax env req pk app = (r, app')" and pk: "ax_ToBTCPK ax (cq_btcPubKey req) = Ok pk"
  defines "asked \<equiv> \<lambda>rt. \<exists>pop des. ac_RegisterFinalityProvider (an_bc env) \<lparr>rr_ChainID = cq_chainID req, rr_FpPk = pk, rr_Pop = pop,
    rr_Commission = cq_commission req, rr_Description = des\<rparr> (ap_cc app) = (rt, ap_cc app')"
  shows "(ap_cc app' \<noteq> ap_cc app \<longrightarrow> ap_loops app \<and> (\<exists>rt. asked rt)) \<and> (ap_fps app' \<noteq> ap_fps app \<longrightarrow> (\<exists>res. asked (Ok res))) \<and>
    (\<forall>info tx. r = Ok (info, tx) \<longrightarrow>
      (\<exists>flt sfp. GetFinalityProvider x flt pk (ap_fps app') = Ok sfp \<and> info = ToFinalityProviderInfo x ax sfp))"
proof (cases "ap_loops app")
  case True
  obtain r1 app1 where L: "registrationLoop x ax (an_bc env) req app = (r1, app1)" by fastforce
  then have reg: "ap_fps app1 = ap_fps app \<and> (ap_cc app1 = ap_cc app \<and> (\<forall>tx. r1 \<noteq> Ok tx) \<or> (\<exists>pop des rt.
      ac_RegisterFinalityProvider (an_bc env) \<lparr>rr_ChainID = cq_chainID req, rr_FpPk = pk, rr_Pop = pop,
        rr_Commission = cq_commission req, rr_Description = des\<rparr> (ap_cc app) = (rt, ap_cc app1) \<and> (\<forall>tx. r1 = Ok tx \<longrightarrow> (\<exists>res. rt = Ok res))))"
    by (auto simp: registrationLoop_def pk liftR_eq on_app_eq go_simps elim!: sbindE) blast+
  from run True L have "ap_cc app' = ap_cc app1 \<and> (ap_fps app' = ap_fps app1 \<or> (\<exists>tx. r1 = Ok tx)) \<and> (\<forall>info tx. r = Ok (info, tx) \<longrightarrow>
      (\<exists>flt sfp. GetFinalityProvider x flt pk (ap_fps app') = Ok sfp \<and> info = ToFinalityProviderInfo x ax sfp))"
    by (auto simp: registerNew_def liftR_eq wrapS_eq on_app_eq storedInfo_eq go_simps elim!: sbindE) blast
  with reg True show ?thesis unfolding asked_def by (elim conjE disjE) auto
qed (use run in \<open>auto simp: registerNew_def\<close>)

text \<open>C23. A provider is registered once and stored after the chain: a registration is sent only when the chain says it does not
  know the key, and then exactly one, for that key, chain and commission; the local database is written only
  after the registration was accepted, or from the chain's record when the key is known already; a
  successful call reports the record that is stored. Without the registration loop the call does not return.\<close>

theorem CreateFinalityProvider_registers_once:
  assumes run: "app_CreateFinalityProvider x ax env keyName chainID (Some eotsPk) description commission app = (r, app')"
  shows "(ap_cc app' \<noteq> ap_cc app \<longrightarrow> (\<exists>pk err pop des rt. ax_ToBTCPK ax eotsPk = Ok pk \<and> ac_QueryFinalityProvider (an_bc env) pk = Err err \<and>
      contains (error_text err) ''the finality provider is not found'' \<and> ap_loops app \<and>
      ac_RegisterFinalityProvider (an_bc env) \<lparr>rr_ChainID = chainID, rr_FpPk = pk, rr_Pop = pop, rr_Commission = commission,
        rr_Description = des\<rparr> (ap_cc app) = (rt, ap_cc app'))) \<and>
    (ap_fps app' \<noteq> ap_fps app \<longrightarrow> (\<exists>pk. ax_ToBTCPK ax eotsPk = Ok pk \<and> ((\<exists>resp. ac_QueryFinalityProvider (an_bc env) pk = Ok resp) \<or>
      (\<exists>pop des res. ac_RegisterFinalityProvider (an_bc env) \<lparr>rr_ChainID = chainID, rr_FpPk = pk, rr_Pop = pop, rr_Commission = commission,
        rr_Description = des\<rparr> (ap_cc app) = (Ok res, ap_cc app'))))) \<and>
    (\<forall>info tx. r = Ok (info, tx) \<longrightarrow> (\<exists>pk flt sfp. ax_ToBTCPK ax eotsPk = Ok pk \<and>
      GetFinalityProvider x flt pk (ap_fps app') = Ok sfp \<and> info = ToFinalityProviderInfo x ax sfp))"
proof -
  let ?req = "\<lambda>a pop. \<lparr>cq_chainID = chainID, cq_fpAddr = a, cq_btcPubKey = eotsPk, cq_pop = pop, cq_description = description,
    cq_commission = commission\<rparr>"
  consider (stop) "ap_cc app' = ap_cc app" "ap_fps app' = ap_fps app" "\<forall>info tx. r \<noteq> Ok (info, tx)"
    | (new) app1 pk err a pop where "ax_ToBTCPK ax eotsPk = Ok pk" "ac_QueryFinalityProvider (an_bc env) pk = Err err"
        "contains (error_text err) ''the finality provider is not found''" "registerNew x ax env (?req a pop) pk app1 = (r, app')"
        "ap_cc app1 = ap_cc app" "ap_fps app1 = ap_fps app" "ap_loops app1 = ap_loops app"
    | (known) pk resp where "ax_ToBTCPK ax eotsPk = Ok pk" "ac_QueryFinalityProvider (an_bc env) pk = Ok resp" "ap_cc app' = ap_cc app"
        "\<forall>info tx. r = Ok (info, tx) \<longrightarrow> (\<exists>sfp. GetFinalityProvider x (an_flt env 4) pk (ap_fps app') = Ok sfp \<and> info = ToFinalityProviderInfo x ax sfp)"
    using run unfolding app_CreateFinalityProvider_def
    by (auto simp: liftR_eq wrapS_eq on_app_eq storedInfo_eq go_simps elim!: sbindE dest!: CreatePop_effect split: go.splits if_splits)
  then show ?thesis
  proof cases
    case new
    from registerNew_once [OF new(4)] new show ?thesis by auto
  qed auto
qed

theorem CreateFinalityProvider_registers_once_witness:
  "\<exists>r app'. app_CreateFinalityProvider demo_fpx demo_ax (demo_appenv demo_cc) ''key'' ''bbn-1'' (Some ''k'') (dec_desc []) demo_rates
       ((demo_app None)\<lparr>ap_fps := emptyFpStore\<rparr>) = (r, app') \<and> length (ap_cc app') = 1 \<and>
     (\<exists>pk flt sfp. GetFinalityProvider demo_fpx flt pk (ap_fps app') = Ok sfp \<and> sf_Status sfp = REGISTERED)"
proof -
  let ?app = "(demo_app None)\<lparr>ap_fps := emptyFpStore\<rparr>" and ?env = "demo_appenv demo_cc"
  obtain db where db: "CreateFinalityProvider demo_fpx NoFault 5 ''key'' ''k'' (dec_desc []) demo_rates ''bbn-1'' emptyFpStore = (Ok (), db)"
    by (simp add: CreateFinalityProvider_def demo_fpx_def sbind_def liftR_def createFinalityProviderInternal_def
        wrapS_def kv_update_def write_bucket_def emptyFpStore_def saveFinalityProvider_def plain_marshalFP_def)
  have "fx_ParsePubKey demo_fpx (fx_SerializePubKey demo_fpx ''k'') = Ok ''k''" by (simp add: demo_fpx_def)
  from CreateFinalityProvider_round_trip [OF demo_fpx.fp_codec_axioms wf_emptyFpStore this db]
  obtain sfp where sfp: "GetFinalityProvider demo_fpx NoFault ''k'' db = Ok sfp" "sf_Status sfp = REGISTERED" by auto
  have pop: "CreatePop demo_ax (an_Em ?env) ''key'' ''k'' ?app = (Ok (''k'' @ ''key''), ?app)"
    using demo_schnorr [of "''key''"] by (simp add: CreatePop_def demo_ax_def demo_appenv_def on_apEm_def localManager_def sbind_def wrapS_def liftR_def demo_app_def)
  have nf: "contains (error_text (ErrText ''the finality provider is not found'')) ''the finality provider is not found''" by (simp add: contains_def)
  have ext: "ax_Key demo_ax = Ok" "ax_GetAddress demo_ax = Ok" "ax_ToBTCPK demo_ax = Ok" "ax_PopMarshal demo_ax = Ok" "ax_AccString demo_ax a = a"
    "ac_QueryFinalityProvider (an_bc ?env) pk = Err (ErrText ''the finality provider is not found'')"
    "ac_RegisterFinalityProvider (an_bc ?env) q sent = (Ok emptyTxResponse, sent @ [q])" "an_flt ?env n = NoFault" "an_now ?env = 5"
    "ap_loops ?app" "ap_cc ?app = []" "ap_fps ?app = emptyFpStore" "fx_DescMarshal demo_fpx d = Ok (enc_desc d)" for a pk q sent n d
    by (simp_all add: demo_ax_def demo_appenv_def demo_app_def demo_fpx_def)
  obtain req info where run: "app_CreateFinalityProvider demo_fpx demo_ax ?env ''key'' ''bbn-1'' (Some ''k'') (dec_desc []) demo_rates ?app =
      (Ok (info, []), ?app\<lparr>ap_cc := [req], ap_fps := db\<rparr>)"
    using pop nf db sfp by (simp add: app_CreateFinalityProvider_def NewChainKeyringControllerWithKeyring_def keyring_Address_def ext sbind_def liftR_def
        wrapS_def registerNew_def registrationLoop_def on_cc_def on_fps_def storedInfo_def emptyTxResponse_def)
  from CreateFinalityProvider_registers_once [OF run] run sfp show ?thesis by auto
qed

section \<open>A slashed provider\<close>

lemma fpi_Stop_state: "fpi_Stop hex cc fp = (r, fp') \<Longrightarrow> fi_fpState fp' = fi_fpState fp"
  by (auto simp: fpi_Stop_def closeQuit_def wrapS_eq on_fpi_eq elim!: sbindE split: if_splits option.splits bool.splits)

lemma removeFinalityProviderInstance_Ok:
  assumes "removeFinalityProviderInstance ax cc app = (Ok u, app')" and "ap_fpIns app = Some fp" and "fps_s (fi_fpState fp) = ap_fps app"
  shows "ap_fpIns app' = None \<and> ap_fps app' = ap_fps app"
proof -
  have keep: "ap_fps app1 = ap_fps app" if "on_fpIns (fpi_Stop (ax_MarshalHex ax) cc) app = (rs, app1)" for rs app1
    using that assms(2) by (auto simp: on_fpIns_eq attach_def detach_def dest!: fpi_Stop_state)
  show ?thesis
  proof (cases "fi_isStarted fp")
    case True
    obtain rs app1 where S: "on_fpIns (fpi_Stop (ax_MarshalHex ax) cc) app = (rs, app1)" by fastforce
    with assms(1,2) True keep [OF S] show ?thesis
      by (cases rs) (auto simp: removeFinalityProviderInstance_def sbind_def)
  next
    case False
    with assms(1,2) show ?thesis by (auto simp: removeFinalityProviderInstance_def sbind_def)
  qed
qed

lemma setFinalityProviderSlashed_Ok:
  assumes codec: "fp_codec x" and wf: "wf_fpstore x (ap_fps app)" and ins: "ap_fpIns app = Some fp"
    and run: "setFinalityProviderSlashed x ax flt cc app = (Ok u, app')"
  shows "ap_fpIns app' = None \<and> wf_fpstore x (ap_fps app') \<and>
    (\<exists>p. fpOf x (ap_fps app') (fx_SerializePubKey x (GetBtcPk (fi_fpState fp))) = Some p \<and> pf_Status p = SLASHED)"
proof -
  let ?fps = "fi_fpState (attach app fp)" and ?k = "fx_SerializePubKey x (GetBtcPk (fi_fpState fp))"
  from run obtain v app1 where set: "on_fpIns (on_fpState (mustSetStatus x flt SLASHED)) app = (Ok v, app1)"
    and rem: "removeFinalityProviderInstance ax cc app1 = (Ok u, app')"
    unfolding setFinalityProviderSlashed_def by (auto elim!: sbindE split: prod.splits go.splits)
  from set ins obtain fps where st: "SetStatus x flt SLASHED ?fps = (Ok v, fps)" and app1: "app1 = detach ((attach app fp)\<lparr>fi_fpState := fps\<rparr>) app"
    by (auto simp: on_fpIns_eq on_fpState_eq mustSetStatus_Ok)
  have fps: "fps_s ?fps = ap_fps app" "GetBtcPk ?fps = GetBtcPk (fi_fpState fp)" by (simp_all add: attach_def GetBtcPk_def)
  from st obtain db where db: "SetFpStatus x flt (GetBtcPk (fi_fpState fp)) SLASHED (ap_fps app) = (Ok v, db)" and "fps_s fps = db"
    using fps by (auto simp: SetStatus_def on_store_def go_simps GetBtcPk_def split: prod.splits)
  with app1 have a1: "ap_fps app1 = db" "ap_fpIns app1 = Some ((attach app fp)\<lparr>fi_fpState := fps\<rparr>)" by (simp_all add: detach_def)
  from removeFinalityProviderInstance_Ok [OF rem a1(2)] \<open>fps_s fps = db\<close> a1(1) have "ap_fpIns app' = None" "ap_fps app' = db" by simp_all
  with fp_codec.SetFpStatus_record [OF codec wf db] show ?thesis by auto
qed

text \<open>No instance is made for a provider whose record is slashed.\<close>

lemma start_refused_slashed:
  assumes codec: "fp_codec x" and wf: "wf_fpstore x (ap_fps app)" and none: "ap_fpIns app = None"
    and pk: "ax_ToBTCPK ax pk = Ok key" and p: "fpOf x (ap_fps app) (fx_SerializePubKey x key) = Some p" "pf_Status p = SLASHED"
    and start: "startFinalityProviderInstance x ax flt cc cfg pk app = (r, app')"
  shows "(\<forall>v. r \<noteq> Ok v) \<and> ap_fpIns app' = None"
proof -
  have slashed: "sf_Status sfp = SLASHED" if "GetFinalityProvider x f key (ap_fps app) = Ok sfp" for f sfp
    using fp_codec.GetFinalityProvider_status [OF codec wf p(1) that] p(2) by simp
  obtain rn sv where new: "NewFinalityProviderInstance x (flt 3) (ax_ToBTCPK ax) (ax_BIP340 ax) (ax_MarshalHex ax) pk (ap_fps app)
      (ap_pubRandStore app) (ap_em app) (ap_consumerCon app) (ap_poller app) (ap_services app) = (rn, sv)" by fastforce
  then have "\<forall>f. rn \<noteq> Ok f" unfolding NewFinalityProviderInstance_def
    by (auto simp: liftR_eq pk go_simps dest!: slashed elim!: sbindE split: if_splits)
  with start new none show ?thesis by (cases rn) (auto simp: startFinalityProviderInstance_def sbind_def)
qed

text \<open>A synchronization with a chain that reports a provider as slashed keeps it slashed.\<close>

lemma app_Start_slashed:
  assumes codec: "fp_codec x" and wf: "wf_fpstore x (ap_fps app)" and p: "fpOf x (ap_fps app) k = Some p" "pf_Status p = SLASHED"
    and chain: "\<And>j key st. fx_SerializePubKey x key = k \<Longrightarrow> chainStatus (ccs j) key = Some st \<Longrightarrow> st = SLASHED"
    and run: "app_Start x ax ccs flts app = (Ok u, app')"
  shows "wf_fpstore x (ap_fps app') \<and> ap_fpIns app' = ap_fpIns app \<and> (\<exists>p. fpOf x (ap_fps app') k = Some p \<and> pf_Status p = SLASHED)"
proof (cases "ap_startOnce app")
  case True
  with run wf p show ?thesis by (simp add: app_Start_def)
next
  case False
  with run have sync: "syncAllFinalityProvidersStatus x ax ccs flts (ap_fps app) = (Ok (), ap_fps app')" and "ap_fpIns app' = ap_fpIns app"
    by (auto simp: app_Start_def on_fps_def elim!: sbindE split: prod.splits)
  from syncAll_statuses [OF codec wf sync] p(1) obtain j key st where "fx_SerializePubKey x key = k" "chainStatus (ccs j) key = Some st"
    "fpOf x (ap_fps app') k = Some (p\<lparr>pf_Status := st\<rparr>)" "wf_fpstore x (ap_fps app')" by blast
  with chain \<open>ap_fpIns app' = ap_fpIns app\<close> show ?thesis by auto
qed

text \<open>C21. Slashing is final: when the daemon has handled the report that its provider is slashed, the stored status is
  slashed and the instance is gone. A daemon that starts on that database, and synchronizes it with a chain that reports the
  provider as slashed, without voting power, whenever it answers, keeps the record slashed and starts no instance for the key: the
  attempt fails or ends, with nothing started.\<close>

theorem slashed_provider_never_restarts:
  assumes codec: "fp_codec x" and wf: "wf_fpstore x (ap_fps app)" and ins: "ap_fpIns app = Some fp"
    and slashed: "error_is (ce_err ce) ErrFinalityProviderSlashed"
    and run: "monitorCriticalErr x ax flt cc ce app = (Ok u, app')"
    and again: "ap_fps app2 = ap_fps app'" "ap_fpIns app2 = None"
    and chain: "\<And>j key st. fx_SerializePubKey x key = fx_SerializePubKey x (GetBtcPk (fi_fpState fp)) \<Longrightarrow>
      chainStatus (ccs j) key = Some st \<Longrightarrow> st = SLASHED"
    and sync: "app_Start x ax ccs flts app2 = (Ok u2, app3)"
    and start: "ax_ToBTCPK ax pk = Ok (GetBtcPk (fi_fpState fp))" "startFinalityProviderInstance x ax flt' cc' cfg pk app3 = (r, app4)"
  shows "ap_fpIns app' = None \<and>
    (\<exists>p. fpOf x (ap_fps app') (fx_SerializePubKey x (GetBtcPk (fi_fpState fp))) = Some p \<and> pf_Status p = SLASHED) \<and>
    (\<exists>p. fpOf x (ap_fps app3) (fx_SerializePubKey x (GetBtcPk (fi_fpState fp))) = Some p \<and> pf_Status p = SLASHED) \<and>
    (\<forall>v. r \<noteq> Ok v) \<and> ap_fpIns app4 = None"
proof -
  from run ins slashed have "setFinalityProviderSlashed x ax flt cc app = (Ok u, app')"
    by (simp add: monitorCriticalErr_def GetFinalityProviderInstance_def)
  from setFinalityProviderSlashed_Ok [OF codec wf ins this] obtain p where "ap_fpIns app' = None" and wf': "wf_fpstore x (ap_fps app2)"
    and p: "fpOf x (ap_fps app2) (fx_SerializePubKey x (GetBtcPk (fi_fpState fp))) = Some p" "pf_Status p = SLASHED"
    unfolding again(1) by blast
  have "wf_fpstore x (ap_fps app3) \<and> ap_fpIns app3 = ap_fpIns app2 \<and>
      (\<exists>p. fpOf x (ap_fps app3) (fx_SerializePubKey x (GetBtcPk (fi_fpState fp))) = Some p \<and> pf_Status p = SLASHED)"
    by (rule app_Start_slashed [OF codec wf' p _ sync]) (rule chain)
  then obtain q where wf3: "wf_fpstore x (ap_fps app3)" and none: "ap_fpIns app3 = None"
    and q: "fpOf x (ap_fps app3) (fx_SerializePubKey x (GetBtcPk (fi_fpState fp))) = Some q" "pf_Status q = SLASHED"
    using again(2) by auto
  from start_refused_slashed [OF codec wf3 none start(1) q start(2)] p q \<open>ap_fpIns app' = None\<close> show ?thesis
    by (simp add: again(1))
qed

lemma demo_GetAll_succeeds:
  assumes "wf_fpstore demo_fpx db" and dom: "dom (fpOf demo_fpx db) = {''pk''}"
  shows "\<exists>sfp. GetAllStoredFinalityProviders demo_fpx NoFault db = Ok [sfp] \<and> sf_BtcPk sfp = ''pk''"
proof -
  from assms(1) obtain b where b: "kv_open db" "kv_buckets db finalityProviderBucketName = Some b" "bucket_ok b"
    and get: "\<And>k v. bkt_get b k = Some v \<Longrightarrow> \<exists>fp. fx_UnmarshalFP demo_fpx v = Ok fp"
    by (fastforce simp: wf_fpstore_def kv_ok_def)
  have dec: "\<exists>sfp. decodeStored demo_fpx v = Ok sfp" if "(k, v) \<in> set b" for k v
  proof -
    have "bkt_get b k = Some v" using bk.entries_get [OF b(3)] that by blast
    then obtain fp where "fx_UnmarshalFP demo_fpx v = Ok fp" using get by blast
    then show ?thesis by (simp add: decodeStored_def protoFpToStoredFinalityProvider_def) (simp add: demo_fpx_def)
  qed
  have "\<exists>fps. decodeAll demo_fpx es = Ok fps" if "set es \<subseteq> set b" for es
    using that by (induction es) (auto dest!: dec)
  then obtain fps where "decodeAll demo_fpx b = Ok fps" by blast
  with b have "GetAllStoredFinalityProviders demo_fpx NoFault db = Ok fps"
    by (auto simp: GetAllStoredFinalityProviders_def read_bucket_def)
  with demo_fpx.GetAllStoredFinalityProviders_records [OF assms(1) this] dom show ?thesis
    by (cases fps; cases "tl fps") auto
qed

lemma demo_sync_slashed:
  assumes "SetFpStatus demo_fpx NoFault ''pk'' SLASHED demoFpStore = (Ok (), db)"
  shows "\<exists>db'. syncAllFinalityProvidersStatus demo_fpx demo_ax (\<lambda>_. demo_cc\<lparr>cc_QueryFinalityProviderHasPower := \<lambda>_ _. Ok False,
       cc_QueryFinalityProviderStatus := \<lambda>_. Ok (True, True)\<rparr>) (\<lambda>_. NoFault) db = (Ok (), db')"
proof -
  from demo_fpx.SetFpStatus_record [OF demo_fpx_store(2) assms] have wf: "wf_fpstore demo_fpx db"
    and rec: "fpOf demo_fpx db = [''pk'' \<mapsto> demoFp\<lparr>pf_Status := SLASHED\<rparr>]" by auto
  from rec have "dom (fpOf demo_fpx db) = {''pk''}" by simp
  from demo_GetAll_succeeds [OF wf this] obtain sfp where all: "GetAllStoredFinalityProviders demo_fpx NoFault db = Ok [sfp]"
    and pk: "sf_BtcPk sfp = ''pk''" by blast
  obtain db' where "SetFpStatus demo_fpx NoFault ''pk'' SLASHED db = (Ok (), db')"
    using demo_fpx_set [OF wf, of "''pk''" _ SLASHED] rec by auto
  then show ?thesis
    using all pk by (simp add: syncAllFinalityProvidersStatus_def sbind_def liftR_def syncFinalityProviderStatus_def MustSetFpStatus_def)
      (simp add: demo_cc_def sbind_def liftR_def MustSetFpStatus_def)
qed

theorem slashed_provider_never_restarts_witness:
  "\<exists>cp fp u app' app3 r app4. fi_isStarted fp \<and>
     monitorCriticalErr demo_fpx demo_ax NoFault demo_cc \<lparr>ce_err = Sentinel ErrFinalityProviderSlashed, ce_fpBtcPk = ''pk''\<rparr>
       ((demo_app (Some fp))\<lparr>ap_poller := cp\<rparr>) = (Ok u, app') \<and> ap_fpIns app' = None \<and>
     app_Start demo_fpx demo_ax (\<lambda>_. demo_cc\<lparr>cc_QueryFinalityProviderHasPower := \<lambda>_ _. Ok False, cc_QueryFinalityProviderStatus := \<lambda>_. Ok (True, True)\<rparr>)
       (\<lambda>_. NoFault) app' = (Ok (), app3) \<and>
     startFinalityProviderInstance demo_fpx demo_ax (\<lambda>_. NoFault) (\<lambda>_ _. demo_cc) demo_fpcfg ''pk'' app3 = (r, app4) \<and> (\<forall>v. r \<noteq> Ok v)"
proof -
  let ?fps = "NewFpState \<lparr>sf_FPAddr = [], sf_BtcPk = ''pk'', sf_Description = dec_desc [], sf_Commission = [], sf_ChainID = ''c'',
     sf_LastVotedHeight = 4, sf_Status = ACTIVE, sf_CommissionInfo = None\<rparr> demoFpStore"
  let ?fp = "\<lparr>fi_btcPk = ''pk'', fi_fpState = ?fps, fi_pubRandState = emptyPrStore, fi_em = demo_lm, fi_consumerCon = [],
     fi_poller = NewChainPoller DefaultChainPollerConfig, fi_rcBtcPk = Some ''pk'', fi_rcCfg = NewRandomnessCommitterConfig 2 10 0,
     fi_criticalErrs = [], fi_isStarted = True, fi_quit = Some False\<rparr>"
  let ?app = "(demo_app (Some ?fp))\<lparr>ap_poller := (NewChainPoller DefaultChainPollerConfig)\<lparr>cp_isStarted := True\<rparr>\<rparr>"
  let ?ce = "\<lparr>ce_err = Sentinel ErrFinalityProviderSlashed, ce_fpBtcPk = ''pk''\<rparr>"
  let ?cc = "demo_cc\<lparr>cc_QueryFinalityProviderHasPower := \<lambda>_ _. Ok False, cc_QueryFinalityProviderStatus := \<lambda>_. Ok (True, True)\<rparr>"
  obtain db where db: "SetFpStatus demo_fpx NoFault ''pk'' SLASHED demoFpStore = (Ok (), db)"
    using demo_fpx_set [of demoFpStore "''pk''" demoFp SLASHED] by auto
  then obtain app' where run: "monitorCriticalErr demo_fpx demo_ax NoFault demo_cc ?ce ?app = (Ok (), app')"
    and app': "ap_fps app' = db" "ap_startOnce app' = False"
    by (simp add: monitorCriticalErr_def GetFinalityProviderInstance_def demo_app_def setFinalityProviderSlashed_def on_fpIns_def on_fpState_def
        mustSetStatus_def SetStatus_def on_store_def wrapS_def attach_def detach_def NewFpState_def removeFinalityProviderInstance_def sbind_def
        fpi_Stop_def on_poller_def poller_Stop_def demo_cc_def closeQuit_def)
  obtain db2 where "syncAllFinalityProvidersStatus demo_fpx demo_ax (\<lambda>_. ?cc) (\<lambda>_. NoFault) db = (Ok (), db2)"
    using demo_sync_slashed [OF db] by blast
  then obtain app3 where sync: "app_Start demo_fpx demo_ax (\<lambda>_. ?cc) (\<lambda>_. NoFault) app' = (Ok (), app3)"
    by (simp add: app_Start_def app' on_fps_def sbind_def)
  obtain r app4 where start: "startFinalityProviderInstance demo_fpx demo_ax (\<lambda>_. NoFault) (\<lambda>_ _. demo_cc) demo_fpcfg ''pk'' app3 = (r, app4)"
    by fastforce
  have st: "wf_fpstore demo_fpx (ap_fps ?app)" "ap_fpIns ?app = Some ?fp" "ax_ToBTCPK demo_ax ''pk'' = Ok (GetBtcPk (fi_fpState ?fp))"
    "error_is (ce_err ?ce) ErrFinalityProviderSlashed" by (simp_all add: demo_app_def demo_ax_def GetBtcPk_def NewFpState_def)
  have chain: "st = SLASHED" if "chainStatus ?cc key = Some st" for key st
    using that by (simp add: chainStatus_def demo_cc_def)
  have "setFinalityProviderSlashed demo_fpx demo_ax NoFault demo_cc ?app = (Ok (), app')"
    using run st(2,4) by (simp add: monitorCriticalErr_def GetFinalityProviderInstance_def)
  from setFinalityProviderSlashed_Ok [OF demo_fpx.fp_codec_axioms st(1,2) this] have none: "ap_fpIns app' = None" by blast
  from slashed_provider_never_restarts [OF demo_fpx.fp_codec_axioms st(1,2,4) run refl none chain sync st(3) start] run sync start show ?thesis
    by (intro exI [of _ "(NewChainPoller DefaultChainPollerConfig)\<lparr>cp_isStarted := True\<rparr>"] exI [of _ ?fp]) auto
qed

section \<open>A start that fails\<close>

text \<open>C26. A daemon whose first start fails never works: every later start reports success without doing anything, the event
  loops do not run, and a registration or an unjailing request waits for ever.\<close>

theorem app_Start_failure:
  assumes "app_Start x ax cc flt app = (Err e, app')" and "\<not> ap_loops app"
  shows "app_Start x ax cc' flt' app' = (Ok (), app') \<and> \<not> ap_loops app' \<and>
    (\<exists>c. UnjailFinalityProvider x ax env ctxDone fpPk app' = (Crash c, app')) \<and>
    (\<exists>c. registerNew x ax env req pk app' = (Crash c, app'))"
proof -
  have "ap_startOnce app' \<and> \<not> ap_loops app'"
    using assms by (auto simp: app_Start_def on_app_eq elim!: sbindE split: if_splits)
  then show ?thesis by (simp add: app_Start_def UnjailFinalityProvider_def registerNew_def)
qed

theorem app_Start_failure_witness:
  "\<exists>e app'. app_Start demo_fpx demo_ax (\<lambda>_. demo_cc\<lparr>cc_QueryLatestBlock := Err (ErrText ''timeout'')\<rparr>) (\<lambda>_. NoFault)
       ((demo_app None)\<lparr>ap_loops := False\<rparr>) = (Err e, app') \<and>
     app_Start demo_fpx demo_ax (\<lambda>_. demo_cc) (\<lambda>_. NoFault) app' = (Ok (), app') \<and> \<not> ap_loops app'"
proof -
  let ?cc = "\<lambda>_. demo_cc\<lparr>cc_QueryLatestBlock := Err (ErrText ''timeout'')\<rparr>" and ?app = "(demo_app None)\<lparr>ap_loops := False\<rparr>"
  obtain sfp where "GetAllStoredFinalityProviders demo_fpx NoFault demoFpStore = Ok [sfp]" using demo_GetAll by blast
  then obtain e app' where run: "app_Start demo_fpx demo_ax ?cc (\<lambda>_. NoFault) ?app = (Err e, app')"
    by (simp add: app_Start_def on_fps_def demo_app_def syncAllFinalityProvidersStatus_def syncFinalityProviderStatus_def sbind_def liftR_def)
  have "\<not> ap_loops ?app" by simp
  from app_Start_failure [OF run this] have "app_Start demo_fpx demo_ax (\<lambda>_. demo_cc) (\<lambda>_. NoFault) app' = (Ok (), app')" "\<not> ap_loops app'" by blast+
  with run show ?thesis by blast
qed

end
