(* ===== verification/App_Invariant.thy ===== *)
theory App_Invariant
  imports App_Behaviour
begin

text \<open>
  The well-formedness of the daemon: its database holds readable records, the record of the bonded provider is
  among them, and the voting and the randomness service of the instance work for that provider and its chain.
  Every operation of the daemon keeps this, whatever the chain and the database answer.
\<close>

section \<open>The provider store\<close>

text \<open>The database is well formed and has, for each key of \<open>K\<close>, a record with the given chain.\<close>

definition fp_has :: "('pk, 'ds, 'dc) fp_ext \<Rightarrow> (bytes \<times> bytes) set \<Rightarrow> kvdb \<Rightarrow> bool" where
  "fp_has x K db \<longleftrightarrow> wf_fpstore x db \<and> (\<forall>(k, c) \<in> K. map_option pf_ChainId (fpOf x db k) = Some c)"

lemma update_failed: "wrapS p (kv_update flt f) db = (r, db') \<Longrightarrow> r \<noteq> Ok () \<Longrightarrow> db' = db"
  using kv_update_atomic [of flt f db "()"] by (cases "kv_update flt f db"; cases "fst (kv_update flt f db)") (auto simp: wrapS_def)

lemma preservesI: "(\<And>s r s'. P s \<Longrightarrow> m s = (r, s') \<Longrightarrow> P s') \<Longrightarrow> preserves P m"
  unfolding preserves_def by (metis prod.collapse)

lemma preserves_same: "preserves P m \<Longrightarrow> (\<And>s. snd (m' s) = snd (m s)) \<Longrightarrow> preserves P m'"
  by (simp add: preserves_def)

context fp_codec
begin

lemma setFinalityProviderState_has:
  assumes "\<And>fp fp'. f fp = Ok fp' \<Longrightarrow> pf_BtcPk fp' = pf_BtcPk fp \<and> pf_ChainId fp' = pf_ChainId fp"
  shows "preserves (fp_has x K) (setFinalityProviderState x flt pk f)"
proof (rule preservesI)
  fix db r db'
  assume has: "fp_has x K db" and run: "setFinalityProviderState x flt pk f db = (r, db')"
  show "fp_has x K db'"
  proof (cases "r = Ok ()")
    case True
    have "wf_fpstore x db' \<and> (\<exists>fp fp'. fpOf x db (fx_SerializePubKey x pk) = Some fp \<and> f fp = Ok fp' \<and>
        fpOf x db' = (fpOf x db)(fx_SerializePubKey x pk \<mapsto> fp'))"
      by (rule setFinalityProviderState_Ok [OF _ run [unfolded True]]) (use has assms in \<open>auto simp: fp_has_def\<close>)
    then show ?thesis using has assms unfolding fp_has_def by fastforce
  next
    case False
    with run have "db' = db" unfolding setFinalityProviderState_def Let_def by (rule update_failed)
    with has show ?thesis by simp
  qed
qed

lemma createFinalityProviderInternal_has: "preserves (fp_has x K) (createFinalityProviderInternal x flt fp)"
proof (rule preservesI)
  fix db r db'
  assume has: "fp_has x K db" and run: "createFinalityProviderInternal x flt fp db = (r, db')"
  show "fp_has x K db'"
  proof (cases "r = Ok ()")
    case True
    from has run createFinalityProviderInternal_Ok [of db flt fp "()" db'] True show ?thesis by (fastforce simp: fp_has_def)
  next
    case False
    with run have "db' = db" unfolding createFinalityProviderInternal_def by (rule update_failed)
    with has show ?thesis by simp
  qed
qed

lemma store_has [keeps_intros]:
  "preserves (fp_has x K) (SetFpStatus x flt pk st)"
  "preserves (fp_has x K) (SetFpLastVotedHeight x flt pk h)"
  "preserves (fp_has x K) (SetFpDescription x flt now pk ds rate)"
  "preserves (fp_has x K) (CreateFinalityProvider x flt now addr pk ds cr chain)"
  unfolding SetFpStatus_def SetFpLastVotedHeight_def SetFpDescription_def CreateFinalityProvider_def
  by (intro setFinalityProviderState_has keeps_intros createFinalityProviderInternal_has;
      auto simp: go_simps Let_def split: option.splits)+

end

section \<open>The cached record\<close>

definition fps_ok :: "('pk, 'ds, 'dc) fp_ext \<Rightarrow> (bytes \<times> bytes) set \<Rightarrow> 'pk \<times> bytes \<Rightarrow> ('pk, 'ds, 'dc) FpState \<Rightarrow> bool" where
  "fps_ok x K ident fps \<longleftrightarrow> fp_has x K (fps_s fps) \<and> identity fps = ident"

context fp_codec
begin

lemma setters_ok:
  "preserves (fps_ok x K ident) (SetStatus x flt st)"
  "preserves (fps_ok x K ident) (SetLastVotedHeight x flt h)"
proof -
  have "preserves (\<lambda>fps. fp_has x K (fps_s fps)) (SetStatus x flt st)"
    "preserves (\<lambda>fps. fp_has x K (fps_s fps)) (SetLastVotedHeight x flt h)"
    by (auto intro!: preservesI simp: SetStatus_def SetLastVotedHeight_def wrapS_eq on_store_def
        split: prod.splits dest: preservesD [OF store_has(1)] preservesD [OF store_has(2)])
  then show "preserves (fps_ok x K ident) (SetStatus x flt st)" "preserves (fps_ok x K ident) (SetLastVotedHeight x flt h)"
    using keeps_identity(1) [of x flt st] keeps_identity(2) [of x flt h] by (auto simp: preserves_def keeps_def fps_ok_def)
qed

lemma must_ok:
  "preserves (fps_ok x K ident) (mustSetStatus x flt st)"
  "preserves (fps_ok x K ident) (MustSetLastVotedHeight x flt h)"
  by (rule preserves_same [OF setters_ok(1) [of K ident flt st]] preserves_same [OF setters_ok(2) [of K ident flt h]];
      simp add: mustSetStatus_def MustSetLastVotedHeight_def split: prod.splits go.splits)+

lemma FilterBlocksForVoting_ok: "preserves (fps_ok x K ident) (FilterBlocksForVoting x q flt blocks)"
  by (rule preservesI, unfold FilterBlocksForVoting_def)
    (auto simp: liftR_eq elim!: sbindE split: if_splits dest: preservesD [OF must_ok(1)])

lemma once_ok:
  assumes "submitBatchFinalitySignaturesOnce x sx env blocks ds = (r, ds')" and ok: "fps_ok x K ident (ds_State ds)"
  shows "fps_ok x K ident (ds_State ds')"
proof -
  consider "ds_State ds' = ds_State ds"
    | valid ds2 where "ds_State ds2 = ds_State ds" "sendVotes x env blocks valid ds2 = (r, ds')"
    using assms(1) unfolding submitBatchFinalitySignaturesOnce_def Let_def
    by (auto simp: liftR_eq wrapS_eq split: if_splits elim!: sbindE dest!: keepsD [OF lastVoted_keeps(1)] keepsD [OF lastVoted_keeps(2)])
  then show ?thesis
  proof cases
    case 2
    with ok show ?thesis unfolding sendVotes_def
      by (auto simp: liftR_eq on_State_def split: if_splits prod.splits elim!: sbindE dest!: keepsD [OF lastVoted_keeps(3)])
        (erule (1) preservesD [OF must_ok(2)])+
  qed (use ok in simp)
qed

lemma SubmitBatchFinalitySignatures_ok:
  assumes run: "SubmitBatchFinalitySignatures x sx cfg q flt env blocks ds = Some (r, ds')" and ok: "fps_ok x K ident (ds_State ds)"
  shows "fps_ok x K ident (ds_State ds')"
proof -
  let ?ok = "\<lambda>ds. fps_ok x K ident (ds_State ds)"
  have loop: "?ok ds'" if "submitLoop x sx cfg env bl 0 0 ds1 = Some (r, ds')" "?ok ds1" for bl ds1
    using submitLoop_rule [where Q = "\<lambda>a r b. ?ok a \<longrightarrow> ?ok b", OF that(1)] that(2) once_ok by blast
  obtain r1 ds1 where F: "on_State (FilterBlocksForVoting x q flt blocks) ds = (r1, ds1)" by fastforce
  then have "?ok ds1" using ok by (auto simp: on_State_def split: prod.splits dest: preservesD [OF FilterBlocksForVoting_ok [of K ident]])
  with run F ok loop show ?thesis
    by (cases r1) (auto simp: SubmitBatchFinalitySignatures_def wrapS_def split: if_splits)
qed

end

section \<open>The instance\<close>

text \<open>\<open>svc\<close>: the key of the instance and what its randomness committer was initialized with.\<close>

definition inst_ok ::
  "('pk, 'ds, 'dc) fp_ext \<Rightarrow> (bytes \<times> bytes) set \<Rightarrow> 'pk \<times> bytes \<Rightarrow> bytes \<times> bytes option \<times> RandomnessCommitterConfig \<Rightarrow>
     ('s, 'c, 'pk, 'ds, 'dc) FinalityProviderInstance \<Rightarrow> bool" where
  "inst_ok x K ident svc fp \<longleftrightarrow> fps_ok x K ident (fi_fpState fp) \<and> (fi_btcPk fp, fi_rcBtcPk fp, fi_rcCfg fp) = svc"

lemma inst_ok_upd [simp]:
  "inst_ok x K ident svc (fp\<lparr>fi_poller := cp\<rparr>) = inst_ok x K ident svc fp"
  "inst_ok x K ident svc (fp\<lparr>fi_isStarted := b\<rparr>) = inst_ok x K ident svc fp"
  "inst_ok x K ident svc (fp\<lparr>fi_quit := q\<rparr>) = inst_ok x K ident svc fp"
  "inst_ok x K ident svc (fp\<lparr>fi_criticalErrs := es\<rparr>) = inst_ok x K ident svc fp"
  "inst_ok x K ident svc (fp\<lparr>fi_em := em, fi_consumerCon := con, fi_pubRandState := pr\<rparr>) = inst_ok x K ident svc fp"
  by (simp_all add: inst_ok_def)

lemma inst_ok_others:
  "preserves (inst_ok x K ident svc) (processRandomnessCommitment rx renv)"
  "preserves (inst_ok x K ident svc) (fpi_CommitPubRand rx renv start)"
  "preserves (inst_ok x K ident svc) (fpi_Stop hex cc)"
  unfolding processRandomnessCommitment_def fpi_CommitPubRand_def fpi_Stop_def closeQuit_def reportCriticalErr_def
  by (rule preservesI, force simp: on_fpi_eq wrapS_eq elim!: sbindE split: go.splits prod.splits if_splits option.splits bool.splits)+

context fp_codec
begin

lemma inst_ok_state: "preserves (fps_ok x K ident) m \<Longrightarrow> preserves (inst_ok x K ident svc) (on_fpState m)"
  by (rule preservesI) (auto simp: on_fpi_eq inst_ok_def dest: preservesD)

lemma inst_ok_IsJailed: "preserves (inst_ok x K ident svc) (IsJailed x flt)"
  unfolding IsJailed_def
  by (rule preservesI) (auto elim!: sbindE split: go.splits if_splits dest: preservesD [OF inst_ok_state [OF must_ok(1)]])

lemma inst_ok_start: "preserves (inst_ok x K ident svc) (fpi_Start x flt toBTCPK hex cc cfg)"
  unfolding fpi_Start_def
  by (rule preservesI) (auto simp: wrapS_eq on_poller_eq elim!: sbindE split: if_splits
      dest!: preservesD [OF inst_ok_IsJailed] preservesD [OF inst_ok_state [OF setters_ok(2)]])

lemma inst_ok_submit: "preserves (inst_ok x K ident svc) (submitBlocks x sx cfg env blocks)"
  by (rule preservesI) (auto simp: submitBlocks_def on_submitter_eq inst_ok_def submitter_of_def split: option.splits
      dest!: SubmitBatchFinalitySignatures_ok)

lemma inst_ok_vote: "preserves (inst_ok x K ident svc) (processAndSubmitSignatures x sx cfg env)"
proof (rule preservesI)
  fix fp r fp'
  assume ok: "inst_ok x K ident svc fp" and run: "processAndSubmitSignatures x sx cfg env fp = (r, fp')"
  obtain blocks cp where "getBatchBlocksFromPoller (fc_BatchSubmissionSize cfg) [] (fi_poller fp) = (blocks, cp)" by fastforce
  with run show "inst_ok x K ident svc fp'"
  proof (cases rule: processAndSubmitSignatures_cases)
    case (submit fp1 rs fp2)
    have "inst_ok x K ident svc fp1" using preservesD [OF inst_ok_IsJailed submit(2)] ok by simp
    then have "inst_ok x K ident svc fp2" using preservesD [OF inst_ok_submit submit(3)] by blast
    with submit(5) show ?thesis using preservesD [OF inst_ok_state [OF must_ok(1) [of K ident]], of _ _ _ _ _ svc]
      by (auto simp: reportCriticalErr_def split: if_splits)
  qed (use ok in \<open>auto dest: preservesD [OF inst_ok_IsJailed]\<close>)
qed

end

section \<open>The daemon\<close>

definition app_in ::
  "('pk, Description, 'dc) fp_ext \<Rightarrow> (bytes \<times> bytes) set \<Rightarrow> ('s, 'c, 'pk, Description, 'dc) FinalityProviderInstance option \<Rightarrow>
     ('s, 'c, 'b, 'pk, 'dc) FinalityProviderApp \<Rightarrow> bool" where
  "app_in x K ins app \<longleftrightarrow> fp_has x K (ap_fps app) \<and> ap_fpIns app = ins"

text \<open>Operations that work on the database and the clients only.\<close>

lemma preserves_on_app [keeps_intros]:
  "preserves (fp_has x K) m \<Longrightarrow> preserves (app_in x K ins) (on_fps m)"
  "preserves (app_in x K ins) (on_cc mb)" "preserves (app_in x K ins) (on_apConsumer mc)" "preserves (app_in x K ins) (on_apEm ms)"
  by (rule preservesI, auto simp: on_app_eq app_in_def dest: preservesD)+

lemma preserves_read [keeps_intros]: "preserves P (\<lambda>s. (f s, s))"
  by (simp add: preserves_def)

lemma preserves_storedInfo [keeps_intros]: "preserves P (storedInfo x ax flt pk)"
  by (simp add: preserves_def storedInfo_def)

lemma sync_has:
  assumes codec: "fp_codec x"
  shows "preserves (fp_has x K) (MustSetFpStatus x flt pk st)"
    and "preserves (fp_has x K) (syncFinalityProviderStatus x ax cc flt fp)"
    and "preserves (fp_has x K) (syncLoop x ax ccs flts i fps)"
    and "preserves (fp_has x K) (syncAllFinalityProvidersStatus x ax ccs flts)"
    and "preserves (fp_has x K) (putFpFromResponse x ax flts now cc resp chain)"
proof -
  note has = fp_codec.store_has [OF codec]
  show must: "preserves (fp_has x K) (MustSetFpStatus x flt pk st)" for flt pk st
    by (rule preserves_same [OF has(1) [of K flt pk st]]) (simp add: MustSetFpStatus_def split: prod.splits)
  show one: "preserves (fp_has x K) (syncFinalityProviderStatus x ax cc flt fp)" for cc flt fp
    unfolding syncFinalityProviderStatus_def by (intro keeps_intros must)
  show loop: "preserves (fp_has x K) (syncLoop x ax ccs flts i fps)" for i fps
    by (induction fps arbitrary: i) (auto intro!: keeps_intros one)
  show "preserves (fp_has x K) (syncAllFinalityProvidersStatus x ax ccs flts)"
    by (rule preservesI) (auto simp: syncAllFinalityProvidersStatus_def liftR_eq elim!: sbindE dest: preservesD [OF loop])
  show "preserves (fp_has x K) (putFpFromResponse x ax flts now cc resp chain)"
  proof -
    have stored: "preserves (fp_has x K) (\<lambda>db. case g db of Crash c \<Rightarrow> (Crash c, db) | Err err \<Rightarrow> if f err then m db else (q err, db) | Ok a \<Rightarrow> n db)"
      if "preserves (fp_has x K) m" "preserves (fp_has x K) n" for g f q and m n :: "(kvdb, 'x) cmd"
      using that by (auto simp: preserves_def split: go.split)
    show ?thesis unfolding putFpFromResponse_def
      by (intro keeps_intros stored has)
  qed
qed

lemma app_in_requests:
  assumes codec: "fp_codec x"
  shows "preserves (app_in x K ins) (app_Start x ax ccs flts)"
    and "preserves (app_in x K ins) (rpc_CreateFinalityProvider x ax env keyName chainId eotsPkHex desc commission)"
    and "preserves (app_in x K ins) (rpc_UnjailFinalityProvider x ax env ctxDone btcPk)"
    and "preserves (app_in x K ins) (rpc_EditFinalityProvider x ax env btcPk rate descBytes)"
    and "preserves (app_in x K ins) (rpc_UnsafeRemoveMerkleProof px ax flt btcPk chainId height)"
proof -
  note has = fp_codec.store_has [OF codec] sync_has [OF codec]
  have upd [simp]: "app_in x K ins (app\<lparr>ap_startOnce := b\<rparr>) = app_in x K ins app" "app_in x K ins (app\<lparr>ap_loops := b\<rparr>) = app_in x K ins app"
    "app_in x K ins (app\<lparr>ap_pubRandStore := db\<rparr>) = app_in x K ins app" for app b db by (simp_all add: app_in_def)
  show "preserves (app_in x K ins) (app_Start x ax ccs flts)"
    by (rule preservesI) (auto simp: app_Start_def elim!: sbindE split: if_splits
        dest!: preservesD [OF preserves_on_app(1) [OF sync_has(4) [OF codec]]])
  have reg: "preserves (app_in x K ins) (registerNew x ax env req pk)" for req pk
    unfolding registerNew_def registrationLoop_def by (rule preserves_guard) (intro keeps_intros has)
  have pop: "preserves (app_in x K ins) (CreatePop ax em a pk)" for em a pk
    unfolding CreatePop_def by (intro keeps_intros)
  show "preserves (app_in x K ins) (rpc_CreateFinalityProvider x ax env keyName chainId eotsPkHex desc commission)"
    unfolding rpc_CreateFinalityProvider_def app_CreateFinalityProvider_def by (intro keeps_intros has reg pop)
  have loop: "preserves (app_in x K ins) (unjailFpLoop x ax env pk)" for pk
    unfolding unjailFpLoop_def Let_def by (intro keeps_intros has)
  have "preserves (app_in x K ins) (UnjailFinalityProvider x ax env ctxDone pk)" for pk
  proof (rule preservesI)
    fix app r app'
    assume ok: "app_in x K ins app" and run: "UnjailFinalityProvider x ax env ctxDone pk app = (r, app')"
    from run show "app_in x K ins app'"
    proof (cases rule: UnjailFinalityProvider_cases)
      case (stored tx app1 pk rs db)
      have "app_in x K ins app1" using preservesD [OF loop stored(2) ok] .
      then show ?thesis using preservesD [OF has(1) stored(4)] stored(5) by (auto simp: app_in_def)
    qed (use ok preservesD [OF loop] in blast)+
  qed
  then show "preserves (app_in x K ins) (rpc_UnjailFinalityProvider x ax env ctxDone btcPk)"
    unfolding rpc_UnjailFinalityProvider_def by (intro keeps_intros)
  show "preserves (app_in x K ins) (rpc_EditFinalityProvider x ax env btcPk rate descBytes)"
    unfolding rpc_EditFinalityProvider_def by (intro keeps_intros has)
  show "preserves (app_in x K ins) (rpc_UnsafeRemoveMerkleProof px ax flt btcPk chainId height)"
    unfolding rpc_UnsafeRemoveMerkleProof_def by (intro keeps_intros preservesI) (auto split: prod.splits)
qed

text \<open>The daemon is well formed: its database has readable records, and a bonded provider is one of them, under its own
  key and chain, which are also those its randomness committer works for.\<close>

definition bonded ::
  "('pk, Description, 'dc) fp_ext \<Rightarrow> ('pk, 'sg, 'rec) app_ext \<Rightarrow> kvdb \<Rightarrow> ('s, 'c, 'pk, Description, 'dc) FinalityProviderInstance \<Rightarrow> bool" where
  "bonded x ax db fp \<longleftrightarrow> (let pk = GetBtcPk (fi_fpState fp); chainID = GetChainID (fi_fpState fp) in
     map_option pf_ChainId (fpOf x db (fx_SerializePubKey x pk)) = Some chainID \<and>
     fi_btcPk fp = ax_BIP340 ax pk \<and> fi_rcBtcPk fp = Some (ax_BIP340 ax pk) \<and> rcc_ChainID (fi_rcCfg fp) = Some chainID)"

definition app_ok ::
  "('pk, Description, 'dc) fp_ext \<Rightarrow> ('pk, 'sg, 'rec) app_ext \<Rightarrow> ('s, 'c, 'b, 'pk, 'dc) FinalityProviderApp \<Rightarrow> bool" where
  "app_ok x ax app \<longleftrightarrow> wf_fpstore x (ap_fps app) \<and> pred_option (bonded x ax (ap_fps app)) (ap_fpIns app)"

text \<open>The record and the chain a bonded instance needs.\<close>

definition needs :: "('pk, Description, 'dc) fp_ext \<Rightarrow> ('s, 'c, 'pk, Description, 'dc) FinalityProviderInstance option \<Rightarrow> (bytes \<times> bytes) set" where
  "needs x ins = (case ins of None \<Rightarrow> {} | Some fp \<Rightarrow> {(fx_SerializePubKey x (GetBtcPk (fi_fpState fp)), GetChainID (fi_fpState fp))})"

text \<open>A well-formed daemon whose database has certain records: key and chain of each.\<close>

definition app_has ::
  "('pk, Description, 'dc) fp_ext \<Rightarrow> ('pk, 'sg, 'rec) app_ext \<Rightarrow> (bytes \<times> bytes) set \<Rightarrow> ('s, 'c, 'b, 'pk, 'dc) FinalityProviderApp \<Rightarrow> bool" where
  "app_has x ax K app \<longleftrightarrow> app_ok x ax app \<and> fp_has x K (ap_fps app)"

lemma app_has_none: "app_has x ax {} app = app_ok x ax app"
  by (auto simp: app_has_def app_ok_def fp_has_def)

lemma app_ok_in: "app_has x ax K app \<Longrightarrow> app_in x (needs x (ap_fpIns app) \<union> K) (ap_fpIns app) app"
  by (auto simp: app_has_def app_ok_def app_in_def fp_has_def needs_def bonded_def Let_def split: option.splits)

lemma app_ok_requests:
  assumes "\<And>K ins. preserves (app_in x K ins) m"
  shows "preserves (app_has x ax K) m"
proof (rule preservesI)
  fix app r app'
  assume ok: "app_has x ax K app" and run: "m app = (r, app')"
  from preservesD [OF assms run app_ok_in [OF ok]] ok show "app_has x ax K app'"
    by (auto simp: app_has_def app_ok_def app_in_def fp_has_def needs_def bonded_def Let_def split: option.splits)
qed

lemma app_ok_instance:
  assumes "\<And>K ident svc. preserves (inst_ok x K ident svc) m"
  shows "preserves (app_has x ax K) (on_fpIns m)"
proof (rule preservesI)
  fix app r app'
  assume ok: "app_has x ax K app" and run: "on_fpIns m app = (r, app')"
  show "app_has x ax K app'"
  proof (cases "ap_fpIns app")
    case None
    with ok run show ?thesis by (simp add: on_fpIns_eq)
  next
    case (Some fp)
    with run obtain fp' where m: "m (attach app fp) = (r, fp')" and app': "app' = detach fp' app" by (auto simp: on_fpIns_eq)
    let ?ident = "identity (fi_fpState fp)" and ?svc = "(fi_btcPk fp, fi_rcBtcPk fp, fi_rcCfg fp)"
    have "inst_ok x (needs x (Some fp) \<union> K) ?ident ?svc (attach app fp)"
      using app_ok_in [OF ok] Some
      by (simp add: inst_ok_def fps_ok_def attach_def app_in_def identity_def GetBtcPk_def GetChainID_def)
    from preservesD [OF assms m this] ok Some app' show ?thesis
      by (auto simp: inst_ok_def fps_ok_def app_has_def app_ok_def detach_def bonded_def fp_has_def needs_def identity_def Let_def)
  qed
qed

lemma new_instance_bonded:
  assumes codec: "fp_codec x" and wf: "wf_fpstore x db"
    and run: "NewFinalityProviderInstance x flt toBTCPK (ax_BIP340 ax) hex fpPk db pr em con cp sv = (Ok fp, sv')"
  shows "bonded x ax db fp"
proof -
  from run obtain pk sfp where get: "GetFinalityProvider x flt pk db = Ok sfp" and st: "fi_fpState fp = NewFpState sfp db"
    and fp: "fi_btcPk fp = ax_BIP340 ax (sf_BtcPk sfp)" "fi_rcBtcPk fp = Some (ax_BIP340 ax (sf_BtcPk sfp))"
      "rcc_ChainID (fi_rcCfg fp) = Some (sf_ChainID sfp)"
    by (auto simp: NewFinalityProviderInstance_def newFinalityProviderInstanceFromStore_def Let_def liftR_eq rc_Init_def go_simps
        elim!: sbindE split: if_splits prod.splits)
  from get have "GetFinalityProvider x NoFault pk db = Ok sfp"
    by (cases flt) (auto simp: GetFinalityProvider_def Let_def kv_view_def split: if_splits)
  with fp_codec.GetFinalityProvider_refines [OF codec wf, of pk] obtain p where p: "fpOf x db (fx_SerializePubKey x pk) = Some p"
    and dec: "protoFpToStoredFinalityProvider x p = Ok sfp" by (auto simp: go_simps split: option.splits)
  have "pf_BtcPk p = fx_SerializePubKey x pk" using wf p by (fastforce simp: wf_fpstore_def fpOf_def decodedOf_bucket split: option.splits)
  moreover from dec have "fx_ParsePubKey x (pf_BtcPk p) = Ok (sf_BtcPk sfp)" "sf_ChainID sfp = pf_ChainId p"
    by (auto simp: protoFpToStoredFinalityProvider_def go_simps)
  ultimately have "fx_SerializePubKey x (sf_BtcPk sfp) = fx_SerializePubKey x pk"
    using fp_codec.parse_serialize [OF codec] by metis
  with p st fp \<open>sf_ChainID sfp = pf_ChainId p\<close> show ?thesis
    by (simp add: bonded_def NewFpState_def GetBtcPk_def GetChainID_def)
qed

lemma app_ok_upd [simp]:
  "app_has x ax K (app\<lparr>ap_services := sv\<rparr>) = app_has x ax K app" "app_has x ax K (app\<lparr>ap_stopOnce := b\<rparr>) = app_has x ax K app"
  "app_has x ax K (app\<lparr>ap_loops := b\<rparr>) = app_has x ax K app" "app_has x ax K (app\<lparr>ap_poller := cp\<rparr>) = app_has x ax K app"
  "app_has x ax K (app\<lparr>ap_em := s\<rparr>) = app_has x ax K app"
  "app_has x ax K app \<Longrightarrow> app_has x ax K (app\<lparr>ap_fpIns := None\<rparr>)"
  by (simp_all add: app_has_def app_ok_def)

lemma app_ok_start:
  assumes codec: "fp_codec x"
  shows "preserves (app_has x ax K) (startFinalityProviderInstance x ax flt cc cfg pk)"
proof -
  note start = app_ok_instance [OF fp_codec.inst_ok_start [OF codec]]
  have create: "app_has x ax K (app\<lparr>ap_services := sv', ap_fpIns := Some fp\<rparr>)"
    if "app_has x ax K app" "NewFinalityProviderInstance x flt toBTCPK (ax_BIP340 ax) hex fpPk (ap_fps app) pr em con cp sv = (Ok fp, sv')"
    for app flt toBTCPK hex fpPk pr em con cp sv fp sv'
    using that new_instance_bonded [OF codec _ that(2)] by (simp add: app_has_def app_ok_def)
  show ?thesis unfolding startFinalityProviderInstance_def
    by (intro preserves_sbind start preservesI)
      (auto simp: go_simps split: option.splits prod.splits go.splits if_splits intro: create)
qed

lemma app_ok_stop:
  "preserves (app_has x ax K) (app_Stop hex cc ctxDone emClose)"
  "preserves (app_has x ax K) (removeFinalityProviderInstance ax cc)"
proof -
  note stop = preservesD [OF app_ok_instance [OF inst_ok_others(3)]]
  show "preserves (app_has x ax K) (app_Stop hex cc ctxDone emClose)"
    by (rule preservesI) (auto simp: app_Stop_def wrapS_eq liftR_eq elim!: sbindE split: if_splits option.splits dest!: stop)
  show "preserves (app_has x ax K) (removeFinalityProviderInstance ax cc)"
    by (rule preservesI) (auto simp: removeFinalityProviderInstance_def elim!: sbindE split: if_splits option.splits prod.splits go.splits dest!: stop)
qed

lemma app_ok_vote_by_hand: "preserves (app_has x ax K) (rpc_AddFinalitySignature sx px ax vx em flt submit ended btcPk height appHash safe)"
proof -
  have "preserves (inst_ok x K ident svc) (SubmitFinalitySignatureAndExtractPrivKey sx px vx em flt submit b safe)" for K ident svc b
    by (rule preservesI, drule keepsD [OF SubmitFinalitySignature_keeps]) (simp add: fp_frame_def inst_ok_def)
  note hand = preservesD [OF app_ok_instance [OF this]]
  show ?thesis
    by (rule preservesI) (auto simp: rpc_AddFinalitySignature_def wrapS_eq liftR_eq elim!: sbindE split: if_splits go.splits prod.splits dest!: hand)
qed

lemma app_ok_monitor:
  assumes codec: "fp_codec x"
  shows "preserves (app_has x ax K) (monitorCriticalErr x ax flt cc ce)"
proof -
  note slash = preservesD [OF app_ok_instance [OF fp_codec.inst_ok_state [OF codec fp_codec.must_ok(1) [OF codec]]]]
  have "preserves (app_has x ax K) (setFinalityProviderSlashed x ax flt cc)"
    by (rule preservesI) (auto simp: setFinalityProviderSlashed_def elim!: sbindE split: prod.splits go.splits
        dest!: slash dest: preservesD [OF app_ok_stop(2)])
  then show ?thesis
    by (intro preservesI) (auto simp: monitorCriticalErr_def split: go.splits if_splits dest: preservesD)
qed

section \<open>Any sequence of events\<close>

text \<open>Everything the daemon does: its start and stop, the requests of its users, the ticks of the instance's two loops,
  requests to commit randomness and reports of critical errors, in every environment; whatever the poller
  and the manager do in between; and a restart of the process on the same database.\<close>

inductive app_step ::
  "('pk, Description, 'dc) fp_ext \<Rightarrow> ('pk, 'sg, 'rec) app_ext \<Rightarrow> ('pk, 'sc) sub_ext \<Rightarrow> ('pk, 'fv, 'pf) rc_ext \<Rightarrow>
     ('s, 'c, 'b, 'pk, 'dc) FinalityProviderApp \<Rightarrow> ('s, 'c, 'b, 'pk, 'dc) FinalityProviderApp \<Rightarrow> bool"
  for x :: "('pk, Description, 'dc) fp_ext" and ax :: "('pk, 'sg, 'rec) app_ext" and sx :: "('pk, 'sc) sub_ext" and rx :: "('pk, 'fv, 'pf) rc_ext"
where
  start: "app_Start x ax ccs flts app = (r, app') \<Longrightarrow> app_step x ax sx rx app app'"
| stop: "app_Stop hex (cc :: 'pk ConsumerController) ctxDone emClose app = (r, app') \<Longrightarrow> app_step x ax sx rx app app'"
| create: "rpc_CreateFinalityProvider x ax (env :: ('s, 'c, 'b, 'pk, 'fv, 'sc, 'sg, 'dc) app_env) keyName chainId eotsPkHex desc commission app = (r1, app') \<Longrightarrow> app_step x ax sx rx app app'"
| unjail: "rpc_UnjailFinalityProvider x ax (env :: ('s, 'c, 'b, 'pk, 'fv, 'sc, 'sg, 'dc) app_env) ctxEnd btcPk app = (r2, app') \<Longrightarrow> app_step x ax sx rx app app'"
| edit: "rpc_EditFinalityProvider x ax (env :: ('s, 'c, 'b, 'pk, 'fv, 'sc, 'sg, 'dc) app_env) btcPk rate descBytes app = (r, app') \<Longrightarrow> app_step x ax sx rx app app'"
| remove_proofs: "rpc_UnsafeRemoveMerkleProof (rx_pr rx) ax flt btcPk chainId height app = (r, app') \<Longrightarrow> app_step x ax sx rx app app'"
| start_fp: "StartFinalityProvider x ax flts fcc cfg pk app = (r, app') \<Longrightarrow> app_step x ax sx rx app app'"
| vote: "on_fpIns (processAndSubmitSignatures x sx cfg (tenv :: ('s, 'c, 'pk, 'fv, 'sc, 'sg) tick_env)) app = (r, app') \<Longrightarrow> app_step x ax sx rx app app'"
| randomness: "on_fpIns (processRandomnessCommitment rx (renv :: ('s, 'c, 'pk, 'fv, 'sc, 'sg) rand_env)) app = (r, app') \<Longrightarrow> app_step x ax sx rx app app'"
| vote_by_hand: "rpc_AddFinalitySignature sx (rx_pr rx) ax (vx :: (bytes, bytes) evidence_ext) (em :: ('s, 'fv, 'sc, 'sg) EOTSManager) flt submit ended
    btcPk height appHash safe app = (r4, app') \<Longrightarrow> app_step x ax sx rx app app'"
| commit: "on_fpIns (fpi_CommitPubRand rx (renv :: ('s, 'c, 'pk, 'fv, 'sc, 'sg) rand_env) startHeight) app = (r3, app') \<Longrightarrow> app_step x ax sx rx app app'"
| critical: "monitorCriticalErr x ax flt cc ce app = (r, app') \<Longrightarrow> app_step x ax sx rx app app'"
| poller: "app_step x ax sx rx app (app\<lparr>ap_poller := cp\<rparr>)"
| manager: "app_step x ax sx rx app (app\<lparr>ap_em := s\<rparr>)"
| restart: "ap_fps app' = ap_fps app \<Longrightarrow> ap_fpIns app' = None \<Longrightarrow> app_step x ax sx rx app app'"

lemma app_step_ok:
  assumes codec: "fp_codec x" and ok: "app_has x ax K app" and step: "app_step x ax sx rx app app'"
  shows "app_has x ax K app'"
  using step
proof cases
  case start
  then show ?thesis by (rule preservesD [OF app_ok_requests [OF app_in_requests(1) [OF codec]] _ ok])
next
  case stop
  then show ?thesis by (rule preservesD [OF app_ok_stop(1) _ ok])
next
  case create
  then show ?thesis by (rule preservesD [OF app_ok_requests [OF app_in_requests(2) [OF codec]] _ ok])
next
  case unjail
  then show ?thesis by (rule preservesD [OF app_ok_requests [OF app_in_requests(3) [OF codec]] _ ok])
next
  case edit
  then show ?thesis by (rule preservesD [OF app_ok_requests [OF app_in_requests(4) [OF codec]] _ ok])
next
  case remove_proofs
  then show ?thesis by (rule preservesD [OF app_ok_requests [OF app_in_requests(5) [OF codec]] _ ok])
next
  case vote
  then show ?thesis by (rule preservesD [OF app_ok_instance [OF fp_codec.inst_ok_vote [OF codec]] _ ok])
next
  case randomness
  then show ?thesis by (rule preservesD [OF app_ok_instance [OF inst_ok_others(1)] _ ok])
next
  case vote_by_hand
  then show ?thesis by (rule preservesD [OF app_ok_vote_by_hand _ ok])
next
  case commit
  then show ?thesis by (rule preservesD [OF app_ok_instance [OF inst_ok_others(2)] _ ok])
next
  case critical
  then show ?thesis by (rule preservesD [OF app_ok_monitor [OF codec] _ ok])
next
  case start_fp
  then show ?thesis unfolding StartFinalityProvider_def by (rule preservesD [OF app_ok_start [OF codec] _ ok])
qed (use ok in \<open>simp_all add: app_has_def app_ok_def\<close>)

text \<open>C19. The daemon stays well formed, whatever happens and whatever fails: its database keeps readable records, each under
  its own key, and while a provider is bonded its record stays in the database under its key and with its
  chain, and the instance and its randomness committer work for this key and this chain.\<close>

theorem app_well_formed:
  assumes "fp_codec x" and "app_ok x ax app" and "(app_step x ax sx rx)\<^sup>*\<^sup>* app app'"
  shows "app_ok x ax app'"
  using assms(3,2) by (induction rule: rtranclp_induct) (auto intro: app_step_ok [OF assms(1), where K = "{}", unfolded app_has_none])

theorem app_well_formed_witness:
  "\<exists>r app' fp. StartFinalityProvider demo_fpx demo_ax (\<lambda>_. NoFault) (\<lambda>_ _. demo_cc) demo_fpcfg ''pk'' (demo_app None) = (r, app') \<and>
     ap_fpIns app' = Some fp \<and> app_ok demo_fpx demo_ax app'"
proof -
  obtain r app' where run: "StartFinalityProvider demo_fpx demo_ax (\<lambda>_. NoFault) (\<lambda>_ _. demo_cc) demo_fpcfg ''pk'' (demo_app None) = (r, app')"
    by fastforce
  have "app_ok demo_fpx demo_ax (demo_app None)" by (simp add: app_ok_def demo_app_def)
  moreover have "(app_step demo_fpx demo_ax demo_sx demo_rx)\<^sup>*\<^sup>* (demo_app None) app'"
    using app_step.start_fp [OF run] by blast
  ultimately have ok: "app_ok demo_fpx demo_ax app'" by (rule app_well_formed [OF demo_fpx.fp_codec_axioms])
  have "\<exists>sfp. GetFinalityProvider demo_fpx NoFault ''pk'' demoFpStore = Ok sfp \<and> sf_Status sfp \<noteq> SLASHED \<and> sf_ChainID sfp \<noteq> []"
    by (simp add: demo_fpx.GetFinalityProvider_refines protoFpToStoredFinalityProvider_def demoFp_def) (simp add: demo_fpx_def)
  then obtain fp where "ap_fpIns app' = Some fp"
    using run by (auto simp: StartFinalityProvider_def startFinalityProviderInstance_def NewFinalityProviderInstance_def demo_app_def demo_ax_def
        newFinalityProviderInstanceFromStore_def Let_def rc_Init_def InitState_def NewRandomnessCommitterConfig_def liftR_def sbind_def
        on_fpIns_def detach_def split: prod.splits)
  with run ok show ?thesis by blast
qed

end
