(* ===== verification/FP_Daemon.thy ===== *)
theory FP_Daemon
  imports FP_Files App_Invariant
begin

text \<open>
  The process of the finality provider daemon: its clients and its keyring (\<^verbatim>\<open>clientcontroller/factory.go\<close>,
  \<^verbatim>\<open>keyring/keyring.go\<close>), the construction of the daemon from its configuration (\<^verbatim>\<open>service/app.go\<close>), the \<^verbatim>\<open>start\<close> command
  (\<^verbatim>\<open>fpd/daemon/start.go\<close>) and the server around it (\<^verbatim>\<open>service/server.go\<close>). What the daemon does while it serves is any sequence
  of its events; the theory says in which state the daemon enters this phase and how it leaves it.
\<close>

section \<open>Clients\<close>

text \<open>The configuration of the Babylon client library.\<close>

record BabylonConfig =
  bl_Key :: string
  bl_ChainID :: string
  bl_RPCAddr :: string
  bl_AccountPrefix :: string
  bl_KeyringBackend :: string
  bl_GasAdjustment :: rat
  bl_GasPrices :: string
  bl_KeyDirectory :: string
  bl_Debug :: bool
  bl_Timeout :: int
  bl_BlockTimeout :: int
  bl_OutputFormat :: string
  bl_SignModeStr :: string
  bl_SubmitterAddress :: string

definition ToBabylonConfig :: "BBNConfig \<Rightarrow> BabylonConfig" where
  "ToBabylonConfig cfg =
     \<lparr>bl_Key = bn_Key cfg, bl_ChainID = bn_ChainID cfg, bl_RPCAddr = bn_RPCAddr cfg, bl_AccountPrefix = bn_AccountPrefix cfg,
      bl_KeyringBackend = bn_KeyringBackend cfg, bl_GasAdjustment = bn_GasAdjustment cfg, bl_GasPrices = bn_GasPrices cfg,
      bl_KeyDirectory = bn_KeyDirectory cfg, bl_Debug = bn_Debug cfg, bl_Timeout = bn_Timeout cfg, bl_BlockTimeout = bn_BlockTimeout cfg,
      bl_OutputFormat = bn_OutputFormat cfg, bl_SignModeStr = bn_SignModeStr cfg, bl_SubmitterAddress = []\<rparr>"

text \<open>Functions of other packages and the answers of the world during the construction: the library's client, for the
  controller and for the consumer; its validation; the connection to the EOTS manager and its ping; the keyring; the database.
  \<open>dm_flt\<close>: faults of the database, by transaction.\<close>

record ('m, 's, 'c, 'b) daemon_env =
  dm_New :: "BabylonConfig \<Rightarrow> ('m bbn_wrapped \<times> 'b) go"
  dm_NewConsumer :: "BabylonConfig \<Rightarrow> 'c go"
  dm_Validate :: "BabylonConfig \<Rightarrow> unit go"
  dm_Dial :: "string \<Rightarrow> int \<Rightarrow> unit go"
  dm_Ping :: "unit go"
  dm_Client :: "bytes \<Rightarrow> 's"
  dm_UserHomeDir :: "string go"
  dm_KeyringNew :: "string \<Rightarrow> string \<Rightarrow> string \<Rightarrow> unit go"
  dm_flt :: "nat \<Rightarrow> dbfault"

definition fpcc_NewBabylonController :: "('m, 's, 'c, 'b) daemon_env \<Rightarrow> BBNConfig \<Rightarrow> ('m bbn_wrapped \<times> 'b) go" where
  "fpcc_NewBabylonController dm bbnConfig =
     wrap ''failed to create Babylon rpc client: '' (dm_New dm (ToBabylonConfig bbnConfig))"

definition NewBabylonConsumerController :: "('m, 's, 'c, 'b) daemon_env \<Rightarrow> BBNConfig \<Rightarrow> 'c go" where
  "NewBabylonConsumerController dm cfg =
     (let bbnConfig = ToBabylonConfig cfg in
      rbind (wrap ''invalid config for Babylon client: '' (dm_Validate dm bbnConfig)) (\<lambda>_.
      wrap ''failed to create Babylon client: '' (dm_NewConsumer dm bbnConfig)))"

definition InitEOTSManagerClient :: "('m, 's, 'c, 'b) daemon_env \<Rightarrow> string \<Rightarrow> string \<Rightarrow> int \<Rightarrow> 's go" where
  "InitEOTSManagerClient dm address hmacKey grpcMaxContentLen =
     rbind (wrap ''failed to create EOTS manager client: ''
       (NewEOTSManagerGRPCClient (dm_Dial dm address grpcMaxContentLen) (dm_Ping dm) address hmacKey)) (\<lambda>key. Ok (dm_Client dm key))"

record client_context =
  cx_ChainID :: string
  cx_KeyringDir :: string

definition CreateClientCtx :: "string go \<Rightarrow> string \<Rightarrow> string \<Rightarrow> client_context go" where
  "CreateClientCtx userHomeDir keyringDir chainID =
     rbind (if keyringDir = []
            then rbind (wrap ''failed to get user home directory: '' userHomeDir) (\<lambda>homeDir. Ok (filepath_Join [homeDir, ''.finality-provider'']))
            else Ok keyringDir) (\<lambda>keyringDir. Ok \<lparr>cx_ChainID = chainID, cx_KeyringDir = keyringDir\<rparr>)"

definition CreateKeyring :: "('m, 's, 'c, 'b) daemon_env \<Rightarrow> string \<Rightarrow> string \<Rightarrow> string \<Rightarrow> unit go" where
  "CreateKeyring dm keyringDir chainID backend =
     rbind (CreateClientCtx (dm_UserHomeDir dm) keyringDir chainID) (\<lambda>ctx.
     if backend = [] then Err (ErrText ''the keyring backend should not be empty'')
     else wrap ''failed to create keyring: '' (dm_KeyringNew dm (cx_ChainID ctx) backend (cx_KeyringDir ctx)))"

section \<open>Construction\<close>

text \<open>Both stores are opened on the one database; the daemon's two fields are its content as each store sees it.\<close>

definition NewFinalityProviderApp ::
  "('m, 's, 'c, 'b) daemon_env \<Rightarrow> FpConfig \<Rightarrow> 'b \<Rightarrow> 'c \<Rightarrow> 's \<Rightarrow> ChainPoller \<Rightarrow> ('pk, Description, 'dc) fp_services \<Rightarrow> kvdb \<Rightarrow>
     ('s, 'c, 'b, 'pk, 'dc) FinalityProviderApp go" where
  "NewFinalityProviderApp dm config cc consumerCon em poller services db =
     rbind (wrap ''failed to initiate finality provider store: '' (NewFinalityProviderStore (dm_flt dm 1) db)) (\<lambda>db.
     rbind (wrap ''failed to initiate public randomness store: '' (NewPubRandProofStore (dm_flt dm 2) db)) (\<lambda>db.
     rbind (deref (cf_BabylonConfig config)) (\<lambda>babylonConfig.
     rbind (wrap ''failed to create keyring: ''
       (CreateKeyring dm (bn_KeyDirectory babylonConfig) (bn_ChainID babylonConfig) (bn_KeyringBackend babylonConfig))) (\<lambda>_.
     Ok \<lparr>ap_fps = db, ap_pubRandStore = db, ap_em = em, ap_consumerCon = consumerCon, ap_cc = cc, ap_poller = poller,
         ap_services = services, ap_fpIns = None, ap_startOnce = False, ap_stopOnce = False, ap_loops = False\<rparr>))))"

definition NewFinalityProviderAppFromConfig ::
  "('m, 's, 'c, 'b) daemon_env \<Rightarrow> FpConfig \<Rightarrow> kvdb \<Rightarrow> ('s, 'c, 'b, 'pk, 'dc) FinalityProviderApp go" where
  "NewFinalityProviderAppFromConfig dm cfg db =
     rbind (deref (cf_BabylonConfig cfg)) (\<lambda>babylonConfig.
     rbind (wrap ''failed to create rpc client for the Babylon chain: '' (fpcc_NewBabylonController dm babylonConfig)) (\<lambda>(wrapper, cc).
     rbind (wrap ''failed to start rpc client for the Babylon chain: '' (wrapper_Start wrapper)) (\<lambda>_.
     rbind (wrap ''failed to create rpc client for the consumer chain babylon: '' (NewBabylonConsumerController dm babylonConfig)) (\<lambda>consumerCon.
     rbind (wrap ''failed to create EOTS manager client: ''
       (InitEOTSManagerClient dm (cf_EOTSManagerAddress cfg) (cf_HMACKey cfg) (cf_GRPCMaxContentLength cfg))) (\<lambda>em.
     rbind (deref (cf_PollerConfig cfg)) (\<lambda>pollerConfig.
     rbind (wrap ''failed to initiate public randomness store: '' (NewPubRandProofStore (dm_flt dm 0) db)) (\<lambda>db.
     NewFinalityProviderApp dm cfg cc consumerCon em (NewChainPoller pollerConfig)
       \<lparr>sv_rcBtcPk = None,
        sv_rcCfg = NewRandomnessCommitterConfig (cf_NumPubRand cfg) (uint (cf_TimestampingDelayBlocks cfg)) (cf_ContextSigningHeight cfg),
        sv_fsState = None\<rparr> db)))))))"

section \<open>Starting\<close>

text \<open>The answers of the chain and the faults of the database: of the status synchronization, of the listing, of the start of
  the instance.\<close>

record 'pk start_env =
  se_syncCC :: "nat \<Rightarrow> 'pk ConsumerController"
  se_syncFlt :: "nat \<Rightarrow> dbfault"
  se_listFlt :: dbfault
  se_startCC :: "nat \<Rightarrow> nat \<Rightarrow> 'pk ConsumerController"
  se_startFlt :: "nat \<Rightarrow> dbfault"

definition StartApp ::
  "('pk, Description, 'dc) fp_ext \<Rightarrow> ('pk, 'sg, 'rec) app_ext \<Rightarrow> 'pk start_env \<Rightarrow> fpi_config \<Rightarrow> string \<Rightarrow>
     (('s, 'c, 'b, 'pk, 'dc) FinalityProviderApp, unit) cmd" where
  "StartApp x ax se cfg fpPkStr =
     sbind (wrapS ''failed to start the finality provider app: '' (app_Start x ax (se_syncCC se) (se_syncFlt se))) (\<lambda>_.
     if fpPkStr \<noteq> []
     then
       sbind (liftR (wrap (''invalid finality provider public key '' @ fpPkStr @ '': '') (ax_FromHex ax fpPkStr))) (\<lambda>fpPk.
       wrapS ''failed to start finality provider: '' (StartFinalityProvider x ax (se_startFlt se) (se_startCC se) cfg fpPk))
     else
       sbind (\<lambda>app. (wrap ''failed to get all stored finality providers: ''
         (GetAllStoredFinalityProviders x (se_listFlt se) (ap_fps app)), app)) (\<lambda>storedFps.
       if length storedFps = 1
       then wrapS ''failed to start finality provider: ''
         (StartFinalityProvider x ax (se_startFlt se) (se_startCC se) cfg (ax_BIP340 ax (sf_BtcPk (storedFps ! 0))))
       else if length storedFps > 1
       then liftR (Err (ErrText (fmt_nat (length storedFps) @ '' finality providers found in DB. Please specify the EOTS public key'')))
       else liftR (Ok ())))"

section \<open>The server\<close>

record ('s, 'c, 'b, 'pk, 'dc) fp_server =
  sr_started :: u32
  sr_cfg :: FpConfig
  sr_app :: "('s, 'c, 'b, 'pk, 'dc) FinalityProviderApp"

definition NewFinalityProviderServer :: "FpConfig \<Rightarrow> ('s, 'c, 'b, 'pk, 'dc) FinalityProviderApp \<Rightarrow> ('s, 'c, 'b, 'pk, 'dc) fp_server" where
  "NewFinalityProviderServer cfg fpa = \<lparr>sr_started = 0, sr_cfg = cfg, sr_app = fpa\<rparr>"

definition closeDB :: "goerror option \<Rightarrow> ('s, 'c, 'b, 'pk, 'dc) FinalityProviderApp \<Rightarrow> ('s, 'c, 'b, 'pk, 'dc) FinalityProviderApp" where
  "closeDB flt app = app\<lparr>ap_fps := snd (kv_close flt (ap_fps app)), ap_pubRandStore := snd (kv_close flt (ap_pubRandStore app))\<rparr>"

text \<open>The deferred calls run in reverse order: the gRPC server stops, the listener closes, then the database and the metrics server.\<close>

definition RunUntilShutdown ::
  "config_ext \<Rightarrow> server_env \<Rightarrow> (('s, 'c, 'b, 'pk, 'dc) FinalityProviderApp, unit) cmd list \<Rightarrow> (('s, 'c, 'b, 'pk, 'dc) fp_server, unit) cmd" where
  "RunUntilShutdown cx ve events s =
     (let s = s\<lparr>sr_started := sr_started s + 1\<rparr>; shutdown = (\<lambda>app. s\<lparr>sr_app := closeDB (ve_Close ve) app\<rparr>) in
      if sr_started s \<noteq> 1 then (Ok (), s)
      else case rbind (deref (cf_Metrics (sr_cfg s))) (\<lambda>m. wrap ''failed to get prometheus address: '' (metrics_Address cx m)) of
          Err e \<Rightarrow> (Err e, s)
        | Crash c \<Rightarrow> (Crash c, s)
        | Ok promAddr \<Rightarrow>
            let listenAddr = cf_RPCListener (sr_cfg s) in
            case rbind (wrap (''failed to listen on '' @ listenAddr @ '': '') (ve_Listen ve listenAddr)) (\<lambda>_.
                wrap ''failed to register gRPC server: '' (ve_Register ve)) of
              Err e \<Rightarrow> (Err e, shutdown (sr_app s))
            | Crash c \<Rightarrow> (Crash c, s)
            | Ok _ \<Rightarrow>
                (case serve events (sr_app s) of
                   (Crash c, app) \<Rightarrow> (Crash c, s\<lparr>sr_app := app\<rparr>)
                 | (_, app) \<Rightarrow> (Ok (), shutdown app)))"

section \<open>The start command\<close>

text \<open>Everything before the daemon runs: the configuration, with the listener of the command line, the logger, the database and
  the daemon. \<open>parse\<close> reads the text of a configuration, \<open>bolt\<close> opens a database.\<close>

definition startSetup ::
  "os_env \<Rightarrow> config_ext \<Rightarrow> (string \<Rightarrow> FpConfig go) \<Rightarrow> (BoltBackendConfig \<Rightarrow> kvdb go) \<Rightarrow> ('m, 's, 'c, 'b) daemon_env \<Rightarrow> string \<Rightarrow> string \<Rightarrow>
     filesystem \<Rightarrow> (FpConfig \<times> ChainPollerConfig \<times> ('s, 'c, 'b, 'pk, 'dc) FinalityProviderApp) go" where
  "startSetup os cx parse bolt dm home rpcListener fs =
     rbind (wrap ''failed to get home path: '' (filepath_Abs (os_Getwd os) home)) (\<lambda>homePath.
     let homePath = CleanAndExpandPath (os_UserHome os) (os_Getenv os) homePath in
     rbind (wrap ''failed to load configuration: '' (LoadConfig cx (FileExists os fs) (\<lambda>p. rbind (readFile fs p) parse) homePath)) (\<lambda>cfg.
     rbind (deref (cf_BabylonConfig cfg)) (\<lambda>babylonConfig.
     if bn_KeyringBackend babylonConfig \<noteq> ''test''
     then Err (ErrText (''the keyring backend in config must be `test` for automatic signing, got '' @ bn_KeyringBackend babylonConfig))
     else
       rbind (if rpcListener \<noteq> []
              then rbind (wrap (''invalid RPC listener address '' @ rpcListener @ '', '') (cx_ResolveTCPAddr cx rpcListener)) (\<lambda>_.
                Ok (cfg\<lparr>cf_RPCListener := rpcListener\<rparr>))
              else Ok cfg) (\<lambda>cfg.
       rbind (wrap ''failed to initialize the logger: '' (fst (NewRootLoggerWithFile os (LogFile homePath) (cf_LogLevel cfg) fs))) (\<lambda>_.
       rbind (wrap ''failed to create db backend: '' (GetDBBackend bolt (cf_DatabaseConfig cfg))) (\<lambda>dbBackend.
       rbind (wrap ''failed to create finality-provider app: '' (NewFinalityProviderAppFromConfig dm cfg dbBackend)) (\<lambda>fpApp.
       rbind (deref (cf_PollerConfig cfg)) (\<lambda>poller.
       Ok (cfg, poller, fpApp)))))))))"

text \<open>The result, and the server as the process leaves it, if there was one.\<close>

definition runStartCmd ::
  "os_env \<Rightarrow> config_ext \<Rightarrow> (string \<Rightarrow> FpConfig go) \<Rightarrow> (BoltBackendConfig \<Rightarrow> kvdb go) \<Rightarrow> ('m, 's, 'c, 'b) daemon_env \<Rightarrow>
     ('pk, Description, 'dc) fp_ext \<Rightarrow> ('pk, 'sg, 'rec) app_ext \<Rightarrow> 'pk start_env \<Rightarrow> server_env \<Rightarrow>
     (('s, 'c, 'b, 'pk, 'dc) FinalityProviderApp, unit) cmd list \<Rightarrow> string \<Rightarrow> string \<Rightarrow> string \<Rightarrow> filesystem \<Rightarrow>
     unit go \<times> ('s, 'c, 'b, 'pk, 'dc) fp_server option" where
  "runStartCmd os cx parse bolt dm x ax se ve events home fpStr rpcListener fs =
     (case startSetup os cx parse bolt dm home rpcListener fs of
        Err e \<Rightarrow> (Err e, None)
      | Crash c \<Rightarrow> (Crash c, None)
      | Ok (cfg, poller, fpApp) \<Rightarrow>
          (case wrapS ''failed to start app: '' (StartApp x ax se (instanceConfig cfg poller) fpStr) fpApp of
             (Ok _, fpApp) \<Rightarrow>
               (case wrapS ''failed to run finality provider server: '' (RunUntilShutdown cx ve events) (NewFinalityProviderServer cfg fpApp) of
                  (r, fpServer) \<Rightarrow> (r, Some fpServer))
           | (Err e, fpApp) \<Rightarrow> (Err e, Some (NewFinalityProviderServer cfg fpApp))
           | (Crash c, fpApp) \<Rightarrow> (Crash c, Some (NewFinalityProviderServer cfg fpApp))))"

section \<open>The database over a run of the process\<close>

text \<open>What a database must have for a daemon to start on it: readable records, each under its own key. A new one has none.\<close>

definition readable :: "('pk, 'ds, 'dc) fp_ext \<Rightarrow> kvdb \<Rightarrow> bool" where
  "readable x db \<longleftrightarrow> kv_ok db \<and> (\<forall>b k v. kv_buckets db finalityProviderBucketName = Some b \<longrightarrow> bkt_get b k = Some v \<longrightarrow>
     (\<exists>fp. fx_UnmarshalFP x v = Ok fp \<and> pf_BtcPk fp = k))"

lemma wf_readable: "wf_fpstore x db \<Longrightarrow> readable x db"
  by (auto simp: wf_fpstore_def readable_def)

lemma readable_open [simp]: "readable x (db\<lparr>kv_open := b\<rparr>) = readable x db"
  by (simp add: readable_def kv_ok_def)

lemma create_bucket_ok: "kv_ok db \<Longrightarrow> kv_ok (db\<lparr>kv_buckets := (kv_buckets db)(n \<mapsto> [])\<rparr>)"
  by (auto simp: kv_ok_def)

lemma NewPubRandProofStore_readable:
  assumes "NewPubRandProofStore flt db = Ok db'" and "readable x db"
  shows "readable x db' \<and> kv_open db \<and> kv_open db' \<and> kv_buckets db' finalityProviderBucketName = kv_buckets db finalityProviderBucketName"
proof -
  have "kv_open db \<and> (db' = db \<or> db' = db\<lparr>kv_buckets := (kv_buckets db)(pubRandProofBucketName \<mapsto> [])\<rparr>)"
    using assms(1) by (auto simp: NewPubRandProofStore_def pr_initBuckets_def tx_create_bucket_def go_simps wrapS_def kv_update_def
        split: prod.splits option.splits if_splits go.splits dbfault.splits)
  moreover have "pubRandProofBucketName \<noteq> finalityProviderBucketName"
    by (simp add: pubRandProofBucketName_def finalityProviderBucketName_def)
  ultimately show ?thesis using assms(2) create_bucket_ok [of db pubRandProofBucketName] by (auto simp: readable_def)
qed

text \<open>The providers of a database, with their chains.\<close>

definition providers :: "('pk, 'ds, 'dc) fp_ext \<Rightarrow> kvdb \<Rightarrow> (bytes \<times> bytes) set" where
  "providers x db = {(k, c). map_option pf_ChainId (fpOf x db k) = Some c}"

lemma providers_bucket:
  "kv_buckets db' finalityProviderBucketName = kv_buckets db finalityProviderBucketName \<Longrightarrow> providers x db' = providers x db"
  by (simp add: providers_def fpOf_def decodedOf_def kv_bucket_of_def)

lemma fp_has_providers: "wf_fpstore x db \<Longrightarrow> fp_has x (providers x db) db"
  by (auto simp: fp_has_def providers_def)

lemma NewFinalityProviderStore_wf:
  assumes "NewFinalityProviderStore flt db = Ok db'" and "readable x db"
  shows "wf_fpstore x db' \<and> providers x db' = providers x db"
proof -
  have "kv_open db \<and> (kv_buckets db finalityProviderBucketName \<noteq> None \<and> db' = db \<or>
      kv_buckets db finalityProviderBucketName = None \<and> db' = db\<lparr>kv_buckets := (kv_buckets db)(finalityProviderBucketName \<mapsto> [])\<rparr>)"
    using assms(1) by (auto simp: NewFinalityProviderStore_def fp_initBuckets_def tx_create_bucket_def go_simps wrapS_def kv_update_def
        split: prod.splits option.splits if_splits go.splits dbfault.splits)
  then show ?thesis using assms(2) create_bucket_ok [of db finalityProviderBucketName] by (auto simp: readable_def wf_fpstore_def providers_def fpOf_def decodedOf_def kv_bucket_of_def bkt_get_def)
qed

lemma NewFinalityProviderAppFromConfig_ok:
  assumes "NewFinalityProviderAppFromConfig dm cfg db = Ok app" and "readable x db"
  shows "app_has x ax (providers x db) app \<and> ap_fpIns app = None"
proof -
  from assms(1) obtain db1 db2 where "NewPubRandProofStore (dm_flt dm 0) db = Ok db1" "NewFinalityProviderStore (dm_flt dm 1) db1 = Ok db2"
    and pr: "NewPubRandProofStore (dm_flt dm 2) db2 = Ok (ap_fps app)" and ins: "ap_fpIns app = None"
    by (auto simp: NewFinalityProviderAppFromConfig_def NewFinalityProviderApp_def go_simps)
  then have wf: "wf_fpstore x db2" and same: "providers x db2 = providers x db"
    using NewPubRandProofStore_readable [of "dm_flt dm 0" db db1 x] NewFinalityProviderStore_wf [of "dm_flt dm 1" db1 db2 x]
      providers_bucket [of db1 db x] assms(2) by auto
  from NewPubRandProofStore_readable [OF pr wf_readable [OF wf]] wf have "wf_fpstore x (ap_fps app)"
    and "providers x (ap_fps app) = providers x db2"
    by (auto simp: wf_fpstore_def readable_def) (simp_all add: providers_bucket [of "ap_fps app" db2])
  with ins same fp_has_providers [of x "ap_fps app"] show ?thesis by (simp add: app_has_def app_ok_def)
qed

lemma wrapS_preserves: "preserves P m \<Longrightarrow> preserves P (wrapS p m)"
  by (auto simp: preserves_def wrapS_def split: prod.splits)

lemma StartApp_ok:
  assumes "fp_codec x"
  shows "preserves (app_has x ax K) (StartApp x ax se cfg fpPkStr)"
proof -
  have "preserves (app_has x ax K) (app_Start x ax (se_syncCC se) (se_syncFlt se))"
    by (rule app_ok_requests [OF app_in_requests(1) [OF assms]])
  note start = preservesD [OF this] preservesD [OF app_ok_start [OF assms]]
  show ?thesis
    by (rule preservesI) (auto simp: StartApp_def StartFinalityProvider_def wrapS_eq liftR_eq elim!: sbindE split: if_splits dest!: start)
qed

lemma closeDB_readable [simp]: "readable x (ap_fps (closeDB flt app)) = readable x (ap_fps app)"
  by (simp add: closeDB_def kv_close_def split: option.splits)

lemma closeDB_providers [simp]: "providers x (ap_fps (closeDB flt app)) = providers x (ap_fps app)"
  by (simp add: closeDB_def kv_close_def providers_def fpOf_def decodedOf_def kv_bucket_of_def split: option.splits)

lemma app_has_kept: "app_has x ax K app \<Longrightarrow> readable x (ap_fps app) \<and> K \<subseteq> providers x (ap_fps app)"
  by (auto simp: app_has_def app_ok_def fp_has_def providers_def wf_readable)

lemma RunUntilShutdown_app:
  assumes "RunUntilShutdown cx ve events s = (r, s')"
  shows "\<exists>app. (app = sr_app s \<or> (\<exists>r'. serve events (sr_app s) = (r', app))) \<and> (sr_app s' = app \<or> sr_app s' = closeDB (ve_Close ve) app)"
  using assms by (auto simp: RunUntilShutdown_def Let_def split: if_splits go.splits prod.splits)

lemma RunUntilShutdown_kept:
  assumes "RunUntilShutdown cx ve events s = (r, s')" and "preserves (app_has x ax K) (serve events)" and "app_has x ax K (sr_app s)"
  shows "readable x (ap_fps (sr_app s')) \<and> K \<subseteq> providers x (ap_fps (sr_app s'))"
proof -
  obtain app where app: "app = sr_app s \<or> (\<exists>r'. serve events (sr_app s) = (r', app))"
    and s': "sr_app s' = app \<or> sr_app s' = closeDB (ve_Close ve) app" using RunUntilShutdown_app [OF assms(1)] by blast
  from app assms(3) have "app_has x ax K app" by (auto dest: preservesD [OF assms(2)])
  with app_has_kept [OF this] s' show ?thesis by auto
qed


section \<open>The choice of the instance\<close>

lemma GetFinalityProvider_key:
  assumes codec: "fp_codec x" and wf: "wf_fpstore x db" and get: "GetFinalityProvider x flt pk db = Ok sfp"
  shows "fx_SerializePubKey x (sf_BtcPk sfp) = fx_SerializePubKey x pk \<and> fpOf x db (fx_SerializePubKey x pk) \<noteq> None"
proof -
  from get have "GetFinalityProvider x NoFault pk db = Ok sfp"
    by (cases flt) (auto simp: GetFinalityProvider_def Let_def kv_view_def split: if_splits)
  with fp_codec.GetFinalityProvider_refines [OF codec wf, of pk] obtain p where p: "fpOf x db (fx_SerializePubKey x pk) = Some p"
    and dec: "protoFpToStoredFinalityProvider x p = Ok sfp" by (auto simp: go_simps split: option.splits)
  have "pf_BtcPk p = fx_SerializePubKey x pk" using wf p by (fastforce simp: wf_fpstore_def fpOf_def decodedOf_bucket split: option.splits)
  moreover from dec have "fx_ParsePubKey x (pf_BtcPk p) = Ok (sf_BtcPk sfp)" by (auto simp: protoFpToStoredFinalityProvider_def go_simps)
  ultimately show ?thesis using fp_codec.parse_serialize [OF codec] p by fastforce
qed

lemma fpi_Start_started: "fpi_Start x flt toBTCPK hex cc cfg fp = (r, fp') \<Longrightarrow> fi_isStarted fp'"
  unfolding fpi_Start_def
  by (auto simp: wrapS_eq on_fpi_eq elim!: sbindE split: if_splits dest!: IsJailed_effect)

lemma start_bonds:
  assumes codec: "fp_codec x" and ok: "app_ok x ax app" and none: "ap_fpIns app = None"
    and run: "startFinalityProviderInstance x ax flt cc cfg pk app = (Ok u, app')"
  shows "\<exists>p fp. ax_ToBTCPK ax pk = Ok p \<and> ap_fpIns app' = Some fp \<and> fi_isStarted fp \<and> fpOf x (ap_fps app) (fx_SerializePubKey x p) \<noteq> None \<and>
    fx_SerializePubKey x (GetBtcPk (fi_fpState fp)) = fx_SerializePubKey x p"
proof -
  from run none obtain fp0 sv where new: "NewFinalityProviderInstance x (flt 3) (ax_ToBTCPK ax) (ax_BIP340 ax) (ax_MarshalHex ax) pk (ap_fps app)
      (ap_pubRandStore app) (ap_em app) (ap_consumerCon app) (ap_poller app) (ap_services app) = (Ok fp0, sv)"
    and on: "on_fpIns (fpi_Start x flt (ax_ToBTCPK ax) (ax_MarshalHex ax) cc cfg) (app\<lparr>ap_services := sv, ap_fpIns := Some fp0\<rparr>) = (Ok u, app')"
    by (auto simp: startFinalityProviderInstance_def go_simps elim!: sbindE split: prod.splits go.splits)
  from new obtain p sfp where p: "ax_ToBTCPK ax pk = Ok p" "GetFinalityProvider x (flt 3) p (ap_fps app) = Ok sfp"
    and st: "GetBtcPk (fi_fpState fp0) = sf_BtcPk sfp"
    by (auto simp: NewFinalityProviderInstance_def newFinalityProviderInstanceFromStore_def Let_def liftR_eq rc_Init_def go_simps GetBtcPk_def
        NewFpState_def elim!: sbindE split: if_splits prod.splits)
  have key: "fx_SerializePubKey x (sf_BtcPk sfp) = fx_SerializePubKey x p \<and> fpOf x (ap_fps app) (fx_SerializePubKey x p) \<noteq> None"
    by (rule GetFinalityProvider_key [OF codec _ p(2)]) (use ok in \<open>simp add: app_ok_def\<close>)
  from on obtain fp where fp: "fpi_Start x flt (ax_ToBTCPK ax) (ax_MarshalHex ax) cc cfg (attach (app\<lparr>ap_services := sv, ap_fpIns := Some fp0\<rparr>) fp0) = (Ok u, fp)"
    and ins: "ap_fpIns app' = Some fp" by (auto simp: on_fpIns_def detach_def split: prod.splits)
  from start_stop_effect(1) [OF fp] st have "GetBtcPk (fi_fpState fp) = sf_BtcPk sfp"
    by (auto simp: identity_def attach_def GetBtcPk_def)
  with p(1) key fpi_Start_started [OF fp] ins show ?thesis by auto
qed

lemma StartApp_cases:
  fixes x :: "('pk, Description, 'dc) fp_ext"
  assumes "StartApp x ax se cfg fpPkStr app = (Ok (), app')"
  obtains
    (key) app1 pk where "app_Start x ax (se_syncCC se) (se_syncFlt se) app = (Ok (), app1)" "fpPkStr \<noteq> []" "ax_FromHex ax fpPkStr = Ok pk"
      "startFinalityProviderInstance x ax (se_startFlt se) (se_startCC se) cfg pk app1 = (Ok (), app')"
  | (only) app1 fp where "app_Start x ax (se_syncCC se) (se_syncFlt se) app = (Ok (), app1)" "fpPkStr = []"
      "GetAllStoredFinalityProviders x (se_listFlt se) (ap_fps app1) = Ok [fp]"
      "startFinalityProviderInstance x ax (se_startFlt se) (se_startCC se) cfg (ax_BIP340 ax (sf_BtcPk fp)) app1 = (Ok (), app')"
  | (empty) "app_Start x ax (se_syncCC se) (se_syncFlt se) app = (Ok (), app')" "fpPkStr = []"
      "GetAllStoredFinalityProviders x (se_listFlt se) (ap_fps app') = Ok []"
proof -
  have one: "\<exists>f. fps = [f]" if "length fps = Suc 0" for fps :: "('pk, Description, 'dc) StoredFinalityProvider list"
    using that by (cases fps) auto
  have zero: "fps = []" if "\<not> Suc 0 < length fps" "length fps \<noteq> Suc 0" for fps :: "('pk, Description, 'dc) StoredFinalityProvider list"
    using that by (cases fps) auto
  from assms show thesis
    by (auto simp: StartApp_def StartFinalityProvider_def wrapS_eq liftR_eq go_simps elim!: sbindE split: if_splits
        dest!: one zero intro: key only empty)
qed

text \<open>C29. Which provider a daemon works for: the one of the key it is started with, found in its database; without a key the only one
  of the database, or none when the database is empty. With two or more providers and no key it does not start.\<close>

theorem StartApp_chooses:
  assumes codec: "fp_codec x" and ok: "app_ok x ax app" and none: "ap_fpIns app = None"
    and run: "StartApp x ax se cfg fpPkStr app = (Ok (), app')"
  shows "\<exists>app1. app_Start x ax (se_syncCC se) (se_syncFlt se) app = (Ok (), app1) \<and>
    (case ap_fpIns app' of
       None \<Rightarrow> fpPkStr = [] \<and> dom (fpOf x (ap_fps app1)) = {}
     | Some fp \<Rightarrow> fi_isStarted fp \<and>
         (let k = fx_SerializePubKey x (GetBtcPk (fi_fpState fp)) in
          if fpPkStr = [] then dom (fpOf x (ap_fps app1)) = {k}
          else k \<in> dom (fpOf x (ap_fps app1)) \<and>
            (\<exists>pk p. ax_FromHex ax fpPkStr = Ok pk \<and> ax_ToBTCPK ax pk = Ok p \<and> k = fx_SerializePubKey x p)))"
proof -
  have after: "app_ok x ax app1 \<and> ap_fpIns app1 = None" if "app_Start x ax (se_syncCC se) (se_syncFlt se) app = (Ok (), app1)" for app1
    using preservesD [OF app_ok_requests [where ax = ax and K = "{}", unfolded app_has_none, OF app_in_requests(1) [OF codec]] that ok] that none
    by (auto simp: app_Start_def on_app_eq elim!: sbindE split: if_splits)
  note records = fp_codec.GetAllStoredFinalityProviders_records [OF codec]
  from run show ?thesis
  proof (cases rule: StartApp_cases)
    case (key app1 pk)
    with after start_bonds [OF codec, of ax app1] obtain p fp where "ax_ToBTCPK ax pk = Ok p" "ap_fpIns app' = Some fp" "fi_isStarted fp"
      "fpOf x (ap_fps app1) (fx_SerializePubKey x p) \<noteq> None" "fx_SerializePubKey x (GetBtcPk (fi_fpState fp)) = fx_SerializePubKey x p" by blast
    with key show ?thesis by (intro exI [of _ app1]) (auto simp: Let_def)
  next
    case (only app1 f)
    with after start_bonds [OF codec, of ax app1] obtain p fp where fp: "ap_fpIns app' = Some fp" "fi_isStarted fp"
      "fpOf x (ap_fps app1) (fx_SerializePubKey x p) \<noteq> None" "fx_SerializePubKey x (GetBtcPk (fi_fpState fp)) = fx_SerializePubKey x p" by blast
    from records [OF _ only(3)] after [OF only(1)] have "dom (fpOf x (ap_fps app1)) = {fx_SerializePubKey x (sf_BtcPk f)}" by (simp add: app_ok_def)
    moreover from this fp(3) have "fx_SerializePubKey x p = fx_SerializePubKey x (sf_BtcPk f)" by blast
    ultimately show ?thesis using only fp by (intro exI [of _ app1]) (simp add: Let_def)
  next
    case empty
    from records [OF _ empty(3)] after [OF empty(1)] have "dom (fpOf x (ap_fps app')) = {}" by (simp add: app_ok_def)
    with empty after [OF empty(1)] show ?thesis by (intro exI [of _ app']) auto
  qed
qed

definition demo_se :: "bytes start_env" where
  "demo_se = \<lparr>se_syncCC = (\<lambda>_. demo_cc), se_syncFlt = (\<lambda>_. NoFault), se_listFlt = NoFault, se_startCC = (\<lambda>_ _. demo_cc), se_startFlt = (\<lambda>_. NoFault)\<rparr>"

lemma demo_start:
  "\<exists>app' fp. startFinalityProviderInstance demo_fpx demo_ax (\<lambda>_. NoFault) (\<lambda>_ _. demo_cc) (demo_fpcfg\<lparr>fc_PollerConfig := demo_poller\<rparr>) ''pk''
     ((demo_app None)\<lparr>ap_startOnce := True\<rparr>) = (Ok (), app') \<and> ap_fpIns app' = Some fp \<and> fi_quit fp = Some False"
proof -
  have "\<exists>sfp. GetFinalityProvider demo_fpx NoFault ''pk'' demoFpStore = Ok sfp \<and> sf_Status sfp = ACTIVE \<and> sf_ChainID sfp \<noteq> [] \<and> sf_BtcPk sfp = ''pk''"
    by (simp add: demo_fpx.GetFinalityProvider_refines protoFpToStoredFinalityProvider_def demoFp_def) (simp add: demo_fpx_def)
  then obtain sfp where sfp: "GetFinalityProvider demo_fpx NoFault ''pk'' demoFpStore = Ok sfp" "sf_Status sfp = ACTIVE" "sf_ChainID sfp \<noteq> []"
    "sf_BtcPk sfp = ''pk''" by blast
  then show ?thesis
    by (simp add: startFinalityProviderInstance_def NewFinalityProviderInstance_def demo_app_def demo_ax_def
        newFinalityProviderInstanceFromStore_def Let_def rc_Init_def InitState_def NewRandomnessCommitterConfig_def liftR_def sbind_def
        on_fpIns_def attach_def detach_def fpi_Start_def IsJailed_def NewFpState_def GetBtcPk_def GetStatus_def fpi_DetermineStartHeight_def
        DetermineStartHeight_def demo_poller_def wrapS_def on_poller_def SetStartHeight_def NewChainPoller_def DefaultChainPollerConfig_def
        demo_fpcfg_def)
qed

theorem StartApp_chooses_witness:
  "\<exists>app' fp. StartApp demo_fpx demo_ax demo_se (demo_fpcfg\<lparr>fc_PollerConfig := demo_poller\<rparr>) [] ((demo_app None)\<lparr>ap_startOnce := True\<rparr>) = (Ok (), app') \<and>
     ap_fpIns app' = Some fp \<and> fi_isStarted fp \<and> GetBtcPk (fi_fpState fp) = ''pk''"
proof -
  let ?app = "(demo_app None)\<lparr>ap_startOnce := True\<rparr>"
  obtain app' where st: "startFinalityProviderInstance demo_fpx demo_ax (\<lambda>_. NoFault) (\<lambda>_ _. demo_cc) (demo_fpcfg\<lparr>fc_PollerConfig := demo_poller\<rparr>)
      ''pk'' ?app = (Ok (), app')" using demo_start by blast
  obtain sfp where "GetAllStoredFinalityProviders demo_fpx NoFault demoFpStore = Ok [sfp]" "sf_BtcPk sfp = ''pk''" using demo_GetAll by blast
  with st have run: "StartApp demo_fpx demo_ax demo_se (demo_fpcfg\<lparr>fc_PollerConfig := demo_poller\<rparr>) [] ?app = (Ok (), app')"
    by (simp add: StartApp_def StartFinalityProvider_def demo_se_def sbind_def wrapS_def app_Start_def) (simp add: demo_app_def demo_ax_def StartFinalityProvider_def wrapS_def)
  have "app_ok demo_fpx demo_ax ?app" "ap_fpIns ?app = None" by (simp_all add: app_ok_def demo_app_def)
  from StartApp_chooses [OF demo_fpx.fp_codec_axioms this run] obtain app1 where
    "app_Start demo_fpx demo_ax (se_syncCC demo_se) (se_syncFlt demo_se) ?app = (Ok (), app1)"
    and c: "case ap_fpIns app' of None \<Rightarrow> dom (fpOf demo_fpx (ap_fps app1)) = {}
      | Some fp \<Rightarrow> fi_isStarted fp \<and> dom (fpOf demo_fpx (ap_fps app1)) = {fx_SerializePubKey demo_fpx (GetBtcPk (fi_fpState fp))}"
    by (auto simp: Let_def split: option.splits)
  then have "ap_fps app1 = demoFpStore" by (auto simp: app_Start_def demo_app_def)
  with c run show ?thesis by (cases "ap_fpIns app'") auto
qed

section \<open>Shutdown\<close>

lemma RunUntilShutdown_Ok:
  assumes "RunUntilShutdown cx ve events s = (Ok (), s')" and "sr_started s = 0"
  shows "\<exists>app. serve events (sr_app s) = (Ok (), app) \<and> sr_app s' = closeDB (ve_Close ve) app"
proof -
  have "\<not> (\<exists>e app. serve events a = (Err e, app))" for a
    by (induction events arbitrary: a) (auto split: prod.splits go.splits)
  with assms show ?thesis
    by (auto simp: RunUntilShutdown_def Let_def split: if_splits go.splits prod.splits)
qed

text \<open>C37. A shutdown of the server keeps everything the daemon stored and closes the database, but it does not stop the instance: its
  loops still run, and a voting tick that finds a block then panics, because the closed database has no record for it.\<close>

theorem shutdown_leaves_instance_running:
  assumes run: "RunUntilShutdown cx ve events s = (Ok (), s')" and "sr_started s = 0" and "ve_Close ve = None"
    and served: "serve events (sr_app s) = (Ok (), app)" and ins: "ap_fpIns app = Some fp" and "fi_quit fp \<noteq> Some True"
    and blocks: "fst (getBatchBlocksFromPoller (fc_BatchSubmissionSize cfg) [] (ap_poller app)) \<noteq> []"
  shows "kv_buckets (ap_fps (sr_app s')) = kv_buckets (ap_fps app) \<and> kv_buckets (ap_pubRandStore (sr_app s')) = kv_buckets (ap_pubRandStore app) \<and>
    \<not> kv_open (ap_fps (sr_app s')) \<and> \<not> kv_open (ap_pubRandStore (sr_app s')) \<and>
    ap_fpIns (sr_app s') = Some fp \<and> (\<exists>c app'. on_fpIns (processAndSubmitSignatures x sx cfg env) (sr_app s') = (Crash c, app'))"
proof -
  have s': "sr_app s' = closeDB None app" using RunUntilShutdown_Ok [OF run] assms(2,3) served by auto
  have closed: "\<exists>e. GetFinalityProvider x flt pk db = Err e" if "\<not> kv_open db" for flt pk db
    using that by (simp add: GetFinalityProvider_def Let_def kv_view_def)
  have "\<exists>c app'. on_fpIns (processAndSubmitSignatures x sx cfg env) (closeDB None app) = (Crash c, app')"
  proof -
    let ?fp = "attach (closeDB None app) fp"
    obtain bs cp where bs: "getBatchBlocksFromPoller (fc_BatchSubmissionSize cfg) [] (ap_poller app) = (bs, cp)" "bs \<noteq> []"
      using blocks by (cases "getBatchBlocksFromPoller (fc_BatchSubmissionSize cfg) [] (ap_poller app)") auto
    have fp: "fi_poller ?fp = ap_poller app" "fi_quit ?fp = fi_quit fp" "\<not> kv_open (fps_s (fi_fpState ?fp))"
      by (simp_all add: attach_def closeDB_def kv_close_def)
    obtain e where "GetFinalityProvider x (te_flt env 0) (GetBtcPk (fi_fpState ?fp)) (fps_s (fi_fpState ?fp)) = Err e" using closed [OF fp(3)] by blast
    then have "\<exists>c fp'. processAndSubmitSignatures x sx cfg env ?fp = (Crash c, fp')"
      using bs fp(1,2) assms(6) by (simp add: processAndSubmitSignatures_def sbind_def IsJailed_def)
    with ins show ?thesis by (auto simp: on_fpIns_def closeDB_def split: prod.splits)
  qed
  with s' ins show ?thesis by (simp add: closeDB_def kv_close_def)
qed

definition demo_block :: BlockInfo where
  "demo_block = NewBlockInfo 5 ''h'' False"

definition demo_ve :: server_env where
  "demo_ve = \<lparr>ve_Listen = (\<lambda>_. Ok ()), ve_Register = Ok (), ve_Close = None\<rparr>"

lemma demo_config: "\<exists>cfg. cfg_Validate demo_cx cfg = Ok () \<and> cf_Metrics cfg = Some DefaultFpConfig \<and> DefaultConfigWithHome demo_cx FP_Config.demo_bbn (0, 0) h = Ok cfg"
  using DefaultConfigWithHome_valid [of demo_cx FP_Config.demo_bbn "(0, 0)" h]
  by (auto simp: demo_cx_def demo_bbn_def DefaultConfigWithHome_def Let_def go_simps)

definition demo_dm ::
  "((bytes, bytes, bytes) staking_msg, (bytes, bytes) LocalEOTSManager, bytes list, (bytes, bytes CommissionRates) RegisterFinalityProviderRequest list) daemon_env" where
  "demo_dm = \<lparr>dm_New = (\<lambda>_. Ok (demo_wrapped ''0'', [])), dm_NewConsumer = (\<lambda>_. Ok []), dm_Validate = (\<lambda>_. Ok ()), dm_Dial = (\<lambda>_ _. Ok ()), dm_Ping = Ok (),
     dm_Client = (\<lambda>_. demo_lm), dm_UserHomeDir = Ok ''/root'', dm_KeyringNew = (\<lambda>_ _ _. Ok ()), dm_flt = (\<lambda>_. NoFault)\<rparr>"

text \<open>A run on a database with a provider.\<close>

definition demo_home :: filesystem where
  "demo_home = \<lparr>fs_dirs = [], fs_files = [''/srv/fpd/fpd.conf'' \<mapsto> ''/srv/fpd'']\<rparr>"

definition demo_parse :: "string \<Rightarrow> FpConfig go" where
  "demo_parse h = DefaultConfigWithHome demo_cx (FP_Config.demo_bbn\<lparr>bn_KeyringBackend := ''test''\<rparr>) (0, 0) h"

lemma demo_new_app:
  assumes "cf_BabylonConfig cfg = Some b" and "bn_KeyringBackend b = ''test''" and "cf_PollerConfig cfg = Some pc" and "kv_open db"
  shows "\<exists>app :: (_, _, _, bytes, bytes) FinalityProviderApp. NewFinalityProviderAppFromConfig demo_dm cfg db = Ok app"
proof -
  have "\<exists>e. InitEOTSManagerClient demo_dm a k n = Ok e" for a k n
    by (simp add: InitEOTSManagerClient_def NewEOTSManagerGRPCClient_def Let_def demo_dm_def)
  then obtain e where e: "InitEOTSManagerClient demo_dm (cf_EOTSManagerAddress cfg) (cf_HMACKey cfg) (cf_GRPCMaxContentLength cfg) = Ok e" by blast
  have k: "CreateKeyring demo_dm d c ''test'' = Ok ()" for d c by (simp add: CreateKeyring_def CreateClientCtx_def demo_dm_def)
  have c: "NewBabylonConsumerController demo_dm b = Ok []" by (simp add: NewBabylonConsumerController_def demo_dm_def)
  have w: "fpcc_NewBabylonController demo_dm b = Ok (demo_wrapped ''0'', [])" by (simp add: fpcc_NewBabylonController_def demo_dm_def)
  have s: "wrapper_Start (demo_wrapped ''0'') = Ok ()" by (simp add: wrapper_Start_def NodeTxIndexEnabled_def demo_wrapped_def)
  have f: "dm_flt demo_dm i = NoFault" for i by (simp add: demo_dm_def)
  have stores: "\<exists>d'. NewPubRandProofStore NoFault d = Ok d' \<and> kv_open d'" "\<exists>d'. NewFinalityProviderStore NoFault d = Ok d' \<and> kv_open d'" if "kv_open d" for d
    using that by (simp_all add: NewPubRandProofStore_def pr_initBuckets_def NewFinalityProviderStore_def fp_initBuckets_def wrapS_def kv_update_def
        tx_create_bucket_def tx_write_def split: option.splits)
  obtain d1 d2 d3 where "NewPubRandProofStore NoFault db = Ok d1" "NewFinalityProviderStore NoFault d1 = Ok d2" "NewPubRandProofStore NoFault d2 = Ok d3"
    using stores assms(4) by metis
  then show ?thesis
    using assms(1-3) e by (simp add: NewFinalityProviderAppFromConfig_def NewFinalityProviderApp_def k c w s f)
qed

lemma demo_setup:
  assumes "kv_open db"
  shows "\<exists>cfg poller app. startSetup demo_os demo_cx demo_parse (\<lambda>_. Ok db) demo_dm ''fpd'' [] demo_home =
     (Ok (cfg, poller, app) :: (_ \<times> _ \<times> (_, _, _, bytes, bytes) FinalityProviderApp) go)"
proof -
  have home: "filepath_Abs (Ok ''/srv'') ''fpd'' = Ok ''/srv/fpd''" "CleanAndExpandPath None (\<lambda>_. []) ''/srv/fpd'' = ''/srv/fpd''"
    "CfgFile ''/srv/fpd'' = ''/srv/fpd/fpd.conf''"
    by (simp_all add: filepath_Abs_def isRooted_def filepath_Join_def path_Clean_def CleanAndExpandPath_def CfgFile_def)
  obtain cfg where cfg: "demo_parse ''/srv/fpd'' = Ok cfg" "cfg_Validate demo_cx cfg = Ok ()"
    using DefaultConfigWithHome_valid [of demo_cx "FP_Config.demo_bbn\<lparr>bn_KeyringBackend := ''test''\<rparr>" "(0, 0)" "''/srv/fpd''"]
    by (auto simp: demo_cx_def demo_bbn_def demo_parse_def)
  then have f: "map_option bn_KeyringBackend (cf_BabylonConfig cfg) = Some ''test''" "cf_Metrics cfg = Some DefaultFpConfig" "cf_DatabaseConfig cfg \<noteq> None"
    "cf_PollerConfig cfg = Some DefaultChainPollerConfig" "cf_LogLevel cfg = ''debug''"
    by (auto simp: demo_parse_def DefaultConfigWithHome_def Let_def go_simps demo_cx_def demo_bbn_def DefaultBBNConfig_def)
  have load: "LoadConfig demo_cx (FileExists demo_os demo_home) (\<lambda>p. rbind (readFile demo_home p) demo_parse) ''/srv/fpd'' = Ok cfg"
    using cfg by (simp add: LoadConfig_Ok home FileExists_def readFile_def demo_home_def)
  have log: "fst (NewRootLoggerWithFile demo_os (LogFile ''/srv/fpd'') ''debug'' demo_home) = Ok DebugLevel"
    by (simp add: NewRootLoggerWithFile_def sbind_def wrapS_def MakeDirectory_def demo_os_def liftR_def NewRootLogger_def lower_def Let_def)
  have os: "os_Getwd demo_os = Ok ''/srv''" "os_UserHome demo_os = None" "os_Getenv demo_os = (\<lambda>_. [])" by (simp_all add: demo_os_def)
  obtain b d where b: "cf_BabylonConfig cfg = Some b" "bn_KeyringBackend b = ''test''" "cf_DatabaseConfig cfg = Some d" using f(1,3) by auto
  obtain app :: "(_, _, _, bytes, bytes) FinalityProviderApp" where
    "NewFinalityProviderAppFromConfig demo_dm cfg db = Ok app" using demo_new_app [OF b(1,2) f(4) assms] by blast
  then show ?thesis
    using b f(2,4,5) load log by (simp add: startSetup_def os home Let_def GetDBBackend_def)
qed

theorem shutdown_leaves_instance_running_witness:
  "\<exists>cfg (app :: (_, _, (bytes, bytes CommissionRates) RegisterFinalityProviderRequest list, bytes, bytes) FinalityProviderApp) s'. ap_fpIns app \<noteq> None \<and> RunUntilShutdown demo_cx demo_ve [] (NewFinalityProviderServer cfg app) = (Ok (), s') \<and>
     \<not> kv_open (ap_fps (sr_app s')) \<and>
     (\<forall>env :: ((bytes, bytes) LocalEOTSManager, bytes list, bytes, bytes, bytes, bytes) tick_env.
       \<exists>c app'. on_fpIns (processAndSubmitSignatures demo_fpx demo_sx demo_fpcfg env) (sr_app s') = (Crash c, app'))"
proof -
  obtain cfg :: FpConfig where "cf_Metrics cfg = Some DefaultFpConfig" using demo_config [of "[]"] by blast
  obtain app0 fp where "startFinalityProviderInstance demo_fpx demo_ax (\<lambda>_. NoFault) (\<lambda>_ _. demo_cc) (demo_fpcfg\<lparr>fc_PollerConfig := demo_poller\<rparr>) ''pk''
      ((demo_app None)\<lparr>ap_startOnce := True\<rparr>) = (Ok (), app0)" and fp: "ap_fpIns app0 = Some fp" "fi_quit fp = Some False" using demo_start by blast
  define app where "app = app0\<lparr>ap_poller := (NewChainPoller demo_poller)\<lparr>cp_isStarted := True, cp_blockChan := [demo_block]\<rparr>\<rparr>"
  have "\<exists>s'. RunUntilShutdown demo_cx demo_ve [] (NewFinalityProviderServer cfg app) = (Ok (), s')"
    using \<open>cf_Metrics cfg = _\<close> by (simp add: RunUntilShutdown_def Let_def NewFinalityProviderServer_def metrics_Address_def MetricsConfig_Validate_def
        DefaultFpConfig_def demo_cx_def demo_ve_def)
  then obtain s' where run: "RunUntilShutdown demo_cx demo_ve [] (NewFinalityProviderServer cfg app) = (Ok (), s')" ..
  have "fst (getBatchBlocksFromPoller (fc_BatchSubmissionSize demo_fpcfg) [] (ap_poller app)) \<noteq> []"
    by (simp add: app_def demo_poller_def NewChainPoller_def getBatchBlocksFromPoller.simps TryNextBlock_def Let_def split: prod.splits)
  note blocks = this
  have "sr_started (NewFinalityProviderServer cfg app) = 0" "ve_Close demo_ve = None" "serve [] (sr_app (NewFinalityProviderServer cfg app)) = (Ok (), app)"
    "ap_fpIns app = Some fp" "fi_quit fp \<noteq> Some True"
    using fp by (simp_all add: NewFinalityProviderServer_def demo_ve_def app_def)
  note state = this
  note crash = shutdown_leaves_instance_running [OF run state blocks, of demo_fpx demo_sx]
  have "\<forall>env :: ((bytes, bytes) LocalEOTSManager, bytes list, bytes, bytes, bytes, bytes) tick_env.
      \<exists>c app'. on_fpIns (processAndSubmitSignatures demo_fpx demo_sx demo_fpcfg env) (sr_app s') = (Crash c, app')" using crash by blast
  moreover have "\<not> kv_open (ap_fps (sr_app s'))" using crash by blast
  ultimately show ?thesis using run state(4) by (intro exI [of _ cfg] exI [of _ app] exI [of _ s']) simp
qed


end
