(* ===== verification/FPD_Client.thy ===== *)
theory FPD_Client
  imports FP_Daemon Eots_Server Go_Strings
begin

text \<open>
  The commands of \<^verbatim>\<open>fpd\<close> that call a running daemon (\<^verbatim>\<open>fpd/common/common_cmd.go\<close>, \<^verbatim>\<open>fpd/common/backup.go\<close>,
  \<^verbatim>\<open>fpd/daemon/create_fp.go\<close>) and the client they use (\<^verbatim>\<open>service/client/rpcclient.go\<close>). The command line is given by the values of its
  flags, which reading never fails on, since the commands declare them. A command is a function on the state of the daemon it calls;
  what it prints is its value.
\<close>

section \<open>The daemon as its clients see it\<close>

record ('a, 'xk) fpd_service =
  sv_GetInfo :: "('a, string) cmd"
  sv_CreateFinalityProvider :: "string \<Rightarrow> bytes \<Rightarrow> string \<Rightarrow> bytes \<Rightarrow> (bytes \<times> bytes \<times> bytes) option \<Rightarrow> ('a, FinalityProviderInfo \<times> string) cmd"
  sv_AddFinalitySignature :: "string \<Rightarrow> u64 \<Rightarrow> bytes \<Rightarrow> bool \<Rightarrow> ('a, (string \<times> 'xk option) option) cmd"
  sv_UnjailFinalityProvider :: "string \<Rightarrow> ('a, string) cmd"
  sv_QueryFinalityProviderList :: "('a, FinalityProviderInfo list) cmd"
  sv_QueryFinalityProvider :: "string \<Rightarrow> ('a, FinalityProviderInfo) cmd"
  sv_EditFinalityProvider :: "string \<Rightarrow> Description \<Rightarrow> bytes \<Rightarrow> ('a, unit) cmd"
  sv_UnsafeRemoveMerkleProof :: "string \<Rightarrow> bytes \<Rightarrow> u64 \<Rightarrow> ('a, unit) cmd"

definition rpc_GetInfo :: "string \<Rightarrow> ('a, string) cmd" where
  "rpc_GetInfo version = liftR (Ok version)"

text \<open>The service of a daemon: its handlers, with their errors as they come over the wire. \<open>pbMarshal\<close> is the protobuf encoding of an
  edited description.\<close>

definition daemonService ::
  "(goerror \<Rightarrow> goerror) \<Rightarrow> string \<Rightarrow> ('pk, Description, 'dc) fp_ext \<Rightarrow> ('pk, 'sg, 'rec) app_ext \<Rightarrow> ('pk, 'sc) sub_ext \<Rightarrow> 'pf pr_ext \<Rightarrow>
     (bytes, bytes) evidence_ext \<Rightarrow> ('s, 'c, 'b, 'pk, 'fv, 'sc, 'sg, 'dc) app_env \<Rightarrow> dbfault \<Rightarrow>
     (('pk, 'fv, 'sc) SubmitBatchFinalitySigsRequest \<Rightarrow> ('c, TxResponse option) cmd) \<Rightarrow> bool \<Rightarrow> goerror option \<Rightarrow> (Description \<Rightarrow> bytes go) \<Rightarrow>
     (('s, 'c, 'b, 'pk, 'dc) FinalityProviderApp, bytes) fpd_service" where
  "daemonService onWire version x ax sx px vx env flt submit ended ctxEnd pbMarshal =
     \<lparr>sv_GetInfo = rpc_GetInfo version,
      sv_CreateFinalityProvider = (\<lambda>keyName chainId eotsPkHex desc commission.
        sentBack onWire (rpc_CreateFinalityProvider x ax env keyName chainId eotsPkHex desc commission)),
      sv_AddFinalitySignature = (\<lambda>btcPk height appHash checkDoubleSign.
        sentBack onWire (rpc_AddFinalitySignature sx px ax vx (an_Em env) flt submit ended btcPk height appHash checkDoubleSign)),
      sv_UnjailFinalityProvider = (\<lambda>btcPk. sentBack onWire (rpc_UnjailFinalityProvider x ax env ctxEnd btcPk)),
      sv_QueryFinalityProviderList = sentBack onWire (\<lambda>app. (rpc_QueryFinalityProviderList x ax flt app, app)),
      sv_QueryFinalityProvider = (\<lambda>btcPk. sentBack onWire (\<lambda>app. (rpc_QueryFinalityProvider x ax flt btcPk app, app))),
      sv_EditFinalityProvider = (\<lambda>btcPk desc rate. sentBack onWire (rpc_EditFinalityProvider x ax env btcPk rate (pbMarshal desc))),
      sv_UnsafeRemoveMerkleProof = (\<lambda>btcPk chainId height. sentBack onWire (rpc_UnsafeRemoveMerkleProof px ax flt btcPk chainId height))\<rparr>"

section \<open>The client\<close>

definition NewFinalityProviderServiceGRpcClient :: "(string \<Rightarrow> unit go) \<Rightarrow> string \<Rightarrow> unit go" where
  "NewFinalityProviderServiceGRpcClient dial remoteAddr = wrap (''failed to build gRPC connection to '' @ remoteAddr @ '': '') (dial remoteAddr)"

definition client_GetInfo :: "('a, 'xk) fpd_service \<Rightarrow> ('a, string) cmd" where
  "client_GetInfo sv = wrapS ''failed to get info: '' (sv_GetInfo sv)"

definition client_CreateFinalityProvider ::
  "(Description \<Rightarrow> bytes go) \<Rightarrow> ('a, 'xk) fpd_service \<Rightarrow> string \<Rightarrow> bytes \<Rightarrow> string \<Rightarrow> Description \<Rightarrow> (bytes \<times> bytes \<times> bytes) option \<Rightarrow>
     ('a, FinalityProviderInfo \<times> string) cmd" where
  "client_CreateFinalityProvider marshal sv keyName chainID eotsPkHex description commission =
     sbind (liftR (wrap ''failed to marshal description: '' (marshal description))) (\<lambda>descBytes.
     wrapS ''failed to create finality provider: '' (sv_CreateFinalityProvider sv keyName chainID eotsPkHex descBytes commission))"

definition client_AddFinalitySignature :: "('a, 'xk) fpd_service \<Rightarrow> string \<Rightarrow> u64 \<Rightarrow> bytes \<Rightarrow> bool \<Rightarrow> ('a, (string \<times> 'xk option) option) cmd" where
  "client_AddFinalitySignature sv fpPk height appHash checkDoubleSign =
     wrapS ''failed to add finality signature: '' (sv_AddFinalitySignature sv fpPk height appHash checkDoubleSign)"

definition client_UnjailFinalityProvider :: "('a, 'xk) fpd_service \<Rightarrow> string \<Rightarrow> ('a, string) cmd" where
  "client_UnjailFinalityProvider sv fpPk = wrapS ''failed to unjail finality provider: '' (sv_UnjailFinalityProvider sv fpPk)"

definition client_QueryFinalityProviderList :: "('a, 'xk) fpd_service \<Rightarrow> ('a, FinalityProviderInfo list) cmd" where
  "client_QueryFinalityProviderList sv = wrapS ''failed to query finality provider list: '' (sv_QueryFinalityProviderList sv)"

definition client_QueryFinalityProviderInfo :: "(bytes \<Rightarrow> string) \<Rightarrow> ('a, 'xk) fpd_service \<Rightarrow> bytes \<Rightarrow> ('a, FinalityProviderInfo) cmd" where
  "client_QueryFinalityProviderInfo hex sv fpPk = wrapS ''failed to query finality provider: '' (sv_QueryFinalityProvider sv (hex fpPk))"

definition client_EditFinalityProvider :: "(bytes \<Rightarrow> string) \<Rightarrow> ('a, 'xk) fpd_service \<Rightarrow> bytes \<Rightarrow> Description \<Rightarrow> bytes \<Rightarrow> ('a, unit) cmd" where
  "client_EditFinalityProvider hex sv fpPk desc rate = wrapS ''failed to edit finality provider: '' (sv_EditFinalityProvider sv (hex fpPk) desc rate)"

definition client_UnsafeRemoveMerkleProof :: "(bytes \<Rightarrow> string) \<Rightarrow> ('a, 'xk) fpd_service \<Rightarrow> bytes \<Rightarrow> bytes \<Rightarrow> u64 \<Rightarrow> ('a, unit) cmd" where
  "client_UnsafeRemoveMerkleProof hex sv fpPk chainID targetHeight =
     wrapS ''failed to remove merkle proof: '' (sv_UnsafeRemoveMerkleProof sv (hex fpPk) chainID targetHeight)"

definition fpd_client_Backup :: "(bytes \<Rightarrow> bytes \<Rightarrow> ('a, bytes) cmd) \<Rightarrow> bytes \<Rightarrow> bytes \<Rightarrow> ('a, bytes) cmd" where
  "fpd_client_Backup call dbPath backupDir = wrapS ''failed to backup database: '' (call dbPath backupDir)"

section \<open>The commands of a running daemon\<close>

definition withClient :: "(string \<Rightarrow> unit go) \<Rightarrow> string \<Rightarrow> ('a, 'r) cmd \<Rightarrow> ('a, 'r) cmd" where
  "withClient dial daemonAddress m =
     sbind (liftR (wrap ''failed to create grpc client: '' (NewFinalityProviderServiceGRpcClient dial daemonAddress))) (\<lambda>_. m)"

definition runCommandGetDaemonInfo :: "(string \<Rightarrow> unit go) \<Rightarrow> ('a, 'xk) fpd_service \<Rightarrow> string \<Rightarrow> ('a, string) cmd" where
  "runCommandGetDaemonInfo dial sv daemonAddress = withClient dial daemonAddress (wrapS ''failed to get daemon info: '' (client_GetInfo sv))"

definition runCommandUnjailFP :: "(string \<Rightarrow> unit go) \<Rightarrow> ('a, 'xk) fpd_service \<Rightarrow> string \<Rightarrow> string \<Rightarrow> ('a, string) cmd" where
  "runCommandUnjailFP dial sv daemonAddress arg =
     withClient dial daemonAddress (wrapS ''failed to unjail finality provider: '' (client_UnjailFinalityProvider sv arg))"

definition runCommandLsFP :: "(string \<Rightarrow> unit go) \<Rightarrow> ('a, 'xk) fpd_service \<Rightarrow> string \<Rightarrow> ('a, FinalityProviderInfo list) cmd" where
  "runCommandLsFP dial sv daemonAddress =
     withClient dial daemonAddress (wrapS ''failed to query finality provider list: '' (client_QueryFinalityProviderList sv))"

text \<open>The error of a malformed key names the wrong flag.\<close>

definition runCommandInfoFP ::
  "('pk, 'sg, 'rec) app_ext \<Rightarrow> (string \<Rightarrow> unit go) \<Rightarrow> ('a, 'xk) fpd_service \<Rightarrow> string \<Rightarrow> string \<Rightarrow> ('a, FinalityProviderInfo) cmd" where
  "runCommandInfoFP ax dial sv daemonAddress arg =
     sbind (liftR (wrap ''failed to read flag daemon-address: '' (ax_FromHex ax arg))) (\<lambda>fpPk.
     withClient dial daemonAddress (wrapS ''failed to query finality provider info: ''
       (client_QueryFinalityProviderInfo (ax_MarshalHex ax) sv fpPk)))"

definition runCommandAddFinalitySig ::
  "('pk, 'sg, 'rec) app_ext \<Rightarrow> (string \<Rightarrow> unit go) \<Rightarrow> ('a, 'xk) fpd_service \<Rightarrow> string \<Rightarrow> string \<Rightarrow> bool \<Rightarrow> string \<Rightarrow> string \<Rightarrow>
     ('a, (string \<times> 'xk option) option) cmd" where
  "runCommandAddFinalitySig ax dial sv daemonAddress appHashHex checkDoubleSign arg0 arg1 =
     sbind (liftR (wrap ''failed to parse BIP340 public key from hex: '' (ax_FromHex ax arg0))) (\<lambda>fpPk.
     sbind (liftR (wrap ''failed to parse block height: '' (ParseUint64 arg1))) (\<lambda>blkHeight.
     if length appHashHex = 0 then liftR (Err (ErrText ''app hash is required''))
     else
       sbind (liftR (wrap ''failed to decode app hash: '' (hex_DecodeString appHashHex))) (\<lambda>appHash.
       if length appHash \<noteq> 32
       then liftR (Err (ErrText (''invalid app hash length: got '' @ fmt_nat (length appHash) @ '' bytes, expected 32 bytes'')))
       else withClient dial daemonAddress (wrapS ''failed to add finality signature: ''
         (client_AddFinalitySignature sv (ax_MarshalHex ax fpPk) blkHeight appHash checkDoubleSign)))))"

definition runCommandEditFinalityDescription ::
  "('pk, 'sg, 'rec) app_ext \<Rightarrow> (string \<Rightarrow> unit go) \<Rightarrow> ('a, 'xk) fpd_service \<Rightarrow> string \<Rightarrow> Description \<Rightarrow> string \<Rightarrow> string \<Rightarrow> ('a, unit) cmd" where
  "runCommandEditFinalityDescription ax dial sv daemonAddress desc rate arg =
     sbind (liftR (wrap ''failed to parse BIP340 public key from hex: '' (ax_FromHex ax arg))) (\<lambda>fpPk.
     withClient dial daemonAddress (wrapS (''failed to edit finality provider '' @ ax_MarshalHex ax fpPk @ '' err '')
       (client_EditFinalityProvider (ax_MarshalHex ax) sv fpPk desc rate)))"

definition runCommandUnsafePruneMerkleProof ::
  "('pk, 'sg, 'rec) app_ext \<Rightarrow> (string \<Rightarrow> unit go) \<Rightarrow> ('a, 'xk) fpd_service \<Rightarrow> string \<Rightarrow> bytes \<Rightarrow> u64 \<Rightarrow> string \<Rightarrow> ('a, unit) cmd" where
  "runCommandUnsafePruneMerkleProof ax dial sv daemonAddress chainID targetHeight arg =
     sbind (liftR (wrap ''failed to parse BIP340 public key from hex: '' (ax_FromHex ax arg))) (\<lambda>fpPk.
     withClient dial daemonAddress (wrapS (''failed to remove merkle proof '' @ ax_MarshalHex ax fpPk @ '' err '')
       (client_UnsafeRemoveMerkleProof (ax_MarshalHex ax) sv fpPk chainID targetHeight)))"

definition fpd_backup :: "(string \<Rightarrow> unit go) \<Rightarrow> (bytes \<Rightarrow> bytes \<Rightarrow> ('a, bytes) cmd) \<Rightarrow> string \<Rightarrow> string \<Rightarrow> string \<Rightarrow> ('a, string) cmd" where
  "fpd_backup dial call dbPath backupDir rpcListener =
     withClient dial rpcListener (sbind (wrapS ''failed to backup database: '' (fpd_client_Backup call dbPath backupDir)) (\<lambda>backupName.
       liftR (Ok (backupDir @ ''/'' @ backupName))))"

section \<open>The registration command\<close>

record ParsedFinalityProvider =
  pp_KeyName :: string
  pp_ChainID :: bytes
  pp_EotsPK :: string
  pp_Description :: Description
  pp_CommissionRates :: "(bytes \<times> bytes \<times> bytes) option"

record internalFpJSON =
  js_KeyName :: string
  js_ChainID :: string
  js_Passphrase :: string
  js_CommissionRate :: string
  js_CommissionMaxRate :: string
  js_CommissionMaxChangeRate :: string
  js_Moniker :: string
  js_Identity :: string
  js_Website :: string
  js_SecurityContract :: string
  js_Details :: string
  js_EotsPK :: string

record create_flags =
  cl_FromFile :: string
  cl_KeyName :: string
  cl_ChainID :: string
  cl_CommissionRate :: string
  cl_CommissionMaxRate :: string
  cl_CommissionMaxChangeRate :: string
  cl_Moniker :: string
  cl_Identity :: string
  cl_Website :: string
  cl_SecurityContact :: string
  cl_Details :: string
  cl_FpEotsPk :: string

text \<open>The flags the command marks as required before it runs.\<close>

definition requiredFlags :: "string \<Rightarrow> string list" where
  "requiredFlags fromFilePath =
     (if fromFilePath = []
      then [''chain-id'', ''key-name'', ''moniker'', ''commission-rate'', ''commission-max-rate'', ''commission-max-change-rate'', ''eots-pk'']
      else [])"

definition NewCommissionRates :: "('pk, 'ds, 'dc) fp_ext \<Rightarrow> 'dc \<Rightarrow> 'dc \<Rightarrow> 'dc \<Rightarrow> bytes \<times> bytes \<times> bytes" where
  "NewCommissionRates x rate maxRate maxChangeRate = (fx_DecString x rate, fx_DecString x maxRate, fx_DecString x maxChangeRate)"

definition create_getCommissionRates :: "('pk, 'ds, 'dc) fp_ext \<Rightarrow> string \<Rightarrow> string \<Rightarrow> string \<Rightarrow> (bytes \<times> bytes \<times> bytes) go" where
  "create_getCommissionRates x rateStr maxRateStr maxChangeRateStr =
     rbind (wrap ''invalid commission rate: '' (fx_DecFromStr x rateStr)) (\<lambda>rate.
     rbind (wrap ''invalid commission max rate: '' (fx_DecFromStr x maxRateStr)) (\<lambda>maxRate.
     rbind (wrap ''invalid commission max change rate: '' (fx_DecFromStr x maxChangeRateStr)) (\<lambda>maxRateChange.
     Ok (NewCommissionRates x rate maxRate maxRateChange))))"

text \<open>\<open>ensure\<close> is the length check of the SDK's description.\<close>

definition getDescriptionFromFlags :: "(Description \<Rightarrow> Description go) \<Rightarrow> create_flags \<Rightarrow> Description go" where
  "getDescriptionFromFlags ensure f =
     wrap ''failed to ensure description length: ''
       (ensure \<lparr>ds_Moniker = cl_Moniker f, ds_Identity = cl_Identity f, ds_Website = cl_Website f, ds_SecurityContact = cl_SecurityContact f,
          ds_Details = cl_Details f\<rparr>)"

definition ParseFinalityProviderJSON ::
  "('pk, 'ds, 'dc) fp_ext \<Rightarrow> (Description \<Rightarrow> Description go) \<Rightarrow> (string \<Rightarrow> bytes go) \<Rightarrow> (bytes \<Rightarrow> internalFpJSON go) \<Rightarrow> string \<Rightarrow> ParsedFinalityProvider go" where
  "ParseFinalityProviderJSON x ensure rdFile unmarshal path =
     rbind (wrap ''failed to read file: '' (rdFile path)) (\<lambda>contents.
     rbind (wrap ''failed to unmarshal JSON: '' (unmarshal contents)) (\<lambda>fp.
     if js_ChainID fp = [] then Err (ErrText ''chainID is required'')
     else if js_Moniker fp = [] then Err (ErrText ''moniker is required'')
     else if js_CommissionRate fp = [] then Err (ErrText ''commissionRate is required'')
     else if js_CommissionMaxRate fp = [] then Err (ErrText ''CommissionMaxRate is required'')
     else if js_CommissionMaxChangeRate fp = [] then Err (ErrText ''CommissionMaxChangeRate is required'')
     else if js_EotsPK fp = [] then Err (ErrText ''eotsPK is required'')
     else
       rbind (create_getCommissionRates x (js_CommissionRate fp) (js_CommissionMaxRate fp) (js_CommissionMaxChangeRate fp)) (\<lambda>commRates.
       rbind (wrap ''failed to ensure description length: ''
         (ensure \<lparr>ds_Moniker = js_Moniker fp, ds_Identity = js_Identity fp, ds_Website = js_Website fp, ds_SecurityContact = js_SecurityContract fp,
            ds_Details = js_Details fp\<rparr>)) (\<lambda>description.
       Ok \<lparr>pp_KeyName = js_KeyName fp, pp_ChainID = js_ChainID fp, pp_EotsPK = js_EotsPK fp, pp_Description = description,
           pp_CommissionRates = Some commRates\<rparr>))))"

definition ParseFinalityProviderFlags ::
  "('pk, 'ds, 'dc) fp_ext \<Rightarrow> (Description \<Rightarrow> Description go) \<Rightarrow> create_flags \<Rightarrow> ParsedFinalityProvider go" where
  "ParseFinalityProviderFlags x ensure flags =
     rbind (create_getCommissionRates x (cl_CommissionRate flags) (cl_CommissionMaxRate flags) (cl_CommissionMaxChangeRate flags)) (\<lambda>commRates.
     rbind (wrap ''invalid description: '' (getDescriptionFromFlags ensure flags)) (\<lambda>description.
     if cl_ChainID flags = [] then Err (ErrText ''chain-id cannot be empty'')
     else if cl_FpEotsPk flags = [] then Err (ErrText ''eots-pk cannot be empty'')
     else Ok \<lparr>pp_KeyName = cl_KeyName flags, pp_ChainID = cl_ChainID flags, pp_EotsPK = cl_FpEotsPk flags, pp_Description = description,
              pp_CommissionRates = Some commRates\<rparr>))"

text \<open>\<open>load\<close>: the configuration in the home directory, whose key is taken when none is given. An error of the parsing is a panic.\<close>

definition createKeyName :: "(string \<Rightarrow> FpConfig go) \<Rightarrow> string \<Rightarrow> ParsedFinalityProvider \<Rightarrow> string go" where
  "createKeyName load homeDir fp =
     (if pp_KeyName fp \<noteq> [] then Ok (pp_KeyName fp)
      else
        rbind (wrap (''failed to load config from '' @ CfgFile homeDir @ '': '') (load homeDir)) (\<lambda>cfg.
        rbind (deref (cf_BabylonConfig cfg)) (\<lambda>babylonConfig.
        if bn_Key babylonConfig = [] then Err (ErrText ''the key is neither in config nor provided'') else Ok (bn_Key babylonConfig))))"

definition runCommandCreateFP ::
  "('pk, Description, 'dc) fp_ext \<Rightarrow> (Description \<Rightarrow> Description go) \<Rightarrow> (string \<Rightarrow> bytes go) \<Rightarrow> (bytes \<Rightarrow> internalFpJSON go) \<Rightarrow> (string \<Rightarrow> FpConfig go) \<Rightarrow>
     (string \<Rightarrow> unit go) \<Rightarrow> ('a, 'xk) fpd_service \<Rightarrow> string \<Rightarrow> string \<Rightarrow> create_flags \<Rightarrow> ('a, FinalityProviderInfo \<times> string) cmd" where
  "runCommandCreateFP x ensure rdFile unmarshal load dial sv homeDir daemonAddress flags =
     sbind (liftR (must
       (if cl_FromFile flags \<noteq> [] then ParseFinalityProviderJSON x ensure rdFile unmarshal (cl_FromFile flags)
        else ParseFinalityProviderFlags x ensure flags))) (\<lambda>fp.
     sbind (liftR (createKeyName load homeDir fp)) (\<lambda>keyName.
     sbind (liftR (wrap ''failed to create finality provider service grpc client: '' (NewFinalityProviderServiceGRpcClient dial daemonAddress))) (\<lambda>_.
     wrapS ''failed to create finality provider: ''
       (client_CreateFinalityProvider (fx_DescMarshal x) sv keyName (pp_ChainID fp) (pp_EotsPK fp) (pp_Description fp) (pp_CommissionRates fp)))))"

section \<open>Properties\<close>

text \<open>A file and a command line with the same values are the same request.\<close>

lemma json_as_flags:
  assumes "ParseFinalityProviderJSON x ensure rdFile unmarshal path = Ok fp" and "rdFile path = Ok contents" and "unmarshal contents = Ok js"
  shows "ParseFinalityProviderFlags x ensure \<lparr>cl_FromFile = [], cl_KeyName = js_KeyName js, cl_ChainID = js_ChainID js,
    cl_CommissionRate = js_CommissionRate js, cl_CommissionMaxRate = js_CommissionMaxRate js, cl_CommissionMaxChangeRate = js_CommissionMaxChangeRate js,
    cl_Moniker = js_Moniker js, cl_Identity = js_Identity js, cl_Website = js_Website js, cl_SecurityContact = js_SecurityContract js,
    cl_Details = js_Details js, cl_FpEotsPk = js_EotsPK js\<rparr> = Ok fp"
  using assms
  by (auto simp: ParseFinalityProviderJSON_def ParseFinalityProviderFlags_def getDescriptionFromFlags_def go_simps split: if_splits)

lemma sentBack_state [simp]: "snd (sentBack onWire m s) = snd (m s)"
  by (auto simp: sentBack_def split: prod.splits go.splits)

lemma sentBack_Ok [simp]: "fst (sentBack onWire m s) = Ok v \<longleftrightarrow> fst (m s) = Ok v"
  by (auto simp: sentBack_def split: prod.splits go.splits)

lemma wrapS_parts [simp]: "snd (wrapS p m s) = snd (m s)" "fst (wrapS p m s) = Ok v \<longleftrightarrow> fst (m s) = Ok v"
  by (auto simp: wrapS_def go_simps split: prod.splits)

context fp_codec
begin

lemma parsed_rates:
  assumes "create_getCommissionRates x a b c = Ok cr"
  shows "\<exists>rates. GetCommissionRates x (Some cr) = Ok rates \<and> fx_DecFromStr x a = Ok (cr_Rate rates) \<and> fx_DecFromStr x b = Ok (cr_MaxRate rates) \<and>
    fx_DecFromStr x c = Ok (cr_MaxChangeRate rates)"
  using assms by (auto simp: create_getCommissionRates_def NewCommissionRates_def GetCommissionRates_def go_simps dec_round_trip)

end

text \<open>C24. The registration command is the daemon's registration: with the values of its command line, or of a file with the same
  values, it asks the daemon for exactly this key name, chain, public key, description and these commission rates, through the encodings
  of the client and back through those of the handler. It changes the daemon as the registration does, and prints its answer.\<close>

theorem create_command_registers:
  assumes codec: "fp_codec x" and parsed: "ParseFinalityProviderFlags x ensure flags = Ok fp" and "cl_FromFile flags = []"
    and "createKeyName load homeDir fp = Ok keyName" and "dial daemonAddress = Ok ()" and "fx_DescMarshal x (pp_Description fp) = Ok b"
    and "ax_FromHex ax (cl_FpEotsPk flags) = Ok pk"
  shows "\<exists>rates. fx_DecFromStr x (cl_CommissionRate flags) = Ok (cr_Rate rates) \<and> fx_DecFromStr x (cl_CommissionMaxRate flags) = Ok (cr_MaxRate rates) \<and>
    fx_DecFromStr x (cl_CommissionMaxChangeRate flags) = Ok (cr_MaxChangeRate rates) \<and>
    (let run = runCommandCreateFP x ensure rdFile unmarshal load dial
           (daemonService onWire version x ax sx px vx env flt submit ended ctxEnd pbMarshal) homeDir daemonAddress flags app;
         reg = app_CreateFinalityProvider x ax env keyName (cl_ChainID flags) (Some pk) (pp_Description fp) rates app
     in snd run = snd reg \<and> (\<forall>v. fst run = Ok v \<longleftrightarrow> fst reg = Ok v))"
proof -
  from parsed obtain cr where cr: "create_getCommissionRates x (cl_CommissionRate flags) (cl_CommissionMaxRate flags) (cl_CommissionMaxChangeRate flags) = Ok cr"
    and fp: "pp_CommissionRates fp = Some cr" "pp_ChainID fp = cl_ChainID flags" "pp_EotsPK fp = cl_FpEotsPk flags" "cl_FpEotsPk flags \<noteq> []"
    by (auto simp: ParseFinalityProviderFlags_def go_simps split: if_splits)
  from fp_codec.parsed_rates [OF codec cr] obtain rates where rates: "GetCommissionRates x (Some cr) = Ok rates"
    "fx_DecFromStr x (cl_CommissionRate flags) = Ok (cr_Rate rates)" "fx_DecFromStr x (cl_CommissionMaxRate flags) = Ok (cr_MaxRate rates)"
    "fx_DecFromStr x (cl_CommissionMaxChangeRate flags) = Ok (cr_MaxChangeRate rates)" by blast
  have desc: "fx_DescUnmarshal x b = Ok (pp_Description fp)" using fp_codec.desc_round_trip [OF codec assms(6)] .
  have handler: "rpc_CreateFinalityProvider x ax env keyName (cl_ChainID flags) (cl_FpEotsPk flags) b (Some cr) =
      wrapS ''failed to create finality provider: ''
        (app_CreateFinalityProvider x ax env keyName (cl_ChainID flags) (Some pk) (pp_Description fp) rates)"
    using rates(1) desc assms(7) fp(4) by (simp add: rpc_CreateFinalityProvider_def parseEotsPk_def sbind_def liftR_def fun_eq_iff)
  have run: "runCommandCreateFP x ensure rdFile unmarshal load dial (daemonService onWire version x ax sx px vx env flt submit ended ctxEnd pbMarshal)
      homeDir daemonAddress flags app =
    wrapS ''failed to create finality provider: '' (wrapS ''failed to create finality provider: '' (sentBack onWire
      (wrapS ''failed to create finality provider: ''
        (app_CreateFinalityProvider x ax env keyName (cl_ChainID flags) (Some pk) (pp_Description fp) rates)))) app"
    using assms(2-6) fp
    by (simp add: runCommandCreateFP_def NewFinalityProviderServiceGRpcClient_def client_CreateFinalityProvider_def daemonService_def handler sbind_def
        liftR_def wrapS_def)
  show ?thesis using rates(2-4) by (intro exI [of _ rates]) (simp add: run Let_def wrap_eq_Ok)
qed

definition demo_flags :: create_flags where
  "demo_flags = \<lparr>cl_FromFile = [], cl_KeyName = ''key'', cl_ChainID = ''bbn-1'', cl_CommissionRate = ''0.1'', cl_CommissionMaxRate = ''0.2'',
     cl_CommissionMaxChangeRate = ''0.01'', cl_Moniker = ''m'', cl_Identity = [], cl_Website = [], cl_SecurityContact = [], cl_Details = [], cl_FpEotsPk = ''k''\<rparr>"

definition demo_vx :: "(bytes, bytes) evidence_ext" where
  "demo_vx = \<lparr>ev_EventType = (\<lambda>b. b), ev_EvidenceAttr = (\<lambda>b. b), ev_UnmarshalString = Ok, ev_ExtractBTCSK = Ok\<rparr>"

definition demo_service where
  "demo_service = daemonService id ''v1'' demo_fpx demo_ax demo_sx (rx_pr demo_rx) demo_vx (demo_appenv demo_cc) NoFault (\<lambda>_ c. (Ok None, c)) False None (\<lambda>_. Ok [])"

theorem create_command_registers_witness:
  "snd (runCommandCreateFP demo_fpx Ok (\<lambda>_. Ok []) (\<lambda>_. Err (ErrText ''no file'')) (\<lambda>_. Err (ErrText ''no config'')) (\<lambda>_. Ok ()) demo_service
       ''/home'' ''addr'' demo_flags (demo_app None)) =
     snd (app_CreateFinalityProvider demo_fpx demo_ax (demo_appenv demo_cc) ''key'' ''bbn-1'' (Some ''k'')
       \<lparr>ds_Moniker = ''m'', ds_Identity = [], ds_Website = [], ds_SecurityContact = [], ds_Details = []\<rparr>
       \<lparr>cr_Rate = ''0.1'', cr_MaxRate = ''0.2'', cr_MaxChangeRate = ''0.01''\<rparr> (demo_app None))"
proof -
  let ?d = "\<lparr>ds_Moniker = ''m'', ds_Identity = [], ds_Website = [], ds_SecurityContact = [], ds_Details = []\<rparr>"
  obtain fp where fp: "ParseFinalityProviderFlags demo_fpx Ok demo_flags = Ok fp" "pp_Description fp = ?d" "pp_KeyName fp = ''key''"
    by (simp add: ParseFinalityProviderFlags_def create_getCommissionRates_def getDescriptionFromFlags_def demo_flags_def demo_fpx_def)
  have key: "createKeyName (\<lambda>_. Err (ErrText ''no config'')) ''/home'' fp = Ok ''key''" by (simp add: createKeyName_def fp(3))
  have fl: "cl_FromFile demo_flags = []" "ax_FromHex demo_ax (cl_FpEotsPk demo_flags) = Ok ''k''" by (simp_all add: demo_flags_def demo_ax_def)
  have desc: "fx_DescMarshal demo_fpx (pp_Description fp) = Ok (enc_desc ?d)" by (simp add: demo_fpx_def fp(2))
  have dec: "fx_DecFromStr demo_fpx b = Ok b" for b by (simp add: demo_fpx_def)
  have dial: "(\<lambda>_ :: string. Ok ()) ''addr'' = Ok ()" by simp
  note reg = create_command_registers [where dial = "\<lambda>_. Ok ()", OF demo_fpx.fp_codec_axioms fp(1) fl(1) key dial desc fl(2)]
  obtain rates where rates: "cr_Rate rates = ''0.1''" "cr_MaxRate rates = ''0.2''" "cr_MaxChangeRate rates = ''0.01''"
    and run: "snd (runCommandCreateFP demo_fpx Ok (\<lambda>_. Ok []) (\<lambda>_. Err (ErrText ''no file'')) (\<lambda>_. Err (ErrText ''no config'')) (\<lambda>_. Ok ()) demo_service
        ''/home'' ''addr'' demo_flags (demo_app None)) =
      snd (app_CreateFinalityProvider demo_fpx demo_ax (demo_appenv demo_cc) ''key'' (cl_ChainID demo_flags) (Some ''k'') (pp_Description fp) rates (demo_app None))"
    using reg [where rdFile = "\<lambda>_. Ok []" and unmarshal = "\<lambda>_. Err (ErrText ''no file'')" and onWire = id and version = "''v1''" and sx = demo_sx and
        px = "rx_pr demo_rx" and vx = demo_vx and env = "demo_appenv demo_cc" and flt = NoFault and submit = "\<lambda>_ c. (Ok None, c)" and ended = False and
        ctxEnd = None and pbMarshal = "\<lambda>_. Ok []" and app = "demo_app None" and daemonAddress = "''addr''"]
    by (auto simp: dec Let_def demo_service_def) (simp add: demo_flags_def)
  from rates have "rates = \<lparr>cr_Rate = ''0.1'', cr_MaxRate = ''0.2'', cr_MaxChangeRate = ''0.01''\<rparr>" by simp
  with run fp(2) show ?thesis by (simp add: demo_flags_def)
qed

section \<open>The commands on a provider\<close>

text \<open>Two runs with the same effect that succeed together, with the same answer; the errors are worded differently.\<close>

definition sameOutcome :: "'r go \<times> 'a \<Rightarrow> 'r go \<times> 'a \<Rightarrow> bool" where
  "sameOutcome a b \<longleftrightarrow> snd a = snd b \<and> (\<forall>v. fst a = Ok v \<longleftrightarrow> fst b = Ok v)"

lemma sameOutcome_refl [simp]: "sameOutcome a a"
  by (simp add: sameOutcome_def)

lemma sameOutcome_wrapS [simp]: "sameOutcome (wrapS p m s) b \<longleftrightarrow> sameOutcome (m s) b"
  by (simp add: sameOutcome_def wrap_eq_Ok)

lemma sameOutcome_sentBack [simp]: "sameOutcome (sentBack onWire m s) b \<longleftrightarrow> sameOutcome (m s) b"
  by (simp add: sameOutcome_def)

lemma sameOutcome_sbind:
  assumes m: "sameOutcome (m s) (m' s)" and k: "\<And>a t. sameOutcome (k a t) (k' a t)"
  shows "sameOutcome (sbind m k s) (sbind m' k' s)"
proof -
  obtain r r' t where t: "m s = (r, t)" "m' s = (r', t)" and r: "\<And>v. r = Ok v \<longleftrightarrow> r' = Ok v"
    using m by (cases "m s"; cases "m' s") (auto simp: sameOutcome_def)
  show ?thesis
  proof (cases "\<exists>v. r = Ok v")
    case True
    then obtain v where "r = Ok v" "r' = Ok v" using r by blast
    then show ?thesis using t k by (simp add: sbind_def)
  next
    case False
    with r have "\<nexists>v. r' = Ok v" by blast
    with False t show ?thesis by (cases r; cases r') (simp_all add: sameOutcome_def sbind_def)
  qed
qed

lemma liftR_Ok_bind: "sbind (liftR (Ok a)) k = k a"
  by (simp add: sbind_def liftR_def fun_eq_iff)

lemma withClient_dialled: "dial addr = Ok () \<Longrightarrow> withClient dial addr m = m"
  by (simp add: withClient_def NewFinalityProviderServiceGRpcClient_def fun_eq_iff sbind_def liftR_def)




end
