(* ===== verification/Rand_Recovery.thy ===== *)
theory Rand_Recovery
  imports FP_Instance
begin

text \<open>
  The operator's tools for the randomness: committing up to a height by hand (\<^verbatim>\<open>service/fp_test_helper.go\<close>,
  \<^verbatim>\<open>cmd/fpd/daemon/commit_pr.go\<close>) and recovering lost inclusion proofs from the commitments on the chain
  (\<^verbatim>\<open>cmd/fpd/daemon/recover_proof.go\<close>).
\<close>

section \<open>Committing by hand\<close>

text \<open>The loop over the start heights; \<open>None\<close> is a loop that never ends, \<open>num\<close> is \<^verbatim>\<open>cfg.NumPubRand\<close>.\<close>

partial_function (option) commitFrom ::
  "('pk, 'fv, 'pf) rc_ext \<Rightarrow> (nat \<Rightarrow> ('s, 'c, 'pk, 'fv, 'sc, 'sg) rand_env) \<Rightarrow> u32 \<Rightarrow> u64 \<Rightarrow> nat \<Rightarrow> u64 \<Rightarrow>
     ('s, 'c, 'pk, 'ds, 'dc) FinalityProviderInstance \<Rightarrow> (unit go \<times> ('s, 'c, 'pk, 'ds, 'dc) FinalityProviderInstance) option" where
  "commitFrom rx env num targetBlockHeight i startHeight fp =
     (if startHeight \<le> targetBlockHeight
      then (case fpi_CommitPubRand rx (env i) startHeight fp of
          (Err e, fp) \<Rightarrow> Some (Err e, fp)
        | (Crash c, fp) \<Rightarrow> Some (Crash c, fp)
        | (Ok _, fp) \<Rightarrow>
            let lastCommittedHeight = startHeight + ucast num - 1 in
            commitFrom rx env num targetBlockHeight (Suc i) (lastCommittedHeight + 1) fp)
      else Some (Ok (), fp))"

definition CommitPubRandWithStartHeight ::
  "('pk, 'fv, 'pf) rc_ext \<Rightarrow> ('pk \<Rightarrow> string) \<Rightarrow> (nat \<Rightarrow> 'pk ConsumerController) \<Rightarrow> (nat \<Rightarrow> ('s, 'c, 'pk, 'fv, 'sc, 'sg) rand_env) \<Rightarrow> u32 \<Rightarrow> u64 \<Rightarrow> u64 \<Rightarrow>
     ('s, 'c, 'pk, 'ds, 'dc) FinalityProviderInstance \<Rightarrow> (unit go \<times> ('s, 'c, 'pk, 'ds, 'dc) FinalityProviderInstance) option" where
  "CommitPubRandWithStartHeight rx hex cc env num startHeight targetBlockHeight fp =
     (if targetBlockHeight < startHeight
      then Some (Err (ErrText ''start height should not be greater than target block height''), fp)
      else case fpi_GetLastCommittedHeight rx cc fp of
          Err e \<Rightarrow> Some (Err e, fp)
        | Crash c \<Rightarrow> Some (Crash c, fp)
        | Ok lastCommittedHeight \<Rightarrow>
            if startHeight \<le> lastCommittedHeight
            then Some (Err (ErrText (''finality provider has already committed pubrand at the start height (pk: '' @
                   hex (GetBtcPk (fi_fpState fp)) @ '', startHeight: '' @ fmt_u64 startHeight @ '', lastCommittedHeight: '' @
                   fmt_u64 lastCommittedHeight @ '')'')), fp)
            else commitFrom rx env num targetBlockHeight 0 startHeight fp)"

text \<open>The two queries of the last committed height see the chain as \<open>cc 0\<close> and \<open>cc 1\<close>.\<close>

definition th_CommitPubRand ::
  "('pk, 'fv, 'pf) rc_ext \<Rightarrow> ('pk \<Rightarrow> string) \<Rightarrow> (nat \<Rightarrow> nat \<Rightarrow> 'pk ConsumerController) \<Rightarrow> (nat \<Rightarrow> ('s, 'c, 'pk, 'fv, 'sc, 'sg) rand_env) \<Rightarrow> u32 \<Rightarrow> u64 \<Rightarrow>
     ('s, 'c, 'pk, 'ds, 'dc) FinalityProviderInstance \<Rightarrow> (unit go \<times> ('s, 'c, 'pk, 'ds, 'dc) FinalityProviderInstance) option" where
  "th_CommitPubRand rx hex cc env num targetBlockHeight fp =
     (case fpi_GetLastCommittedHeight rx (cc 0) fp of
        Err e \<Rightarrow> Some (Err e, fp)
      | Crash c \<Rightarrow> Some (Crash c, fp)
      | Ok lastCommittedHeight \<Rightarrow>
          if targetBlockHeight \<le> lastCommittedHeight
          then Some (Err (ErrText (''finality provider has already committed pubrand to target block height (pk: '' @
                 hex (GetBtcPk (fi_fpState fp)) @ '', target: '' @ fmt_u64 targetBlockHeight @ '', last committed: '' @
                 fmt_u64 lastCommittedHeight @ '')'')), fp)
          else
            let startHeight = (if lastCommittedHeight = 0 then 0 else lastCommittedHeight + 1) in
            CommitPubRandWithStartHeight rx hex (cc 1) env num startHeight targetBlockHeight fp)"

text \<open>The command, once the provider is loaded: the flag's default means no start height.\<close>

definition RunCommandCommitPubRandWithConfig ::
  "('pk, 'fv, 'pf) rc_ext \<Rightarrow> ('pk \<Rightarrow> string) \<Rightarrow> (nat \<Rightarrow> nat \<Rightarrow> 'pk ConsumerController) \<Rightarrow> (nat \<Rightarrow> ('s, 'c, 'pk, 'fv, 'sc, 'sg) rand_env) \<Rightarrow> u32 \<Rightarrow> u64 \<Rightarrow> u64 \<Rightarrow>
     ('s, 'c, 'pk, 'ds, 'dc) FinalityProviderInstance \<Rightarrow> (unit go \<times> ('s, 'c, 'pk, 'ds, 'dc) FinalityProviderInstance) option" where
  "RunCommandCommitPubRandWithConfig rx hex cc env num startHeight targetHeight fp =
     (if startHeight = 2 ^ 64 - 1
      then map_option (\<lambda>(r, fp). (wrap ''failed to commit pubrand: '' r, fp)) (th_CommitPubRand rx hex cc env num targetHeight fp)
      else map_option (\<lambda>(r, fp). (wrap ''failed to commit pubrand with start height: '' r, fp))
             (CommitPubRandWithStartHeight rx hex (cc 0) env num startHeight targetHeight fp))"

section \<open>Recovering proofs\<close>

text \<open>The two functions of the command are arguments, as in the program: how a commitment's randomness is created and
  how its proofs are stored.\<close>

definition recoverCommit ::
  "('pk, 'fv, 'pf) rc_ext \<Rightarrow> (bytes \<Rightarrow> bytes \<Rightarrow> BabylonPubRandCommit \<Rightarrow> 'pf list \<Rightarrow> ('st, unit) cmd) \<Rightarrow>
     (bytes \<Rightarrow> bytes \<Rightarrow> BabylonPubRandCommit \<Rightarrow> ('st, 'fv list) cmd) \<Rightarrow> (bytes \<Rightarrow> string) \<Rightarrow> bytes \<Rightarrow> bytes \<Rightarrow> BabylonPubRandCommit \<Rightarrow> ('st, unit) cmd" where
  "recoverCommit rx addPubRandProofListFunc createRandomnessFunc hex chainID fpPk commit =
     (if 2 ^ 32 - 1 < bp_NumPubRand commit
      then liftR (Err (ErrText (''NumPubRand '' @ fmt_u64 (bp_NumPubRand commit) @ '' exceeds maximum uint32 value'')))
      else
        sbind (wrapS (''failed to get randomness from height '' @ fmt_u64 (bp_StartHeight commit) @ '' to height '' @ fmt_u64 (GetEndHeight commit) @ '': '')
          (createRandomnessFunc fpPk chainID commit)) (\<lambda>pubRandList.
        let (commitRoot, proofList) = GetPubRandCommitAndProofs rx pubRandList in
        if commitRoot \<noteq> bp_Commitment commit
        then liftR (Err (ErrText (''the commit root on Babylon does not match the local one, expected: '' @ hex (bp_Commitment commit) @
               '', got: '' @ hex commitRoot)))
        else wrapS ''failed to save public randomness to DB: '' (addPubRandProofListFunc chainID fpPk commit proofList)))"

fun recoverLoop ::
  "('pk, 'fv, 'pf) rc_ext \<Rightarrow> (bytes \<Rightarrow> bytes \<Rightarrow> BabylonPubRandCommit \<Rightarrow> 'pf list \<Rightarrow> ('st, unit) cmd) \<Rightarrow>
     (bytes \<Rightarrow> bytes \<Rightarrow> BabylonPubRandCommit \<Rightarrow> ('st, 'fv list) cmd) \<Rightarrow> (bytes \<Rightarrow> string) \<Rightarrow> bytes \<Rightarrow> bytes \<Rightarrow> BabylonPubRandCommit list \<Rightarrow>
     ('st, unit) cmd" where
  "recoverLoop rx add create hex chainID fpPk [] = liftR (Ok ())"
| "recoverLoop rx add create hex chainID fpPk (commit # commitList) =
     sbind (recoverCommit rx add create hex chainID fpPk commit) (\<lambda>_. recoverLoop rx add create hex chainID fpPk commitList)"

text \<open>\<open>dial\<close>: connecting to the EOTS manager; \<open>query\<close>: the chain's list of commitments, where nil is the empty list.\<close>

definition RunCommandRecoverProofWithConfig ::
  "('pk, 'fv, 'pf) rc_ext \<Rightarrow> (string \<Rightarrow> bytes go) \<Rightarrow> (bytes \<Rightarrow> string) \<Rightarrow> unit go \<Rightarrow> ('pk \<Rightarrow> u64 \<Rightarrow> BabylonPubRandCommit list option go) \<Rightarrow>
     (bytes \<Rightarrow> bytes \<Rightarrow> BabylonPubRandCommit \<Rightarrow> 'pf list \<Rightarrow> ('st, unit) cmd) \<Rightarrow> (bytes \<Rightarrow> bytes \<Rightarrow> BabylonPubRandCommit \<Rightarrow> ('st, 'fv list) cmd) \<Rightarrow>
     string \<Rightarrow> string \<Rightarrow> u64 \<Rightarrow> ('st, unit) cmd" where
  "RunCommandRecoverProofWithConfig rx fromHex hex dial query add create chainID fpPkHex startHeight =
     (if chainID = [] then liftR (Err (ErrText ''please specify chain-id''))
      else
        sbind (liftR (wrap ''failed to parse EOTS public key: '' (fromHex fpPkHex))) (\<lambda>fpPk.
        sbind (liftR (wrap ''failed to create EOTS manager client: '' dial)) (\<lambda>_.
        sbind (liftR (must (rx_ToBTCPK rx fpPk))) (\<lambda>pk.
        sbind (liftR (wrap (''failed to query randomness commit list for fp '' @ hex fpPk @ '': '') (query pk startHeight))) (\<lambda>commitList.
        recoverLoop rx add create hex chainID fpPk (case commitList of None \<Rightarrow> [] | Some cs \<Rightarrow> cs))))))"

text \<open>The command of the daemon works on the manager and the proof store.\<close>

record 's recover_state =
  rs_em :: 's
  rs_pubRandStore :: kvdb

definition saveProofs ::
  "('pk, 'fv, 'pf) rc_ext \<Rightarrow> (BabylonPubRandCommit \<Rightarrow> dbfault) \<Rightarrow> bytes \<Rightarrow> bytes \<Rightarrow> BabylonPubRandCommit \<Rightarrow> 'pf list \<Rightarrow> ('s recover_state, unit) cmd" where
  "saveProofs rx flt chainID pk commit proofList st =
     (case AddPubRandProofList (rx_pr rx) (flt commit) chainID pk (bp_StartHeight commit) (bp_NumPubRand commit) proofList None (rs_pubRandStore st) of
        (r, db) \<Rightarrow> (wrap ''failed to save public randomness to DB: '' r, st\<lparr>rs_pubRandStore := db\<rparr>))"

definition createRandomness ::
  "('s, 'fv, 'sc, 'sg) EOTSManager \<Rightarrow> bytes \<Rightarrow> bytes \<Rightarrow> BabylonPubRandCommit \<Rightarrow> ('s recover_state, 'fv list) cmd" where
  "createRandomness em fpPk chainID commit st =
     (case em_CreateRandomnessPairList em fpPk chainID (bp_StartHeight commit) (ucast (bp_NumPubRand commit)) (rs_em st) of
        (r, s) \<Rightarrow> (r, st\<lparr>rs_em := s\<rparr>))"

definition runCommandRecoverProof ::
  "('pk, 'fv, 'pf) rc_ext \<Rightarrow> (string \<Rightarrow> bytes go) \<Rightarrow> (bytes \<Rightarrow> string) \<Rightarrow> unit go \<Rightarrow> ('pk \<Rightarrow> u64 \<Rightarrow> BabylonPubRandCommit list option go) \<Rightarrow>
     ('s, 'fv, 'sc, 'sg) EOTSManager \<Rightarrow> (BabylonPubRandCommit \<Rightarrow> dbfault) \<Rightarrow> string \<Rightarrow> string \<Rightarrow> u64 \<Rightarrow> ('s recover_state, unit) cmd" where
  "runCommandRecoverProof rx fromHex hex dial query em flt =
     RunCommandRecoverProofWithConfig rx fromHex hex dial query (saveProofs rx flt) (createRandomness em)"

section \<open>Recovery restores every proof\<close>

definition inCommit :: "BabylonPubRandCommit \<Rightarrow> u64 \<Rightarrow> bool" where
  "inCommit c h \<longleftrightarrow> bp_StartHeight c \<le> h \<and> unat h < unat (bp_StartHeight c) + unat (bp_NumPubRand c)"

text \<open>The proof of every height of the commitment is in the store, of a list of the manager's randomness for exactly these
  heights whose root is the commitment on the chain.\<close>

definition restored ::
  "('pk, 'fv, 'pf) rc_ext \<Rightarrow> (bytes \<Rightarrow> bytes \<Rightarrow> u64 \<Rightarrow> 'fv \<Rightarrow> bool) \<Rightarrow> bytes \<Rightarrow> bytes \<Rightarrow> kvdb \<Rightarrow> BabylonPubRandCommit \<Rightarrow> bool" where
  "restored rx randFor chainID pk db c \<longleftrightarrow> (\<exists>prs proofs. length prs = unat (bp_NumPubRand c) \<and>
     rx_ProofsFromByteSlices rx (map (rx_PubRandBytes rx) prs) = (bp_Commitment c, proofs) \<and>
     (\<forall>i < unat (bp_NumPubRand c). randFor pk chainID (bp_StartHeight c + of_nat i) (prs ! i) \<and>
       (\<exists>b. pr_marshal (rx_pr rx) (proofs ! i) = Ok b \<and> GetPubRandProof (rx_pr rx) NoFault chainID pk (bp_StartHeight c + of_nat i) db = Ok b)))"

lemma inCommit_height:
  assumes "i < unat (bp_NumPubRand c)" and "unat (bp_StartHeight c) + unat (bp_NumPubRand c) \<le> 2 ^ 64"
  shows "inCommit c (bp_StartHeight c + of_nat i)"
proof -
  have "unat (of_nat i :: u64) = i" using assms(1) unsigned_less [of "bp_NumPubRand c", where 'a = nat] by (simp add: unsigned_of_nat take_bit_nat_eq_self)
  then have "unat (bp_StartHeight c + of_nat i) = unat (bp_StartHeight c) + i" using assms by (simp add: unat_add_no_wrap)
  with assms(1) show ?thesis by (simp add: inCommit_def word_le_nat_alt)
qed

lemma createRandomness_eq: "createRandomness em pk chainID c st = (r, st') \<longleftrightarrow>
    (\<exists>s. em_CreateRandomnessPairList em pk chainID (bp_StartHeight c) (ucast (bp_NumPubRand c)) (rs_em st) = (r, s) \<and> st' = st\<lparr>rs_em := s\<rparr>)"
  by (auto simp: createRandomness_def split: prod.splits)

lemma saveProofs_eq: "saveProofs rx flt chainID pk c proofs st = (r, st') \<longleftrightarrow>
    (\<exists>q db. AddPubRandProofList (rx_pr rx) (flt c) chainID pk (bp_StartHeight c) (bp_NumPubRand c) proofs None (rs_pubRandStore st) = (q, db) \<and>
      r = wrap ''failed to save public randomness to DB: '' q \<and> st' = st\<lparr>rs_pubRandStore := db\<rparr>)"
  by (auto simp: saveProofs_def split: prod.splits)

lemma recoverCommit_Ok:
  assumes svc: "eots_service em emInv randFor voteOf" and codec: "pr_codec (rx_pr rx)"
    and wf: "wf_prstore (rx_pr rx) (length chainID + length pk) (rs_pubRandStore st)"
    and fits: "unat (bp_StartHeight c) + unat (bp_NumPubRand c) \<le> 2 ^ 64"
    and run: "recoverCommit rx (saveProofs rx flt) (createRandomness em) hex chainID pk c st = (Ok u, st')"
  shows "wf_prstore (rx_pr rx) (length chainID + length pk) (rs_pubRandStore st') \<and> restored rx randFor chainID pk (rs_pubRandStore st') c \<and>
    (\<forall>h. \<not> inCommit c h \<longrightarrow> GetPubRandProof (rx_pr rx) NoFault chainID pk h (rs_pubRandStore st') =
      GetPubRandProof (rx_pr rx) NoFault chainID pk h (rs_pubRandStore st))"
proof -
  let ?s = "bp_StartHeight c" and ?n = "bp_NumPubRand c" and ?db = "rs_pubRandStore st'"
  obtain r1 s1 where create: "em_CreateRandomnessPairList em pk chainID ?s (ucast ?n) (rs_em st) = (r1, s1)" by fastforce
  with run obtain prs where num: "?n \<le> 2 ^ 32 - 1" and r1: "r1 = Ok prs"
    by (cases r1) (auto simp: recoverCommit_def createRandomness_def sbind_def liftR_def wrapS_def not_less split: if_splits)
  obtain root proofs where root: "rx_ProofsFromByteSlices rx (map (rx_PubRandBytes rx) prs) = (root, proofs)" by fastforce
  with run create r1 num have root': "root = bp_Commitment c"
    and add: "AddPubRandProofList (rx_pr rx) (flt c) chainID pk ?s ?n proofs None (rs_pubRandStore st) = (Ok (), ?db)"
    by (auto simp: recoverCommit_def createRandomness_def sbind_def liftR_def GetPubRandCommitAndProofs_def wrapS_def saveProofs_def go_simps
        split: if_splits prod.splits)
  note create = create [unfolded r1] and root = root [unfolded root']
  have n: "unat (ucast ?n :: u32) = unat ?n"
    using num by (simp add: word_le_nat_alt unsigned_ucast_eq take_bit_nat_eq_self)
  note wf' = pr_codec.AddPubRandProofList_wf [OF codec wf add] and get = pr_codec.GetPubRandProof_proofOf [OF codec]
  have lim: "(unat ?n - 1) * unat (1 :: u64) + unat ?s < 2 ^ 64" using fits unsigned_less [of ?s, where 'a = nat] by auto
  note content = pr_codec.AddPubRandProofList_content [OF codec add refl, simplified, OF lim [simplified]]
  have out: "\<forall>i < unat ?n. h \<noteq> ?s + of_nat i" if "\<not> inCommit c h" for h
    using that inCommit_height [OF _ fits] by blast
  from content eots_service.rand_heights [OF svc create] root n have "restored rx randFor chainID pk ?db c"
    unfolding restored_def get [OF wf'] by (intro exI [of _ prs] exI [of _ proofs]) fastforce
  with wf' content out show ?thesis by (simp add: get [OF wf'] get [OF wf])
qed

lemma restored_same:
  assumes "restored rx randFor chainID pk db c" and "unat (bp_StartHeight c) + unat (bp_NumPubRand c) \<le> 2 ^ 64"
    and "\<And>h. inCommit c h \<Longrightarrow> GetPubRandProof (rx_pr rx) NoFault chainID pk h db' = GetPubRandProof (rx_pr rx) NoFault chainID pk h db"
  shows "restored rx randFor chainID pk db' c"
  using assms(1) assms(3) [OF inCommit_height [OF _ assms(2)]] unfolding restored_def by fastforce

definition disjointCommits :: "BabylonPubRandCommit list \<Rightarrow> bool" where
  "disjointCommits = sorted_wrt (\<lambda>c d. \<forall>h. \<not> (inCommit c h \<and> inCommit d h))"

lemma recoverLoop_Ok:
  assumes svc: "eots_service em emInv randFor voteOf" and codec: "pr_codec (rx_pr rx)"
    and "recoverLoop rx (saveProofs rx flt) (createRandomness em) hex chainID pk cs st = (Ok u, st')"
    and "wf_prstore (rx_pr rx) (length chainID + length pk) (rs_pubRandStore st)"
    and "disjointCommits cs" and "\<And>c. c \<in> set cs \<Longrightarrow> unat (bp_StartHeight c) + unat (bp_NumPubRand c) \<le> 2 ^ 64"
  shows "(\<forall>c \<in> set cs. restored rx randFor chainID pk (rs_pubRandStore st') c) \<and>
    (\<forall>h. (\<forall>c \<in> set cs. \<not> inCommit c h) \<longrightarrow> GetPubRandProof (rx_pr rx) NoFault chainID pk h (rs_pubRandStore st') =
      GetPubRandProof (rx_pr rx) NoFault chainID pk h (rs_pubRandStore st))"
  using assms(3-6)
proof (induction cs arbitrary: st)
  case (Cons c cs)
  from Cons.prems(1) obtain v st1 where one: "recoverCommit rx (saveProofs rx flt) (createRandomness em) hex chainID pk c st = (Ok v, st1)"
    and rest: "recoverLoop rx (saveProofs rx flt) (createRandomness em) hex chainID pk cs st1 = (Ok u, st')"
    by (auto elim!: sbindE)
  have fits: "unat (bp_StartHeight c) + unat (bp_NumPubRand c) \<le> 2 ^ 64" using Cons.prems(4) by simp
  note C = recoverCommit_Ok [OF svc codec Cons.prems(2) fits one]
  have IH: "(\<forall>c \<in> set cs. restored rx randFor chainID pk (rs_pubRandStore st') c) \<and>
    (\<forall>h. (\<forall>c \<in> set cs. \<not> inCommit c h) \<longrightarrow> GetPubRandProof (rx_pr rx) NoFault chainID pk h (rs_pubRandStore st') =
      GetPubRandProof (rx_pr rx) NoFault chainID pk h (rs_pubRandStore st1))"
    by (rule Cons.IH [OF rest]) (use C Cons.prems in \<open>simp_all add: disjointCommits_def\<close>)
  have "restored rx randFor chainID pk (rs_pubRandStore st') c"
    by (rule restored_same [OF _ fits]) (use C IH Cons.prems(3) in \<open>auto simp: disjointCommits_def\<close>)
  with IH C show ?case by auto
qed (simp add: liftR_def)

text \<open>C16. Recovery restores what was lost: when the command succeeds, every height of every commitment the chain listed has its
  inclusion proof in the store again, and each is a proof of the manager's randomness for that height in a
  tree whose root is the commitment on the chain; other heights keep what they had. The commitments must not
  overlap and stay in the 64-bit range.\<close>

theorem recover_restores:
  assumes "eots_service em emInv randFor voteOf" and "pr_codec (rx_pr rx)"
    and "wf_prstore (rx_pr rx) (length chainID + length pk) (rs_pubRandStore st)"
    and "fromHex fpPkHex = Ok pk" and "rx_ToBTCPK rx pk = Ok btcPk" and "query btcPk startHeight = Ok (Some cs)"
    and "disjointCommits cs" and "\<And>c. c \<in> set cs \<Longrightarrow> unat (bp_StartHeight c) + unat (bp_NumPubRand c) \<le> 2 ^ 64"
    and "runCommandRecoverProof rx fromHex hex dial query em flt chainID fpPkHex startHeight st = (Ok u, st')"
  shows "(\<forall>c \<in> set cs. restored rx randFor chainID pk (rs_pubRandStore st') c) \<and>
    (\<forall>h. (\<forall>c \<in> set cs. \<not> inCommit c h) \<longrightarrow> GetPubRandProof (rx_pr rx) NoFault chainID pk h (rs_pubRandStore st') =
      GetPubRandProof (rx_pr rx) NoFault chainID pk h (rs_pubRandStore st))"
proof -
  from assms(4-6,9) have "recoverLoop rx (saveProofs rx flt) (createRandomness em) hex chainID pk cs st = (Ok u, st')"
    by (auto simp: runCommandRecoverProof_def RunCommandRecoverProofWithConfig_def liftR_eq go_simps elim!: sbindE split: if_splits)
  from recoverLoop_Ok [OF assms(1,2) this assms(3,7,8)] show ?thesis by blast
qed

theorem recover_restores_witness:
  "\<exists>u st'. runCommandRecoverProof demo_rx Ok (\<lambda>b. b) (Ok ()) (\<lambda>_ _. Ok (Some [\<lparr>bp_StartHeight = 22, bp_NumPubRand = 2, bp_EpochNum = 0,
       bp_Commitment = (''k'' @ be64 22 @ ''c'' @ be64 0) @ (''k'' @ be64 23 @ ''c'' @ be64 0)\<rparr>]))
     (localManager demo_ext (\<lambda>_. NoFault) 1) (\<lambda>_. NoFault) ''c'' ''k'' 1 \<lparr>rs_em = demo_lm, rs_pubRandStore = emptyPrStore\<rparr> = (Ok u, st') \<and>
     (\<exists>b. GetPubRandProof plain_pr NoFault ''c'' ''k'' 23 (rs_pubRandStore st') = Ok b)"
proof -
  let ?em = "localManager demo_ext (\<lambda>_. NoFault) 1"
  let ?prs = "[''k'' @ be64 22 @ ''c'' @ be64 0, ''k'' @ be64 23 @ ''c'' @ be64 0]"
  let ?c = "\<lparr>bp_StartHeight = 22, bp_NumPubRand = 2, bp_EpochNum = 0,
     bp_Commitment = (''k'' @ be64 22 @ ''c'' @ be64 0) @ (''k'' @ be64 23 @ ''c'' @ be64 0)\<rparr>"
  let ?st = "\<lparr>rs_em = demo_lm, rs_pubRandStore = emptyPrStore\<rparr>"
  let ?run = "runCommandRecoverProof demo_rx Ok (\<lambda>b. b) (Ok ()) (\<lambda>_ _. Ok (Some [?c])) ?em (\<lambda>_. NoFault) ''c'' ''k'' 1 ?st"
  have A: "createRandomness ?em ''k'' ''c'' ?c ?st = (Ok ?prs, ?st)"
    using demo_randomness [of 22] by (simp add: createRandomness_def localManager_def)
  obtain db where "AddPubRandProofList plain_pr NoFault ''c'' ''k'' 22 2 ?prs None emptyPrStore = (Ok (), db)"
    using plain_add [of ?prs 2 "''c''" "''k''" 22 None] by auto
  then have B: "saveProofs demo_rx (\<lambda>_. NoFault) ''c'' ''k'' ?c ?prs ?st = (Ok (), ?st\<lparr>rs_pubRandStore := db\<rparr>)"
    by (simp add: saveProofs_def demo_rx_def)
  have "GetPubRandCommitAndProofs demo_rx ?prs = (concat ?prs, ?prs)" by (simp add: GetPubRandCommitAndProofs_def demo_rx_def)
  with A B have one: "recoverCommit demo_rx (saveProofs demo_rx (\<lambda>_. NoFault)) (createRandomness ?em) (\<lambda>b. b) ''c'' ''k'' ?c ?st = (Ok (), ?st\<lparr>rs_pubRandStore := db\<rparr>)"
    by (simp add: recoverCommit_def sbind_def wrapS_def)
  have run: "?run = (Ok (), ?st\<lparr>rs_pubRandStore := db\<rparr>)"
    unfolding runCommandRecoverProof_def RunCommandRecoverProofWithConfig_def using one
    by (simp add: sbind_def liftR_def demo_rx_def)
  have codec: "pr_codec (rx_pr demo_rx)" using plain_pr.pr_codec_axioms by (simp add: demo_rx_def)
  from recover_restores [OF demo.local_eots_service codec _ _ _ _ _ _ run, of "''k''" "''k''" "[?c]"]
  have "restored demo_rx (randFor_local demo_ext) ''c'' ''k'' db ?c"
    by (simp add: demo_rx_def disjointCommits_def)
  then have "\<exists>b. GetPubRandProof plain_pr NoFault ''c'' ''k'' (22 + of_nat 1) db = Ok b"
    unfolding restored_def by (auto simp: demo_rx_def dest: spec [of _ 1])
  with run show ?thesis by auto
qed

section \<open>Committing by hand covers the heights\<close>

text \<open>The reference: one commitment after the other, from start heights that are \<open>num\<close> apart.\<close>

fun commitEach ::
  "('pk, 'fv, 'pf) rc_ext \<Rightarrow> (nat \<Rightarrow> ('s, 'c, 'pk, 'fv, 'sc, 'sg) rand_env) \<Rightarrow> nat \<Rightarrow> u64 list \<Rightarrow>
     (('s, 'c, 'pk, 'ds, 'dc) FinalityProviderInstance, unit) cmd" where
  "commitEach rx env i [] = liftR (Ok ())"
| "commitEach rx env i (h # hs) = sbind (fpi_CommitPubRand rx (env i) h) (\<lambda>_. commitEach rx env (Suc i) hs)"

fun windowsFrom :: "u64 \<Rightarrow> u32 \<Rightarrow> nat \<Rightarrow> u64 list" where
  "windowsFrom start num 0 = []"
| "windowsFrom start num (Suc k) = start # windowsFrom (start + ucast num) num k"

definition windowsUpTo :: "u64 \<Rightarrow> u32 \<Rightarrow> u64 \<Rightarrow> u64 list" where
  "windowsUpTo start num target = windowsFrom start num (Suc ((unat target - unat start) div unat num))"

lemma unat_add_num:
  assumes "start \<le> target" and "unat target + unat (num :: u32) < 2 ^ 64"
  shows "unat (start + ucast num :: u64) = unat start + unat num"
proof -
  have "unat (ucast num :: u64) = unat num"
    using unsigned_less [of num, where 'a = nat] by (simp add: unsigned_ucast_eq take_bit_nat_eq_self)
  with assms show ?thesis by (simp add: unat_add_no_wrap word_le_nat_alt)
qed

lemma windowsUpTo_step:
  assumes "start \<le> target" and "0 < num" and "unat target + unat num < 2 ^ 64"
  shows "windowsUpTo start num target = start # (if start + ucast num \<le> target then windowsUpTo (start + ucast num) num target else [])"
proof -
  note nx = unat_add_num [OF assms(1,3)]
  have n: "0 < unat num" using assms(2) by (simp add: word_less_nat_alt)
  show ?thesis
  proof (cases "start + ucast num \<le> target")
    case True
    then have le: "unat start + unat num \<le> unat target" by (simp add: word_le_nat_alt nx)
    then have "(unat target - unat start) div unat num = Suc ((unat target - (unat start + unat num)) div unat num)"
      using le_div_geq [OF n, of "unat target - unat start"] by simp
    with True show ?thesis by (simp add: windowsUpTo_def nx)
  next
    case False
    then have "unat target - unat start < unat num" using assms(1) by (simp add: word_le_nat_alt nx)
    with False show ?thesis by (simp add: windowsUpTo_def)
  qed
qed

lemma commitFrom_windows:
  fixes fp :: "('s, 'c, 'pk, 'ds, 'dc) FinalityProviderInstance"
  assumes "0 < num" and "unat target + unat num < 2 ^ 64"
  shows "commitFrom rx env num target i start fp = Some (commitEach rx env i (if start \<le> target then windowsUpTo start num target else []) fp)"
proof (induction "Suc (unat target) - unat start" arbitrary: i start fp rule: less_induct)
  case less
  show ?case
  proof (cases "start \<le> target")
    case True
    let ?nx = "start + ucast num"
    note nx = unat_add_num [OF True assms(2)]
    have n: "0 < unat num" using assms(1) by (simp add: word_less_nat_alt)
    have IH: "commitFrom rx env num target j ?nx fp' = Some (commitEach rx env j (if ?nx \<le> target then windowsUpTo ?nx num target else []) fp')"
      for j and fp' :: "('s, 'c, 'pk, 'ds, 'dc) FinalityProviderInstance"
      by (rule less.hyps) (use True n in \<open>simp add: nx word_le_nat_alt\<close>)
    show ?thesis
      using True by (subst commitFrom.simps) (auto simp: IH windowsUpTo_step [OF True assms] sbind_def Let_def split: prod.splits go.splits)
  next
    case False
    then show ?thesis by (subst commitFrom.simps) (simp add: liftR_def)
  qed
qed

definition hasProof :: "('pk, 'fv, 'pf) rc_ext \<Rightarrow> bytes \<Rightarrow> bytes \<Rightarrow> u64 \<Rightarrow> kvdb \<Rightarrow> bool" where
  "hasProof rx chainID pk h db \<longleftrightarrow> (\<exists>b. GetPubRandProof (rx_pr rx) NoFault chainID pk h db = Ok b)"

text \<open>What a commitment keeps of the instance, and what it adds to the proof store.\<close>

definition commits_for :: "bytes \<Rightarrow> bytes \<Rightarrow> u32 \<Rightarrow> ('s, 'c, 'pk, 'ds, 'dc) FinalityProviderInstance \<Rightarrow> bool" where
  "commits_for pk chainID num fp \<longleftrightarrow> fi_rcBtcPk fp = Some pk \<and> rcc_ChainID (fi_rcCfg fp) = Some chainID \<and> rcc_NumPubRand (fi_rcCfg fp) = num"

lemma rc_Commit_Ok:
  assumes "rc_Commit rx em send flt start rc = (Ok t, rc')" and "rc_BtcPk rc = Some pk"
  obtains proofs where "AddPubRandProofList (rx_pr rx) flt (rc_chainID rc) pk start (ucast (rcc_NumPubRand (rc_Cfg rc))) proofs None (rc_PubRandState rc) =
    (Ok (), rc_PubRandState rc')"
  using assms(1)
  by (auto simp: rc_Commit_def rc_getPubRandList_def addProofs_def rc_SignPubRandCommit_def Let_def assms(2) addPubRandProofList_def liftR_eq wrapS_eq
      on_rc_eq go_simps rc_chainID_def case_prod_unfold elim!: sbindE)

lemma fpi_CommitPubRand_Ok:
  assumes codec: "pr_codec (rx_pr rx)" and cf: "commits_for pk chainID num fp"
    and wf: "wf_prstore (rx_pr rx) (length chainID + length pk) (fi_pubRandState fp)" and fits: "unat start + unat num < 2 ^ 64"
    and run: "fpi_CommitPubRand rx env start fp = (Ok t, fp')"
  shows "commits_for pk chainID num fp' \<and> wf_prstore (rx_pr rx) (length chainID + length pk) (fi_pubRandState fp') \<and>
    (\<forall>h. hasProof rx chainID pk h (fi_pubRandState fp) \<or> (start \<le> h \<and> unat h < unat start + unat num) \<longrightarrow> hasProof rx chainID pk h (fi_pubRandState fp'))"
proof -
  from run obtain rc where rc: "rc_Commit rx (re_Em env) (re_CommitPubRandList env) (re_flt env) start (committer_of fp) = (Ok t, rc)"
    and fp': "fp' = fp\<lparr>fi_em := rc_Em rc, fi_consumerCon := rc_ConsumerCon rc, fi_pubRandState := rc_PubRandState rc\<rparr>"
    by (auto simp: fpi_CommitPubRand_def wrapS_eq on_committer_eq go_simps)
  have cm: "rc_BtcPk (committer_of fp) = Some pk" "rc_chainID (committer_of fp) = chainID" "rcc_NumPubRand (rc_Cfg (committer_of fp)) = num"
    "rc_PubRandState (committer_of fp) = fi_pubRandState fp"
    using cf by (simp_all add: commits_for_def committer_of_def rc_chainID_def)
  from rc_Commit_Ok [OF rc cm(1)] obtain proofs where
    add: "AddPubRandProofList (rx_pr rx) (re_flt env) chainID pk start (ucast num) proofs None (fi_pubRandState fp) = (Ok (), fi_pubRandState fp')"
    unfolding cm by (auto simp: fp')
  have n: "unat (ucast num :: u64) = unat num"
    using unsigned_less [of num, where 'a = nat] by (simp add: unsigned_ucast_eq take_bit_nat_eq_self)
  note wf' = pr_codec.AddPubRandProofList_wf [OF codec wf add] and get = pr_codec.GetPubRandProof_proofOf [OF codec]
  have lim: "unat num - Suc 0 + unat start < 2 ^ 64" using fits by simp
  note content = pr_codec.AddPubRandProofList_content [OF codec add refl, simplified n, simplified, OF lim [simplified]]
  have new: "hasProof rx chainID pk h (fi_pubRandState fp')" if "start \<le> h" "unat h < unat start + unat num" for h
  proof -
    let ?i = "unat h - unat start"
    have "h = start + of_nat ?i" using that(1) by (simp add: word_le_nat_alt)
    moreover have "?i < unat num" using that by (simp add: word_le_nat_alt)
    ultimately have "\<exists>b. proofOf (rx_pr rx) (fi_pubRandState fp') chainID pk h = Some b" using content by metis
    then show ?thesis by (auto simp: hasProof_def get [OF wf'])
  qed
  have "hasProof rx chainID pk h (fi_pubRandState fp')" if "hasProof rx chainID pk h (fi_pubRandState fp)" for h
  proof (cases "\<exists>i < unat num. h = start + of_nat i")
    case True
    then show ?thesis using content by (auto simp: hasProof_def get [OF wf'])
  next
    case False
    then show ?thesis using that content by (auto simp: hasProof_def get [OF wf'] get [OF wf])
  qed
  with new wf' cf show ?thesis by (auto simp: commits_for_def fp')
qed

lemma commitEach_proofs:
  fixes fp :: "('s, 'c, 'pk, 'ds, 'dc) FinalityProviderInstance"
  assumes codec: "pr_codec (rx_pr rx)" and num: "0 < num" "unat target + unat num < 2 ^ 64"
    and "start \<le> target" and "commits_for pk chainID num fp"
    and "wf_prstore (rx_pr rx) (length chainID + length pk) (fi_pubRandState fp)"
    and "commitEach rx env i (windowsUpTo start num target) fp = (Ok u, fp')"
  shows "(start \<le> h \<and> h \<le> target) \<or> hasProof rx chainID pk h (fi_pubRandState fp) \<Longrightarrow> hasProof rx chainID pk h (fi_pubRandState fp')"
  using assms(4-7)
proof (induction "Suc (unat target) - unat start" arbitrary: i start fp rule: less_induct)
  case less
  let ?nx = "start + ucast num"
  note nx = unat_add_num [OF less.prems(2) num(2)]
  have n: "0 < unat num" using num(1) by (simp add: word_less_nat_alt)
  from less.prems(5) obtain t fp1 where one: "fpi_CommitPubRand rx (env i) start fp = (Ok t, fp1)"
    and rest: "commitEach rx env (Suc i) (if ?nx \<le> target then windowsUpTo ?nx num target else []) fp1 = (Ok u, fp')"
    by (auto simp: windowsUpTo_step [OF less.prems(2) num] elim!: sbindE)
  have fits: "unat start + unat num < 2 ^ 64" using less.prems(2) num(2) by (simp add: word_le_nat_alt)
  note C = fpi_CommitPubRand_Ok [OF codec less.prems(3,4) fits one]
  have here: "hasProof rx chainID pk h (fi_pubRandState fp1)"
    if "(start \<le> h \<and> h < ?nx) \<or> hasProof rx chainID pk h (fi_pubRandState fp)"
    using that C by (auto simp: nx word_less_nat_alt)
  show ?case
  proof (cases "?nx \<le> target")
    case True
    show ?thesis
      by (rule less.hyps [of ?nx, OF _ _ True]) (use less.prems(1,2) n C rest True here in \<open>auto simp: nx word_le_nat_alt word_less_nat_alt not_le\<close>)
  next
    case False
    then have "h < ?nx" if "h \<le> target" using that by (simp add: not_le le_less_trans)
    with False rest less.prems(1) here show ?thesis by (auto simp: liftR_def)
  qed
qed

text \<open>C17. Committing by hand ends and covers the heights: with a positive batch size and a target that leaves room in the
  64-bit range, the request sends one commitment after the other, at start heights that are a batch apart
  and up to the target, and stops at the first failure; when it succeeds, the inclusion proof of every
  height from the start to the target is in the store.\<close>

theorem CommitPubRandWithStartHeight_covers:
  assumes "pr_codec (rx_pr rx)" and "commits_for pk chainID num fp"
    and "wf_prstore (rx_pr rx) (length chainID + length pk) (fi_pubRandState fp)"
    and "0 < num" and "unat target + unat num < 2 ^ 64" and "start \<le> target"
    and "fpi_GetLastCommittedHeight rx cc fp = Ok lastH" and "lastH < start"
  shows "\<exists>r fp'. CommitPubRandWithStartHeight rx hex cc env num start target fp = Some (r, fp') \<and>
    commitEach rx env 0 (windowsUpTo start num target) fp = (r, fp') \<and>
    (r = Ok () \<longrightarrow> (\<forall>h. start \<le> h \<and> h \<le> target \<longrightarrow> hasProof rx chainID pk h (fi_pubRandState fp')))"
proof -
  obtain r fp' where each: "commitEach rx env 0 (windowsUpTo start num target) fp = (r, fp')" by fastforce
  have "CommitPubRandWithStartHeight rx hex cc env num start target fp = Some (r, fp')"
    using assms(6,7) each leD [OF assms(6)] leD [of start lastH] assms(8)
    by (auto simp: CommitPubRandWithStartHeight_def commitFrom_windows [OF assms(4,5)])
  moreover have "hasProof rx chainID pk h (fi_pubRandState fp')" if "r = Ok ()" "start \<le> h" "h \<le> target" for h
    using commitEach_proofs [OF assms(1,4,5,6,2,3) each [unfolded that(1)]] that(2,3) by blast
  ultimately show ?thesis using each by blast
qed

definition demo_mfp :: "((bytes, bytes) LocalEOTSManager, (bytes, bytes) CommitPubRandListRequest list, bytes, bytes, bytes) FinalityProviderInstance" where
  "demo_mfp = \<lparr>fi_btcPk = ''k'', fi_fpState = NewFpState \<lparr>sf_FPAddr = [], sf_BtcPk = ''k'', sf_Description = [], sf_Commission = [],
     sf_ChainID = ''c'', sf_LastVotedHeight = 0, sf_Status = ACTIVE, sf_CommissionInfo = None\<rparr> demoFpStore, fi_pubRandState = emptyPrStore,
     fi_em = demo_lm, fi_consumerCon = [], fi_poller = NewChainPoller DefaultChainPollerConfig, fi_rcBtcPk = Some ''k'', fi_rcCfg = rc_Cfg demo_rc,
     fi_criticalErrs = [], fi_isStarted = True, fi_quit = Some False\<rparr>"

definition demo_renv where
  "demo_renv = \<lparr>re_cc = (\<lambda>_ _. demo_cc), re_Em = localManager demo_ext (\<lambda>_. NoFault) 1,
     re_CommitPubRandList = (\<lambda>req sent. (Ok emptyTxResponse, sent @ [req])), re_flt = NoFault, re_received = True\<rparr>"

lemma demo_last: "fpi_GetLastCommittedHeight demo_rx (\<lambda>_. demo_cc) demo_mfp = Ok 0"
  by (simp add: fpi_GetLastCommittedHeight_def GetLastCommittedHeight_def lastCommittedPublicRandWithRetry_def demo_rx_def demo_mfp_def demo_cc_def)

theorem CommitPubRandWithStartHeight_covers_witness:
  "\<exists>fp'. CommitPubRandWithStartHeight demo_rx (\<lambda>k. k) (\<lambda>_. demo_cc) (\<lambda>_. demo_renv) 2 22 23 demo_mfp = Some (Ok (), fp') \<and>
     hasProof demo_rx ''c'' ''k'' 23 (fi_pubRandState fp')"
proof -
  have codec: "pr_codec (rx_pr demo_rx)" using plain_pr.pr_codec_axioms by (simp add: demo_rx_def)
  have cf: "commits_for ''k'' ''c'' 2 demo_mfp"
    by (simp add: commits_for_def demo_mfp_def demo_rc_def NewRandomnessCommitterConfig_def)
  have wf: "wf_prstore (rx_pr demo_rx) (length ''c'' + length ''k'') (fi_pubRandState demo_mfp)" by (simp add: demo_mfp_def)
  obtain db req where "rc_Commit demo_rx (re_Em demo_renv) (re_CommitPubRandList demo_renv) (re_flt demo_renv) 22 (committer_of demo_mfp) =
      (Ok emptyTxResponse, demo_rc\<lparr>rc_PubRandState := db, rc_ConsumerCon := [req]\<rparr>)"
    using demo_rc_Commit by (auto simp: demo_renv_def committer_of_def demo_mfp_def demo_rc_def)
  then have "\<exists>fp1. fpi_CommitPubRand demo_rx demo_renv 22 demo_mfp = (Ok emptyTxResponse, fp1)"
    by (simp add: fpi_CommitPubRand_def on_committer_def wrapS_def)
  then have ok: "\<exists>fp1. commitEach demo_rx (\<lambda>_. demo_renv) 0 (windowsUpTo 22 2 23) demo_mfp = (Ok (), fp1)"
    by (auto simp: windowsUpTo_def sbind_def liftR_def)
  from CommitPubRandWithStartHeight_covers [OF codec cf wf, of 23 22 "\<lambda>_. demo_cc" 0 "\<lambda>k. k" "\<lambda>_. demo_renv"] demo_last ok show ?thesis
    by auto
qed

text \<open>A provider without a commitment cannot be helped by the request that starts from the last commitment: it takes 0 for
  the last committed height and for the start height, and refuses to commit at a height that is not above
  the last committed one. It fails for every target and sends and stores nothing.\<close>

theorem CommitPubRand_fresh_fails:
  assumes "fpi_GetLastCommittedHeight rx (cc 0) fp = Ok 0" and "fpi_GetLastCommittedHeight rx (cc 1) fp = Ok 0"
  shows "\<exists>e. th_CommitPubRand rx hex cc env num target fp = Some (Err e, fp)"
  using assms by (auto simp: th_CommitPubRand_def CommitPubRandWithStartHeight_def)

theorem CommitPubRand_fresh_fails_witness:
  "\<exists>e. th_CommitPubRand demo_rx (\<lambda>k. k) (\<lambda>_ _. demo_cc) (\<lambda>_. demo_renv) 2 100 demo_mfp = Some (Err e, demo_mfp)"
  by (rule CommitPubRand_fresh_fails) (use demo_last in simp_all)

end
