(* ===== verification/FPD_Tools.thy ===== *)
theory FPD_Tools
  imports FP_Daemon Rand_Recovery Go_Strings
begin

text \<open>
  The two commands of \<^verbatim>\<open>fpd\<close> that work on the database of a stopped daemon, from the home directory on: \<^verbatim>\<open>unsafe-commit-pubrand\<close>
  (\<^verbatim>\<open>cmd/fpd/daemon/commit_pr.go\<close>) and \<^verbatim>\<open>recover-rand-proof\<close> (\<^verbatim>\<open>cmd/fpd/daemon/recover_proof.go\<close>). What they do with the
  provider is in the theory of the randomness recovery.
\<close>

section \<open>Committing\<close>

definition commitSetup ::
  "os_env \<Rightarrow> (BoltBackendConfig \<Rightarrow> kvdb go) \<Rightarrow> ('m, 's, 'c, 'b) daemon_env \<Rightarrow> ('pk, 'ds, 'dc) fp_ext \<Rightarrow> ('pk, 'sg, 'rec) app_ext \<Rightarrow> string \<Rightarrow> FpConfig \<Rightarrow> string \<Rightarrow>
     string \<Rightarrow> filesystem \<Rightarrow> (u64 \<times> ('s, 'c, 'pk, 'ds, 'dc) FinalityProviderInstance) go" where
  "commitSetup os bolt dm x ax homePath cfg arg0 arg1 fs =
     rbind (wrap ''failed to parse BIP340 public key from hex: '' (ax_FromHex ax arg0)) (\<lambda>fpPk.
     rbind (wrap ''failed to parse target height: '' (ParseUint64 arg1)) (\<lambda>targetHeight.
     rbind (wrap ''failed to initialize the logger: '' (fst (NewRootLoggerWithFile os (LogFile homePath) (cf_LogLevel cfg) fs))) (\<lambda>_.
     rbind (wrap ''failed to create db backend: '' (GetDBBackend bolt (cf_DatabaseConfig cfg))) (\<lambda>db.
     rbind (wrap ''failed to initiate finality provider store: '' (NewFinalityProviderStore (dm_flt dm 0) db)) (\<lambda>db.
     rbind (wrap ''failed to initiate public randomness store: '' (NewPubRandProofStore (dm_flt dm 1) db)) (\<lambda>db.
     rbind (deref (cf_BabylonConfig cfg)) (\<lambda>babylonConfig.
     rbind (wrap ''failed to create rpc client for the Babylon chain: '' (fpcc_NewBabylonController dm babylonConfig)) (\<lambda>(wrapper, cc).
     rbind (wrap ''failed to start client controller: '' (wrapper_Start wrapper)) (\<lambda>_.
     rbind (wrap ''failed to create rpc client for the consumer chain: '' (NewBabylonConsumerController dm babylonConfig)) (\<lambda>consumerCon.
     rbind (wrap ''failed to create EOTS manager client: ''
       (NewEOTSManagerGRPCClient (dm_Dial dm (cf_EOTSManagerAddress cfg) 0) (dm_Ping dm) (cf_EOTSManagerAddress cfg) (cf_HMACKey cfg))) (\<lambda>key.
     rbind (deref (cf_PollerConfig cfg)) (\<lambda>pollerConfig.
     rbind (wrap (''failed to create finality-provider '' @ ax_MarshalHex ax fpPk @ '' instance: '')
       (fst (NewFinalityProviderInstance x (dm_flt dm 2) (ax_ToBTCPK ax) (ax_BIP340 ax) (ax_MarshalHex ax) fpPk db db (dm_Client dm key) consumerCon
         (NewChainPoller pollerConfig)
         \<lparr>sv_rcBtcPk = None,
          sv_rcCfg = NewRandomnessCommitterConfig (cf_NumPubRand cfg) (uint (cf_TimestampingDelayBlocks cfg)) (cf_ContextSigningHeight cfg),
          sv_fsState = None\<rparr>))) (\<lambda>fp.
     Ok (targetHeight, fp))))))))))))))"

text \<open>The result and the provider as the command leaves it, if it got that far; no result when it never ends.\<close>

definition runCommandCommitPubRand ::
  "os_env \<Rightarrow> config_ext \<Rightarrow> (string \<Rightarrow> FpConfig go) \<Rightarrow> (BoltBackendConfig \<Rightarrow> kvdb go) \<Rightarrow> ('m, 's, 'c, 'b) daemon_env \<Rightarrow> ('pk, 'ds, 'dc) fp_ext \<Rightarrow>
     ('pk, 'sg, 'rec) app_ext \<Rightarrow> ('pk, 'fv, 'pf) rc_ext \<Rightarrow> ('pk \<Rightarrow> string) \<Rightarrow> (nat \<Rightarrow> nat \<Rightarrow> 'pk ConsumerController) \<Rightarrow>
     (nat \<Rightarrow> ('s, 'c, 'pk, 'fv, 'sc, 'sg) rand_env) \<Rightarrow> u64 \<Rightarrow> string \<Rightarrow> string \<Rightarrow> string \<Rightarrow> filesystem \<Rightarrow>
     (unit go \<times> ('s, 'c, 'pk, 'ds, 'dc) FinalityProviderInstance option) option" where
  "runCommandCommitPubRand os cx parse bolt dm x ax rx hex cc env startHeight home arg0 arg1 fs =
     (case rbind (wrap ''failed to get absolute home path: '' (filepath_Abs (os_Getwd os) home)) (\<lambda>homePath.
         let homePath = CleanAndExpandPath (os_UserHome os) (os_Getenv os) homePath in
         rbind (wrap ''failed to load configuration: '' (LoadConfig cx (FileExists os fs) (\<lambda>p. rbind (readFile fs p) parse) homePath)) (\<lambda>cfg.
         rbind (commitSetup os bolt dm x ax homePath cfg arg0 arg1 fs) (\<lambda>(targetHeight, fp). Ok (cfg, targetHeight, fp)))) of
        Err e \<Rightarrow> Some (Err e, None)
      | Crash c \<Rightarrow> Some (Crash c, None)
      | Ok (cfg, targetHeight, fp) \<Rightarrow>
          map_option (\<lambda>(r, fp). (r, Some fp)) (RunCommandCommitPubRandWithConfig rx hex cc env (cf_NumPubRand cfg) startHeight targetHeight fp))"

section \<open>Recovering\<close>

text \<open>The deferred call closes the database at the end and panics when that fails.\<close>

definition closing :: "goerror option \<Rightarrow> unit go \<times> 's recover_state \<Rightarrow> unit go \<times> 's recover_state option" where
  "closing flt = (\<lambda>(r, st). case kv_close flt (rs_pubRandStore st) of
      (Err e, db) \<Rightarrow> (Crash (''failed to close db: '' @ error_text e), Some (st\<lparr>rs_pubRandStore := db\<rparr>))
    | (Crash c, db) \<Rightarrow> (Crash c, Some (st\<lparr>rs_pubRandStore := db\<rparr>))
    | (Ok _, db) \<Rightarrow> (r, Some (st\<lparr>rs_pubRandStore := db\<rparr>)))"

definition recoverSetup ::
  "os_env \<Rightarrow> config_ext \<Rightarrow> (string \<Rightarrow> FpConfig go) \<Rightarrow> (BoltBackendConfig \<Rightarrow> kvdb go) \<Rightarrow> ('m, 's, 'c, 'b) daemon_env \<Rightarrow> string \<Rightarrow> filesystem \<Rightarrow> (FpConfig \<times> 'c \<times> kvdb) go" where
  "recoverSetup os cx parse bolt dm home fs =
     rbind (wrap ''failed to get home path: '' (filepath_Abs (os_Getwd os) home)) (\<lambda>homePath.
     let homePath = CleanAndExpandPath (os_UserHome os) (os_Getenv os) homePath in
     rbind (wrap ''failed to load configuration: '' (LoadConfig cx (FileExists os fs) (\<lambda>p. rbind (readFile fs p) parse) homePath)) (\<lambda>cfg.
     rbind (wrap ''failed to initialize the logger: '' (fst (NewRootLoggerWithFile os (LogFile homePath) (cf_LogLevel cfg) fs))) (\<lambda>_.
     rbind (deref (cf_BabylonConfig cfg)) (\<lambda>babylonConfig.
     rbind (wrap ''failed to create Babylon rpc client: '' (NewBabylonConsumerController dm babylonConfig)) (\<lambda>bcc.
     rbind (wrap ''failed to create db backend: '' (GetDBBackend bolt (cf_DatabaseConfig cfg))) (\<lambda>db.
     Ok (cfg, bcc, db)))))))"

definition runRecoverCmd ::
  "os_env \<Rightarrow> config_ext \<Rightarrow> (string \<Rightarrow> FpConfig go) \<Rightarrow> (BoltBackendConfig \<Rightarrow> kvdb go) \<Rightarrow> ('m, 's, 'c, 'b) daemon_env \<Rightarrow> ('pk, 'sg, 'rec) app_ext \<Rightarrow>
     ('pk, 'fv, 'pf) rc_ext \<Rightarrow> ('c \<Rightarrow> 'pk \<Rightarrow> u64 \<Rightarrow> BabylonPubRandCommit list option go) \<Rightarrow> ('s, 'fv, 'sc, 'sg) EOTSManager \<Rightarrow> (BabylonPubRandCommit \<Rightarrow> dbfault) \<Rightarrow>
     goerror option \<Rightarrow> string \<Rightarrow> u64 \<Rightarrow> string \<Rightarrow> string \<Rightarrow> filesystem \<Rightarrow> unit go \<times> 's recover_state option" where
  "runRecoverCmd os cx parse bolt dm ax rx query em flt closeFlt chainID startHeight home arg0 fs =
     (case recoverSetup os cx parse bolt dm home fs of
        Err e \<Rightarrow> (Err e, None)
      | Crash c \<Rightarrow> (Crash c, None)
      | Ok (cfg, bcc, db) \<Rightarrow>
          let addr = cf_EOTSManagerAddress cfg; s = dm_Client dm (clientHMACKey (cf_HMACKey cfg));
              dial = rbind (NewEOTSManagerGRPCClient (dm_Dial dm addr 0) (dm_Ping dm) addr (cf_HMACKey cfg)) (\<lambda>_. Ok ())
          in closing closeFlt
            (case wrap ''failed to initiate public randomness store: '' (NewPubRandProofStore (dm_flt dm 0) db) of
               Err e \<Rightarrow> (Err e, \<lparr>rs_em = s, rs_pubRandStore = db\<rparr>)
             | Crash c \<Rightarrow> (Crash c, \<lparr>rs_em = s, rs_pubRandStore = db\<rparr>)
             | Ok db \<Rightarrow> runCommandRecoverProof rx (ax_FromHex ax) (ax_MarshalHex ax) dial (query bcc) em flt chainID arg0 startHeight
                 \<lparr>rs_em = s, rs_pubRandStore = db\<rparr>))"

section \<open>What the commands leave in the database\<close>

text \<open>A database whose proofs, if it has any yet, are for chains and keys of the given total length.\<close>

definition proofs_ok :: "'pf pr_ext \<Rightarrow> nat \<Rightarrow> kvdb \<Rightarrow> bool" where
  "proofs_ok px n db \<longleftrightarrow> kv_ok db \<and> (\<forall>b. kv_buckets db pubRandProofBucketName = Some b \<longrightarrow> keys_of_length px n b)"

lemma NewPubRandProofStore_wf:
  assumes "NewPubRandProofStore flt db = Ok db'" and "proofs_ok px n db"
  shows "wf_prstore px n db'"
proof -
  have "kv_open db \<and> (kv_buckets db pubRandProofBucketName \<noteq> None \<and> db' = db \<or> db' = db\<lparr>kv_buckets := (kv_buckets db)(pubRandProofBucketName \<mapsto> [])\<rparr>)"
    using assms(1) by (auto simp: NewPubRandProofStore_def pr_initBuckets_def tx_create_bucket_def go_simps wrapS_def kv_update_def
        split: prod.splits option.splits if_splits go.splits dbfault.splits)
  then show ?thesis
    using assms(2) create_bucket_ok [of db pubRandProofBucketName] by (auto simp: proofs_ok_def wf_prstore_def keys_of_length_def)
qed

lemma NewFinalityProviderStore_proofs:
  assumes "NewFinalityProviderStore flt db = Ok db'" and "proofs_ok px n db"
  shows "proofs_ok px n db'"
proof -
  have n: "finalityProviderBucketName \<noteq> pubRandProofBucketName" by (simp add: pubRandProofBucketName_def finalityProviderBucketName_def)
  have "db' = db \<or> db' = db\<lparr>kv_buckets := (kv_buckets db)(finalityProviderBucketName \<mapsto> [])\<rparr>"
    using assms(1) by (auto simp: NewFinalityProviderStore_def fp_initBuckets_def tx_create_bucket_def go_simps wrapS_def kv_update_def
        split: prod.splits option.splits if_splits go.splits dbfault.splits)
  with n assms(2) create_bucket_ok [of db finalityProviderBucketName] show ?thesis by (auto simp: proofs_ok_def)
qed

lemma fst_eq: "fst p = a \<Longrightarrow> p = (a, snd p)"
  by (cases p) simp

lemma new_instance:
  assumes "NewFinalityProviderInstance x flt toBTCPK bip340 hex fpPk s pr em con cp
      \<lparr>sv_rcBtcPk = None, sv_rcCfg = NewRandomnessCommitterConfig num delay ctxHeight, sv_fsState = None\<rparr> = (Ok fp, sv')"
  shows "fi_pubRandState fp = pr \<and> commits_for (fi_btcPk fp) (GetChainID (fi_fpState fp)) num fp"
  using assms by (auto simp: NewFinalityProviderInstance_def newFinalityProviderInstanceFromStore_def Let_def NewFpState_def GetChainID_def liftR_eq
      rc_Init_def InitState_def commits_for_def NewRandomnessCommitterConfig_def elim!: sbindE split: if_splits prod.splits)

lemma commitSetup_Ok:
  assumes "commitSetup os bolt dm x ax homePath cfg arg0 arg1 fs = Ok (target, fp)"
    and "\<And>c db. bolt c = Ok db \<Longrightarrow> proofs_ok px n db"
  shows "ParseUint64 arg1 = Ok target \<and> wf_prstore px n (fi_pubRandState fp) \<and>
    commits_for (fi_btcPk fp) (GetChainID (fi_fpState fp)) (cf_NumPubRand cfg) fp"
proof -
  from assms(1) obtain fpPk db db1 db2 s consumerCon poller where t: "ParseUint64 arg1 = Ok target" and b: "GetDBBackend bolt (cf_DatabaseConfig cfg) = Ok db"
    and db1: "NewFinalityProviderStore (dm_flt dm 0) db = Ok db1" and db2: "NewPubRandProofStore (dm_flt dm 1) db1 = Ok db2"
    and fp: "fst (NewFinalityProviderInstance x (dm_flt dm 2) (ax_ToBTCPK ax) (ax_BIP340 ax) (ax_MarshalHex ax) fpPk db2 db2 s consumerCon poller
      \<lparr>sv_rcBtcPk = None, sv_rcCfg = NewRandomnessCommitterConfig (cf_NumPubRand cfg) (uint (cf_TimestampingDelayBlocks cfg)) (cf_ContextSigningHeight cfg),
       sv_fsState = None\<rparr>) = Ok fp"
    unfolding commitSetup_def by (clarsimp simp: go_simps)
  from b obtain c where "bolt c = Ok db" by (rule GetDBBackend_Ok)
  with assms(2) have "wf_prstore px n db2" by (intro NewPubRandProofStore_wf [OF db2] NewFinalityProviderStore_proofs [OF db1])
  moreover note new_instance [OF fp [THEN fst_eq]]
  ultimately show ?thesis using t by auto
qed

lemma fpi_CommitPubRand_keeps: "fpi_CommitPubRand rx env start fp = (r, fp') \<Longrightarrow> commits_for pk chainID n fp \<Longrightarrow> commits_for pk chainID n fp'"
  by (auto simp: fpi_CommitPubRand_def wrapS_eq on_committer_eq commits_for_def)

lemma commitFrom_keeps:
  assumes "commitFrom rx env num target i start fp = Some y" and "commits_for pk chainID n fp"
  shows "commits_for pk chainID n (snd y)"
proof -
  have "commits_for pk chainID n fp \<longrightarrow> commits_for pk chainID n (snd y)"
    using assms(1)
    by (rule commitFrom.raw_induct [where P = "\<lambda>_ _ _ _ _ _ fp y. commits_for pk chainID n fp \<longrightarrow> commits_for pk chainID n (snd y)", rotated])
      (fastforce simp: Let_def split: if_splits prod.splits go.splits dest: fpi_CommitPubRand_keeps)
  with assms(2) show ?thesis by blast
qed

text \<open>The command that commits by hand, from the home directory on: when it succeeds with a start height, the database it leaves has the
  inclusion proof of every height from the start to the target.\<close>

theorem commit_command_covers:
  assumes codec: "pr_codec (rx_pr rx)" and db: "\<And>c db. bolt c = Ok db \<Longrightarrow> proofs_ok (rx_pr rx) n db"
    and start: "startHeight \<noteq> 2 ^ 64 - 1"
    and run: "runCommandCommitPubRand os cx parse bolt dm x ax rx hex cc env startHeight home arg0 arg1 fs = Some (Ok (), Some fp')"
  shows "\<exists>num target pk chainID. ParseUint64 arg1 = Ok target \<and> commits_for pk chainID num fp' \<and>
    (0 < num \<and> unat target + unat num < 2 ^ 64 \<and> length chainID + length pk = n \<longrightarrow>
      startHeight \<le> target \<and> (\<forall>h. startHeight \<le> h \<and> h \<le> target \<longrightarrow> hasProof rx chainID pk h (fi_pubRandState fp')))"
proof -
  from run obtain homePath cfg target fp where su: "commitSetup os bolt dm x ax homePath cfg arg0 arg1 fs = Ok (target, fp)"
    and c: "RunCommandCommitPubRandWithConfig rx hex cc env (cf_NumPubRand cfg) startHeight target fp = Some (Ok (), fp')"
    by (auto simp: runCommandCommitPubRand_def Let_def go_simps split: go.splits)
  from commitSetup_Ok [OF su db] have t: "ParseUint64 arg1 = Ok target" and wf: "wf_prstore (rx_pr rx) n (fi_pubRandState fp)"
    and cf: "commits_for (fi_btcPk fp) (GetChainID (fi_fpState fp)) (cf_NumPubRand cfg) fp" by auto
  from c start obtain lastH where le: "startHeight \<le> target" and cm: "commitFrom rx env (cf_NumPubRand cfg) target 0 startHeight fp = Some (Ok (), fp')"
    by (auto simp: RunCommandCommitPubRandWithConfig_def CommitPubRandWithStartHeight_def go_simps split: if_splits go.splits)
  have "hasProof rx (GetChainID (fi_fpState fp)) (fi_btcPk fp) h (fi_pubRandState fp')"
    if "0 < cf_NumPubRand cfg" "unat target + unat (cf_NumPubRand cfg) < 2 ^ 64" "length (GetChainID (fi_fpState fp)) + length (fi_btcPk fp) = n"
      "startHeight \<le> h" "h \<le> target" for h
    using cm commitEach_proofs [OF codec that(1,2) le cf] wf that(3-5) by (auto simp: commitFrom_windows [OF that(1,2)] le)
  with t le commitFrom_keeps [OF cm cf] show ?thesis
    by (intro exI [of _ "cf_NumPubRand cfg"] exI [of _ target] exI [of _ "fi_btcPk fp"] exI [of _ "GetChainID (fi_fpState fp)"]) auto
qed

lemma reopened: "GetPubRandProof px NoFault c p h db = Ok b \<Longrightarrow> GetPubRandProof px NoFault c p h (db\<lparr>kv_open := True\<rparr>) = Ok b"
  by (auto simp: GetPubRandProof_def Let_def kv_view_def wrap_eq_Ok read_bucket_def split: if_splits)

text \<open>The command that recovers proofs, from the home directory on: when it succeeds, a daemon that opens the database again finds the proof of
  every height of every listed commitment.\<close>

theorem recover_command_restores:
  fixes st' :: "'s recover_state"
  assumes svc: "eots_service em emInv randFor voteOf" and codec: "pr_codec (rx_pr rx)"
    and db: "\<And>c db. bolt c = Ok db \<Longrightarrow> proofs_ok (rx_pr rx) (length chainID + length pk) db"
    and "ax_FromHex ax arg0 = Ok pk" and "rx_ToBTCPK rx pk = Ok btcPk" and "\<And>bcc. query bcc btcPk startHeight = Ok (Some cs)"
    and "disjointCommits cs" and "\<And>c. c \<in> set cs \<Longrightarrow> unat (bp_StartHeight c) + unat (bp_NumPubRand c) \<le> 2 ^ 64"
    and run: "runRecoverCmd os cx parse bolt dm ax rx query em flt None chainID startHeight home arg0 fs = (Ok (), Some st')"
    and "c \<in> set cs"
  shows "restored rx randFor chainID pk ((rs_pubRandStore st')\<lparr>kv_open := True\<rparr>) c"
proof -
  from run obtain cfg :: FpConfig and bcc db1 db2 dial and st :: "'s recover_state" where "GetDBBackend bolt (cf_DatabaseConfig cfg) = Ok db1" and n: "NewPubRandProofStore (dm_flt dm 0) db1 = Ok db2"
    and r: "runCommandRecoverProof rx (ax_FromHex ax) (ax_MarshalHex ax) dial (query bcc) em flt chainID arg0 startHeight
      \<lparr>rs_em = dm_Client dm (clientHMACKey (cf_HMACKey cfg)), rs_pubRandStore = db2\<rparr> = (Ok (), st)"
    and st: "st' = st\<lparr>rs_pubRandStore := (rs_pubRandStore st)\<lparr>kv_open := False\<rparr>\<rparr>"
    by (auto simp: runRecoverCmd_def recoverSetup_def closing_def kv_close_def Let_def go_simps split: go.splits prod.splits)
  from NewPubRandProofStore_wf [OF n] db have wf: "wf_prstore (rx_pr rx) (length chainID + length pk) db2"
    using \<open>GetDBBackend bolt _ = Ok db1\<close> by (auto elim!: GetDBBackend_Ok)
  from r assms(4-6) have loop: "recoverLoop rx (saveProofs rx flt) (createRandomness em) (ax_MarshalHex ax) chainID pk cs
      \<lparr>rs_em = dm_Client dm (clientHMACKey (cf_HMACKey cfg)), rs_pubRandStore = db2\<rparr> = (Ok (), st)"
    by (auto simp: runCommandRecoverProof_def RunCommandRecoverProofWithConfig_def liftR_eq go_simps elim!: sbindE split: if_splits)
  from recoverLoop_Ok [OF svc codec this _ assms(7,8)] wf assms(10) have "restored rx randFor chainID pk (rs_pubRandStore st) c" by simp
  then obtain prs proofs where prs: "length prs = unat (bp_NumPubRand c)" "rx_ProofsFromByteSlices rx (map (rx_PubRandBytes rx) prs) = (bp_Commitment c, proofs)"
    and each: "\<And>i. i < unat (bp_NumPubRand c) \<Longrightarrow> randFor pk chainID (bp_StartHeight c + of_nat i) (prs ! i) \<and>
      (\<exists>b. pr_marshal (rx_pr rx) (proofs ! i) = Ok b \<and> GetPubRandProof (rx_pr rx) NoFault chainID pk (bp_StartHeight c + of_nat i) (rs_pubRandStore st) = Ok b)"
    unfolding restored_def by blast
  have db': "(rs_pubRandStore st')\<lparr>kv_open := True\<rparr> = (rs_pubRandStore st)\<lparr>kv_open := True\<rparr>" by (simp add: st)
  show ?thesis unfolding restored_def db' using prs each reopened by blast
qed

end
