(* ===== verification/FP_Helpers.thy ===== *)
theory FP_Helpers
  imports Test_Vote Rand_Recovery
begin

text \<open>
  The remaining operations on a running instance from outside its loops: committing randomness with time measurements
  (\<^verbatim>\<open>service/benchmark_helper.go\<close>) and voting for several blocks at once (\<^verbatim>\<open>service/fp_test_helper.go\<close>).
\<close>

section \<open>Committing with time measurements\<close>

definition on_fpProofs :: "(kvdb, 'a) cmd \<Rightarrow> (('s, 'c, 'pk, 'ds, 'dc) FinalityProviderInstance, 'a) cmd" where
  "on_fpProofs m fp = (case m (fi_pubRandState fp) of (r, db) \<Rightarrow> (r, fp\<lparr>fi_pubRandState := db\<rparr>))"

text \<open>The durations are left out. The first two arguments of \<open>addPubRandProofList\<close> are the public key and the chain; the caller gives
  them in the other order.\<close>

definition commitPubRandPairsWithTiming ::
  "('pk, 'fv, 'pf) rc_ext \<Rightarrow> ('s, 'c, 'pk, 'fv, 'sc, 'sg) rand_env \<Rightarrow> u32 \<Rightarrow> u64 \<Rightarrow> (('s, 'c, 'pk, 'ds, 'dc) FinalityProviderInstance, TxResponse) cmd" where
  "commitPubRandPairsWithTiming rx env num startHeight fp =
     sbind (liftR (wrap ''failed to query the finality activation block height: '' (cc_QueryFinalityActivationBlockHeight (re_cc env 1 0)))) (\<lambda>activationBlkHeight.
     let startHeight = max startHeight activationBlkHeight in
     sbind (wrapS ''failed to generate randomness: '' (fpi_GetPubRandList (re_Em env) startHeight num)) (\<lambda>pubRandList.
     let numPubRand = of_nat (length pubRandList); (commitment, proofList) = GetPubRandCommitAndProofs rx pubRandList in
     sbind (wrapS ''failed to save public randomness to DB: ''
       (on_fpProofs (addPubRandProofList (rx_pr rx) (re_flt env) (GetChainID (fi_fpState fp)) (fi_btcPk fp) startHeight (ucast num) proofList None))) (\<lambda>_.
     sbind (wrapS ''failed to sign the Schnorr signature: '' (fpi_SignPubRandCommit rx (re_Em env) startHeight numPubRand commitment)) (\<lambda>schnorrSig.
     wrapS ''failed to commit public randomness to the consumer chain: ''
       (on_fpCon (re_CommitPubRandList env \<lparr>rq_FpPk = GetBtcPk (fi_fpState fp), rq_StartHeight = startHeight, rq_NumPubRand = numPubRand,
          rq_Commitment = commitment, rq_Sig = schnorrSig\<rparr>)))))) fp"

definition HelperCommitPubRand ::
  "('pk, 'fv, 'pf) rc_ext \<Rightarrow> ('s, 'c, 'pk, 'fv, 'sc, 'sg) rand_env \<Rightarrow> u32 \<Rightarrow> u32 \<Rightarrow> u64 \<Rightarrow>
     (('s, 'c, 'pk, 'ds, 'dc) FinalityProviderInstance, TxResponse option) cmd" where
  "HelperCommitPubRand rx env num delay tipHeight fp =
     sbind (liftR (fpi_GetLastCommittedHeight rx (re_cc env 0) fp)) (\<lambda>lastCommittedHeight.
     let commit = (\<lambda>startHeight. sbind (commitPubRandPairsWithTiming rx env num startHeight) (\<lambda>res. liftR (Ok (Some res)))) in
     if lastCommittedHeight = 0 then commit (tipHeight + 1)
     else if lastCommittedHeight < ucast delay + tipHeight then commit (lastCommittedHeight + 1)
     else liftR (Ok None)) fp"

section \<open>Voting for several blocks\<close>

fun batchProofs :: "'pf pr_ext \<Rightarrow> (nat \<Rightarrow> dbfault) \<Rightarrow> bytes \<Rightarrow> bytes \<Rightarrow> kvdb \<Rightarrow> nat \<Rightarrow> BlockInfo list \<Rightarrow> bytes list go" where
  "batchProofs px flt pk chainID db i [] = Ok []"
| "batchProofs px flt pk chainID db i (b # blocks) =
     rbind (wrap ''failed to get public randomness inclusion proof: '' (getPubRandProof px (flt i) pk chainID (bi_height b) db)) (\<lambda>proofBytes.
     rbind (batchProofs px flt pk chainID db (Suc i) blocks) (\<lambda>proofBytesList. Ok (proofBytes # proofBytesList)))"

fun batchSigs ::
  "('pk, 'sc) sub_ext \<Rightarrow> (BlockInfo \<Rightarrow> (('s, 'c, 'pk, 'ds, 'dc) FinalityProviderInstance, bytes) cmd) \<Rightarrow> BlockInfo list \<Rightarrow>
     (('s, 'c, 'pk, 'ds, 'dc) FinalityProviderInstance, 'sc list) cmd" where
  "batchSigs sx eotsSignerFunc [] = liftR (Ok [])"
| "batchSigs sx eotsSignerFunc (b # blocks) =
     sbind (eotsSignerFunc b) (\<lambda>eotsSig.
     sbind (batchSigs sx eotsSignerFunc blocks) (\<lambda>sigList. liftR (Ok (sx_ToModNScalar sx eotsSig # sigList))))"

definition SubmitBatchFinalitySignaturesAndExtractPrivKey ::
  "('pk, 'sc) sub_ext \<Rightarrow> 'pf pr_ext \<Rightarrow> ('ev, 'xk) evidence_ext \<Rightarrow> ('s, 'fv, 'sc, 'sg) EOTSManager \<Rightarrow> (nat \<Rightarrow> dbfault) \<Rightarrow>
     (('pk, 'fv, 'sc) SubmitBatchFinalitySigsRequest \<Rightarrow> ('c, TxResponse option) cmd) \<Rightarrow> BlockInfo list \<Rightarrow> bool \<Rightarrow>
     (('s, 'c, 'pk, 'ds, 'dc) FinalityProviderInstance, TxResponse \<times> 'xk option) cmd" where
  "SubmitBatchFinalitySignaturesAndExtractPrivKey sx px vx em flt submit blocks useSafeEOTSFunc =
     (if blocks = [] then liftR (Err (ErrText ''should not submit batch finality signature with zero blocks''))
      else if 2 ^ 32 - 1 < length blocks then liftR (Err (ErrText ''should not submit batch finality signature with too many blocks''))
      else
        sbind (wrapS ''failed to get public randomness list: '' (fpi_GetPubRandList em (bi_height (hd blocks)) (of_nat (length blocks)))) (\<lambda>prList.
        sbind (\<lambda>fp. (batchProofs px flt (fi_btcPk fp) (GetChainID (fi_fpState fp)) (fi_pubRandState fp) 0 blocks, fp)) (\<lambda>proofBytesList.
        sbind (batchSigs sx (if useSafeEOTSFunc then fpi_SignFinalitySig sx em else unsafeSigner sx em) blocks) (\<lambda>sigList.
        sbind (\<lambda>fp. wrapS ''failed to send batch finality signatures to the consumer chain: '' (on_fpCon (submit \<lparr>sb_FpPk = GetBtcPk (fi_fpState fp),
          sb_Blocks = blocks, sb_PubRandList = prList, sb_ProofList = proofBytesList, sb_Sigs = sigList\<rparr>)) fp) (\<lambda>res.
        sbind (liftR (deref res)) (\<lambda>res.
        if tx_TxHash res = [] then liftR (Ok (res, None))
        else sbind (liftR (extractPrivKey vx (tx_Events res))) (\<lambda>privKey. liftR (Ok (res, privKey)))))))))"

definition th_SubmitBatchFinalitySignatures ::
  "('pk, 'ds, 'dc) fp_ext \<Rightarrow> ('pk, 'sc) sub_ext \<Rightarrow> FinalitySubmitterConfig \<Rightarrow> (nat \<Rightarrow> nat \<Rightarrow> 'pk ConsumerController) \<Rightarrow> dbfault \<Rightarrow>
     (nat \<Rightarrow> ('s, 'c, 'pk, 'fv, 'sc, 'sg) attempt_env) \<Rightarrow> BlockInfo list \<Rightarrow> ('s, 'c, 'pk, 'ds, 'dc) FinalityProviderInstance \<Rightarrow>
     (TxResponse option go \<times> ('s, 'c, 'pk, 'ds, 'dc) FinalityProviderInstance) option" where
  "th_SubmitBatchFinalitySignatures x sx cfg q flt env blocks fp =
     map_option (\<lambda>(r, ds). on_submitter (\<lambda>_. (wrap ''failed to submit batch finality signatures: '' r, ds)) fp)
       (SubmitBatchFinalitySignatures x sx cfg q flt env blocks (submitter_of fp))"

text \<open>A failure ends the test that called it.\<close>

definition MustUpdateStateAfterFinalitySigSubmission ::
  "('pk, 'ds, 'dc) fp_ext \<Rightarrow> dbfault \<Rightarrow> u64 \<Rightarrow> (('s, 'c, 'pk, 'ds, 'dc) FinalityProviderInstance, unit) cmd" where
  "MustUpdateStateAfterFinalitySigSubmission x flt height fp =
     (case on_fpState (SetLastVotedHeight x flt height) fp of
        (Err e, fp) \<Rightarrow> (Crash (''failed to update state after finality sig submission: '' @ error_text e), fp)
      | (r, fp) \<Rightarrow> (r, fp))"

section \<open>Proofs under the wrong key\<close>

lemma on_fpProofs_eq: "on_fpProofs m fp = (r, fp') \<longleftrightarrow> (\<exists>db. m (fi_pubRandState fp) = (r, db) \<and> fp' = fp\<lparr>fi_pubRandState := db\<rparr>)"
  by (auto simp: on_fpProofs_def split: prod.splits)

lemma misfiled:
  assumes codec: "pr_codec x" and wf: "wf_prstore x (length p + length c) db"
    and run: "AddPubRandProofList x flt p c h num proofs None db = (Ok u, db')" and "p @ c \<noteq> c @ p"
  shows "GetPubRandProof x NoFault c p h' db' = GetPubRandProof x NoFault c p h' db"
proof -
  from run obtain bs b where b: "kv_buckets db pubRandProofBucketName = Some b"
    and db': "db' = db\<lparr>kv_buckets := (kv_buckets db)(pubRandProofBucketName \<mapsto>
      foldl (\<lambda>b (k, v). bkt_put b k v) b (zip (buildKeys x p c h num None) bs))\<rparr>"
    by (rule pr_codec.AddPubRandProofList_OkE [OF codec])
  have key: "getKey x c p h' \<noteq> getKey x p c i" for i
  proof
    assume "getKey x c p h' = getKey x p c i"
    then have "(c @ p) @ pr_enc x h' = (p @ c) @ pr_enc x i" by (simp add: getKey_def)
    with assms(4) show False by (subst (asm) append_eq_append_conv) auto
  qed
  then have "getKey x c p h' \<notin> set (buildKeys x p c h num None)" by (auto simp: buildKeys_def)
  then have "getKey x c p h' \<notin> fst ` set (zip (buildKeys x p c h num None) bs)" by (auto dest: set_zip_leftD)
  then have "proofOf x db' c p h' = proofOf x db c p h'"
    using b db' by (simp add: proofOf_def kv_bucket_of_def bk.get_foldl_put_notin)
  then show ?thesis
    by (simp only: pr_codec.GetPubRandProof_proofOf [OF codec wf] pr_codec.GetPubRandProof_proofOf [OF codec pr_codec.AddPubRandProofList_wf [OF codec wf run]])
qed

text \<open>Randomness committed by the measuring helper is lost for voting: the commitment reaches the chain, but its proofs are filed under the
  public key in the place of the chain and the chain in the place of the public key. Every proof the provider looks up afterwards is
  the one it would have found before, so the heights of the commitment gain none.\<close>

theorem HelperCommitPubRand_misfiles:
  fixes fp :: "('s, 'c, 'pk, 'ds, 'dc) FinalityProviderInstance"
  defines "pk \<equiv> fi_btcPk fp" and "chainID \<equiv> GetChainID (fi_fpState fp)"
  assumes codec: "pr_codec (rx_pr rx)" and wf: "wf_prstore (rx_pr rx) (length chainID + length pk) (fi_pubRandState fp)"
    and differ: "chainID @ pk \<noteq> pk @ chainID" and run: "HelperCommitPubRand rx env num delay tipHeight fp = (Ok (Some res), fp')"
  shows "(\<exists>req. re_CommitPubRandList env req (fi_consumerCon fp) = (Ok res, fi_consumerCon fp') \<and> rq_FpPk req = GetBtcPk (fi_fpState fp)) \<and>
    (\<forall>h. getPubRandProof (rx_pr rx) NoFault pk chainID h (fi_pubRandState fp') = getPubRandProof (rx_pr rx) NoFault pk chainID h (fi_pubRandState fp))"
proof -
  from run obtain start where "commitPubRandPairsWithTiming rx env num start fp = (Ok res, fp')"
    by (auto simp: HelperCommitPubRand_def liftR_eq Let_def elim!: sbindE split: if_splits)
  then obtain h n u proofs req where
    add: "AddPubRandProofList (rx_pr rx) (re_flt env) pk chainID h n proofs None (fi_pubRandState fp) = (Ok u, fi_pubRandState fp')"
    and req: "re_CommitPubRandList env req (fi_consumerCon fp) = (Ok res, fi_consumerCon fp')" "rq_FpPk req = GetBtcPk (fi_fpState fp)"
    by (auto simp: commitPubRandPairsWithTiming_def liftR_eq wrapS_eq go_simps Let_def on_fpProofs_eq on_fpCon_eq on_fpEm_eq fpi_GetPubRandList_def
        fpi_SignPubRandCommit_def addPubRandProofList_def pk_def chainID_def split_beta elim!: sbindE)
  from misfiled [OF codec _ add] wf differ have "getPubRandProof (rx_pr rx) NoFault pk chainID h' (fi_pubRandState fp') =
      getPubRandProof (rx_pr rx) NoFault pk chainID h' (fi_pubRandState fp)" for h'
    by (simp add: getPubRandProof_def add.commute)
  with req show ?thesis by blast
qed

theorem HelperCommitPubRand_misfiles_witness:
  "\<exists>fp'. HelperCommitPubRand demo_rx demo_renv 2 10 21 demo_mfp = (Ok (Some emptyTxResponse), fp') \<and> fi_consumerCon fp' \<noteq> [] \<and>
     getPubRandProof plain_pr NoFault ''k'' ''c'' 22 (fi_pubRandState fp') = getPubRandProof plain_pr NoFault ''k'' ''c'' 22 emptyPrStore"
proof -
  let ?prs = "[''k'' @ be64 22 @ ''c'' @ be64 0, ''k'' @ be64 23 @ ''c'' @ be64 0]"
  have fp: "fi_btcPk demo_mfp = ''k''" "GetChainID (fi_fpState demo_mfp) = ''c''" "fi_pubRandState demo_mfp = emptyPrStore" "fi_em demo_mfp = demo_lm"
    "fi_consumerCon demo_mfp = []" by (simp_all add: demo_mfp_def GetChainID_def NewFpState_def)
  have env: "re_cc demo_renv = (\<lambda>_ _. demo_cc)" "re_flt demo_renv = NoFault" "rx_pr demo_rx = plain_pr"
    "re_CommitPubRandList demo_renv = (\<lambda>req sent. (Ok emptyTxResponse, sent @ [req]))" by (simp_all add: demo_renv_def demo_rx_def)
  have act: "cc_QueryFinalityActivationBlockHeight demo_cc = Ok 5" by (simp add: demo_cc_def)
  have A: "fpi_GetPubRandList (re_Em demo_renv) 22 2 demo_mfp = (Ok ?prs, demo_mfp)"
    using demo_randomness [of 22] by (simp add: fpi_GetPubRandList_def fp wrapS_def on_fpEm_def demo_renv_def localManager_def)
  obtain db where "AddPubRandProofList plain_pr NoFault ''k'' ''c'' 22 2 ?prs None emptyPrStore = (Ok (), db)"
    using plain_add [of ?prs 2 "''k''" "''c''" 22 None] by auto
  then have B: "on_fpProofs (addPubRandProofList plain_pr NoFault ''c'' ''k'' 22 2 ?prs None) demo_mfp = (Ok (), demo_mfp\<lparr>fi_pubRandState := db\<rparr>)"
    by (simp add: on_fpProofs_def addPubRandProofList_def wrapS_def fp)
  have C: "\<exists>sig. fpi_SignPubRandCommit demo_rx (re_Em demo_renv) 22 2 cm (demo_mfp\<lparr>fi_pubRandState := db\<rparr>) = (Ok sig, demo_mfp\<lparr>fi_pubRandState := db\<rparr>)" for cm
    using demo_schnorr by (simp add: fpi_SignPubRandCommit_def fp wrapS_def on_fpEm_def demo_renv_def localManager_def)
  have D: "GetPubRandCommitAndProofs demo_rx ?prs = (concat ?prs, ?prs)" by (simp add: GetPubRandCommitAndProofs_def demo_rx_def)
  have "\<exists>req. commitPubRandPairsWithTiming demo_rx demo_renv 2 22 demo_mfp =
      (Ok emptyTxResponse, demo_mfp\<lparr>fi_pubRandState := db, fi_consumerCon := [req]\<rparr>)"
    using act A B C [of "concat ?prs"] D by (auto simp: commitPubRandPairsWithTiming_def sbind_def liftR_def wrapS_def fp env on_fpCon_def max_def)
  then obtain fp' where run: "HelperCommitPubRand demo_rx demo_renv 2 10 21 demo_mfp = (Ok (Some emptyTxResponse), fp')" and "fi_consumerCon fp' \<noteq> []"
    using demo_last by (auto simp: HelperCommitPubRand_def sbind_def liftR_def env)
  moreover have "pr_codec (rx_pr demo_rx)" using plain_pr.pr_codec_axioms by (simp add: demo_rx_def)
  note HelperCommitPubRand_misfiles [OF this _ _ run]
  ultimately show ?thesis by (auto simp: fp env)
qed

section \<open>What a batch of votes by hand sends\<close>

lemma batchProofs_Ok:
  "batchProofs px flt pk chainID db i blocks = Ok proofs \<Longrightarrow> length proofs = length blocks \<and>
    (\<forall>j < length blocks. getPubRandProof px (flt (i + j)) pk chainID (bi_height (blocks ! j)) db = Ok (proofs ! j))"
  by (induction blocks arbitrary: i proofs) (fastforce simp: go_simps nth_Cons' less_Suc_eq_0_disj)+

lemma sel_em: "fp' = fp\<lparr>fi_em := s\<rparr> \<Longrightarrow> fi_fpState fp' = fi_fpState fp \<and> fi_consumerCon fp' = fi_consumerCon fp"
  by simp

lemma batchSigs_recorded:
  assumes svc: "eots_service em emInv randFor voteOf" and "emInv (fi_em fp)"
    and rt: "\<And>s. sx_ToModNScalar sx (sx_NewSchnorrEOTSSigFromModNScalar sx s) = s"
    and "batchSigs sx (fpi_SignFinalitySig sx em) blocks fp = (Ok sigs, fp')"
  shows "length sigs = length blocks \<and> fp' = fp\<lparr>fi_em := fi_em fp'\<rparr> \<and> (\<forall>k v. voteOf (fi_em fp) k = Some v \<longrightarrow> voteOf (fi_em fp') k = Some v) \<and>
    (\<forall>j < length blocks. voteOf (fi_em fp') (GetChainID (fi_fpState fp), fi_btcPk fp, bi_height (blocks ! j)) =
      Some (MsgToSign (sx_Uint64ToBigEndian sx) (blocks ! j) [], sigs ! j))"
  using assms(2,4)
proof (induction blocks arbitrary: fp sigs)
  case Nil
  then show ?case by (simp add: liftR_def)
next
  case (Cons b blocks)
  let ?msg = "MsgToSign (sx_Uint64ToBigEndian sx) b []" and ?k = "(GetChainID (fi_fpState fp), fi_btcPk fp, bi_height b)"
  from Cons.prems(2) obtain sig s1 sigs' where one: "em_SignEOTS em (fi_btcPk fp) (GetChainID (fi_fpState fp)) ?msg (bi_height b) (fi_em fp) = (Ok sig, s1)"
    and rest: "batchSigs sx (fpi_SignFinalitySig sx em) blocks (fp\<lparr>fi_em := s1\<rparr>) = (Ok sigs', fp')" and sigs: "sigs = sig # sigs'"
    by (auto simp: fpi_SignFinalitySig_eq liftR_eq go_simps rt eotsSignError_Ok eq_commute [of "Ok _" "rbind _ _"] elim!: sbindE)
  have inv: "emInv s1" and here: "voteOf s1 ?k = Some (?msg, sig)"
    using eots_service.sign_inv [OF svc one] eots_service.sign_recorded [OF svc one] Cons.prems(1) by auto
  have old: "voteOf s1 k = Some v" if "voteOf (fi_em fp) k = Some v" for k v
    using eots_service.sign_keeps [OF svc one] Cons.prems(1) that by blast
  from Cons.IH [OF _ rest] inv have IH: "length sigs' = length blocks" "fp' = fp\<lparr>fi_em := fi_em fp'\<rparr>"
      "\<And>k v. voteOf s1 k = Some v \<Longrightarrow> voteOf (fi_em fp') k = Some v"
      "\<And>j. j < length blocks \<Longrightarrow> voteOf (fi_em fp') (GetChainID (fi_fpState fp), fi_btcPk fp, bi_height (blocks ! j)) =
        Some (MsgToSign (sx_Uint64ToBigEndian sx) (blocks ! j) [], sigs' ! j)" by auto
  have "voteOf (fi_em fp') (GetChainID (fi_fpState fp), fi_btcPk fp, bi_height ((b # blocks) ! j)) =
      Some (MsgToSign (sx_Uint64ToBigEndian sx) ((b # blocks) ! j) [], sigs ! j)" if "j < length (b # blocks)" for j
    using that IH(3) [OF here] IH(4) sigs by (cases j) auto
  with IH(1-3) old sigs show ?case by auto
qed

text \<open>Votes by hand for several blocks, with protection: the request carries one signature per block, each the recorded vote of the provider for
  the height of its block, and for each block the inclusion proof of its height; its randomness, however, is that of the first block's height
  and the heights following it, whatever the heights of the other blocks are.\<close>

theorem batch_vote_by_hand:
  fixes fp :: "('s, 'c, 'pk, 'ds, 'dc) FinalityProviderInstance"
  defines "pk \<equiv> fi_btcPk fp" and "chainID \<equiv> GetChainID (fi_fpState fp)"
  assumes svc: "eots_service em emInv randFor voteOf" and inv: "emInv (fi_em fp)"
    and rt: "\<And>s. sx_ToModNScalar sx (sx_NewSchnorrEOTSSigFromModNScalar sx s) = s"
    and run: "SubmitBatchFinalitySignaturesAndExtractPrivKey sx px vx em flt submit blocks True fp = (Ok v, fp')"
  shows "\<exists>prs proofs sigs res. submit \<lparr>sb_FpPk = GetBtcPk (fi_fpState fp), sb_Blocks = blocks, sb_PubRandList = prs, sb_ProofList = proofs, sb_Sigs = sigs\<rparr>
      (fi_consumerCon fp) = (Ok (Some res), fi_consumerCon fp') \<and>
    length prs = length blocks \<and> length proofs = length blocks \<and> length sigs = length blocks \<and>
    (\<forall>i < length blocks. randFor pk chainID (bi_height (blocks ! 0) + of_nat i) (prs ! i) \<and>
      getPubRandProof px (flt i) pk chainID (bi_height (blocks ! i)) (fi_pubRandState fp) = Ok (proofs ! i) \<and>
      voteOf (fi_em fp') (chainID, pk, bi_height (blocks ! i)) = Some (MsgToSign (sx_Uint64ToBigEndian sx) (blocks ! i) [], sigs ! i))"
proof -
  have small: "unat (of_nat (length blocks) :: u32) = length blocks" if "\<not> 2 ^ 32 - 1 < length blocks"
    using that by (simp add: unsigned_of_nat take_bit_nat_eq_self)
  from run obtain prs s1 proofs sigs fp1 res where n: "blocks \<noteq> []" "\<not> 2 ^ 32 - 1 < length blocks"
    and prs: "em_CreateRandomnessPairList em pk chainID (bi_height (hd blocks)) (of_nat (length blocks)) (fi_em fp) = (Ok prs, s1)"
    and proofs: "batchProofs px flt pk chainID (fi_pubRandState fp) 0 blocks = Ok proofs"
    and sigs: "batchSigs sx (fpi_SignFinalitySig sx em) blocks (fp\<lparr>fi_em := s1\<rparr>) = (Ok sigs, fp1)"
    and sent: "submit \<lparr>sb_FpPk = GetBtcPk (fi_fpState fp1), sb_Blocks = blocks, sb_PubRandList = prs, sb_ProofList = proofs, sb_Sigs = sigs\<rparr>
      (fi_consumerCon fp1) = (Ok (Some res), fi_consumerCon fp')" and em: "fi_em fp' = fi_em fp1"
    by (auto simp: SubmitBatchFinalitySignaturesAndExtractPrivKey_def fpi_GetPubRandList_def wrapS_eq liftR_eq go_simps on_fpEm_eq on_fpCon_eq pk_def
        chainID_def elim!: sbindE split: if_splits)
  have inv1: "emInv s1" using eots_service.rand_keeps [OF svc prs inv] by blast
  note rand = eots_service.rand_heights [OF svc prs]
  note S = batchSigs_recorded [OF svc _ rt sigs, simplified, OF inv1]
  then have same: "fi_fpState fp1 = fi_fpState fp" "fi_consumerCon fp1 = fi_consumerCon fp" using sel_em [of fp1 "fi_em fp1" fp] by auto
  from batchProofs_Ok [OF proofs] S rand small [OF n(2)] sent same em n(1) show ?thesis
    by (intro exI [of _ prs] exI [of _ proofs] exI [of _ sigs] exI [of _ res]) (auto simp: hd_conv_nth pk_def chainID_def)
qed

definition demo_vfp ::
  "kvdb \<Rightarrow> ((bytes, bytes) LocalEOTSManager, (bytes, bytes, bytes) SubmitBatchFinalitySigsRequest list, bytes, bytes, bytes) FinalityProviderInstance" where
  "demo_vfp db = \<lparr>fi_btcPk = ''k'', fi_fpState = NewFpState \<lparr>sf_FPAddr = [], sf_BtcPk = ''k'', sf_Description = [], sf_Commission = [],
     sf_ChainID = ''c'', sf_LastVotedHeight = 0, sf_Status = ACTIVE, sf_CommissionInfo = None\<rparr> demoFpStore, fi_pubRandState = db,
     fi_em = demo_lm, fi_consumerCon = [], fi_poller = NewChainPoller DefaultChainPollerConfig, fi_rcBtcPk = Some ''k'', fi_rcCfg = rc_Cfg demo_rc,
     fi_criticalErrs = [], fi_isStarted = True, fi_quit = Some False\<rparr>"

definition demo_hx :: "(bytes, bytes) evidence_ext" where
  "demo_hx = \<lparr>ev_EventType = (\<lambda>e. e), ev_EvidenceAttr = (\<lambda>e. e), ev_UnmarshalString = Ok, ev_ExtractBTCSK = Ok\<rparr>"

theorem batch_vote_by_hand_witness:
  "\<exists>db v fp' prs sigs. SubmitBatchFinalitySignaturesAndExtractPrivKey demo_sx plain_pr demo_hx (localManager demo_ext (\<lambda>_. NoFault) 1) (\<lambda>_. NoFault)
       demo_recorder [NewBlockInfo 22 ''h'' False] True (demo_vfp db) = (Ok v, fp') \<and>
     fi_consumerCon fp' = [\<lparr>sb_FpPk = ''k'', sb_Blocks = [NewBlockInfo 22 ''h'' False], sb_PubRandList = prs, sb_ProofList = [''pf''], sb_Sigs = sigs\<rparr>] \<and>
     length sigs = 1 \<and> signedFor demo_ext (fi_em fp') (''c'', ''k'', 22) = Some (MsgToSign be64 (NewBlockInfo 22 ''h'' False) [], sigs ! 0)"
proof -
  let ?em = "localManager demo_ext (\<lambda>_. NoFault) 1" and ?b = "NewBlockInfo 22 ''h'' False" and ?msg = "MsgToSign be64 (NewBlockInfo 22 ''h'' False) []"
  obtain db where add: "AddPubRandProofList plain_pr NoFault ''c'' ''k'' 22 1 [''pf''] None emptyPrStore = (Ok (), db)"
    using plain_add [of "[''pf'']" 1 "''c''" "''k''" 22 None] by auto
  from plain_pr.GetPubRandProof_proofOf [OF plain_pr.AddPubRandProofList_wf [OF wf_emptyPrStore add]] plain_pr.AddPubRandProofList_content [OF add refl]
  have pf: "getPubRandProof plain_pr NoFault ''k'' ''c'' 22 db = Ok ''pf''" by (auto simp: getPubRandProof_def plain_pr_def)
  have fp: "fi_btcPk (demo_vfp db) = ''k''" "GetChainID (fi_fpState (demo_vfp db)) = ''c''" "fi_pubRandState (demo_vfp db) = db" "fi_em (demo_vfp db) = demo_lm"
    "GetBtcPk (fi_fpState (demo_vfp db)) = ''k''" "fi_consumerCon (demo_vfp db) = []"
    by (simp_all add: demo_vfp_def GetChainID_def NewFpState_def GetBtcPk_def)
  have bh: "bi_height ?b = 22" by (simp add: NewBlockInfo_def)
  have one: "\<exists>prs. CreateRandomnessPairList demo_ext NoFault ''k'' ''c'' 22 1 [] demo_lm = (Ok prs, demo_lm)"
    using demo_getKey by (simp add: CreateRandomnessPairList_def Let_def sbind_def wrapS_def liftR_def demo_rand)
  obtain sig es where sign: "SignEOTS demo_ext (\<lambda>_. NoFault) 1 ''k'' ''c'' ?msg 22 demo_lm = (Ok sig, demo_lm\<lparr>lm_es := es\<rparr>)"
    using demo_sign [of 1 "''c''" ?msg 22] by auto
  have "\<exists>v fp'. SubmitBatchFinalitySignaturesAndExtractPrivKey demo_sx plain_pr demo_hx ?em (\<lambda>_. NoFault) demo_recorder [?b] True (demo_vfp db) = (Ok v, fp')"
    using one sign pf
    by (auto simp: SubmitBatchFinalitySignaturesAndExtractPrivKey_def fpi_GetPubRandList_def fpi_SignFinalitySig_def sbind_def wrapS_def liftR_def fp bh
        on_fpEm_def on_fpCon_def localManager_def demo_recorder_def demo_sx_def emptyTxResponse_def)
  then obtain v fp' where run: "SubmitBatchFinalitySignaturesAndExtractPrivKey demo_sx plain_pr demo_hx ?em (\<lambda>_. NoFault) demo_recorder [?b] True (demo_vfp db) = (Ok v, fp')"
    by blast
  have "sx_ToModNScalar demo_sx (sx_NewSchnorrEOTSSigFromModNScalar demo_sx s) = s" for s by (simp add: demo_sx_def)
  from batch_vote_by_hand [OF demo.svc.eots_service_axioms _ this run, unfolded fp, OF wf_demo_lm]
  obtain prs proofs sigs where req: "[\<lparr>sb_FpPk = ''k'', sb_Blocks = [?b], sb_PubRandList = prs, sb_ProofList = proofs, sb_Sigs = sigs\<rparr>] = fi_consumerCon fp'"
    and n: "length proofs = 1" "length sigs = 1" "getPubRandProof plain_pr NoFault ''k'' ''c'' 22 db = Ok (proofs ! 0)"
      "signedFor demo_ext (fi_em fp') (''c'', ''k'', 22) = Some (?msg, sigs ! 0)"
    by (auto simp: demo_recorder_def bh) (auto simp: demo_sx_def)
  from n(1,3) pf have "proofs = [''pf'']" by (cases proofs) auto
  with run req [symmetric] n(2,4) show ?thesis by blast
qed

end
