(* ===== verification/Eots_Keys.thy ===== *)
theory Eots_Keys
  imports Eots_Tools FP_Files
begin

text \<open>
  The key commands of the EOTS daemon (\<^verbatim>\<open>eotsd/daemon/keysadd.go\<close>, \<^verbatim>\<open>eotsd/daemon/keys.go\<close>): adding a key to the keyring, with the name
  recorded in the database, showing a key and listing the recorded names. The keyring, the mnemonics and the encodings are those of
  the Cosmos SDK and are parameters; the answers at the terminal are a list that the prompts take from.
\<close>

section \<open>Parameters and state\<close>

text \<open>What the commands use of the SDK beyond the lookup of a key: \<open>kx_Algo\<close> is the choice of the signing algorithm, \<open>kx_jsonPub\<close> the JSON text of a
  public key of that algorithm with the given bytes, \<open>kx_isYes\<close> what counts as a confirmation.\<close>

record 'kr keys_ext =
  kx_Algo :: "string \<Rightarrow> 'kr \<Rightarrow> string go"
  kx_NewInMemory :: 'kr
  kx_Delete :: "string \<Rightarrow> ('kr, unit) cmd"
  kx_Address :: "key_item \<Rightarrow> bytes"
  kx_NewLegacyAminoPubKey :: "int \<Rightarrow> key_item list \<Rightarrow> key_item"
  kx_SaveMultisig :: "string \<Rightarrow> key_item \<Rightarrow> ('kr, unit) cmd"
  kx_UnmarshalInterfaceJSON :: "string \<Rightarrow> key_item go"
  kx_DecodeBase64 :: "string \<Rightarrow> bytes go"
  kx_jsonPub :: "string \<Rightarrow> bytes \<Rightarrow> string go"
  kx_SaveOfflineKey :: "string \<Rightarrow> key_item \<Rightarrow> ('kr, unit) cmd"
  kx_IsMnemonicValid :: "string \<Rightarrow> bool"
  kx_NewEntropy :: "bytes go"
  kx_NewMnemonic :: "bytes \<Rightarrow> string go"
  kx_NewAccount :: "string \<Rightarrow> string \<Rightarrow> string \<Rightarrow> string \<Rightarrow> string \<Rightarrow> ('kr, unit) cmd"
  kx_isYes :: "string \<Rightarrow> bool"
  kx_open :: "string \<Rightarrow> unit go"
  kx_readAll :: "string \<Rightarrow> string go"
  kx_input :: bytes

record add_flags =
  af_name :: string
  af_interactive :: bool
  af_noBackup :: bool
  af_keyType :: string
  af_dryRun :: bool
  af_multisig :: "string list"
  af_threshold :: int
  af_noSort :: bool
  af_pubKey :: string
  af_pubKeyBase64 :: string
  af_hdPath :: string
  af_useLedger :: bool
  af_recover :: bool
  af_mnemonicSrc :: string

record 'kr add_state =
  ad_kr :: 'kr
  ad_in :: "string go list"

definition on_kr :: "('kr, 'a) cmd \<Rightarrow> ('kr add_state, 'a) cmd" where
  "on_kr m st = (case m (ad_kr st) of (r, kr) \<Rightarrow> (r, st\<lparr>ad_kr := kr\<rparr>))"

definition GetString :: "('kr add_state, string) cmd" where
  "GetString st = (case ad_in st of [] \<Rightarrow> (Err (ErrText ''EOF''), st) | r # rs \<Rightarrow> (r, st\<lparr>ad_in := rs\<rparr>))"

definition keyOf :: "('kr, 'sk, 'sc, 'fv, 'sg, 'pk) eots_ext \<Rightarrow> 'kr keys_ext \<Rightarrow> 'kr \<Rightarrow> string \<Rightarrow> keyring_record go" where
  "keyOf x kx kr name = fst (kr_Key x name (kx_input kx) kr)"

section \<open>Adding a key\<close>

definition validateMultisigThreshold :: "int \<Rightarrow> int \<Rightarrow> unit go" where
  "validateMultisigThreshold k nKeys =
     (if k \<le> 0 then Err (ErrText ''threshold must be a positive integer'')
      else if nKeys < k then Err (ErrText (''threshold k of n multisignature: '' @ fmt_int nKeys @ '' < '' @ fmt_int k))
      else Ok ())"

definition readMnemonicFromFile :: "'kr keys_ext \<Rightarrow> string \<Rightarrow> string go" where
  "readMnemonicFromFile kx filePath =
     rbind (wrap ''failed to open mnemonic file: '' (kx_open kx (path_Clean filePath))) (\<lambda>_.
     wrap ''failed to read mnemonic file: '' (kx_readAll kx (path_Clean filePath)))"

fun multisigKeys :: "('kr, 'sk, 'sc, 'fv, 'sg, 'pk) eots_ext \<Rightarrow> 'kr keys_ext \<Rightarrow> 'kr \<Rightarrow> string list \<Rightarrow> key_item list go" where
  "multisigKeys x kx kr [] = Ok []"
| "multisigKeys x kx kr (keyname # names) =
     rbind (wrap ''failed to get key: '' (keyOf x kx kr keyname)) (\<lambda>k.
     rbind (wrap ''failed to get pubkey: '' (rec_PubKey k)) (\<lambda>key.
     rbind (multisigKeys x kx kr names) (\<lambda>pks. Ok (key # pks))))"

text \<open>Two keys with one address are the same key, so that the order of equal elements does not matter.\<close>

definition addMultisig :: "('kr, 'sk, 'sc, 'fv, 'sg, 'pk) eots_ext \<Rightarrow> 'kr keys_ext \<Rightarrow> add_flags \<Rightarrow> ('kr add_state, unit) cmd" where
  "addMultisig x kx f =
     sbind (liftR (wrap ''failed to validate multisig threshold: '' (validateMultisigThreshold (af_threshold f) (int (length (af_multisig f)))))) (\<lambda>_.
     sbind (\<lambda>st. (multisigKeys x kx (ad_kr st) (af_multisig f), st)) (\<lambda>pks.
     let pks = (if af_noSort f then pks else sort_key (kx_Address kx) pks); pk = kx_NewLegacyAminoPubKey kx (af_threshold f) pks in
     wrapS ''failed to save multisig: '' (on_kr (kx_SaveMultisig kx (af_name f) pk))))"

definition overrideKey :: "('kr, 'sk, 'sc, 'fv, 'sg, 'pk) eots_ext \<Rightarrow> 'kr keys_ext \<Rightarrow> string \<Rightarrow> ('kr add_state, unit) cmd" where
  "overrideKey x kx name st =
     (case keyOf x kx (ad_kr st) name of
        Crash c \<Rightarrow> (Crash c, st)
      | Err _ \<Rightarrow> (Ok (), st)
      | Ok _ \<Rightarrow>
          sbind (wrapS ''failed to get confirmation: '' GetString) (\<lambda>response.
          if \<not> kx_isYes kx response then liftR (Err (ErrText ''aborted''))
          else wrapS ''failed to delete key: '' (on_kr (kx_Delete kx name))) st)"

definition getMnemonic :: "'kr keys_ext \<Rightarrow> add_flags \<Rightarrow> ('kr add_state, string) cmd" where
  "getMnemonic kx f =
     sbind (if af_recover f \<or> af_interactive f
            then if af_mnemonicSrc f \<noteq> []
                 then liftR (wrap ''failed to read mnemonic from file: '' (readMnemonicFromFile kx (af_mnemonicSrc f)))
                 else wrapS ''failed to get string: '' GetString
            else liftR (Ok [])) (\<lambda>mnemonic.
     if af_recover f \<and> \<not> kx_IsMnemonicValid kx mnemonic \<or> \<not> af_recover f \<and> af_interactive f \<and> \<not> kx_IsMnemonicValid kx mnemonic \<and> mnemonic \<noteq> []
     then liftR (Err (ErrText ''invalid mnemonic''))
     else if length mnemonic = 0
     then liftR (rbind (wrap ''failed to new entropy: '' (kx_NewEntropy kx)) (\<lambda>entropySeed.
            wrap ''failed to new mnemonic: '' (kx_NewMnemonic kx entropySeed)))
     else liftR (Ok mnemonic))"

definition getPassphrase :: "add_flags \<Rightarrow> ('kr add_state, string) cmd" where
  "getPassphrase f =
     (if af_interactive f
      then sbind (wrapS ''failed to get string: '' GetString) (\<lambda>bip39Passphrase.
        if length bip39Passphrase \<noteq> 0
        then sbind (wrapS ''failed to get string: '' GetString) (\<lambda>p2.
          if bip39Passphrase \<noteq> p2 then liftR (Err (ErrText (''passphrases don'' @ [CHR 0x27] @ ''t match''))) else liftR (Ok bip39Passphrase))
        else liftR (Ok bip39Passphrase))
      else liftR (Ok []))"

text \<open>The rest of the command. The result is what it leaves in the context for the output: the mnemonic and whether to show it. A ledger is
  always refused, so that the code behind the second test of the flag is not reached.\<close>

definition addKey :: "'kr keys_ext \<Rightarrow> string \<Rightarrow> add_flags \<Rightarrow> ('kr add_state, (string \<times> bool) option) cmd" where
  "addKey kx algo f =
     (if af_pubKey f \<noteq> [] \<and> af_pubKeyBase64 f \<noteq> []
      then liftR (Err (ErrText ''flags pubkey and pubkey-base64 cannot be used simultaneously''))
      else if af_pubKey f \<noteq> []
      then sbind (liftR (wrap ''failed to unmarshal pubkey: '' (kx_UnmarshalInterfaceJSON kx (af_pubKey f)))) (\<lambda>pk.
           sbind (wrapS ''failed to save offline key: '' (on_kr (kx_SaveOfflineKey kx (af_name f) pk))) (\<lambda>_. liftR (Ok None)))
      else if af_pubKeyBase64 f \<noteq> []
      then sbind (liftR (wrap ''failed to decode pubkey base64: '' (kx_DecodeBase64 kx (af_pubKeyBase64 f)))) (\<lambda>b64.
           sbind (liftR (kx_jsonPub kx algo b64)) (\<lambda>jsonPub.
           sbind (liftR (wrap ''failed to unmarshal interface json: '' (kx_UnmarshalInterfaceJSON kx jsonPub))) (\<lambda>pk.
           sbind (wrapS ''failed to save offline key: '' (on_kr (kx_SaveOfflineKey kx (af_name f) pk))) (\<lambda>_. liftR (Ok None)))))
      else if af_useLedger f then liftR (Err (ErrText ''cannot set custom bip32 path with ledger''))
      else
        sbind (getMnemonic kx f) (\<lambda>mnemonic.
        sbind (getPassphrase f) (\<lambda>bip39Passphrase.
        sbind (wrapS ''failed to create new account: '' (on_kr (kx_NewAccount kx (af_name f) mnemonic bip39Passphrase (af_hdPath f) algo))) (\<lambda>_.
        liftR (Ok (if af_recover f then Some ([], False) else Some (mnemonic, \<not> af_noBackup f)))))))"

text \<open>A dry run works on a keyring in memory, which is forgotten.\<close>

definition runAddCmd ::
  "('kr, 'sk, 'sc, 'fv, 'sg, 'pk) eots_ext \<Rightarrow> 'kr keys_ext \<Rightarrow> add_flags \<Rightarrow> ('kr add_state, (string \<times> bool) option) cmd" where
  "runAddCmd x kx f =
     sbind (\<lambda>st. (wrap ''failed to get signing algo: '' (kx_Algo kx (af_keyType f) (ad_kr st)), st)) (\<lambda>algo.
     if af_dryRun f
     then (\<lambda>st. case addKey kx algo f (st\<lparr>ad_kr := kx_NewInMemory kx\<rparr>) of (r, st') \<Rightarrow> (r, st'\<lparr>ad_kr := ad_kr st\<rparr>))
     else
       sbind (overrideKey x kx (af_name f)) (\<lambda>_.
       if length (af_multisig f) \<noteq> 0 then sbind (addMultisig x kx f) (\<lambda>_. liftR (Ok None))
       else addKey kx algo f))"

section \<open>Printing a key\<close>

text \<open>The fields of the SDK's key output; \<open>px_Mk\<close> makes it from a record, \<open>px_yaml\<close> and \<open>px_json\<close> are the encodings. \<open>pr_out\<close> and \<open>pr_err\<close> are what
  is written to the two outputs.\<close>

record KeyOutput =
  ko_Name :: string
  ko_Type :: string
  ko_Address :: string
  ko_PubKey :: string
  ko_Mnemonic :: string

record KeyOutputWithPubKeyHex =
  kh_KeyOutput :: KeyOutput
  kh_PubKeyHex :: string

record print_ext =
  px_Mk :: "keyring_record \<Rightarrow> KeyOutput go"
  px_yaml :: "KeyOutputWithPubKeyHex list \<Rightarrow> string go"
  px_json :: "KeyOutputWithPubKeyHex \<Rightarrow> string go"
  px_hex :: "bytes \<Rightarrow> string"

record printed =
  pr_out :: string
  pr_err :: string

definition newKeyOutputWithPubKeyHex :: "KeyOutput \<Rightarrow> string \<Rightarrow> KeyOutputWithPubKeyHex" where
  "newKeyOutputWithPubKeyHex k eotsPk = \<lparr>kh_KeyOutput = k, kh_PubKeyHex = eotsPk\<rparr>"

definition printTextRecords :: "print_ext \<Rightarrow> KeyOutputWithPubKeyHex list \<Rightarrow> string go" where
  "printTextRecords px kos = rbind (wrap ''failed to marshal keys: '' (px_yaml px kos)) (\<lambda>out. Ok (out @ [CHR 0x0A]))"

definition printKeyringRecord :: "print_ext \<Rightarrow> KeyOutputWithPubKeyHex \<Rightarrow> string \<Rightarrow> string go" where
  "printKeyringRecord px ko output =
     (if output = ''text'' then printTextRecords px [ko]
      else if output = ''json'' then rbind (wrap ''failed to marshal keys: '' (px_json px ko)) (\<lambda>out. Ok (out @ [CHR 0x0A]))
      else Ok [])"

definition printCreatePubKeyHex :: "print_ext \<Rightarrow> keyring_record \<Rightarrow> bytes \<Rightarrow> bool \<Rightarrow> string \<Rightarrow> string \<Rightarrow> printed go" where
  "printCreatePubKeyHex px k eotsPk showMnemonic mnemonic outputFormat =
     rbind (wrap ''failed to marshal keys: '' (px_Mk px k)) (\<lambda>out.
     let keyOutput = newKeyOutputWithPubKeyHex out (px_hex px eotsPk) in
     if outputFormat = ''text''
     then rbind (printKeyringRecord px keyOutput outputFormat) (\<lambda>text.
       Ok \<lparr>pr_out = text, pr_err = [CHR 0x0A] @ (if showMnemonic
         then [CHR 0x0A] @ ''**Important** write this mnemonic phrase in a safe place.'' @ [CHR 0x0A] @
           ''It is the only way to recover your account if you ever forget your password.'' @ [CHR 0x0A, CHR 0x0A] @ mnemonic @ [CHR 0x0A]
         else [])\<rparr>)
     else if outputFormat = ''json''
     then let keyOutput = (if showMnemonic then keyOutput\<lparr>kh_KeyOutput := (kh_KeyOutput keyOutput)\<lparr>ko_Mnemonic := mnemonic\<rparr>\<rparr> else keyOutput) in
       rbind (wrap ''failed to marshal keys: '' (px_json px keyOutput)) (\<lambda>jsonString. Ok \<lparr>pr_out = jsonString @ [CHR 0x0A], pr_err = []\<rparr>)
     else Err (ErrText (''invalid output format '' @ outputFormat)))"

text \<open>\<open>ctx\<close> are the values the add command left in the context.\<close>

definition printFromKey ::
  "('kr, 'sk, 'sc, 'fv, 'sg, 'pk) eots_ext \<Rightarrow> 'kr keys_ext \<Rightarrow> print_ext \<Rightarrow> (string \<times> bool) option \<Rightarrow> string \<Rightarrow> 'kr \<Rightarrow> string \<Rightarrow> bytes \<Rightarrow> printed go" where
  "printFromKey x kx px ctx outputFormat kr keyName eotsPk =
     rbind (wrap (''failed to get public get key '' @ keyName @ '': '') (keyOf x kx kr keyName)) (\<lambda>k.
     case ctx of
       None \<Rightarrow> printCreatePubKeyHex px k eotsPk False [] outputFormat
     | Some (mnemonic, showMnemonic) \<Rightarrow> printCreatePubKeyHex px k eotsPk showMnemonic mnemonic outputFormat)"

section \<open>The commands\<close>

text \<open>\<open>save\<close> is the recording of the name with its arguments from the configuration, as a function of the keyring it reads.\<close>

definition addCommand ::
  "('kr, 'sk, 'sc, 'fv, 'sg, 'pk) eots_ext \<Rightarrow> 'kr keys_ext \<Rightarrow> print_ext \<Rightarrow> ('kr \<Rightarrow> string \<Rightarrow> ('d, bytes) cmd) \<Rightarrow> string \<Rightarrow> add_flags \<Rightarrow>
     ('kr add_state \<times> 'd, printed) cmd" where
  "addCommand x kx px save outputFormat f =
     sbind (\<lambda>(st, d). case wrapS ''failed to run add cmd prepare: '' (runAddCmd x kx f) st of (r, st) \<Rightarrow> (r, (st, d))) (\<lambda>ctx.
     sbind (\<lambda>(st, d). case wrapS ''failed to save key name mapping: '' (save (ad_kr st) (af_name f)) d of (r, d) \<Rightarrow> (r, (st, d))) (\<lambda>eotsPk.
     \<lambda>(st, d). (wrap (''failed to print key '' @ af_name f @ '': '') (printFromKey x kx px ctx outputFormat (ad_kr st) (af_name f) eotsPk), (st, d))))"

definition showCommand ::
  "('kr, 'sk, 'sc, 'fv, 'sg, 'pk) eots_ext \<Rightarrow> 'kr keys_ext \<Rightarrow> print_ext \<Rightarrow> string \<Rightarrow> 'kr \<Rightarrow> string \<Rightarrow> printed go" where
  "showCommand x kx px outputFormat kr name =
     (case fst (LoadBIP340PubKeyFromKeyName x name (\<lparr>lm_kr = kr, lm_es = \<lparr>kv_open = False, kv_buckets = Map.empty\<rparr>, lm_input = kx_input kx,
         lm_privateKeys = Map.empty\<rparr> :: ('kr, 'sk) LocalEOTSManager)) of
        Err e \<Rightarrow> Err (ErrText (''failed to load eots pk from db by key name '' @ name))
      | Crash c \<Rightarrow> Crash c
      | Ok eotsPk \<Rightarrow> printFromKey x kx px None outputFormat kr name eotsPk)"

definition getAllEOTSKeys ::
  "os_env \<Rightarrow> config_ext \<Rightarrow> (string \<Rightarrow> EotsConfig go) \<Rightarrow> (BoltBackendConfig \<Rightarrow> kvdb go) \<Rightarrow> (bytes \<Rightarrow> bytes \<Rightarrow> 'kr go) \<Rightarrow> (nat \<Rightarrow> dbfault) \<Rightarrow> string \<Rightarrow> filesystem \<Rightarrow>
     (bytes \<rightharpoonup> bytes) go" where
  "getAllEOTSKeys os cx parse bolt keyringNew flt home fs =
     rbind (wrap ''failed to get home path: '' (getCleanPath (os_UserHome os) (os_Getenv os) (os_Getwd os) home)) (\<lambda>homePath.
     rbind (wrap ''failed to load config: ''
       (eots_LoadConfig (cx_ResolveTCPAddr cx) (cx_ParseIP cx) (FileExists os fs) (\<lambda>p. rbind (readFile fs p) parse) homePath)) (\<lambda>cfg.
     rbind (wrap ''failed to load the logger: '' (fst (NewRootLoggerWithFile os (eots_LogFile homePath) (ec_LogLevel cfg) fs))) (\<lambda>_.
     rbind (wrap ''failed to create db backend: '' (GetDBBackend bolt (ec_DatabaseConfig cfg))) (\<lambda>dbBackend.
     rbind (wrap ''failed to create EOTS manager: '' (NewLocalEOTSManager keyringNew (flt 0) homePath (ec_KeyringBackend cfg) dbBackend)) (\<lambda>eotsManager.
     wrap ''failed to get keys from db: '' (fst (ListEOTSKeys (flt 1) (eotsManager :: ('kr, bytes) LocalEOTSManager))))))))"

text \<open>Go enumerates a map in an unspecified order: \<open>order\<close> lists the entries of the map. The map of the keyring's records is built and not read.\<close>

fun keyInfos :: "('kr, 'sk, 'sc, 'fv, 'sg, 'pk) eots_ext \<Rightarrow> print_ext \<Rightarrow> (bytes \<times> bytes) list \<Rightarrow> (string \<times> string) list go" where
  "keyInfos x px [] = Ok []"
| "keyInfos x px ((keyName, key) # es) =
     rbind (wrap ''failed to parse public key: '' (ParsePubKey x key)) (\<lambda>pk.
     rbind (keyInfos x px es) (\<lambda>keys. Ok ((keyName, px_hex px (NewBIP340PubKeyFromBTCPK x pk)) # keys)))"

definition runCommandPrintAllKeys ::
  "('kr, 'sk, 'sc, 'fv, 'sg, 'pk) eots_ext \<Rightarrow> print_ext \<Rightarrow> os_env \<Rightarrow> config_ext \<Rightarrow> (string \<Rightarrow> EotsConfig go) \<Rightarrow> (BoltBackendConfig \<Rightarrow> kvdb go) \<Rightarrow>
     (bytes \<Rightarrow> bytes \<Rightarrow> 'kr go) \<Rightarrow> ('kr \<Rightarrow> unit go) \<Rightarrow> (nat \<Rightarrow> dbfault) \<Rightarrow> ((bytes \<rightharpoonup> bytes) \<Rightarrow> (bytes \<times> bytes) list) \<Rightarrow> string \<Rightarrow> string \<Rightarrow> filesystem \<Rightarrow>
     (string \<times> string) list go" where
  "runCommandPrintAllKeys x px os cx parse bolt keyringNew krList flt order home backend fs =
     rbind (wrap ''failed to get public key: '' (getCleanPath (os_UserHome os) (os_Getenv os) (os_Getwd os) home)) (\<lambda>homePath.
     rbind (wrap ''failed to init keyring: '' (InitKeyring keyringNew homePath backend)) (\<lambda>kr.
     rbind (wrap ''failed to get keys from db: '' (getAllEOTSKeys os cx parse bolt keyringNew flt home fs)) (\<lambda>eotsKeys.
     rbind (wrap ''failed to list keys: '' (krList kr)) (\<lambda>_.
     keyInfos x px (order eotsKeys)))))"

section \<open>What the add command does to the keyring\<close>

lemma on_kr_eq: "on_kr m st = (r, st') \<longleftrightarrow> (\<exists>kr. m (ad_kr st) = (r, kr) \<and> st' = st\<lparr>ad_kr := kr\<rparr>)"
  by (auto simp: on_kr_def split: prod.splits)

lemma GetString_kr: "GetString st = (r, st') \<Longrightarrow> ad_kr st' = ad_kr st"
  by (auto simp: GetString_def split: list.splits)

lemma getMnemonic_kr: "getMnemonic kx f st = (r, st') \<Longrightarrow> ad_kr st' = ad_kr st"
  by (auto simp: getMnemonic_def wrapS_eq liftR_eq elim!: sbindE split: if_splits dest!: GetString_kr)

lemma getPassphrase_kr: "getPassphrase f st = (r, st') \<Longrightarrow> ad_kr st' = ad_kr st"
  by (auto simp: getPassphrase_def wrapS_eq liftR_eq elim!: sbindE split: if_splits dest!: GetString_kr)

text \<open>The errors of a write to the keyring; every other error of the command comes from a check before it.\<close>

definition writeError :: "goerror \<Rightarrow> bool" where
  "writeError e \<longleftrightarrow>
     (\<exists>p e'. p \<in> {''failed to save multisig: '', ''failed to save offline key: '', ''failed to create new account: ''} \<and> e = Wrapf p e')"

lemma sbind_eq_Err: "sbind m k s = (Err e, s') \<longleftrightarrow> m s = (Err e, s') \<or> (\<exists>a t. m s = (Ok a, t) \<and> k a t = (Err e, s'))"
  by (cases "m s"; cases "fst (m s)") (auto simp: sbind_def)

lemma wrapS_eq_Err: "wrapS p m s = (Err e, s') \<longleftrightarrow> (\<exists>e'. m s = (Err e', s') \<and> e = Wrapf p e')"
  by (cases "m s"; cases "fst (m s)") (auto simp: wrapS_def)

lemmas error_paths = sbind_eq_Err wrapS_eq_Err liftR_eq on_kr_eq

lemma addKey_Err:
  assumes "addKey kx algo f st = (Err e, st')" and "\<not> writeError e"
  shows "ad_kr st' = ad_kr st"
proof -
  from assms(2) have w: "e \<noteq> Wrapf ''failed to save offline key: '' e'" "e \<noteq> Wrapf ''failed to create new account: '' e'" for e'
    by (auto simp: writeError_def)
  from assms(1) w show ?thesis
    unfolding addKey_def by (auto simp: error_paths split: if_splits dest!: getMnemonic_kr getPassphrase_kr)
qed

lemma addMultisig_Err:
  assumes "addMultisig x kx f st = (Err e, st')" and "\<not> writeError e"
  shows "ad_kr st' = ad_kr st"
proof -
  from assms(2) have "e \<noteq> Wrapf ''failed to save multisig: '' e'" for e' by (auto simp: writeError_def)
  with assms(1) show ?thesis unfolding addMultisig_def Let_def by (auto simp: error_paths)
qed

text \<open>C35. Confirming to override a key gives it up before the new one exists: when the deletion has succeeded and \<^verbatim>\<open>runAddCmd\<close> fails in a check that
  comes after it, because of a wrong threshold, mnemonic, public key, passphrases that differ or a ledger, the keyring is left without
  any key of that name. Only a failure of the write of the new key itself, of which nothing is assumed, is excepted.\<close>

theorem add_failure_loses_key:
  assumes del: "\<And>n kr kr'. kx_Delete kx n kr = (Ok (), kr') \<Longrightarrow> \<forall>k. keyOf x kx kr' n \<noteq> Ok k"
    and "\<not> af_dryRun f" and "kx_Algo kx (af_keyType f) (ad_kr st) = Ok algo" and "keyOf x kx (ad_kr st) (af_name f) = Ok old"
    and "ad_in st = Ok response # rest" and "kx_isYes kx response" and d: "kx_Delete kx (af_name f) (ad_kr st) = (Ok (), kr)"
    and run: "runAddCmd x kx f st = (Err e, st')" and e: "\<not> writeError e"
  shows "ad_kr st' = kr \<and> (\<forall>k. keyOf x kx (ad_kr st') (af_name f) \<noteq> Ok k)"
proof -
  have "overrideKey x kx (af_name f) st = (Ok (), st\<lparr>ad_in := rest, ad_kr := kr\<rparr>)"
    using assms(4-6) d by (simp add: overrideKey_def sbind_def wrapS_def GetString_def on_kr_def)
  with run assms(2,3) consider "addMultisig x kx f (st\<lparr>ad_in := rest, ad_kr := kr\<rparr>) = (Err e, st')"
    | "addKey kx algo f (st\<lparr>ad_in := rest, ad_kr := kr\<rparr>) = (Err e, st')"
    by (auto simp: runAddCmd_def error_paths split: if_splits)
  then have "ad_kr st' = kr" using addKey_Err [OF _ e] addMultisig_Err [OF _ e] by cases force+
  with del [OF d] show ?thesis by blast
qed

text \<open>A dry run of adding a new key never succeeds: the key goes to a keyring in memory, and the recording of its name then looks it up in
  the real one, where it is not. The keyring is left as it was.\<close>

theorem dry_run_never_succeeds:
  fixes x :: "('kr, 'sk, 'sc, 'fv, 'sg, 'pk) eots_ext"
  assumes "af_dryRun f" and "\<And>k. keyOf x kx (ad_kr st) (af_name f) \<noteq> Ok k"
    and run: "addCommand x kx px (\<lambda>kr. saveKeyNameMapping x w keyringNew flt cfg dial dbBackend call rpcListener home kr (kx_input kx)) outputFormat f (st, d) =
      (r, (st', d'))"
  shows "(\<forall>out. r \<noteq> Ok out) \<and> ad_kr st' = ad_kr st"
proof -
  have kr: "ad_kr st1 = ad_kr st" if "runAddCmd x kx f st = (q, st1)" for q st1
    using that assms(1) by (auto simp: runAddCmd_def elim!: sbindE split: prod.splits)
  have key: "ctxKey x (ad_kr st) (kx_input kx) (af_name f) \<noteq> Ok pk" for pk
    using assms(2) by (auto simp: ctxKey_def LoadBIP340PubKeyFromKeyName_def loadBIP340PubKey_def krKey_def keyOf_def sbind_def wrapS_def go_simps wrap_eq_Ok
        split: prod.splits go.splits)
  have save: "saveKeyNameMapping x w keyringNew flt cfg dial dbBackend call rpcListener home (ad_kr st) (kx_input kx) (af_name f) d0 \<noteq> (Ok pk, d1)" for d0 d1 pk
    using key by (auto simp: saveKeyNameMapping_def saveRemote_def saveLocal_def saveInManager_def liftR_eq elim!: sbindE
        split: if_splits prod.splits go.splits)
  from run show ?thesis
    by (auto simp: addCommand_def wrapS_eq go_simps elim!: sbindE split: prod.splits dest!: kr simp: save)
qed

section \<open>A keyring as a map\<close>

definition demo_kext :: "(string \<rightharpoonup> keyring_record, bytes, bytes, bytes, bytes, bytes) eots_ext" where
  "demo_kext = \<lparr>u64be = be64, beu64 = be64_inv, marshalSR = plain_marshal, unmarshalSR = plain_unmarshal, kr_Backend = (\<lambda>kr. BackendTest),
     kr_Key = (\<lambda>name input kr. (case kr name of None \<Rightarrow> Err (ErrText ''key not found'') | Some k \<Rightarrow> Ok k, input, kr)),
     kr_SigningAlgo = (\<lambda>kr. Ok ()), kr_NewAccount = (\<lambda>name mn input kr. (Ok (), input, kr)),
     ParsePubKey = Ok, SerializePubKey = (\<lambda>p. p), NewBIP340PubKeyFromBTCPK = (\<lambda>p. p), ToBTCPK = Ok, BIP340Marshal = Ok, PrivKeyFromBytes = (\<lambda>b. b),
     PubKey = (\<lambda>k. k), sk_Serialize = (\<lambda>k. k), hmac_sha256 = (\<lambda>k m. k @ m), SetByteSlice = (\<lambda>b. (b, False)), IsZero = (\<lambda>b. b = []),
     sc_Bytes = (\<lambda>b. b), rand_point_X = (\<lambda>b. b), eots_Sign = (\<lambda>k r m. Ok (k @ r @ m)), schnorr_Sign = (\<lambda>k m. Ok (k @ m))\<rparr>"

definition demo_rec :: "bytes \<Rightarrow> keyring_record" where
  "demo_rec b = \<lparr>rec_Local = Some (Secp256k1Key b), rec_PubKey = Ok (Secp256k1Key b)\<rparr>"

definition demo_kx :: "(string \<rightharpoonup> keyring_record) keys_ext" where
  "demo_kx = \<lparr>kx_Algo = (\<lambda>t _. Ok t), kx_NewInMemory = Map.empty, kx_Delete = (\<lambda>n kr. (Ok (), kr(n := None))), kx_Address = (\<lambda>_. []),
     kx_NewLegacyAminoPubKey = (\<lambda>_ _. OtherKey), kx_SaveMultisig = (\<lambda>n _ kr. (Ok (), kr(n \<mapsto> demo_rec ''m''))),
     kx_UnmarshalInterfaceJSON = (\<lambda>s. Ok (Secp256k1Key s)), kx_DecodeBase64 = Ok, kx_jsonPub = (\<lambda>_. Ok),
     kx_SaveOfflineKey = (\<lambda>n _ kr. (Ok (), kr(n \<mapsto> demo_rec ''o''))), kx_IsMnemonicValid = (\<lambda>m. m = ''zoo''), kx_NewEntropy = Ok ''seed'',
     kx_NewMnemonic = (\<lambda>_. Ok ''zoo''), kx_NewAccount = (\<lambda>n m p h a kr. (Ok (), kr(n \<mapsto> demo_rec m))), kx_isYes = (\<lambda>s. s = ''y''),
     kx_open = (\<lambda>_. Ok ()), kx_readAll = (\<lambda>_. Ok ''zoo''), kx_input = []\<rparr>"

definition demo_af :: add_flags where
  "demo_af = \<lparr>af_name = ''fp'', af_interactive = False, af_noBackup = False, af_keyType = ''secp256k1'', af_dryRun = False, af_multisig = [], af_threshold = 1,
     af_noSort = False, af_pubKey = [], af_pubKeyBase64 = [], af_hdPath = [], af_useLedger = False, af_recover = True, af_mnemonicSrc = []\<rparr>"

theorem add_failure_loses_key_witness:
  "\<exists>e st'. runAddCmd demo_kext demo_kx demo_af \<lparr>ad_kr = [''fp'' \<mapsto> demo_rec ''k''], ad_in = [Ok ''y'', Ok ''wrong'']\<rparr> = (Err e, st') \<and> ad_kr st' = Map.empty"
proof -
  let ?st = "\<lparr>ad_kr = [''fp'' \<mapsto> demo_rec ''k''], ad_in = [Ok ''y'', Ok ''wrong'']\<rparr>"
  have del: "\<forall>k. keyOf demo_kext demo_kx kr' n \<noteq> Ok k" if "kx_Delete demo_kx n kr = (Ok (), kr')" for n kr kr'
    using that by (auto simp: demo_kx_def keyOf_def demo_kext_def)
  have "\<exists>e st'. runAddCmd demo_kext demo_kx demo_af ?st = (Err e, st') \<and> \<not> writeError e"
    by (simp add: writeError_def runAddCmd_def sbind_def overrideKey_def keyOf_def GetString_def wrapS_def liftR_def on_kr_def addKey_def getMnemonic_def demo_kext_def demo_kx_def
        demo_af_def)
  then obtain e st' where run: "runAddCmd demo_kext demo_kx demo_af ?st = (Err e, st')" and e: "\<not> writeError e" by blast
  have "\<not> af_dryRun demo_af" "kx_Algo demo_kx (af_keyType demo_af) (ad_kr ?st) = Ok ''secp256k1''" "keyOf demo_kext demo_kx (ad_kr ?st) (af_name demo_af) = Ok (demo_rec ''k'')"
    "ad_in ?st = Ok ''y'' # [Ok ''wrong'']" "kx_isYes demo_kx ''y''" "kx_Delete demo_kx (af_name demo_af) (ad_kr ?st) = (Ok (), Map.empty)"
    by (simp_all add: demo_af_def demo_kx_def keyOf_def demo_kext_def)
  from add_failure_loses_key [OF del this run e] run show ?thesis by auto
qed

theorem dry_run_never_succeeds_witness:
  "\<exists>r st' d'. addCommand demo_kext demo_kx \<lparr>px_Mk = (\<lambda>_. Err (ErrText [])), px_yaml = (\<lambda>_. Ok []), px_json = (\<lambda>_. Ok []), px_hex = (\<lambda>b. b)\<rparr>
       (\<lambda>kr. saveKeyNameMapping demo_kext demo_rpc (\<lambda>_ _. Ok Map.empty) (\<lambda>_. NoFault) (Ok ()) (Ok ()) (Ok ()) (\<lambda>_ s. (Ok (), s :: unit)) [] ''home'' kr (kx_input demo_kx))
       ''text'' (demo_af\<lparr>af_dryRun := True\<rparr>) (\<lparr>ad_kr = Map.empty, ad_in = []\<rparr>, (lm_es demo_lm, ())) = (r, (st', d')) \<and> (\<forall>out. r \<noteq> Ok out) \<and> ad_kr st' = Map.empty"
proof -
  let ?run = "addCommand demo_kext demo_kx \<lparr>px_Mk = (\<lambda>_. Err (ErrText [])), px_yaml = (\<lambda>_. Ok []), px_json = (\<lambda>_. Ok []), px_hex = (\<lambda>b. b)\<rparr>
       (\<lambda>kr. saveKeyNameMapping demo_kext demo_rpc (\<lambda>_ _. Ok Map.empty) (\<lambda>_. NoFault) (Ok ()) (Ok ()) (Ok ()) (\<lambda>_ s. (Ok (), s :: unit)) [] ''home'' kr (kx_input demo_kx))
       ''text'' (demo_af\<lparr>af_dryRun := True\<rparr>) (\<lparr>ad_kr = Map.empty, ad_in = []\<rparr>, (lm_es demo_lm, ()))"
  obtain r st' d' where run: "?run = (r, (st', d'))" by (metis surj_pair)
  have "keyOf demo_kext demo_kx (ad_kr \<lparr>ad_kr = Map.empty, ad_in = []\<rparr>) (af_name (demo_af\<lparr>af_dryRun := True\<rparr>)) \<noteq> Ok k" for k
    by (simp add: keyOf_def demo_kext_def)
  from dry_run_never_succeeds [OF _ this run] run show ?thesis by (intro exI [of _ r] exI [of _ st'] exI [of _ d']) simp
qed

end
