(* ===== verification/Client_Ctx.thy ===== *)
theory Client_Ctx
  imports FP_Config
begin

text \<open>
  What happens before a command runs (\<^verbatim>\<open>cmd/fpd/main.go\<close>, \<^verbatim>\<open>cmd/fpd/clientctx/cmd.go\<close>, \<^verbatim>\<open>cmd/eotsd/main.go\<close>, \<^verbatim>\<open>eotsd/daemon/utils.go\<close>): the context of the
  command, which a signal to the process ends, and the client context, filled from flags and configuration.
\<close>

section \<open>Contexts\<close>

text \<open>A context of Go: the background context, which never ends, the one of \<^verbatim>\<open>signal.NotifyContext\<close>, which an interrupt ends, and a context with
  a value, which ends with its parent. Waiting for the end of a context that never ends blocks for ever.\<close>

datatype go_ctx = Background | NotifyContext | WithValue go_ctx string

fun ctxRoot :: "go_ctx \<Rightarrow> go_ctx" where
  "ctxRoot (WithValue c k) = ctxRoot c"
| "ctxRoot c = c"

definition awaitDone :: "go_ctx \<Rightarrow> unit go" where
  "awaitDone ctx = (if ctxRoot ctx = NotifyContext then Ok () else Crash ''blocks for ever'')"

text \<open>The fields of the client context that are set here. \<open>sk_Keyring\<close> is the directory and the backend a keyring was opened with.\<close>

record sdk_context =
  sk_From :: string
  sk_ChainID :: string
  sk_Keyring :: "(string \<times> string) option"
  sk_KeyringDir :: string
  sk_OutputFormat :: string
  sk_SignModeStr :: string
  sk_HomeDir :: string
  sk_CmdContext :: "go_ctx option"

definition emptyContext :: sdk_context where
  "emptyContext = \<lparr>sk_From = [], sk_ChainID = [], sk_Keyring = None, sk_KeyringDir = [], sk_OutputFormat = [], sk_SignModeStr = [], sk_HomeDir = [], sk_CmdContext = None\<rparr>"

text \<open>The SDK: reading the persistent flags into the context, storing the context in the command (the new context of the command, from the client
  context and the command's context), opening a keyring; and which flags the user set.\<close>

record sdk_cmd =
  sd_ReadPersistentCommandFlags :: "sdk_context \<Rightarrow> sdk_context go"
  sd_SetCmdClientContext :: "sdk_context \<Rightarrow> go_ctx \<Rightarrow> go_ctx"
  sd_NewKeyringFromBackend :: "sdk_context \<Rightarrow> string \<Rightarrow> (string \<times> string) go"
  sd_Changed :: "string \<Rightarrow> bool"

definition SetCmdClientContextHandler :: "sdk_cmd \<Rightarrow> sdk_context \<Rightarrow> (go_ctx, sdk_context) cmd" where
  "SetCmdClientContextHandler sd clientCtx g =
     (case sd_ReadPersistentCommandFlags sd clientCtx of
        Ok c \<Rightarrow> (Ok c, sd_SetCmdClientContext sd c g)
      | Err e \<Rightarrow> (Err e, g)
      | Crash c \<Rightarrow> (Crash c, g))"

section \<open>Filling the client context\<close>

definition FillContextFromBabylonConfig :: "sdk_cmd \<Rightarrow> sdk_context \<Rightarrow> BBNConfig \<Rightarrow> sdk_context go" where
  "FillContextFromBabylonConfig sd ctx bbnConf =
     (let ctx = (if sd_Changed sd ''from'' then ctx else ctx\<lparr>sk_From := bn_Key bbnConf\<rparr>);
          ctx = (if sd_Changed sd ''chain-id'' then ctx else ctx\<lparr>sk_ChainID := bn_ChainID bbnConf\<rparr>) in
      rbind (if sd_Changed sd ''keyring-backend'' then Ok ctx
             else rbind (wrap ''failed to create keyring from backend: '' (sd_NewKeyringFromBackend sd ctx (bn_KeyringBackend bbnConf))) (\<lambda>kr.
               Ok (ctx\<lparr>sk_Keyring := Some kr\<rparr>))) (\<lambda>ctx.
      let ctx = (if sd_Changed sd ''keyring-dir'' then ctx else ctx\<lparr>sk_KeyringDir := bn_KeyDirectory bbnConf\<rparr>);
          ctx = (if sd_Changed sd ''output'' then ctx else ctx\<lparr>sk_OutputFormat := bn_OutputFormat bbnConf\<rparr>);
          ctx = (if sd_Changed sd ''sign-mode'' then ctx else ctx\<lparr>sk_SignModeStr := bn_SignModeStr bbnConf\<rparr>) in
      Ok ctx))"

section \<open>Before a command\<close>

text \<open>The command's context is the state. Every failure to load the configuration counts as a missing file.\<close>

definition PersistClientCtx :: "sdk_cmd \<Rightarrow> (string \<Rightarrow> FpConfig go) \<Rightarrow> (go_ctx, unit) cmd" where
  "PersistClientCtx sd load _ =
     sbind (wrapS ''failed to set cmd client context handler: '' (SetCmdClientContextHandler sd emptyContext)) (\<lambda>ctx.
     case load (sk_HomeDir ctx) of
       Crash c \<Rightarrow> liftR (Crash c)
     | Err _ \<Rightarrow> liftR (Ok ())
     | Ok cfg \<Rightarrow>
         sbind (liftR (rbind (deref (cf_BabylonConfig cfg)) (FillContextFromBabylonConfig sd ctx))) (\<lambda>ctx g.
         (Ok (), sd_SetCmdClientContext sd ctx g))) Background"

definition eots_PersistClientCtx :: "sdk_cmd \<Rightarrow> (go_ctx, unit) cmd" where
  "eots_PersistClientCtx sd g =
     sbind (SetCmdClientContextHandler sd (emptyContext\<lparr>sk_CmdContext := Some g\<rparr>)) (\<lambda>_. liftR (Ok ())) g"

text \<open>The two programs: the context of signals, the preparation, then the daemon's command (\<^verbatim>\<open>start\<close>), which waits for the end of its context.\<close>

definition fpd_main :: "sdk_cmd \<Rightarrow> (string \<Rightarrow> FpConfig go) \<Rightarrow> unit go" where
  "fpd_main sd load = (case PersistClientCtx sd load NotifyContext of (r, g) \<Rightarrow> rbind r (\<lambda>_. awaitDone g))"

definition eotsd_main :: "sdk_cmd \<Rightarrow> unit go" where
  "eotsd_main sd = (case eots_PersistClientCtx sd NotifyContext of (r, g) \<Rightarrow> rbind r (\<lambda>_. awaitDone g))"

section \<open>Properties\<close>

text \<open>What the SDK promises: the context a command gets is the one named in the client context, if that has no value yet, with a value; without one it is the command's own
  or the background context, with a value. Reading flags does not touch it. A keyring is opened in the context's keyring directory.\<close>

definition sdk_contract :: "sdk_cmd \<Rightarrow> bool" where
  "sdk_contract sd \<longleftrightarrow>
     (\<forall>c g. case sk_CmdContext c of Some h \<Rightarrow> ctxRoot h = h \<longrightarrow> ctxRoot (sd_SetCmdClientContext sd c g) = h | None \<Rightarrow> ctxRoot (sd_SetCmdClientContext sd c g) \<in> {ctxRoot g, Background}) \<and>
     (\<forall>c c'. sd_ReadPersistentCommandFlags sd c = Ok c' \<longrightarrow> sk_CmdContext c' = sk_CmdContext c) \<and>
     (\<forall>c b d. sd_NewKeyringFromBackend sd c b = Ok d \<longrightarrow> d = (sk_KeyringDir c, b))"

lemma FillContext_CmdContext: "FillContextFromBabylonConfig sd ctx b = Ok ctx' \<Longrightarrow> sk_CmdContext ctx' = sk_CmdContext ctx"
  by (auto simp: FillContextFromBabylonConfig_def Let_def go_simps split: if_splits)

text \<open>C28. An interrupt ends eotsd but not fpd: the preparation of every fpd command replaces the command's context, which a signal ends, by the background
  context, so that a daemon whose preparation succeeded waits for ever, while the signal is caught and no longer ends the process by itself.\<close>

theorem fpd_ignores_signals:
  assumes "sdk_contract sd" and "sd_ReadPersistentCommandFlags sd emptyContext = Ok ctx"
    and "sd_ReadPersistentCommandFlags sd (emptyContext\<lparr>sk_CmdContext := Some NotifyContext\<rparr>) = Ok ctx'"
  shows "(fst (PersistClientCtx sd load NotifyContext) = Ok () \<longrightarrow> fpd_main sd load = Crash ''blocks for ever'') \<and> eotsd_main sd = Ok ()"
proof -
  have c: "sk_CmdContext ctx = None" "sk_CmdContext ctx' = Some NotifyContext"
    using assms unfolding sdk_contract_def by (auto simp: emptyContext_def)
  have bg: "ctxRoot (sd_SetCmdClientContext sd c g) = Background" if "sk_CmdContext c = None" "ctxRoot g = Background" for c g
    using assms(1) [unfolded sdk_contract_def, THEN conjunct1, THEN spec, of c, THEN spec, of g] that by auto
  have sig: "ctxRoot (sd_SetCmdClientContext sd c g) = NotifyContext" if "sk_CmdContext c = Some NotifyContext" for c g
    using assms(1) [unfolded sdk_contract_def, THEN conjunct1, THEN spec, of c, THEN spec, of g] that by simp
  have "ctxRoot g = Background" if "PersistClientCtx sd load NotifyContext = (r, g)" for r g
    using that assms(2) c(1) bg
    by (auto simp: PersistClientCtx_def SetCmdClientContextHandler_def liftR_eq wrapS_def go_simps elim!: sbindE split: go.splits dest!: FillContext_CmdContext)
  then have "fst (PersistClientCtx sd load NotifyContext) = Ok () \<longrightarrow> fpd_main sd load = Crash ''blocks for ever''"
    by (auto simp: fpd_main_def awaitDone_def split: prod.splits)
  moreover have "eotsd_main sd = Ok ()"
    using assms(3) sig [OF c(2)] by (simp add: eotsd_main_def eots_PersistClientCtx_def SetCmdClientContextHandler_def sbind_def liftR_def awaitDone_def)
  ultimately show ?thesis ..
qed

definition demo_sdk :: sdk_cmd where
  "demo_sdk = \<lparr>sd_ReadPersistentCommandFlags = (\<lambda>c. Ok (c\<lparr>sk_HomeDir := ''/srv'', sk_KeyringDir := ''/srv''\<rparr>)),
     sd_SetCmdClientContext = (\<lambda>c g. WithValue (case sk_CmdContext c of Some h \<Rightarrow> h | None \<Rightarrow> g) ''client''),
     sd_NewKeyringFromBackend = (\<lambda>c b. Ok (sk_KeyringDir c, b)), sd_Changed = (\<lambda>_. False)\<rparr>"

lemma demo_sdk_contract: "sdk_contract demo_sdk"
  by (auto simp: sdk_contract_def demo_sdk_def split: option.splits)

theorem fpd_ignores_signals_witness:
  "fpd_main demo_sdk (\<lambda>_. Err (ErrText ''no file'')) = Crash ''blocks for ever'' \<and> eotsd_main demo_sdk = Ok ()"
proof -
  have read: "sd_ReadPersistentCommandFlags demo_sdk c = Ok (c\<lparr>sk_HomeDir := ''/srv'', sk_KeyringDir := ''/srv''\<rparr>)" for c by (simp add: demo_sdk_def)
  have "fst (PersistClientCtx demo_sdk (\<lambda>_. Err (ErrText ''no file'')) NotifyContext) = Ok ()"
    by (simp add: PersistClientCtx_def SetCmdClientContextHandler_def sbind_def liftR_def wrapS_def read)
  with fpd_ignores_signals [OF demo_sdk_contract read read] show ?thesis by blast
qed

text \<open>The keyring is opened before the directory of the configuration is set: unless the user sets one of the two flags, the context names the
  configured directory while its keyring is the one of the directory that was set before.\<close>

lemma keyring_of_old_directory:
  assumes "sdk_contract sd" and nc: "\<not> sd_Changed sd ''keyring-backend''" "\<not> sd_Changed sd ''keyring-dir''"
    and ok: "FillContextFromBabylonConfig sd ctx b = Ok ctx'"
  shows "sk_KeyringDir ctx' = bn_KeyDirectory b \<and> sk_Keyring ctx' = Some (sk_KeyringDir ctx, bn_KeyringBackend b)"
proof -
  define c where "c = (let c = (if sd_Changed sd ''from'' then ctx else ctx\<lparr>sk_From := bn_Key b\<rparr>) in if sd_Changed sd ''chain-id'' then c else c\<lparr>sk_ChainID := bn_ChainID b\<rparr>)"
  have "sk_KeyringDir c = sk_KeyringDir ctx" by (simp add: c_def Let_def)
  moreover have "\<exists>kr. sd_NewKeyringFromBackend sd c (bn_KeyringBackend b) = Ok kr \<and> sk_Keyring ctx' = Some kr \<and> sk_KeyringDir ctx' = bn_KeyDirectory b"
    using ok nc unfolding FillContextFromBabylonConfig_def Let_def c_def by (clarsimp simp: go_simps split del: if_split) simp
  moreover have "\<forall>c b d. sd_NewKeyringFromBackend sd c b = Ok d \<longrightarrow> d = (sk_KeyringDir c, b)"
    using assms(1) by (simp add: sdk_contract_def)
  ultimately show ?thesis by metis
qed

end
