(* ===== verification/FP_Metrics.thy ===== *)
theory FP_Metrics
  imports App_Behaviour
begin

text \<open>
  The metrics of the two daemons (\<^verbatim>\<open>metrics/fp_collectors.go\<close>, \<^verbatim>\<open>metrics/eots_collectors.go\<close>), the loop that updates them
  (\<^verbatim>\<open>service/event_loops.go\<close>) and the build information they show (\<^verbatim>\<open>version/version.go\<close>, \<^verbatim>\<open>version/cmd.go\<close>). A vector of gauges or counters is a map from
  label values to the value; the registry of the Prometheus library is the list of the names registered. A gauge of heights holds a float,
  whose rounding is written out; a gauge of seconds holds the duration in nanoseconds it was computed from.
\<close>

section \<open>Build information\<close>

text \<open>\<open>info\<close> is the answer of the runtime: the settings of the build, if there are any.\<close>

fun commitSettings :: "nat \<Rightarrow> string \<times> string \<Rightarrow> (string \<times> string) list \<Rightarrow> string \<times> string" where
  "commitSettings hashLen r [] = r"
| "commitSettings hashLen (h, ts) ((k, v) # ss) =
     (if k = ''vcs.revision'' then
        (let hashLen = (if length v < hashLen then length v else hashLen) in commitSettings hashLen (take hashLen v, ts) ss)
      else if k = ''vcs.time'' then commitSettings hashLen (h, v) ss
      else commitSettings hashLen (h, ts) ss)"

definition CommitInfo :: "(string \<times> string) list option \<Rightarrow> string \<times> string" where
  "CommitInfo info = (case info of None \<Rightarrow> (''unknown'', ''unknown'') | Some ss \<Rightarrow> commitSettings 7 (''unknown'', ''unknown'') ss)"

definition version_RPC :: "string \<Rightarrow> (string \<times> string) list option \<Rightarrow> string" where
  "version_RPC version info =
     (case CommitInfo info of (commit, ts) \<Rightarrow> ''version: '' @ version @ '', commit: '' @ commit @ '', timestamp: '' @ ts @ '' '')"

definition CommandVersion :: "string \<Rightarrow> (string \<times> string) list option \<Rightarrow> string" where
  "CommandVersion version info =
     (let v = (if version = [] then ''main'' else version); nl = [CHR 0x0A] in
      case CommitInfo info of (commit, ts) \<Rightarrow>
        ''Version:       '' @ v @ nl @ ''Git Commit:    '' @ commit @ nl @ ''Git Timestamp: '' @ ts @ nl)"

section \<open>Floats\<close>

text \<open>\<^verbatim>\<open>float64(height)\<close>: 53 bits of precision, rounded to the nearest, ties to even.\<close>

fun ulpExp :: "nat \<Rightarrow> nat" where
  "ulpExp n = (if n < 2 ^ 53 then 0 else Suc (ulpExp (n div 2)))"

declare ulpExp.simps [simp del]

definition roundAt :: "nat \<Rightarrow> nat \<Rightarrow> nat" where
  "roundAt k n =
     (let q = n div 2 ^ k; r = n mod 2 ^ k in
      if 2 * r > 2 ^ k \<or> 2 * r = 2 ^ k \<and> odd q then Suc q * 2 ^ k else q * 2 ^ k)"

definition float64 :: "u64 \<Rightarrow> nat" where
  "float64 h = roundAt (ulpExp (unat h)) (unat h)"

section \<open>State\<close>

record FpMetrics =
  fm_versionInfo :: "string \<times> string \<times> string \<rightharpoonup> nat"
  fm_babylonTipHeight :: nat
  fm_lastPolledHeight :: nat
  fm_pollerStartingHeight :: nat
  fm_fpStatus :: "string \<rightharpoonup> nat"
  fm_fpSecondsSinceLastVote :: "string \<rightharpoonup> int"
  fm_fpSecondsSinceLastRandomness :: "string \<rightharpoonup> int"
  fm_fpLastVotedHeight :: "string \<rightharpoonup> nat"
  fm_fpVotedHeight :: "string \<times> string \<rightharpoonup> int"
  fm_fpLastProcessedHeight :: "string \<rightharpoonup> nat"
  fm_fpLastCommittedRandomnessHeight :: "string \<rightharpoonup> nat"
  fm_fpTotalBlocksWithoutVotingPower :: "string \<rightharpoonup> nat"
  fm_fpTotalVotedBlocks :: "string \<rightharpoonup> nat"
  fm_fpTotalCommittedRandomness :: "string \<rightharpoonup> nat"
  fm_fpTotalFailedVotes :: "string \<rightharpoonup> nat"
  fm_fpTotalFailedRandomness :: "string \<rightharpoonup> nat"
  fm_previousVoteByFp :: "(string \<rightharpoonup> int) option"
  fm_previousRandomnessByFp :: "(string \<rightharpoonup> int) option"

definition zeroFpMetrics :: FpMetrics where
  "zeroFpMetrics = \<lparr>fm_versionInfo = Map.empty, fm_babylonTipHeight = 0, fm_lastPolledHeight = 0, fm_pollerStartingHeight = 0, fm_fpStatus = Map.empty,
     fm_fpSecondsSinceLastVote = Map.empty, fm_fpSecondsSinceLastRandomness = Map.empty, fm_fpLastVotedHeight = Map.empty,
     fm_fpVotedHeight = Map.empty, fm_fpLastProcessedHeight = Map.empty, fm_fpLastCommittedRandomnessHeight = Map.empty,
     fm_fpTotalBlocksWithoutVotingPower = Map.empty, fm_fpTotalVotedBlocks = Map.empty, fm_fpTotalCommittedRandomness = Map.empty,
     fm_fpTotalFailedVotes = Map.empty, fm_fpTotalFailedRandomness = Map.empty, fm_previousVoteByFp = None, fm_previousRandomnessByFp = None\<rparr>"

record EotsMetrics =
  el_EotsCreatedKeysCounter :: nat
  el_EotsFpTotalGeneratedRandomnessCounter :: "string \<rightharpoonup> nat"
  el_EotsFpLastGeneratedRandomnessHeight :: "string \<rightharpoonup> nat"
  el_EotsFpTotalEotsSignCounter :: "string \<rightharpoonup> nat"
  el_EotsFpLastEotsSignHeight :: "string \<rightharpoonup> nat"
  el_EotsFpTotalSchnorrSignCounter :: "string \<rightharpoonup> nat"

definition zeroEotsMetrics :: EotsMetrics where
  "zeroEotsMetrics = \<lparr>el_EotsCreatedKeysCounter = 0, el_EotsFpTotalGeneratedRandomnessCounter = Map.empty, el_EotsFpLastGeneratedRandomnessHeight = Map.empty,
     el_EotsFpTotalEotsSignCounter = Map.empty, el_EotsFpLastEotsSignHeight = Map.empty, el_EotsFpTotalSchnorrSignCounter = Map.empty\<rparr>"

text \<open>The variables of the package, with the default registry.\<close>

record metrics_pkg =
  mp_registered :: "string list"
  mp_fpOnce :: bool
  mp_fp :: "FpMetrics option"
  mp_eotsOnce :: bool
  mp_eots :: "EotsMetrics option"

section \<open>Creation\<close>

text \<open>Registering a name twice panics. A function run once counts as run even when it panics.\<close>

fun MustRegister :: "string list \<Rightarrow> (string list, unit) cmd" where
  "MustRegister [] reg = (Ok (), reg)"
| "MustRegister (n # ns) reg =
     (if n \<in> set reg then (Crash ''duplicate metrics collector registration attempted'', reg) else MustRegister ns (reg @ [n]))"

definition fpMetricNames :: "string list" where
  "fpMetricNames = [''fp_version_info'', ''fp_status'', ''babylon_tip_height'', ''last_polled_height'', ''poller_starting_height'',
     ''fp_seconds_since_last_vote'', ''fp_seconds_since_last_randomness'', ''fp_last_voted_height'', ''fp_last_processed_height'',
     ''fp_total_blocks_without_voting_power'', ''fp_total_voted_blocks'', ''fp_total_committed_randomness'',
     ''fp_last_committed_randomness_height'', ''fp_total_failed_votes'', ''fp_total_failed_randomness'']"

definition eotsMetricNames :: "string list" where
  "eotsMetricNames = [''eots_created_keys_counter'', ''eots_fp_total_generated_randomness_counter'', ''eots_fp_last_generated_randomness_height'',
     ''eots_fp_total_eots_sign_counter'', ''eots_fp_last_eots_sign_height'', ''eots_fp_total_schnorr_sign_counter'']"

definition NewFpMetrics :: "string \<Rightarrow> (string \<times> string) list option \<Rightarrow> (metrics_pkg, FpMetrics option) cmd" where
  "NewFpMetrics version info p =
     (if mp_fpOnce p then (Ok (mp_fp p), p)
      else
        (let p = p\<lparr>mp_fpOnce := True, mp_fp := Some zeroFpMetrics\<rparr> in
         case MustRegister fpMetricNames (mp_registered p) of
           (Ok _, reg) \<Rightarrow>
             (let fm = (case CommitInfo info of (commit, timestamp) \<Rightarrow> zeroFpMetrics\<lparr>fm_versionInfo := [(version, commit, timestamp) \<mapsto> 1]\<rparr>) in
              (Ok (Some fm), p\<lparr>mp_registered := reg, mp_fp := Some fm\<rparr>))
         | (Err e, reg) \<Rightarrow> (Err e, p\<lparr>mp_registered := reg\<rparr>)
         | (Crash c, reg) \<Rightarrow> (Crash c, p\<lparr>mp_registered := reg\<rparr>)))"

definition NewEotsMetrics :: "(metrics_pkg, EotsMetrics option) cmd" where
  "NewEotsMetrics p =
     (if mp_eotsOnce p then (Ok (mp_eots p), p)
      else
        (let p = p\<lparr>mp_eotsOnce := True, mp_eots := Some zeroEotsMetrics\<rparr> in
         case MustRegister eotsMetricNames (mp_registered p) of
           (Ok _, reg) \<Rightarrow> (Ok (Some zeroEotsMetrics), p\<lparr>mp_registered := reg\<rparr>)
         | (Err e, reg) \<Rightarrow> (Err e, p\<lparr>mp_registered := reg\<rparr>)
         | (Crash c, reg) \<Rightarrow> (Crash c, p\<lparr>mp_registered := reg\<rparr>)))"

section \<open>Recording\<close>

text \<open>Naming a label creates its metric with the value 0. A counter only grows: adding a negative number panics. Counters are kept as whole
  numbers, which they are: every operation adds one or a number of items.\<close>

definition withLabel :: "'k \<Rightarrow> ('k \<rightharpoonup> nat) \<Rightarrow> 'k \<rightharpoonup> nat" where
  "withLabel k m = (case m k of None \<Rightarrow> m(k \<mapsto> 0) | Some _ \<Rightarrow> m)"

definition Inc :: "'k \<Rightarrow> ('k \<rightharpoonup> nat) \<Rightarrow> 'k \<rightharpoonup> nat" where
  "Inc k m = (withLabel k m)(k \<mapsto> Suc (the (withLabel k m k)))"

definition Add :: "'k \<Rightarrow> int \<Rightarrow> ('k \<rightharpoonup> nat) \<Rightarrow> ('k \<rightharpoonup> nat) go" where
  "Add k num m = (if num < 0 then Crash ''counter cannot decrease in value'' else Ok ((withLabel k m)(k \<mapsto> the (withLabel k m k) + nat num)))"

fun statusNumber :: "FinalityProviderStatus \<Rightarrow> nat" where
  "statusNumber REGISTERED = 0"
| "statusNumber ACTIVE = 1"
| "statusNumber INACTIVE = 2"
| "statusNumber SLASHED = 3"
| "statusNumber JAILED = 4"

definition InitializeFpMetrics :: "string \<Rightarrow> FpMetrics \<Rightarrow> FpMetrics" where
  "InitializeFpMetrics pk fm = fm\<lparr>fm_fpSecondsSinceLastVote := (fm_fpSecondsSinceLastVote fm)(pk \<mapsto> 0),
     fm_fpSecondsSinceLastRandomness := (fm_fpSecondsSinceLastRandomness fm)(pk \<mapsto> 0),
     fm_fpTotalFailedVotes := withLabel pk (fm_fpTotalFailedVotes fm), fm_fpTotalFailedRandomness := withLabel pk (fm_fpTotalFailedRandomness fm)\<rparr>"

definition RecordFpStatus :: "string \<Rightarrow> FinalityProviderStatus \<Rightarrow> FpMetrics \<Rightarrow> FpMetrics" where
  "RecordFpStatus pk status fm = fm\<lparr>fm_fpStatus := (fm_fpStatus fm)(pk \<mapsto> statusNumber status)\<rparr>"

definition RecordBabylonTipHeight :: "u64 \<Rightarrow> FpMetrics \<Rightarrow> FpMetrics" where
  "RecordBabylonTipHeight height fm = fm\<lparr>fm_babylonTipHeight := float64 height\<rparr>"

definition RecordLastPolledHeight :: "u64 \<Rightarrow> FpMetrics \<Rightarrow> FpMetrics" where
  "RecordLastPolledHeight height fm = fm\<lparr>fm_lastPolledHeight := float64 height\<rparr>"

definition RecordPollerStartingHeight :: "u64 \<Rightarrow> FpMetrics \<Rightarrow> FpMetrics" where
  "RecordPollerStartingHeight height fm = fm\<lparr>fm_pollerStartingHeight := float64 height\<rparr>"

definition RecordFpSecondsSinceLastVote :: "string \<Rightarrow> int \<Rightarrow> FpMetrics \<Rightarrow> FpMetrics" where
  "RecordFpSecondsSinceLastVote pk d fm = fm\<lparr>fm_fpSecondsSinceLastVote := (fm_fpSecondsSinceLastVote fm)(pk \<mapsto> d)\<rparr>"

definition RecordFpSecondsSinceLastRandomness :: "string \<Rightarrow> int \<Rightarrow> FpMetrics \<Rightarrow> FpMetrics" where
  "RecordFpSecondsSinceLastRandomness pk d fm = fm\<lparr>fm_fpSecondsSinceLastRandomness := (fm_fpSecondsSinceLastRandomness fm)(pk \<mapsto> d)\<rparr>"

definition RecordFpLastVotedHeight :: "string \<Rightarrow> u64 \<Rightarrow> FpMetrics \<Rightarrow> FpMetrics" where
  "RecordFpLastVotedHeight pk height fm = fm\<lparr>fm_fpLastVotedHeight := (fm_fpLastVotedHeight fm)(pk \<mapsto> float64 height)\<rparr>"

definition RecordFpVotedHeight :: "int \<Rightarrow> string \<Rightarrow> u64 \<Rightarrow> FpMetrics \<Rightarrow> FpMetrics" where
  "RecordFpVotedHeight now pk height fm = fm\<lparr>fm_fpVotedHeight := (fm_fpVotedHeight fm)((pk, fmt_u64 height) \<mapsto> now)\<rparr>"

definition RecordFpLastProcessedHeight :: "string \<Rightarrow> u64 \<Rightarrow> FpMetrics \<Rightarrow> FpMetrics" where
  "RecordFpLastProcessedHeight pk height fm = fm\<lparr>fm_fpLastProcessedHeight := (fm_fpLastProcessedHeight fm)(pk \<mapsto> float64 height)\<rparr>"

definition RecordFpLastCommittedRandomnessHeight :: "string \<Rightarrow> u64 \<Rightarrow> FpMetrics \<Rightarrow> FpMetrics" where
  "RecordFpLastCommittedRandomnessHeight pk height fm =
     fm\<lparr>fm_fpLastCommittedRandomnessHeight := (fm_fpLastCommittedRandomnessHeight fm)(pk \<mapsto> float64 height)\<rparr>"

definition IncrementFpTotalBlocksWithoutVotingPower :: "string \<Rightarrow> FpMetrics \<Rightarrow> FpMetrics" where
  "IncrementFpTotalBlocksWithoutVotingPower pk fm = fm\<lparr>fm_fpTotalBlocksWithoutVotingPower := Inc pk (fm_fpTotalBlocksWithoutVotingPower fm)\<rparr>"

definition IncrementFpTotalVotedBlocks :: "string \<Rightarrow> FpMetrics \<Rightarrow> FpMetrics" where
  "IncrementFpTotalVotedBlocks pk fm = fm\<lparr>fm_fpTotalVotedBlocks := Inc pk (fm_fpTotalVotedBlocks fm)\<rparr>"

definition AddToFpTotalVotedBlocks :: "string \<Rightarrow> int \<Rightarrow> (FpMetrics, unit) cmd" where
  "AddToFpTotalVotedBlocks pk num fm =
     (case Add pk num (fm_fpTotalVotedBlocks fm) of Ok m \<Rightarrow> (Ok (), fm\<lparr>fm_fpTotalVotedBlocks := m\<rparr>) | Err e \<Rightarrow> (Err e, fm) | Crash c \<Rightarrow> (Crash c, fm))"

definition AddToFpTotalCommittedRandomness :: "string \<Rightarrow> int \<Rightarrow> (FpMetrics, unit) cmd" where
  "AddToFpTotalCommittedRandomness pk num fm =
     (case Add pk num (fm_fpTotalCommittedRandomness fm) of
        Ok m \<Rightarrow> (Ok (), fm\<lparr>fm_fpTotalCommittedRandomness := m\<rparr>) | Err e \<Rightarrow> (Err e, fm) | Crash c \<Rightarrow> (Crash c, fm))"

definition IncrementFpTotalFailedVotes :: "string \<Rightarrow> FpMetrics \<Rightarrow> FpMetrics" where
  "IncrementFpTotalFailedVotes pk fm = fm\<lparr>fm_fpTotalFailedVotes := Inc pk (fm_fpTotalFailedVotes fm)\<rparr>"

definition IncrementFpTotalFailedRandomness :: "string \<Rightarrow> FpMetrics \<Rightarrow> FpMetrics" where
  "IncrementFpTotalFailedRandomness pk fm = fm\<lparr>fm_fpTotalFailedRandomness := Inc pk (fm_fpTotalFailedRandomness fm)\<rparr>"

text \<open>Times are nanoseconds of the clock. The map of times is made at the first record.\<close>

definition recordTime :: "string \<Rightarrow> int \<Rightarrow> (string \<rightharpoonup> int) option \<Rightarrow> (string \<rightharpoonup> int) option" where
  "recordTime pk now m = Some ((case m of None \<Rightarrow> Map.empty | Some m \<Rightarrow> m)(pk \<mapsto> now))"

definition RecordFpVoteTime :: "int \<Rightarrow> string \<Rightarrow> FpMetrics \<Rightarrow> FpMetrics" where
  "RecordFpVoteTime now pk fm = fm\<lparr>fm_previousVoteByFp := recordTime pk now (fm_previousVoteByFp fm)\<rparr>"

definition RecordFpRandomnessTime :: "int \<Rightarrow> string \<Rightarrow> FpMetrics \<Rightarrow> FpMetrics" where
  "RecordFpRandomnessTime now pk fm = fm\<lparr>fm_previousRandomnessByFp := recordTime pk now (fm_previousRandomnessByFp fm)\<rparr>"

text \<open>\<^verbatim>\<open>time.Since\<close> is a duration of 64 bits, which saturates. \<open>hex\<close> is \<^verbatim>\<open>GetBIP340BTCPK().MarshalHex()\<close>.\<close>

definition since :: "int \<Rightarrow> int \<Rightarrow> int" where
  "since now t = max (- (2 ^ 63)) (min (2 ^ 63 - 1) (now - t))"

definition previous :: "string \<Rightarrow> (string \<rightharpoonup> int) option \<Rightarrow> int option" where
  "previous pk m = (case m of None \<Rightarrow> None | Some m \<Rightarrow> m pk)"

definition UpdateFpMetrics :: "('pk \<Rightarrow> string) \<Rightarrow> int \<Rightarrow> ('pk, 'ds, 'dc) StoredFinalityProvider \<Rightarrow> FpMetrics \<Rightarrow> FpMetrics" where
  "UpdateFpMetrics hex now fp fm =
     (let pk = hex (sf_BtcPk fp);
          fm = RecordFpStatus pk (sf_Status fp) fm;
          fm = (case previous pk (fm_previousVoteByFp fm) of None \<Rightarrow> fm | Some t \<Rightarrow> RecordFpSecondsSinceLastVote pk (since now t) fm) in
      case previous pk (fm_previousRandomnessByFp fm) of None \<Rightarrow> fm | Some t \<Rightarrow> RecordFpSecondsSinceLastRandomness pk (since now t) fm)"

section \<open>The manager's metrics\<close>

definition IncrementEotsCreatedKeysCounter :: "EotsMetrics \<Rightarrow> EotsMetrics" where
  "IncrementEotsCreatedKeysCounter em = em\<lparr>el_EotsCreatedKeysCounter := Suc (el_EotsCreatedKeysCounter em)\<rparr>"

definition IncrementEotsFpTotalGeneratedRandomnessCounter :: "string \<Rightarrow> EotsMetrics \<Rightarrow> EotsMetrics" where
  "IncrementEotsFpTotalGeneratedRandomnessCounter pk em =
     em\<lparr>el_EotsFpTotalGeneratedRandomnessCounter := Inc pk (el_EotsFpTotalGeneratedRandomnessCounter em)\<rparr>"

definition SetEotsFpLastGeneratedRandomnessHeight :: "string \<Rightarrow> nat \<Rightarrow> EotsMetrics \<Rightarrow> EotsMetrics" where
  "SetEotsFpLastGeneratedRandomnessHeight pk height em =
     em\<lparr>el_EotsFpLastGeneratedRandomnessHeight := (el_EotsFpLastGeneratedRandomnessHeight em)(pk \<mapsto> height)\<rparr>"

definition IncrementEotsFpTotalEotsSignCounter :: "string \<Rightarrow> EotsMetrics \<Rightarrow> EotsMetrics" where
  "IncrementEotsFpTotalEotsSignCounter pk em = em\<lparr>el_EotsFpTotalEotsSignCounter := Inc pk (el_EotsFpTotalEotsSignCounter em)\<rparr>"

definition SetEotsFpLastEotsSignHeight :: "string \<Rightarrow> nat \<Rightarrow> EotsMetrics \<Rightarrow> EotsMetrics" where
  "SetEotsFpLastEotsSignHeight pk height em = em\<lparr>el_EotsFpLastEotsSignHeight := (el_EotsFpLastEotsSignHeight em)(pk \<mapsto> height)\<rparr>"

definition IncrementEotsFpTotalSchnorrSignCounter :: "string \<Rightarrow> EotsMetrics \<Rightarrow> EotsMetrics" where
  "IncrementEotsFpTotalSchnorrSignCounter pk em = em\<lparr>el_EotsFpTotalSchnorrSignCounter := Inc pk (el_EotsFpTotalSchnorrSignCounter em)\<rparr>"

section \<open>What the daemon records\<close>

text \<open>After a vote is stored.\<close>

definition recordVote :: "int \<Rightarrow> string \<Rightarrow> u64 \<Rightarrow> FpMetrics \<Rightarrow> FpMetrics" where
  "recordVote now pk height fm = RecordFpLastProcessedHeight pk height (RecordFpLastVotedHeight pk height (RecordFpVoteTime now pk fm))"

text \<open>The setter of the last voted height with its metrics, when the state has any: recorded only once the height is stored.\<close>

definition metered_SetLastVotedHeight ::
  "('pk, 'ds, 'dc) fp_ext \<Rightarrow> ('pk \<Rightarrow> string) \<Rightarrow> dbfault \<Rightarrow> int \<Rightarrow> u64 \<Rightarrow> (('pk, 'ds, 'dc) FpState \<times> FpMetrics option, unit) cmd" where
  "metered_SetLastVotedHeight x hex flt now height s =
     (case SetLastVotedHeight x flt height (fst s) of
        (Ok _, fps) \<Rightarrow>
          (let pk = hex (sf_BtcPk (fps_sfp fps)) in
           (Ok (), (fps, map_option (recordVote now pk height) (snd s))))
      | (Err e, fps) \<Rightarrow> (Err e, (fps, snd s))
      | (Crash c, fps) \<Rightarrow> (Crash c, (fps, snd s)))"

text \<open>After a commitment was sent, and after votes were sent.\<close>

definition recordCommit :: "int \<Rightarrow> string \<Rightarrow> u64 \<Rightarrow> u64 \<Rightarrow> nat \<Rightarrow> (FpMetrics, unit) cmd" where
  "recordCommit now pk startHeight numPubRand n fm =
     (let fm = RecordFpRandomnessTime now pk fm;
          fm = RecordFpLastCommittedRandomnessHeight pk (startHeight + numPubRand - 1) fm in
      case AddToFpTotalCommittedRandomness pk (int n) fm of
        (Ok _, fm) \<Rightarrow> (Ok (), RecordFpLastCommittedRandomnessHeight pk (startHeight + numPubRand - 1) fm)
      | (Err e, fm) \<Rightarrow> (Err e, fm)
      | (Crash c, fm) \<Rightarrow> (Crash c, fm))"

definition recordVotedBlocks :: "(nat \<Rightarrow> int) \<Rightarrow> string \<Rightarrow> BlockInfo list \<Rightarrow> FpMetrics \<Rightarrow> FpMetrics" where
  "recordVotedBlocks clock pk blocks fm =
     fold (\<lambda>(i, b). RecordFpVotedHeight (clock i) pk (bi_height b)) (List.enumerate 0 blocks) fm"

text \<open>One tick of the loop that updates the metrics; the record of the running instance is never nil.\<close>

definition metricsUpdateLoop ::
  "(bytes \<Rightarrow> string) \<Rightarrow> ('pk \<Rightarrow> string) \<Rightarrow> int \<Rightarrow> ('s, 'c, 'b, 'pk, 'dc) FinalityProviderApp \<Rightarrow> FpMetrics \<Rightarrow> FpMetrics" where
  "metricsUpdateLoop marshalHex hex now app fm =
     (case ap_fpIns app of
        None \<Rightarrow> fm
      | Some ins \<Rightarrow> UpdateFpMetrics hex now (fps_sfp (fi_fpState ins)) (InitializeFpMetrics (marshalHex (fi_btcPk ins)) fm))"

section \<open>Floats are exact where heights are\<close>

lemma ulpExp_bound: "n < 2 ^ (53 + m) \<Longrightarrow> ulpExp n \<le> m"
proof (induction m arbitrary: n)
  case (Suc m)
  then have "n < 2 * 2 ^ (53 + m)" by (simp add: power_add)
  then have "n div 2 < 2 ^ (53 + m)" by linarith
  then show ?case using Suc.IH [of "n div 2"] by (simp add: ulpExp.simps [of n])
next
  case 0
  then show ?case by (simp add: ulpExp.simps [of n])
qed

lemma roundAt_error: "\<bar>int (roundAt k n) - int n\<bar> * 2 \<le> 2 ^ k"
proof -
  obtain p :: nat where p: "p = 2 ^ k" by simp
  define q r where "q = n div p" and "r = n mod p"
  have n: "n = q * p + r" and r: "r < p" unfolding q_def r_def by (simp_all add: div_mult_mod_eq p)
  have "roundAt k n = (if 2 * r > p \<or> 2 * r = p \<and> odd q then Suc q * p else q * p)"
    unfolding roundAt_def Let_def q_def r_def p by (rule refl)
  then have "roundAt k n = q * p + p \<and> 2 * r \<ge> p \<or> roundAt k n = q * p \<and> 2 * r \<le> p"
    by (simp split: if_splits)
  moreover obtain qp where qp: "qp = q * p" by simp
  ultimately have "\<bar>int (roundAt k n) - int n\<bar> * 2 \<le> int p" using n r unfolding qp [symmetric] by (elim disjE conjE) (auto simp: abs_if)
  then show ?thesis by (simp add: p)
qed

lemma float64_exact: "h \<le> 2 ^ 53 \<Longrightarrow> float64 h = unat h"
proof -
  assume "h \<le> 2 ^ 53"
  then have le: "unat h \<le> 2 ^ 53" by (simp add: word_le_nat_alt)
  show ?thesis
  proof (cases "unat h = 2 ^ 53")
    case True
    have "ulpExp (2 ^ 53) = 1" by (simp add: ulpExp.simps [of 9007199254740992] ulpExp.simps [of 4503599627370496])
    with True show ?thesis by (simp add: float64_def roundAt_def)
  next
    case False
    with le have "ulpExp (unat h) = 0" by (simp add: ulpExp.simps [of "unat h"])
    then show ?thesis by (simp add: float64_def roundAt_def)
  qed
qed

lemma float64_error: "\<bar>int (float64 h) - int (unat h)\<bar> \<le> 1024"
proof -
  have "unat h < 2 ^ (53 + 11)" using unsigned_less [of h] by simp
  from ulpExp_bound [OF this] have "(2::int) ^ ulpExp (unat h) \<le> 2 ^ 11" by (intro power_increasing) auto
  with roundAt_error [of "ulpExp (unat h)" "unat h"] show ?thesis by (simp add: float64_def)
qed

section \<open>Registration\<close>

lemma MustRegister_Ok: "distinct ns \<Longrightarrow> set ns \<inter> set reg = {} \<Longrightarrow> MustRegister ns reg = (Ok (), reg @ ns)"
  by (induction ns arbitrary: reg) auto

lemma MustRegister_grows: "MustRegister ns reg = (r, reg') \<Longrightarrow> set reg \<subseteq> set reg' \<and> set reg' \<subseteq> set reg \<union> set ns"
proof (induction ns arbitrary: reg)
  case (Cons a ns)
  then show ?case using Cons.IH [of "reg @ [a]"] by (auto split: if_splits)
qed simp

lemma NewFpMetrics_once:
  assumes "NewFpMetrics version info p = (r, p')"
  shows "NewFpMetrics version info p' = (Ok (mp_fp p'), p')"
  using assms by (auto simp: NewFpMetrics_def Let_def split: if_splits prod.splits go.splits)

lemma fpMetricNames_register: "MustRegister fpMetricNames [] = (Ok (), fpMetricNames)"
proof -
  have "distinct fpMetricNames" by (simp add: fpMetricNames_def)
  then show ?thesis by (simp add: MustRegister_Ok)
qed

lemma NewFpMetrics_fresh:
  assumes "mp_registered p = []" "\<not> mp_fpOnce p" "NewFpMetrics version info p = (Ok (Some fm), p')"
  shows "fm_fpTotalVotedBlocks fm = Map.empty" "fm_fpVotedHeight fm = Map.empty" "mp_registered p' = fpMetricNames"
  using assms unfolding NewFpMetrics_def Let_def by (cases "CommitInfo info"; auto simp: fpMetricNames_register zeroFpMetrics_def)+

text \<open>Neither daemon panics at registration, not even when both run in one process.\<close>

lemma metrics_register:
  assumes "mp_registered p = []" and "\<not> mp_fpOnce p" and "\<not> mp_eotsOnce p"
  shows "\<exists>fm p' p''. NewFpMetrics version info p = (Ok (Some fm), p') \<and> NewEotsMetrics p' = (Ok (Some zeroEotsMetrics), p'') \<and>
    mp_registered p'' = fpMetricNames @ eotsMetricNames"
proof -
  have "distinct eotsMetricNames" "set eotsMetricNames \<inter> set fpMetricNames = {}"
    by (simp_all add: fpMetricNames_def eotsMetricNames_def)
  then have "MustRegister eotsMetricNames fpMetricNames = (Ok (), fpMetricNames @ eotsMetricNames)"
    by (simp_all add: MustRegister_Ok)
  then show ?thesis using assms fpMetricNames_register unfolding NewFpMetrics_def NewEotsMetrics_def Let_def by (cases "CommitInfo info") simp
qed

section \<open>Histories of the metrics\<close>

text \<open>Whatever records a metric of the finality provider: one constructor per place of the daemon that records, and the two methods on the counter of
  voted blocks, which nothing calls.\<close>

datatype metric_op =
    MStatus string FinalityProviderStatus
  | MTip u64
  | MPolled u64
  | MPollerStart u64
  | MVote int string u64
  | MCommit int string u64 u64 nat
  | MVotedBlocks "nat \<Rightarrow> int" string "BlockInfo list"
  | MVotedBlock string
  | MVotedNumber string int
  | MNoPower string
  | MFailedVote string
  | MFailedRandomness string
  | MUpdate int string FinalityProviderStatus

text \<open>An update of a provider known by its label.\<close>

definition labelled :: "string \<Rightarrow> FinalityProviderStatus \<Rightarrow> (string, unit, unit) StoredFinalityProvider" where
  "labelled pk status = \<lparr>sf_FPAddr = [], sf_BtcPk = pk, sf_Description = (), sf_Commission = (), sf_ChainID = [], sf_LastVotedHeight = 0,
     sf_Status = status, sf_CommissionInfo = None\<rparr>"

fun run_op :: "metric_op \<Rightarrow> FpMetrics \<Rightarrow> FpMetrics" where
  "run_op (MStatus pk st) fm = RecordFpStatus pk st fm"
| "run_op (MTip h) fm = RecordBabylonTipHeight h fm"
| "run_op (MPolled h) fm = RecordLastPolledHeight h fm"
| "run_op (MPollerStart h) fm = RecordPollerStartingHeight h fm"
| "run_op (MVote now pk h) fm = recordVote now pk h fm"
| "run_op (MCommit now pk start num n) fm = snd (recordCommit now pk start num n fm)"
| "run_op (MVotedBlocks clock pk bs) fm = recordVotedBlocks clock pk bs fm"
| "run_op (MVotedBlock pk) fm = IncrementFpTotalVotedBlocks pk fm"
| "run_op (MVotedNumber pk num) fm = snd (AddToFpTotalVotedBlocks pk num fm)"
| "run_op (MNoPower pk) fm = IncrementFpTotalBlocksWithoutVotingPower pk fm"
| "run_op (MFailedVote pk) fm = IncrementFpTotalFailedVotes pk fm"
| "run_op (MFailedRandomness pk) fm = IncrementFpTotalFailedRandomness pk fm"
| "run_op (MUpdate now pk st) fm = UpdateFpMetrics (\<lambda>k. k) now (labelled pk st) (InitializeFpMetrics pk fm)"

text \<open>The operations are those of the code: the setter records \<open>MVote\<close> exactly when the height is stored, and a tick of the loop is \<open>MUpdate\<close>.\<close>

lemma metered_is_vote:
  assumes "metered_SetLastVotedHeight x hex flt now h (fps, Some fm) = (r, (fps', fm'))"
  shows "SetLastVotedHeight x flt h fps = (r, fps') \<and>
    fm' = Some (if r = Ok () then run_op (MVote now (hex (sf_BtcPk (fps_sfp fps'))) h) fm else fm)"
  using assms by (auto simp: metered_SetLastVotedHeight_def recordVote_def Let_def split: prod.splits go.splits)

lemma loop_is_update:
  assumes "ap_fpIns app = Some ins" and "marshalHex (fi_btcPk ins) = hex (sf_BtcPk (fps_sfp (fi_fpState ins)))"
  shows "metricsUpdateLoop marshalHex hex now app fm = run_op (MUpdate now (marshalHex (fi_btcPk ins)) (sf_Status (fps_sfp (fi_fpState ins)))) fm"
  using assms by (simp add: metricsUpdateLoop_def UpdateFpMetrics_def labelled_def)

lemmas record_defs = RecordFpStatus_def RecordBabylonTipHeight_def RecordLastPolledHeight_def RecordPollerStartingHeight_def
  RecordFpSecondsSinceLastVote_def RecordFpSecondsSinceLastRandomness_def RecordFpLastVotedHeight_def RecordFpVotedHeight_def
  RecordFpLastProcessedHeight_def RecordFpLastCommittedRandomnessHeight_def IncrementFpTotalBlocksWithoutVotingPower_def
  IncrementFpTotalVotedBlocks_def AddToFpTotalVotedBlocks_def IncrementFpTotalFailedVotes_def IncrementFpTotalFailedRandomness_def RecordFpVoteTime_def RecordFpRandomnessTime_def
  AddToFpTotalCommittedRandomness_def InitializeFpMetrics_def recordVote_def recordCommit_def Add_def

lemma recordVotedBlocks_eq:
  "\<exists>m. recordVotedBlocks clock pk bs fm = fm\<lparr>fm_fpVotedHeight := m\<rparr> \<and> dom m = dom (fm_fpVotedHeight fm) \<union> (\<lambda>b. (pk, fmt_u64 (bi_height b))) ` set bs"
proof -
  have "\<exists>m. fold (\<lambda>(i, b). RecordFpVotedHeight (clock i) pk (bi_height b)) (List.enumerate k bs) fm = fm\<lparr>fm_fpVotedHeight := m\<rparr> \<and>
      dom m = dom (fm_fpVotedHeight fm) \<union> (\<lambda>b. (pk, fmt_u64 (bi_height b))) ` set bs" for k
  proof (induction bs arbitrary: k fm)
    case (Cons b bs)
    have one: "(RecordFpVotedHeight t pk h fm)\<lparr>fm_fpVotedHeight := m\<rparr> = fm\<lparr>fm_fpVotedHeight := m\<rparr>"
      "dom (fm_fpVotedHeight (RecordFpVotedHeight t pk h fm)) = insert (pk, fmt_u64 h) (dom (fm_fpVotedHeight fm))" for t h m
      by (auto simp: RecordFpVotedHeight_def)
    obtain m where "fold (\<lambda>(i, b). RecordFpVotedHeight (clock i) pk (bi_height b)) (List.enumerate (Suc k) bs) (RecordFpVotedHeight (clock k) pk (bi_height b) fm) =
        (RecordFpVotedHeight (clock k) pk (bi_height b) fm)\<lparr>fm_fpVotedHeight := m\<rparr>"
      "dom m = dom (fm_fpVotedHeight (RecordFpVotedHeight (clock k) pk (bi_height b) fm)) \<union> (\<lambda>b. (pk, fmt_u64 (bi_height b))) ` set bs"
      using Cons.IH by blast
    then show ?case by (intro exI [of _ m]) (simp add: one)
  next
    case Nil
    show ?case by (rule exI [of _ "fm_fpVotedHeight fm"]) simp
  qed
  then show ?thesis unfolding recordVotedBlocks_def .
qed

text \<open>What one operation does to the record of the last vote, to the counters and to the heights voted for.\<close>

lemma run_op_vote:
  assumes "\<forall>now h. a \<noteq> MVote now pk h"
  shows "previous pk (fm_previousVoteByFp (run_op a fm)) = previous pk (fm_previousVoteByFp fm) \<and> fm_fpLastVotedHeight (run_op a fm) pk = fm_fpLastVotedHeight fm pk"
proof (cases a)
  case (MVotedBlocks clock k bs)
  then show ?thesis using recordVotedBlocks_eq [of clock k bs fm] by auto
qed (use assms in \<open>auto simp: record_defs UpdateFpMetrics_def labelled_def Let_def recordTime_def previous_def split: option.splits\<close>)

definition counters :: "FpMetrics \<Rightarrow> (string \<rightharpoonup> nat) list" where
  "counters fm = [fm_fpTotalBlocksWithoutVotingPower fm, fm_fpTotalVotedBlocks fm, fm_fpTotalCommittedRandomness fm, fm_fpTotalFailedVotes fm,
     fm_fpTotalFailedRandomness fm]"

definition grown :: "(string \<rightharpoonup> nat) \<Rightarrow> (string \<rightharpoonup> nat) \<Rightarrow> bool" where
  "grown m m' \<longleftrightarrow> (\<forall>k v. m k = Some v \<longrightarrow> (\<exists>w \<ge> v. m' k = Some w))"

lemma grown_refl [simp]: "grown m m" by (auto simp: grown_def)

lemma grown_trans: "grown a b \<Longrightarrow> grown b c \<Longrightarrow> grown a c" unfolding grown_def by (meson le_trans)

lemma grown_label [simp]: "grown m (withLabel l m)" "grown m (Inc l m)"
  "grown m ((withLabel l m)(l \<mapsto> the (withLabel l m l) + n))"
  by (auto simp: grown_def withLabel_def Inc_def split: option.splits)

lemma run_op_counters: "list_all2 grown (counters fm) (counters (run_op a fm))"
proof (cases a)
  case (MVotedBlocks clock k bs)
  then show ?thesis using recordVotedBlocks_eq [of clock k bs fm] by (auto simp: counters_def)
qed (auto simp: counters_def record_defs UpdateFpMetrics_def labelled_def Let_def split: option.splits)

text \<open>The metrics show the last stored vote: whatever the daemon records after it, as long as it stores no other vote of the provider, the next
  update shows its height, which is exact up to \<open>2 ^ 53\<close>, the time passed since it and the current status.\<close>

theorem vote_is_shown:
  assumes "\<forall>now h'. MVote now pk h' \<notin> set ops"
    and "fm' = fold run_op (MVote t pk h # ops @ [MUpdate now pk st]) fm"
  shows "fm_fpLastVotedHeight fm' pk = Some (float64 h) \<and> (h \<le> 2 ^ 53 \<longrightarrow> float64 h = unat h) \<and>
    fm_fpSecondsSinceLastVote fm' pk = Some (since now t) \<and> fm_fpStatus fm' pk = Some (statusNumber st)"
proof -
  have keep: "\<forall>now h'. MVote now pk h' \<notin> set ops \<Longrightarrow> previous pk (fm_previousVoteByFp (fold run_op ops f)) = previous pk (fm_previousVoteByFp f) \<and>
      fm_fpLastVotedHeight (fold run_op ops f) pk = fm_fpLastVotedHeight f pk" for ops f
  proof (induction ops arbitrary: f)
    case (Cons a ops)
    then have "\<forall>now h. a \<noteq> MVote now pk h" "\<forall>now h'. MVote now pk h' \<notin> set ops" by auto
    from run_op_vote [OF this(1), of f] Cons.IH [OF this(2), of "run_op a f"] show ?case by simp
  qed simp
  define g where "g = fold run_op ops (run_op (MVote t pk h) fm)"
  have g: "previous pk (fm_previousVoteByFp g) = Some t" "fm_fpLastVotedHeight g pk = Some (float64 h)"
    using keep [OF assms(1), of "run_op (MVote t pk h) fm"] unfolding g_def by (simp_all add: record_defs recordTime_def previous_def)
  have "fm' = run_op (MUpdate now pk st) g" using assms(2) by (simp add: g_def)
  then show ?thesis using g float64_exact [of h]
    by (auto simp: record_defs UpdateFpMetrics_def labelled_def Let_def split: option.splits)
qed

theorem vote_is_shown_witness:
  "fm_fpLastVotedHeight (fold run_op [MVote 0 ''pk'' 7, MTip 9, MVote 3 ''other'' 8, MUpdate 2000000000 ''pk'' ACTIVE] zeroFpMetrics) ''pk'' = Some 7"
  using vote_is_shown [of "''pk''" "[MTip 9, MVote 3 ''other'' 8]" _ 0 7 2000000000 ACTIVE zeroFpMetrics, OF _ refl] by simp

text \<open>Counters never decrease.\<close>

lemma counters_never_decrease: "list_all2 grown (counters fm) (counters (fold run_op ops fm))"
proof (induction ops arbitrary: fm)
  case Nil
  show ?case by (simp add: list_all2_refl)
next
  case (Cons a ops)
  show ?case using list_all2_trans [OF grown_trans run_op_counters [of fm a] Cons.IH [of "run_op a fm"]] by simp
qed

text \<open>An update sets the gauges of seconds to zero before it sets them: a scrape in between reads that the provider has just voted.\<close>

lemma update_passes_zero:
  "fm_fpSecondsSinceLastVote (InitializeFpMetrics pk fm) pk = Some 0"
  "previous pk (fm_previousVoteByFp fm) = Some t \<Longrightarrow> fm_fpSecondsSinceLastVote (run_op (MUpdate now pk st) fm) pk = Some (since now t)"
  by (auto simp: record_defs UpdateFpMetrics_def labelled_def Let_def previous_def split: option.splits)

text \<open>The commit shown is at most seven characters of the revision.\<close>

lemma CommitInfo_short: "length (fst (CommitInfo info)) \<le> 7"
proof -
  have "l \<le> 7 \<Longrightarrow> length (fst r) \<le> 7 \<Longrightarrow> length (fst (commitSettings l r ss)) \<le> 7" for l r ss
    by (induction l r ss rule: commitSettings.induct) (auto simp: Let_def)
  then show ?thesis by (simp add: CommitInfo_def split: option.splits)
qed

end
