(* ===== verification/Chain_Keyring.thy ===== *)
theory Chain_Keyring
  imports FP_Daemon
begin

text \<open>
  The keyring controller (\<^verbatim>\<open>keyring/keyringcontroller.go\<close>, \<^verbatim>\<open>types/chainkey.go\<close>): the account of the chain in a keyring of the SDK. The keyring
  and the mnemonic library are fields of \<open>chain_ext\<close>; the keyring itself is the state. The functions the daemon uses at registration are
  with the daemon.
\<close>

section \<open>Data\<close>

text \<open>The cached private key of a local record: a key of the SDK's secp256k1 type with its bytes, or one of another type.\<close>

datatype sdk_key = SdkSecp256k1 bytes | SdkOther bytes

record ('kr, 'al, 'rec, 'sc, 'sk, 'pk) chain_ext =
  cke_New :: "string \<Rightarrow> string \<Rightarrow> string \<Rightarrow> 'kr go"
  cke_SupportedAlgorithms :: "'kr \<Rightarrow> 'al list"
  cke_NewSigningAlgoFromString :: "string \<Rightarrow> 'al list \<Rightarrow> 'al go"
  cke_NewEntropy :: "nat \<Rightarrow> bytes go"
  cke_NewMnemonic :: "bytes \<Rightarrow> string go"
  cke_NewAccount :: "string \<Rightarrow> string \<Rightarrow> string \<Rightarrow> string \<Rightarrow> 'al \<Rightarrow> ('kr, 'rec) cmd"
  cke_GetLocal :: "'rec \<Rightarrow> sdk_key option"
  cke_GetAddress :: "'rec \<Rightarrow> bytes go"
  cke_SetByteSlice :: "bytes \<Rightarrow> 'sc \<times> bool"
  cke_IsZero :: "'sc \<Rightarrow> bool"
  cke_PrivKeyFromBytes :: "bytes \<Rightarrow> 'sk \<times> 'pk"
  cke_NewPoPBTC :: "bytes \<Rightarrow> 'sk \<Rightarrow> bytes go"

record ('sk, 'pk) ChainKeyInfo =
  cki_Name :: string
  cki_Mnemonic :: string
  cki_AccAddress :: bytes
  cki_PublicKey :: 'pk
  cki_PrivateKey :: 'sk

record 'kr ChainKeyringController =
  ckc_kr :: 'kr
  ckc_fpName :: string

section \<open>Operations\<close>

definition NewChainKeyringController ::
  "('kr, 'al, 'rec, 'sc, 'sk, 'pk) chain_ext \<Rightarrow> client_context \<Rightarrow> string \<Rightarrow> string \<Rightarrow> 'kr ChainKeyringController go" where
  "NewChainKeyringController x ctx name keyringBackend =
     (if name = [] then Err (ErrText ''the key name should not be empty'')
      else if keyringBackend = [] then Err (ErrText ''the keyring backend should not be empty'')
      else rbind (wrap ''failed to create keyring: '' (cke_New x (cx_ChainID ctx) keyringBackend (cx_KeyringDir ctx))) (\<lambda>kr.
        Ok \<lparr>ckc_kr = kr, ckc_fpName = name\<rparr>))"

definition mnemonicEntropySize :: nat where
  "mnemonicEntropySize = 256"

definition chainMnemonic :: "('kr, 'al, 'rec, 'sc, 'sk, 'pk) chain_ext \<Rightarrow> string \<Rightarrow> string go" where
  "chainMnemonic x mnemonic =
     (if mnemonic \<noteq> [] then Ok mnemonic
      else rbind (wrap ''failed to generate entropy: '' (cke_NewEntropy x mnemonicEntropySize)) (\<lambda>entropySeed.
        wrap ''failed to generate mnemonic: '' (cke_NewMnemonic x entropySeed)))"

definition chainKeyInfo ::
  "('kr, 'al, 'rec, 'sc, 'sk, 'pk) chain_ext \<Rightarrow> string \<Rightarrow> string \<Rightarrow> 'rec \<Rightarrow> ('sk, 'pk) ChainKeyInfo go" where
  "chainKeyInfo x fpName mnemonic rec =
     rbind (deref (cke_GetLocal x rec)) (\<lambda>privKey.
     rbind (wrap ''failed to get address from record: '' (cke_GetAddress x rec)) (\<lambda>accAddress.
     case privKey of
       SdkOther _ \<Rightarrow> Err (ErrText ''unsupported key type in keyring'')
     | SdkSecp256k1 key \<Rightarrow>
         rbind (wrap ''invalid private key: '' (ValidatePrivKeyBytes (cke_SetByteSlice x) (cke_IsZero x) key)) (\<lambda>_.
         case cke_PrivKeyFromBytes x key of (sk, pk) \<Rightarrow>
           Ok \<lparr>cki_Name = fpName, cki_Mnemonic = mnemonic, cki_AccAddress = accAddress, cki_PublicKey = pk, cki_PrivateKey = sk\<rparr>)))"

definition CreateChainKey ::
  "('kr, 'al, 'rec, 'sc, 'sk, 'pk) chain_ext \<Rightarrow> string \<Rightarrow> string \<Rightarrow> string \<Rightarrow> ('kr ChainKeyringController, ('sk, 'pk) ChainKeyInfo) cmd" where
  "CreateChainKey x passphrase hdPath mnemonic kc =
     (case rbind (wrap ''failed to create signing algorithm: '' (cke_NewSigningAlgoFromString x ''secp256k1'' (cke_SupportedAlgorithms x (ckc_kr kc)))) (\<lambda>algo.
           rbind (chainMnemonic x mnemonic) (\<lambda>mnemonic. Ok (algo, mnemonic))) of
        Err e \<Rightarrow> (Err e, kc)
      | Crash c \<Rightarrow> (Crash c, kc)
      | Ok (algo, mnemonic) \<Rightarrow>
          (case cke_NewAccount x (ckc_fpName kc) mnemonic passphrase hdPath algo (ckc_kr kc) of (r, kr) \<Rightarrow>
             (rbind (wrap ''failed to create new account: '' r) (chainKeyInfo x (ckc_fpName kc) mnemonic), kc\<lparr>ckc_kr := kr\<rparr>)))"

text \<open>The first argument, a chain identifier, is not used.\<close>

definition ckc_CreatePop :: "('kr, 'al, 'rec, 'sc, 'sk, 'pk) chain_ext \<Rightarrow> string \<Rightarrow> bytes \<Rightarrow> 'sk \<Rightarrow> bytes go" where
  "ckc_CreatePop x _ fpAddr btcPrivKey = wrap ''failed to create proof of possession: '' (cke_NewPoPBTC x fpAddr btcPrivKey)"

section \<open>Properties\<close>

lemma chainKeyInfo_Ok:
  assumes "chainKeyInfo x name mn rec = Ok info"
  shows "\<exists>key. cke_GetLocal x rec = Some (SdkSecp256k1 key) \<and> cke_GetAddress x rec = Ok (cki_AccAddress info) \<and>
    ValidatePrivKeyBytes (cke_SetByteSlice x) (cke_IsZero x) key = Ok () \<and> cke_PrivKeyFromBytes x key = (cki_PrivateKey info, cki_PublicKey info) \<and>
    cki_Mnemonic info = mn \<and> cki_Name info = name"
proof -
  obtain k where k: "cke_GetLocal x rec = Some k" using assms by (auto simp: chainKeyInfo_def go_simps)
  then show ?thesis using assms by (cases k) (auto simp: chainKeyInfo_def go_simps split_beta)
qed

text \<open>A success returns the account that is now in the keyring under the controller's name: its mnemonic is the one given or a fresh one, and its key
  is a valid key of the curve.\<close>

lemma CreateChainKey_created:
  assumes "CreateChainKey x pass path m kc = (Ok info, kc')"
  shows "\<exists>algo kr rec key. kc' = kc\<lparr>ckc_kr := kr\<rparr> \<and> cke_NewAccount x (ckc_fpName kc) (cki_Mnemonic info) pass path algo (ckc_kr kc) = (Ok rec, kr) \<and>
    chainMnemonic x m = Ok (cki_Mnemonic info) \<and> (m \<noteq> [] \<longrightarrow> cki_Mnemonic info = m) \<and> cki_Name info = ckc_fpName kc \<and>
    cke_GetLocal x rec = Some (SdkSecp256k1 key) \<and> cke_GetAddress x rec = Ok (cki_AccAddress info) \<and>
    cke_PrivKeyFromBytes x key = (cki_PrivateKey info, cki_PublicKey info) \<and>
    \<not> snd (cke_SetByteSlice x key) \<and> \<not> cke_IsZero x (fst (cke_SetByteSlice x key))"
proof -
  obtain algo mn where a: "cke_NewSigningAlgoFromString x ''secp256k1'' (cke_SupportedAlgorithms x (ckc_kr kc)) = Ok algo" "chainMnemonic x m = Ok mn"
    using assms by (auto simp: CreateChainKey_def go_simps split: go.splits)
  obtain r kr where n: "cke_NewAccount x (ckc_fpName kc) mn pass path algo (ckc_kr kc) = (r, kr)" by fastforce
  have "rbind (wrap ''failed to create new account: '' r) (chainKeyInfo x (ckc_fpName kc) mn) = Ok info" and kc': "kc' = kc\<lparr>ckc_kr := kr\<rparr>"
    using assms a n by (simp_all add: CreateChainKey_def)
  then obtain rec key where r: "r = Ok rec" "cke_GetLocal x rec = Some (SdkSecp256k1 key)" "cke_GetAddress x rec = Ok (cki_AccAddress info)"
      "ValidatePrivKeyBytes (cke_SetByteSlice x) (cke_IsZero x) key = Ok ()" "cke_PrivKeyFromBytes x key = (cki_PrivateKey info, cki_PublicKey info)"
      "cki_Mnemonic info = mn" "cki_Name info = ckc_fpName kc"
    by (auto simp: go_simps dest!: chainKeyInfo_Ok)
  have "m \<noteq> [] \<longrightarrow> mn = m" using a(2) by (auto simp: chainMnemonic_def)
  moreover have "\<not> snd (cke_SetByteSlice x key) \<and> \<not> cke_IsZero x (fst (cke_SetByteSlice x key))"
    using r(4) by (auto simp: ValidatePrivKeyBytes_def split: prod.splits if_splits)
  ultimately show ?thesis using a n r kc' by (intro exI [of _ algo] exI [of _ kr] exI [of _ rec] exI [of _ key]) simp
qed

text \<open>Up to the creation of the account nothing is stored; a failure after it leaves the account in the keyring.\<close>

lemma CreateChainKey_failed:
  assumes "CreateChainKey x pass path m kc = (Err e, kc')"
  shows "kc' = kc \<or> (\<exists>algo mn. kc' = kc\<lparr>ckc_kr := snd (cke_NewAccount x (ckc_fpName kc) mn pass path algo (ckc_kr kc))\<rparr>)"
  using assms by (auto simp: CreateChainKey_def split: go.splits prod.splits) (metis snd_conv)

end
