(* ===== verification/Spec2Isabelle.thy ===== *)
theory Spec2Isabelle
  imports Babylon_Staking Pop_Commands FPD_Client FPD_Tools FP_Helpers Eots_Keys Client_Ctx FP_Metrics Chain_Keyring
begin

text \<open>
  A verification development for the Babylon finality provider: two daemons with their tools. \<^verbatim>\<open>eotsd\<close>
  (\<^verbatim>\<open>src/eotsmanager\<close>) holds the keys and makes extractable one-time signatures; two of them for one height and
  different messages give the private key away. \<^verbatim>\<open>fpd\<close> (\<^verbatim>\<open>src/finality-provider\<close>) follows the chain, commits public
  randomness in advance and votes for each block by asking \<^verbatim>\<open>eotsd\<close> for a signature and sending it to Babylon
  through \<^verbatim>\<open>src/clientcontroller\<close>.

  \<^bold>\<open>Foundations.\<close> \<open>FP_Prelude\<close>: bytes, machine integers as words, errors with \<^verbatim>\<open>errors.Is\<close> and the error text,
  outcomes \<open>Ok | Err | Crash\<close> (a panic, or blocking for ever), state-passing commands, and the locale \<open>ledger\<close> for
  write-once records over traces. \<open>Big_Endian\<close>: the height encoding and its contract. \<open>KV_Backend\<close>: buckets and
  transactions of the database, whose failures are arguments. \<open>FP_Util\<close>: \<^verbatim>\<open>util\<close> and \<^verbatim>\<open>types/blockinfo.go\<close>.

  \<^bold>\<open>The EOTS manager.\<close> \<open>Eots_Store\<close> (\<^verbatim>\<open>eotsmanager/store\<close>), \<open>Eots_Manager\<close> (\<^verbatim>\<open>localmanager.go\<close>, \<^verbatim>\<open>randgenerator\<close>),
  \<open>Eots_Safety\<close> and \<open>Eots_Claims\<close>: no sequence of calls, failures and restarts releases signatures on two messages for
  one height; batch signing is single signing; randomness is the committed one. \<open>Eots_Rpc\<close> (\<^verbatim>\<open>service\<close>, \<^verbatim>\<open>client\<close>,
  \<^verbatim>\<open>config\<close>) carries this over to sequences of requests and treats their authentication. \<open>Eots_Service\<close>: the
  interface \<^verbatim>\<open>EOTSManager\<close> as a locale, which the local manager satisfies. \<open>Eots_Pop\<close>, \<open>Pop_Commands\<close> and \<open>Eots_Tools\<close>: the
  proof-of-possession, key-name and rollback commands of \<^verbatim>\<open>cmd/eotsd\<close>; \<open>Eots_Keys\<close> (\<^verbatim>\<open>keysadd.go\<close>, \<^verbatim>\<open>keys.go\<close>): adding,
  showing and listing keys.

  \<^bold>\<open>Stores and clients of fpd.\<close> \<open>FP_Store\<close> and \<open>PubRand_Store\<close> (\<^verbatim>\<open>finality-provider/store\<close> with the adapters in
  \<^verbatim>\<open>service\<close>): content as maps, each operation as an update of the map. \<open>Consumer_Client\<close>, \<open>Babylon_Client\<close> and \<open>Babylon_Staking\<close>
  (\<^verbatim>\<open>clientcontroller/babylon\<close>): which messages are sent, in at most how many attempts, and what paging collects.

  \<^bold>\<open>The running provider.\<close> \<open>Service_Base\<close> (retries, \<^verbatim>\<open>api/interface.go\<close>), \<open>Start_Height\<close> (\<^verbatim>\<open>bootstrap.go\<close>),
  \<open>Chain_Poller\<close>, \<open>Finality_Submitter\<close>, \<open>Rand_Committer\<close>, \<open>FP_Instance\<close> and \<open>FP_App\<close> follow the files of
  \<^verbatim>\<open>finality-provider/service\<close>; \<open>Test_Vote\<close> and \<open>Rand_Recovery\<close> have the operations by hand (\<^verbatim>\<open>fp_test_helper.go\<close>,
  \<^verbatim>\<open>cmd/fpd/daemon\<close>), with \<open>FP_Helpers\<close> for batches of votes and \<^verbatim>\<open>benchmark_helper.go\<close> and \<open>FPD_Tools\<close> for the two commands from
  the home directory on; \<open>FP_Config\<close> has the configuration. A struct is a record with the source's fields, a method a
  definition with the source's name; the instance holds the states of the services it drives, and lenses
  such as \<open>on_submitter\<close> run a service on its part.

  \<^bold>\<open>The processes and their commands.\<close> \<open>FP_Paths\<close>, \<open>DB_Config\<close> and \<open>FP_Files\<close>: paths, database settings, files, loggers and
  the \<^verbatim>\<open>init\<close> commands (\<^verbatim>\<open>util/path.go\<close>, \<^verbatim>\<open>log\<close>, \<^verbatim>\<open>config/db.go\<close>), whose output the daemons can load. \<open>FP_Daemon\<close>
  (\<^verbatim>\<open>cmd/fpd/daemon/start.go\<close>, the constructors, \<^verbatim>\<open>service/server.go\<close>) is a run of \<^verbatim>\<open>fpd\<close> from its home directory to the end
  of its server, \<open>Eots_Server\<close> one of \<^verbatim>\<open>eotsd\<close> together with its \<^verbatim>\<open>unlock\<close> and \<^verbatim>\<open>backup\<close> commands through client, interceptors
  and handler. \<open>FPD_Client\<close> (\<^verbatim>\<open>service/client\<close>, \<^verbatim>\<open>cmd/fpd/common\<close>, \<^verbatim>\<open>create_fp.go\<close>) has the commands that send requests to the
  daemon. What happens while a server runs is a list of commands of its state, and every hypothesis on them is that they are
  steps of the daemon. \<open>Client_Ctx\<close> (\<^verbatim>\<open>main.go\<close>, \<^verbatim>\<open>clientctx/cmd.go\<close>): the context of signals on its way from \<^verbatim>\<open>main\<close> to the waiting
  daemon. \<open>Chain_Keyring\<close> (\<^verbatim>\<open>keyring\<close>): the account of the chain. \<open>FP_Metrics\<close> (\<^verbatim>\<open>metrics\<close>, \<^verbatim>\<open>version\<close>): gauges, counters and the loop that
  updates them. \<open>Go_Strings\<close>: hexadecimal and decimal texts of Go's library.

  \<^bold>\<open>What is shown of the whole.\<close> \<open>Voting_Safety\<close> and \<open>Instance_Behaviour\<close>: in every sequence of ticks, starts,
  stops, votes by hand with protection, other uses of the manager and restarts, the votes sent for one height agree;
  every block the poller delivers is processed once and in order; a jailed provider stays silent. \<open>App_Behaviour\<close>
  and \<open>App_Invariant\<close>: a slashed provider is not started again, registration and unjailing are guarded, and every
  operation of the daemon keeps its database and its instance well formed. \<open>Rand_Recovery\<close>: recovery restores
  every proof; committing by hand covers its range. \<open>FP_Config\<close>: a validated configuration excludes the
  wrap-around at the start. \<open>Eots_Server\<close>: a run of \<^verbatim>\<open>eotsd\<close> forgets no signature, so the protection lasts across
  restarts. \<open>FP_Daemon\<close>: a run of \<^verbatim>\<open>fpd\<close> keeps every provider under its key and leaves a database the next run starts on, and which provider it works for.
  \<open>FPD_Client\<close>: a command is the daemon's operation on the provider it names, and registration by command is registration.
  \<open>FPD_Tools\<close>: the commands that commit and recover randomness reach what the operations by hand promise. \<open>Client_Ctx\<close>: a signal
  ends \<^verbatim>\<open>eotsd\<close> and not \<^verbatim>\<open>fpd\<close>. \<open>Eots_Keys\<close>: an override that fails after the deletion loses the key. \<open>Pop_Commands\<close>: the file
  an export writes is accepted by the validation. \<open>FP_Metrics\<close>: the last vote is shown with its height and
  age, and counters never decrease.

  \<^bold>\<open>Concurrency.\<close> A goroutine is the sequence of its iterations and an interleaving is an order of steps
  (\<open>eots_step\<close>, \<open>manager_call\<close>, \<open>rpc_step\<close>, \<open>voting_step\<close>, \<open>instance_step\<close>, \<open>app_step\<close>). Operations under a mutex are single steps.
  A channel is the list of what it holds.

  \<^bold>\<open>Loops.\<close> Loops over lists are structural recursion. \<open>getBatchBlocksFromPoller\<close> has a termination proof. Loops that
  may run for ever are partial functions with the value \<open>None\<close>: \<open>sampleLoop\<close>, \<open>submitLoop\<close>, \<open>commitLoop\<close>, \<open>fpPages\<close>
  and \<open>commitFrom\<close>; that submission, sampling and committing by hand return is proved. The retry helper makes the
  number of attempts the source configures.

  \<^bold>\<open>Parameters.\<close> Curve arithmetic, signatures, hashes, Merkle trees, protobuf, the SDK keyring, the Babylon client library
  and the chain are fields of the \<open>_ext\<close> and environment records. What is relied on is in the locales \<open>be_codec\<close>,
  \<open>store_codec\<close>, \<open>eots_codec\<close>, \<open>fp_codec\<close> and \<open>pr_codec\<close>, interpreted on concrete functions, or in named hypotheses.

  \<^bold>\<open>Not modelled.\<close> The declaration of commands and flags, most printing; sockets and the metrics server; generated protobuf code; the lock of
  \<^verbatim>\<open>sdksync.go\<close>, active in tests only; test infrastructure. Outside the metrics, time appears only as the order of events. The
  components record their metrics in \<open>FP_Metrics\<close> only, since no decision depends on them.
\<close>

end
